(* ===== verification/Prelude.thy ===== *)
theory Prelude
  imports Complex_Main "HOL-Library.Sublist" "HOL-Library.AList" "HOL-Library.Char_ord"
begin

text \<open>
  The vocabulary every component of the development shares: how the values of the
  TypeScript sources are represented, and the facts about them that the component
  proofs use by automation.

  \<^item> A JavaScript string is a \<^typ>\<open>string\<close>: a list of code units, each of them in the
    Latin-1 range. \<open>trim\<close>, \<open>toLowerCase\<close>, \<open>split\<close>, \<open>join\<close>, \<open>startsWith\<close> and
    \<open>includes\<close> are written out for that range.
  \<^item> An optional field or an \<open>undefined\<close> result is an \<^typ>\<open>'a option\<close>.
  \<^item> A timestamp, a duration in milliseconds, a counter is an \<^typ>\<open>int\<close>: the sources
    keep these far below \<open>2 ^ 53\<close>, where a JavaScript number is an exact integer.
  \<^item> A number that a user or a persisted file supplies may be fractional, \<open>NaN\<close> or
    infinite; it is a \<open>js_num\<close>, whose finite values are rationals.
  \<^item> A value of type \<open>unknown\<close> is a \<open>js_value\<close>.
  \<^item> A function that may throw returns \<open>string + 'a\<close>, \<open>Inl\<close> carrying the message.
\<close>

subsection \<open>Collections of facts\<close>

named_theorems string_simps \<open>evaluation and algebra of the string operations\<close>
named_theorems option_intros \<open>introduction rules for optional results\<close>
named_theorems inv_intros \<open>preservation of component invariants\<close>

type_synonym ms = int
type_synonym 'a fallible = "string + 'a"

subsection \<open>Code units and strings\<close>

definition js_code :: "char \<Rightarrow> nat" where
  "js_code c = of_char c"

text \<open>The white space that \<open>String.prototype.trim\<close> and \<open>\s\<close> know, below U+0100.\<close>

definition js_is_space :: "char \<Rightarrow> bool" where
  "js_is_space c = (let n = js_code c in (9 \<le> n \<and> n \<le> 13) \<or> n = 32 \<or> n = 160)"

definition js_is_digit :: "char \<Rightarrow> bool" where
  "js_is_digit c = (let n = js_code c in 48 \<le> n \<and> n \<le> 57)"

definition js_lower_char :: "char \<Rightarrow> char" where
  "js_lower_char c =
     (let n = js_code c in
      if (65 \<le> n \<and> n \<le> 90) \<or> (192 \<le> n \<and> n \<le> 222 \<and> n \<noteq> 215) then char_of (n + 32) else c)"

definition js_lower :: "string \<Rightarrow> string" where
  "js_lower s = map js_lower_char s"

definition js_trim_start :: "string \<Rightarrow> string" where
  "js_trim_start s = dropWhile js_is_space s"

definition js_trim_end :: "string \<Rightarrow> string" where
  "js_trim_end s = rev (dropWhile js_is_space (rev s))"

definition js_trim :: "string \<Rightarrow> string" where
  "js_trim s = js_trim_end (js_trim_start s)"

fun js_split :: "char \<Rightarrow> string \<Rightarrow> string list" where
  "js_split d [] = [[]]"
| "js_split d (c # cs) =
     (if c = d then [] # js_split d cs
      else (case js_split d cs of [] \<Rightarrow> [[c]] | p # ps \<Rightarrow> (c # p) # ps))"

fun js_join :: "string \<Rightarrow> string list \<Rightarrow> string" where
  "js_join sep [] = []"
| "js_join sep [p] = p"
| "js_join sep (p # q # ps) = p @ sep @ js_join sep (q # ps)"

text \<open>\<open>s.split(/\s+/).filter(Boolean)\<close>: the maximal runs of non-space characters.\<close>

fun js_words :: "string \<Rightarrow> string list" where
  "js_words [] = []"
| "js_words (c # cs) =
     (if js_is_space c then js_words cs
      else (case cs of
              [] \<Rightarrow> [[c]]
            | d # _ \<Rightarrow> if js_is_space d then [c] # js_words cs
                      else (case js_words cs of [] \<Rightarrow> [[c]] | w # ws \<Rightarrow> (c # w) # ws)))"

text \<open>The decimal text of a number, as a template literal prints it.\<close>

fun js_show_nat :: "nat \<Rightarrow> string" where
  "js_show_nat n =
     (if n < 10 then [char_of (48 + n)] else js_show_nat (n div 10) @ [char_of (48 + n mod 10)])"

declare js_show_nat.simps [simp del]

definition js_show_int :: "int \<Rightarrow> string" where
  "js_show_int i = (if i < 0 then ''-'' @ js_show_nat (nat (- i)) else js_show_nat (nat i))"

text \<open>Evaluation of the character functions on literals by \<open>simp\<close>.\<close>

lemma char_of_nat_bits:
  "char_of (n::nat) = Char (odd n) (odd (n div 2)) (odd (n div 4)) (odd (n div 8)) (odd (n div 16))
     (odd (n div 32)) (odd (n div 64)) (odd (n div 128))"
  by (simp add: char_of_def bit_iff_odd)

lemmas string_eval = js_trim_def js_trim_start_def js_trim_end_def js_is_space_def js_is_digit_def js_code_def
  js_lower_def js_lower_char_def char_of_nat_bits Let_def

lemma js_lower_length [simp, string_simps]: "length (js_lower s) = length s"
  by (simp add: js_lower_def)

lemma js_lower_append [simp, string_simps]: "js_lower (s @ t) = js_lower s @ js_lower t"
  by (simp add: js_lower_def)

lemma js_lower_Nil [simp, string_simps]: "js_lower [] = []"
  by (simp add: js_lower_def)

lemma js_lower_eq_Nil [simp]: "js_lower s = [] \<longleftrightarrow> s = []"
  by (simp add: js_lower_def)

lemma js_code_less [simp]: "js_code c < 256"
  by (simp add: js_code_def)

lemma js_code_char_of [simp]: "n < 256 \<Longrightarrow> js_code (char_of n) = n"
  by (simp add: js_code_def)

lemma js_lower_char_idem [simp]: "js_lower_char (js_lower_char c) = js_lower_char c"
proof -
  have "js_code c < 256" by simp
  then show ?thesis by (auto simp: js_lower_char_def Let_def)
qed

lemma js_lower_idem [simp, string_simps]: "js_lower (js_lower s) = js_lower s"
  by (simp add: js_lower_def)

lemma js_lower_char_space [simp]: "js_is_space (js_lower_char c) = js_is_space c"
proof -
  have "js_code c < 256" by simp
  then show ?thesis by (auto simp: js_lower_char_def js_is_space_def Let_def)
qed

subsection \<open>Trimming\<close>

lemma js_trim_Nil [simp, string_simps]: "js_trim [] = []"
  by (simp add: js_trim_def js_trim_start_def js_trim_end_def)

lemma js_trim_end_Cons:
  "\<not> js_is_space c \<Longrightarrow> js_trim_end (c # s) = c # js_trim_end s"
  by (simp add: js_trim_end_def dropWhile_append)

lemma js_trim_end_last: "js_trim_end s = [] \<or> \<not> js_is_space (last (js_trim_end s))"
proof -
  have "dropWhile js_is_space (rev s) = [] \<or> \<not> js_is_space (hd (dropWhile js_is_space (rev s)))"
    by (metis hd_dropWhile)
  then show ?thesis by (auto simp: js_trim_end_def last_rev)
qed

lemma js_trim_end_idem [simp, string_simps]: "js_trim_end (js_trim_end s) = js_trim_end s"
  by (simp add: js_trim_end_def dropWhile_idem)

lemma js_trim_end_hd:
  "js_trim_end s \<noteq> [] \<Longrightarrow> \<exists>rest. s = js_trim_end s @ rest"
proof -
  have "rev s = takeWhile js_is_space (rev s) @ dropWhile js_is_space (rev s)" by simp
  then have "s = rev (dropWhile js_is_space (rev s)) @ rev (takeWhile js_is_space (rev s))"
    by (metis rev_append rev_rev_ident)
  then show ?thesis unfolding js_trim_end_def by blast
qed

lemma js_trim_hd: "js_trim s \<noteq> [] \<Longrightarrow> \<not> js_is_space (hd (js_trim s))"
proof -
  assume ne: "js_trim s \<noteq> []"
  then obtain rest where r: "js_trim_start s = js_trim s @ rest"
    using js_trim_end_hd[of "js_trim_start s"] by (auto simp: js_trim_def)
  with ne have "hd (js_trim s) = hd (js_trim_start s)" and "js_trim_start s \<noteq> []" by auto
  then show ?thesis by (metis hd_dropWhile js_trim_start_def)
qed

lemma js_trim_idem [simp, string_simps]: "js_trim (js_trim s) = js_trim s"
proof (cases "js_trim s = []")
  case False
  then have "js_trim_start (js_trim s) = js_trim s"
    using js_trim_hd[OF False] by (cases "js_trim s") (simp_all add: js_trim_start_def)
  then show ?thesis by (metis js_trim_def js_trim_end_idem)
qed simp

lemma js_trim_fixed:
  "s \<noteq> [] \<Longrightarrow> \<not> js_is_space (hd s) \<Longrightarrow> \<not> js_is_space (last s) \<Longrightarrow> js_trim s = s"
proof -
  assume s: "s \<noteq> []" "\<not> js_is_space (hd s)" "\<not> js_is_space (last s)"
  then have "js_trim_start s = s" by (cases s) (simp_all add: js_trim_start_def)
  moreover have "js_trim_end s = s"
    using s by (cases s rule: rev_cases) (simp_all add: js_trim_end_def)
  ultimately show ?thesis by (simp add: js_trim_def)
qed

lemma dropWhile_map_lower:
  "dropWhile js_is_space (map js_lower_char s) = map js_lower_char (dropWhile js_is_space s)"
  by (induction s) auto

lemma js_lower_trim [string_simps]: "js_trim (js_lower s) = js_lower (js_trim s)"
  by (simp add: js_trim_def js_trim_end_def js_trim_start_def js_lower_def
      dropWhile_map_lower rev_map)

subsection \<open>Splitting and joining\<close>

lemma js_split_ne [simp]: "js_split d s \<noteq> []"
  by (cases s) (auto split: list.splits)

lemma js_join_split [string_simps]: "js_join [d] (js_split d s) = s"
proof (induction s)
  case (Cons c s)
  obtain p ps where ps: "js_split d s = p # ps" by (cases "js_split d s") auto
  with Cons show ?case by (cases ps) auto
qed simp

lemma js_split_no_sep: "p \<in> set (js_split d s) \<Longrightarrow> d \<notin> set p"
proof (induction s arbitrary: p)
  case (Cons c s)
  then show ?case by (cases "js_split d s") (auto split: if_splits)
qed simp

lemma js_split_append:
  "d \<notin> set p \<Longrightarrow> js_split d (p @ d # s) = p # js_split d s"
  by (induction p) auto

lemma js_split_single: "d \<notin> set p \<Longrightarrow> js_split d p = [p]"
  by (induction p) auto

lemma js_split_join [string_simps]:
  "ps \<noteq> [] \<Longrightarrow> \<forall>p \<in> set ps. d \<notin> set p \<Longrightarrow> js_split d (js_join [d] ps) = ps"
proof (induction ps)
  case (Cons p ps)
  then show ?case by (cases ps) (simp_all add: js_split_append js_split_single)
qed simp

subsection \<open>JavaScript numbers and unknown values\<close>

datatype js_num = Finite rat | NaN | PosInf | NegInf

definition js_int :: "int \<Rightarrow> js_num" where
  "js_int i = Finite (of_int i)"

fun js_is_finite :: "js_num \<Rightarrow> bool" where
  "js_is_finite (Finite _) = True"
| "js_is_finite _ = False"

text \<open>Doubles at or beyond \<open>2 ^ 1024 - 2 ^ 970\<close> round to infinity.\<close>

definition js_round_inf :: "rat \<Rightarrow> js_num" where
  "js_round_inf r =
     (if r \<ge> 2 ^ 1024 - 2 ^ 970 then PosInf
      else if r \<le> - (2 ^ 1024 - 2 ^ 970) then NegInf else Finite r)"

definition js_digit_value :: "char \<Rightarrow> nat" where
  "js_digit_value c =
     (let n = js_code c in
      if 48 \<le> n \<and> n \<le> 57 then n - 48
      else if 97 \<le> n \<and> n \<le> 122 then n - 87
      else if 65 \<le> n \<and> n \<le> 90 then n - 55 else 99)"

definition js_digits_value :: "nat \<Rightarrow> string \<Rightarrow> nat" where
  "js_digits_value b s = fold (\<lambda>c v. b * v + js_digit_value c) s 0"

text \<open>Printing a number and reading it back.\<close>

lemma js_is_digit_char: "k < 10 \<Longrightarrow> js_is_digit (char_of (48 + k :: nat))"
  by (simp add: js_is_digit_def)

lemma js_show_nat_digits: "list_all js_is_digit (js_show_nat n)"
  by (induction n rule: js_show_nat.induct) (subst js_show_nat.simps, simp add: js_is_digit_char)

lemma js_digits_value_show: "js_digits_value 10 (js_show_nat n) = n"
proof (induction n rule: js_show_nat.induct)
  case (1 n)
  have d: "js_digit_value (char_of (48 + k)) = k" if "k < 10" for k :: nat
    using that by (simp add: js_digit_value_def Let_def)
  show ?case
  proof (cases "n < 10")
    case True
    then show ?thesis by (subst js_show_nat.simps) (simp add: js_digits_value_def d)
  next
    case False
    with 1 show ?thesis
      by (subst js_show_nat.simps) (simp add: js_digits_value_def d)
  qed
qed

text \<open>The exponent part of a decimal literal; \<open>None\<close> is a syntax error.\<close>

definition js_exponent :: "string \<Rightarrow> int option" where
  "js_exponent s =
     (case s of [] \<Rightarrow> Some 0
      | e # r \<Rightarrow>
        if e \<noteq> CHR ''e'' \<and> e \<noteq> CHR ''E'' then None
        else let (sg, ds) = (case r of CHR ''-'' # t \<Rightarrow> (- 1, t) | CHR ''+'' # t \<Rightarrow> (1, t) | _ \<Rightarrow> (1, r))
             in if ds \<noteq> [] \<and> list_all js_is_digit ds
                then Some (sg * int (js_digits_value 10 ds)) else None)"

definition js_pow10 :: "int \<Rightarrow> rat" where
  "js_pow10 e = (if e \<ge> 0 then 10 ^ nat e else 1 / 10 ^ nat (- e))"

definition js_decimal :: "string \<Rightarrow> js_num" where
  "js_decimal s =
     (let ip = takeWhile js_is_digit s; r = dropWhile js_is_digit s;
          (fp, r') = (case r of CHR ''.'' # t \<Rightarrow> (takeWhile js_is_digit t, dropWhile js_is_digit t)
                             | _ \<Rightarrow> ([], r))
      in if ip = [] \<and> fp = [] then NaN
         else (case js_exponent r' of
                 None \<Rightarrow> NaN
               | Some e \<Rightarrow>
                 js_round_inf (of_nat (js_digits_value 10 (ip @ fp)) * js_pow10 (e - int (length fp)))))"

definition js_neg :: "js_num \<Rightarrow> js_num" where
  "js_neg x = (case x of Finite r \<Rightarrow> Finite (- r) | NaN \<Rightarrow> NaN | PosInf \<Rightarrow> NegInf | NegInf \<Rightarrow> PosInf)"

definition js_radix :: "nat \<Rightarrow> string \<Rightarrow> js_num" where
  "js_radix b ds =
     (if ds \<noteq> [] \<and> list_all (\<lambda>c. js_digit_value c < b) ds
      then js_round_inf (of_nat (js_digits_value b ds)) else NaN)"

text \<open>The conversion \<open>Number(s)\<close> of a string.\<close>

definition js_Number :: "string \<Rightarrow> js_num" where
  "js_Number s =
     (let t = js_trim s in
      if t = [] then Finite 0
      else if prefix ''0x'' (js_lower t) then js_radix 16 (drop 2 t)
      else if prefix ''0o'' (js_lower t) then js_radix 8 (drop 2 t)
      else if prefix ''0b'' (js_lower t) then js_radix 2 (drop 2 t)
      else let (neg, u) = (case t of CHR ''-'' # v \<Rightarrow> (True, v) | CHR ''+'' # v \<Rightarrow> (False, v) | _ \<Rightarrow> (False, t));
               x = (if u = ''Infinity'' then PosInf else js_decimal u)
           in if neg then js_neg x else x)"

datatype js_value =
    JUndef
  | JNull
  | JBool bool
  | JNum js_num
  | JStr string
  | JObject

definition js_typeof_number :: "js_value \<Rightarrow> bool" where
  "js_typeof_number v = (case v of JNum _ \<Rightarrow> True | _ \<Rightarrow> False)"

subsection \<open>Options and lists\<close>

text \<open>\<open>a ?? b\<close>.\<close>

definition js_or_else :: "'a option \<Rightarrow> 'a \<Rightarrow> 'a" where
  "js_or_else x d = (case x of None \<Rightarrow> d | Some v \<Rightarrow> v)"

lemma js_or_else_simps [simp]: "js_or_else None d = d" "js_or_else (Some v) d = v"
  by (simp_all add: js_or_else_def)

text \<open>\<open>a ?? b\<close> between two optional values.\<close>

definition js_alt :: "'a option \<Rightarrow> 'a option \<Rightarrow> 'a option" where
  "js_alt x y = (case x of None \<Rightarrow> y | Some v \<Rightarrow> Some v)"

lemma js_alt_simps [simp]: "js_alt None y = y" "js_alt (Some v) y = Some v" "js_alt x None = x"
  by (simp_all add: js_alt_def split: option.splits)

text \<open>A truthiness test of an optional string or number.\<close>

definition js_truthy_str :: "string option \<Rightarrow> bool" where
  "js_truthy_str s = (case s of None \<Rightarrow> False | Some t \<Rightarrow> t \<noteq> [])"

definition js_truthy_int :: "int option \<Rightarrow> bool" where
  "js_truthy_int s = (case s of None \<Rightarrow> False | Some t \<Rightarrow> t \<noteq> 0)"

text \<open>Replace the elements with a given key, in place.\<close>

lemma map_if_same [simp]: "map (\<lambda>x. if P x then x else x) xs = xs"
  by (induction xs) auto

lemma find_map_same:
  "(\<And>x. P (f x) = P x) \<Longrightarrow> List.find P (map f xs) = map_option f (List.find P xs)"
  by (induction xs) auto

lemma find_Some_set: "List.find P xs = Some x \<Longrightarrow> x \<in> set xs \<and> P x"
  by (induction xs) (auto split: if_splits)

lemma find_None_all: "List.find P xs = None \<longleftrightarrow> (\<forall>x \<in> set xs. \<not> P x)"
  by (induction xs) auto

text \<open>\<open>Array.from(new Set(xs))\<close>: the first occurrences in their order.\<close>

definition js_unique :: "'a list \<Rightarrow> 'a list" where
  "js_unique xs = rev (remdups (rev xs))"

lemma js_unique_set [simp]: "set (js_unique xs) = set xs" "distinct (js_unique xs)"
  by (simp_all add: js_unique_def)

end
