(* ===== verification/Ordered_Store.thy ===== *)
theory Ordered_Store
  imports Prelude
begin

text \<open>
  JavaScript's \<open>Map\<close> keeps its keys in the order of their first insertion: setting a
  key that is present keeps its place, a new key goes to the end, and
  \<open>map.keys().next()\<close> is the oldest one. An association list with
  \<^const>\<open>AList.update\<close> and \<^const>\<open>AList.delete\<close> is exactly that, so every \<open>Map\<close> of
  the sources is one here.

  The interfaces below are what the components rely on:
  \<^item> \<open>keyed_store\<close>: what a lookup returns after a write or a deletion;
  \<^item> \<open>ordered_store\<close>: in which order the keys of the store stand, and how many there are;
  \<^item> \<open>step_machine\<close>: an invariant that every allowed step keeps;
  \<^item> \<open>memo_cache\<close>: a cache in front of a function, transparent to its clients.
\<close>

type_synonym ('k, 'v) js_map = "('k \<times> 'v) list"

definition jm_get :: "('k, 'v) js_map \<Rightarrow> 'k \<Rightarrow> 'v option" where
  "jm_get m k = map_of m k"

definition jm_set :: "('k, 'v) js_map \<Rightarrow> 'k \<Rightarrow> 'v \<Rightarrow> ('k, 'v) js_map" where
  "jm_set m k v = AList.update k v m"

definition jm_delete :: "('k, 'v) js_map \<Rightarrow> 'k \<Rightarrow> ('k, 'v) js_map" where
  "jm_delete m k = AList.delete k m"

definition jm_keys :: "('k, 'v) js_map \<Rightarrow> 'k list" where
  "jm_keys m = map fst m"

definition jm_size :: "('k, 'v) js_map \<Rightarrow> nat" where
  "jm_size m = length m"

definition jm_wf :: "('k, 'v) js_map \<Rightarrow> bool" where
  "jm_wf m = distinct (map fst m)"

text \<open>\<open>map.keys().next()\<close> followed by \<open>map.delete\<close>: drop the oldest entry, if any.\<close>

definition jm_drop_oldest :: "('k, 'v) js_map \<Rightarrow> ('k, 'v) js_map" where
  "jm_drop_oldest m = (case m of [] \<Rightarrow> [] | (k, _) # _ \<Rightarrow> jm_delete m k)"

lemma filter_neq_id: "x \<notin> set xs \<Longrightarrow> filter (\<lambda>y. y \<noteq> x) xs = xs"
  by (induction xs) auto

lemma length_filter_neq:
  "distinct xs \<Longrightarrow> x \<in> set xs \<Longrightarrow> Suc (length (filter (\<lambda>y. y \<noteq> x) xs)) = length xs"
  by (induction xs) (auto simp: filter_neq_id)

subsection \<open>Interfaces\<close>

locale keyed_store =
  fixes get :: "'s \<Rightarrow> 'k \<Rightarrow> 'v option"
    and put :: "'s \<Rightarrow> 'k \<Rightarrow> 'v \<Rightarrow> 's"
    and del :: "'s \<Rightarrow> 'k \<Rightarrow> 's"
    and wf :: "'s \<Rightarrow> bool"
  assumes get_put: "get (put s k v) k' = (if k' = k then Some v else get s k')"
    and get_del: "get (del s k) k' = (if k' = k then None else get s k')"
    and wf_put: "wf s \<Longrightarrow> wf (put s k v)"
    and wf_del: "wf s \<Longrightarrow> wf (del s k)"
begin

lemma put_same [simp]: "get (put s k v) k = Some v"
  by (simp add: get_put)

lemma put_other: "k' \<noteq> k \<Longrightarrow> get (put s k v) k' = get s k'"
  by (simp add: get_put)

lemma del_same [simp]: "get (del s k) k = None"
  by (simp add: get_del)

lemma del_put_other: "k' \<noteq> k \<Longrightarrow> get (del (put s k v) k) k' = get s k'"
  by (simp add: get_put get_del)

text \<open>Forgetting a set of keys, as a sweep over the store does.\<close>

lemma get_fold_del: "get (fold (\<lambda>k t. del t k) ks s) k' = (if k' \<in> set ks then None else get s k')"
  by (induction ks arbitrary: s) (auto simp: get_del)

lemma wf_fold_del: "wf s \<Longrightarrow> wf (fold (\<lambda>k t. del t k) ks s)"
  by (induction ks arbitrary: s) (auto simp: wf_del)

end

locale ordered_store = keyed_store get put del wf
  for get :: "'s \<Rightarrow> 'k \<Rightarrow> 'v option"
    and put :: "'s \<Rightarrow> 'k \<Rightarrow> 'v \<Rightarrow> 's"
    and del :: "'s \<Rightarrow> 'k \<Rightarrow> 's"
    and wf :: "'s \<Rightarrow> bool" +
  fixes keys :: "'s \<Rightarrow> 'k list"
    and count :: "'s \<Rightarrow> nat"
  assumes keys_put: "keys (put s k v) = (if k \<in> set (keys s) then keys s else keys s @ [k])"
    and keys_del: "keys (del s k) = filter (\<lambda>k'. k' \<noteq> k) (keys s)"
    and keys_get: "k \<in> set (keys s) \<longleftrightarrow> get s k \<noteq> None"
    and count_keys: "count s = length (keys s)"
    and wf_distinct: "wf s \<Longrightarrow> distinct (keys s)"
begin

lemma count_put: "count (put s k v) = (if get s k = None then Suc (count s) else count s)"
  by (simp add: count_keys keys_put keys_get)

lemma count_del: "count (del s k) \<le> count s"
  by (simp add: count_keys keys_del)

lemma count_del_present: "wf s \<Longrightarrow> get s k \<noteq> None \<Longrightarrow> Suc (count (del s k)) = count s"
  using length_filter_neq [of "keys s" k] keys_get [of k s] by (simp add: count_keys keys_del wf_distinct)

end

text \<open>The events of a run are each allowed in the state they happen in.\<close>

primrec allowed_run :: "('s \<Rightarrow> 'e \<Rightarrow> 's) \<Rightarrow> ('s \<Rightarrow> 'e \<Rightarrow> bool) \<Rightarrow> 's \<Rightarrow> 'e list \<Rightarrow> bool" where
  "allowed_run step allowed s [] = True"
| "allowed_run step allowed s (e # es) = (allowed s e \<and> allowed_run step allowed (step s e) es)"

locale step_machine =
  fixes step :: "'s \<Rightarrow> 'e \<Rightarrow> 's"
    and allowed :: "'s \<Rightarrow> 'e \<Rightarrow> bool"
    and inv :: "'s \<Rightarrow> bool"
  assumes inv_step: "inv s \<Longrightarrow> allowed s e \<Longrightarrow> inv (step s e)"
begin

lemma inv_run: "inv s \<Longrightarrow> allowed_run step allowed s es \<Longrightarrow> inv (foldl step s es)"
  by (induction es arbitrary: s) (auto intro: inv_step)

text \<open>Every state along the run has the invariant, not only the last one.\<close>

lemma inv_along: "inv s \<Longrightarrow> allowed_run step allowed s (es @ fs) \<Longrightarrow> inv (foldl step s es)"
  by (induction es arbitrary: s) (auto intro: inv_step)

lemma allowed_at: "allowed_run step allowed s (es @ e # fs) \<Longrightarrow> allowed (foldl step s es) e"
  by (induction es arbitrary: s) auto

end

locale memo_cache =
  fixes compute :: "'k \<Rightarrow> 'v"
    and lookup :: "'c \<Rightarrow> 'k \<Rightarrow> 'v \<times> 'c"
    and coherent :: "'c \<Rightarrow> bool"
    and admissible :: "'k \<Rightarrow> bool"
  assumes lookup_value: "coherent c \<Longrightarrow> admissible k \<Longrightarrow> fst (lookup c k) = compute k"
    and lookup_coherent: "coherent c \<Longrightarrow> admissible k \<Longrightarrow> coherent (snd (lookup c k))"
begin

primrec lookups :: "'c \<Rightarrow> 'k list \<Rightarrow> 'v list" where
  "lookups c [] = []"
| "lookups c (k # ks) = fst (lookup c k) # lookups (snd (lookup c k)) ks"

lemma lookups_transparent:
  "coherent c \<Longrightarrow> list_all admissible ks \<Longrightarrow> lookups c ks = map compute ks"
  by (induction ks arbitrary: c) (auto simp: lookup_value lookup_coherent)

end

subsection \<open>The \<open>Map\<close> of the sources provides them\<close>

lemma filter_fst_map: "map fst (AList.delete k m) = filter (\<lambda>k'. k' \<noteq> k) (map fst m)"
  by (induction m) auto

lemma keys_update: "map fst (AList.update k v m) = (if k \<in> set (map fst m) then map fst m else map fst m @ [k])"
  by (induction m) auto

interpretation jm: ordered_store jm_get jm_set jm_delete jm_wf jm_keys jm_size
proof unfold_locales
  fix s :: "('k, 'v) js_map" and k k' v
  show "jm_get (jm_set s k v) k' = (if k' = k then Some v else jm_get s k')"
    by (simp add: jm_get_def jm_set_def update_conv')
  show "jm_get (jm_delete s k) k' = (if k' = k then None else jm_get s k')"
    by (simp add: jm_get_def jm_delete_def delete_conv')
  show "jm_wf s \<Longrightarrow> jm_wf (jm_set s k v)"
    by (simp add: jm_wf_def jm_set_def distinct_update)
  show "jm_wf s \<Longrightarrow> jm_wf (jm_delete s k)"
    by (simp add: jm_wf_def jm_delete_def filter_fst_map)
  show "jm_keys (jm_set s k v) = (if k \<in> set (jm_keys s) then jm_keys s else jm_keys s @ [k])"
    by (simp add: jm_keys_def jm_set_def keys_update)
  show "jm_keys (jm_delete s k) = filter (\<lambda>k'. k' \<noteq> k) (jm_keys s)"
    by (simp add: jm_keys_def jm_delete_def filter_fst_map)
  show "k \<in> set (jm_keys s) \<longleftrightarrow> jm_get s k \<noteq> None"
    by (simp add: jm_keys_def jm_get_def map_of_eq_None_iff)
  show "jm_size s = length (jm_keys s)"
    by (simp add: jm_size_def jm_keys_def)
  show "jm_wf s \<Longrightarrow> distinct (jm_keys s)"
    by (simp add: jm_wf_def jm_keys_def)
qed

lemmas jm_simps = jm.get_put jm.get_del jm.keys_put jm.keys_del jm.keys_get jm.count_keys

lemma jm_wf_Nil [simp]: "jm_wf []"
  by (simp add: jm_wf_def)

lemma jm_drop_oldest_wf: "jm_wf m \<Longrightarrow> jm_wf (jm_drop_oldest m)"
  by (auto simp: jm_drop_oldest_def jm.wf_del split: list.splits)

lemma jm_drop_oldest_subset: "set (jm_drop_oldest m) \<subseteq> set m"
  by (auto simp: jm_drop_oldest_def jm_delete_def AList.delete_eq split: list.splits)

lemma jm_drop_oldest_tl: "jm_wf m \<Longrightarrow> jm_drop_oldest m = tl m"
proof (cases m)
  case (Cons p rest)
  assume wf: "jm_wf m"
  obtain k v where p: "p = (k, v)" by (cases p)
  have "AList.delete k rest = rest"
    using wf Cons p by (simp add: jm_wf_def image_iff AList.delete_eq filter_id_conv) force
  then show ?thesis using Cons p
    by (simp add: jm_drop_oldest_def jm_delete_def)
qed (simp add: jm_drop_oldest_def)

lemma jm_drop_oldest_get: "jm_get (jm_drop_oldest m) k = Some v \<Longrightarrow> jm_get m k = Some v"
  by (auto simp: jm_drop_oldest_def jm.get_del split: list.splits if_splits)

lemma jm_set_mem: "(k', v') \<in> set (jm_set m k v) \<Longrightarrow> (k' = k \<and> v' = v) \<or> (k', v') \<in> set m"
  by (induction m) (auto simp: jm_set_def split: if_splits)

lemma jm_set_memD: "x \<in> set (jm_set m k v) \<Longrightarrow> x = (k, v) \<or> x \<in> set m"
  by (induction m) (auto simp: jm_set_def split: if_splits)

lemma jm_delete_mem: "(k', v') \<in> set (jm_delete m k) \<longleftrightarrow> k' \<noteq> k \<and> (k', v') \<in> set m"
  by (auto simp: jm_delete_def AList.delete_eq)

lemma jm_get_mem: "jm_get m k = Some v \<Longrightarrow> (k, v) \<in> set m"
  by (simp add: jm_get_def map_of_SomeD)

lemma jm_wf_mem_get: "jm_wf m \<Longrightarrow> (k, v) \<in> set m \<longleftrightarrow> jm_get m k = Some v"
  by (simp add: jm_wf_def jm_get_def)

subsection \<open>\<open>pruneMapToMaxSize\<close>\<close>

text \<open>
  \<open>src/infra/map-size.ts\<close>. The loop removes the oldest entry while the map is larger
  than the limit; it stops because each round makes the map smaller.
\<close>

function prune_loop :: "('k, 'v) js_map \<Rightarrow> nat \<Rightarrow> ('k, 'v) js_map" where
  "prune_loop m limit = (if jm_size m > limit then prune_loop (jm_drop_oldest m) limit else m)"
  by pat_completeness auto
termination
proof (relation "measure (\<lambda>(m, limit). jm_size m)")
  fix m :: "('k, 'v) js_map" and limit
  assume "jm_size m > limit"
  then show "((jm_drop_oldest m, limit), (m, limit)) \<in> measure (\<lambda>(m, limit). jm_size m)"
    by (cases m) (auto simp: jm_size_def jm_drop_oldest_def jm_delete_def AList.delete_eq less_Suc_eq_le)
qed simp

declare prune_loop.simps [simp del]

definition pruneMapToMaxSize :: "('k, 'v) js_map \<Rightarrow> int \<Rightarrow> ('k, 'v) js_map" where
  "pruneMapToMaxSize m maxSize =
     (let limit = max 0 maxSize in if limit \<le> 0 then [] else prune_loop m (nat limit))"

lemma prune_loop_wf: "jm_wf m \<Longrightarrow> jm_wf (prune_loop m n)"
  by (induction m n rule: prune_loop.induct) (subst prune_loop.simps, auto intro: jm_drop_oldest_wf)

lemma prune_loop_drop: "jm_wf m \<Longrightarrow> prune_loop m n = drop (length m - n) m"
proof (induction m n rule: prune_loop.induct)
  case (1 m n)
  show ?case
  proof (cases "jm_size m > n")
    case True
    then have ih: "prune_loop (jm_drop_oldest m) n = drop (length (jm_drop_oldest m) - n) (jm_drop_oldest m)"
      using "1.IH" "1.prems" jm_drop_oldest_wf by blast
    from True have "length m - n = Suc (length m - 1 - n)" by (simp add: jm_size_def)
    then have "drop (length m - n) m = drop (length m - 1 - n) (tl m)" by (simp add: drop_Suc)
    with True ih show ?thesis
      by (subst prune_loop.simps) (simp add: jm_drop_oldest_tl "1.prems")
  next
    case False
    then show ?thesis by (subst prune_loop.simps) (simp add: jm_size_def)
  qed
qed

text \<open>Pruning keeps exactly the newest entries, as many as the limit allows.\<close>

lemma prune_newest: "jm_wf m \<Longrightarrow> 0 < n \<Longrightarrow> pruneMapToMaxSize m n = drop (length m - nat n) m"
  by (simp add: pruneMapToMaxSize_def prune_loop_drop)

lemma prune_size: "jm_wf m \<Longrightarrow> jm_size (pruneMapToMaxSize m n) \<le> nat n"
proof (cases "0 < n")
  case True
  assume "jm_wf m"
  with True show ?thesis by (simp add: prune_newest jm_size_def)
qed (simp add: pruneMapToMaxSize_def jm_size_def)

lemma prune_wf: "jm_wf m \<Longrightarrow> jm_wf (pruneMapToMaxSize m n)"
  by (simp add: pruneMapToMaxSize_def prune_loop_wf)

lemma prune_mem: "jm_wf m \<Longrightarrow> x \<in> set (pruneMapToMaxSize m n) \<Longrightarrow> x \<in> set m"
proof (cases "0 < n")
  case True
  assume "jm_wf m" and "x \<in> set (pruneMapToMaxSize m n)"
  with True show ?thesis by (auto simp: prune_newest dest: in_set_dropD)
qed (simp add: pruneMapToMaxSize_def)

text \<open>Reading after a write or a removal.\<close>

lemma jm_get_set: "jm_get (jm_set m k v) k' = (if k' = k then Some v else jm_get m k')"
  by (simp add: jm_get_def jm_set_def update_conv')

lemma jm_get_delete: "jm_get (jm_delete m k) k' = (if k' = k then None else jm_get m k')"
  by (simp add: jm_get_def jm_delete_def delete_conv')

end
