(* ===== verification/String_Coerce.thy ===== *)
theory String_Coerce
  imports Ordered_Store
begin

text \<open>
  \<open>src/shared/string-coerce.ts\<close>: how the sources read optional strings out of untyped
  values. An argument of type \<open>unknown\<close> is a \<^typ>\<open>js_value\<close>; \<open>js_opt\<close> embeds an
  argument whose type is \<open>string | undefined | null\<close>.
\<close>

definition js_opt :: "string option \<Rightarrow> js_value" where
  "js_opt s = (case s of None \<Rightarrow> JUndef | Some t \<Rightarrow> JStr t)"

lemma js_opt_simps [simp]: "js_opt None = JUndef" "js_opt (Some t) = JStr t"
  by (simp_all add: js_opt_def)

definition readStringValue :: "js_value \<Rightarrow> string option" where
  "readStringValue v = (case v of JStr s \<Rightarrow> Some s | _ \<Rightarrow> None)"

definition normalizeNullableString :: "js_value \<Rightarrow> string option" where
  "normalizeNullableString v =
     (case v of JStr s \<Rightarrow> (let trimmed = js_trim s in if trimmed \<noteq> [] then Some trimmed else None)
              | _ \<Rightarrow> None)"

definition normalizeOptionalString :: "js_value \<Rightarrow> string option" where
  "normalizeOptionalString v = normalizeNullableString v"

definition normalizeOptionalLowercaseString :: "js_value \<Rightarrow> string option" where
  "normalizeOptionalLowercaseString v = map_option js_lower (normalizeOptionalString v)"

definition normalizeLowercaseStringOrEmpty :: "js_value \<Rightarrow> string" where
  "normalizeLowercaseStringOrEmpty v = js_or_else (normalizeOptionalLowercaseString v) []"

definition normalizeFastMode :: "js_value \<Rightarrow> bool option" where
  "normalizeFastMode raw =
     (case raw of
        JBool b \<Rightarrow> Some b
      | JStr s \<Rightarrow>
          (if s = [] then None
           else let key = normalizeLowercaseStringOrEmpty raw in
             if key \<in> set [''off'', ''false'', ''no'', ''0'', ''disable'', ''disabled'', ''normal'']
             then Some False
             else if key \<in> set [''on'', ''true'', ''yes'', ''1'', ''enable'', ''enabled'', ''fast'']
             then Some True
             else None)
      | _ \<Rightarrow> None)"

text \<open>A thread identifier is a string or a number; a fractional number is truncated.\<close>

datatype thread_value = ThreadStr string | ThreadNum int

definition js_trunc :: "rat \<Rightarrow> int" where
  "js_trunc r = (if r \<ge> 0 then \<lfloor>r\<rfloor> else \<lceil>r\<rceil>)"

definition normalizeOptionalThreadValue :: "js_value \<Rightarrow> thread_value option" where
  "normalizeOptionalThreadValue v =
     (case v of
        JNum (Finite r) \<Rightarrow> Some (ThreadNum (js_trunc r))
      | JNum _ \<Rightarrow> None
      | _ \<Rightarrow> map_option ThreadStr (normalizeOptionalString v))"

definition normalizeOptionalStringifiedId :: "js_value \<Rightarrow> string option" where
  "normalizeOptionalStringifiedId v =
     (case normalizeOptionalThreadValue v of
        None \<Rightarrow> None
      | Some (ThreadStr s) \<Rightarrow> Some s
      | Some (ThreadNum n) \<Rightarrow> Some (js_show_int n))"

definition hasNonEmptyString :: "js_value \<Rightarrow> bool" where
  "hasNonEmptyString v = (normalizeOptionalString v \<noteq> None)"

lemma normalizeOptionalString_Some:
  "normalizeOptionalString v = Some t \<Longrightarrow> t \<noteq> [] \<and> js_trim t = t"
  by (auto simp: normalizeOptionalString_def normalizeNullableString_def Let_def
      split: js_value.splits if_splits)

lemma normalizeOptionalString_fixed [simp]:
  "js_trim t = t \<Longrightarrow> t \<noteq> [] \<Longrightarrow> normalizeOptionalString (JStr t) = Some t"
  by (simp add: normalizeOptionalString_def normalizeNullableString_def)

lemma normalizeOptionalString_blank [simp]:
  "normalizeOptionalString JUndef = None" "normalizeOptionalString (JStr []) = None"
  "normalizeOptionalString JNull = None"
  by (simp_all add: normalizeOptionalString_def normalizeNullableString_def)

lemma normalizeLowercaseStringOrEmpty_str [simp]:
  "normalizeLowercaseStringOrEmpty (JStr s) = js_lower (js_trim s)"
  by (simp add: normalizeLowercaseStringOrEmpty_def normalizeOptionalLowercaseString_def
      normalizeOptionalString_def normalizeNullableString_def Let_def)

lemma normalizeLowercaseStringOrEmpty_undef [simp]:
  "normalizeLowercaseStringOrEmpty JUndef = []"
  by (simp add: normalizeLowercaseStringOrEmpty_def normalizeOptionalLowercaseString_def)

text \<open>Normalising twice is normalising once.\<close>

lemma normalizeOptionalString_idem:
  "normalizeOptionalString (js_opt (normalizeOptionalString v)) = normalizeOptionalString v"
  by (cases "normalizeOptionalString v") (auto dest: normalizeOptionalString_Some)

lemma normalizeLowercaseStringOrEmpty_idem [simp]:
  "normalizeLowercaseStringOrEmpty (JStr (normalizeLowercaseStringOrEmpty v)) = normalizeLowercaseStringOrEmpty v"
proof (cases "normalizeOptionalString v")
  case (Some t)
  then have "js_trim t = t" by (simp add: normalizeOptionalString_Some)
  with Some show ?thesis
    by (simp add: normalizeLowercaseStringOrEmpty_def [of v] normalizeOptionalLowercaseString_def js_lower_trim)
qed (simp add: normalizeLowercaseStringOrEmpty_def [of v] normalizeOptionalLowercaseString_def)

end
