(* ===== verification/Session_Keys.thy ===== *)
theory Session_Keys
  imports String_Coerce
begin

text \<open>
  The keys under which the gateway stores conversations, \<open>agent:<agentId>:<rest>\<close>:
  \<open>src/routing/account-id.ts\<close> (account identifiers and their caches),
  \<open>src/routing/session-key.ts\<close> (building keys) and
  \<open>src/sessions/session-key-utils.ts\<close> (parsing them).
  The module-level \<open>Map\<close> caches are passed and returned explicitly.
\<close>

subsection \<open>Identifier characters\<close>

definition id_alnum :: "char \<Rightarrow> bool" where
  "id_alnum c = (let n = js_code c in (97 \<le> n \<and> n \<le> 122) \<or> (48 \<le> n \<and> n \<le> 57))"

definition id_char :: "char \<Rightarrow> bool" where
  "id_char c = (id_alnum c \<or> c = CHR ''_'' \<or> c = CHR ''-'')"

text \<open>\<open>/^[a-z0-9][a-z0-9_-]{0,63}$/i\<close>: the flag makes A-Z count as a-z.\<close>

definition valid_id_re :: "string \<Rightarrow> bool" where
  "valid_id_re s =
     (case s of [] \<Rightarrow> False
      | c # cs \<Rightarrow> id_alnum (js_lower_char c) \<and> js_code c < 128 \<and>
                  list_all (\<lambda>d. id_char (js_lower_char d) \<and> js_code d < 128) cs \<and> length cs \<le> 63)"

text \<open>\<open>.replace(/[^a-z0-9_-]+/g, "-")\<close>: each maximal run of other characters becomes one dash.\<close>

fun collapse_invalid :: "string \<Rightarrow> string" where
  "collapse_invalid [] = []"
| "collapse_invalid (c # cs) =
     (if id_char c then c # collapse_invalid cs
      else (case cs of
              [] \<Rightarrow> ''-''
            | d # _ \<Rightarrow> if id_char d then CHR ''-'' # collapse_invalid cs else collapse_invalid cs))"

definition strip_leading_dashes :: "string \<Rightarrow> string" where
  "strip_leading_dashes s = dropWhile (\<lambda>c. c = CHR ''-'') s"

definition strip_trailing_dashes :: "string \<Rightarrow> string" where
  "strip_trailing_dashes s = rev (dropWhile (\<lambda>c. c = CHR ''-'') (rev s))"

definition sanitize_id :: "string \<Rightarrow> string" where
  "sanitize_id s = take 64 (strip_trailing_dashes (strip_leading_dashes (collapse_invalid s)))"

text \<open>The characters of an identifier after normalisation.\<close>

definition safe_id :: "string \<Rightarrow> bool" where
  "safe_id s = (s \<noteq> [] \<and> length s \<le> 64 \<and> list_all id_char s \<and> hd s \<noteq> CHR ''-'')"

lemmas id_eval = string_eval valid_id_re_def id_alnum_def id_char_def sanitize_id_def
  strip_leading_dashes_def strip_trailing_dashes_def

lemma id_char_dash [simp]: "id_char CHR ''-''"
  by (simp add: id_char_def)

lemma id_char_not_colon: "id_char c \<Longrightarrow> c \<noteq> CHR '':''"
  by (auto simp: id_char_def id_alnum_def js_code_def)

lemma id_char_not_space: "id_char c \<Longrightarrow> \<not> js_is_space c"
  by (auto simp: id_char_def id_alnum_def js_is_space_def js_code_def Let_def)

lemma id_char_lower: "id_char c \<Longrightarrow> js_lower_char c = c"
  by (auto simp: id_char_def id_alnum_def js_lower_char_def js_code_def Let_def)

lemma id_alnum_not_dash: "id_alnum c \<Longrightarrow> c \<noteq> CHR ''-''"
  by (auto simp: id_alnum_def js_code_def)

lemma id_char_code: "id_char c \<Longrightarrow> js_code c < 128"
  by (auto simp: id_char_def id_alnum_def js_code_def Let_def)

lemma collapse_invalid_chars: "list_all id_char (collapse_invalid s)"
  by (induction s rule: collapse_invalid.induct) (auto split: list.splits)

lemma collapse_invalid_id: "list_all id_char s \<Longrightarrow> collapse_invalid s = s"
  by (induction s) auto

lemma list_all_dropWhile: "list_all P s \<Longrightarrow> list_all P (dropWhile Q s)"
  by (induction s) auto

lemma list_all_take: "list_all P s \<Longrightarrow> list_all P (take n s)"
  by (auto simp: list_all_iff dest: in_set_takeD)

lemma strip_leading_chars: "list_all P s \<Longrightarrow> list_all P (strip_leading_dashes s)"
  by (simp add: strip_leading_dashes_def list_all_dropWhile)

lemma strip_trailing_chars: "list_all P s \<Longrightarrow> list_all P (strip_trailing_dashes s)"
  by (simp add: strip_trailing_dashes_def list_all_dropWhile)

lemma strip_trailing_prefix: "\<exists>r. s = strip_trailing_dashes s @ r"
proof -
  have "rev s = takeWhile (\<lambda>c. c = CHR ''-'') (rev s) @ dropWhile (\<lambda>c. c = CHR ''-'') (rev s)" by simp
  then have "s = rev (dropWhile (\<lambda>c. c = CHR ''-'') (rev s)) @ rev (takeWhile (\<lambda>c. c = CHR ''-'') (rev s))"
    by (metis rev_append rev_rev_ident)
  then show ?thesis unfolding strip_trailing_dashes_def by blast
qed

lemma sanitize_id_safe: "sanitize_id s = [] \<or> safe_id (sanitize_id s)"
proof -
  let ?l = "strip_leading_dashes (collapse_invalid s)"
  have chars: "list_all id_char (sanitize_id s)"
    unfolding sanitize_id_def
    by (intro list_all_take) (simp add: strip_leading_chars strip_trailing_chars collapse_invalid_chars)
  have hd: "hd (sanitize_id s) \<noteq> CHR ''-''" if ne: "sanitize_id s \<noteq> []"
  proof -
    from ne have ne': "strip_trailing_dashes ?l \<noteq> []" by (auto simp: sanitize_id_def)
    obtain r where r: "?l = strip_trailing_dashes ?l @ r" using strip_trailing_prefix by blast
    have "hd (sanitize_id s) = hd (strip_trailing_dashes ?l)"
      using ne' by (cases "strip_trailing_dashes ?l") (simp_all add: sanitize_id_def)
    also have "\<dots> = hd ?l" by (subst (2) r) (simp add: ne')
    finally show ?thesis
      using r ne' by (metis (mono_tags, lifting) append_is_Nil_conv hd_dropWhile strip_leading_dashes_def)
  qed
  have "length (sanitize_id s) \<le> 64" by (simp add: sanitize_id_def)
  with chars hd show ?thesis by (auto simp: safe_id_def)
qed

lemma valid_id_safe: "valid_id_re s \<Longrightarrow> safe_id (js_lower s)"
proof -
  assume v: "valid_id_re s"
  then obtain c cs where s: "s = c # cs" by (cases s) (auto simp: valid_id_re_def)
  have "id_alnum (js_lower_char c)" using v s by (simp add: valid_id_re_def)
  then have "js_lower_char c \<noteq> CHR ''-''" by (rule id_alnum_not_dash)
  moreover have "list_all id_char (js_lower s)"
    using v s by (auto simp: valid_id_re_def js_lower_def list_all_iff id_char_def)
  ultimately show ?thesis using v s by (auto simp: safe_id_def valid_id_re_def js_lower_def)
qed

lemma safe_id_facts:
  assumes "safe_id s"
  shows "s \<noteq> []" "js_trim s = s" "js_lower s = s" "CHR '':'' \<notin> set s"
proof -
  show ne: "s \<noteq> []" using assms by (simp add: safe_id_def)
  have all: "\<forall>c \<in> set s. id_char c" using assms by (simp add: safe_id_def list_all_iff)
  with ne show "js_trim s = s" by (intro js_trim_fixed) (auto intro!: id_char_not_space)
  show "js_lower s = s" using all by (simp add: js_lower_def id_char_lower map_idI)
  show "CHR '':'' \<notin> set s" using all id_char_not_colon by blast
qed

subsection \<open>Agent identifiers\<close>

definition DEFAULT_AGENT_ID :: string where
  "DEFAULT_AGENT_ID = ''main''"

definition DEFAULT_MAIN_KEY :: string where
  "DEFAULT_MAIN_KEY = ''main''"

definition normalizeAgentId :: "string option \<Rightarrow> string" where
  "normalizeAgentId v =
     (let trimmed = js_trim (js_or_else v []) in
      if trimmed = [] then DEFAULT_AGENT_ID
      else let normalized = normalizeLowercaseStringOrEmpty (JStr trimmed) in
        if valid_id_re trimmed then normalized
        else let cleaned = sanitize_id normalized in
          if cleaned \<noteq> [] then cleaned else DEFAULT_AGENT_ID)"

definition isValidAgentId :: "string option \<Rightarrow> bool" where
  "isValidAgentId v = (let trimmed = js_trim (js_or_else v []) in trimmed \<noteq> [] \<and> valid_id_re trimmed)"

definition sanitizeAgentId :: "string option \<Rightarrow> string" where
  "sanitizeAgentId v = normalizeAgentId v"

lemma main_safe [simp]: "safe_id ''main''"
  by code_simp

lemma normalizeAgentId_safe_id: "safe_id (normalizeAgentId v)"
proof -
  let ?t = "js_trim (js_or_else v [])"
  have "valid_id_re ?t \<Longrightarrow> safe_id (js_lower ?t)" by (rule valid_id_safe)
  moreover have "sanitize_id (js_lower ?t) \<noteq> [] \<Longrightarrow> safe_id (sanitize_id (js_lower ?t))"
    using sanitize_id_safe by blast
  ultimately show ?thesis
    by (simp add: normalizeAgentId_def DEFAULT_AGENT_ID_def Let_def)
qed

lemmas normalizeAgentId_facts [simp] = safe_id_facts [OF normalizeAgentId_safe_id]

lemma valid_id_of_safe:
  "safe_id s \<Longrightarrow> hd s \<noteq> CHR ''_'' \<Longrightarrow> valid_id_re s"
proof -
  assume s: "safe_id s" and u: "hd s \<noteq> CHR ''_''"
  then obtain c cs where cs: "s = c # cs" by (cases s) (auto simp: safe_id_def)
  have all: "\<forall>d \<in> set s. id_char d" using s by (simp add: safe_id_def list_all_iff)
  have "id_alnum c" using s u cs by (auto simp: safe_id_def id_char_def)
  moreover have "\<forall>d \<in> set s. js_lower_char d = d \<and> js_code d < 128"
    using all id_char_lower id_char_code by blast
  ultimately show ?thesis using s cs all by (auto simp: valid_id_re_def safe_id_def list_all_iff)
qed

lemma normalizeAgentId_safe_fixed:
  "safe_id s \<Longrightarrow> hd s \<noteq> CHR ''_'' \<Longrightarrow> normalizeAgentId (Some s) = s"
  by (simp add: normalizeAgentId_def valid_id_of_safe safe_id_facts)

subsection \<open>Parsing session keys\<close>

record parsed_key =
  pk_agentId :: string
  pk_rest :: string

definition parseAgentSessionKey :: "string option \<Rightarrow> parsed_key option" where
  "parseAgentSessionKey sessionKey =
     (case normalizeOptionalLowercaseString (js_opt sessionKey) of
        None \<Rightarrow> None
      | Some raw \<Rightarrow>
        (let parts = filter (\<lambda>p. p \<noteq> []) (js_split CHR '':'' raw) in
         if length parts < 3 then None
         else if parts ! 0 \<noteq> ''agent'' then None
         else let agentId = normalizeOptionalString (JStr (parts ! 1));
                  rest = js_join '':'' (drop 2 parts)
              in (case agentId of
                    None \<Rightarrow> None
                  | Some a \<Rightarrow> if rest = [] then None else Some \<lparr>pk_agentId = a, pk_rest = rest\<rparr>)))"

text \<open>\<open>/^cron:[^:]+:run:[^:]+$/\<close>: four segments, the second and the fourth not empty.\<close>

definition isCronRunSessionKey :: "string option \<Rightarrow> bool" where
  "isCronRunSessionKey sessionKey =
     (case parseAgentSessionKey sessionKey of
        None \<Rightarrow> False
      | Some parsed \<Rightarrow>
        (case js_split CHR '':'' (pk_rest parsed) of
           [a, b, c, d] \<Rightarrow> a = ''cron'' \<and> b \<noteq> [] \<and> c = ''run'' \<and> d \<noteq> []
         | _ \<Rightarrow> False))"

definition opt_starts_with :: "string \<Rightarrow> string option \<Rightarrow> bool" where
  "opt_starts_with p s = (case s of None \<Rightarrow> False | Some t \<Rightarrow> prefix p t)"

definition isCronSessionKey :: "string option \<Rightarrow> bool" where
  "isCronSessionKey sessionKey =
     (case parseAgentSessionKey sessionKey of
        None \<Rightarrow> False
      | Some parsed \<Rightarrow> opt_starts_with ''cron:'' (normalizeOptionalLowercaseString (JStr (pk_rest parsed))))"

definition isSubagentSessionKey :: "string option \<Rightarrow> bool" where
  "isSubagentSessionKey sessionKey =
     (case normalizeOptionalString (js_opt sessionKey) of
        None \<Rightarrow> False
      | Some raw \<Rightarrow>
        if opt_starts_with ''subagent:'' (normalizeOptionalLowercaseString (JStr raw)) then True
        else opt_starts_with ''subagent:''
               (normalizeOptionalLowercaseString (js_opt (map_option pk_rest (parseAgentSessionKey (Some raw))))))"

text \<open>\<open>raw.split(":subagent:").length - 1\<close> counts the non-overlapping occurrences.\<close>

function count_sub :: "string \<Rightarrow> string \<Rightarrow> nat" where
  "count_sub pat s =
     (if pat = [] \<or> length s < length pat then 0
      else if prefix pat s then Suc (count_sub pat (drop (length pat) s))
      else count_sub pat (tl s))"
  by pat_completeness auto
termination
proof (relation "measure (\<lambda>(pat, s). length s)")
  fix pat s :: string
  assume "\<not> (pat = [] \<or> length s < length pat)"
  then have "0 < length pat" "0 < length s" by (cases s; auto)+
  then show "((pat, drop (length pat) s), (pat, s)) \<in> measure (\<lambda>(pat, s). length s)"
    and "((pat, tl s), (pat, s)) \<in> measure (\<lambda>(pat, s). length s)" by simp_all
qed simp

declare count_sub.simps [simp del]

definition getSubagentDepth :: "string option \<Rightarrow> nat" where
  "getSubagentDepth sessionKey =
     (case normalizeOptionalLowercaseString (js_opt sessionKey) of
        None \<Rightarrow> 0 | Some raw \<Rightarrow> count_sub '':subagent:'' raw)"

definition isAcpSessionKey :: "string option \<Rightarrow> bool" where
  "isAcpSessionKey sessionKey =
     (case normalizeOptionalString (js_opt sessionKey) of
        None \<Rightarrow> False
      | Some raw \<Rightarrow>
        if prefix ''acp:'' (normalizeLowercaseStringOrEmpty (JStr raw)) then True
        else opt_starts_with ''acp:''
               (normalizeOptionalLowercaseString (js_opt (map_option pk_rest (parseAgentSessionKey (Some raw))))))"

text \<open>\<open>s.lastIndexOf(pat)\<close> for a pattern that is not empty.\<close>

fun last_index_from :: "string \<Rightarrow> string \<Rightarrow> nat \<Rightarrow> nat option" where
  "last_index_from pat [] i = None"
| "last_index_from pat (c # cs) i =
     (case last_index_from pat cs (Suc i) of
        Some j \<Rightarrow> Some j
      | None \<Rightarrow> if prefix pat (c # cs) then Some i else None)"

record thread_suffix =
  baseSessionKey :: "string option"
  ts_threadId :: "string option"

definition parseThreadSessionSuffix :: "string option \<Rightarrow> thread_suffix" where
  "parseThreadSessionSuffix sessionKey =
     (case normalizeOptionalString (js_opt sessionKey) of
        None \<Rightarrow> \<lparr>baseSessionKey = None, ts_threadId = None\<rparr>
      | Some raw \<Rightarrow>
        (let lowerRaw = normalizeLowercaseStringOrEmpty (JStr raw);
             threadMarker = '':thread:''
         in (case last_index_from threadMarker lowerRaw 0 of
               None \<Rightarrow> \<lparr>baseSessionKey = Some raw, ts_threadId = None\<rparr>
             | Some i \<Rightarrow>
               \<lparr>baseSessionKey = Some (take i raw),
                ts_threadId = normalizeOptionalString (JStr (drop (i + length threadMarker) raw))\<rparr>)))"

record conversation_ref =
  cr_channel :: string
  cr_kind :: string
  cr_rawId :: string
  cr_prefix :: string

definition parseRawSessionConversationRef :: "string option \<Rightarrow> conversation_ref option" where
  "parseRawSessionConversationRef sessionKey =
     (case normalizeOptionalString (js_opt sessionKey) of
        None \<Rightarrow> None
      | Some raw \<Rightarrow>
        (let rawParts = filter (\<lambda>p. p \<noteq> []) (js_split CHR '':'' raw);
             bodyStartIndex =
               (if length rawParts \<ge> 3 \<and>
                   normalizeOptionalLowercaseString (JStr (rawParts ! 0)) = Some ''agent'' then 2 else 0);
             parts = drop bodyStartIndex rawParts
         in if length parts < 3 then None
            else let channel = normalizeOptionalLowercaseString (JStr (parts ! 0));
                     kind = normalizeOptionalLowercaseString (JStr (parts ! 1))
                 in if channel = None \<or> (kind \<noteq> Some ''group'' \<and> kind \<noteq> Some ''channel'') then None
                    else let rawId = normalizeOptionalString (JStr (js_join '':'' (drop 2 parts)));
                             pfx = normalizeOptionalString (JStr (js_join '':'' (take (bodyStartIndex + 2) rawParts)))
                         in (case (channel, kind, rawId, pfx) of
                               (Some ch, Some k, Some r, Some p) \<Rightarrow>
                                 Some \<lparr>cr_channel = ch, cr_kind = k, cr_rawId = r, cr_prefix = p\<rparr>
                             | _ \<Rightarrow> None)))"

definition resolveThreadParentSessionKey :: "string option \<Rightarrow> string option" where
  "resolveThreadParentSessionKey sessionKey =
     (let s = parseThreadSessionSuffix sessionKey in
      case ts_threadId s of
        None \<Rightarrow> None
      | Some _ \<Rightarrow> normalizeOptionalString (js_opt (baseSessionKey s)))"


subsection \<open>Account identifiers\<close>

definition DEFAULT_ACCOUNT_ID :: string where
  "DEFAULT_ACCOUNT_ID = ''default''"

definition ACCOUNT_ID_CACHE_MAX :: nat where
  "ACCOUNT_ID_CACHE_MAX = 512"

definition isBlockedObjectKey :: "string \<Rightarrow> bool" where
  "isBlockedObjectKey key = (key \<in> set [''__proto__'', ''prototype'', ''constructor''])"

definition canonicalizeAccountId :: "string \<Rightarrow> string" where
  "canonicalizeAccountId value =
     (let normalized = normalizeLowercaseStringOrEmpty (JStr value) in
      if valid_id_re value then normalized else sanitize_id normalized)"

definition normalizeCanonicalAccountId :: "string \<Rightarrow> string option" where
  "normalizeCanonicalAccountId value =
     (let canonical = canonicalizeAccountId value in
      if canonical = [] \<or> isBlockedObjectKey canonical then None else Some canonical)"

text \<open>Store, then forget the oldest entry when the cache is over its limit.\<close>

definition setNormalizeCache :: "(string, 'v) js_map \<Rightarrow> string \<Rightarrow> 'v \<Rightarrow> (string, 'v) js_map" where
  "setNormalizeCache cache key val =
     (let cache' = jm_set cache key val in
      if jm_size cache' \<le> ACCOUNT_ID_CACHE_MAX then cache' else jm_drop_oldest cache')"

definition normalizeAccountId_cached ::
  "(string, string) js_map \<Rightarrow> string option \<Rightarrow> string \<times> (string, string) js_map" where
  "normalizeAccountId_cached cache v =
     (let trimmed = js_trim (js_or_else v []) in
      if trimmed = [] then (DEFAULT_ACCOUNT_ID, cache)
      else let cached = jm_get cache trimmed in
        if js_truthy_str cached then (the cached, cache)
        else let normalized = js_or_else (normalizeCanonicalAccountId trimmed) DEFAULT_ACCOUNT_ID
             in (normalized, setNormalizeCache cache trimmed normalized))"

definition normalizeOptionalAccountId_cached ::
  "(string, string option) js_map \<Rightarrow> string option \<Rightarrow> string option \<times> (string, string option) js_map" where
  "normalizeOptionalAccountId_cached cache v =
     (let trimmed = js_trim (js_or_else v []) in
      if trimmed = [] then (None, cache)
      else (case jm_get cache trimmed of
              Some hit \<Rightarrow> (hit, cache)
            | None \<Rightarrow> let normalized = normalizeCanonicalAccountId trimmed
                      in (normalized, setNormalizeCache cache trimmed normalized)))"

text \<open>The functions the caches stand in front of.\<close>

definition normalizeAccountId :: "string option \<Rightarrow> string" where
  "normalizeAccountId v =
     (let trimmed = js_trim (js_or_else v []) in
      if trimmed = [] then DEFAULT_ACCOUNT_ID
      else js_or_else (normalizeCanonicalAccountId trimmed) DEFAULT_ACCOUNT_ID)"

definition normalizeOptionalAccountId :: "string option \<Rightarrow> string option" where
  "normalizeOptionalAccountId v =
     (let trimmed = js_trim (js_or_else v []) in
      if trimmed = [] then None else normalizeCanonicalAccountId trimmed)"

definition account_cache_ok :: "(string, string) js_map \<Rightarrow> bool" where
  "account_cache_ok c =
     (jm_wf c \<and> jm_size c \<le> ACCOUNT_ID_CACHE_MAX \<and>
      (\<forall>(k, v) \<in> set c. v = js_or_else (normalizeCanonicalAccountId k) DEFAULT_ACCOUNT_ID))"

definition optional_account_cache_ok :: "(string, string option) js_map \<Rightarrow> bool" where
  "optional_account_cache_ok c =
     (jm_wf c \<and> jm_size c \<le> ACCOUNT_ID_CACHE_MAX \<and>
      (\<forall>(k, v) \<in> set c. v = normalizeCanonicalAccountId k))"

lemma setNormalizeCache_mem:
  "x \<in> set (setNormalizeCache c k v) \<Longrightarrow> x = (k, v) \<or> x \<in> set c"
proof -
  assume "x \<in> set (setNormalizeCache c k v)"
  then have "x \<in> set (jm_set c k v)"
    using jm_drop_oldest_subset [of "jm_set c k v"]
    by (simp add: setNormalizeCache_def Let_def split: if_splits) blast
  then show ?thesis by (rule jm_set_memD)
qed

lemma setNormalizeCache_wf: "jm_wf c \<Longrightarrow> jm_wf (setNormalizeCache c k v)"
  by (simp add: setNormalizeCache_def Let_def jm.wf_put jm_drop_oldest_wf)

lemma setNormalizeCache_size:
  "jm_wf c \<Longrightarrow> jm_size c \<le> ACCOUNT_ID_CACHE_MAX \<Longrightarrow> jm_size (setNormalizeCache c k v) \<le> ACCOUNT_ID_CACHE_MAX"
proof -
  assume c: "jm_wf c" "jm_size c \<le> ACCOUNT_ID_CACHE_MAX"
  have "jm_size (jm_set c k v) \<le> Suc ACCOUNT_ID_CACHE_MAX"
    using c(2) by (simp add: jm.count_put)
  then show ?thesis
    using jm.wf_put [OF c(1)] by (auto simp: setNormalizeCache_def Let_def jm_drop_oldest_tl jm_size_def)
qed

interpretation account_cache: memo_cache normalizeAccountId normalizeAccountId_cached account_cache_ok "\<lambda>_. True"
proof
  fix c v assume ok: "account_cache_ok c"
  let ?t = "js_trim (js_or_else v [])"
  have hit: "h = js_or_else (normalizeCanonicalAccountId ?t) DEFAULT_ACCOUNT_ID" if "jm_get c ?t = Some h" for h
    using ok jm_get_mem [OF that] by (auto simp: account_cache_ok_def)
  show "fst (normalizeAccountId_cached c v) = normalizeAccountId v"
    by (cases "jm_get c ?t")
      (auto simp: normalizeAccountId_cached_def normalizeAccountId_def Let_def js_truthy_str_def dest: hit)
  show "account_cache_ok (snd (normalizeAccountId_cached c v))"
    using ok setNormalizeCache_mem
    by (fastforce simp: normalizeAccountId_cached_def account_cache_ok_def Let_def
        setNormalizeCache_wf setNormalizeCache_size)
qed

interpretation optional_account_cache: memo_cache normalizeOptionalAccountId
  normalizeOptionalAccountId_cached optional_account_cache_ok "\<lambda>_. True"
proof
  fix c v assume ok: "optional_account_cache_ok c"
  let ?t = "js_trim (js_or_else v [])"
  have hit: "h = normalizeCanonicalAccountId ?t" if "jm_get c ?t = Some h" for h
    using ok jm_get_mem [OF that] by (auto simp: optional_account_cache_ok_def)
  show "fst (normalizeOptionalAccountId_cached c v) = normalizeOptionalAccountId v"
    by (cases "jm_get c ?t")
      (auto simp: normalizeOptionalAccountId_cached_def normalizeOptionalAccountId_def Let_def dest: hit)
  show "optional_account_cache_ok (snd (normalizeOptionalAccountId_cached c v))"
    using ok setNormalizeCache_mem
    by (fastforce simp: normalizeOptionalAccountId_cached_def optional_account_cache_ok_def Let_def
        setNormalizeCache_wf setNormalizeCache_size split: option.splits)
qed

lemma canonicalizeAccountId_safe:
  "canonicalizeAccountId v \<noteq> [] \<Longrightarrow> js_trim v = v \<Longrightarrow> safe_id (canonicalizeAccountId v)"
  using sanitize_id_safe [of "js_lower v"] valid_id_safe [of v]
  by (auto simp: canonicalizeAccountId_def Let_def split: if_splits)

lemma normalizeAccountId_safe: "safe_id (normalizeAccountId v)"
proof -
  have "safe_id DEFAULT_ACCOUNT_ID" by code_simp
  then show ?thesis
    using canonicalizeAccountId_safe [of "js_trim (js_or_else v [])"]
    by (auto simp: normalizeAccountId_def normalizeCanonicalAccountId_def Let_def)
qed

lemma normalizeAccountId_not_blocked: "\<not> isBlockedObjectKey (normalizeAccountId v)"
proof -
  have "\<not> isBlockedObjectKey DEFAULT_ACCOUNT_ID" by code_simp
  then show ?thesis by (auto simp: normalizeAccountId_def normalizeCanonicalAccountId_def Let_def)
qed

subsection \<open>Building session keys\<close>

datatype chat_type = Direct | Group | Channel

definition chat_type_text :: "chat_type \<Rightarrow> string" where
  "chat_type_text k = (case k of Direct \<Rightarrow> ''direct'' | Group \<Rightarrow> ''group'' | Channel \<Rightarrow> ''channel'')"

datatype dm_scope = ScopeMain | ScopePerPeer | ScopePerChannelPeer | ScopePerAccountChannelPeer

type_synonym identity_links = "(string, string list option) js_map"

definition nonempty_or :: "string \<Rightarrow> string \<Rightarrow> string" where
  "nonempty_or s d = (if s \<noteq> [] then s else d)"

definition normalizeToken :: "string option \<Rightarrow> string" where
  "normalizeToken v = normalizeLowercaseStringOrEmpty (js_opt v)"

definition normalizeMainKey :: "string option \<Rightarrow> string" where
  "normalizeMainKey v = nonempty_or (normalizeLowercaseStringOrEmpty (js_opt v)) DEFAULT_MAIN_KEY"

definition buildAgentMainSessionKey :: "string \<Rightarrow> string option \<Rightarrow> string" where
  "buildAgentMainSessionKey agentId mainKey =
     ''agent:'' @ normalizeAgentId (Some agentId) @ '':'' @ normalizeMainKey mainKey"

definition toAgentRequestSessionKey :: "string option \<Rightarrow> string option" where
  "toAgentRequestSessionKey storeKey =
     (let raw = js_trim (js_or_else storeKey []) in
      if raw = [] then None
      else Some (js_or_else (map_option pk_rest (parseAgentSessionKey (Some raw))) raw))"

definition toAgentStoreSessionKey :: "string \<Rightarrow> string option \<Rightarrow> string option \<Rightarrow> string" where
  "toAgentStoreSessionKey agentId requestKey mainKey =
     (let raw = js_trim (js_or_else requestKey []);
          lowered = normalizeLowercaseStringOrEmpty (JStr raw) in
      if raw = [] \<or> lowered = DEFAULT_MAIN_KEY then buildAgentMainSessionKey agentId mainKey
      else (case parseAgentSessionKey (Some raw) of
              Some parsed \<Rightarrow> ''agent:'' @ pk_agentId parsed @ '':'' @ pk_rest parsed
            | None \<Rightarrow>
              if prefix ''agent:'' lowered then lowered
              else ''agent:'' @ normalizeAgentId (Some agentId) @ '':'' @ lowered))"

definition resolveAgentIdFromSessionKey :: "string option \<Rightarrow> string" where
  "resolveAgentIdFromSessionKey sessionKey =
     normalizeAgentId (Some (js_or_else (map_option pk_agentId (parseAgentSessionKey sessionKey)) DEFAULT_AGENT_ID))"

datatype key_shape = ShapeMissing | ShapeAgent | ShapeLegacyOrAlias | ShapeMalformedAgent

definition classifySessionKeyShape :: "string option \<Rightarrow> key_shape" where
  "classifySessionKeyShape sessionKey =
     (let raw = js_trim (js_or_else sessionKey []) in
      if raw = [] then ShapeMissing
      else if parseAgentSessionKey (Some raw) \<noteq> None then ShapeAgent
      else if prefix ''agent:'' (normalizeLowercaseStringOrEmpty (JStr raw)) then ShapeMalformedAgent
      else ShapeLegacyOrAlias)"

text \<open>
  The identity links of the configuration, in the order of its keys; an entry that is not
  an array is \<open>None\<close>. The candidates form a set, so their order does not matter.
\<close>

definition resolveLinkedPeerId :: "identity_links option \<Rightarrow> string \<Rightarrow> string \<Rightarrow> string option" where
  "resolveLinkedPeerId identityLinks channel0 peerId0 =
     (case identityLinks of
        None \<Rightarrow> None
      | Some links \<Rightarrow>
        (let peerId = js_trim peerId0 in
         if peerId = [] then None
         else let rawCandidate = normalizeToken (Some peerId);
                  channel = normalizeToken (Some channel0);
                  scoped = (if channel \<noteq> [] then normalizeToken (Some (channel @ '':'' @ peerId)) else []);
                  candidates = filter (\<lambda>c. c \<noteq> []) [rawCandidate, scoped]
              in if candidates = [] then None
                 else map_option (\<lambda>(canonical, ids). js_trim canonical)
                        (List.find (\<lambda>(canonical, ids).
                            js_trim canonical \<noteq> [] \<and>
                            (case ids of None \<Rightarrow> False
                             | Some l \<Rightarrow> list_ex (\<lambda>i. let n = normalizeToken (Some i)
                                                    in n \<noteq> [] \<and> n \<in> set candidates) l))
                          links)))"

record peer_key_params =
  pk_agent :: string
  pk_mainKey :: "string option"
  pk_channel :: string
  pk_account :: "string option"
  pk_peerKind :: "chat_type option"
  pk_peerId :: "string option"
  pk_links :: "identity_links option"
  pk_dmScope :: "dm_scope option"

definition buildAgentPeerSessionKey :: "peer_key_params \<Rightarrow> string" where
  "buildAgentPeerSessionKey p =
     (let peerKind = js_or_else (pk_peerKind p) Direct;
          agent = ''agent:'' @ normalizeAgentId (Some (pk_agent p)) in
      if peerKind = Direct then
        (let dmScope = js_or_else (pk_dmScope p) ScopeMain;
             peerId0 = js_trim (js_or_else (pk_peerId p) []);
             linkedPeerId = (if dmScope = ScopeMain then None
                             else resolveLinkedPeerId (pk_links p) (pk_channel p) peerId0);
             peerId1 = (if js_truthy_str linkedPeerId then the linkedPeerId else peerId0);
             peerId = normalizeLowercaseStringOrEmpty (JStr peerId1);
             channel = nonempty_or (normalizeLowercaseStringOrEmpty (JStr (pk_channel p))) ''unknown''
         in if dmScope = ScopePerAccountChannelPeer \<and> peerId \<noteq> [] then
              agent @ '':'' @ channel @ '':'' @ normalizeAccountId (pk_account p) @ '':direct:'' @ peerId
            else if dmScope = ScopePerChannelPeer \<and> peerId \<noteq> [] then
              agent @ '':'' @ channel @ '':direct:'' @ peerId
            else if dmScope = ScopePerPeer \<and> peerId \<noteq> [] then
              agent @ '':direct:'' @ peerId
            else buildAgentMainSessionKey (pk_agent p) (pk_mainKey p))
      else
        (let channel = nonempty_or (normalizeLowercaseStringOrEmpty (JStr (pk_channel p))) ''unknown'';
             peerId = nonempty_or (normalizeLowercaseStringOrEmpty (js_opt (pk_peerId p))) ''unknown''
         in agent @ '':'' @ channel @ '':'' @ chat_type_text peerKind @ '':'' @ peerId))"

definition buildGroupHistoryKey :: "string \<Rightarrow> string option \<Rightarrow> chat_type \<Rightarrow> string \<Rightarrow> string" where
  "buildGroupHistoryKey channel0 accountId0 peerKind peerId0 =
     (let channel = nonempty_or (normalizeToken (Some channel0)) ''unknown'';
          accountId = normalizeAccountId accountId0;
          peerId = nonempty_or (normalizeLowercaseStringOrEmpty (JStr peerId0)) ''unknown''
      in channel @ '':'' @ accountId @ '':'' @ chat_type_text peerKind @ '':'' @ peerId)"

record thread_keys =
  tk_sessionKey :: string
  tk_parentSessionKey :: "string option"

definition resolveThreadSessionKeys ::
  "string \<Rightarrow> string option \<Rightarrow> string option \<Rightarrow> bool option \<Rightarrow> (string \<Rightarrow> string) option \<Rightarrow> thread_keys" where
  "resolveThreadSessionKeys base threadId0 parent useSuffix0 normalizeThreadId =
     (let threadId = js_trim (js_or_else threadId0 []) in
      if threadId = [] then \<lparr>tk_sessionKey = base, tk_parentSessionKey = None\<rparr>
      else let normalizedThread =
                 (case normalizeThreadId of
                    Some f \<Rightarrow> f threadId | None \<Rightarrow> normalizeLowercaseStringOrEmpty (JStr threadId));
               useSuffix = js_or_else useSuffix0 True
           in \<lparr>tk_sessionKey = (if useSuffix then base @ '':thread:'' @ normalizedThread else base),
              tk_parentSessionKey = parent\<rparr>)"

end
