(* ===== verification/Resolve_Route.thy ===== *)
theory Resolve_Route
  imports Session_Keys
begin

text \<open>
  Which agent answers an inbound message: \<open>src/routing/resolve-route.ts\<close>, with the scope
  test of \<open>src/routing/binding-scope.ts\<close>, \<open>src/routing/peer-kind-match.ts\<close>,
  \<open>src/channels/chat-type.ts\<close>, \<open>src/config/bindings.ts\<close> and the default agent of
  \<open>src/agents/agent-scope-config.ts\<close>.

  The code sorts the configured bindings into buckets per channel and account and into an
  index per tier, and looks the winner up tier by tier. \<open>reference_match\<close> below says
  what it computes, as one scan of the bindings in source order.
\<close>

subsection \<open>Configuration and normalised bindings\<close>

record binding_peer =
  bp_kind :: "string option"
  bp_id :: "string option"

record binding_match =
  bm_channel :: "string option"
  bm_accountId :: "string option"
  bm_peer :: "binding_peer option"
  bm_guildId :: "string option"
  bm_teamId :: "string option"
  bm_roles :: "string list option"

record route_binding =
  rb_isAcp :: bool
  rb_agentId :: string
  rb_match :: binding_match

record agent_entry =
  ae_id :: "string option"
  ae_default :: bool

record route_config =
  rc_bindings :: "route_binding list"
  rc_agents :: "agent_entry list"
  rc_dmScope :: "dm_scope option"
  rc_identityLinks :: "identity_links option"

datatype peer_constraint =
    PeerNone
  | PeerInvalid
  | PeerWildcard chat_type
  | PeerValid chat_type string

record norm_match =
  nm_accountPattern :: string
  nm_peer :: peer_constraint
  nm_guildId :: "string option"
  nm_teamId :: "string option"
  nm_roles :: "string list option"

record evaluated =
  ev_binding :: route_binding
  ev_match :: norm_match
  ev_order :: nat

record route_peer =
  peer_kind :: chat_type
  peer_id :: string

definition normalizeChatType :: "string option \<Rightarrow> chat_type option" where
  "normalizeChatType raw =
     (case normalizeOptionalLowercaseString (js_opt raw) of
        None \<Rightarrow> None
      | Some v \<Rightarrow>
        if v = ''direct'' \<or> v = ''dm'' then Some Direct
        else if v = ''group'' then Some Group
        else if v = ''channel'' then Some Channel
        else None)"

definition peerKindMatches :: "chat_type \<Rightarrow> chat_type \<Rightarrow> bool" where
  "peerKindMatches bindingKind scopeKind =
     (bindingKind = scopeKind \<or>
      (bindingKind = Group \<and> scopeKind = Channel) \<or> (bindingKind = Channel \<and> scopeKind = Group))"

text \<open>A binding's identifiers have the declared type \<open>string | undefined | null\<close>.\<close>

definition normalizeRouteBindingId :: "string option \<Rightarrow> string" where
  "normalizeRouteBindingId v = (case v of None \<Rightarrow> [] | Some s \<Rightarrow> js_trim s)"

definition normalizeRouteBindingRoles :: "string list option \<Rightarrow> string list option" where
  "normalizeRouteBindingRoles v = (case v of None \<Rightarrow> None | Some rs \<Rightarrow> if rs \<noteq> [] then Some rs else None)"

definition none_if_empty :: "string \<Rightarrow> string option" where
  "none_if_empty s = (if s = [] then None else Some s)"

definition normalizePeerConstraint :: "binding_peer option \<Rightarrow> peer_constraint" where
  "normalizePeerConstraint peer =
     (case peer of
        None \<Rightarrow> PeerNone
      | Some p \<Rightarrow>
        (let i = normalizeRouteBindingId (bp_id p) in
         case normalizeChatType (bp_kind p) of
           None \<Rightarrow> PeerInvalid
         | Some kind \<Rightarrow>
           if i = [] then PeerInvalid
           else if i = ''*'' then PeerWildcard kind
           else PeerValid kind i))"

definition normalizeBindingMatch :: "binding_match \<Rightarrow> norm_match" where
  "normalizeBindingMatch m =
     \<lparr>nm_accountPattern = js_trim (js_or_else (bm_accountId m) []),
      nm_peer = normalizePeerConstraint (bm_peer m),
      nm_guildId = none_if_empty (normalizeRouteBindingId (bm_guildId m)),
      nm_teamId = none_if_empty (normalizeRouteBindingId (bm_teamId m)),
      nm_roles = normalizeRouteBindingRoles (bm_roles m)\<rparr>"

definition listRouteBindings :: "route_config \<Rightarrow> route_binding list" where
  "listRouteBindings cfg = filter (\<lambda>b. \<not> rb_isAcp b) (rc_bindings cfg)"

subsection \<open>Agents\<close>

definition resolveDefaultAgentId :: "route_config \<Rightarrow> string" where
  "resolveDefaultAgentId cfg =
     (case rc_agents cfg of
        [] \<Rightarrow> DEFAULT_AGENT_ID
      | first # _ \<Rightarrow>
        (let chosen0 = (case filter ae_default (rc_agents cfg) of d # _ \<Rightarrow> d | [] \<Rightarrow> first);
             chosen = js_trim (js_or_else (ae_id chosen0) [])
         in normalizeAgentId (Some (nonempty_or chosen DEFAULT_AGENT_ID))))"

record agent_lookup =
  al_byNormalizedId :: "(string, string) js_map"
  al_fallback :: string

definition resolveAgentLookupCache :: "route_config \<Rightarrow> agent_lookup" where
  "resolveAgentLookupCache cfg =
     \<lparr>al_byNormalizedId =
        fold (\<lambda>agent m. let rawId = js_trim (js_or_else (ae_id agent) []) in
                        if rawId = [] then m
                        else jm_set m (normalizeAgentId (Some rawId)) (sanitizeAgentId (Some rawId)))
             (rc_agents cfg) [],
      al_fallback = sanitizeAgentId (Some (resolveDefaultAgentId cfg))\<rparr>"

definition pickFirstExistingAgentId :: "route_config \<Rightarrow> string \<Rightarrow> string" where
  "pickFirstExistingAgentId cfg agentId =
     (let lookup = resolveAgentLookupCache cfg; trimmed = js_trim agentId in
      if trimmed = [] then al_fallback lookup
      else let normalized = normalizeAgentId (Some trimmed) in
        if jm_size (al_byNormalizedId lookup) = 0 then sanitizeAgentId (Some trimmed)
        else let resolved = jm_get (al_byNormalizedId lookup) normalized in
          if js_truthy_str resolved then the resolved else al_fallback lookup)"

subsection \<open>Buckets per channel and account\<close>

record bucket =
  bk_byAccount :: "(string, evaluated list) js_map"
  bk_byAnyAccount :: "evaluated list"

definition resolveAccountPatternKey :: "string \<Rightarrow> string" where
  "resolveAccountPatternKey accountPattern =
     (if js_trim accountPattern = [] then DEFAULT_ACCOUNT_ID else normalizeAccountId (Some accountPattern))"

definition empty_bucket :: bucket where
  "empty_bucket = \<lparr>bk_byAccount = [], bk_byAnyAccount = []\<rparr>"

definition push_to_list_map :: "(string, evaluated list) js_map \<Rightarrow> string \<Rightarrow> evaluated \<Rightarrow> (string, evaluated list) js_map" where
  "push_to_list_map m key b =
     (case jm_get m key of Some existing \<Rightarrow> jm_set m key (existing @ [b]) | None \<Rightarrow> jm_set m key [b])"

definition add_binding ::
  "route_binding \<Rightarrow> (string, bucket) js_map \<times> nat \<Rightarrow> (string, bucket) js_map \<times> nat" where
  "add_binding binding st =
     (let (byChannel, order) = st; channel = normalizeToken (bm_channel (rb_match binding)) in
      if channel = [] then (byChannel, order)
      else let match = normalizeBindingMatch (rb_match binding);
               evaluated = \<lparr>ev_binding = binding, ev_match = match, ev_order = order\<rparr>;
               bucket = js_or_else (jm_get byChannel channel) empty_bucket;
               bucket' = (if nm_accountPattern match = ''*''
                          then bucket\<lparr>bk_byAnyAccount := bk_byAnyAccount bucket @ [evaluated]\<rparr>
                          else bucket\<lparr>bk_byAccount :=
                                 push_to_list_map (bk_byAccount bucket)
                                   (resolveAccountPatternKey (nm_accountPattern match)) evaluated\<rparr>)
           in (jm_set byChannel channel bucket', Suc order))"

definition buildEvaluatedBindingsByChannel :: "route_config \<Rightarrow> (string, bucket) js_map" where
  "buildEvaluatedBindingsByChannel cfg = fst (fold add_binding (listRouteBindings cfg) ([], 0))"

fun merge_in_order :: "evaluated list \<Rightarrow> evaluated list \<Rightarrow> evaluated list" where
  "merge_in_order [] ys = ys"
| "merge_in_order xs [] = xs"
| "merge_in_order (x # xs) (y # ys) =
     (if ev_order x \<le> ev_order y then x # merge_in_order xs (y # ys)
      else y # merge_in_order (x # xs) ys)"

definition mergeEvaluatedBindingsInSourceOrder :: "evaluated list \<Rightarrow> evaluated list \<Rightarrow> evaluated list" where
  "mergeEvaluatedBindingsInSourceOrder accountScoped anyAccount =
     (if accountScoped = [] then anyAccount
      else if anyAccount = [] then accountScoped
      else merge_in_order accountScoped anyAccount)"

definition getEvaluatedBindingsForChannelAccount :: "route_config \<Rightarrow> string \<Rightarrow> string \<Rightarrow> evaluated list" where
  "getEvaluatedBindingsForChannelAccount cfg channel accountId =
     (let channelBindings = jm_get (buildEvaluatedBindingsByChannel cfg) channel;
          accountScoped = (case channelBindings of None \<Rightarrow> []
                           | Some b \<Rightarrow> js_or_else (jm_get (bk_byAccount b) accountId) []);
          anyAccount = (case channelBindings of None \<Rightarrow> [] | Some b \<Rightarrow> bk_byAnyAccount b)
      in mergeEvaluatedBindingsInSourceOrder accountScoped anyAccount)"

subsection \<open>The index\<close>

record bindings_index =
  ix_byPeer :: "(string, evaluated list) js_map"
  ix_byPeerWildcard :: "evaluated list"
  ix_byGuildWithRoles :: "(string, evaluated list) js_map"
  ix_byGuild :: "(string, evaluated list) js_map"
  ix_byTeam :: "(string, evaluated list) js_map"
  ix_byAccount :: "evaluated list"
  ix_byChannel :: "evaluated list"

definition pushToIndexMap ::
  "(string, evaluated list) js_map \<Rightarrow> string option \<Rightarrow> evaluated \<Rightarrow> (string, evaluated list) js_map" where
  "pushToIndexMap m key b =
     (if js_truthy_str key then push_to_list_map m (the key) b else m)"

definition peerLookupKeys :: "chat_type \<Rightarrow> string \<Rightarrow> string list" where
  "peerLookupKeys kind i =
     (if kind = Group then [''group:'' @ i, ''channel:'' @ i]
      else if kind = Channel then [''channel:'' @ i, ''group:'' @ i]
      else [chat_type_text kind @ '':'' @ i])"

definition add_to_index :: "evaluated \<Rightarrow> bindings_index \<Rightarrow> bindings_index" where
  "add_to_index b ix =
     (let m = ev_match b in
      case nm_peer m of
        PeerValid kind i \<Rightarrow>
          ix\<lparr>ix_byPeer := fold (\<lambda>key mp. pushToIndexMap mp (Some key) b) (peerLookupKeys kind i) (ix_byPeer ix)\<rparr>
      | PeerWildcard _ \<Rightarrow> ix\<lparr>ix_byPeerWildcard := ix_byPeerWildcard ix @ [b]\<rparr>
      | _ \<Rightarrow>
        if nm_guildId m \<noteq> None \<and> nm_roles m \<noteq> None
        then ix\<lparr>ix_byGuildWithRoles := pushToIndexMap (ix_byGuildWithRoles ix) (nm_guildId m) b\<rparr>
        else if nm_guildId m \<noteq> None \<and> nm_roles m = None
        then ix\<lparr>ix_byGuild := pushToIndexMap (ix_byGuild ix) (nm_guildId m) b\<rparr>
        else if nm_teamId m \<noteq> None
        then ix\<lparr>ix_byTeam := pushToIndexMap (ix_byTeam ix) (nm_teamId m) b\<rparr>
        else if nm_accountPattern m \<noteq> ''*''
        then ix\<lparr>ix_byAccount := ix_byAccount ix @ [b]\<rparr>
        else ix\<lparr>ix_byChannel := ix_byChannel ix @ [b]\<rparr>)"

definition empty_index :: bindings_index where
  "empty_index = \<lparr>ix_byPeer = [], ix_byPeerWildcard = [], ix_byGuildWithRoles = [], ix_byGuild = [],
                  ix_byTeam = [], ix_byAccount = [], ix_byChannel = []\<rparr>"

definition buildEvaluatedBindingsIndex :: "evaluated list \<Rightarrow> bindings_index" where
  "buildEvaluatedBindingsIndex bindings = fold add_to_index bindings empty_index"

definition collectPeerIndexedBindings :: "bindings_index \<Rightarrow> route_peer option \<Rightarrow> evaluated list" where
  "collectPeerIndexedBindings index peer =
     (case peer of
        None \<Rightarrow> []
      | Some p \<Rightarrow>
        fold (\<lambda>key out.
               (case jm_get (ix_byPeer index) key of
                  None \<Rightarrow> out
                | Some matches \<Rightarrow> fold (\<lambda>m acc. if m \<in> set acc then acc else acc @ [m]) matches out))
             (peerLookupKeys (peer_kind p) (peer_id p)) [])"

subsection \<open>The scope of a binding\<close>

record binding_scope =
  sc_peer :: "route_peer option"
  sc_guildId :: string
  sc_teamId :: string
  sc_memberRoleIds :: "string list"

text \<open>\<open>groupSpace\<close> is absent from the scopes that routing builds, so it is empty here.\<close>

definition scopeIdMatches :: "string option \<Rightarrow> string \<Rightarrow> string \<Rightarrow> bool" where
  "scopeIdMatches constr exact groupSpace =
     (if \<not> js_truthy_str constr then True else constr = Some exact \<or> constr = Some groupSpace)"

definition routeBindingScopeMatches :: "norm_match \<Rightarrow> binding_scope \<Rightarrow> bool" where
  "routeBindingScopeMatches c scope =
     (let guildId = js_trim (sc_guildId scope); teamId = js_trim (sc_teamId scope); groupSpace = [] in
      if \<not> scopeIdMatches (nm_guildId c) guildId groupSpace then False
      else if \<not> scopeIdMatches (nm_teamId c) teamId groupSpace then False
      else (case normalizeRouteBindingRoles (nm_roles c) of
              None \<Rightarrow> True
            | Some roles \<Rightarrow> list_ex (\<lambda>r. r \<in> set (sc_memberRoleIds scope)) roles))"

definition matchesBindingScope :: "norm_match \<Rightarrow> binding_scope \<Rightarrow> bool" where
  "matchesBindingScope m scope =
     (case nm_peer m of
        PeerInvalid \<Rightarrow> False
      | PeerValid kind i \<Rightarrow>
          (case sc_peer scope of
             None \<Rightarrow> False
           | Some p \<Rightarrow> peerKindMatches kind (peer_kind p) \<and> peer_id p = i \<and> routeBindingScopeMatches m scope)
      | PeerWildcard kind \<Rightarrow>
          (case sc_peer scope of
             None \<Rightarrow> False
           | Some p \<Rightarrow> peerKindMatches kind (peer_kind p) \<and> routeBindingScopeMatches m scope)
      | PeerNone \<Rightarrow> routeBindingScopeMatches m scope)"

subsection \<open>The route\<close>

datatype matched_by =
    MBPeer | MBPeerParent | MBPeerWildcard | MBGuildRoles | MBGuild | MBTeam | MBAccount | MBChannel | MBDefault

datatype last_route_policy = PolicyMain | PolicySession

record resolved_route =
  rr_agentId :: string
  rr_channel :: string
  rr_accountId :: string
  rr_sessionKey :: string
  rr_mainSessionKey :: string
  rr_lastRoutePolicy :: last_route_policy
  rr_matchedBy :: matched_by

record route_input =
  ri_channel :: string
  ri_accountId :: "string option"
  ri_peer :: "route_peer option"
  ri_parentPeer :: "route_peer option"
  ri_guildId :: "string option"
  ri_teamId :: "string option"
  ri_memberRoleIds :: "string list option"

record tier =
  t_matchedBy :: matched_by
  t_enabled :: bool
  t_scopePeer :: "route_peer option"
  t_candidates :: "evaluated list"
  t_predicate :: "evaluated \<Rightarrow> bool"

definition deriveLastRoutePolicy :: "string \<Rightarrow> string \<Rightarrow> last_route_policy" where
  "deriveLastRoutePolicy sessionKey mainSessionKey =
     (if sessionKey = mainSessionKey then PolicyMain else PolicySession)"

definition resolveInboundLastRouteSessionKey :: "resolved_route \<Rightarrow> string \<Rightarrow> string" where
  "resolveInboundLastRouteSessionKey route sessionKey =
     (if rr_lastRoutePolicy route = PolicyMain then rr_mainSessionKey route else sessionKey)"

definition buildAgentSessionKey ::
  "string \<Rightarrow> string \<Rightarrow> string option \<Rightarrow> route_peer option \<Rightarrow> dm_scope option \<Rightarrow> identity_links option \<Rightarrow> string" where
  "buildAgentSessionKey agentId channel0 accountId peer dmScope identityLinks =
     (let channel = nonempty_or (normalizeToken (Some channel0)) ''unknown'' in
      buildAgentPeerSessionKey
        \<lparr>pk_agent = agentId, pk_mainKey = Some DEFAULT_MAIN_KEY, pk_channel = channel, pk_account = accountId,
         pk_peerKind = Some (case peer of None \<Rightarrow> Direct | Some p \<Rightarrow> peer_kind p),
         pk_peerId = map_option (\<lambda>p. nonempty_or (normalizeRouteBindingId (Some (peer_id p))) ''unknown'') peer,
         pk_links = identityLinks, pk_dmScope = dmScope\<rparr>)"

definition normalize_peer :: "route_peer \<Rightarrow> route_peer" where
  "normalize_peer p = p\<lparr>peer_id := normalizeRouteBindingId (Some (peer_id p))\<rparr>"

definition peer_state_valid :: "evaluated \<Rightarrow> bool" where
  "peer_state_valid b = (case nm_peer (ev_match b) of PeerValid _ _ \<Rightarrow> True | _ \<Rightarrow> False)"

definition peer_state_wildcard :: "evaluated \<Rightarrow> bool" where
  "peer_state_wildcard b = (case nm_peer (ev_match b) of PeerWildcard _ \<Rightarrow> True | _ \<Rightarrow> False)"

definition hasGuildConstraint :: "norm_match \<Rightarrow> bool" where
  "hasGuildConstraint m = js_truthy_str (nm_guildId m)"

definition hasTeamConstraint :: "norm_match \<Rightarrow> bool" where
  "hasTeamConstraint m = js_truthy_str (nm_teamId m)"

definition hasRolesConstraint :: "norm_match \<Rightarrow> bool" where
  "hasRolesConstraint m = (nm_roles m \<noteq> None)"

definition route_tiers ::
  "bindings_index \<Rightarrow> route_peer option \<Rightarrow> route_peer option \<Rightarrow> string \<Rightarrow> string \<Rightarrow> string list \<Rightarrow> tier list" where
  "route_tiers index peer parentPeer guildId teamId memberRoleIds =
     (let parentUsable = (case parentPeer of None \<Rightarrow> False | Some p \<Rightarrow> peer_id p \<noteq> []) in
      [\<lparr>t_matchedBy = MBPeer, t_enabled = (peer \<noteq> None), t_scopePeer = peer,
        t_candidates = collectPeerIndexedBindings index peer, t_predicate = peer_state_valid\<rparr>,
       \<lparr>t_matchedBy = MBPeerParent, t_enabled = parentUsable,
        t_scopePeer = (if parentUsable then parentPeer else None),
        t_candidates = collectPeerIndexedBindings index parentPeer, t_predicate = peer_state_valid\<rparr>,
       \<lparr>t_matchedBy = MBPeerWildcard, t_enabled = (peer \<noteq> None), t_scopePeer = peer,
        t_candidates = ix_byPeerWildcard index, t_predicate = peer_state_wildcard\<rparr>,
       \<lparr>t_matchedBy = MBGuildRoles, t_enabled = (guildId \<noteq> [] \<and> memberRoleIds \<noteq> []), t_scopePeer = peer,
        t_candidates = (if guildId \<noteq> [] then js_or_else (jm_get (ix_byGuildWithRoles index) guildId) [] else []),
        t_predicate = (\<lambda>c. hasGuildConstraint (ev_match c) \<and> hasRolesConstraint (ev_match c))\<rparr>,
       \<lparr>t_matchedBy = MBGuild, t_enabled = (guildId \<noteq> []), t_scopePeer = peer,
        t_candidates = (if guildId \<noteq> [] then js_or_else (jm_get (ix_byGuild index) guildId) [] else []),
        t_predicate = (\<lambda>c. hasGuildConstraint (ev_match c) \<and> \<not> hasRolesConstraint (ev_match c))\<rparr>,
       \<lparr>t_matchedBy = MBTeam, t_enabled = (teamId \<noteq> []), t_scopePeer = peer,
        t_candidates = (if teamId \<noteq> [] then js_or_else (jm_get (ix_byTeam index) teamId) [] else []),
        t_predicate = (\<lambda>c. hasTeamConstraint (ev_match c))\<rparr>,
       \<lparr>t_matchedBy = MBAccount, t_enabled = True, t_scopePeer = peer,
        t_candidates = ix_byAccount index, t_predicate = (\<lambda>c. nm_accountPattern (ev_match c) \<noteq> ''*'')\<rparr>,
       \<lparr>t_matchedBy = MBChannel, t_enabled = True, t_scopePeer = peer,
        t_candidates = ix_byChannel index, t_predicate = (\<lambda>c. nm_accountPattern (ev_match c) = ''*'')\<rparr>])"

definition tier_match :: "string \<Rightarrow> string \<Rightarrow> string list \<Rightarrow> tier \<Rightarrow> evaluated option" where
  "tier_match guildId teamId memberRoleIds t =
     (if \<not> t_enabled t then None
      else List.find (\<lambda>c. t_predicate t c \<and>
             matchesBindingScope (ev_match c)
               \<lparr>sc_peer = t_scopePeer t, sc_guildId = guildId, sc_teamId = teamId,
                sc_memberRoleIds = memberRoleIds\<rparr>) (t_candidates t))"

fun first_tier_match ::
  "string \<Rightarrow> string \<Rightarrow> string list \<Rightarrow> tier list \<Rightarrow> (evaluated \<times> matched_by) option" where
  "first_tier_match g tm roles [] = None"
| "first_tier_match g tm roles (t # ts) =
     (case tier_match g tm roles t of
        Some m \<Rightarrow> Some (m, t_matchedBy t)
      | None \<Rightarrow> first_tier_match g tm roles ts)"

definition choose_route ::
  "route_config \<Rightarrow> string \<Rightarrow> string \<Rightarrow> route_peer option \<Rightarrow> string \<Rightarrow> matched_by \<Rightarrow> resolved_route" where
  "choose_route cfg channel accountId peer agentId matchedBy =
     (let resolvedAgentId = pickFirstExistingAgentId cfg agentId;
          dmScope = js_or_else (rc_dmScope cfg) ScopeMain;
          sessionKey = normalizeLowercaseStringOrEmpty (JStr
            (buildAgentSessionKey resolvedAgentId channel (Some accountId) peer (Some dmScope) (rc_identityLinks cfg)));
          mainSessionKey = normalizeLowercaseStringOrEmpty (JStr
            (buildAgentMainSessionKey resolvedAgentId (Some DEFAULT_MAIN_KEY)))
      in \<lparr>rr_agentId = resolvedAgentId, rr_channel = channel, rr_accountId = accountId,
          rr_sessionKey = sessionKey, rr_mainSessionKey = mainSessionKey,
          rr_lastRoutePolicy = deriveLastRoutePolicy sessionKey mainSessionKey, rr_matchedBy = matchedBy\<rparr>)"

definition selected_binding :: "route_config \<Rightarrow> route_input \<Rightarrow> (evaluated \<times> matched_by) option" where
  "selected_binding cfg i =
     (let channel = normalizeToken (Some (ri_channel i));
          accountId = normalizeAccountId (ri_accountId i);
          peer = map_option normalize_peer (ri_peer i);
          parentPeer = map_option normalize_peer (ri_parentPeer i);
          guildId = normalizeRouteBindingId (ri_guildId i);
          teamId = normalizeRouteBindingId (ri_teamId i);
          memberRoleIds = js_or_else (ri_memberRoleIds i) [];
          index = buildEvaluatedBindingsIndex (getEvaluatedBindingsForChannelAccount cfg channel accountId)
      in first_tier_match guildId teamId memberRoleIds
           (route_tiers index peer parentPeer guildId teamId memberRoleIds))"

definition resolveAgentRoute :: "route_config \<Rightarrow> route_input \<Rightarrow> resolved_route" where
  "resolveAgentRoute cfg i =
     (let channel = normalizeToken (Some (ri_channel i));
          accountId = normalizeAccountId (ri_accountId i);
          peer = map_option normalize_peer (ri_peer i)
      in case selected_binding cfg i of
           Some (c, by) \<Rightarrow> choose_route cfg channel accountId peer (rb_agentId (ev_binding c)) by
         | None \<Rightarrow> choose_route cfg channel accountId peer (resolveDefaultAgentId cfg) MBDefault)"

end
