(* ===== verification/Resolve_Route_Spec.thy ===== *)
theory Resolve_Route_Spec
  imports Resolve_Route
begin

text \<open>
  What \<open>resolveAgentRoute\<close> computes, without buckets, merges and indexes: of the bindings
  whose channel and account fit, scanned in source order, the first one of the most
  specific kind whose scope fits. The lemmas relate every intermediate structure of the
  code to a filter of the list of bindings.
\<close>

subsection \<open>The reference\<close>

fun evaluate_bindings :: "nat \<Rightarrow> route_binding list \<Rightarrow> evaluated list" where
  "evaluate_bindings n [] = []"
| "evaluate_bindings n (b # bs) =
     (if normalizeToken (bm_channel (rb_match b)) = [] then evaluate_bindings n bs
      else \<lparr>ev_binding = b, ev_match = normalizeBindingMatch (rb_match b), ev_order = n\<rparr>
             # evaluate_bindings (Suc n) bs)"

definition ev_channel :: "evaluated \<Rightarrow> string" where
  "ev_channel e = normalizeToken (bm_channel (rb_match (ev_binding e)))"

definition ev_any_account :: "evaluated \<Rightarrow> bool" where
  "ev_any_account e = (nm_accountPattern (ev_match e) = ''*'')"

definition ev_account :: "evaluated \<Rightarrow> string" where
  "ev_account e = resolveAccountPatternKey (nm_accountPattern (ev_match e))"

definition relevant_bindings :: "route_config \<Rightarrow> string \<Rightarrow> string \<Rightarrow> evaluated list" where
  "relevant_bindings cfg channel accountId =
     filter (\<lambda>e. ev_channel e = channel \<and> (ev_any_account e \<or> ev_account e = accountId))
       (evaluate_bindings 0 (listRouteBindings cfg))"

definition binding_class :: "norm_match \<Rightarrow> matched_by" where
  "binding_class m =
     (case nm_peer m of
        PeerValid _ _ \<Rightarrow> MBPeer
      | PeerWildcard _ \<Rightarrow> MBPeerWildcard
      | _ \<Rightarrow> if nm_guildId m \<noteq> None then (if nm_roles m \<noteq> None then MBGuildRoles else MBGuild)
            else if nm_teamId m \<noteq> None then MBTeam
            else if nm_accountPattern m \<noteq> ''*'' then MBAccount else MBChannel)"

text \<open>The tiers in the order of their priority, the class of binding and the peer each looks at.\<close>

definition reference_tiers ::
  "route_peer option \<Rightarrow> route_peer option \<Rightarrow> (matched_by \<times> matched_by \<times> route_peer option) list" where
  "reference_tiers peer parentPeer =
     [(MBPeer, MBPeer, peer), (MBPeerParent, MBPeer, parentPeer), (MBPeerWildcard, MBPeerWildcard, peer),
      (MBGuildRoles, MBGuildRoles, peer), (MBGuild, MBGuild, peer), (MBTeam, MBTeam, peer),
      (MBAccount, MBAccount, peer), (MBChannel, MBChannel, peer)]"

definition reference_find ::
  "evaluated list \<Rightarrow> string \<Rightarrow> string \<Rightarrow> string list \<Rightarrow> matched_by \<Rightarrow> route_peer option \<Rightarrow> evaluated option" where
  "reference_find bs g tm roles cls peer =
     List.find (\<lambda>e. binding_class (ev_match e) = cls \<and>
        matchesBindingScope (ev_match e)
          \<lparr>sc_peer = peer, sc_guildId = g, sc_teamId = tm, sc_memberRoleIds = roles\<rparr>) bs"

fun reference_scan ::
  "evaluated list \<Rightarrow> string \<Rightarrow> string \<Rightarrow> string list \<Rightarrow> (matched_by \<times> matched_by \<times> route_peer option) list
    \<Rightarrow> (evaluated \<times> matched_by) option" where
  "reference_scan bs g tm roles [] = None"
| "reference_scan bs g tm roles ((by, cls, peer) # ts) =
     (case reference_find bs g tm roles cls peer of
        Some e \<Rightarrow> Some (e, by)
      | None \<Rightarrow> reference_scan bs g tm roles ts)"

definition reference_match :: "route_config \<Rightarrow> route_input \<Rightarrow> (evaluated \<times> matched_by) option" where
  "reference_match cfg i =
     reference_scan
       (relevant_bindings cfg (normalizeToken (Some (ri_channel i))) (normalizeAccountId (ri_accountId i)))
       (normalizeRouteBindingId (ri_guildId i)) (normalizeRouteBindingId (ri_teamId i))
       (js_or_else (ri_memberRoleIds i) [])
       (reference_tiers (map_option normalize_peer (ri_peer i)) (map_option normalize_peer (ri_parentPeer i)))"

subsection \<open>Buckets and merging\<close>

definition list_at :: "(string, evaluated list) js_map \<Rightarrow> string \<Rightarrow> evaluated list" where
  "list_at m k = js_or_else (jm_get m k) []"

lemma list_at_Nil [simp]: "list_at [] k = []"
  by (simp add: list_at_def jm_get_def)

lemma list_at_push: "list_at (push_to_list_map m key b) k = (if k = key then list_at m k @ [b] else list_at m k)"
  by (simp add: list_at_def push_to_list_map_def jm.get_put split: option.splits)

definition bucket_at :: "(string, bucket) js_map \<Rightarrow> string \<Rightarrow> bucket" where
  "bucket_at m c = js_or_else (jm_get m c) empty_bucket"

lemma bucket_at_set: "bucket_at (jm_set m c b) c' = (if c' = c then b else bucket_at m c')"
  by (simp add: bucket_at_def jm.get_put)

lemma fold_add_binding:
  "bk_byAnyAccount (bucket_at (fst (fold add_binding bs (m, n))) c) =
     bk_byAnyAccount (bucket_at m c) @
       filter (\<lambda>e. ev_channel e = c \<and> ev_any_account e) (evaluate_bindings n bs) \<and>
   list_at (bk_byAccount (bucket_at (fst (fold add_binding bs (m, n))) c)) k =
     list_at (bk_byAccount (bucket_at m c)) k @
       filter (\<lambda>e. ev_channel e = c \<and> \<not> ev_any_account e \<and> ev_account e = k) (evaluate_bindings n bs)"
proof (induction bs arbitrary: m n)
  case (Cons b bs)
  show ?case
  proof (cases "normalizeToken (bm_channel (rb_match b)) = []")
    case True
    then show ?thesis using Cons by (simp add: add_binding_def)
  next
    case False
    obtain m' where m': "add_binding b (m, n) = (m', Suc n)"
      using False by (auto simp: add_binding_def Let_def)
    show ?thesis using Cons [of m' "Suc n"] False m'
      by (auto simp: add_binding_def Let_def bucket_at_set list_at_push ev_channel_def ev_any_account_def
          ev_account_def bucket_at_def [symmetric])
  qed
qed simp

lemma evaluate_bindings_order:
  "sorted_wrt (\<lambda>a b. ev_order a < ev_order b) (evaluate_bindings n bs) \<and>
   (\<forall>e \<in> set (evaluate_bindings n bs). n \<le> ev_order e)"
proof (induction bs arbitrary: n)
  case (Cons b bs)
  show ?case using Cons [of n] Cons [of "Suc n"] by (auto simp: Suc_le_eq intro: less_imp_le)
qed simp

lemma merge_Nil [simp]: "merge_in_order xs [] = xs"
  by (cases xs) simp_all

lemma merge_smaller:
  "\<forall>y \<in> set ys. ev_order x < ev_order y \<Longrightarrow> merge_in_order (x # xs) ys = x # merge_in_order xs ys"
  by (cases ys) auto

lemma merge_smaller':
  "\<forall>x \<in> set xs. ev_order y < ev_order x \<Longrightarrow> merge_in_order xs (y # ys) = y # merge_in_order xs ys"
  by (cases xs) auto

lemma merge_filter:
  "sorted_wrt (\<lambda>a b. ev_order a < ev_order b) xs \<Longrightarrow> \<forall>x. \<not> (P x \<and> Q x) \<Longrightarrow>
   merge_in_order (filter P xs) (filter Q xs) = filter (\<lambda>x. P x \<or> Q x) xs"
proof (induction xs)
  case (Cons x xs)
  then have lt: "\<forall>y \<in> set (filter R xs). ev_order x < ev_order y" for R by auto
  have "P x \<Longrightarrow> \<not> Q x" using Cons.prems(2) by blast
  with Cons show ?case by (auto simp: merge_smaller [OF lt] merge_smaller' [OF lt])
qed simp

lemma merge_source_order: "mergeEvaluatedBindingsInSourceOrder xs ys = merge_in_order xs ys"
  by (simp add: mergeEvaluatedBindingsInSourceOrder_def)

lemma getEvaluatedBindings_relevant:
  "getEvaluatedBindingsForChannelAccount cfg channel accountId = relevant_bindings cfg channel accountId"
proof -
  let ?m = "buildEvaluatedBindingsByChannel cfg"
  let ?es = "evaluate_bindings 0 (listRouteBindings cfg)"
  let ?P = "\<lambda>e. ev_channel e = channel \<and> \<not> ev_any_account e \<and> ev_account e = accountId"
  let ?Q = "\<lambda>e. ev_channel e = channel \<and> ev_any_account e"
  have b: "bk_byAnyAccount (bucket_at ?m channel) = filter ?Q ?es"
    "list_at (bk_byAccount (bucket_at ?m channel)) accountId = filter ?P ?es"
    using fold_add_binding [of "listRouteBindings cfg" "[]" 0 channel accountId]
    by (simp_all add: buildEvaluatedBindingsByChannel_def bucket_at_def empty_bucket_def jm_get_def)
  have "getEvaluatedBindingsForChannelAccount cfg channel accountId =
    merge_in_order (list_at (bk_byAccount (bucket_at ?m channel)) accountId) (bk_byAnyAccount (bucket_at ?m channel))"
    by (simp add: getEvaluatedBindingsForChannelAccount_def merge_source_order bucket_at_def list_at_def
        empty_bucket_def jm_get_def Let_def split: option.splits)
  also have "\<dots> = filter (\<lambda>e. ?P e \<or> ?Q e) ?es"
    using evaluate_bindings_order by (auto simp: b intro!: merge_filter)
  also have "\<dots> = relevant_bindings cfg channel accountId"
    unfolding relevant_bindings_def by (rule filter_cong) auto
  finally show ?thesis .
qed

subsection \<open>The index\<close>

definition under_key :: "string \<Rightarrow> evaluated \<Rightarrow> bool" where
  "under_key key b =
     (case nm_peer (ev_match b) of PeerValid kind i \<Rightarrow> key \<in> set (peerLookupKeys kind i) | _ \<Rightarrow> False)"

lemma peerLookupKeys_distinct [simp]: "distinct (peerLookupKeys kind i)"
  by (simp add: peerLookupKeys_def)

lemma peerLookupKeys_ne: "key \<in> set (peerLookupKeys kind i) \<Longrightarrow> key \<noteq> []"
  by (auto simp: peerLookupKeys_def chat_type_text_def split: if_splits chat_type.splits)

lemma list_at_push_index:
  "list_at (pushToIndexMap m key b) k = (if key = Some k \<and> k \<noteq> [] then list_at m k @ [b] else list_at m k)"
  by (auto simp: pushToIndexMap_def js_truthy_str_def list_at_push split: option.splits)

lemma list_at_push_keys:
  "distinct ks \<Longrightarrow> [] \<notin> set ks \<Longrightarrow>
   list_at (fold (\<lambda>key mp. pushToIndexMap mp (Some key) b) ks m) k =
     (if k \<in> set ks then list_at m k @ [b] else list_at m k)"
  by (induction ks arbitrary: m) (auto simp: list_at_push_index)

lemma list_at_push_peer:
  "list_at (fold (\<lambda>key mp. pushToIndexMap mp (Some key) b) (peerLookupKeys kind i) m) k =
     (if k \<in> set (peerLookupKeys kind i) then list_at m k @ [b] else list_at m k)"
  using peerLookupKeys_ne by (intro list_at_push_keys) auto

definition wf_match :: "norm_match \<Rightarrow> bool" where
  "wf_match m = (nm_guildId m \<noteq> Some [] \<and> nm_teamId m \<noteq> Some [] \<and> nm_roles m \<noteq> Some [] \<and>
     (\<forall>kind i. nm_peer m = PeerValid kind i \<longrightarrow> i \<noteq> []))"

lemma normalizeBindingMatch_wf: "wf_match (normalizeBindingMatch m)"
  by (auto simp: wf_match_def normalizeBindingMatch_def none_if_empty_def normalizeRouteBindingRoles_def
      normalizePeerConstraint_def Let_def split: option.splits if_splits)

lemma fold_add_to_index:
  "list_at (ix_byPeer (fold add_to_index bs ix)) k = list_at (ix_byPeer ix) k @ filter (under_key k) bs"
  "ix_byPeerWildcard (fold add_to_index bs ix) =
     ix_byPeerWildcard ix @ filter (\<lambda>b. binding_class (ev_match b) = MBPeerWildcard) bs"
  "k \<noteq> [] \<Longrightarrow> list_at (ix_byGuildWithRoles (fold add_to_index bs ix)) k =
     list_at (ix_byGuildWithRoles ix) k @
       filter (\<lambda>b. binding_class (ev_match b) = MBGuildRoles \<and> nm_guildId (ev_match b) = Some k) bs"
  "k \<noteq> [] \<Longrightarrow> list_at (ix_byGuild (fold add_to_index bs ix)) k =
     list_at (ix_byGuild ix) k @
       filter (\<lambda>b. binding_class (ev_match b) = MBGuild \<and> nm_guildId (ev_match b) = Some k) bs"
  "k \<noteq> [] \<Longrightarrow> list_at (ix_byTeam (fold add_to_index bs ix)) k =
     list_at (ix_byTeam ix) k @
       filter (\<lambda>b. binding_class (ev_match b) = MBTeam \<and> nm_teamId (ev_match b) = Some k) bs"
  "ix_byAccount (fold add_to_index bs ix) =
     ix_byAccount ix @ filter (\<lambda>b. binding_class (ev_match b) = MBAccount) bs"
  "ix_byChannel (fold add_to_index bs ix) =
     ix_byChannel ix @ filter (\<lambda>b. binding_class (ev_match b) = MBChannel) bs"
  by (induction bs arbitrary: ix;
      force simp: add_to_index_def binding_class_def under_key_def list_at_push_index list_at_push_peer Let_def
      split: peer_constraint.splits)+

lemmas index_lists = fold_add_to_index [where ix = empty_index, folded buildEvaluatedBindingsIndex_def,
  unfolded empty_index_def, simplified]

subsection \<open>Candidates of the peer tiers\<close>

lemma fold_dedupe:
  "distinct ms \<Longrightarrow> fold (\<lambda>m acc. if m \<in> set acc then acc else acc @ [m]) ms acc =
     acc @ filter (\<lambda>m. m \<notin> set acc) ms"
proof (induction ms arbitrary: acc)
  case (Cons m ms)
  then have "filter (\<lambda>x. x \<noteq> m \<and> x \<notin> set acc) ms = filter (\<lambda>x. x \<notin> set acc) ms"
    by (intro filter_cong) auto
  with Cons show ?case by auto
qed simp

definition peer_fits :: "route_peer \<Rightarrow> evaluated \<Rightarrow> bool" where
  "peer_fits p b =
     (case nm_peer (ev_match b) of
        PeerValid kind i \<Rightarrow> peerKindMatches kind (peer_kind p) \<and> i = peer_id p | _ \<Rightarrow> False)"

lemma under_key_fits:
  "key \<in> set (peerLookupKeys (peer_kind p) (peer_id p)) \<Longrightarrow> under_key key b = peer_fits p b"
  by (cases "peer_kind p"; cases "nm_peer (ev_match b)")
    (auto simp: under_key_def peer_fits_def peerLookupKeys_def peerKindMatches_def chat_type_text_def
      split: chat_type.splits if_splits)

lemma fold_dedupe_keys:
  assumes at: "\<And>key. key \<in> set ks \<Longrightarrow> list_at m key = ms" and d: "distinct ms"
  shows "fold (\<lambda>key out.
      (case jm_get m key of None \<Rightarrow> out
       | Some matches \<Rightarrow> fold (\<lambda>m acc. if m \<in> set acc then acc else acc @ [m]) matches out)) ks out =
    (if ks = [] then out else out @ filter (\<lambda>m. m \<notin> set out) ms)"
  using at
proof (induction ks arbitrary: out)
  case (Cons key ks)
  have step: "(case jm_get m key of None \<Rightarrow> out
       | Some matches \<Rightarrow> fold (\<lambda>m acc. if m \<in> set acc then acc else acc @ [m]) matches out) =
     out @ filter (\<lambda>m. m \<notin> set out) ms"
    using Cons.prems [of key] d by (auto simp: list_at_def fold_dedupe split: option.splits)
  show ?case using Cons by (auto simp: step filter_empty_conv)
qed simp

lemma collectPeer_filter:
  "distinct bs \<Longrightarrow> collectPeerIndexedBindings (buildEvaluatedBindingsIndex bs) (Some p) = filter (peer_fits p) bs"
proof -
  assume d: "distinct bs"
  have ne: "peerLookupKeys (peer_kind p) (peer_id p) \<noteq> []" by (simp add: peerLookupKeys_def)
  have "list_at (ix_byPeer (buildEvaluatedBindingsIndex bs)) key = filter (peer_fits p) bs"
    if "key \<in> set (peerLookupKeys (peer_kind p) (peer_id p))" for key
    using under_key_fits [OF that] by (simp add: index_lists cong: filter_cong)
  from fold_dedupe_keys [OF this] d ne show ?thesis
    by (simp add: collectPeerIndexedBindings_def)
qed

lemma find_filter: "List.find P (filter C xs) = List.find (\<lambda>x. C x \<and> P x) xs"
  by (induction xs) auto

lemma find_cong_set: "(\<And>x. x \<in> set xs \<Longrightarrow> P x = Q x) \<Longrightarrow> List.find P xs = List.find Q xs"
  by (induction xs) auto

lemma find_none: "(\<And>x. x \<in> set xs \<Longrightarrow> \<not> P x) \<Longrightarrow> List.find P xs = None"
  by (induction xs) auto


subsection \<open>Index and scan agree\<close>

lemma evaluate_bindings_match:
  "e \<in> set (evaluate_bindings n bs) \<Longrightarrow> ev_match e = normalizeBindingMatch (rb_match (ev_binding e)) \<and> ev_binding e \<in> set bs"
  by (induction bs arbitrary: n) (auto split: if_splits)

lemma relevant_wf: "e \<in> set (relevant_bindings cfg c a) \<Longrightarrow> wf_match (ev_match e)"
  by (auto simp: relevant_bindings_def normalizeBindingMatch_wf dest: evaluate_bindings_match)

lemma sorted_order_distinct:
  "sorted_wrt (\<lambda>a b. ev_order a < ev_order b) es \<Longrightarrow> distinct es"
  by (induction es) auto

lemma relevant_distinct: "distinct (relevant_bindings cfg c a)"
  by (rule sorted_order_distinct)
    (simp add: relevant_bindings_def evaluate_bindings_order sorted_wrt_filter)

lemma scope_exact:
  "js_trim g = g \<Longrightarrow> c \<noteq> Some [] \<Longrightarrow> scopeIdMatches c g [] \<longleftrightarrow> c = None \<or> c = Some g"
  by (auto simp: scopeIdMatches_def js_truthy_str_def split: option.splits)

lemma scope_fields:
  assumes "wf_match m" "js_trim g = g" "js_trim tm = tm"
  shows "routeBindingScopeMatches m \<lparr>sc_peer = p, sc_guildId = g, sc_teamId = tm, sc_memberRoleIds = roles\<rparr> \<longleftrightarrow>
    (nm_guildId m = None \<or> nm_guildId m = Some g) \<and> (nm_teamId m = None \<or> nm_teamId m = Some tm) \<and>
    (case nm_roles m of None \<Rightarrow> True | Some rs \<Rightarrow> \<exists>r \<in> set rs. r \<in> set roles)"
  using assms by (auto simp: routeBindingScopeMatches_def Let_def scope_exact wf_match_def
      normalizeRouteBindingRoles_def list_ex_iff split: option.splits)

definition tier_agrees :: "evaluated list \<Rightarrow> string \<Rightarrow> string \<Rightarrow> string list \<Rightarrow> tier \<Rightarrow>
    matched_by \<times> matched_by \<times> route_peer option \<Rightarrow> bool" where
  "tier_agrees bs g tm roles t r =
     (t_matchedBy t = fst r \<and>
      tier_match g tm roles t = reference_find bs g tm roles (fst (snd r)) (snd (snd r)))"

lemma tiers_agree_scan:
  "list_all2 (tier_agrees bs g tm roles) ts rs \<Longrightarrow>
   first_tier_match g tm roles ts = reference_scan bs g tm roles rs"
  by (induction rule: list_all2_induct) (auto simp: tier_agrees_def split: option.splits prod.splits)

text \<open>One tier: it agrees when its candidates are the bindings of its class, as far as the scope test sees.\<close>

abbreviation in_scope :: "string \<Rightarrow> string \<Rightarrow> string list \<Rightarrow> route_peer option \<Rightarrow> evaluated \<Rightarrow> bool" where
  "in_scope g tm roles peer e \<equiv> matchesBindingScope (ev_match e)
     \<lparr>sc_peer = peer, sc_guildId = g, sc_teamId = tm, sc_memberRoleIds = roles\<rparr>"

lemma tier_agreesI:
  assumes "cands = filter C bs"
    and eq: "\<And>e. e \<in> set bs \<Longrightarrow> (en \<and> C e \<and> pr e \<and> in_scope g tm roles peer' e) =
      (binding_class (ev_match e) = cls \<and> in_scope g tm roles peer e)"
  shows "tier_agrees bs g tm roles
    \<lparr>t_matchedBy = by, t_enabled = en, t_scopePeer = peer', t_candidates = cands, t_predicate = pr\<rparr> (by, cls, peer)"
proof (cases en)
  case True
  with assms show ?thesis
    by (auto simp: tier_agrees_def tier_match_def reference_find_def find_filter intro!: find_cong_set)
next
  case False
  have "reference_find bs g tm roles cls peer = None"
    unfolding reference_find_def by (rule find_none) (use eq False in blast)
  with False show ?thesis by (simp add: tier_agrees_def tier_match_def)
qed

lemmas class_simps = binding_class_def matchesBindingScope_def peer_state_valid_def peer_state_wildcard_def
  hasGuildConstraint_def hasTeamConstraint_def hasRolesConstraint_def js_truthy_str_def

definition scan_ok :: "evaluated list \<Rightarrow> string \<Rightarrow> string \<Rightarrow> bool" where
  "scan_ok bs g tm = (distinct bs \<and> (\<forall>e \<in> set bs. wf_match (ev_match e)) \<and> js_trim g = g \<and> js_trim tm = tm)"

lemma collectPeer_option:
  "distinct bs \<Longrightarrow> collectPeerIndexedBindings (buildEvaluatedBindingsIndex bs) peer =
     filter (\<lambda>e. case peer of None \<Rightarrow> False | Some p \<Rightarrow> peer_fits p e) bs"
  by (cases peer) (simp_all add: collectPeer_filter, simp add: collectPeerIndexedBindings_def)

lemma tier_peer:
  assumes ok: "scan_ok bs g tm"
    and off: "\<And>p. peer = Some p \<Longrightarrow> \<not> en \<Longrightarrow> peer_id p = []" and on: "en \<Longrightarrow> peer' = peer"
  shows "tier_agrees bs g tm roles
    \<lparr>t_matchedBy = by, t_enabled = en, t_scopePeer = peer',
     t_candidates = collectPeerIndexedBindings (buildEvaluatedBindingsIndex bs) peer,
     t_predicate = peer_state_valid\<rparr> (by, MBPeer, peer)"
proof (rule tier_agreesI)
  show "collectPeerIndexedBindings (buildEvaluatedBindingsIndex bs) peer =
      filter (\<lambda>e. case peer of None \<Rightarrow> False | Some p \<Rightarrow> peer_fits p e) bs"
    using ok by (simp add: collectPeer_option scan_ok_def)
  fix e assume "e \<in> set bs"
  with ok have wf: "wf_match (ev_match e)" by (simp add: scan_ok_def)
  show "(en \<and> (case peer of None \<Rightarrow> False | Some p \<Rightarrow> peer_fits p e) \<and> peer_state_valid e \<and>
      in_scope g tm roles peer' e) = (binding_class (ev_match e) = MBPeer \<and> in_scope g tm roles peer e)"
    using wf off on
    by (cases peer; cases "nm_peer (ev_match e)"; cases en)
      (auto simp: class_simps peer_fits_def wf_match_def split: if_splits)
qed

lemma tier_wildcard:
  "tier_agrees bs g tm roles
    \<lparr>t_matchedBy = MBPeerWildcard, t_enabled = (peer \<noteq> None), t_scopePeer = peer,
     t_candidates = ix_byPeerWildcard (buildEvaluatedBindingsIndex bs), t_predicate = peer_state_wildcard\<rparr>
    (MBPeerWildcard, MBPeerWildcard, peer)"
  by (rule tier_agreesI [OF index_lists(2)])
    (auto simp: class_simps split: peer_constraint.splits option.splits if_splits)

lemma index_at:
  "(if k \<noteq> [] then js_or_else (jm_get m k) [] else []) = (if k \<noteq> [] then list_at m k else [])"
  by (simp add: list_at_def)

lemma keyed_candidates:
  "(k \<noteq> [] \<Longrightarrow> list_at m k = filter C bs) \<Longrightarrow>
   (if k \<noteq> [] then js_or_else (jm_get m k) [] else []) = filter (\<lambda>e. k \<noteq> [] \<and> C e) bs"
  by (auto simp: list_at_def)

lemma tier_guild_roles:
  assumes ok: "scan_ok bs g tm"
  shows "tier_agrees bs g tm roles
    \<lparr>t_matchedBy = MBGuildRoles, t_enabled = (g \<noteq> [] \<and> roles \<noteq> []), t_scopePeer = peer,
     t_candidates = (if g \<noteq> [] then js_or_else (jm_get (ix_byGuildWithRoles (buildEvaluatedBindingsIndex bs)) g) [] else []),
     t_predicate = (\<lambda>c. hasGuildConstraint (ev_match c) \<and> hasRolesConstraint (ev_match c))\<rparr>
    (MBGuildRoles, MBGuildRoles, peer)"
proof (rule tier_agreesI [OF keyed_candidates [OF index_lists(3)]])
  fix e assume "e \<in> set bs"
  with ok have wf: "wf_match (ev_match e)" "js_trim g = g" "js_trim tm = tm" by (simp_all add: scan_ok_def)
  then show "((g \<noteq> [] \<and> roles \<noteq> []) \<and>
      (g \<noteq> [] \<and> binding_class (ev_match e) = MBGuildRoles \<and> nm_guildId (ev_match e) = Some g) \<and>
      (hasGuildConstraint (ev_match e) \<and> hasRolesConstraint (ev_match e)) \<and> in_scope g tm roles peer e) =
    (binding_class (ev_match e) = MBGuildRoles \<and> in_scope g tm roles peer e)"
    by (auto simp: class_simps scope_fields [OF wf] wf_match_def
        split: peer_constraint.splits option.splits if_splits)
qed

lemma tier_guild:
  assumes ok: "scan_ok bs g tm"
  shows "tier_agrees bs g tm roles
    \<lparr>t_matchedBy = MBGuild, t_enabled = (g \<noteq> []), t_scopePeer = peer,
     t_candidates = (if g \<noteq> [] then js_or_else (jm_get (ix_byGuild (buildEvaluatedBindingsIndex bs)) g) [] else []),
     t_predicate = (\<lambda>c. hasGuildConstraint (ev_match c) \<and> \<not> hasRolesConstraint (ev_match c))\<rparr>
    (MBGuild, MBGuild, peer)"
proof (rule tier_agreesI [OF keyed_candidates [OF index_lists(4)]])
  fix e assume "e \<in> set bs"
  with ok have wf: "wf_match (ev_match e)" "js_trim g = g" "js_trim tm = tm" by (simp_all add: scan_ok_def)
  then show "((g \<noteq> []) \<and>
      (g \<noteq> [] \<and> binding_class (ev_match e) = MBGuild \<and> nm_guildId (ev_match e) = Some g) \<and>
      (hasGuildConstraint (ev_match e) \<and> \<not> hasRolesConstraint (ev_match e)) \<and> in_scope g tm roles peer e) =
    (binding_class (ev_match e) = MBGuild \<and> in_scope g tm roles peer e)"
    by (auto simp: class_simps scope_fields [OF wf] wf_match_def
        split: peer_constraint.splits option.splits if_splits)
qed

lemma tier_team:
  assumes ok: "scan_ok bs g tm"
  shows "tier_agrees bs g tm roles
    \<lparr>t_matchedBy = MBTeam, t_enabled = (tm \<noteq> []), t_scopePeer = peer,
     t_candidates = (if tm \<noteq> [] then js_or_else (jm_get (ix_byTeam (buildEvaluatedBindingsIndex bs)) tm) [] else []),
     t_predicate = (\<lambda>c. hasTeamConstraint (ev_match c))\<rparr>
    (MBTeam, MBTeam, peer)"
proof (rule tier_agreesI [OF keyed_candidates [OF index_lists(5)]])
  fix e assume "e \<in> set bs"
  with ok have wf: "wf_match (ev_match e)" "js_trim g = g" "js_trim tm = tm" by (simp_all add: scan_ok_def)
  then show "((tm \<noteq> []) \<and>
      (tm \<noteq> [] \<and> binding_class (ev_match e) = MBTeam \<and> nm_teamId (ev_match e) = Some tm) \<and>
      hasTeamConstraint (ev_match e) \<and> in_scope g tm roles peer e) =
    (binding_class (ev_match e) = MBTeam \<and> in_scope g tm roles peer e)"
    by (auto simp: class_simps scope_fields [OF wf] wf_match_def
        split: peer_constraint.splits option.splits if_splits)
qed

lemma tier_account:
  "tier_agrees bs g tm roles
    \<lparr>t_matchedBy = MBAccount, t_enabled = True, t_scopePeer = peer,
     t_candidates = ix_byAccount (buildEvaluatedBindingsIndex bs),
     t_predicate = (\<lambda>c. nm_accountPattern (ev_match c) \<noteq> ''*'')\<rparr> (MBAccount, MBAccount, peer)"
  by (rule tier_agreesI [OF index_lists(6)])
    (auto simp: binding_class_def split: peer_constraint.splits if_splits)

lemma tier_channel:
  "tier_agrees bs g tm roles
    \<lparr>t_matchedBy = MBChannel, t_enabled = True, t_scopePeer = peer,
     t_candidates = ix_byChannel (buildEvaluatedBindingsIndex bs),
     t_predicate = (\<lambda>c. nm_accountPattern (ev_match c) = ''*'')\<rparr> (MBChannel, MBChannel, peer)"
  by (rule tier_agreesI [OF index_lists(7)])
    (auto simp: binding_class_def split: peer_constraint.splits if_splits)

lemma route_tiers_agree:
  assumes ok: "scan_ok bs g tm"
  shows "list_all2 (tier_agrees bs g tm roles)
    (route_tiers (buildEvaluatedBindingsIndex bs) peer parentPeer g tm roles) (reference_tiers peer parentPeer)"
  unfolding route_tiers_def reference_tiers_def Let_def list_all2_Cons list_all2_Nil
proof (intro conjI)
qed (rule TrueI tier_wildcard tier_guild_roles [OF ok] tier_guild [OF ok] tier_team [OF ok] tier_account tier_channel
    tier_peer [OF ok] | force split: option.splits)+

lemma selected_reference: "selected_binding cfg i = reference_match cfg i"
proof -
  let ?c = "normalizeToken (Some (ri_channel i))" and ?a = "normalizeAccountId (ri_accountId i)"
  let ?g = "normalizeRouteBindingId (ri_guildId i)" and ?t = "normalizeRouteBindingId (ri_teamId i)"
  have "scan_ok (relevant_bindings cfg ?c ?a) ?g ?t"
    by (auto simp: scan_ok_def relevant_distinct normalizeRouteBindingId_def intro: relevant_wf split: option.splits)
  from tiers_agree_scan [OF route_tiers_agree [OF this]] show ?thesis
    by (simp add: selected_binding_def reference_match_def getEvaluatedBindings_relevant Let_def)
qed

end
