(* ===== verification/Routing_Properties.thy ===== *)
theory Routing_Properties
  imports Resolve_Route_Spec
begin

text \<open>
  What the routing components promise together: the session key that a route carries
  names the agent that answers, the agent is one the configuration knows, keys built and
  keys parsed agree, and the account caches never change an answer.
\<close>

subsection \<open>Parsing a built key\<close>

lemma js_trim_start_Cons: "\<not> js_is_space c \<Longrightarrow> js_trim_start (c # s) = c # s"
  by (simp add: js_trim_start_def)

lemma js_trim_end_append: "js_trim_end y \<noteq> [] \<Longrightarrow> js_trim_end (x @ y) = x @ js_trim_end y"
  by (auto simp: js_trim_end_def dropWhile_append)

lemma js_trim_end_keeps: "c \<in> set s \<Longrightarrow> \<not> js_is_space c \<Longrightarrow> c \<in> set (js_trim_end s)"
proof -
  assume c: "c \<in> set s" "\<not> js_is_space c"
  have "rev s = takeWhile js_is_space (rev s) @ dropWhile js_is_space (rev s)" by simp
  then have "c \<in> set (takeWhile js_is_space (rev s)) \<or> c \<in> set (dropWhile js_is_space (rev s))"
    using c(1) by (metis Un_iff set_append set_rev)
  with c(2) show ?thesis by (auto simp: js_trim_end_def dest: set_takeWhileD)
qed

lemma filter_split_ne:
  "c \<in> set s \<Longrightarrow> c \<noteq> d \<Longrightarrow> filter (\<lambda>p. p \<noteq> []) (js_split d s) \<noteq> []"
proof (induction s)
  case (Cons x s)
  then show ?case by (cases "js_split d s") auto
qed simp

lemma js_join_ne: "ps \<noteq> [] \<Longrightarrow> \<forall>p \<in> set ps. p \<noteq> [] \<Longrightarrow> js_join sep ps \<noteq> []"
  by (induction sep ps rule: js_join.induct) auto

lemma split_agent_key:
  "safe_id a \<Longrightarrow> js_split CHR '':'' (''agent:'' @ a @ '':'' @ rest) = ''agent'' # a # js_split CHR '':'' rest"
proof -
  assume a: "safe_id a"
  then have "CHR '':'' \<notin> set a" using id_char_not_colon by (fastforce simp: safe_id_def list_all_iff)
  then show ?thesis
    using js_split_append [of "CHR '':''" "''agent''" "a @ CHR '':'' # rest"] js_split_append [of "CHR '':''" a rest]
    by simp
qed

lemma lower_lit: "js_lower ''agent:'' = ''agent:''" "js_lower '':'' = '':''"
  by code_simp+

lemma parse_agent_key:
  assumes a: "safe_id a" and c: "c \<in> set rest" "\<not> js_is_space c" "c \<noteq> CHR '':''" and low: "js_lower rest = rest"
  shows "parseAgentSessionKey (Some (''agent:'' @ a @ '':'' @ rest)) =
     Some \<lparr>pk_agentId = a, pk_rest = js_join '':'' (filter (\<lambda>p. p \<noteq> []) (js_split CHR '':'' (js_trim_end rest)))\<rparr>"
proof -
  let ?r = "js_trim_end rest" and ?key = "''agent:'' @ a @ '':'' @ rest"
  have cr: "c \<in> set ?r" using c js_trim_end_keeps by blast
  then have rne: "?r \<noteq> []" by auto
  have "js_lower ?key = ?key"
    using safe_id_facts(3) [OF a] low by (simp only: js_lower_append) (simp add: lower_lit)
  moreover have "js_trim_end ?key = ''agent:'' @ a @ '':'' @ ?r"
    using js_trim_end_append [OF rne, of "''agent:'' @ a @ '':''"] by simp
  then have "js_trim ?key = ''agent:'' @ a @ '':'' @ ?r"
    by (simp add: js_trim_def js_trim_start_Cons js_is_space_def js_code_def)
  ultimately have raw: "normalizeOptionalLowercaseString (js_opt (Some ?key)) = Some (''agent:'' @ a @ '':'' @ ?r)"
    by (simp add: normalizeOptionalLowercaseString_def normalizeOptionalString_def normalizeNullableString_def
        js_opt_def string_simps)
      (metis append.assoc js_lower_trim)
  let ?parts = "filter (\<lambda>p. p \<noteq> []) (js_split CHR '':'' ?r)"
  have pne: "?parts \<noteq> []" using filter_split_ne [OF cr c(3)] .
  have ane: "a \<noteq> []" using a by (simp add: safe_id_def)
  have parts: "filter (\<lambda>p. p \<noteq> []) (js_split CHR '':'' (''agent:'' @ a @ '':'' @ ?r)) = ''agent'' # a # ?parts"
    by (simp only: split_agent_key [OF a]) (simp add: ane)
  have "js_join '':'' ?parts \<noteq> []"
    by (rule js_join_ne [OF pne]) simp
  then show ?thesis
    unfolding parseAgentSessionKey_def raw option.case Let_def parts
    using pne a by (cases ?parts) (auto simp: normalizeOptionalString_def normalizeNullableString_def safe_id_facts ane)
qed

text \<open>What makes the part after the agent survive the round trip.\<close>

definition keyed_rest :: "string \<Rightarrow> bool" where
  "keyed_rest r = (js_lower r = r \<and> (\<exists>c \<in> set r. \<not> js_is_space c \<and> c \<noteq> CHR '':''))"

lemma keyed_rest_append: "js_lower x = x \<Longrightarrow> keyed_rest y \<Longrightarrow> keyed_rest (x @ y)"
  "keyed_rest x \<Longrightarrow> js_lower y = y \<Longrightarrow> keyed_rest (x @ y)"
  by (auto simp: keyed_rest_def)

lemma chat_type_lower: "js_lower (chat_type_text k) = chat_type_text k" "keyed_rest (chat_type_text k)"
proof -
  have "js_lower ''direct'' = ''direct''" "js_lower ''group'' = ''group''" "js_lower ''channel'' = ''channel''"
    by code_simp+
  then show "js_lower (chat_type_text k) = chat_type_text k" "keyed_rest (chat_type_text k)"
    by (cases k; simp add: chat_type_text_def keyed_rest_def js_is_space_def js_code_def)+
qed

lemma key_lits: "js_lower '':'' = '':''" "js_lower ''unknown'' = ''unknown''" "keyed_rest '':direct:''"
  "keyed_rest ''direct:''" "keyed_rest ''main''"
proof -
  show "js_lower '':'' = '':''" "js_lower ''unknown'' = ''unknown''" by code_simp+
  have "js_lower '':direct:'' = '':direct:''" "js_lower ''direct:'' = ''direct:''" "js_lower ''main'' = ''main''"
    by code_simp+
  then show "keyed_rest '':direct:''" "keyed_rest ''direct:''" "keyed_rest ''main''"
    by (simp_all add: keyed_rest_def js_is_space_def js_code_def)
qed

lemma main_key_default: "normalizeMainKey (Some DEFAULT_MAIN_KEY) = ''main''"
  by code_simp

lemma normalize_lower [simp]: "js_lower (normalizeLowercaseStringOrEmpty v) = normalizeLowercaseStringOrEmpty v"
  by (cases "normalizeOptionalString v")
    (simp_all add: normalizeLowercaseStringOrEmpty_def normalizeOptionalLowercaseString_def)

lemma nonempty_or_lower: "js_lower x = x \<Longrightarrow> js_lower d = d \<Longrightarrow> js_lower (nonempty_or x d) = nonempty_or x d"
  by (simp add: nonempty_or_def)

definition agent_key :: "string \<Rightarrow> string \<Rightarrow> bool" where
  "agent_key a key = (\<exists>rest. keyed_rest rest \<and> key = ''agent:'' @ a @ '':'' @ rest)"

lemma agent_keyI: "keyed_rest rest \<Longrightarrow> agent_key a (''agent:'' @ a @ '':'' @ rest)"
  "keyed_rest (''direct:'' @ rest) \<Longrightarrow> agent_key a (''agent:'' @ a @ '':direct:'' @ rest)"
  by (auto simp: agent_key_def intro!: exI [of _ "''direct:'' @ rest"])

lemma agent_key_if: "agent_key a x \<Longrightarrow> agent_key a y \<Longrightarrow> agent_key a (if c then x else y)"
  by simp

lemma peer_key_shape:
  assumes "pk_mainKey p = Some DEFAULT_MAIN_KEY"
  shows "agent_key (normalizeAgentId (Some (pk_agent p))) (buildAgentPeerSessionKey p)"
proof -
  have ch: "js_lower (nonempty_or (normalizeLowercaseStringOrEmpty (JStr (pk_channel p))) ''unknown'') =
      nonempty_or (normalizeLowercaseStringOrEmpty (JStr (pk_channel p))) ''unknown''"
    by (intro nonempty_or_lower normalize_lower key_lits)
  have peer: "js_lower (nonempty_or (normalizeLowercaseStringOrEmpty v) ''unknown'') =
      nonempty_or (normalizeLowercaseStringOrEmpty v) ''unknown''" for v
    by (intro nonempty_or_lower normalize_lower key_lits)
  have acc: "js_lower (normalizeAccountId (pk_account p)) = normalizeAccountId (pk_account p)"
    by (simp add: safe_id_facts normalizeAccountId_safe)
  note rules = keyed_rest_append(1) [OF ch] keyed_rest_append(1) [OF key_lits(1)]
    keyed_rest_append(1) [OF acc] keyed_rest_append(2) [OF key_lits(3)] keyed_rest_append(2) [OF key_lits(4)]
    keyed_rest_append(2) [OF chat_type_lower(2)]
  have tail: "js_lower ('':'' @ nonempty_or (normalizeLowercaseStringOrEmpty v) ''unknown'') =
      '':'' @ nonempty_or (normalizeLowercaseStringOrEmpty v) ''unknown''" for v
    by (simp only: js_lower_append key_lits peer)
  show ?thesis
    unfolding buildAgentPeerSessionKey_def Let_def buildAgentMainSessionKey_def assms append.assoc main_key_default
    by (intro agent_key_if agent_keyI rules normalize_lower key_lits(5) tail)
qed

lemma parse_normalized: "parseAgentSessionKey (Some (normalizeLowercaseStringOrEmpty (JStr s))) = parseAgentSessionKey (Some s)"
proof -
  have "normalizeOptionalLowercaseString (JStr (js_lower (js_trim s))) = normalizeOptionalLowercaseString (JStr s)"
    by (simp add: normalizeOptionalLowercaseString_def normalizeOptionalString_def normalizeNullableString_def
        js_lower_trim)
  then show ?thesis by (simp add: parseAgentSessionKey_def)
qed

lemma parse_keyed:
  assumes "safe_id a" "keyed_rest r"
  shows "\<exists>p. parseAgentSessionKey (Some (''agent:'' @ a @ '':'' @ r)) = Some p \<and> pk_agentId p = a"
  using assms parse_agent_key [OF assms(1)] by (fastforce simp: keyed_rest_def)

lemma parse_agent_normalized:
  "agent_key a key \<Longrightarrow> safe_id a \<Longrightarrow>
   \<exists>p. parseAgentSessionKey (Some (normalizeLowercaseStringOrEmpty (JStr key))) = Some p \<and> pk_agentId p = a"
  unfolding parse_normalized using parse_keyed by (auto simp only: agent_key_def)

lemma main_key_facts:
  "normalizeMainKey k \<noteq> []" "js_trim (normalizeMainKey k) = normalizeMainKey k"
  "js_lower (normalizeMainKey k) = normalizeMainKey k"
proof -
  let ?n = "normalizeLowercaseStringOrEmpty (js_opt k)"
  have n: "js_trim ?n = ?n" by (cases k) (simp_all add: js_lower_trim)
  have "js_trim DEFAULT_MAIN_KEY = DEFAULT_MAIN_KEY" "js_lower DEFAULT_MAIN_KEY = DEFAULT_MAIN_KEY"
    "DEFAULT_MAIN_KEY \<noteq> []" by code_simp+
  with n show "normalizeMainKey k \<noteq> []" "js_trim (normalizeMainKey k) = normalizeMainKey k"
    "js_lower (normalizeMainKey k) = normalizeMainKey k"
    by (simp_all add: normalizeMainKey_def nonempty_or_def)
qed

subsection \<open>Agents of the configuration\<close>

definition configured_agents :: "route_config \<Rightarrow> string set" where
  "configured_agents cfg =
     {normalizeAgentId (Some (js_trim raw)) | raw a. a \<in> set (rc_agents cfg) \<and> ae_id a = Some raw \<and> js_trim raw \<noteq> []}"

definition lookup_add :: "agent_entry \<Rightarrow> (string, string) js_map \<Rightarrow> (string, string) js_map" where
  "lookup_add agent m =
     (let rawId = js_trim (js_or_else (ae_id agent) []) in
      if rawId = [] then m
      else jm_set m (normalizeAgentId (Some rawId)) (sanitizeAgentId (Some rawId)))"

lemma lookup_fold: "al_byNormalizedId (resolveAgentLookupCache cfg) = fold lookup_add (rc_agents cfg) []"
  by (simp add: resolveAgentLookupCache_def lookup_add_def [abs_def])

lemma lookup_values:
  "(k, v) \<in> set (fold lookup_add as m0) \<Longrightarrow> (k, v) \<in> set m0 \<or>
   (\<exists>a \<in> set as. \<exists>raw. ae_id a = Some raw \<and> js_trim raw \<noteq> [] \<and> v = normalizeAgentId (Some (js_trim raw)))"
proof (induction as arbitrary: m0)
  case (Cons a as)
  then consider "(k, v) \<in> set (lookup_add a m0)"
    | "\<exists>a \<in> set as. \<exists>raw. ae_id a = Some raw \<and> js_trim raw \<noteq> [] \<and> v = normalizeAgentId (Some (js_trim raw))"
    by fastforce
  then show ?case
  proof cases
    case 1
    then show ?thesis
      by (cases "ae_id a") (auto simp: lookup_add_def Let_def sanitizeAgentId_def split: if_splits dest: jm_set_memD)
  qed auto
qed simp

lemma lookup_keeps: "jm_get m0 k \<noteq> None \<Longrightarrow> jm_get (fold lookup_add as m0) k \<noteq> None"
proof (induction as arbitrary: m0)
  case (Cons a as)
  have "jm_get (lookup_add a m0) k \<noteq> None" using Cons.prems by (auto simp: lookup_add_def Let_def jm.get_put)
  from Cons.IH [OF this] show ?case by simp
qed simp

lemma lookup_has:
  "a \<in> set as \<Longrightarrow> ae_id a = Some raw \<Longrightarrow> js_trim raw \<noteq> [] \<Longrightarrow>
   jm_get (fold lookup_add as m0) (normalizeAgentId (Some (js_trim raw))) \<noteq> None"
proof (induction as arbitrary: m0)
  case (Cons b as)
  show ?case
  proof (cases "a = b")
    case True
    then have "jm_get (lookup_add b m0) (normalizeAgentId (Some (js_trim raw))) \<noteq> None"
      using Cons.prems by (simp add: lookup_add_def jm.get_put Let_def)
    from lookup_keeps [OF this] show ?thesis by simp
  qed (use Cons in simp)
qed simp

lemma pick_existing:
  assumes "configured_agents cfg \<noteq> {}"
  shows "pickFirstExistingAgentId cfg a \<in> configured_agents cfg \<union> {normalizeAgentId (Some (resolveDefaultAgentId cfg))}"
proof -
  let ?m = "fold lookup_add (rc_agents cfg) []"
  from assms obtain k where "jm_get ?m k \<noteq> None"
    unfolding configured_agents_def using lookup_has by blast
  then have ne: "jm_size ?m \<noteq> 0" by (auto simp: jm_size_def jm_get_def)
  have val: "v \<in> configured_agents cfg" if "jm_get ?m k = Some v" for k v
    using lookup_values [OF jm_get_mem [OF that]] by (auto simp: configured_agents_def)
  have fb: "al_fallback (resolveAgentLookupCache cfg) = normalizeAgentId (Some (resolveDefaultAgentId cfg))"
    by (simp add: resolveAgentLookupCache_def sanitizeAgentId_def)
  show ?thesis
    using ne val unfolding pickFirstExistingAgentId_def Let_def lookup_fold fb
    by (auto simp: js_truthy_str_def split: option.splits)
qed

subsection \<open>Properties\<close>

text \<open>C1: \<open>resolveAgentRoute\<close>'s buckets per channel and account, their merge in source order, the index
  and the eight tiers select exactly the binding that a scan of all fitting bindings in source order
  finds, tier by tier in order of specificity, and report the tier it was found in.\<close>

theorem route_selection_first_match: "selected_binding cfg i = reference_match cfg i"
  by (rule selected_reference)

text \<open>C2: the session key of a resolved route parses, and names the agent the route was resolved to.\<close>

theorem route_key_names_agent:
  "\<exists>p. parseAgentSessionKey (Some (rr_sessionKey (resolveAgentRoute cfg i))) = Some p \<and>
       pk_agentId p = normalizeAgentId (Some (rr_agentId (resolveAgentRoute cfg i)))"
proof -
  have key: "agent_key (normalizeAgentId (Some a)) (buildAgentSessionKey a c acc peer d l)" for a c acc peer d l
    unfolding buildAgentSessionKey_def Let_def using peer_key_shape
      [of "\<lparr>pk_agent = a, pk_mainKey = Some DEFAULT_MAIN_KEY, pk_channel = _, pk_account = acc,
         pk_peerKind = _, pk_peerId = _, pk_links = l, pk_dmScope = d\<rparr>"] by simp
  show ?thesis
    using parse_agent_normalized [OF key normalizeAgentId_safe_id]
    by (cases "selected_binding cfg i")
      (auto simp: resolveAgentRoute_def choose_route_def Let_def simp del: normalizeLowercaseStringOrEmpty_str)
qed

text \<open>When the configuration lists an agent with an id, the route never leaves the configured
  agents and the default agent, whatever agent a binding names.\<close>

theorem route_agent_is_configured:
  "configured_agents cfg \<noteq> {} \<Longrightarrow>
   rr_agentId (resolveAgentRoute cfg i) \<in>
     configured_agents cfg \<union> {normalizeAgentId (Some (resolveDefaultAgentId cfg))}"
  by (cases "selected_binding cfg i")
    (simp_all add: resolveAgentRoute_def choose_route_def Let_def pick_existing [simplified] split: prod.splits)

theorem route_agent_is_configured_witness:
  "rr_agentId (resolveAgentRoute
      \<lparr>rc_bindings = [], rc_agents = [\<lparr>ae_id = Some ''Ops'', ae_default = True\<rparr>], rc_dmScope = None,
       rc_identityLinks = None\<rparr>
      \<lparr>ri_channel = ''telegram'', ri_accountId = None, ri_peer = None, ri_parentPeer = None, ri_guildId = None,
       ri_teamId = None, ri_memberRoleIds = None\<rparr>) = ''ops''"
proof -
  let ?cfg = "\<lparr>rc_bindings = [], rc_agents = [\<lparr>ae_id = Some ''Ops'', ae_default = True\<rparr>], rc_dmScope = None,
       rc_identityLinks = None\<rparr>"
  have t: "js_trim ''Ops'' = ''Ops''" and n: "normalizeAgentId (Some ''Ops'') = ''ops''"
    "normalizeAgentId (Some ''ops'') = ''ops''"
    by (simp_all add: normalizeAgentId_def id_eval)
  then have d: "normalizeAgentId (Some (resolveDefaultAgentId ?cfg)) = ''ops''"
    by (simp add: resolveDefaultAgentId_def nonempty_or_def Let_def)
  have "configured_agents ?cfg = {''ops''}" using t n by (auto simp: configured_agents_def)
  then show ?thesis using route_agent_is_configured [of ?cfg] d by simp
qed

text \<open>C3: every agent id that leaves \<open>normalizeAgentId\<close> is safe to use in paths and keys: not empty, at most
  64 characters, only lower-case letters, digits, underscores and dashes, not starting with a dash.\<close>

theorem normalizeAgentId_is_safe:
  "let a = normalizeAgentId v in a \<noteq> [] \<and> length a \<le> 64 \<and> list_all id_char a \<and> hd a \<noteq> CHR ''-''"
  using normalizeAgentId_safe_id [of v] by (simp add: safe_id_def Let_def)

text \<open>The bounded cache in front of account normalisation is transparent: any sequence of lookups,
  through evictions, returns what the uncached function returns.\<close>

theorem account_cache_transparent:
  "account_cache.lookups [] vs = map normalizeAccountId vs"
  by (rule account_cache.lookups_transparent) (simp_all add: account_cache_ok_def jm_size_def list_all_iff)

text \<open>Parsing a main session key returns the agent and the main key it was built from, provided
  that no segment of the main key is empty.\<close>

theorem main_key_roundtrip:
  assumes "list_all (\<lambda>p. p \<noteq> []) (js_split CHR '':'' (normalizeMainKey k))"
  shows "parseAgentSessionKey (Some (buildAgentMainSessionKey a k)) =
     Some \<lparr>pk_agentId = normalizeAgentId (Some a), pk_rest = normalizeMainKey k\<rparr>"
proof -
  let ?m = "normalizeMainKey k"
  have m: "?m \<noteq> []" "js_trim ?m = ?m" "js_lower ?m = ?m" by (rule main_key_facts)+
  then have hd: "hd ?m \<in> set ?m" "\<not> js_is_space (hd ?m)" using js_trim_hd [of ?m] by auto
  have "hd ?m \<noteq> CHR '':''" using m(1) assms by (cases ?m) auto
  moreover have "js_trim_end ?m = ?m" using m(2) js_trim_end_idem unfolding js_trim_def by metis
  moreover have "filter (\<lambda>p. p \<noteq> []) (js_split CHR '':'' ?m) = js_split CHR '':'' ?m"
    using assms by (simp add: filter_id_conv list_all_iff)
  ultimately show ?thesis
    using parse_agent_key [OF normalizeAgentId_safe_id hd(1) hd(2) _ m(3), of "Some a"]
    by (simp add: buildAgentMainSessionKey_def js_join_split)
qed

theorem main_key_roundtrip_witness:
  "parseAgentSessionKey (Some (buildAgentMainSessionKey ''Ops'' (Some '' Team:Desk '')))
     = Some \<lparr>pk_agentId = ''ops'', pk_rest = ''team:desk''\<rparr>"
proof -
  have "list_all (\<lambda>p. p \<noteq> []) (js_split CHR '':'' (normalizeMainKey (Some '' Team:Desk '')))"
    and "normalizeMainKey (Some '' Team:Desk '') = ''team:desk''"
    by code_simp+
  moreover have "normalizeAgentId (Some ''Ops'') = ''ops''" by (simp add: normalizeAgentId_def id_eval)
  ultimately show ?thesis using main_key_roundtrip [of "Some '' Team:Desk ''" "''Ops''"] by simp
qed

end
