(* ===== verification/Cron_Schedule.thy ===== *)
theory Cron_Schedule
  imports Session_Keys
begin

text \<open>
  When a schedule fires: \<open>src/cron/parse.ts\<close>, \<open>src/cron/schedule.ts\<close>,
  \<open>src/cron/stagger.ts\<close>, and the schedule type of \<open>src/cron/types.ts\<close>.

  What is not under \<open>src/\<close> is a field of \<open>cron_env\<close>: the cron-expression library
  (its constructor, the next and the previous run), \<open>Date.parse\<close>, the local time zone,
  SHA-256 and the URL parser. A schedule read from disk may hold anything, so its fields
  are unknown values; a legacy numeric \<open>atMs\<close> is a whole number of milliseconds.
\<close>

subsection \<open>The environment\<close>

datatype cron_date = NoDate | InvalidDate | DateMs ms

record cron_env =
  ce_cron_new :: "string \<Rightarrow> string \<Rightarrow> unit fallible"
  ce_next_run :: "string \<Rightarrow> string \<Rightarrow> ms \<Rightarrow> cron_date fallible"
  ce_previous_run :: "string \<Rightarrow> string \<Rightarrow> ms \<Rightarrow> cron_date fallible"
  ce_date_parse :: "string \<Rightarrow> ms option"
  ce_local_tz :: string
  ce_sha256_u32 :: "string \<Rightarrow> nat"
  ce_url_protocol :: "string \<Rightarrow> string option"
  ce_failover_reason :: "string \<Rightarrow> string option"

text \<open>\<open>throw new Error(msg)\<close>; \<open>String(err)\<close> puts the class before the message.\<close>

definition throw_error :: "string \<Rightarrow> 'a fallible" where
  "throw_error msg = Inl (''Error: '' @ msg)"

datatype legacy_at = LegacyAbsent | LegacyMs ms | LegacyText string

datatype cron_schedule =
    SchedAt (at_value: js_value) (at_legacy: legacy_at)
  | SchedEvery (every_ms: js_value) (anchor_ms: js_value)
  | SchedCron (cron_expr: js_value) (cron_legacy: js_value) (cron_tz: js_value) (cron_stagger: js_value)

definition is_at :: "cron_schedule \<Rightarrow> bool" where
  "is_at s = (case s of SchedAt _ _ \<Rightarrow> True | _ \<Rightarrow> False)"

definition is_every :: "cron_schedule \<Rightarrow> bool" where
  "is_every s = (case s of SchedEvery _ _ \<Rightarrow> True | _ \<Rightarrow> False)"

definition is_cron :: "cron_schedule \<Rightarrow> bool" where
  "is_cron s = (case s of SchedCron _ _ _ _ \<Rightarrow> True | _ \<Rightarrow> False)"

lemma schedule_kind_simps [simp]:
  "is_at (SchedAt v l)" "\<not> is_at (SchedEvery e a)" "\<not> is_at (SchedCron x y z w)"
  "\<not> is_every (SchedAt v l)" "is_every (SchedEvery e a)" "\<not> is_every (SchedCron x y z w)"
  "\<not> is_cron (SchedAt v l)" "\<not> is_cron (SchedEvery e a)" "is_cron (SchedCron x y z w)"
  by (simp_all add: is_at_def is_every_def is_cron_def)

subsection \<open>Absolute times\<close>

text \<open>A pattern of digits (\<open>d\<close>) and literal characters.\<close>

definition fits_pattern :: "string \<Rightarrow> string \<Rightarrow> bool" where
  "fits_pattern p s = list_all2 (\<lambda>x c. if x = CHR ''d'' then js_is_digit c else c = x) p s"

definition ISO_TZ_RE :: "string \<Rightarrow> bool" where
  "ISO_TZ_RE s =
     ((s \<noteq> [] \<and> last s \<in> {CHR ''Z'', CHR ''z''}) \<or>
      (let t = drop (length s - 6) s in fits_pattern ''+dd:dd'' t \<or> fits_pattern ''-dd:dd'' t) \<or>
      (let t = drop (length s - 5) s in fits_pattern ''+dddd'' t \<or> fits_pattern ''-dddd'' t))"

definition ISO_DATE_RE :: "string \<Rightarrow> bool" where
  "ISO_DATE_RE s = fits_pattern ''dddd-dd-dd'' s"

definition ISO_DATE_TIME_RE :: "string \<Rightarrow> bool" where
  "ISO_DATE_TIME_RE s = fits_pattern ''dddd-dd-ddT'' (take 11 s)"

definition normalizeUtcIso :: "string \<Rightarrow> string" where
  "normalizeUtcIso raw =
     (if ISO_TZ_RE raw then raw
      else if ISO_DATE_RE raw then raw @ ''T00:00:00Z''
      else if ISO_DATE_TIME_RE raw then raw @ ''Z''
      else raw)"

definition parseAbsoluteTimeMs :: "cron_env \<Rightarrow> string \<Rightarrow> ms option" where
  "parseAbsoluteTimeMs env input =
     (let raw = js_trim input;
          parsed = ce_date_parse env (normalizeUtcIso raw)
      in if raw = [] then None
         else if list_all js_is_digit raw
         then (case js_Number raw of
                 Finite n \<Rightarrow> if n > 0 then Some \<lfloor>n\<rfloor> else parsed
               | _ \<Rightarrow> parsed)
         else parsed)"

definition coerceFiniteScheduleNumber :: "js_value \<Rightarrow> rat option" where
  "coerceFiniteScheduleNumber v =
     (case v of
        JNum (Finite r) \<Rightarrow> Some r
      | JStr s \<Rightarrow>
          (let trimmed = js_trim s in
           if trimmed = [] then None
           else (case js_Number trimmed of Finite r \<Rightarrow> Some r | _ \<Rightarrow> None))
      | _ \<Rightarrow> None)"

subsection \<open>Cron expressions\<close>

definition resolveCronTimezone :: "cron_env \<Rightarrow> js_value \<Rightarrow> string" where
  "resolveCronTimezone env tz =
     (let trimmed = js_or_else (normalizeOptionalString tz) [] in
      if trimmed \<noteq> [] then trimmed else ce_local_tz env)"

text \<open>A compiled expression is determined by its source and its time zone.\<close>

record cron_handle =
  ch_expr :: string
  ch_tz :: string

definition new_Cron :: "cron_env \<Rightarrow> string \<Rightarrow> string \<Rightarrow> cron_handle fallible" where
  "new_Cron env expr tz =
     (case ce_cron_new env expr tz of
        Inl e \<Rightarrow> Inl e
      | Inr _ \<Rightarrow> Inr \<lparr>ch_expr = expr, ch_tz = tz\<rparr>)"

definition resolveCronFromSchedule :: "cron_env \<Rightarrow> cron_schedule \<Rightarrow> cron_handle option fallible" where
  "resolveCronFromSchedule env s =
     (let exprSource = (case cron_expr s of JStr e \<Rightarrow> JStr e | _ \<Rightarrow> cron_legacy s) in
      case exprSource of
        JStr src \<Rightarrow>
          (let expr = js_trim src in
           if expr = [] then Inr None
           else (case new_Cron env expr (resolveCronTimezone env (cron_tz s)) of
                   Inl e \<Rightarrow> Inl e
                 | Inr c \<Rightarrow> Inr (Some c)))
      | _ \<Rightarrow> throw_error ''invalid cron schedule: expr is required'')"

text \<open>A run after \<open>nowMs\<close>, if the library gave a valid one.\<close>

definition later_run :: "ms \<Rightarrow> cron_date \<Rightarrow> ms option" where
  "later_run nowMs d = (case d of DateMs t \<Rightarrow> if t > nowMs then Some t else None | _ \<Rightarrow> None)"

definition startOfTomorrowUtc :: "ms \<Rightarrow> ms" where
  "startOfTomorrowUtc nowMs = (nowMs div 86400000 + 1) * 86400000"

definition nextCronRun :: "cron_env \<Rightarrow> cron_handle \<Rightarrow> ms \<Rightarrow> ms option fallible" where
  "nextCronRun env c nowMs =
     (let next_at = ce_next_run env (ch_expr c) (ch_tz c) in
      case next_at nowMs of
        Inl e \<Rightarrow> Inl e
      | Inr NoDate \<Rightarrow> Inr None
      | Inr InvalidDate \<Rightarrow> Inr None
      | Inr (DateMs nextMs) \<Rightarrow>
          if nextMs \<le> nowMs then
            (case next_at (nowMs div 1000 * 1000 + 1000) of
               Inl e \<Rightarrow> Inl e
             | Inr retry \<Rightarrow>
               (case later_run nowMs retry of
                  Some retryMs \<Rightarrow> Inr (Some retryMs)
                | None \<Rightarrow>
                  (case next_at (startOfTomorrowUtc nowMs) of
                     Inl e \<Rightarrow> Inl e
                   | Inr retry2 \<Rightarrow> Inr (later_run nowMs retry2))))
          else Inr (Some nextMs))"

subsection \<open>The next and the previous run\<close>

definition scheduledAtMs :: "cron_env \<Rightarrow> cron_schedule \<Rightarrow> ms option" where
  "scheduledAtMs env s =
     (case at_legacy s of
        LegacyText t \<Rightarrow> parseAbsoluteTimeMs env t
      | LegacyMs t \<Rightarrow>
          if t > 0 then Some t
          else (case at_value s of JStr v \<Rightarrow> parseAbsoluteTimeMs env v | _ \<Rightarrow> None)
      | LegacyAbsent \<Rightarrow> (case at_value s of JStr v \<Rightarrow> parseAbsoluteTimeMs env v | _ \<Rightarrow> None))"

definition nextEveryRun :: "rat \<Rightarrow> rat option \<Rightarrow> ms \<Rightarrow> ms" where
  "nextEveryRun everyMsRaw anchorRaw nowMs =
     (let everyMs = max 1 \<lfloor>everyMsRaw\<rfloor>;
          anchor = max 0 (case anchorRaw of None \<Rightarrow> nowMs | Some a \<Rightarrow> \<lfloor>a\<rfloor>)
      in if nowMs < anchor then anchor
         else let elapsed = nowMs - anchor;
                  steps = max 1 ((elapsed + everyMs - 1) div everyMs)
              in anchor + steps * everyMs)"

definition computeNextRunAtMs :: "cron_env \<Rightarrow> cron_schedule \<Rightarrow> ms \<Rightarrow> ms option fallible" where
  "computeNextRunAtMs env s nowMs =
     (case s of
        SchedAt _ _ \<Rightarrow>
          Inr (case scheduledAtMs env s of
                 None \<Rightarrow> None
               | Some atMs \<Rightarrow> if atMs > nowMs then Some atMs else None)
      | SchedEvery everyMs anchorMs \<Rightarrow>
          Inr (case coerceFiniteScheduleNumber everyMs of
                 None \<Rightarrow> None
               | Some e \<Rightarrow> Some (nextEveryRun e (coerceFiniteScheduleNumber anchorMs) nowMs))
      | SchedCron _ _ _ _ \<Rightarrow>
          (case resolveCronFromSchedule env s of
             Inl e \<Rightarrow> Inl e
           | Inr None \<Rightarrow> Inr None
           | Inr (Some c) \<Rightarrow> nextCronRun env c nowMs))"

definition computePreviousRunAtMs :: "cron_env \<Rightarrow> cron_schedule \<Rightarrow> ms \<Rightarrow> ms option fallible" where
  "computePreviousRunAtMs env s nowMs =
     (if \<not> is_cron s then Inr None
      else case resolveCronFromSchedule env s of
        Inl e \<Rightarrow> Inl e
      | Inr None \<Rightarrow> Inr None
      | Inr (Some c) \<Rightarrow>
          (case ce_previous_run env (ch_expr c) (ch_tz c) nowMs of
             Inl e \<Rightarrow> Inl e
           | Inr (DateMs t) \<Rightarrow> Inr (if t \<ge> nowMs then None else Some t)
           | Inr _ \<Rightarrow> Inr None))"

subsection \<open>The cache of compiled expressions\<close>

definition CRON_EVAL_CACHE_MAX :: nat where
  "CRON_EVAL_CACHE_MAX = 512"

definition cron_cache_key :: "string \<Rightarrow> string \<Rightarrow> string" where
  "cron_cache_key expr timezone = timezone @ CHR 0x00 # expr"

definition evict_oldest_cron :: "(string, cron_handle) js_map \<Rightarrow> (string, cron_handle) js_map" where
  "evict_oldest_cron cache =
     (if jm_size cache \<ge> CRON_EVAL_CACHE_MAX
      then (case jm_keys cache of
              [] \<Rightarrow> cache
            | oldest # _ \<Rightarrow> if oldest \<noteq> [] then jm_delete cache oldest else cache)
      else cache)"

definition resolveCachedCron ::
  "cron_env \<Rightarrow> (string, cron_handle) js_map \<Rightarrow> string \<times> string
    \<Rightarrow> cron_handle fallible \<times> (string, cron_handle) js_map" where
  "resolveCachedCron env cache k =
     (let (expr, timezone) = k; key = cron_cache_key expr timezone in
      case jm_get cache key of
        Some cached \<Rightarrow> (Inr cached, cache)
      | None \<Rightarrow>
        (let cache' = evict_oldest_cron cache in
         case new_Cron env expr timezone of
           Inl e \<Rightarrow> (Inl e, cache')
         | Inr c \<Rightarrow> (Inr c, jm_set cache' key c)))"

text \<open>No time zone name holds a NUL, so keys of different expressions never collide.\<close>

definition cron_cache_ok :: "cron_env \<Rightarrow> (string, cron_handle) js_map \<Rightarrow> bool" where
  "cron_cache_ok env cache =
     (jm_wf cache \<and> jm_size cache \<le> CRON_EVAL_CACHE_MAX \<and>
      (\<forall>(k, h) \<in> set cache. k = cron_cache_key (ch_expr h) (ch_tz h) \<and> CHR 0x00 \<notin> set (ch_tz h) \<and>
         new_Cron env (ch_expr h) (ch_tz h) = Inr h))"

lemma cron_cache_key_inj:
  "CHR 0x00 \<notin> set tz \<Longrightarrow> CHR 0x00 \<notin> set tz' \<Longrightarrow> cron_cache_key e tz = cron_cache_key e' tz' \<Longrightarrow> e = e' \<and> tz = tz'"
proof -
  assume n: "CHR 0x00 \<notin> set tz" "CHR 0x00 \<notin> set tz'" and eq: "cron_cache_key e tz = cron_cache_key e' tz'"
  then have "takeWhile (\<lambda>c. c \<noteq> CHR 0x00) (cron_cache_key e tz) = tz"
    "takeWhile (\<lambda>c. c \<noteq> CHR 0x00) (cron_cache_key e' tz') = tz'"
    unfolding cron_cache_key_def by (subst takeWhile_append2, auto)+
  with eq show ?thesis by (simp add: cron_cache_key_def)
qed

lemma evict_oldest_cron_facts:
  assumes "cron_cache_ok env c"
  shows "jm_wf (evict_oldest_cron c)" "set (evict_oldest_cron c) \<subseteq> set c"
    "jm_size (evict_oldest_cron c) < CRON_EVAL_CACHE_MAX"
proof -
  have wf: "jm_wf c" and size: "jm_size c \<le> CRON_EVAL_CACHE_MAX" using assms by (simp_all add: cron_cache_ok_def)
  then show "jm_wf (evict_oldest_cron c)"
    by (auto simp: evict_oldest_cron_def jm.wf_del split: list.splits)
  show "set (evict_oldest_cron c) \<subseteq> set c"
    by (auto simp: evict_oldest_cron_def jm_delete_mem split: list.splits)
  show "jm_size (evict_oldest_cron c) < CRON_EVAL_CACHE_MAX"
  proof (cases "jm_size c < CRON_EVAL_CACHE_MAX")
    case False
    then obtain k v rest where c: "c = (k, v) # rest"
      by (cases c) (auto simp: jm_size_def CRON_EVAL_CACHE_MAX_def)
    then have "k \<noteq> []" using assms by (simp add: cron_cache_ok_def cron_cache_key_def)
    moreover have "jm_get c k \<noteq> None" by (simp add: c jm_get_def)
    ultimately show ?thesis
      using jm.count_del_present [OF wf, of k] size c
      by (simp add: evict_oldest_cron_def jm_keys_def)
  qed (simp add: evict_oldest_cron_def)
qed

interpretation cron_cache: memo_cache "\<lambda>(expr, tz). new_Cron env expr tz" "resolveCachedCron env"
  "cron_cache_ok env" "\<lambda>(expr, tz). CHR 0x00 \<notin> set tz" for env
proof
  fix c :: "(string, cron_handle) js_map" and k :: "string \<times> string"
  assume ok: "cron_cache_ok env c" and adm: "case k of (expr, tz) \<Rightarrow> CHR 0x00 \<notin> set tz"
  obtain expr tz where k: "k = (expr, tz)" by (cases k)
  from adm k have tz: "CHR 0x00 \<notin> set tz" by simp
  have hit: "new_Cron env expr tz = Inr h" if "jm_get c (cron_cache_key expr tz) = Some h" for h
    using ok jm_get_mem [OF that] cron_cache_key_inj [OF tz, of "ch_tz h" expr "ch_expr h"]
    by (auto simp: cron_cache_ok_def dest!: bspec)
  show "fst (resolveCachedCron env c k) = (case k of (expr, tz) \<Rightarrow> new_Cron env expr tz)"
    using hit by (auto simp: resolveCachedCron_def k Let_def split: option.splits sum.splits)
  have new: "ch_expr h = expr \<and> ch_tz h = tz" if "new_Cron env expr tz = Inr h" for h
    using that by (auto simp: new_Cron_def split: sum.splits)
  note ev = evict_oldest_cron_facts [OF ok]
  have keep: "cron_cache_ok env (evict_oldest_cron c)"
    using ok ev by (auto simp: cron_cache_ok_def)
  have store: "cron_cache_ok env (jm_set (evict_oldest_cron c) (cron_cache_key expr tz) h)"
    if h: "new_Cron env expr tz = Inr h" for h
  proof -
    let ?c = "jm_set (evict_oldest_cron c) (cron_cache_key expr tz) h"
    have "jm_wf ?c" "jm_size ?c \<le> CRON_EVAL_CACHE_MAX"
      using ev by (simp_all add: jm.wf_put jm.count_put)
    moreover have "\<forall>(k, g) \<in> set ?c. k = cron_cache_key (ch_expr g) (ch_tz g) \<and> CHR 0x00 \<notin> set (ch_tz g) \<and>
        new_Cron env (ch_expr g) (ch_tz g) = Inr g"
      using keep new [OF h] h tz by (auto simp: cron_cache_ok_def dest!: jm_set_memD)
    ultimately show ?thesis by (simp add: cron_cache_ok_def)
  qed
  show "cron_cache_ok env (snd (resolveCachedCron env c k))"
    using ok keep store by (auto simp: resolveCachedCron_def k Let_def split: option.splits sum.splits)
qed

subsection \<open>The next run lies ahead\<close>

lemma later_run_greater: "later_run n d = Some t \<Longrightarrow> n < t"
  by (auto simp: later_run_def split: cron_date.splits if_splits)

lemma nextCronRun_greater: "nextCronRun env c n = Inr (Some t) \<Longrightarrow> n < t"
  by (auto simp: nextCronRun_def Let_def split: sum.splits cron_date.splits if_splits option.splits
      dest: later_run_greater)

lemma nextEveryRun_ge: "n \<le> nextEveryRun e a n"
proof -
  let ?e = "max 1 \<lfloor>e\<rfloor>" and ?a = "max 0 (case a of None \<Rightarrow> n | Some a \<Rightarrow> \<lfloor>a\<rfloor>)"
  have e: "?e \<ge> 1" by simp
  have "n - ?a \<le> (n - ?a + ?e - 1) div ?e * ?e"
    using div_mult_mod_eq [of "n - ?a + ?e - 1" ?e] pos_mod_bound [of ?e "n - ?a + ?e - 1"] e by linarith
  also have "\<dots> \<le> max 1 ((n - ?a + ?e - 1) div ?e) * ?e"
    using e by (intro mult_right_mono) auto
  finally show ?thesis by (simp add: nextEveryRun_def Let_def)
qed

text \<open>Where the slots of an interval schedule are, and that the nearest one is chosen.\<close>

definition every_anchor :: "rat option \<Rightarrow> ms \<Rightarrow> ms" where
  "every_anchor a nowMs = max 0 (case a of None \<Rightarrow> nowMs | Some r \<Rightarrow> \<lfloor>r\<rfloor>)"

definition every_interval :: "rat \<Rightarrow> ms" where
  "every_interval e = max 1 \<lfloor>e\<rfloor>"

lemma nextEveryRun_eq:
  "nextEveryRun e a n =
     (let anchor = every_anchor a n; i = every_interval e in
      if n < anchor then anchor else anchor + max 1 ((n - anchor + i - 1) div i) * i)"
  by (simp add: nextEveryRun_def every_anchor_def every_interval_def Let_def)

lemma every_interval_pos [simp]: "0 < every_interval e"
  by (simp add: every_interval_def)

lemma nextEveryRun_slot:
  obtains k where "0 \<le> k" "nextEveryRun e a n = every_anchor a n + k * every_interval e"
proof (cases "n < every_anchor a n")
  case True
  then show thesis using that [of 0] by (simp add: nextEveryRun_eq)
next
  case False
  then show thesis
    using that [of "max 1 ((n - every_anchor a n + every_interval e - 1) div every_interval e)"]
    by (simp add: nextEveryRun_eq Let_def)
qed

lemma nextEveryRun_near:
  assumes "every_anchor a n < n"
  shows "nextEveryRun e a n < n + every_interval e"
proof -
  let ?i = "every_interval e" and ?a = "every_anchor a n"
  have i: "0 < ?i" by simp
  have "(n - ?a + ?i - 1) div ?i \<ge> 1"
    using assms i by (simp add: pos_imp_zdiv_pos_iff int_one_le_iff_zero_less)
  moreover have "(n - ?a + ?i - 1) div ?i * ?i \<le> n - ?a + ?i - 1"
    using i by (metis div_mult_mod_eq le_add_same_cancel1 pos_mod_sign)
  ultimately show ?thesis using assms by (simp add: nextEveryRun_eq Let_def max_def)
qed

end
