(* ===== verification/Cron_Stagger.thy ===== *)
theory Cron_Stagger
  imports Cron_Schedule
begin

text \<open>
  Jobs that fire at the top of the hour are spread over a window: \<open>src/cron/stagger.ts\<close>
  and the staggered runs of \<open>src/cron/service/jobs.ts\<close>. Each job has a fixed offset
  derived from a digest of its id; offsets are cached per job and window.
\<close>

subsection \<open>The window\<close>

definition DEFAULT_TOP_OF_HOUR_STAGGER_MS :: ms where
  "DEFAULT_TOP_OF_HOUR_STAGGER_MS = 5 * 60 * 1000"

definition parseCronFields :: "string \<Rightarrow> string list" where
  "parseCronFields expr = js_words (js_trim expr)"

definition isRecurringTopOfHourCronExpr :: "string \<Rightarrow> bool" where
  "isRecurringTopOfHourCronExpr expr =
     (case parseCronFields expr of
        [minuteField, hourField, _, _, _] \<Rightarrow> minuteField = ''0'' \<and> CHR ''*'' \<in> set hourField
      | [secondField, minuteField, hourField, _, _, _] \<Rightarrow>
          secondField = ''0'' \<and> minuteField = ''0'' \<and> CHR ''*'' \<in> set hourField
      | _ \<Rightarrow> False)"

definition normalizeCronStaggerMs :: "js_value \<Rightarrow> ms option" where
  "normalizeCronStaggerMs raw =
     (let numeric = (case raw of JNum n \<Rightarrow> n | JStr s \<Rightarrow> if js_trim s \<noteq> [] then js_Number s else NaN | _ \<Rightarrow> NaN) in
      case numeric of Finite r \<Rightarrow> Some (max 0 \<lfloor>r\<rfloor>) | _ \<Rightarrow> None)"

definition resolveDefaultCronStaggerMs :: "string \<Rightarrow> ms option" where
  "resolveDefaultCronStaggerMs expr =
     (if isRecurringTopOfHourCronExpr expr then Some DEFAULT_TOP_OF_HOUR_STAGGER_MS else None)"

definition resolveCronStaggerMs :: "cron_schedule \<Rightarrow> ms" where
  "resolveCronStaggerMs s =
     (case normalizeCronStaggerMs (cron_stagger s) of
        Some explicit \<Rightarrow> explicit
      | None \<Rightarrow>
        (let cronExpr = (case cron_expr s of JStr e \<Rightarrow> e | _ \<Rightarrow> []) in
         js_or_else (resolveDefaultCronStaggerMs cronExpr) 0))"

subsection \<open>The offset of a job\<close>

definition STAGGER_OFFSET_CACHE_MAX :: nat where
  "STAGGER_OFFSET_CACHE_MAX = 4096"

definition resolveStableCronOffsetMs :: "cron_env \<Rightarrow> string \<Rightarrow> ms \<Rightarrow> ms" where
  "resolveStableCronOffsetMs env jobId staggerMs =
     (if staggerMs \<le> 1 then 0 else int (ce_sha256_u32 env jobId) mod staggerMs)"

definition stagger_cache_key :: "ms \<Rightarrow> string \<Rightarrow> string" where
  "stagger_cache_key staggerMs jobId = js_show_int staggerMs @ CHR '':'' # jobId"

definition resolveStableCronOffsetMs_cached ::
  "cron_env \<Rightarrow> (string, ms) js_map \<Rightarrow> string \<times> ms \<Rightarrow> ms \<times> (string, ms) js_map" where
  "resolveStableCronOffsetMs_cached env cache k =
     (let (jobId, staggerMs) = k in
      if staggerMs \<le> 1 then (0, cache)
      else let cacheKey = stagger_cache_key staggerMs jobId in
        case jm_get cache cacheKey of
          Some cached \<Rightarrow> (cached, cache)
        | None \<Rightarrow>
          (let offset = int (ce_sha256_u32 env jobId) mod staggerMs;
               cache' = (if jm_size cache \<ge> STAGGER_OFFSET_CACHE_MAX then jm_drop_oldest cache else cache)
           in (offset, jm_set cache' cacheKey offset)))"

lemma js_show_nat_inj: "js_show_nat m = js_show_nat n \<Longrightarrow> m = n"
  by (metis js_digits_value_show)

lemma stagger_cache_key_inj:
  assumes "0 \<le> s" "0 \<le> s'" and eq: "stagger_cache_key s i = stagger_cache_key s' i'"
  shows "s = s' \<and> i = i'"
proof -
  have nc: "CHR '':'' \<notin> set (js_show_nat n)" for n
    using js_show_nat_digits [of n] by (auto simp: list_all_iff js_is_digit_def js_code_def)
  have tk: "takeWhile (\<lambda>c. c \<noteq> CHR '':'') (js_show_nat n @ CHR '':'' # r) = js_show_nat n" for n r
    using nc by (subst takeWhile_append2) auto
  have eq': "js_show_nat (nat s) @ CHR '':'' # i = js_show_nat (nat s') @ CHR '':'' # i'"
    using eq assms by (simp add: stagger_cache_key_def js_show_int_def)
  then have "js_show_nat (nat s) = js_show_nat (nat s')" by (metis tk)
  with eq' assms js_show_nat_inj show ?thesis by fastforce
qed

definition stagger_cache_ok :: "cron_env \<Rightarrow> (string, ms) js_map \<Rightarrow> bool" where
  "stagger_cache_ok env cache =
     (jm_wf cache \<and> jm_size cache \<le> STAGGER_OFFSET_CACHE_MAX \<and>
      (\<forall>(k, v) \<in> set cache. \<exists>i s. s > 1 \<and> k = stagger_cache_key s i \<and> v = resolveStableCronOffsetMs env i s))"

interpretation stagger_cache: memo_cache "\<lambda>(i, s). resolveStableCronOffsetMs env i s"
  "resolveStableCronOffsetMs_cached env" "stagger_cache_ok env" "\<lambda>_. True" for env
proof
  fix c :: "(string, ms) js_map" and k :: "string \<times> ms"
  assume ok: "stagger_cache_ok env c"
  obtain i s where k: "k = (i, s)" by (cases k)
  let ?key = "stagger_cache_key s i" and ?c = "if jm_size c \<ge> STAGGER_OFFSET_CACHE_MAX then jm_drop_oldest c else c"
  have hit: "h = resolveStableCronOffsetMs env i s" if "jm_get c ?key = Some h" "s > 1" for h
  proof -
    from ok jm_get_mem [OF that(1)] obtain i' s' where "s' > 1" "?key = stagger_cache_key s' i'"
      "h = resolveStableCronOffsetMs env i' s'" by (fastforce simp: stagger_cache_ok_def)
    with stagger_cache_key_inj [of s s' i i'] that(2) show ?thesis by simp
  qed
  show "fst (resolveStableCronOffsetMs_cached env c k) = (case k of (i, s) \<Rightarrow> resolveStableCronOffsetMs env i s)"
    using hit by (auto simp: resolveStableCronOffsetMs_cached_def k Let_def resolveStableCronOffsetMs_def
        split: option.splits)
  have wf: "jm_wf ?c" and size: "jm_size ?c < STAGGER_OFFSET_CACHE_MAX" and sub: "set ?c \<subseteq> set c"
    using ok jm_drop_oldest_tl [of c] jm_drop_oldest_wf [of c] jm_drop_oldest_subset [of c]
    by (auto simp: stagger_cache_ok_def jm_size_def STAGGER_OFFSET_CACHE_MAX_def)
  have "stagger_cache_ok env (jm_set ?c ?key (resolveStableCronOffsetMs env i s))" if "s > 1"
    unfolding stagger_cache_ok_def
  proof (intro conjI ballI)
    show "jm_wf (jm_set ?c ?key (resolveStableCronOffsetMs env i s))" using wf by (rule jm.wf_put)
    show "jm_size (jm_set ?c ?key (resolveStableCronOffsetMs env i s)) \<le> STAGGER_OFFSET_CACHE_MAX"
      using size by (simp add: jm.count_put)
    fix x assume "x \<in> set (jm_set ?c ?key (resolveStableCronOffsetMs env i s))"
    then have "x = (?key, resolveStableCronOffsetMs env i s) \<or> x \<in> set c" using sub jm_set_memD by fastforce
    then show "case x of (k, v) \<Rightarrow> \<exists>i s. 1 < s \<and> k = stagger_cache_key s i \<and> v = resolveStableCronOffsetMs env i s"
      using ok that by (auto simp: stagger_cache_ok_def)
  qed
  then show "stagger_cache_ok env (snd (resolveStableCronOffsetMs_cached env c k))"
    using ok by (auto simp: resolveStableCronOffsetMs_cached_def k Let_def resolveStableCronOffsetMs_def
        split: option.splits)
qed

subsection \<open>Staggered runs\<close>

text \<open>The bodies of the two loops; \<open>attempts\<close> counts what is left of four.\<close>

fun staggered_next_loop :: "(ms \<Rightarrow> ms option fallible) \<Rightarrow> ms \<Rightarrow> ms \<Rightarrow> nat \<Rightarrow> ms \<Rightarrow> ms option fallible" where
  "staggered_next_loop next_from offsetMs nowMs 0 cursorMs = Inr None"
| "staggered_next_loop next_from offsetMs nowMs (Suc attempts) cursorMs =
     (case next_from cursorMs of
        Inl e \<Rightarrow> Inl e
      | Inr None \<Rightarrow> Inr None
      | Inr (Some baseNext) \<Rightarrow>
        (let shifted = baseNext + offsetMs in
         if shifted > nowMs then Inr (Some shifted)
         else staggered_next_loop next_from offsetMs nowMs attempts (max (cursorMs + 1) (baseNext + 1000))))"

fun staggered_previous_loop :: "(ms \<Rightarrow> ms option fallible) \<Rightarrow> ms \<Rightarrow> ms \<Rightarrow> nat \<Rightarrow> ms \<Rightarrow> ms option fallible" where
  "staggered_previous_loop previous_from offsetMs nowMs 0 cursorMs = Inr None"
| "staggered_previous_loop previous_from offsetMs nowMs (Suc attempts) cursorMs =
     (case previous_from cursorMs of
        Inl e \<Rightarrow> Inl e
      | Inr None \<Rightarrow> Inr None
      | Inr (Some basePrevious) \<Rightarrow>
        (let shifted = basePrevious + offsetMs in
         if shifted \<le> nowMs then Inr (Some shifted)
         else staggered_previous_loop previous_from offsetMs nowMs attempts (max 0 (basePrevious - 1000))))"

definition computeStaggeredCronNextRunAtMs :: "cron_env \<Rightarrow> string \<Rightarrow> cron_schedule \<Rightarrow> ms \<Rightarrow> ms option fallible" where
  "computeStaggeredCronNextRunAtMs env jobId s nowMs =
     (if \<not> is_cron s then computeNextRunAtMs env s nowMs
      else let offsetMs = resolveStableCronOffsetMs env jobId (resolveCronStaggerMs s) in
        if offsetMs \<le> 0 then computeNextRunAtMs env s nowMs
        else staggered_next_loop (computeNextRunAtMs env s) offsetMs nowMs 4 (max 0 (nowMs - offsetMs)))"

definition computeStaggeredCronPreviousRunAtMs :: "cron_env \<Rightarrow> string \<Rightarrow> cron_schedule \<Rightarrow> ms \<Rightarrow> ms option fallible" where
  "computeStaggeredCronPreviousRunAtMs env jobId s nowMs =
     (if \<not> is_cron s then Inr None
      else let offsetMs = resolveStableCronOffsetMs env jobId (resolveCronStaggerMs s) in
        if offsetMs \<le> 0 then computePreviousRunAtMs env s nowMs
        else staggered_previous_loop (computePreviousRunAtMs env s) offsetMs nowMs 4 (max 0 (nowMs - offsetMs)))"

subsection \<open>What a source of runs promises, and what staggering makes of it\<close>

definition shifted_by :: "ms \<Rightarrow> ms option fallible \<Rightarrow> ms option fallible" where
  "shifted_by offset r = map_sum id (map_option (\<lambda>t. t + offset)) r"

locale run_source =
  fixes next_from :: "ms \<Rightarrow> ms option fallible"
    and previous_from :: "ms \<Rightarrow> ms option fallible"
  assumes next_ahead: "next_from c = Inr (Some t) \<Longrightarrow> c < t"
    and previous_behind: "previous_from c = Inr (Some t) \<Longrightarrow> t < c"
begin

text \<open>The first attempt always succeeds: the cursor trails the clock by no more than the offset.\<close>

lemma next_loop_first:
  "0 < offset \<Longrightarrow>
   staggered_next_loop next_from offset n (Suc k) (max 0 (n - offset)) = shifted_by offset (next_from (max 0 (n - offset)))"
  using next_ahead [of "max 0 (n - offset)"]
  by (fastforce simp: shifted_by_def Let_def split: sum.splits option.splits)

lemma previous_loop_first:
  "0 < offset \<Longrightarrow> offset \<le> n \<Longrightarrow>
   staggered_previous_loop previous_from offset n (Suc k) (max 0 (n - offset)) =
     shifted_by offset (previous_from (n - offset))"
  using previous_behind [of "n - offset"]
  by (fastforce simp: shifted_by_def Let_def split: sum.splits option.splits)

lemma next_loop_ahead: "staggered_next_loop next_from offset n k c = Inr (Some t) \<Longrightarrow> n < t"
  by (induction k arbitrary: c) (auto simp: Let_def split: sum.splits option.splits if_splits)

lemma previous_loop_behind: "staggered_previous_loop previous_from offset n k c = Inr (Some t) \<Longrightarrow> t \<le> n"
  by (induction k arbitrary: c) (auto simp: Let_def split: sum.splits option.splits if_splits)

end

interpretation cron_runs: run_source "if is_cron s then computeNextRunAtMs env s else (\<lambda>_. Inr None)"
  "computePreviousRunAtMs env s" for env s
  by unfold_locales
    (auto simp: computeNextRunAtMs_def computePreviousRunAtMs_def split: cron_schedule.splits sum.splits option.splits
      cron_date.splits if_splits dest: nextCronRun_greater)

end
