(* ===== verification/Cron_Types.thy ===== *)
theory Cron_Types
  imports Cron_Stagger
begin

text \<open>
  The data of the cron service: \<open>src/cron/types.ts\<close>, \<open>src/cron/types-shared.ts\<close>,
  \<open>src/config/types.cron.ts\<close> and the state of \<open>src/cron/service/state.ts\<close>.

  Everything the service does to the outside goes through its dependencies; a call of one
  of them is an entry of the trace \<open>sv_out\<close>, in the order of the calls. Calls of the logger
  are not recorded. The store is what is in memory (\<open>None\<close> before it is loaded) and what
  the file holds, as the loader reads it back.
\<close>

subsection \<open>Jobs\<close>

datatype run_status = StatusOk | StatusError | StatusSkipped

datatype delivery_status = Delivered | NotDelivered | DeliveryUnknown | NotRequested

datatype wake_mode = WakeNow | WakeNextHeartbeat

text \<open>An own property of an object that may be there and hold \<open>undefined\<close>.\<close>

type_synonym 'a own_field = "'a option option"

record failure_destination =
  fd_channel :: "string own_field"
  fd_to :: "string own_field"
  fd_accountId :: "string own_field"
  fd_mode :: "string own_field"

record cron_delivery =
  cd_mode :: "string option"
  cd_channel :: "string option"
  cd_to :: "string option"
  cd_threadId :: js_value
  cd_accountId :: "string option"
  cd_bestEffort :: "bool option"
  cd_failureDestination :: "failure_destination option"

record failure_alert =
  fa_after :: "js_num option"
  fa_channel :: "string option"
  fa_to :: "string option"
  fa_cooldownMs :: "js_num option"
  fa_mode :: "string option"
  fa_accountId :: "string option"

datatype alert_setting = AlertUnset | AlertOff | AlertOn failure_alert

record agent_turn =
  tu_message :: string
  tu_model :: "string option"
  tu_fallbacks :: "string list option"
  tu_thinking :: "string option"
  tu_timeoutSeconds :: "js_num option"
  tu_allowUnsafe :: "bool option"
  tu_contentSource :: "string option"
  tu_lightContext :: "bool option"
  tu_toolsAllow :: "string list option"

datatype cron_payload = SystemEventPayload string | AgentTurnPayload agent_turn

record job_state =
  st_nextRunAtMs :: "ms option"
  st_runningAtMs :: "ms option"
  st_lastRunAtMs :: "ms option"
  st_lastRunStatus :: "run_status option"
  st_lastStatus :: "run_status option"
  st_lastError :: "string option"
  st_lastErrorReason :: "string option"
  st_lastDurationMs :: "ms option"
  st_consecutiveErrors :: "int option"
  st_lastFailureAlertAtMs :: "ms option"
  st_scheduleErrorCount :: "int option"
  st_lastDeliveryStatus :: "delivery_status option"
  st_lastDeliveryError :: "string option"
  st_lastDelivered :: "bool option"

definition empty_job_state :: job_state where
  "empty_job_state =
     \<lparr>st_nextRunAtMs = None, st_runningAtMs = None, st_lastRunAtMs = None, st_lastRunStatus = None,
      st_lastStatus = None, st_lastError = None, st_lastErrorReason = None, st_lastDurationMs = None,
      st_consecutiveErrors = None, st_lastFailureAlertAtMs = None, st_scheduleErrorCount = None,
      st_lastDeliveryStatus = None, st_lastDeliveryError = None, st_lastDelivered = None\<rparr>"

text \<open>The loader sets a missing \<open>enabled\<close> to true, so it is a Boolean here.\<close>

record cron_job =
  cj_id :: string
  cj_agentId :: "string option"
  cj_sessionKey :: "string option"
  cj_name :: string
  cj_description :: "string option"
  cj_enabled :: bool
  cj_deleteAfterRun :: "bool option"
  cj_createdAtMs :: ms
  cj_updatedAtMs :: ms
  cj_schedule :: cron_schedule
  cj_sessionTarget :: string
  cj_wakeMode :: wake_mode
  cj_payload :: cron_payload
  cj_delivery :: "cron_delivery option"
  cj_failureAlert :: alert_setting
  cj_state :: job_state

subsection \<open>Configuration and dependencies\<close>

record retry_config =
  rt_maxAttempts :: "int option"
  rt_backoffMs :: "ms list option"
  rt_retryOn :: "string list option"

record failure_alert_config =
  fc_enabled :: "bool option"
  fc_after :: "js_num option"
  fc_cooldownMs :: "js_num option"
  fc_mode :: "string option"
  fc_accountId :: "string option"

record cron_deps =
  dp_env :: cron_env
  dp_cronEnabled :: bool
  dp_defaultAgentId :: "string option"
  dp_retry :: "retry_config option"
  dp_failureAlert :: "failure_alert_config option"
  dp_maxConcurrentRuns :: "js_num option"
  dp_missedJobStaggerMs :: "ms option"
  dp_maxMissedJobsPerRestart :: "int option"
  dp_hasAlertSender :: bool
  dp_hasHeartbeatRunner :: bool
  dp_busyMaxWaitMs :: "ms option"
  dp_busyRetryDelayMs :: "ms option"

subsection \<open>Effects and the service\<close>

text \<open>The notice of an auto-disabled job starts with a warning sign, so it keeps its parts.\<close>

datatype notice =
    PlainText string
  | AutoDisabledNotice (ad_name: string) (ad_count: int) (ad_error: string)

datatype event_action = Added | Updated | Removed | Started | Finished

record cron_event =
  ce_jobId :: string
  ce_action :: event_action
  ce_runAtMs :: "ms option"
  ce_durationMs :: "ms option"
  ce_status :: "run_status option"
  ce_error :: "string option"
  ce_summary :: "string option"
  ce_delivered :: "bool option"
  ce_deliveryStatus :: "delivery_status option"
  ce_deliveryError :: "string option"
  ce_nextRunAtMs :: "ms option"

definition plain_event :: "string \<Rightarrow> event_action \<Rightarrow> cron_event" where
  "plain_event jobId action =
     \<lparr>ce_jobId = jobId, ce_action = action, ce_runAtMs = None, ce_durationMs = None, ce_status = None,
      ce_error = None, ce_summary = None, ce_delivered = None, ce_deliveryStatus = None,
      ce_deliveryError = None, ce_nextRunAtMs = None\<rparr>"

record failure_message =
  fm_jobId :: string
  fm_text :: string
  fm_channel :: string
  fm_to :: "string option"
  fm_mode :: "string option"
  fm_accountId :: "string option"

datatype task_status = TaskTimedOut | TaskFailed

datatype cron_effect =
    EnqueueSystemEvent notice (ev_agent: "string option") (ev_session: "string option") (ev_context: "string option")
  | RequestHeartbeat (hb_reason: string) (hb_agent: "string option") (hb_session: "string option") (hb_last: bool)
  | SendFailureAlert failure_message
  | EmitEvent cron_event
  | TaskStarted (tk_runId: string) (tk_jobId: string) (tk_at: ms)
  | TaskCompleted (tk_runId: string) (tk_at: ms)
  | TaskFailedEffect (tk_runId: string) task_status (tk_at: ms) (tk_error: "string option")
  | SaveStore

record cron_service =
  sv_store :: "cron_job list option"
  sv_disk :: "cron_job list"
  sv_timer :: "ms option"
  sv_running :: bool
  sv_warnedDisabled :: bool
  sv_active :: "string list"
  sv_out :: "cron_effect list"

definition createCronServiceState :: "cron_job list \<Rightarrow> cron_service" where
  "createCronServiceState disk =
     \<lparr>sv_store = None, sv_disk = disk, sv_timer = None, sv_running = False, sv_warnedDisabled = False,
      sv_active = [], sv_out = []\<rparr>"

definition do_effect :: "cron_effect \<Rightarrow> cron_service \<Rightarrow> cron_service" where
  "do_effect e s = s\<lparr>sv_out := sv_out s @ [e]\<rparr>"

definition do_effects :: "cron_effect list \<Rightarrow> cron_service \<Rightarrow> cron_service" where
  "do_effects es s = s\<lparr>sv_out := sv_out s @ es\<rparr>"

definition emit_event :: "cron_event \<Rightarrow> cron_service \<Rightarrow> cron_service" where
  "emit_event ev s = do_effect (EmitEvent ev) s"

text \<open>The jobs of the store, none before it is loaded; and replacing them.\<close>

definition jobs_of :: "cron_service \<Rightarrow> cron_job list" where
  "jobs_of s = js_or_else (sv_store s) []"

definition set_jobs :: "cron_job list \<Rightarrow> cron_service \<Rightarrow> cron_service" where
  "set_jobs jobs s = s\<lparr>sv_store := Some jobs\<rparr>"

text \<open>Jobs are objects that the operations update in place; here the first job with the id is replaced.\<close>

fun update_job :: "string \<Rightarrow> (cron_job \<Rightarrow> cron_job) \<Rightarrow> cron_job list \<Rightarrow> cron_job list" where
  "update_job i f [] = []"
| "update_job i f (j # js) = (if cj_id j = i then f j # js else j # update_job i f js)"

definition find_job :: "string \<Rightarrow> cron_job list \<Rightarrow> cron_job option" where
  "find_job i js = List.find (\<lambda>j. cj_id j = i) js"

definition set_job :: "cron_job \<Rightarrow> cron_service \<Rightarrow> cron_service" where
  "set_job j s = set_jobs (update_job (cj_id j) (\<lambda>_. j) (jobs_of s)) s"

definition persist :: "cron_service \<Rightarrow> cron_service" where
  "persist s = (case sv_store s of None \<Rightarrow> s | Some jobs \<Rightarrow> do_effect SaveStore (s\<lparr>sv_disk := jobs\<rparr>))"

definition markCronJobActive :: "string \<Rightarrow> cron_service \<Rightarrow> cron_service" where
  "markCronJobActive i s = (if i = [] then s else s\<lparr>sv_active := List.insert i (sv_active s)\<rparr>)"

definition clearCronJobActive :: "string \<Rightarrow> cron_service \<Rightarrow> cron_service" where
  "clearCronJobActive i s = (if i = [] then s else s\<lparr>sv_active := removeAll i (sv_active s)\<rparr>)"

definition isCronJobActive :: "string \<Rightarrow> cron_service \<Rightarrow> bool" where
  "isCronJobActive i s = (i \<noteq> [] \<and> i \<in> set (sv_active s))"

subsection \<open>Facts about the store\<close>

named_theorems service_simps \<open>how the primitive updates act on the fields of the service\<close>

lemma output_fields [simp, service_simps]:
  "sv_store (do_effect e s) = sv_store s" "sv_disk (do_effect e s) = sv_disk s" "sv_timer (do_effect e s) = sv_timer s"
  "sv_running (do_effect e s) = sv_running s" "sv_active (do_effect e s) = sv_active s"
  "sv_out (do_effect e s) = sv_out s @ [e]" "jobs_of (do_effect e s) = jobs_of s"
  by (simp_all add: do_effect_def jobs_of_def)

lemma outputs_fields [simp, service_simps]:
  "sv_store (do_effects es s) = sv_store s" "sv_disk (do_effects es s) = sv_disk s" "sv_timer (do_effects es s) = sv_timer s"
  "sv_running (do_effects es s) = sv_running s" "sv_active (do_effects es s) = sv_active s"
  "sv_out (do_effects es s) = sv_out s @ es" "jobs_of (do_effects es s) = jobs_of s"
  by (simp_all add: do_effects_def jobs_of_def)

lemma set_jobs_fields [simp, service_simps]:
  "sv_store (set_jobs js s) = Some js" "sv_disk (set_jobs js s) = sv_disk s" "sv_timer (set_jobs js s) = sv_timer s"
  "sv_running (set_jobs js s) = sv_running s" "sv_active (set_jobs js s) = sv_active s"
  "sv_out (set_jobs js s) = sv_out s" "jobs_of (set_jobs js s) = js"
  by (simp_all add: set_jobs_def jobs_of_def)

lemma persist_fields [simp, service_simps]:
  "sv_store (persist s) = sv_store s" "sv_timer (persist s) = sv_timer s" "sv_running (persist s) = sv_running s"
  "sv_active (persist s) = sv_active s" "jobs_of (persist s) = jobs_of s"
  by (simp_all add: persist_def jobs_of_def split: option.splits)

lemma active_fields [simp, service_simps]:
  "sv_store (markCronJobActive i s) = sv_store s" "sv_store (clearCronJobActive i s) = sv_store s"
  "jobs_of (markCronJobActive i s) = jobs_of s" "jobs_of (clearCronJobActive i s) = jobs_of s"
  "sv_out (markCronJobActive i s) = sv_out s" "sv_out (clearCronJobActive i s) = sv_out s"
  "sv_disk (markCronJobActive i s) = sv_disk s" "sv_disk (clearCronJobActive i s) = sv_disk s"
  "sv_running (markCronJobActive i s) = sv_running s" "sv_running (clearCronJobActive i s) = sv_running s"
  "sv_timer (markCronJobActive i s) = sv_timer s" "sv_timer (clearCronJobActive i s) = sv_timer s"
  by (simp_all add: markCronJobActive_def clearCronJobActive_def jobs_of_def)

lemma emit_fields [simp, service_simps]:
  "sv_store (emit_event e s) = sv_store s" "sv_disk (emit_event e s) = sv_disk s" "sv_timer (emit_event e s) = sv_timer s"
  "sv_running (emit_event e s) = sv_running s" "sv_active (emit_event e s) = sv_active s"
  "sv_out (emit_event e s) = sv_out s @ [EmitEvent e]" "jobs_of (emit_event e s) = jobs_of s"
  by (simp_all add: emit_event_def)

lemma find_job_id: "find_job i js = Some j \<Longrightarrow> cj_id j = i \<and> j \<in> set js"
  by (auto simp: find_job_def dest: find_Some_set)

lemma find_job_None: "find_job i js = None \<longleftrightarrow> i \<notin> set (map cj_id js)"
  by (auto simp: find_job_def find_None_all)

lemma update_job_ids: "(\<And>j. cj_id (f j) = cj_id j) \<Longrightarrow> map cj_id (update_job i f js) = map cj_id js"
  by (induction js) auto

lemma update_job_find:
  "(\<And>j. cj_id (f j) = cj_id j) \<Longrightarrow>
   find_job k (update_job i f js) = (if k = i then map_option f (find_job k js) else find_job k js)"
  by (induction js) (auto simp: find_job_def)

lemma set_job_find:
  "cj_id j \<in> set (map cj_id (jobs_of s)) \<Longrightarrow>
   find_job k (jobs_of (set_job j s)) = (if k = cj_id j then Some j else find_job k (jobs_of s))"
proof -
  assume "cj_id j \<in> set (map cj_id (jobs_of s))"
  moreover have "find_job k (update_job (cj_id j) (\<lambda>_. j) js) =
      (if k = cj_id j then map_option (\<lambda>_. j) (find_job k js) else find_job k js)" for js
    by (induction js) (auto simp: find_job_def)
  ultimately show ?thesis
    using find_job_None [of "cj_id j" "jobs_of s"] by (cases "find_job (cj_id j) (jobs_of s)") (auto simp: set_job_def)
qed

end
