(* ===== verification/Cron_Jobs.thy ===== *)
theory Cron_Jobs
  imports Cron_Types
begin

text \<open>
  The next run of a job and the maintenance of the store: \<open>src/cron/service/jobs.ts\<close> up to
  \<open>nextWakeAtMs\<close>, with \<open>isJobDue\<close>, \<open>findJobOrThrow\<close>, and the backoff schedule. The clock of a
  call is an argument. Functions that update a job return it, with the effects they caused
  and whether anything changed.
\<close>

subsection \<open>Backoff\<close>

definition STUCK_RUN_MS :: ms where
  "STUCK_RUN_MS = 2 * 60 * 60 * 1000"

definition DEFAULT_ERROR_BACKOFF_SCHEDULE_MS :: "ms list" where
  "DEFAULT_ERROR_BACKOFF_SCHEDULE_MS = [30000, 60000, 5 * 60000, 15 * 60000, 60 * 60000]"

definition errorBackoffMs :: "int \<Rightarrow> ms list \<Rightarrow> ms" where
  "errorBackoffMs consecutiveErrors scheduleMs =
     (let idx = nat (max 0 (min (consecutiveErrors - 1) (int (length scheduleMs) - 1))) in
      if idx < length scheduleMs then scheduleMs ! idx else hd DEFAULT_ERROR_BACKOFF_SCHEDULE_MS)"

definition hasScheduledNextRunAtMs :: "ms option \<Rightarrow> bool" where
  "hasScheduledNextRunAtMs v = (case v of None \<Rightarrow> False | Some t \<Rightarrow> t > 0)"

subsection \<open>The next run of a job\<close>

definition resolveEveryAnchorMs :: "js_value \<Rightarrow> ms \<Rightarrow> ms" where
  "resolveEveryAnchorMs anchorMs fallbackAnchorMs =
     (case coerceFiniteScheduleNumber anchorMs of
        Some coerced \<Rightarrow> max 0 \<lfloor>coerced\<rfloor>
      | None \<Rightarrow> max 0 fallbackAnchorMs)"

definition isJobEnabled :: "cron_job \<Rightarrow> bool" where
  "isJobEnabled job = cj_enabled job"

definition computeJobNextRunAtMs :: "cron_env \<Rightarrow> cron_job \<Rightarrow> ms \<Rightarrow> ms option fallible" where
  "computeJobNextRunAtMs env job nowMs =
     (if \<not> isJobEnabled job then Inr None
      else case cj_schedule job of
        SchedEvery everyMs anchorMs \<Rightarrow>
          (case coerceFiniteScheduleNumber everyMs of
             None \<Rightarrow> Inr None
           | Some everyMsRaw \<Rightarrow>
             (let every = max 1 \<lfloor>everyMsRaw\<rfloor>;
                  anchor = resolveEveryAnchorMs anchorMs (cj_createdAtMs job);
                  natural = computeNextRunAtMs env (SchedEvery (JNum (js_int every)) (JNum (js_int anchor))) nowMs
              in case st_lastRunAtMs (cj_state job) of
                   Some lastRunAtMs \<Rightarrow> if lastRunAtMs + every > nowMs then Inr (Some (lastRunAtMs + every)) else natural
                 | None \<Rightarrow> natural))
      | SchedAt _ _ \<Rightarrow>
          (let atMs = scheduledAtMs env (cj_schedule job); st = cj_state job in
           if st_lastStatus st = Some StatusOk \<and> js_truthy_int (st_lastRunAtMs st)
           then (case atMs of
                   Some t \<Rightarrow> if t > the (st_lastRunAtMs st) then Inr (Some t) else Inr None
                 | None \<Rightarrow> Inr None)
           else Inr atMs)
      | SchedCron _ _ _ _ \<Rightarrow>
          (case computeStaggeredCronNextRunAtMs env (cj_id job) (cj_schedule job) nowMs of
             Inr None \<Rightarrow> computeStaggeredCronNextRunAtMs env (cj_id job) (cj_schedule job) (nowMs div 1000 * 1000 + 1000)
           | r \<Rightarrow> r))"

definition computeJobPreviousRunAtMs :: "cron_env \<Rightarrow> cron_job \<Rightarrow> ms \<Rightarrow> ms option fallible" where
  "computeJobPreviousRunAtMs env job nowMs =
     (if \<not> isJobEnabled job \<or> \<not> is_cron (cj_schedule job) then Inr None
      else computeStaggeredCronPreviousRunAtMs env (cj_id job) (cj_schedule job) nowMs)"

subsection \<open>Schedules that cannot be computed\<close>

definition MAX_SCHEDULE_ERRORS :: int where
  "MAX_SCHEDULE_ERRORS = 3"

definition recordScheduleComputeError :: "cron_job \<Rightarrow> string \<Rightarrow> cron_job \<times> cron_effect list" where
  "recordScheduleComputeError job errText =
     (let errorCount = js_or_else (st_scheduleErrorCount (cj_state job)) 0 + 1;
          job1 = job\<lparr>cj_state := (cj_state job)\<lparr>st_scheduleErrorCount := Some errorCount, st_nextRunAtMs := None,
                       st_lastError := Some (''schedule error: '' @ errText)\<rparr>\<rparr>;
          contextKey = ''cron:'' @ cj_id job @ '':auto-disabled''
      in if errorCount \<ge> MAX_SCHEDULE_ERRORS
         then (job1\<lparr>cj_enabled := False\<rparr>,
               [EnqueueSystemEvent (AutoDisabledNotice (cj_name job) errorCount errText)
                  (cj_agentId job) (cj_sessionKey job) (Some contextKey),
                RequestHeartbeat contextKey (cj_agentId job) (cj_sessionKey job) False])
         else (job1, []))"

subsection \<open>A maintenance pass over the store\<close>

text \<open>The result of a pass over a job: the job, whether it changed, and whether to skip it.\<close>

definition normalizeJobTickState :: "cron_job \<Rightarrow> ms \<Rightarrow> cron_job \<times> bool \<times> bool" where
  "normalizeJobTickState job nowMs =
     (let (job1, changed1) =
            (case cj_schedule job of
               SchedEvery everyMs anchorMs \<Rightarrow>
                 (let normalizedAnchorMs = JNum (js_int (resolveEveryAnchorMs anchorMs (cj_createdAtMs job))) in
                  if anchorMs \<noteq> normalizedAnchorMs
                  then (job\<lparr>cj_schedule := SchedEvery everyMs normalizedAnchorMs\<rparr>, True) else (job, False))
             | _ \<Rightarrow> (job, False));
          st = cj_state job1
      in if \<not> isJobEnabled job1 then
           (job1\<lparr>cj_state := st\<lparr>st_nextRunAtMs := None, st_runningAtMs := None\<rparr>\<rparr>,
            changed1 \<or> st_nextRunAtMs st \<noteq> None \<or> st_runningAtMs st \<noteq> None, True)
         else
           (let dropNext = (\<not> hasScheduledNextRunAtMs (st_nextRunAtMs st) \<and> st_nextRunAtMs st \<noteq> None);
                stuck = (case st_runningAtMs st of None \<Rightarrow> False | Some r \<Rightarrow> nowMs - r > STUCK_RUN_MS);
                st' = st\<lparr>st_nextRunAtMs := (if dropNext then None else st_nextRunAtMs st),
                         st_runningAtMs := (if stuck then None else st_runningAtMs st)\<rparr>
            in (job1\<lparr>cj_state := st'\<rparr>, changed1 \<or> dropNext \<or> stuck, False)))"

type_synonym job_pass = "cron_job \<Rightarrow> ms \<Rightarrow> cron_job \<times> cron_effect list \<times> bool"

definition tick_job :: "job_pass \<Rightarrow> job_pass" where
  "tick_job fn job nowMs =
     (let (job1, changed1, skip) = normalizeJobTickState job nowMs in
      if skip then (job1, [], changed1)
      else let (job2, effects, changed2) = fn job1 nowMs in (job2, effects, changed1 \<or> changed2))"

fun walk_jobs :: "job_pass \<Rightarrow> ms \<Rightarrow> cron_job list \<Rightarrow> cron_job list \<times> cron_effect list \<times> bool" where
  "walk_jobs fn nowMs [] = ([], [], False)"
| "walk_jobs fn nowMs (job # rest) =
     (let (job', effects, changed) = tick_job fn job nowMs;
          (rest', effects', changed') = walk_jobs fn nowMs rest
      in (job' # rest', effects @ effects', changed \<or> changed'))"

definition walkSchedulableJobs :: "job_pass \<Rightarrow> ms \<Rightarrow> cron_service \<Rightarrow> cron_service \<times> bool" where
  "walkSchedulableJobs fn nowMs s =
     (case sv_store s of
        None \<Rightarrow> (s, False)
      | Some jobs \<Rightarrow>
        (let (jobs', effects, changed) = walk_jobs fn nowMs jobs in (do_effects effects (set_jobs jobs' s), changed)))"

definition error_backoff_floor :: "cron_deps \<Rightarrow> cron_job \<Rightarrow> ms option" where
  "error_backoff_floor deps job =
     (let st = cj_state job in
      if \<not> is_at (cj_schedule job) \<and> st_lastStatus st = Some StatusError
      then (case st_lastRunAtMs st of
              None \<Rightarrow> None
            | Some lastRunAtMs \<Rightarrow>
              (let consecutiveErrors = max 1 (js_or_else (st_consecutiveErrors st) 1);
                   scheduleMs = (case dp_retry deps of
                                   None \<Rightarrow> DEFAULT_ERROR_BACKOFF_SCHEDULE_MS
                                 | Some r \<Rightarrow> js_or_else (rt_backoffMs r) DEFAULT_ERROR_BACKOFF_SCHEDULE_MS)
               in Some (lastRunAtMs + errorBackoffMs consecutiveErrors scheduleMs)))
      else None)"

definition recomputeJobNextRunAtMs :: "cron_deps \<Rightarrow> job_pass" where
  "recomputeJobNextRunAtMs deps job nowMs =
     (case computeJobNextRunAtMs (dp_env deps) job nowMs of
        Inl err \<Rightarrow> (let (job', effects) = recordScheduleComputeError job err in (job', effects, True))
      | Inr natural \<Rightarrow>
        (let st = cj_state job;
             newNext = (case error_backoff_floor deps job of
                          None \<Rightarrow> natural
                        | Some backoffFloor \<Rightarrow> map_option (\<lambda>n. max n backoffFloor) natural);
             hadErrors = js_truthy_int (st_scheduleErrorCount st)
         in (job\<lparr>cj_state := st\<lparr>st_nextRunAtMs := newNext,
                     st_scheduleErrorCount := (if hadErrors then None else st_scheduleErrorCount st)\<rparr>\<rparr>,
             [], st_nextRunAtMs st \<noteq> newNext \<or> hadErrors)))"

definition recompute_due_or_missing :: "cron_deps \<Rightarrow> job_pass" where
  "recompute_due_or_missing deps job nowMs =
     (let nextRun = st_nextRunAtMs (cj_state job) in
      if \<not> hasScheduledNextRunAtMs nextRun \<or> nowMs \<ge> the nextRun
      then recomputeJobNextRunAtMs deps job nowMs else (job, [], False))"

definition recomputeNextRuns :: "cron_deps \<Rightarrow> ms \<Rightarrow> cron_service \<Rightarrow> cron_service \<times> bool" where
  "recomputeNextRuns deps nowMs s = walkSchedulableJobs (recompute_due_or_missing deps) nowMs s"

definition recompute_missing_or_executed :: "cron_deps \<Rightarrow> bool \<Rightarrow> job_pass" where
  "recompute_missing_or_executed deps recomputeExpired job nowMs =
     (let st = cj_state job; nextRun = st_nextRunAtMs st in
      if \<not> hasScheduledNextRunAtMs nextRun then recomputeJobNextRunAtMs deps job nowMs
      else if recomputeExpired \<and> nowMs \<ge> the nextRun \<and> st_runningAtMs st = None
      then (case st_lastRunAtMs st of
              Some lastRun \<Rightarrow> if lastRun \<ge> the nextRun then recomputeJobNextRunAtMs deps job nowMs else (job, [], False)
            | None \<Rightarrow> (job, [], False))
      else (job, [], False))"

definition recomputeNextRunsForMaintenance :: "cron_deps \<Rightarrow> bool \<Rightarrow> ms \<Rightarrow> cron_service \<Rightarrow> cron_service \<times> bool" where
  "recomputeNextRunsForMaintenance deps recomputeExpired nowMs s =
     walkSchedulableJobs (recompute_missing_or_executed deps recomputeExpired) nowMs s"

subsection \<open>Looking at jobs\<close>

definition nextWakeAtMs :: "cron_service \<Rightarrow> ms option" where
  "nextWakeAtMs s =
     (let enabled = filter (\<lambda>j. cj_enabled j \<and> hasScheduledNextRunAtMs (st_nextRunAtMs (cj_state j))) (jobs_of s) in
      case enabled of
        [] \<Rightarrow> None
      | first # _ \<Rightarrow>
          Some (fold (\<lambda>j m. case st_nextRunAtMs (cj_state j) of
                             Some next \<Rightarrow> if next > 0 then min m next else m
                           | None \<Rightarrow> m)
                  enabled (the (st_nextRunAtMs (cj_state first)))))"

definition findJobOrThrow :: "cron_service \<Rightarrow> string \<Rightarrow> cron_job fallible" where
  "findJobOrThrow s i =
     (case find_job i (jobs_of s) of
        None \<Rightarrow> throw_error (''unknown cron job id: '' @ i)
      | Some job \<Rightarrow> Inr job)"

definition isJobDue :: "cron_job \<Rightarrow> ms \<Rightarrow> bool \<Rightarrow> bool" where
  "isJobDue job nowMs forced =
     (if st_runningAtMs (cj_state job) \<noteq> None then False
      else if forced then True
      else isJobEnabled job \<and> hasScheduledNextRunAtMs (st_nextRunAtMs (cj_state job)) \<and>
           nowMs \<ge> the (st_nextRunAtMs (cj_state job)))"

definition normalizePayloadToSystemText :: "cron_payload \<Rightarrow> string" where
  "normalizePayloadToSystemText payload =
     (case payload of SystemEventPayload text \<Rightarrow> js_trim text | AgentTurnPayload turn \<Rightarrow> js_trim (tu_message turn))"

definition resolveJobPayloadTextForMain :: "cron_job \<Rightarrow> string option" where
  "resolveJobPayloadTextForMain job =
     (case cj_payload job of
        SystemEventPayload _ \<Rightarrow>
          (let text = normalizePayloadToSystemText (cj_payload job) in if js_trim text \<noteq> [] then Some text else None)
      | AgentTurnPayload _ \<Rightarrow> None)"

end
