(* ===== verification/Cron_Maintenance.thy ===== *)
theory Cron_Maintenance
  imports Cron_Jobs
begin

text \<open>
  What the maintenance passes of the cron service keep: the identity and order of the jobs,
  no run time on a disabled job, and the pending run of an enabled one.
\<close>

subsection \<open>Backoff\<close>

lemma backoff_index: "0 < n \<Longrightarrow> nat (max 0 (min (c - 1) (int n - 1))) < n"
  by (simp add: max_def min_def) arith

lemma errorBackoffMs_mem: "schedule \<noteq> [] \<Longrightarrow> errorBackoffMs c schedule \<in> set schedule"
  using backoff_index [of "length schedule" c] by (simp add: errorBackoffMs_def Let_def)

lemma errorBackoffMs_default:
  "30000 \<le> errorBackoffMs c DEFAULT_ERROR_BACKOFF_SCHEDULE_MS"
  "errorBackoffMs c DEFAULT_ERROR_BACKOFF_SCHEDULE_MS \<le> 3600000"
  using errorBackoffMs_mem [of DEFAULT_ERROR_BACKOFF_SCHEDULE_MS c]
  by (auto simp: DEFAULT_ERROR_BACKOFF_SCHEDULE_MS_def)

lemma errorBackoffMs_mono:
  assumes "sorted schedule" "schedule \<noteq> []" "c \<le> d"
  shows "errorBackoffMs c schedule \<le> errorBackoffMs d schedule"
proof -
  let ?i = "\<lambda>c. nat (max 0 (min (c - 1) (int (length schedule) - 1)))"
  have "?i c \<le> ?i d" using assms(3) by (intro nat_mono max.mono min.mono) auto
  moreover have "?i d < length schedule" using assms(2) by (intro backoff_index) simp
  ultimately have "schedule ! ?i c \<le> schedule ! ?i d" "?i c < length schedule" "?i d < length schedule"
    using assms(1) by (auto simp: sorted_nth_mono)
  then show ?thesis by (simp add: errorBackoffMs_def Let_def)
qed

subsection \<open>The next run of a recurring job\<close>

lemma computeNextRunAtMs_cron_ahead:
  "is_cron s \<Longrightarrow> computeNextRunAtMs env s n = Inr (Some t) \<Longrightarrow> n < t"
  using cron_runs.next_ahead [of s env n t] by simp

lemma staggered_next_ahead:
  "is_cron s \<Longrightarrow> computeStaggeredCronNextRunAtMs env i s n = Inr (Some t) \<Longrightarrow> n < t"
  using cron_runs.next_loop_ahead [where s = s and env = env]
  by (auto simp: computeStaggeredCronNextRunAtMs_def Let_def split: if_splits dest: computeNextRunAtMs_cron_ahead)

lemma next_second: "n < n div 1000 * 1000 + (1000 :: int)"
  using div_mult_mod_eq [of n 1000] pos_mod_bound [of 1000 n] by linarith

lemma computeJobNextRunAtMs_cron_ahead:
  assumes "is_cron (cj_schedule job)" "computeJobNextRunAtMs env job n = Inr (Some t)"
  shows "n < t"
  using assms next_second [of n] staggered_next_ahead [of "cj_schedule job" env "cj_id job"]
  by (fastforce simp: computeJobNextRunAtMs_def split: if_splits cron_schedule.splits sum.splits option.splits)

lemma computeNext_every:
  "computeNextRunAtMs env (SchedEvery (JNum (js_int e)) (JNum (js_int a))) n = Inr (Some (nextEveryRun (of_int e) (Some (of_int a)) n))"
  by (simp add: computeNextRunAtMs_def coerceFiniteScheduleNumber_def js_int_def)

lemma computeJobNextRunAtMs_every_ahead:
  assumes "is_every (cj_schedule job)" "computeJobNextRunAtMs env job n = Inr (Some t)"
  shows "n \<le> t"
  using assms nextEveryRun_ge [of n]
  by (auto simp: computeJobNextRunAtMs_def computeNext_every Let_def is_every_def
      split: if_splits cron_schedule.splits option.splits)

lemma computeJobNextRunAtMs_disabled [simp]: "\<not> cj_enabled job \<Longrightarrow> computeJobNextRunAtMs env job n = Inr None"
  by (simp add: computeJobNextRunAtMs_def isJobEnabled_def)

subsection \<open>Walking over the store\<close>

lemma walk_jobs_map:
  "walk_jobs fn n js = (map (\<lambda>j. fst (tick_job fn j n)) js, concat (map (\<lambda>j. fst (snd (tick_job fn j n))) js),
     list_ex (\<lambda>j. snd (snd (tick_job fn j n))) js)"
  by (induction js) (simp_all add: case_prod_unfold Let_def)

locale maintenance_pass =
  fixes pass :: job_pass
  assumes pass_id: "cj_id (fst (pass job n)) = cj_id job"
    and pass_enables: "cj_enabled (fst (pass job n)) \<Longrightarrow> cj_enabled job"
    and pass_disabled: "\<not> cj_enabled (fst (pass job n)) \<Longrightarrow> cj_enabled job \<Longrightarrow> st_nextRunAtMs (cj_state (fst (pass job n))) = None"
begin

lemma normalize_facts:
  "cj_id (fst (normalizeJobTickState job n)) = cj_id job"
  "cj_enabled (fst (normalizeJobTickState job n)) = cj_enabled job"
  "snd (snd (normalizeJobTickState job n)) = (\<not> cj_enabled job)"
  "\<not> cj_enabled job \<Longrightarrow> st_nextRunAtMs (cj_state (fst (normalizeJobTickState job n))) = None"
  "\<not> cj_enabled job \<Longrightarrow> st_runningAtMs (cj_state (fst (normalizeJobTickState job n))) = None"
  by (auto simp: normalizeJobTickState_def Let_def isJobEnabled_def split: cron_schedule.splits)

lemma tick_id: "cj_id (fst (tick_job pass job n)) = cj_id job"
  using normalize_facts(1) [of job n] pass_id by (auto simp: tick_job_def case_prod_unfold Let_def)

lemma tick_enables: "cj_enabled (fst (tick_job pass job n)) \<Longrightarrow> cj_enabled job"
  using normalize_facts(2) [of job n] pass_enables by (auto simp: tick_job_def case_prod_unfold Let_def split: if_splits)

lemma tick_disabled:
  "\<not> cj_enabled (fst (tick_job pass job n)) \<Longrightarrow> st_nextRunAtMs (cj_state (fst (tick_job pass job n))) = None"
  using normalize_facts [of job n] pass_disabled
  by (auto simp: tick_job_def case_prod_unfold Let_def split: if_splits)

lemma walk_store:
  "sv_store s = Some js \<Longrightarrow>
   jobs_of (fst (walkSchedulableJobs pass n s)) = map (\<lambda>j. fst (tick_job pass j n)) js"
  by (simp add: walkSchedulableJobs_def walk_jobs_map)

lemma walk_ids: "map cj_id (jobs_of (fst (walkSchedulableJobs pass n s))) = map cj_id (jobs_of s)"
  by (cases "sv_store s") (simp_all add: walkSchedulableJobs_def walk_jobs_map tick_id jobs_of_def comp_def)

lemma walk_find:
  "sv_store s \<noteq> None \<Longrightarrow> find_job i (jobs_of (fst (walkSchedulableJobs pass n s))) =
     map_option (\<lambda>j. fst (tick_job pass j n)) (find_job i (jobs_of s))"
  by (auto simp: walk_store find_job_def jobs_of_def walkSchedulableJobs_def walk_jobs_map tick_id intro!: find_map_same)

lemma walk_disabled:
  "j \<in> set (jobs_of (fst (walkSchedulableJobs pass n s))) \<Longrightarrow> sv_store s \<noteq> None \<Longrightarrow> \<not> cj_enabled j \<Longrightarrow>
   st_nextRunAtMs (cj_state j) = None"
  by (auto simp: walk_store tick_disabled)

end

lemma recordScheduleComputeError_facts:
  "cj_id (fst (recordScheduleComputeError job e)) = cj_id job"
  "cj_enabled (fst (recordScheduleComputeError job e)) \<Longrightarrow> cj_enabled job"
  "st_nextRunAtMs (cj_state (fst (recordScheduleComputeError job e))) = None"
  by (auto simp: recordScheduleComputeError_def Let_def split: if_splits)

lemma recomputeJobNextRunAtMs_facts:
  "cj_id (fst (recomputeJobNextRunAtMs deps job n)) = cj_id job"
  "cj_enabled (fst (recomputeJobNextRunAtMs deps job n)) \<Longrightarrow> cj_enabled job"
  "\<not> cj_enabled (fst (recomputeJobNextRunAtMs deps job n)) \<Longrightarrow> st_nextRunAtMs (cj_state (fst (recomputeJobNextRunAtMs deps job n))) = None"
  using recordScheduleComputeError_facts [of job]
  by (auto simp: recomputeJobNextRunAtMs_def Let_def case_prod_unfold split: sum.splits option.splits)

interpretation due_pass: maintenance_pass "recompute_due_or_missing deps" for deps
  by unfold_locales
    (auto simp: recompute_due_or_missing_def Let_def recomputeJobNextRunAtMs_facts(1,3) split: if_splits
      dest: recomputeJobNextRunAtMs_facts(2))

interpretation missing_pass: maintenance_pass "recompute_missing_or_executed deps b" for deps b
  by unfold_locales
    (auto simp: recompute_missing_or_executed_def Let_def recomputeJobNextRunAtMs_facts(1,3) split: if_splits option.splits
      dest: recomputeJobNextRunAtMs_facts(2))

subsection \<open>The earliest wake-up\<close>

lemma Min_insert_min: "finite S \<Longrightarrow> Min (insert (min a t) S) = Min (insert a (insert t (S :: ms set)))"
  by (cases "S = {}") (simp_all add: min.assoc)

lemma fold_min_eq:
  "fold (\<lambda>j m. case st_nextRunAtMs (cj_state j) of Some next \<Rightarrow> if next > 0 then min m next else m | None \<Rightarrow> m) js m0 =
   Min (insert m0 {t. \<exists>j \<in> set js. st_nextRunAtMs (cj_state j) = Some t \<and> t > 0})"
proof (induction js arbitrary: m0)
  case (Cons j js)
  let ?S = "{t. \<exists>j \<in> set js. st_nextRunAtMs (cj_state j) = Some t \<and> t > 0}"
  have fin: "finite ?S"
    by (rule finite_subset [of _ "(\<lambda>j. the (st_nextRunAtMs (cj_state j))) ` set js"]) force+
  show ?case
  proof (cases "st_nextRunAtMs (cj_state j)")
    case None
    then show ?thesis using Cons [of m0] by simp
  next
    case (Some t)
    have "{u. \<exists>x \<in> set (j # js). st_nextRunAtMs (cj_state x) = Some u \<and> u > 0} = (if t > 0 then insert t ?S else ?S)"
      using Some by auto
    then show ?thesis using Some Cons Min_insert_min [OF fin, of m0 t] by simp
  qed
qed simp

definition pending_runs :: "cron_service \<Rightarrow> ms set" where
  "pending_runs s = {t. \<exists>j \<in> set (jobs_of s). cj_enabled j \<and> st_nextRunAtMs (cj_state j) = Some t \<and> t > 0}"

lemma nextWakeAtMs_Min:
  "nextWakeAtMs s = (if pending_runs s = {} then None else Some (Min (pending_runs s)))"
proof -
  let ?en = "filter (\<lambda>j. cj_enabled j \<and> hasScheduledNextRunAtMs (st_nextRunAtMs (cj_state j))) (jobs_of s)"
  have set: "{t. \<exists>j \<in> set ?en. st_nextRunAtMs (cj_state j) = Some t \<and> t > 0} = pending_runs s"
    by (auto simp: pending_runs_def hasScheduledNextRunAtMs_def)
  show ?thesis
  proof (cases ?en)
    case Nil
    then have "pending_runs s = {}" using set by simp
    with Nil show ?thesis by (simp add: nextWakeAtMs_def)
  next
    case (Cons f rest)
    then have "f \<in> set ?en" by simp
    then obtain t where t: "st_nextRunAtMs (cj_state f) = Some t" "t > 0" "t \<in> pending_runs s"
      by (auto simp: hasScheduledNextRunAtMs_def pending_runs_def split: option.splits)
    have "nextWakeAtMs s = Some (Min (insert t (pending_runs s)))"
      using Cons t fold_min_eq [of ?en t] set by (simp add: nextWakeAtMs_def del: fold.simps filter.simps)
    with t(3) show ?thesis by (auto simp: insert_absorb)
  qed
qed

end
