(* ===== verification/Cron_Edit.thy ===== *)
theory Cron_Edit
  imports Cron_Maintenance
begin

text \<open>
  Creating and patching jobs: \<open>createJob\<close>, \<open>applyJobPatch\<close>, the merge functions and the
  assertions of \<open>src/cron/service/jobs.ts\<close>, with \<open>src/cron/session-target.ts\<close>,
  \<open>src/cron/webhook-url.ts\<close>, \<open>src/cron/service/normalize.ts\<close> and
  \<open>src/cron/service/initial-delivery.ts\<close>.

  A patch is applied to the job in place, field by field, before it is checked as a whole.
  So \<open>applyJobPatch\<close> gives back the job as the statements left it together with the error,
  if one was thrown: the caller's job has changed in either case.
\<close>

subsection \<open>Statements that may throw\<close>

type_synonym job_step = "cron_job \<Rightarrow> string option \<times> cron_job"

definition then_step :: "job_step \<Rightarrow> job_step \<Rightarrow> job_step" where
  "then_step f g job = (case f job of (Some e, job') \<Rightarrow> (Some e, job') | (None, job') \<Rightarrow> g job')"

definition run_steps :: "job_step list \<Rightarrow> job_step" where
  "run_steps steps = foldr then_step steps (\<lambda>job. (None, job))"

definition pure_step :: "(cron_job \<Rightarrow> cron_job) \<Rightarrow> job_step" where
  "pure_step f job = (None, f job)"

definition fail_step :: "string \<Rightarrow> job_step" where
  "fail_step msg job = (Some (''Error: '' @ msg), job)"

definition try_step :: "'a fallible \<Rightarrow> ('a \<Rightarrow> cron_job) \<Rightarrow> cron_job \<Rightarrow> string option \<times> cron_job" where
  "try_step r f job = (case r of Inl e \<Rightarrow> (Some e, job) | Inr v \<Rightarrow> (None, f v))"

subsection \<open>Normalising fields\<close>

definition normalizeRequiredName :: "js_value \<Rightarrow> string fallible" where
  "normalizeRequiredName raw =
     (case raw of
        JStr s \<Rightarrow> (let name = js_trim s in if name = [] then throw_error ''cron job name is required'' else Inr name)
      | _ \<Rightarrow> throw_error ''cron job name is required'')"

definition normalizeOptionalAgentId :: "js_value \<Rightarrow> string option" where
  "normalizeOptionalAgentId raw = map_option (\<lambda>t. normalizeAgentId (Some t)) (normalizeOptionalString raw)"

definition isAllowedWebhookProtocol :: "string \<Rightarrow> bool" where
  "isAllowedWebhookProtocol protocol = (protocol = ''http:'' \<or> protocol = ''https:'')"

definition normalizeHttpWebhookUrl :: "cron_env \<Rightarrow> string option \<Rightarrow> string option" where
  "normalizeHttpWebhookUrl env v =
     (case v of
        None \<Rightarrow> None
      | Some s \<Rightarrow>
        (let trimmed = js_trim s in
         if trimmed = [] then None
         else (case ce_url_protocol env trimmed of
                 None \<Rightarrow> None
               | Some protocol \<Rightarrow> if isAllowedWebhookProtocol protocol then Some trimmed else None)))"

definition assertSafeCronSessionTargetId :: "string \<Rightarrow> string fallible" where
  "assertSafeCronSessionTargetId sessionId =
     (let trimmed = js_trim sessionId in
      if trimmed = [] \<or> CHR ''/'' \<in> set trimmed \<or> CHR 0x5C \<in> set trimmed \<or> CHR 0x00 \<in> set trimmed
      then throw_error ''invalid cron sessionTarget session id'' else Inr trimmed)"

subsection \<open>Assertions\<close>

definition is_isolated_like :: "string \<Rightarrow> bool" where
  "is_isolated_like target = (target = ''isolated'' \<or> target = ''current'' \<or> prefix ''session:'' target)"

definition assertSupportedJobSpec :: "string \<Rightarrow> cron_payload \<Rightarrow> unit fallible" where
  "assertSupportedJobSpec sessionTarget payload =
     (let checked = (if prefix ''session:'' sessionTarget
                     then (case assertSafeCronSessionTargetId (drop 8 sessionTarget) of Inl e \<Rightarrow> Inl e | Inr _ \<Rightarrow> Inr ())
                     else Inr ()) in
      case checked of
        Inl e \<Rightarrow> Inl e
      | Inr _ \<Rightarrow>
        (case payload of
           SystemEventPayload _ \<Rightarrow>
             if is_isolated_like sessionTarget
             then throw_error ''isolated/current/session cron jobs require payload.kind=\"agentTurn\"'' else Inr ()
         | AgentTurnPayload _ \<Rightarrow>
             if sessionTarget = ''main''
             then throw_error ''main cron jobs require payload.kind=\"systemEvent\"'' else Inr ()))"

definition assertMainSessionAgentId :: "string option \<Rightarrow> cron_job \<Rightarrow> unit fallible" where
  "assertMainSessionAgentId defaultAgentId job =
     (if cj_sessionTarget job \<noteq> ''main'' \<or> \<not> js_truthy_str (cj_agentId job) then Inr ()
      else if normalizeAgentId (cj_agentId job) \<noteq> normalizeAgentId defaultAgentId
      then throw_error (''cron: sessionTarget \"main\" is only valid for the default agent. Use sessionTarget \"isolated\" with payload.kind \"agentTurn\" for non-default agents (agentId: ''
             @ the (cj_agentId job) @ '')'')
      else Inr ())"

definition assertDeliverySupport :: "cron_env \<Rightarrow> job_step" where
  "assertDeliverySupport env job =
     (case cj_delivery job of
        None \<Rightarrow> (None, job)
      | Some delivery \<Rightarrow>
        if cd_mode delivery = Some ''none'' then (None, job)
        else if cd_mode delivery = Some ''webhook'' then
          (case normalizeHttpWebhookUrl env (cd_to delivery) of
             None \<Rightarrow> fail_step ''cron webhook delivery requires delivery.to to be a valid http(s) URL'' job
           | Some target \<Rightarrow> (None, job\<lparr>cj_delivery := Some (delivery\<lparr>cd_to := Some target\<rparr>)\<rparr>))
        else if \<not> is_isolated_like (cj_sessionTarget job)
        then fail_step ''cron channel delivery config is only supported for sessionTarget=\"isolated\"'' job
        else (None, job))"

definition failure_destination_message :: string where
  "failure_destination_message =
     ''cron delivery.failureDestination is only supported for sessionTarget=\"isolated\" unless delivery.mode=\"webhook\"''"

definition failure_destination_of :: "cron_job \<Rightarrow> failure_destination option" where
  "failure_destination_of job = (case cj_delivery job of None \<Rightarrow> None | Some d \<Rightarrow> cd_failureDestination d)"

definition delivery_mode_of :: "cron_job \<Rightarrow> string option" where
  "delivery_mode_of job = (case cj_delivery job of None \<Rightarrow> None | Some d \<Rightarrow> cd_mode d)"

definition assertFailureDestinationSupport :: "cron_env \<Rightarrow> job_step" where
  "assertFailureDestinationSupport env job =
     (case failure_destination_of job of
        None \<Rightarrow> (None, job)
      | Some fd \<Rightarrow>
        if cj_sessionTarget job = ''main'' \<and> delivery_mode_of job \<noteq> Some ''webhook''
        then fail_step failure_destination_message job
        else if fd_mode fd = Some (Some ''webhook'') then
          (case normalizeHttpWebhookUrl env (js_or_else (fd_to fd) None) of
             None \<Rightarrow> fail_step ''cron failure destination webhook requires delivery.failureDestination.to to be a valid http(s) URL'' job
           | Some target \<Rightarrow>
               (None, job\<lparr>cj_delivery := map_option (\<lambda>d. d\<lparr>cd_failureDestination := Some (fd\<lparr>fd_to := Some (Some target)\<rparr>)\<rparr>)
                            (cj_delivery job)\<rparr>))
        else (None, job))"

definition assert_job :: "cron_env \<Rightarrow> string option \<Rightarrow> job_step" where
  "assert_job env defaultAgentId =
     run_steps
       [\<lambda>job. try_step (assertSupportedJobSpec (cj_sessionTarget job) (cj_payload job)) (\<lambda>_. job) job,
        \<lambda>job. try_step (assertMainSessionAgentId defaultAgentId job) (\<lambda>_. job) job,
        assertDeliverySupport env,
        assertFailureDestinationSupport env]"

subsection \<open>Patches\<close>

record state_patch =
  sp_nextRunAtMs :: "ms own_field"
  sp_runningAtMs :: "ms own_field"
  sp_lastRunAtMs :: "ms own_field"
  sp_lastRunStatus :: "run_status own_field"
  sp_lastStatus :: "run_status own_field"
  sp_lastError :: "string own_field"
  sp_lastErrorReason :: "string own_field"
  sp_lastDurationMs :: "ms own_field"
  sp_consecutiveErrors :: "int own_field"
  sp_lastFailureAlertAtMs :: "ms own_field"
  sp_scheduleErrorCount :: "int own_field"
  sp_lastDeliveryStatus :: "delivery_status own_field"
  sp_lastDeliveryError :: "string own_field"
  sp_lastDelivered :: "bool own_field"

definition empty_state_patch :: state_patch where
  "empty_state_patch =
     \<lparr>sp_nextRunAtMs = None, sp_runningAtMs = None, sp_lastRunAtMs = None, sp_lastRunStatus = None,
      sp_lastStatus = None, sp_lastError = None, sp_lastErrorReason = None, sp_lastDurationMs = None,
      sp_consecutiveErrors = None, sp_lastFailureAlertAtMs = None, sp_scheduleErrorCount = None,
      sp_lastDeliveryStatus = None, sp_lastDeliveryError = None, sp_lastDelivered = None\<rparr>"

text \<open>\<open>{ ...state, ...patch }\<close>.\<close>

definition spread_state :: "job_state \<Rightarrow> state_patch \<Rightarrow> job_state" where
  "spread_state st p =
     \<lparr>st_nextRunAtMs = js_or_else (sp_nextRunAtMs p) (st_nextRunAtMs st),
      st_runningAtMs = js_or_else (sp_runningAtMs p) (st_runningAtMs st),
      st_lastRunAtMs = js_or_else (sp_lastRunAtMs p) (st_lastRunAtMs st),
      st_lastRunStatus = js_or_else (sp_lastRunStatus p) (st_lastRunStatus st),
      st_lastStatus = js_or_else (sp_lastStatus p) (st_lastStatus st),
      st_lastError = js_or_else (sp_lastError p) (st_lastError st),
      st_lastErrorReason = js_or_else (sp_lastErrorReason p) (st_lastErrorReason st),
      st_lastDurationMs = js_or_else (sp_lastDurationMs p) (st_lastDurationMs st),
      st_consecutiveErrors = js_or_else (sp_consecutiveErrors p) (st_consecutiveErrors st),
      st_lastFailureAlertAtMs = js_or_else (sp_lastFailureAlertAtMs p) (st_lastFailureAlertAtMs st),
      st_scheduleErrorCount = js_or_else (sp_scheduleErrorCount p) (st_scheduleErrorCount st),
      st_lastDeliveryStatus = js_or_else (sp_lastDeliveryStatus p) (st_lastDeliveryStatus st),
      st_lastDeliveryError = js_or_else (sp_lastDeliveryError p) (st_lastDeliveryError st),
      st_lastDelivered = js_or_else (sp_lastDelivered p) (st_lastDelivered st)\<rparr>"

record turn_patch =
  up_message :: "string option"
  up_model :: "string option"
  up_fallbacks :: "string list option"
  up_toolsAllow :: "string list own_field"
  up_thinking :: "string option"
  up_timeoutSeconds :: "js_num option"
  up_lightContext :: "bool option"
  up_allowUnsafe :: "bool option"

datatype payload_patch = SystemEventPatch "string option" | AgentTurnPatch turn_patch

record destination_patch =
  fp_channel :: "js_value option"
  fp_to :: "js_value option"
  fp_accountId :: "js_value option"
  fp_mode :: "js_value option"

record delivery_patch =
  pd_mode :: "string option"
  pd_channel :: "js_value option"
  pd_to :: "js_value option"
  pd_threadId :: "js_value option"
  pd_accountId :: "js_value option"
  pd_bestEffort :: "bool option"
  pd_failureDestination :: "destination_patch own_field"

record alert_fields =
  af_after :: "js_value option"
  af_channel :: "js_value option"
  af_to :: "js_value option"
  af_cooldownMs :: "js_value option"
  af_mode :: "js_value option"
  af_accountId :: "js_value option"

datatype alert_patch = AlertPatchUnset | AlertPatchOff | AlertPatch alert_fields

record cron_patch =
  pa_name :: "js_value option"
  pa_description :: "js_value option"
  pa_enabled :: js_value
  pa_deleteAfterRun :: js_value
  pa_schedule :: "cron_schedule option"
  pa_sessionTarget :: "string option"
  pa_wakeMode :: "wake_mode option"
  pa_payload :: "payload_patch option"
  pa_delivery :: "delivery_patch option"
  pa_failureAlert :: "alert_patch option"
  pa_state :: "state_patch option"
  pa_agentId :: "js_value option"
  pa_sessionKey :: "js_value option"

subsection \<open>Merging\<close>

definition buildPayloadFromPatch :: "payload_patch \<Rightarrow> cron_payload fallible" where
  "buildPayloadFromPatch patch =
     (case patch of
        SystemEventPatch text \<Rightarrow>
          if js_truthy_str text then Inr (SystemEventPayload (the text))
          else throw_error ''cron.update payload.kind=\"systemEvent\" requires text''
      | AgentTurnPatch p \<Rightarrow>
          if js_truthy_str (up_message p)
          then Inr (AgentTurnPayload
                 \<lparr>tu_message = the (up_message p), tu_model = up_model p, tu_fallbacks = up_fallbacks p,
                  tu_thinking = up_thinking p, tu_timeoutSeconds = up_timeoutSeconds p,
                  tu_allowUnsafe = up_allowUnsafe p, tu_contentSource = None, tu_lightContext = up_lightContext p,
                  tu_toolsAllow = js_or_else (up_toolsAllow p) None\<rparr>)
          else throw_error ''cron.update payload.kind=\"agentTurn\" requires message'')"

definition mergeCronPayload :: "cron_payload \<Rightarrow> payload_patch \<Rightarrow> cron_payload fallible" where
  "mergeCronPayload existing patch =
     (case (patch, existing) of
        (SystemEventPatch text, SystemEventPayload old) \<Rightarrow> Inr (SystemEventPayload (js_or_else text old))
      | (AgentTurnPatch p, AgentTurnPayload t) \<Rightarrow>
          Inr (AgentTurnPayload
            (t\<lparr>tu_message := js_or_else (up_message p) (tu_message t),
               tu_model := js_alt (up_model p) (tu_model t),
               tu_fallbacks := js_alt (up_fallbacks p) (tu_fallbacks t),
               tu_toolsAllow := js_or_else (up_toolsAllow p) (tu_toolsAllow t),
               tu_thinking := js_alt (up_thinking p) (tu_thinking t),
               tu_timeoutSeconds := js_alt (up_timeoutSeconds p) (tu_timeoutSeconds t),
               tu_lightContext := js_alt (up_lightContext p) (tu_lightContext t),
               tu_allowUnsafe := js_alt (up_allowUnsafe p) (tu_allowUnsafe t)\<rparr>))
      | _ \<Rightarrow> buildPayloadFromPatch patch)"

definition thread_js :: "thread_value option \<Rightarrow> js_value" where
  "thread_js t = (case t of None \<Rightarrow> JUndef | Some (ThreadStr s) \<Rightarrow> JStr s | Some (ThreadNum i) \<Rightarrow> JNum (js_int i))"

definition announce_or_webhook :: "js_value \<Rightarrow> string option" where
  "announce_or_webhook v =
     (let mode = js_or_else (normalizeOptionalString v) [] in
      if mode = ''announce'' \<or> mode = ''webhook'' then Some mode else None)"

definition own_or :: "'a option \<Rightarrow> ('a \<Rightarrow> 'b) \<Rightarrow> 'b \<Rightarrow> 'b" where
  "own_or field f d = (case field of None \<Rightarrow> d | Some v \<Rightarrow> f v)"

definition own_value :: "('a \<Rightarrow> 'b own_field) \<Rightarrow> 'a option \<Rightarrow> 'b option" where
  "own_value field x = (case x of None \<Rightarrow> None | Some v \<Rightarrow> js_or_else (field v) None)"

definition mergeFailureDestination :: "failure_destination option \<Rightarrow> destination_patch \<Rightarrow> failure_destination" where
  "mergeFailureDestination existingFd p =
     \<lparr>fd_channel = Some (own_or (fp_channel p) normalizeOptionalString (own_value fd_channel existingFd)),
      fd_to = Some (own_or (fp_to p) normalizeOptionalString (own_value fd_to existingFd)),
      fd_accountId = Some (own_or (fp_accountId p) normalizeOptionalString (own_value fd_accountId existingFd)),
      fd_mode = Some (own_or (fp_mode p) announce_or_webhook (own_value fd_mode existingFd))\<rparr>"

definition mergeCronDelivery :: "cron_delivery option \<Rightarrow> delivery_patch \<Rightarrow> cron_delivery" where
  "mergeCronDelivery existing p =
     (let old = (case existing of
                   Some d \<Rightarrow> d\<lparr>cd_mode := Some (js_or_else (cd_mode d) ''none'')\<rparr>
                 | None \<Rightarrow> \<lparr>cd_mode = Some ''none'', cd_channel = None, cd_to = None, cd_threadId = JUndef,
                            cd_accountId = None, cd_bestEffort = None, cd_failureDestination = None\<rparr>)
      in \<lparr>cd_mode = own_or (pd_mode p) (\<lambda>m. Some (if m = ''deliver'' then ''announce'' else m)) (cd_mode old),
          cd_channel = own_or (pd_channel p) normalizeOptionalString (cd_channel old),
          cd_to = own_or (pd_to p) normalizeOptionalString (cd_to old),
          cd_threadId = own_or (pd_threadId p) (\<lambda>v. thread_js (normalizeOptionalThreadValue v)) (cd_threadId old),
          cd_accountId = own_or (pd_accountId p) normalizeOptionalString (cd_accountId old),
          cd_bestEffort = js_alt (pd_bestEffort p) (cd_bestEffort old),
          cd_failureDestination =
            own_or (pd_failureDestination p)
              (\<lambda>fd. map_option (mergeFailureDestination (cd_failureDestination old)) fd)
              (cd_failureDestination old)\<rparr>)"

definition alert_after :: "js_value \<Rightarrow> js_num option" where
  "alert_after v =
     (let after = (case v of JNum (Finite r) \<Rightarrow> r | _ \<Rightarrow> 0) in
      if after > 0 then Some (js_int \<lfloor>after\<rfloor>) else None)"

definition alert_cooldown :: "js_value \<Rightarrow> js_num option" where
  "alert_cooldown v =
     (let cooldownMs = (case v of JNum (Finite r) \<Rightarrow> r | _ \<Rightarrow> - 1) in
      if cooldownMs \<ge> 0 then Some (js_int \<lfloor>cooldownMs\<rfloor>) else None)"

definition mergeCronFailureAlert :: "alert_setting \<Rightarrow> alert_patch \<Rightarrow> alert_setting" where
  "mergeCronFailureAlert existing patch =
     (case patch of
        AlertPatchOff \<Rightarrow> AlertOff
      | AlertPatchUnset \<Rightarrow> existing
      | AlertPatch p \<Rightarrow>
        (let base = (case existing of
                       AlertOn a \<Rightarrow> a
                     | _ \<Rightarrow> \<lparr>fa_after = None, fa_channel = None, fa_to = None, fa_cooldownMs = None, fa_mode = None,
                             fa_accountId = None\<rparr>)
         in AlertOn
              \<lparr>fa_after = own_or (af_after p) alert_after (fa_after base),
               fa_channel = own_or (af_channel p) normalizeOptionalString (fa_channel base),
               fa_to = own_or (af_to p) normalizeOptionalString (fa_to base),
               fa_cooldownMs = own_or (af_cooldownMs p) alert_cooldown (fa_cooldownMs base),
               fa_mode = own_or (af_mode p) announce_or_webhook (fa_mode base),
               fa_accountId = own_or (af_accountId p) normalizeOptionalString (fa_accountId base)\<rparr>))"

subsection \<open>Patching a job\<close>

definition set_stagger :: "cron_schedule \<Rightarrow> js_value \<Rightarrow> cron_schedule" where
  "set_stagger s stagger =
     (case s of SchedCron expr legacy tz _ \<Rightarrow> SchedCron expr legacy tz stagger | _ \<Rightarrow> s)"

definition expr_text :: "cron_schedule \<Rightarrow> string" where
  "expr_text s = (case cron_expr s of JStr e \<Rightarrow> e | _ \<Rightarrow> [])"

definition patch_schedule :: "cron_schedule \<Rightarrow> cron_schedule \<Rightarrow> cron_schedule" where
  "patch_schedule old new =
     (if \<not> is_cron new then new
      else case normalizeCronStaggerMs (cron_stagger new) of
        Some explicit \<Rightarrow> set_stagger new (JNum (js_int explicit))
      | None \<Rightarrow>
        if is_cron old then set_stagger new (cron_stagger old)
        else (case resolveDefaultCronStaggerMs (expr_text new) of
                Some d \<Rightarrow> set_stagger new (JNum (js_int d))
              | None \<Rightarrow> new))"

definition when_some :: "'a option \<Rightarrow> ('a \<Rightarrow> job_step) \<Rightarrow> job_step" where
  "when_some v f job = (case v of None \<Rightarrow> (None, job) | Some x \<Rightarrow> f x job)"

definition patch_bool :: "js_value \<Rightarrow> (bool \<Rightarrow> cron_job \<Rightarrow> cron_job) \<Rightarrow> job_step" where
  "patch_bool v f job = (None, case v of JBool b \<Rightarrow> f b job | _ \<Rightarrow> job)"

definition patch_steps :: "cron_patch \<Rightarrow> job_step list" where
  "patch_steps patch =
       [when_some (pa_name patch)
          (\<lambda>v job. try_step (normalizeRequiredName v) (\<lambda>name. job\<lparr>cj_name := name\<rparr>) job),
        when_some (pa_description patch) (\<lambda>v. pure_step (\<lambda>job. job\<lparr>cj_description := normalizeOptionalString v\<rparr>)),
        patch_bool (pa_enabled patch) (\<lambda>b job. job\<lparr>cj_enabled := b\<rparr>),
        patch_bool (pa_deleteAfterRun patch) (\<lambda>b job. job\<lparr>cj_deleteAfterRun := Some b\<rparr>),
        when_some (pa_schedule patch) (\<lambda>s. pure_step (\<lambda>job. job\<lparr>cj_schedule := patch_schedule (cj_schedule job) s\<rparr>)),
        when_some (pa_sessionTarget patch)
          (\<lambda>t. pure_step (\<lambda>job. if t \<noteq> [] then job\<lparr>cj_sessionTarget := t\<rparr> else job)),
        when_some (pa_wakeMode patch) (\<lambda>m. pure_step (\<lambda>job. job\<lparr>cj_wakeMode := m\<rparr>)),
        when_some (pa_payload patch)
          (\<lambda>p job. try_step (mergeCronPayload (cj_payload job) p) (\<lambda>pl. job\<lparr>cj_payload := pl\<rparr>) job),
        when_some (pa_delivery patch)
          (\<lambda>d. pure_step (\<lambda>job. job\<lparr>cj_delivery := Some (mergeCronDelivery (cj_delivery job) d)\<rparr>)),
        when_some (pa_failureAlert patch)
          (\<lambda>a. pure_step (\<lambda>job. job\<lparr>cj_failureAlert := mergeCronFailureAlert (cj_failureAlert job) a\<rparr>)),
        (\<lambda>job. if cj_sessionTarget job = ''main'' \<and> delivery_mode_of job \<noteq> Some ''webhook'' \<and>
                  failure_destination_of job \<noteq> None
               then fail_step failure_destination_message job else (None, job)),
        pure_step (\<lambda>job. if cj_sessionTarget job = ''main'' \<and> delivery_mode_of job \<noteq> Some ''webhook''
                         then job\<lparr>cj_delivery := None\<rparr> else job),
        when_some (pa_state patch) (\<lambda>p. pure_step (\<lambda>job. job\<lparr>cj_state := spread_state (cj_state job) p\<rparr>)),
        when_some (pa_agentId patch) (\<lambda>v. pure_step (\<lambda>job. job\<lparr>cj_agentId := normalizeOptionalAgentId v\<rparr>)),
        when_some (pa_sessionKey patch) (\<lambda>v. pure_step (\<lambda>job. job\<lparr>cj_sessionKey := normalizeOptionalString v\<rparr>))]"

definition applyJobPatch :: "cron_env \<Rightarrow> string option \<Rightarrow> cron_patch \<Rightarrow> job_step" where
  "applyJobPatch env defaultAgentId patch = run_steps (patch_steps patch @ [assert_job env defaultAgentId])"

subsection \<open>Creating a job\<close>

record cron_create =
  cc_name :: js_value
  cc_description :: js_value
  cc_agentId :: js_value
  cc_sessionKey :: js_value
  cc_enabled :: js_value
  cc_deleteAfterRun :: js_value
  cc_schedule :: cron_schedule
  cc_sessionTarget :: string
  cc_wakeMode :: wake_mode
  cc_payload :: cron_payload
  cc_delivery :: "cron_delivery option"
  cc_failureAlert :: alert_setting
  cc_state :: "state_patch option"

definition announce_delivery :: cron_delivery where
  "announce_delivery =
     \<lparr>cd_mode = Some ''announce'', cd_channel = None, cd_to = None, cd_threadId = JUndef, cd_accountId = None,
      cd_bestEffort = None, cd_failureDestination = None\<rparr>"

definition resolveInitialCronDelivery :: "cron_create \<Rightarrow> cron_delivery option" where
  "resolveInitialCronDelivery input =
     (case cc_delivery input of
        Some d \<Rightarrow> Some d
      | None \<Rightarrow>
        (case cc_payload input of
           AgentTurnPayload _ \<Rightarrow> if cc_sessionTarget input = ''isolated'' then Some announce_delivery else None
         | SystemEventPayload _ \<Rightarrow> None))"

definition initial_schedule :: "cron_schedule \<Rightarrow> ms \<Rightarrow> cron_schedule" where
  "initial_schedule s now =
     (case s of
        SchedEvery everyMs anchorMs \<Rightarrow> SchedEvery everyMs (JNum (js_int (resolveEveryAnchorMs anchorMs now)))
      | SchedCron _ _ _ stagger \<Rightarrow>
          (case normalizeCronStaggerMs stagger of
             Some explicit \<Rightarrow> set_stagger s (JNum (js_int explicit))
           | None \<Rightarrow>
             (case resolveDefaultCronStaggerMs (expr_text s) of
                Some d \<Rightarrow> set_stagger s (JNum (js_int d))
              | None \<Rightarrow> s))
      | SchedAt _ _ \<Rightarrow> s)"

text \<open>\<open>newId\<close> is what \<open>crypto.randomUUID()\<close> returns.\<close>

definition createJob :: "cron_deps \<Rightarrow> ms \<Rightarrow> string \<Rightarrow> cron_create \<Rightarrow> cron_job fallible" where
  "createJob deps now newId input =
     (let schedule = initial_schedule (cc_schedule input) now;
          deleteAfterRun = (case cc_deleteAfterRun input of
                              JBool b \<Rightarrow> Some b
                            | _ \<Rightarrow> if is_at schedule then Some True else None);
          enabled = (case cc_enabled input of JBool b \<Rightarrow> b | _ \<Rightarrow> True)
      in case normalizeRequiredName (cc_name input) of
           Inl e \<Rightarrow> Inl e
         | Inr name \<Rightarrow>
           (let job = \<lparr>cj_id = newId, cj_agentId = normalizeOptionalAgentId (cc_agentId input),
                       cj_sessionKey = normalizeOptionalString (cc_sessionKey input), cj_name = name,
                       cj_description = normalizeOptionalString (cc_description input), cj_enabled = enabled,
                       cj_deleteAfterRun = deleteAfterRun, cj_createdAtMs = now, cj_updatedAtMs = now,
                       cj_schedule = schedule, cj_sessionTarget = cc_sessionTarget input,
                       cj_wakeMode = cc_wakeMode input, cj_payload = cc_payload input,
                       cj_delivery = resolveInitialCronDelivery input, cj_failureAlert = cc_failureAlert input,
                       cj_state = spread_state empty_job_state (js_or_else (cc_state input) empty_state_patch)\<rparr>
            in case assert_job (dp_env deps) (dp_defaultAgentId deps) job of
                 (Some e, _) \<Rightarrow> Inl e
               | (None, job') \<Rightarrow>
                 (case computeJobNextRunAtMs (dp_env deps) job' now of
                    Inl e \<Rightarrow> Inl e
                  | Inr next \<Rightarrow> Inr (job'\<lparr>cj_state := (cj_state job')\<lparr>st_nextRunAtMs := next\<rparr>\<rparr>))))"

subsection \<open>What the assertions leave standing\<close>

text \<open>A job whose target, payload, agent, delivery and failure destination fit together.\<close>

definition valid_spec :: "string option \<Rightarrow> cron_job \<Rightarrow> bool" where
  "valid_spec defaultAgentId job =
     ((cj_sessionTarget job = ''main'' \<longrightarrow> (\<exists>t. cj_payload job = SystemEventPayload t)) \<and>
      (is_isolated_like (cj_sessionTarget job) \<longrightarrow> (\<exists>t. cj_payload job = AgentTurnPayload t)) \<and>
      (prefix ''session:'' (cj_sessionTarget job) \<longrightarrow>
         (\<exists>t. assertSafeCronSessionTargetId (drop 8 (cj_sessionTarget job)) = Inr t)) \<and>
      (cj_sessionTarget job = ''main'' \<and> js_truthy_str (cj_agentId job) \<longrightarrow>
         normalizeAgentId (cj_agentId job) = normalizeAgentId defaultAgentId) \<and>
      (case cj_delivery job of
         None \<Rightarrow> True
       | Some d \<Rightarrow> cd_mode d = Some ''none'' \<or> cd_mode d = Some ''webhook'' \<or> is_isolated_like (cj_sessionTarget job)) \<and>
      (cj_sessionTarget job = ''main'' \<and> failure_destination_of job \<noteq> None \<longrightarrow>
         delivery_mode_of job = Some ''webhook''))"

text \<open>Every webhook of the job has a target the URL parser accepts.\<close>

definition webhook_ok :: "cron_env \<Rightarrow> string option \<Rightarrow> bool" where
  "webhook_ok env v = (normalizeHttpWebhookUrl env v = v \<and> v \<noteq> None)"

definition valid_webhooks :: "cron_env \<Rightarrow> cron_job \<Rightarrow> bool" where
  "valid_webhooks env job =
     ((\<forall>d. cj_delivery job = Some d \<and> cd_mode d = Some ''webhook'' \<longrightarrow> webhook_ok env (cd_to d)) \<and>
      (\<forall>fd. failure_destination_of job = Some fd \<and> fd_mode fd = Some (Some ''webhook'') \<longrightarrow>
         webhook_ok env (own_value fd_to (Some fd))))"

lemma normalizeHttpWebhookUrl_ok: "normalizeHttpWebhookUrl env v = Some t \<Longrightarrow> webhook_ok env (Some t)"
  by (auto simp: normalizeHttpWebhookUrl_def webhook_ok_def Let_def split: option.splits if_splits)

lemma run_steps_simps:
  "run_steps [] job = (None, job)"
  "run_steps (f # fs) job = (case f job of (Some e, job') \<Rightarrow> (Some e, job') | (None, job') \<Rightarrow> run_steps fs job')"
  by (simp_all add: run_steps_def then_step_def split: prod.splits option.splits)

lemma run_steps_append:
  "run_steps (fs @ gs) job = (case run_steps fs job of (Some e, job') \<Rightarrow> (Some e, job') | (None, job') \<Rightarrow> run_steps gs job')"
  by (induction fs arbitrary: job) (auto simp: run_steps_simps split: prod.splits option.splits)

lemma assertDeliverySupport_facts:
  assumes "assertDeliverySupport env job = (None, job')"
  shows "cj_sessionTarget job' = cj_sessionTarget job" "cj_payload job' = cj_payload job"
    "cj_agentId job' = cj_agentId job" "failure_destination_of job' = failure_destination_of job"
    "delivery_mode_of job' = delivery_mode_of job" "cj_id job' = cj_id job"
    "case cj_delivery job' of None \<Rightarrow> True
     | Some d \<Rightarrow> cd_mode d = Some ''none'' \<or> cd_mode d = Some ''webhook'' \<or> is_isolated_like (cj_sessionTarget job')"
    "\<forall>d. cj_delivery job' = Some d \<and> cd_mode d = Some ''webhook'' \<longrightarrow> webhook_ok env (cd_to d)"
  using assms normalizeHttpWebhookUrl_ok [of env]
  by (auto simp: assertDeliverySupport_def fail_step_def failure_destination_of_def delivery_mode_of_def
      split: option.splits if_splits)

lemma assertFailureDestinationSupport_facts:
  assumes "assertFailureDestinationSupport env job = (None, job')"
  shows "cj_sessionTarget job' = cj_sessionTarget job" "cj_payload job' = cj_payload job"
    "cj_agentId job' = cj_agentId job" "delivery_mode_of job' = delivery_mode_of job" "cj_id job' = cj_id job"
    "cj_sessionTarget job' = ''main'' \<and> failure_destination_of job' \<noteq> None \<longrightarrow> delivery_mode_of job' = Some ''webhook''"
    "\<forall>fd. failure_destination_of job' = Some fd \<and> fd_mode fd = Some (Some ''webhook'') \<longrightarrow>
       webhook_ok env (own_value fd_to (Some fd))"
    "map_option (\<lambda>d. (cd_mode d, cd_to d)) (cj_delivery job') = map_option (\<lambda>d. (cd_mode d, cd_to d)) (cj_delivery job)"
  using assms normalizeHttpWebhookUrl_ok [of env]
  by (auto simp: assertFailureDestinationSupport_def fail_step_def failure_destination_of_def delivery_mode_of_def
      own_value_def split: option.splits if_splits)

lemma assertSupportedJobSpec_facts:
  assumes "assertSupportedJobSpec target payload = Inr u"
  shows "target = ''main'' \<Longrightarrow> \<exists>t. payload = SystemEventPayload t"
    "is_isolated_like target \<Longrightarrow> \<exists>t. payload = AgentTurnPayload t"
    "prefix ''session:'' target \<Longrightarrow> \<exists>t. assertSafeCronSessionTargetId (drop 8 target) = Inr t"
  using assms
  by (auto simp: assertSupportedJobSpec_def throw_error_def Let_def split: cron_payload.splits sum.splits if_splits)

text \<open>What passes the assertions is consistent.\<close>

lemma assert_job_valid:
  assumes "assert_job env def job = (None, job')"
  shows "valid_spec def job'" "valid_webhooks env job'" "cj_id job' = cj_id job"
proof -
  from assms obtain job1 where spec: "assertSupportedJobSpec (cj_sessionTarget job) (cj_payload job) = Inr ()"
    and main: "assertMainSessionAgentId def job = Inr ()" and d: "assertDeliverySupport env job = (None, job1)"
    and f: "assertFailureDestinationSupport env job1 = (None, job')"
    by (auto simp: assert_job_def run_steps_simps try_step_def split: prod.splits option.splits sum.splits)
  note d_facts = assertDeliverySupport_facts [OF d] and f_facts = assertFailureDestinationSupport_facts [OF f]
  note s_facts = assertSupportedJobSpec_facts [OF spec]
  have agent: "cj_sessionTarget job = ''main'' \<and> js_truthy_str (cj_agentId job) \<longrightarrow>
      normalizeAgentId (cj_agentId job) = normalizeAgentId def"
    using main by (auto simp: assertMainSessionAgentId_def throw_error_def split: if_splits)
  show "cj_id job' = cj_id job" using d_facts(6) f_facts(5) by simp
  have mode: "case cj_delivery job' of None \<Rightarrow> True
      | Some d \<Rightarrow> cd_mode d = Some ''none'' \<or> cd_mode d = Some ''webhook'' \<or> is_isolated_like (cj_sessionTarget job')"
    using d_facts(7) f_facts(1,8) by (auto split: option.splits)
  show "valid_spec def job'"
    unfolding valid_spec_def using s_facts agent d_facts(1-3) f_facts(1-3,6) mode by simp
  have "webhook_ok env (cd_to d)" if "cj_delivery job' = Some d" "cd_mode d = Some ''webhook''" for d
    using that d_facts(8) f_facts(8) by (cases "cj_delivery job1") auto
  with f_facts(7) show "valid_webhooks env job'" by (simp add: valid_webhooks_def)
qed

lemma applyJobPatch_valid:
  "applyJobPatch env def patch job = (None, job') \<Longrightarrow> valid_spec def job' \<and> valid_webhooks env job'"
  by (auto simp: applyJobPatch_def run_steps_append run_steps_simps split: prod.splits option.splits
      dest: assert_job_valid(1,2))

lemma valid_spec_state [simp]:
  "valid_spec def (job\<lparr>cj_state := st\<rparr>) = valid_spec def job"
  "valid_webhooks env (job\<lparr>cj_state := st\<rparr>) = valid_webhooks env job"
  by (cases "cj_delivery job";
      simp add: valid_spec_def valid_webhooks_def failure_destination_of_def delivery_mode_of_def)+

lemma createJob_valid:
  assumes "createJob deps now i input = Inr job"
  shows "valid_spec (dp_defaultAgentId deps) job" "valid_webhooks (dp_env deps) job" "cj_id job = i"
proof -
  from assms obtain job0 job1 nx where a: "assert_job (dp_env deps) (dp_defaultAgentId deps) job0 = (None, job1)"
    and i: "cj_id job0 = i" and job: "job = job1\<lparr>cj_state := (cj_state job1)\<lparr>st_nextRunAtMs := nx\<rparr>\<rparr>"
    by (auto simp: createJob_def Let_def split: sum.splits prod.splits option.splits)
  show "valid_spec (dp_defaultAgentId deps) job" "valid_webhooks (dp_env deps) job" "cj_id job = i"
    using assert_job_valid [OF a] i by (simp_all add: job)
qed

end
