(* ===== verification/Cron_Delivery.thy ===== *)
theory Cron_Delivery
  imports Cron_Edit
begin

text \<open>
  Where the outcome of a job goes: \<open>src/cron/delivery-plan.ts\<close>,
  \<open>src/cron/service/timeout-policy.ts\<close> and the enqueue test of
  \<open>src/cron/heartbeat-policy.ts\<close>.
\<close>

subsection \<open>The delivery plan\<close>

datatype delivery_mode = ModeNone | ModeAnnounce | ModeWebhook

record delivery_plan =
  pl_mode :: delivery_mode
  pl_channel :: "string option"
  pl_to :: "string option"
  pl_threadId :: "thread_value option"
  pl_accountId :: "string option"
  pl_requested :: bool

definition normalizeChannel :: "string option \<Rightarrow> string option" where
  "normalizeChannel v =
     (case normalizeOptionalLowercaseString (js_opt v) of
        None \<Rightarrow> None | Some t \<Rightarrow> if t = [] then None else Some t)"

definition parse_delivery_mode :: "string option \<Rightarrow> delivery_mode option" where
  "parse_delivery_mode raw =
     (case raw of
        None \<Rightarrow> None
      | Some s \<Rightarrow>
        (let m = normalizeLowercaseStringOrEmpty (JStr s) in
         if m = ''announce'' then Some ModeAnnounce
         else if m = ''webhook'' then Some ModeWebhook
         else if m = ''none'' then Some ModeNone
         else if m = ''deliver'' then Some ModeAnnounce
         else None))"

definition resolveCronDeliveryPlan :: "cron_job \<Rightarrow> delivery_plan" where
  "resolveCronDeliveryPlan job =
     (case cj_delivery job of
        Some d \<Rightarrow>
          (let mode = js_or_else (parse_delivery_mode (cd_mode d)) ModeAnnounce;
               deliveryChannel = normalizeChannel (cd_channel d);
               channel = (if mode = ModeAnnounce then Some (js_or_else deliveryChannel ''last'') else deliveryChannel)
           in \<lparr>pl_mode = mode,
               pl_channel = (if mode = ModeWebhook then None else channel),
               pl_to = normalizeOptionalString (js_opt (cd_to d)),
               pl_threadId = (if mode = ModeWebhook then None else normalizeOptionalThreadValue (cd_threadId d)),
               pl_accountId = normalizeOptionalString (js_opt (cd_accountId d)),
               pl_requested = (mode = ModeAnnounce)\<rparr>)
      | None \<Rightarrow>
          (let isIsolatedAgentTurn =
                 (case cj_payload job of
                    AgentTurnPayload _ \<Rightarrow> is_isolated_like (cj_sessionTarget job)
                  | SystemEventPayload _ \<Rightarrow> False);
               mode = (if isIsolatedAgentTurn then ModeAnnounce else ModeNone)
           in \<lparr>pl_mode = mode, pl_channel = (if mode = ModeAnnounce then Some ''last'' else None), pl_to = None,
               pl_threadId = None, pl_accountId = None, pl_requested = (mode = ModeAnnounce)\<rparr>))"

subsection \<open>The failure destination\<close>

datatype failure_mode = FailAnnounce | FailWebhook

record failure_destination_config =
  fg_channel :: "string option"
  fg_to :: "string option"
  fg_accountId :: "string option"
  fg_mode :: "string option"

record failure_plan =
  fp_planMode :: failure_mode
  fp_planChannel :: "string option"
  fp_planTo :: "string option"
  fp_planAccountId :: "string option"

definition normalizeFailureMode :: "string option \<Rightarrow> failure_mode option" where
  "normalizeFailureMode v =
     (case normalizeOptionalLowercaseString (js_opt v) of
        Some t \<Rightarrow> if t = ''announce'' then Some FailAnnounce else if t = ''webhook'' then Some FailWebhook else None
      | None \<Rightarrow> None)"

text \<open>The comparison of a raw configured mode with a normalised one.\<close>

definition mode_text :: "failure_mode \<Rightarrow> string" where
  "mode_text m = (case m of FailAnnounce \<Rightarrow> ''announce'' | FailWebhook \<Rightarrow> ''webhook'')"

definition isSameDeliveryTarget :: "cron_delivery \<Rightarrow> failure_plan \<Rightarrow> bool" where
  "isSameDeliveryTarget delivery plan =
     (let primaryMode = js_or_else (cd_mode delivery) ''announce'' in
      if primaryMode = ''none'' then False
      else if fp_planMode plan = FailWebhook then primaryMode = ''webhook'' \<and> cd_to delivery = fp_planTo plan
      else js_or_else (fp_planChannel plan) ''last'' = js_or_else (cd_channel delivery) ''last'' \<and>
           fp_planTo plan = cd_to delivery \<and> fp_planAccountId plan = cd_accountId delivery)"

definition merge_failure_fields ::
  "failure_destination option \<Rightarrow> failure_destination_config option
    \<Rightarrow> string option \<times> string option \<times> string option \<times> failure_mode option" where
  "merge_failure_fields jobFailureDest globalConfig =
     (let (channel, to, accountId, mode) =
            (case globalConfig of
               None \<Rightarrow> (None, None, None, None)
             | Some g \<Rightarrow> (normalizeChannel (fg_channel g), normalizeOptionalString (js_opt (fg_to g)),
                          normalizeOptionalString (js_opt (fg_accountId g)), normalizeFailureMode (fg_mode g)))
      in case jobFailureDest of
           None \<Rightarrow> (channel, to, accountId, mode)
         | Some fd \<Rightarrow>
           (let jobTo = normalizeOptionalString (js_opt (js_or_else (fd_to fd) None));
                jobMode = normalizeFailureMode (js_or_else (fd_mode fd) None);
                jobToExplicitValue = (fd_to fd \<noteq> None \<and> jobTo \<noteq> None);
                channel' = (if fd_channel fd \<noteq> None then normalizeChannel (js_or_else (fd_channel fd) None) else channel);
                to' = (if fd_to fd \<noteq> None then jobTo else to);
                accountId' = (if fd_accountId fd \<noteq> None
                              then normalizeOptionalString (js_opt (js_or_else (fd_accountId fd) None)) else accountId)
            in case jobMode of
                 None \<Rightarrow> (channel', to', accountId', mode)
               | Some jm \<Rightarrow>
                 (let globalMode = js_or_else (case globalConfig of None \<Rightarrow> None | Some g \<Rightarrow> fg_mode g) ''announce''
                  in (channel', if \<not> jobToExplicitValue \<and> globalMode \<noteq> mode_text jm then None else to', accountId', Some jm))))"

definition resolveFailureDestination :: "cron_job \<Rightarrow> failure_destination_config option \<Rightarrow> failure_plan option" where
  "resolveFailureDestination job globalConfig =
     (let (channel, to, accountId, mode) = merge_failure_fields (failure_destination_of job) globalConfig in
      if \<not> js_truthy_str channel \<and> \<not> js_truthy_str to \<and> \<not> js_truthy_str accountId \<and> mode = None then None
      else let resolvedMode = js_or_else mode FailAnnounce in
        if resolvedMode = FailWebhook \<and> \<not> js_truthy_str to then None
        else let result = \<lparr>fp_planMode = resolvedMode,
                           fp_planChannel = (if resolvedMode = FailAnnounce then Some (js_or_else channel ''last'') else None),
                           fp_planTo = to, fp_planAccountId = accountId\<rparr>
             in (case cj_delivery job of
                   Some d \<Rightarrow> if isSameDeliveryTarget d result then None else Some result
                 | None \<Rightarrow> Some result))"

subsection \<open>Time limits and summaries\<close>

definition DEFAULT_JOB_TIMEOUT_MS :: ms where
  "DEFAULT_JOB_TIMEOUT_MS = 10 * 60000"

definition AGENT_TURN_SAFETY_TIMEOUT_MS :: ms where
  "AGENT_TURN_SAFETY_TIMEOUT_MS = 60 * 60000"

text \<open>\<open>Math.floor\<close>, which leaves \<open>NaN\<close> and the infinities alone.\<close>

definition js_floor :: "js_num \<Rightarrow> js_num" where
  "js_floor n = (case n of Finite r \<Rightarrow> js_int \<lfloor>r\<rfloor> | x \<Rightarrow> x)"

definition js_not_positive :: "js_num \<Rightarrow> bool" where
  "js_not_positive n = (case n of Finite r \<Rightarrow> r \<le> 0 | NegInf \<Rightarrow> True | _ \<Rightarrow> False)"

definition js_times_1000 :: "js_num \<Rightarrow> js_num" where
  "js_times_1000 n = (case n of Finite r \<Rightarrow> js_round_inf (r * 1000) | x \<Rightarrow> x)"

definition resolveCronJobTimeoutMs :: "cron_payload \<Rightarrow> js_num option" where
  "resolveCronJobTimeoutMs payload =
     (case payload of
        SystemEventPayload _ \<Rightarrow> Some (js_int DEFAULT_JOB_TIMEOUT_MS)
      | AgentTurnPayload t \<Rightarrow>
        (case tu_timeoutSeconds t of
           None \<Rightarrow> Some (js_int AGENT_TURN_SAFETY_TIMEOUT_MS)
         | Some seconds \<Rightarrow>
           (let configuredTimeoutMs = js_floor (js_times_1000 seconds) in
            if js_not_positive configuredTimeoutMs then None else Some configuredTimeoutMs)))"

definition shouldEnqueueCronMainSummary ::
  "string option \<Rightarrow> bool \<Rightarrow> bool option \<Rightarrow> bool option \<Rightarrow> bool \<Rightarrow> (string \<Rightarrow> bool) \<Rightarrow> bool" where
  "shouldEnqueueCronMainSummary summary deliveryRequested delivered deliveryAttempted suppressMainSummary isCronSystemEvent =
     (let summaryText = map_option js_trim summary in
      js_truthy_str summaryText \<and> isCronSystemEvent (the summaryText) \<and> deliveryRequested \<and>
      delivered \<noteq> Some True \<and> deliveryAttempted \<noteq> Some True \<and> \<not> suppressMainSummary)"

subsection \<open>What a failure plan guarantees\<close>

lemma normalizeChannel_nonempty: "normalizeChannel v = Some t \<Longrightarrow> t \<noteq> []"
  by (auto simp: normalizeChannel_def split: option.splits if_splits)

lemma resolveFailureDestination_usable:
  assumes "resolveFailureDestination job g = Some plan"
  shows "fp_planMode plan = FailWebhook \<Longrightarrow> js_truthy_str (fp_planTo plan) \<and> fp_planChannel plan = None"
    "fp_planMode plan = FailAnnounce \<Longrightarrow> fp_planChannel plan \<noteq> None"
    "case cj_delivery job of None \<Rightarrow> True | Some d \<Rightarrow> \<not> isSameDeliveryTarget d plan"
  using assms
  by (auto simp: resolveFailureDestination_def Let_def split: prod.splits if_splits option.splits)

lemma plan_requested: "pl_requested (resolveCronDeliveryPlan job) \<longleftrightarrow> pl_mode (resolveCronDeliveryPlan job) = ModeAnnounce"
  by (auto simp: resolveCronDeliveryPlan_def Let_def split: option.splits)

lemma plan_channel:
  "pl_mode (resolveCronDeliveryPlan job) = ModeAnnounce \<Longrightarrow> pl_channel (resolveCronDeliveryPlan job) \<noteq> None"
  by (auto simp: resolveCronDeliveryPlan_def Let_def split: option.splits cron_payload.splits if_splits)

end
