(* ===== verification/Cron_Result.thy ===== *)
theory Cron_Result
  imports Cron_Delivery
begin

text \<open>
  What a finished run does to its job: \<open>applyJobResult\<close> of \<open>src/cron/service/timer.ts\<close> with
  the retry policy, the failure alerts and the delivery state it uses. The classification of
  an error into a failover reason is a field of the environment.
\<close>

subsection \<open>Transient errors\<close>

definition is_word_char :: "char \<Rightarrow> bool" where
  "is_word_char c = (let n = js_code c in
     (48 \<le> n \<and> n \<le> 57) \<or> (65 \<le> n \<and> n \<le> 90) \<or> (97 \<le> n \<and> n \<le> 122) \<or> n = 95)"

text \<open>A regular expression is searched at every position, knowing the character before it.\<close>

fun re_search :: "(char option \<Rightarrow> string \<Rightarrow> bool) \<Rightarrow> char option \<Rightarrow> string \<Rightarrow> bool" where
  "re_search m prev [] = m prev []"
| "re_search m prev (c # cs) = (m prev (c # cs) \<or> re_search m (Some c) cs)"

definition no_word_before :: "char option \<Rightarrow> bool" where
  "no_word_before prev = (case prev of None \<Rightarrow> True | Some c \<Rightarrow> \<not> is_word_char c)"

definition no_word_ahead :: "string \<Rightarrow> bool" where
  "no_word_ahead rest = (case rest of [] \<Rightarrow> True | c # _ \<Rightarrow> \<not> is_word_char c)"

definition whole_word :: "string \<Rightarrow> char option \<Rightarrow> string \<Rightarrow> bool" where
  "whole_word w prev rest = (no_word_before prev \<and> prefix w rest \<and> no_word_ahead (drop (length w) rest))"

definition literal_here :: "string \<Rightarrow> char option \<Rightarrow> string \<Rightarrow> bool" where
  "literal_here w prev rest = prefix w rest"

definition any_literal :: "string list \<Rightarrow> string \<Rightarrow> bool" where
  "any_literal ws s = list_ex (\<lambda>w. re_search (literal_here w) None (js_lower s)) ws"

definition server_status :: "char option \<Rightarrow> string \<Rightarrow> bool" where
  "server_status prev rest =
     (no_word_before prev \<and>
      (case rest of a # b # c # t \<Rightarrow> a = CHR ''5'' \<and> js_is_digit b \<and> js_is_digit c \<and> no_word_ahead t | _ \<Rightarrow> False))"

definition TRANSIENT_PATTERNS :: "string \<Rightarrow> string \<Rightarrow> bool" where
  "TRANSIENT_PATTERNS key s =
     (if key = ''rate_limit'' then
        any_literal [''rate_limit'', ''rate limit'', ''too many requests'', ''429'', ''resource has been exhausted'',
                     ''cloudflare'', ''tokens per day''] s
      else if key = ''overloaded'' then
        re_search (whole_word ''529'') None (js_lower s) \<or> re_search (whole_word ''overloaded'') None (js_lower s) \<or>
        re_search (whole_word ''overloaded_error'') None (js_lower s) \<or>
        any_literal [''high demand'', ''temporarily overloaded'', ''temporary overloaded'', ''capacity exceeded''] s
      else if key = ''network'' then any_literal [''network'', ''econnreset'', ''econnrefused'', ''fetch failed'', ''socket''] s
      else if key = ''timeout'' then any_literal [''timeout'', ''etimedout''] s
      else if key = ''server_error'' then re_search server_status None s
      else False)"

definition isTransientCronError :: "string option \<Rightarrow> string list option \<Rightarrow> bool" where
  "isTransientCronError error retryOn =
     (if \<not> js_truthy_str error then False
      else let keys = (case retryOn of
                         Some (k # ks) \<Rightarrow> k # ks
                       | _ \<Rightarrow> [''rate_limit'', ''overloaded'', ''network'', ''timeout'', ''server_error''])
           in list_ex (\<lambda>k. TRANSIENT_PATTERNS k (the error)) keys)"

record resolved_retry =
  rr_maxAttempts :: int
  rr_backoffMs :: "ms list"
  rr_retryOn :: "string list option"

definition nonempty_list :: "'a list option \<Rightarrow> 'a list option" where
  "nonempty_list l = (case l of Some (x # xs) \<Rightarrow> Some (x # xs) | _ \<Rightarrow> None)"

definition resolveRetryConfig :: "retry_config option \<Rightarrow> resolved_retry" where
  "resolveRetryConfig retry =
     \<lparr>rr_maxAttempts = (case retry of None \<Rightarrow> 3 | Some r \<Rightarrow> js_or_else (rt_maxAttempts r) 3),
      rr_backoffMs = (case retry of
                        None \<Rightarrow> take 3 DEFAULT_ERROR_BACKOFF_SCHEDULE_MS
                      | Some r \<Rightarrow> js_or_else (nonempty_list (rt_backoffMs r)) (take 3 DEFAULT_ERROR_BACKOFF_SCHEDULE_MS)),
      rr_retryOn = (case retry of None \<Rightarrow> None | Some r \<Rightarrow> nonempty_list (rt_retryOn r))\<rparr>"

subsection \<open>Failure alerts\<close>

definition DEFAULT_FAILURE_ALERT_AFTER :: int where
  "DEFAULT_FAILURE_ALERT_AFTER = 2"

definition DEFAULT_FAILURE_ALERT_COOLDOWN_MS :: ms where
  "DEFAULT_FAILURE_ALERT_COOLDOWN_MS = 60 * 60000"

definition clampPositiveInt :: "js_num option \<Rightarrow> int \<Rightarrow> int" where
  "clampPositiveInt v fallback =
     (case v of Some (Finite r) \<Rightarrow> if \<lfloor>r\<rfloor> \<ge> 1 then \<lfloor>r\<rfloor> else fallback | _ \<Rightarrow> fallback)"

definition clampNonNegativeInt :: "js_num option \<Rightarrow> int \<Rightarrow> int" where
  "clampNonNegativeInt v fallback =
     (case v of Some (Finite r) \<Rightarrow> if \<lfloor>r\<rfloor> \<ge> 0 then \<lfloor>r\<rfloor> else fallback | _ \<Rightarrow> fallback)"

record alert_config =
  al_after :: int
  al_cooldownMs :: ms
  al_channel :: string
  al_to :: "string option"
  al_mode :: "string option"
  al_accountId :: "string option"

definition normalizeTo :: "string option \<Rightarrow> string option" where
  "normalizeTo input =
     (case input of None \<Rightarrow> None | Some s \<Rightarrow> (let t = js_trim s in if t \<noteq> [] then Some t else None))"

definition normalizeCronMessageChannel :: "string option \<Rightarrow> string option" where
  "normalizeCronMessageChannel input = normalizeChannel input"

definition opt_field :: "('a \<Rightarrow> 'b option) \<Rightarrow> 'a option \<Rightarrow> 'b option" where
  "opt_field f x = (case x of None \<Rightarrow> None | Some v \<Rightarrow> f v)"

definition resolveFailureAlert :: "cron_deps \<Rightarrow> cron_job \<Rightarrow> alert_config option" where
  "resolveFailureAlert deps job =
     (let globalConfig = dp_failureAlert deps;
          jobConfig = (case cj_failureAlert job of AlertOn a \<Rightarrow> Some a | _ \<Rightarrow> None);
          deliveryChannel = opt_field cd_channel (cj_delivery job);
          deliveryTo = opt_field cd_to (cj_delivery job)
      in if cj_failureAlert job = AlertOff then None
         else if jobConfig = None \<and> opt_field fc_enabled globalConfig \<noteq> Some True then None
         else let mode = js_alt (opt_field fa_mode jobConfig) (opt_field fc_mode globalConfig);
                  explicitTo = normalizeTo (opt_field fa_to jobConfig)
              in Some \<lparr>al_after = clampPositiveInt (js_alt (opt_field fa_after jobConfig) (opt_field fc_after globalConfig))
                                   DEFAULT_FAILURE_ALERT_AFTER,
                       al_cooldownMs = clampNonNegativeInt
                                   (js_alt (opt_field fa_cooldownMs jobConfig) (opt_field fc_cooldownMs globalConfig))
                                   DEFAULT_FAILURE_ALERT_COOLDOWN_MS,
                       al_channel = js_or_else (js_alt (normalizeCronMessageChannel (opt_field fa_channel jobConfig))
                                                       (normalizeCronMessageChannel deliveryChannel)) ''last'',
                       al_to = (if mode = Some ''webhook'' then explicitTo else js_alt explicitTo (normalizeTo deliveryTo)),
                       al_mode = mode,
                       al_accountId = js_alt (opt_field fa_accountId jobConfig) (opt_field fc_accountId globalConfig)\<rparr>)"

definition failure_alert_text :: "cron_job \<Rightarrow> string option \<Rightarrow> int \<Rightarrow> string" where
  "failure_alert_text job error consecutiveErrors =
     (let safeJobName = nonempty_or (cj_name job) (cj_id job);
          truncatedError = take 200 (nonempty_or (js_trim (js_or_else error [])) ''unknown error'')
      in ''Cron job \"'' @ safeJobName @ ''\" failed '' @ js_show_int consecutiveErrors @ '' times'' @ [CHR 0x0A] @
         ''Last error: '' @ truncatedError)"

definition emitFailureAlert :: "cron_deps \<Rightarrow> cron_job \<Rightarrow> string option \<Rightarrow> int \<Rightarrow> alert_config \<Rightarrow> cron_effect list" where
  "emitFailureAlert deps job error consecutiveErrors alert =
     (let text = failure_alert_text job error consecutiveErrors in
      if dp_hasAlertSender deps then
        [SendFailureAlert \<lparr>fm_jobId = cj_id job, fm_text = text, fm_channel = al_channel alert, fm_to = al_to alert,
                           fm_mode = al_mode alert, fm_accountId = al_accountId alert\<rparr>]
      else EnqueueSystemEvent (PlainText text) (cj_agentId job) None None #
           (if cj_wakeMode job = WakeNow
            then [RequestHeartbeat (''cron:'' @ cj_id job @ '':failure-alert'') None None False] else []))"

subsection \<open>Applying a result\<close>

record run_result =
  rs_status :: run_status
  rs_error :: "string option"
  rs_delivered :: "bool option"
  rs_startedAt :: ms
  rs_endedAt :: ms

definition resolveDeliveryState :: "cron_job \<Rightarrow> bool option \<Rightarrow> bool option \<times> delivery_status" where
  "resolveDeliveryState job delivered =
     (if \<not> pl_requested (resolveCronDeliveryPlan job) then (None, NotRequested)
      else case delivered of
        Some True \<Rightarrow> (Some True, Delivered)
      | Some False \<Rightarrow> (Some False, NotDelivered)
      | None \<Rightarrow> (None, DeliveryUnknown))"

text \<open>The bookkeeping before the schedule is looked at.\<close>

definition record_run :: "cron_env \<Rightarrow> cron_job \<Rightarrow> run_result \<Rightarrow> cron_job" where
  "record_run env job r =
     (let (delivered, deliveryStatus) = resolveDeliveryState job (rs_delivered r) in
      job\<lparr>cj_updatedAtMs := rs_endedAt r,
          cj_state := (cj_state job)
            \<lparr>st_runningAtMs := None,
             st_lastRunAtMs := Some (rs_startedAt r),
             st_lastRunStatus := Some (rs_status r),
             st_lastStatus := Some (rs_status r),
             st_lastDurationMs := Some (max 0 (rs_endedAt r - rs_startedAt r)),
             st_lastError := rs_error r,
             st_lastErrorReason := (case rs_error r of
                                      Some e \<Rightarrow> if rs_status r = StatusError then ce_failover_reason env e else None
                                    | None \<Rightarrow> None),
             st_lastDelivered := delivered,
             st_lastDeliveryStatus := Some deliveryStatus,
             st_lastDeliveryError := (if deliveryStatus = NotDelivered \<and> js_truthy_str (rs_error r)
                                      then rs_error r else None)\<rparr>\<rparr>)"

definition set_state :: "(job_state \<Rightarrow> job_state) \<Rightarrow> cron_job \<Rightarrow> cron_job" where
  "set_state f job = job\<lparr>cj_state := f (cj_state job)\<rparr>"

text \<open>Counting consecutive errors, and alerting when there are too many and no alert was sent recently.\<close>

definition track_errors :: "cron_deps \<Rightarrow> ms \<Rightarrow> cron_job \<Rightarrow> run_result \<Rightarrow> cron_job \<times> cron_effect list" where
  "track_errors deps now job r =
     (if rs_status r = StatusError then
        (let errors = js_or_else (st_consecutiveErrors (cj_state job)) 0 + 1;
             job1 = set_state (\<lambda>st. st\<lparr>st_consecutiveErrors := Some errors\<rparr>) job
         in case resolveFailureAlert deps job1 of
              None \<Rightarrow> (job1, [])
            | Some alert \<Rightarrow>
              (let isBestEffort = (opt_field cd_bestEffort (cj_delivery job1) = Some True);
                   inCooldown = (case st_lastFailureAlertAtMs (cj_state job1) of
                                   None \<Rightarrow> False
                                 | Some lastAlert \<Rightarrow> now - lastAlert < max 0 (al_cooldownMs alert))
               in if errors \<ge> al_after alert \<and> \<not> isBestEffort \<and> \<not> inCooldown
                  then (set_state (\<lambda>st. st\<lparr>st_lastFailureAlertAtMs := Some now\<rparr>) job1,
                        emitFailureAlert deps job1 (rs_error r) errors alert)
                  else (job1, [])))
      else (set_state (\<lambda>st. st\<lparr>st_consecutiveErrors := Some 0, st_lastFailureAlertAtMs := None\<rparr>) job, []))"

definition disable_job :: "cron_job \<Rightarrow> cron_job" where
  "disable_job job = (set_state (\<lambda>st. st\<lparr>st_nextRunAtMs := None\<rparr>) job)\<lparr>cj_enabled := False\<rparr>"

definition settle_one_shot :: "cron_deps \<Rightarrow> cron_job \<Rightarrow> run_result \<Rightarrow> cron_job" where
  "settle_one_shot deps job r =
     (if rs_status r = StatusOk \<or> rs_status r = StatusSkipped then disable_job job
      else let retry = resolveRetryConfig (dp_retry deps);
               transient = isTransientCronError (rs_error r) (rr_retryOn retry);
               consecutive = js_or_else (st_consecutiveErrors (cj_state job)) 0
           in if transient \<and> consecutive \<le> rr_maxAttempts retry
              then set_state (\<lambda>st. st\<lparr>st_nextRunAtMs := Some (rs_endedAt r + errorBackoffMs consecutive (rr_backoffMs retry))\<rparr>) job
              else disable_job job)"

definition MIN_REFIRE_GAP_MS :: ms where
  "MIN_REFIRE_GAP_MS = 2000"

text \<open>
  The natural next run; with \<open>preserveSchedule\<close> an interval job computes it from the run before.
  A schedule that cannot be computed is recorded and leaves the natural run undefined.
\<close>

definition natural_next ::
  "cron_deps \<Rightarrow> bool \<Rightarrow> ms option \<Rightarrow> cron_job \<Rightarrow> ms \<Rightarrow> ms option \<times> cron_job \<times> cron_effect list" where
  "natural_next deps preserveSchedule prevLastRunAtMs job endedAt =
     (let subject = (if preserveSchedule \<and> is_every (cj_schedule job)
                     then set_state (\<lambda>st. st\<lparr>st_lastRunAtMs := prevLastRunAtMs\<rparr>) job else job)
      in case computeJobNextRunAtMs (dp_env deps) subject endedAt of
           Inr next \<Rightarrow> (next, job, [])
         | Inl err \<Rightarrow> (let (job', effects) = recordScheduleComputeError job err in (None, job', effects)))"

definition settle_recurring ::
  "cron_deps \<Rightarrow> bool \<Rightarrow> ms option \<Rightarrow> cron_job \<Rightarrow> run_result \<Rightarrow> cron_job \<times> cron_effect list" where
  "settle_recurring deps preserveSchedule prevLastRunAtMs job r =
     (if \<not> isJobEnabled job then (set_state (\<lambda>st. st\<lparr>st_nextRunAtMs := None\<rparr>) job, [])
      else let (natural, job1, effects) = natural_next deps preserveSchedule prevLastRunAtMs job (rs_endedAt r);
               backoff = errorBackoffMs (js_or_else (st_consecutiveErrors (cj_state job)) 1) DEFAULT_ERROR_BACKOFF_SCHEDULE_MS;
               bound = rs_endedAt r + (if rs_status r = StatusError then backoff else MIN_REFIRE_GAP_MS);
               nextRun = (if is_cron (cj_schedule job) then map_option (\<lambda>n. max n bound) natural
                          else if rs_status r = StatusError
                          then Some (case natural of None \<Rightarrow> bound | Some n \<Rightarrow> max n bound)
                          else natural)
           in (set_state (\<lambda>st. st\<lparr>st_nextRunAtMs := nextRun\<rparr>) job1, effects))"

definition applyJobResult ::
  "cron_deps \<Rightarrow> ms \<Rightarrow> bool \<Rightarrow> cron_job \<Rightarrow> run_result \<Rightarrow> cron_job \<times> cron_effect list \<times> bool" where
  "applyJobResult deps now preserveSchedule job r =
     (let prevLastRunAtMs = st_lastRunAtMs (cj_state job);
          (job1, effects1) = track_errors deps now (record_run (dp_env deps) job r) r;
          shouldDelete = (is_at (cj_schedule job1) \<and> cj_deleteAfterRun job1 = Some True \<and> rs_status r = StatusOk)
      in if shouldDelete then (job1, effects1, True)
         else if is_at (cj_schedule job1) then (settle_one_shot deps job1 r, effects1, False)
         else let (job2, effects2) = settle_recurring deps preserveSchedule prevLastRunAtMs job1 r
              in (job2, effects1 @ effects2, False))"

end
