(* ===== verification/Cron_Timer.thy ===== *)
theory Cron_Timer
  imports Cron_Result
begin

text \<open>
  The scheduler of \<open>src/cron/service/timer.ts\<close>. A critical section of the code (the callback
  of \<open>locked\<close>) is one function on the service; what happens between two sections (running a
  job) is a parameter or a step of its own. Clock readings and the outcomes of the outside
  calls are arguments. Of the loading in \<open>src/cron/service/store.ts\<close> the decision between
  memory and file is modelled; the file holds jobs in the shape that loading gives them.
\<close>

subsection \<open>Loading\<close>

definition reload_store :: "cron_service \<Rightarrow> cron_service" where
  "reload_store s = s\<lparr>sv_store := Some (sv_disk s)\<rparr>"

definition ensureLoaded :: "cron_deps \<Rightarrow> bool \<Rightarrow> bool \<Rightarrow> ms \<Rightarrow> cron_service \<Rightarrow> cron_service" where
  "ensureLoaded deps forceReload skipRecompute nowMs s =
     (if sv_store s \<noteq> None \<and> \<not> forceReload then s
      else if skipRecompute then reload_store s
      else fst (recomputeNextRuns deps nowMs (reload_store s)))"

subsection \<open>Error texts and the task ledger\<close>

definition timeoutErrorMessage :: string where
  "timeoutErrorMessage = ''cron: job execution timed out''"

text \<open>Of a thrown error, given as \<open>String(err)\<close>, and of an error text in a result.\<close>

definition thrown_error_text :: "string \<Rightarrow> string" where
  "thrown_error_text e =
     (if e = ''Error: '' @ timeoutErrorMessage \<or> e = ''AbortError'' \<or> prefix ''AbortError: '' e
      then timeoutErrorMessage else e)"

definition normalizeCronRunErrorText :: "string option \<Rightarrow> string" where
  "normalizeCronRunErrorText err =
     (case err of
        None \<Rightarrow> ''undefined''
      | Some e \<Rightarrow> if e = ''Error: '' @ timeoutErrorMessage then timeoutErrorMessage else e)"

record core_result =
  kr_status :: run_status
  kr_error :: "string option"
  kr_summary :: "string option"
  kr_delivered :: "bool option"

definition core_ok :: "string \<Rightarrow> core_result" where
  "core_ok text = \<lparr>kr_status = StatusOk, kr_error = None, kr_summary = Some text, kr_delivered = None\<rparr>"

definition core_failed :: "run_status \<Rightarrow> string \<Rightarrow> core_result" where
  "core_failed status msg = \<lparr>kr_status = status, kr_error = Some msg, kr_summary = None, kr_delivered = None\<rparr>"

record timed_outcome =
  to_jobId :: string
  to_taskRunId :: "string option"
  to_core :: core_result
  to_startedAt :: ms
  to_endedAt :: ms

definition createCronExecutionId :: "string \<Rightarrow> ms \<Rightarrow> string" where
  "createCronExecutionId jobId startedAt = ''cron:'' @ jobId @ '':'' @ js_show_int startedAt"

definition tryCreateCronTaskRun :: "bool \<Rightarrow> cron_job \<Rightarrow> ms \<Rightarrow> string option \<times> cron_effect list" where
  "tryCreateCronTaskRun ledgerAccepts job startedAt =
     (let runId = createCronExecutionId (cj_id job) startedAt in
      if ledgerAccepts then (Some runId, [TaskStarted runId (cj_id job) startedAt]) else (None, []))"

definition tryFinishCronTaskRun :: "timed_outcome \<Rightarrow> cron_effect list" where
  "tryFinishCronTaskRun r =
     (case to_taskRunId r of
        None \<Rightarrow> []
      | Some runId \<Rightarrow>
        if runId = [] then []
        else if kr_status (to_core r) = StatusOk \<or> kr_status (to_core r) = StatusSkipped
        then [TaskCompleted runId (to_endedAt r)]
        else let text = normalizeCronRunErrorText (kr_error (to_core r)) in
          [TaskFailedEffect runId (if text = timeoutErrorMessage then TaskTimedOut else TaskFailed) (to_endedAt r)
             (Some text)])"

subsection \<open>Running one job\<close>

datatype heartbeat_result = HeartbeatRan | HeartbeatSkipped string | HeartbeatFailed string

text \<open>
  One round of the wait for an idle main lane: the abort flag at the three places where the
  loop reads it, the heartbeat's answer and the clock after it.
\<close>

record heartbeat_round =
  hr_aborted :: bool
  hr_result :: heartbeat_result
  hr_abortedAfter :: bool
  hr_now :: ms
  hr_abortedLate :: bool

definition main_request :: "cron_job \<Rightarrow> cron_effect" where
  "main_request job = RequestHeartbeat (''cron:'' @ cj_id job) (cj_agentId job) (cj_sessionKey job) True"

text \<open>\<open>None\<close>: the given rounds are used up and the loop still waits.\<close>

fun heartbeat_loop ::
  "cron_job \<Rightarrow> string \<Rightarrow> ms \<Rightarrow> ms \<Rightarrow> heartbeat_round list \<Rightarrow> (core_result \<times> cron_effect list) option" where
  "heartbeat_loop job text maxWaitMs waitStartedAt [] = None"
| "heartbeat_loop job text maxWaitMs waitStartedAt (r # rounds) =
     (if hr_aborted r then Some (core_failed StatusError timeoutErrorMessage, [])
      else if hr_result r \<noteq> HeartbeatSkipped ''requests-in-flight'' then
        Some (case hr_result r of
                HeartbeatRan \<Rightarrow> core_ok text
              | HeartbeatSkipped reason \<Rightarrow> (core_failed StatusSkipped reason)\<lparr>kr_summary := Some text\<rparr>
              | HeartbeatFailed reason \<Rightarrow> (core_failed StatusError reason)\<lparr>kr_summary := Some text\<rparr>, [])
      else if \<not> is_at (cj_schedule job) then Some (core_ok text, [main_request job])
      else if hr_abortedAfter r then Some (core_failed StatusError timeoutErrorMessage, [])
      else if hr_now r - waitStartedAt > maxWaitMs then
        (if hr_abortedLate r then Some (core_failed StatusError timeoutErrorMessage, [])
         else Some (core_ok text, [main_request job]))
      else heartbeat_loop job text maxWaitMs waitStartedAt rounds)"

definition executeMainSessionCronJob ::
  "cron_deps \<Rightarrow> cron_job \<Rightarrow> ms \<Rightarrow> heartbeat_round list \<Rightarrow> bool \<Rightarrow> (core_result \<times> cron_effect list) option" where
  "executeMainSessionCronJob deps job waitStartedAt rounds aborted =
     (case resolveJobPayloadTextForMain job of
        None \<Rightarrow>
          Some (core_failed StatusSkipped
                 (case cj_payload job of
                    SystemEventPayload _ \<Rightarrow> ''main job requires non-empty systemEvent text''
                  | AgentTurnPayload _ \<Rightarrow> ''main job requires payload.kind=\"systemEvent\"''), [])
      | Some text \<Rightarrow>
          (let enqueue = EnqueueSystemEvent (PlainText text) (cj_agentId job) (cj_sessionKey job)
                           (Some (''cron:'' @ cj_id job))
           in map_option (\<lambda>(result, effects). (result, enqueue # effects))
                (if cj_wakeMode job = WakeNow \<and> dp_hasHeartbeatRunner deps
                 then heartbeat_loop job text (js_or_else (dp_busyMaxWaitMs deps) (2 * 60000)) waitStartedAt rounds
                 else if aborted then Some (core_failed StatusError timeoutErrorMessage, [])
                 else Some (core_ok text, [main_request job]))))"

definition executeDetachedCronJob ::
  "cron_job \<Rightarrow> bool \<Rightarrow> core_result fallible \<Rightarrow> bool \<Rightarrow> core_result fallible" where
  "executeDetachedCronJob job aborted isolatedRun abortedAfter =
     (case cj_payload job of
        SystemEventPayload _ \<Rightarrow> Inr (core_failed StatusSkipped ''isolated job requires payload.kind=agentTurn'')
      | AgentTurnPayload _ \<Rightarrow>
        if aborted then Inr (core_failed StatusError timeoutErrorMessage)
        else (case isolatedRun of
                Inl e \<Rightarrow> Inl e
              | Inr res \<Rightarrow> if abortedAfter then Inr (core_failed StatusError timeoutErrorMessage) else Inr res))"

text \<open>What becomes of a run: its result, or the error that was thrown (a time-out among them).\<close>

definition run_outcome :: "core_result fallible \<Rightarrow> core_result" where
  "run_outcome r = (case r of Inr res \<Rightarrow> res | Inl e \<Rightarrow> core_failed StatusError (thrown_error_text e))"

subsection \<open>Which jobs to run\<close>

definition isErrorBackoffPending :: "cron_job \<Rightarrow> ms \<Rightarrow> bool" where
  "isErrorBackoffPending job nowMs =
     (let st = cj_state job in
      if is_at (cj_schedule job) \<or> st_lastStatus st \<noteq> Some StatusError then False
      else case st_lastRunAtMs st of
        None \<Rightarrow> False
      | Some lastRunAtMs \<Rightarrow>
          nowMs < lastRunAtMs + errorBackoffMs (max 1 (js_or_else (st_consecutiveErrors st) 1))
                                  DEFAULT_ERROR_BACKOFF_SCHEDULE_MS)"

definition at_retry_due :: "job_state \<Rightarrow> ms \<Rightarrow> bool" where
  "at_retry_due st nowMs =
     (case (st_nextRunAtMs st, st_lastRunAtMs st) of
        (Some nextRun, Some lastRun) \<Rightarrow> st_lastStatus st = Some StatusError \<and> nextRun > lastRun \<and> nowMs \<ge> nextRun
      | _ \<Rightarrow> False)"

definition missed_slot :: "cron_env \<Rightarrow> cron_job \<Rightarrow> ms \<Rightarrow> bool" where
  "missed_slot env job nowMs =
     (case computeJobPreviousRunAtMs env job nowMs of
        Inr (Some previousRunAtMs) \<Rightarrow>
          (case st_lastRunAtMs (cj_state job) of
             Some lastRunAtMs \<Rightarrow> previousRunAtMs > lastRunAtMs
           | None \<Rightarrow> False)
      | _ \<Rightarrow> False)"

definition isRunnableJob :: "cron_env \<Rightarrow> string set \<Rightarrow> bool \<Rightarrow> bool \<Rightarrow> cron_job \<Rightarrow> ms \<Rightarrow> bool" where
  "isRunnableJob env skipJobIds skipAtIfAlreadyRan allowCronMissedRunByLastRun job nowMs =
     (let st = cj_state job; nxt = st_nextRunAtMs st in
      if \<not> isJobEnabled job then False
      else if cj_id job \<in> skipJobIds then False
      else if st_runningAtMs st \<noteq> None then False
      else if skipAtIfAlreadyRan \<and> is_at (cj_schedule job) \<and> st_lastStatus st \<noteq> None then at_retry_due st nowMs
      else if hasScheduledNextRunAtMs nxt \<and> nowMs \<ge> the nxt then True
      else if hasScheduledNextRunAtMs nxt \<and> the nxt > nowMs \<and> isErrorBackoffPending job nowMs then False
      else if \<not> allowCronMissedRunByLastRun \<or> \<not> is_cron (cj_schedule job) then False
      else missed_slot env job nowMs)"

definition collectRunnableJobs :: "cron_env \<Rightarrow> ms \<Rightarrow> string set \<Rightarrow> bool \<Rightarrow> bool \<Rightarrow> cron_service \<Rightarrow> cron_job list" where
  "collectRunnableJobs env nowMs skipJobIds skipAt allowMissed s =
     filter (\<lambda>job. isRunnableJob env skipJobIds skipAt allowMissed job nowMs) (jobs_of s)"

subsection \<open>The timer\<close>

definition MAX_TIMER_DELAY_MS :: ms where
  "MAX_TIMER_DELAY_MS = 60000"

definition armRunningRecheckTimer :: "cron_service \<Rightarrow> cron_service" where
  "armRunningRecheckTimer s = s\<lparr>sv_timer := Some MAX_TIMER_DELAY_MS\<rparr>"

definition timer_delay :: "ms \<Rightarrow> ms \<Rightarrow> ms" where
  "timer_delay nextAt now =
     (let delay = max (nextAt - now) 0;
          flooredDelay = (if delay = 0 then MIN_REFIRE_GAP_MS else delay)
      in min flooredDelay MAX_TIMER_DELAY_MS)"

definition armTimer :: "cron_deps \<Rightarrow> ms \<Rightarrow> cron_service \<Rightarrow> cron_service" where
  "armTimer deps now s0 =
     (let s = s0\<lparr>sv_timer := None\<rparr> in
      if \<not> dp_cronEnabled deps then s
      else case nextWakeAtMs s of
        Some nextAt \<Rightarrow> if nextAt \<noteq> 0 then s\<lparr>sv_timer := Some (timer_delay nextAt now)\<rparr>
                       else if list_ex cj_enabled (jobs_of s) then armRunningRecheckTimer s else s
      | None \<Rightarrow> if list_ex cj_enabled (jobs_of s) then armRunningRecheckTimer s else s)"

definition stopTimer :: "cron_service \<Rightarrow> cron_service" where
  "stopTimer s = s\<lparr>sv_timer := None\<rparr>"

subsection \<open>A tick\<close>

definition mark_running :: "ms \<Rightarrow> cron_job \<Rightarrow> cron_job" where
  "mark_running now job = set_state (\<lambda>st. st\<lparr>st_runningAtMs := Some now, st_lastError := None\<rparr>) job"

definition mark_all :: "ms \<Rightarrow> cron_job list \<Rightarrow> cron_job list \<Rightarrow> cron_job list" where
  "mark_all now chosen jobs = map (\<lambda>j. if j \<in> set chosen then mark_running now j else j) jobs"

text \<open>The first section of \<open>onTimer\<close>: reload, collect, mark what will run, save.\<close>

definition tick_collect :: "cron_deps \<Rightarrow> ms \<Rightarrow> ms \<Rightarrow> cron_service \<Rightarrow> cron_job list \<times> cron_service" where
  "tick_collect deps dueCheckNow now s0 =
     (let s = ensureLoaded deps True True dueCheckNow s0;
          due = collectRunnableJobs (dp_env deps) dueCheckNow {} False False s
      in if due = [] then
           (let (s', changed) = recomputeNextRunsForMaintenance deps True dueCheckNow s
            in ([], if changed then persist s' else s'))
         else (map (mark_running now) due, persist (set_jobs (mark_all now due (jobs_of s)) s)))"

text \<open>The start of a due job, outside the lock.\<close>

definition start_due_job :: "bool \<Rightarrow> ms \<Rightarrow> cron_job \<Rightarrow> cron_service \<Rightarrow> string option \<times> cron_service" where
  "start_due_job ledgerAccepts startedAt job s =
     (let s1 = set_jobs (update_job (cj_id job) (set_state (\<lambda>st. st\<lparr>st_runningAtMs := Some startedAt\<rparr>)) (jobs_of s)) s;
          s2 = emit_event ((plain_event (cj_id job) Started)\<lparr>ce_runAtMs := Some startedAt\<rparr>) (markCronJobActive (cj_id job) s1);
          (taskRunId, effects) = tryCreateCronTaskRun ledgerAccepts job startedAt
      in (taskRunId, do_effects effects s2))"

definition finished_event :: "cron_job \<Rightarrow> core_result \<Rightarrow> ms \<Rightarrow> cron_event" where
  "finished_event job core runAtMs =
     \<lparr>ce_jobId = cj_id job, ce_action = Finished, ce_runAtMs = Some runAtMs,
      ce_durationMs = st_lastDurationMs (cj_state job), ce_status = Some (kr_status core),
      ce_error = kr_error core, ce_summary = kr_summary core, ce_delivered = kr_delivered core,
      ce_deliveryStatus = st_lastDeliveryStatus (cj_state job), ce_deliveryError = st_lastDeliveryError (cj_state job),
      ce_nextRunAtMs = st_nextRunAtMs (cj_state job)\<rparr>"

definition outcome_result :: "timed_outcome \<Rightarrow> run_result" where
  "outcome_result r =
     \<lparr>rs_status = kr_status (to_core r), rs_error = kr_error (to_core r), rs_delivered = kr_delivered (to_core r),
      rs_startedAt = to_startedAt r, rs_endedAt = to_endedAt r\<rparr>"

definition remove_job :: "string \<Rightarrow> cron_service \<Rightarrow> cron_service" where
  "remove_job i s = emit_event (plain_event i Removed) (set_jobs (filter (\<lambda>j. cj_id j \<noteq> i) (jobs_of s)) s)"

definition applyOutcomeToStoredJob :: "cron_deps \<Rightarrow> ms \<Rightarrow> timed_outcome \<Rightarrow> cron_service \<Rightarrow> cron_service" where
  "applyOutcomeToStoredJob deps now r s0 =
     (let s = do_effects (tryFinishCronTaskRun r) (clearCronJobActive (to_jobId r) s0) in
      case find_job (to_jobId r) (jobs_of s) of
        None \<Rightarrow> s
      | Some job \<Rightarrow>
        (let (job', effects, shouldDelete) = applyJobResult deps now False job (outcome_result r);
             s1 = emit_event (finished_event job' (to_core r) (to_startedAt r)) (do_effects effects (set_job job' s))
         in if shouldDelete then remove_job (cj_id job') s1 else s1))"

text \<open>The second section of \<open>onTimer\<close>, and its end.\<close>

definition tick_apply :: "cron_deps \<Rightarrow> ms \<Rightarrow> timed_outcome list \<Rightarrow> cron_service \<Rightarrow> cron_service" where
  "tick_apply deps now results s0 =
     (if results = [] then s0
      else let s = ensureLoaded deps True True now s0;
               s1 = fold (applyOutcomeToStoredJob deps now) results s
           in persist (fst (recomputeNextRunsForMaintenance deps False now s1)))"

definition tick_end :: "cron_deps \<Rightarrow> ms \<Rightarrow> cron_service \<Rightarrow> cron_service" where
  "tick_end deps now s = armTimer deps now (s\<lparr>sv_running := False\<rparr>)"

definition tick_begin :: "cron_service \<Rightarrow> bool \<times> cron_service" where
  "tick_begin s =
     (if sv_running s then (False, armRunningRecheckTimer s)
      else (True, armRunningRecheckTimer (s\<lparr>sv_running := True\<rparr>)))"

text \<open>
  The due jobs are run by a pool of workers; their order of execution is an arbitrary
  schedule, and the results are applied in the order of the due list. Here each job is
  started and answered in turn: \<open>run\<close> gives the result and the end of a run.
\<close>

definition run_due_job ::
  "(cron_job \<Rightarrow> core_result fallible \<times> ms) \<Rightarrow> (cron_job \<Rightarrow> ms) \<Rightarrow> (cron_job \<Rightarrow> bool) \<Rightarrow> cron_job
    \<Rightarrow> timed_outcome list \<times> cron_service \<Rightarrow> timed_outcome list \<times> cron_service" where
  "run_due_job run startedAt ledgerAccepts job st =
     (let (outcomes, s) = st;
          (taskRunId, s') = start_due_job (ledgerAccepts job) (startedAt job) job s;
          (result, endedAt) = run job
      in (outcomes @ [\<lparr>to_jobId = cj_id job, to_taskRunId = taskRunId, to_core = run_outcome result,
                        to_startedAt = startedAt job, to_endedAt = endedAt\<rparr>], s'))"

definition onTimer ::
  "cron_deps \<Rightarrow> ms \<Rightarrow> ms \<Rightarrow> (cron_job \<Rightarrow> ms) \<Rightarrow> (cron_job \<Rightarrow> bool) \<Rightarrow> (cron_job \<Rightarrow> core_result fallible \<times> ms) \<Rightarrow> ms \<Rightarrow> ms
    \<Rightarrow> cron_service \<Rightarrow> cron_service" where
  "onTimer deps dueCheckNow now startedAt ledgerAccepts run applyNow endNow s0 =
     (let (proceed, s) = tick_begin s0 in
      if \<not> proceed then s
      else let (due, s1) = tick_collect deps dueCheckNow now s;
               (outcomes, s2) = fold (run_due_job run startedAt ledgerAccepts) due ([], s1)
           in tick_end deps endNow (tick_apply deps applyNow outcomes s2))"

end
