(* ===== verification/Cron_Startup.thy ===== *)
theory Cron_Startup
  imports Cron_Timer
begin

text \<open>
  Catching up after a restart, the direct execution of a job, and waking the main session:
  the rest of \<open>src/cron/service/timer.ts\<close>.
\<close>

subsection \<open>Concurrency of a tick\<close>

definition resolveRunConcurrency :: "cron_deps \<Rightarrow> int" where
  "resolveRunConcurrency deps =
     (case dp_maxConcurrentRuns deps of Some (Finite r) \<Rightarrow> max 1 \<lfloor>r\<rfloor> | _ \<Rightarrow> 1)"

definition tick_workers :: "cron_deps \<Rightarrow> nat \<Rightarrow> int" where
  "tick_workers deps dueCount = min (resolveRunConcurrency deps) (max 1 (int dueCount))"

subsection \<open>Missed jobs\<close>

record catchup_plan =
  cp_candidates :: "cron_job list"
  cp_deferredJobIds :: "string list"

definition DEFAULT_MISSED_JOB_STAGGER_MS :: ms where
  "DEFAULT_MISSED_JOB_STAGGER_MS = 5000"

definition DEFAULT_MAX_MISSED_JOBS_PER_RESTART :: int where
  "DEFAULT_MAX_MISSED_JOBS_PER_RESTART = 5"

definition planStartupCatchup :: "cron_deps \<Rightarrow> ms \<Rightarrow> string set \<Rightarrow> cron_service \<Rightarrow> catchup_plan \<times> cron_service" where
  "planStartupCatchup deps now skipJobIds s0 =
     (let maxImmediate = nat (max 0 (js_or_else (dp_maxMissedJobsPerRestart deps) DEFAULT_MAX_MISSED_JOBS_PER_RESTART));
          s = ensureLoaded deps False True now s0;
          missed = collectRunnableJobs (dp_env deps) now skipJobIds True True s
      in if missed = [] then (\<lparr>cp_candidates = [], cp_deferredJobIds = []\<rparr>, s)
         else let sorted_missed = sort_key (\<lambda>j. js_or_else (st_nextRunAtMs (cj_state j)) 0) missed;
                  startupCandidates = take maxImmediate sorted_missed;
                  deferred = drop maxImmediate sorted_missed
              in (\<lparr>cp_candidates = map (mark_running now) startupCandidates, cp_deferredJobIds = map cj_id deferred\<rparr>,
                  persist (set_jobs (mark_all now startupCandidates (jobs_of s)) s)))"

definition runStartupCatchupCandidate ::
  "(cron_job \<Rightarrow> core_result fallible \<times> ms) \<Rightarrow> (cron_job \<Rightarrow> ms) \<Rightarrow> (cron_job \<Rightarrow> bool) \<Rightarrow> cron_job
    \<Rightarrow> timed_outcome list \<times> cron_service \<Rightarrow> timed_outcome list \<times> cron_service" where
  "runStartupCatchupCandidate run startedAt ledgerAccepts job st =
     (let (outcomes, s) = st;
          (taskRunId, effects) = tryCreateCronTaskRun (ledgerAccepts job) job (startedAt job);
          s' = emit_event ((plain_event (cj_id job) Started)\<lparr>ce_runAtMs := Some (startedAt job)\<rparr>) (do_effects effects s);
          (result, endedAt) = run job
      in (outcomes @ [\<lparr>to_jobId = cj_id job, to_taskRunId = taskRunId, to_core = run_outcome result,
                        to_startedAt = startedAt job, to_endedAt = endedAt\<rparr>], s'))"

fun defer_jobs :: "string list \<Rightarrow> ms \<Rightarrow> ms \<Rightarrow> ms \<Rightarrow> cron_job list \<Rightarrow> cron_job list" where
  "defer_jobs [] baseNow staggerMs offset jobs = jobs"
| "defer_jobs (i # ids) baseNow staggerMs offset jobs =
     (case find_job i jobs of
        None \<Rightarrow> defer_jobs ids baseNow staggerMs offset jobs
      | Some job \<Rightarrow>
          if \<not> isJobEnabled job then defer_jobs ids baseNow staggerMs offset jobs
          else defer_jobs ids baseNow staggerMs (offset + staggerMs)
                 (update_job i (set_state (\<lambda>st. st\<lparr>st_nextRunAtMs := Some (baseNow + offset)\<rparr>)) jobs))"

definition applyStartupCatchupOutcomes ::
  "cron_deps \<Rightarrow> ms \<Rightarrow> catchup_plan \<Rightarrow> timed_outcome list \<Rightarrow> cron_service \<Rightarrow> cron_service" where
  "applyStartupCatchupOutcomes deps now plan outcomes s0 =
     (let staggerMs = max 0 (js_or_else (dp_missedJobStaggerMs deps) DEFAULT_MISSED_JOB_STAGGER_MS);
          s1 = fold (applyOutcomeToStoredJob deps now) outcomes (ensureLoaded deps False True now s0);
          s2 = (if cp_deferredJobIds plan = [] then s1
                else set_jobs (defer_jobs (cp_deferredJobIds plan) now staggerMs staggerMs (jobs_of s1)) s1)
      in persist (fst (recomputeNextRunsForMaintenance deps False now s2)))"

definition runMissedJobs ::
  "cron_deps \<Rightarrow> ms \<Rightarrow> ms \<Rightarrow> string set \<Rightarrow> (cron_job \<Rightarrow> core_result fallible \<times> ms) \<Rightarrow> (cron_job \<Rightarrow> ms) \<Rightarrow> (cron_job \<Rightarrow> bool)
    \<Rightarrow> cron_service \<Rightarrow> cron_service" where
  "runMissedJobs deps now applyNow skipJobIds run startedAt ledgerAccepts s0 =
     (let (plan, s1) = planStartupCatchup deps now skipJobIds s0 in
      if cp_candidates plan = [] \<and> cp_deferredJobIds plan = [] then s1
      else let (outcomes, s2) = fold (runStartupCatchupCandidate run startedAt ledgerAccepts) (cp_candidates plan) ([], s1)
           in applyStartupCatchupOutcomes deps applyNow plan outcomes s2)"

subsection \<open>Direct execution\<close>

definition executeJob :: "cron_deps \<Rightarrow> ms \<Rightarrow> ms \<Rightarrow> ms \<Rightarrow> core_result fallible \<Rightarrow> cron_job \<Rightarrow> cron_service \<Rightarrow> cron_service" where
  "executeJob deps startedAt endedAt now result job s0 =
     (let job0 = mark_running startedAt job;
          s1 = emit_event ((plain_event (cj_id job) Started)\<lparr>ce_runAtMs := Some startedAt\<rparr>)
                 (markCronJobActive (cj_id job) (set_job job0 s0));
          core = (case result of Inr r \<Rightarrow> r | Inl e \<Rightarrow> core_failed StatusError e);
          (job', effects, shouldDelete) =
            applyJobResult deps now False job0
              \<lparr>rs_status = kr_status core, rs_error = kr_error core, rs_delivered = kr_delivered core,
               rs_startedAt = startedAt, rs_endedAt = endedAt\<rparr>;
          s2 = emit_event (finished_event job' core startedAt) (do_effects effects (set_job job' s1))
      in clearCronJobActive (cj_id job)
           (if shouldDelete \<and> sv_store s2 \<noteq> None then remove_job (cj_id job) s2 else s2))"

definition runDueJobs ::
  "cron_deps \<Rightarrow> ms \<Rightarrow> (cron_job \<Rightarrow> ms \<times> ms \<times> ms) \<Rightarrow> (cron_job \<Rightarrow> core_result fallible) \<Rightarrow> cron_service \<Rightarrow> cron_service" where
  "runDueJobs deps now clocks run s =
     (if sv_store s = None then s
      else fold (\<lambda>job s. let (startedAt, endedAt, alertNow) = clocks job
                         in executeJob deps startedAt endedAt alertNow (run job) job s)
             (collectRunnableJobs (dp_env deps) now {} False False s) s)"

subsection \<open>Waking the main session\<close>

definition wake :: "wake_mode \<Rightarrow> string \<Rightarrow> cron_service \<Rightarrow> bool \<times> cron_service" where
  "wake mode text0 s =
     (let text = js_trim text0 in
      if text = [] then (False, s)
      else let s1 = do_effect (EnqueueSystemEvent (PlainText text) None None None) s
           in (True, if mode = WakeNow then do_effect (RequestHeartbeat ''wake'' None None False) s1 else s1))"

end
