(* ===== verification/Cron_Ops.thy ===== *)
theory Cron_Ops
  imports Cron_Startup
begin

text \<open>
  The operations the gateway offers on jobs: \<open>src/cron/service/ops.ts\<close>. Each section under
  the lock is one function. An operation that throws gives the error and the service as it
  was at that point: what was changed in memory before stays changed.
\<close>

type_synonym 'a op_result = "'a fallible \<times> cron_service"

definition warnIfDisabled :: "cron_deps \<Rightarrow> cron_service \<Rightarrow> cron_service" where
  "warnIfDisabled deps s =
     (if dp_cronEnabled deps \<or> sv_warnedDisabled s then s else s\<lparr>sv_warnedDisabled := True\<rparr>)"

definition ensureLoadedForRead :: "cron_deps \<Rightarrow> ms \<Rightarrow> cron_service \<Rightarrow> cron_service" where
  "ensureLoadedForRead deps now s0 =
     (let (s, changed) = recomputeNextRunsForMaintenance deps False now (ensureLoaded deps False True now s0)
      in if changed then persist s else s)"

subsection \<open>Start and status\<close>

definition clear_running :: "cron_job \<Rightarrow> cron_job" where
  "clear_running job = set_state (\<lambda>st. st\<lparr>st_runningAtMs := None\<rparr>) job"

definition start_clear :: "cron_deps \<Rightarrow> ms \<Rightarrow> cron_service \<Rightarrow> string set \<times> cron_service" where
  "start_clear deps now s0 =
     (let s = ensureLoaded deps False True now s0;
          stale = filter (\<lambda>j. st_runningAtMs (cj_state j) \<noteq> None) (jobs_of s);
          s1 = set_jobs (map clear_running (jobs_of s)) s
      in (set (map cj_id (filter (\<lambda>j. is_at (cj_schedule j)) stale)), if stale = [] then s else persist s1))"

definition start_finish :: "cron_deps \<Rightarrow> ms \<Rightarrow> cron_service \<Rightarrow> cron_service" where
  "start_finish deps now s0 =
     (let (s, changed) = recomputeNextRuns deps now (ensureLoaded deps False True now s0)
      in armTimer deps now (if changed then persist s else s))"

definition start ::
  "cron_deps \<Rightarrow> ms \<Rightarrow> ms \<Rightarrow> ms \<Rightarrow> (cron_job \<Rightarrow> core_result fallible \<times> ms) \<Rightarrow> (cron_job \<Rightarrow> ms) \<Rightarrow> (cron_job \<Rightarrow> bool)
    \<Rightarrow> cron_service \<Rightarrow> cron_service" where
  "start deps now applyNow finishNow run startedAt ledgerAccepts s =
     (if \<not> dp_cronEnabled deps then s
      else let (interrupted, s1) = start_clear deps now s
           in start_finish deps finishNow (runMissedJobs deps now applyNow interrupted run startedAt ledgerAccepts s1))"

definition stop :: "cron_service \<Rightarrow> cron_service" where
  "stop s = stopTimer s"

record cron_status =
  cs_enabled :: bool
  cs_jobs :: nat
  cs_nextWakeAtMs :: "ms option"

definition status :: "cron_deps \<Rightarrow> ms \<Rightarrow> cron_service \<Rightarrow> cron_status \<times> cron_service" where
  "status deps now s0 =
     (let s = ensureLoadedForRead deps now s0 in
      (\<lparr>cs_enabled = dp_cronEnabled deps, cs_jobs = length (jobs_of s),
        cs_nextWakeAtMs = (if dp_cronEnabled deps then nextWakeAtMs s else None)\<rparr>, s))"

subsection \<open>Listing\<close>

definition list_jobs :: "cron_deps \<Rightarrow> ms \<Rightarrow> bool \<Rightarrow> cron_service \<Rightarrow> cron_job list \<times> cron_service" where
  "list_jobs deps now includeDisabled s0 =
     (let s = ensureLoadedForRead deps now s0 in
      (sort_key (\<lambda>j. js_or_else (st_nextRunAtMs (cj_state j)) 0)
         (filter (\<lambda>j. includeDisabled \<or> isJobEnabled j) (jobs_of s)), s))"

datatype enabled_filter = FilterAll | FilterEnabled | FilterDisabled

datatype sort_by = SortNextRun | SortUpdated | SortName

record list_page_options =
  lo_includeDisabled :: bool
  lo_limit :: "rat option"
  lo_offset :: "rat option"
  lo_query :: "string option"
  lo_enabled :: "enabled_filter option"
  lo_sortBy :: "sort_by option"
  lo_descending :: bool

record list_page_result =
  lp_jobs :: "cron_job list"
  lp_total :: nat
  lp_offset :: int
  lp_limit :: int
  lp_hasMore :: bool
  lp_nextOffset :: "int option"

definition resolveEnabledFilter :: "list_page_options \<Rightarrow> enabled_filter" where
  "resolveEnabledFilter opts =
     (case lo_enabled opts of Some f \<Rightarrow> f | None \<Rightarrow> if lo_includeDisabled opts then FilterAll else FilterEnabled)"

text \<open>
  \<open>localeCompare\<close> is a parameter: the sign it returns for two names (base sensitivity) and
  for two ids.
\<close>

definition compare_next_run :: "ms option \<Rightarrow> ms option \<Rightarrow> int" where
  "compare_next_run a b =
     (case (a, b) of
        (Some x, Some y) \<Rightarrow> x - y
      | (Some _, None) \<Rightarrow> - 1
      | (None, Some _) \<Rightarrow> 1
      | (None, None) \<Rightarrow> 0)"

definition compare_jobs ::
  "(string \<Rightarrow> string \<Rightarrow> int) \<Rightarrow> (string \<Rightarrow> string \<Rightarrow> int) \<Rightarrow> sort_by \<Rightarrow> bool \<Rightarrow> cron_job \<Rightarrow> cron_job \<Rightarrow> int" where
  "compare_jobs nameCompare idCompare sortBy descending a b =
     (let cmp = (case sortBy of
                   SortName \<Rightarrow> nameCompare (cj_name a) (cj_name b)
                 | SortUpdated \<Rightarrow> cj_updatedAtMs a - cj_updatedAtMs b
                 | SortNextRun \<Rightarrow> compare_next_run (st_nextRunAtMs (cj_state a)) (st_nextRunAtMs (cj_state b)))
      in if cmp \<noteq> 0 then (if descending then - cmp else cmp) else idCompare (cj_id a) (cj_id b))"

text \<open>A stable sort by a comparison function, as \<open>toSorted\<close> is.\<close>

fun insert_by :: "('a \<Rightarrow> 'a \<Rightarrow> int) \<Rightarrow> 'a \<Rightarrow> 'a list \<Rightarrow> 'a list" where
  "insert_by cmp x [] = [x]"
| "insert_by cmp x (y # ys) = (if cmp x y \<le> 0 then x # y # ys else y # insert_by cmp x ys)"

definition sort_by_compare :: "('a \<Rightarrow> 'a \<Rightarrow> int) \<Rightarrow> 'a list \<Rightarrow> 'a list" where
  "sort_by_compare cmp xs = foldr (insert_by cmp) xs []"

definition matches_filter :: "enabled_filter \<Rightarrow> string \<Rightarrow> cron_job \<Rightarrow> bool" where
  "matches_filter f query job =
     ((f = FilterEnabled \<longrightarrow> isJobEnabled job) \<and> (f = FilterDisabled \<longrightarrow> \<not> isJobEnabled job) \<and>
      (query = [] \<or>
       sublist query (normalizeLowercaseStringOrEmpty (JStr
         (js_join '' '' [cj_name job, js_or_else (cj_description job) [], js_or_else (cj_agentId job) []])))))"

definition page_of :: "cron_job list \<Rightarrow> rat option \<Rightarrow> rat option \<Rightarrow> list_page_result" where
  "page_of sorted_jobs offset0 limit0 =
     (let total = length sorted_jobs;
          offset = max 0 (min (int total) \<lfloor>js_or_else offset0 0\<rfloor>);
          defaultLimit = (if total = 0 then 50 else int total);
          limit = max 1 (min 200 (case limit0 of None \<Rightarrow> defaultLimit | Some l \<Rightarrow> \<lfloor>l\<rfloor>));
          jobs = take (nat limit) (drop (nat offset) sorted_jobs);
          nextOffset = offset + int (length jobs)
      in \<lparr>lp_jobs = jobs, lp_total = total, lp_offset = offset, lp_limit = limit,
          lp_hasMore = (nextOffset < int total),
          lp_nextOffset = (if nextOffset < int total then Some nextOffset else None)\<rparr>)"

definition listPage ::
  "(string \<Rightarrow> string \<Rightarrow> int) \<Rightarrow> (string \<Rightarrow> string \<Rightarrow> int) \<Rightarrow> cron_deps \<Rightarrow> ms \<Rightarrow> list_page_options \<Rightarrow> cron_service
    \<Rightarrow> list_page_result \<times> cron_service" where
  "listPage nameCompare idCompare deps now opts s0 =
     (let s = ensureLoadedForRead deps now s0;
          query = normalizeLowercaseStringOrEmpty (js_opt (lo_query opts));
          filtered = filter (matches_filter (resolveEnabledFilter opts) query) (jobs_of s);
          sorted_jobs = sort_by_compare
            (compare_jobs nameCompare idCompare (js_or_else (lo_sortBy opts) SortNextRun) (lo_descending opts)) filtered
      in (page_of sorted_jobs (lo_offset opts) (lo_limit opts), s))"

subsection \<open>Adding, updating and removing\<close>

definition add :: "cron_deps \<Rightarrow> ms \<Rightarrow> string \<Rightarrow> cron_create \<Rightarrow> cron_service \<Rightarrow> cron_job op_result" where
  "add deps now newId input s0 =
     (let s1 = ensureLoaded deps False False now (warnIfDisabled deps s0) in
      case createJob deps now newId input of
        Inl e \<Rightarrow> (Inl e, s1)
      | Inr job \<Rightarrow>
        (let s2 = fst (recomputeNextRuns deps now (set_jobs (jobs_of s1 @ [job]) s1));
             s3 = armTimer deps now (persist s2);
             stored = last (jobs_of s2)
         in (Inr stored, emit_event ((plain_event newId Added)\<lparr>ce_nextRunAtMs := st_nextRunAtMs (cj_state stored)\<rparr>) s3)))"

definition is_finite_number :: "js_value \<Rightarrow> bool" where
  "is_finite_number v = (case v of JNum (Finite _) \<Rightarrow> True | _ \<Rightarrow> False)"

definition repair_anchor :: "ms \<Rightarrow> cron_patch \<Rightarrow> cron_job \<Rightarrow> cron_job" where
  "repair_anchor now patch job =
     (case cj_schedule job of
        SchedEvery everyMs anchorMs \<Rightarrow>
          if is_finite_number anchorMs then job
          else let fallbackAnchorMs = (case pa_schedule patch of
                                         Some s \<Rightarrow> if is_every s then now else cj_createdAtMs job
                                       | None \<Rightarrow> cj_createdAtMs job)
               in job\<lparr>cj_schedule := SchedEvery everyMs (JNum (js_int (max 0 fallbackAnchorMs)))\<rparr>
      | _ \<Rightarrow> job)"

definition reschedule :: "cron_deps \<Rightarrow> ms \<Rightarrow> cron_job \<Rightarrow> cron_job fallible" where
  "reschedule deps now job =
     (case computeJobNextRunAtMs (dp_env deps) job now of
        Inl e \<Rightarrow> Inl e
      | Inr nxt \<Rightarrow> Inr (set_state (\<lambda>st. st\<lparr>st_nextRunAtMs := nxt\<rparr>) job))"

definition update_schedule :: "cron_deps \<Rightarrow> ms \<Rightarrow> cron_patch \<Rightarrow> cron_job \<Rightarrow> cron_job fallible" where
  "update_schedule deps now patch job =
     (if pa_schedule patch \<noteq> None \<or> pa_enabled patch \<noteq> JUndef then
        (if isJobEnabled job then reschedule deps now job
         else Inr (set_state (\<lambda>st. st\<lparr>st_nextRunAtMs := None, st_runningAtMs := None\<rparr>) job))
      else if isJobEnabled job \<and> \<not> hasScheduledNextRunAtMs (st_nextRunAtMs (cj_state job)) then reschedule deps now job
      else Inr job)"

definition update :: "cron_deps \<Rightarrow> ms \<Rightarrow> string \<Rightarrow> cron_patch \<Rightarrow> cron_service \<Rightarrow> cron_job op_result" where
  "update deps now i patch s0 =
     (let s1 = ensureLoaded deps False True now (warnIfDisabled deps s0) in
      case findJobOrThrow s1 i of
        Inl e \<Rightarrow> (Inl e, s1)
      | Inr job \<Rightarrow>
        (case applyJobPatch (dp_env deps) (dp_defaultAgentId deps) patch job of
           (Some e, job') \<Rightarrow> (Inl e, set_job job' s1)
         | (None, job') \<Rightarrow>
           (let job'' = (repair_anchor now patch job')\<lparr>cj_updatedAtMs := now\<rparr> in
            case update_schedule deps now patch job'' of
              Inl e \<Rightarrow> (Inl e, set_job job'' s1)
            | Inr job3 \<Rightarrow>
              (Inr job3,
               emit_event ((plain_event i Updated)\<lparr>ce_nextRunAtMs := st_nextRunAtMs (cj_state job3)\<rparr>)
                 (armTimer deps now (persist (set_job job3 s1)))))))"

definition remove :: "cron_deps \<Rightarrow> ms \<Rightarrow> string \<Rightarrow> cron_service \<Rightarrow> bool \<times> cron_service" where
  "remove deps now i s0 =
     (let s1 = ensureLoaded deps False False now (warnIfDisabled deps s0);
          before = length (jobs_of s1);
          s2 = set_jobs (filter (\<lambda>j. cj_id j \<noteq> i) (jobs_of s1)) s1;
          removed = (length (jobs_of s2) \<noteq> before);
          s3 = armTimer deps now (persist s2)
      in (removed, if removed then emit_event (plain_event i Removed) s3 else s3))"

end
