(* ===== verification/Cron_Manual.thy ===== *)
theory Cron_Manual
  imports Cron_Ops
begin

text \<open>
  Running a job by hand: the rest of \<open>src/cron/service/ops.ts\<close>. A run is inspected and
  reserved under the lock, executed outside it, and finished under the lock again; the file
  is reloaded before the end of the run is saved, so that what the run wrote to it is kept.
\<close>

subsection \<open>Before the run\<close>

datatype skip_reason = AlreadyRunning | NotDue | InvalidSpec

datatype preflight = PreflightSkip skip_reason | PreflightRunnable cron_job ms

definition skipInvalidPersistedManualRun ::
  "cron_deps \<Rightarrow> ms \<Rightarrow> bool \<Rightarrow> string \<Rightarrow> cron_job \<Rightarrow> cron_service \<Rightarrow> cron_service" where
  "skipInvalidPersistedManualRun deps now force error job s0 =
     (let errorText = thrown_error_text error;
          core = core_failed StatusSkipped errorText;
          (job', effects, shouldDelete) =
            applyJobResult deps now force job
              \<lparr>rs_status = StatusSkipped, rs_error = Some errorText, rs_delivered = None, rs_startedAt = now, rs_endedAt = now\<rparr>;
          s1 = emit_event (finished_event job' core now) (do_effects effects (set_job job' s0));
          s2 = (if shouldDelete then remove_job (cj_id job') s1 else s1)
      in armTimer deps now (persist (fst (recomputeNextRunsForMaintenance deps True now s2))))"

definition inspectManualRunPreflight ::
  "cron_deps \<Rightarrow> ms \<Rightarrow> string \<Rightarrow> bool \<Rightarrow> cron_service \<Rightarrow> preflight op_result" where
  "inspectManualRunPreflight deps now i force s0 =
     (let s1 = fst (recomputeNextRunsForMaintenance deps False now
                 (ensureLoaded deps False True now (warnIfDisabled deps s0))) in
      case findJobOrThrow s1 i of
        Inl e \<Rightarrow> (Inl e, s1)
      | Inr job \<Rightarrow>
        (case assertSupportedJobSpec (cj_sessionTarget job) (cj_payload job) of
           Inl e \<Rightarrow> (Inr (PreflightSkip InvalidSpec), skipInvalidPersistedManualRun deps now force e job s1)
         | Inr _ \<Rightarrow>
           if st_runningAtMs (cj_state job) \<noteq> None then (Inr (PreflightSkip AlreadyRunning), s1)
           else if \<not> isJobDue job now force then (Inr (PreflightSkip NotDue), s1)
           else (Inr (PreflightRunnable job now), s1)))"

record prepared_run =
  pr_jobId :: string
  pr_taskRunId :: "string option"
  pr_startedAt :: ms
  pr_executionJob :: cron_job

datatype prepared = PreparedSkip skip_reason | Prepared prepared_run

text \<open>The second section of \<open>prepareManualRun\<close>: reserve the job.\<close>

definition reserveManualRun :: "bool \<Rightarrow> ms \<Rightarrow> string \<Rightarrow> cron_service \<Rightarrow> prepared op_result" where
  "reserveManualRun ledgerAccepts now i s0 =
     (case findJobOrThrow s0 i of
        Inl e \<Rightarrow> (Inl e, s0)
      | Inr job \<Rightarrow>
        if st_runningAtMs (cj_state job) \<noteq> None then (Inr (PreparedSkip AlreadyRunning), s0)
        else let job' = mark_running now job;
                 s1 = emit_event ((plain_event (cj_id job) Started)\<lparr>ce_runAtMs := Some now\<rparr>) (persist (set_job job' s0));
                 (taskRunId, effects) = tryCreateCronTaskRun ledgerAccepts job' now
             in (Inr (Prepared \<lparr>pr_jobId = cj_id job, pr_taskRunId = taskRunId, pr_startedAt = now,
                                pr_executionJob = job'\<rparr>), do_effects effects s1))"

definition prepareManualRun ::
  "cron_deps \<Rightarrow> bool \<Rightarrow> ms \<Rightarrow> string \<Rightarrow> bool \<Rightarrow> cron_service \<Rightarrow> prepared op_result" where
  "prepareManualRun deps ledgerAccepts now i force s0 =
     (case inspectManualRunPreflight deps now i force s0 of
        (Inl e, s1) \<Rightarrow> (Inl e, s1)
      | (Inr (PreflightSkip reason), s1) \<Rightarrow> (Inr (PreparedSkip reason), s1)
      | (Inr (PreflightRunnable job at0), s1) \<Rightarrow> reserveManualRun ledgerAccepts at0 i s1)"

subsection \<open>After the run\<close>

record run_snapshot =
  sn_enabled :: bool
  sn_updatedAtMs :: ms
  sn_state :: job_state

definition mergeManualRunSnapshotAfterReload :: "string \<Rightarrow> run_snapshot option \<Rightarrow> bool \<Rightarrow> cron_service \<Rightarrow> cron_service" where
  "mergeManualRunSnapshotAfterReload jobId snapshot removed s =
     (if sv_store s = None then s
      else if removed then set_jobs (filter (\<lambda>j. cj_id j \<noteq> jobId) (jobs_of s)) s
      else case snapshot of
        None \<Rightarrow> s
      | Some sn \<Rightarrow>
          set_jobs (update_job jobId
            (\<lambda>j. j\<lparr>cj_enabled := sn_enabled sn, cj_updatedAtMs := sn_updatedAtMs sn, cj_state := sn_state sn\<rparr>)
            (jobs_of s)) s)"

definition tryFinishManualTaskRun :: "string option \<Rightarrow> core_result \<Rightarrow> ms \<Rightarrow> cron_effect list" where
  "tryFinishManualTaskRun taskRunId core endedAt =
     tryFinishCronTaskRun
       \<lparr>to_jobId = [], to_taskRunId = taskRunId, to_core = core, to_startedAt = endedAt, to_endedAt = endedAt\<rparr>"

definition finishPreparedManualRun ::
  "cron_deps \<Rightarrow> ms \<Rightarrow> ms \<Rightarrow> bool \<Rightarrow> core_result fallible \<Rightarrow> prepared_run \<Rightarrow> cron_service \<Rightarrow> cron_service" where
  "finishPreparedManualRun deps endedAt now force result prepared s0 =
     (let core = run_outcome result;
          s1 = ensureLoaded deps False True now
                 (do_effects (tryFinishManualTaskRun (pr_taskRunId prepared) core endedAt) s0)
      in case find_job (pr_jobId prepared) (jobs_of s1) of
           None \<Rightarrow> s1
         | Some job \<Rightarrow>
           (let (job', effects, shouldDelete) =
                  applyJobResult deps now force job
                    \<lparr>rs_status = kr_status core, rs_error = kr_error core, rs_delivered = kr_delivered core,
                     rs_startedAt = pr_startedAt prepared, rs_endedAt = endedAt\<rparr>;
                s2 = emit_event (finished_event job' core (pr_startedAt prepared)) (do_effects effects (set_job job' s1));
                s3 = (if shouldDelete then remove_job (cj_id job') s2 else s2);
                snapshot = (if shouldDelete then None
                            else Some \<lparr>sn_enabled = cj_enabled job', sn_updatedAtMs = cj_updatedAtMs job', sn_state = cj_state job'\<rparr>);
                s4 = mergeManualRunSnapshotAfterReload (pr_jobId prepared) snapshot shouldDelete
                       (ensureLoaded deps True True now s3)
            in armTimer deps now (persist (fst (recomputeNextRunsForMaintenance deps True now s4)))))"

datatype run_reply = Ran | NotRan skip_reason

text \<open>\<open>run\<close>: the outside gives the result of the execution and its end.\<close>

definition run ::
  "cron_deps \<Rightarrow> bool \<Rightarrow> ms \<Rightarrow> string \<Rightarrow> bool \<Rightarrow> (cron_job \<Rightarrow> core_result fallible \<times> ms) \<Rightarrow> ms \<Rightarrow> cron_service
    \<Rightarrow> run_reply op_result" where
  "run deps ledgerAccepts now i force execute finishNow s0 =
     (case prepareManualRun deps ledgerAccepts now i force s0 of
        (Inl e, s1) \<Rightarrow> (Inl e, s1)
      | (Inr (PreparedSkip reason), s1) \<Rightarrow> (Inr (NotRan reason), s1)
      | (Inr (Prepared p), s1) \<Rightarrow>
          (let (result, endedAt) = execute (pr_executionJob p)
           in (Inr Ran, finishPreparedManualRun deps endedAt finishNow force result p s1)))"

datatype enqueue_reply = Enqueued string | NotEnqueued skip_reason

definition enqueueRun ::
  "cron_deps \<Rightarrow> ms \<Rightarrow> ms \<Rightarrow> nat \<Rightarrow> string \<Rightarrow> bool \<Rightarrow> cron_service \<Rightarrow> enqueue_reply op_result \<times> nat" where
  "enqueueRun deps now idNow nextManualRunId i force s0 =
     (case inspectManualRunPreflight deps now i force s0 of
        (Inl e, s1) \<Rightarrow> ((Inl e, s1), nextManualRunId)
      | (Inr (PreflightSkip reason), s1) \<Rightarrow> ((Inr (NotEnqueued reason), s1), nextManualRunId)
      | (Inr (PreflightRunnable job at0), s1) \<Rightarrow>
          ((Inr (Enqueued (''manual:'' @ i @ '':'' @ js_show_int idNow @ '':'' @ js_show_nat nextManualRunId)), s1),
           Suc nextManualRunId))"

end
