(* ===== verification/Cron_Facts.thy ===== *)
theory Cron_Facts
  imports Cron_Manual
begin

text \<open>
  Lemmas about the operations of the cron service that its properties share: what a result
  does to the fields of a job, and that every operation keeps the identity of the jobs.
\<close>

subsection \<open>Applying a result\<close>

lemma set_state_fields [simp]:
  "cj_id (set_state f job) = cj_id job" "cj_schedule (set_state f job) = cj_schedule job"
  "cj_enabled (set_state f job) = cj_enabled job" "cj_state (set_state f job) = f (cj_state job)"
  "cj_delivery (set_state f job) = cj_delivery job" "cj_deleteAfterRun (set_state f job) = cj_deleteAfterRun job"
  "cj_failureAlert (set_state f job) = cj_failureAlert job"
  by (simp_all add: set_state_def)

lemma disable_job_fields [simp]:
  "cj_id (disable_job job) = cj_id job" "\<not> cj_enabled (disable_job job)"
  "st_nextRunAtMs (cj_state (disable_job job)) = None"
  "st_runningAtMs (cj_state (disable_job job)) = st_runningAtMs (cj_state job)"
  "st_lastStatus (cj_state (disable_job job)) = st_lastStatus (cj_state job)"
  "st_consecutiveErrors (cj_state (disable_job job)) = st_consecutiveErrors (cj_state job)"
  by (simp_all add: disable_job_def)

lemma record_run_fields [simp]:
  "cj_id (record_run env job r) = cj_id job" "cj_schedule (record_run env job r) = cj_schedule job"
  "cj_enabled (record_run env job r) = cj_enabled job" "cj_delivery (record_run env job r) = cj_delivery job"
  "cj_deleteAfterRun (record_run env job r) = cj_deleteAfterRun job"
  "cj_failureAlert (record_run env job r) = cj_failureAlert job"
  "st_runningAtMs (cj_state (record_run env job r)) = None"
  "st_lastRunAtMs (cj_state (record_run env job r)) = Some (rs_startedAt r)"
  "st_lastStatus (cj_state (record_run env job r)) = Some (rs_status r)"
  "st_consecutiveErrors (cj_state (record_run env job r)) = st_consecutiveErrors (cj_state job)"
  "st_lastFailureAlertAtMs (cj_state (record_run env job r)) = st_lastFailureAlertAtMs (cj_state job)"
  by (simp_all add: record_run_def case_prod_unfold Let_def)

lemma track_errors_fields [simp]:
  "cj_id (fst (track_errors deps now job r)) = cj_id job"
  "cj_schedule (fst (track_errors deps now job r)) = cj_schedule job"
  "cj_enabled (fst (track_errors deps now job r)) = cj_enabled job"
  "cj_deleteAfterRun (fst (track_errors deps now job r)) = cj_deleteAfterRun job"
  "st_runningAtMs (cj_state (fst (track_errors deps now job r))) = st_runningAtMs (cj_state job)"
  "st_lastRunAtMs (cj_state (fst (track_errors deps now job r))) = st_lastRunAtMs (cj_state job)"
  "st_lastStatus (cj_state (fst (track_errors deps now job r))) = st_lastStatus (cj_state job)"
  "st_consecutiveErrors (cj_state (fst (track_errors deps now job r))) =
     Some (if rs_status r = StatusError then js_or_else (st_consecutiveErrors (cj_state job)) 0 + 1 else 0)"
  by (auto simp: track_errors_def Let_def split: option.splits)

lemma settle_one_shot_fields [simp]:
  "cj_id (settle_one_shot deps job r) = cj_id job"
  "cj_schedule (settle_one_shot deps job r) = cj_schedule job"
  "st_runningAtMs (cj_state (settle_one_shot deps job r)) = st_runningAtMs (cj_state job)"
  "st_lastStatus (cj_state (settle_one_shot deps job r)) = st_lastStatus (cj_state job)"
  "st_consecutiveErrors (cj_state (settle_one_shot deps job r)) = st_consecutiveErrors (cj_state job)"
  by (auto simp: settle_one_shot_def Let_def disable_job_def)

lemma recordScheduleComputeError_more [simp]:
  "cj_id (fst (recordScheduleComputeError job e)) = cj_id job"
  "cj_schedule (fst (recordScheduleComputeError job e)) = cj_schedule job"
  "st_runningAtMs (cj_state (fst (recordScheduleComputeError job e))) = st_runningAtMs (cj_state job)"
  "st_lastStatus (cj_state (fst (recordScheduleComputeError job e))) = st_lastStatus (cj_state job)"
  "st_consecutiveErrors (cj_state (fst (recordScheduleComputeError job e))) = st_consecutiveErrors (cj_state job)"
  by (auto simp: recordScheduleComputeError_def Let_def)

lemma natural_next_fields [simp]:
  "cj_id (fst (snd (natural_next deps p l job t))) = cj_id job"
  "cj_schedule (fst (snd (natural_next deps p l job t))) = cj_schedule job"
  "st_runningAtMs (cj_state (fst (snd (natural_next deps p l job t)))) = st_runningAtMs (cj_state job)"
  "st_lastStatus (cj_state (fst (snd (natural_next deps p l job t)))) = st_lastStatus (cj_state job)"
  "st_consecutiveErrors (cj_state (fst (snd (natural_next deps p l job t)))) = st_consecutiveErrors (cj_state job)"
  by (simp_all add: natural_next_def Let_def case_prod_unfold split: sum.splits)

lemma settle_recurring_fields [simp]:
  "cj_id (fst (settle_recurring deps p l job r)) = cj_id job"
  "cj_schedule (fst (settle_recurring deps p l job r)) = cj_schedule job"
  "st_runningAtMs (cj_state (fst (settle_recurring deps p l job r))) = st_runningAtMs (cj_state job)"
  "st_lastStatus (cj_state (fst (settle_recurring deps p l job r))) = st_lastStatus (cj_state job)"
  "st_consecutiveErrors (cj_state (fst (settle_recurring deps p l job r))) = st_consecutiveErrors (cj_state job)"
  by (simp_all add: settle_recurring_def Let_def case_prod_unfold)

lemma applyJobResult_fields:
  assumes "applyJobResult deps now p job r = (job', effects, del)"
  shows "cj_id job' = cj_id job" "cj_schedule job' = cj_schedule job" "st_runningAtMs (cj_state job') = None"
    "st_lastStatus (cj_state job') = Some (rs_status r)"
    "st_consecutiveErrors (cj_state job') =
       Some (if rs_status r = StatusError then js_or_else (st_consecutiveErrors (cj_state job)) 0 + 1 else 0)"
proof -
  let ?j = "fst (track_errors deps now (record_run (dp_env deps) job r) r)"
  have "job' = ?j \<or> job' = settle_one_shot deps ?j r \<or> (\<exists>l. job' = fst (settle_recurring deps p l ?j r))"
    using assms by (auto simp: applyJobResult_def case_prod_unfold Let_def split: if_splits)
  then show "cj_id job' = cj_id job" "cj_schedule job' = cj_schedule job" "st_runningAtMs (cj_state job') = None"
    "st_lastStatus (cj_state job') = Some (rs_status r)"
    "st_consecutiveErrors (cj_state job') =
       Some (if rs_status r = StatusError then js_or_else (st_consecutiveErrors (cj_state job)) 0 + 1 else 0)"
    by auto
qed

subsection \<open>The gap before the next run\<close>

lemma settle_recurring_gap:
  assumes "settle_recurring deps p l job r = (job', effects)" "st_nextRunAtMs (cj_state job') = Some t"
  shows "rs_status r = StatusError \<Longrightarrow> rs_endedAt r + 30000 \<le> t"
    "is_cron (cj_schedule job) \<Longrightarrow> rs_endedAt r + 2000 \<le> t"
  using assms errorBackoffMs_default(1) [of "js_or_else (st_consecutiveErrors (cj_state job)) 1"]
  by (auto simp: settle_recurring_def Let_def MIN_REFIRE_GAP_MS_def split: prod.splits if_splits option.splits)

lemma applyJobResult_recurring:
  assumes "applyJobResult deps now p job r = (job', effects, del)" "\<not> is_at (cj_schedule job)"
  obtains job1 e where "settle_recurring deps p (st_lastRunAtMs (cj_state job)) job1 r = (job', e)" "\<not> del"
    "cj_schedule job1 = cj_schedule job" "cj_enabled job1 = cj_enabled job"
proof -
  let ?j = "fst (track_errors deps now (record_run (dp_env deps) job r) r)"
  have "job' = fst (settle_recurring deps p (st_lastRunAtMs (cj_state job)) ?j r)" "\<not> del"
    using assms by (auto simp: applyJobResult_def case_prod_unfold Let_def split: if_splits)
  then show thesis using that [of ?j "snd (settle_recurring deps p (st_lastRunAtMs (cj_state job)) ?j r)"] by simp
qed

subsection \<open>Identity of the jobs\<close>

lemma update_job_const_ids: "cj_id j = i \<Longrightarrow> map cj_id (update_job i (\<lambda>_. j) js) = map cj_id js"
  by (induction js) auto

lemma set_job_ids [simp]: "map cj_id (jobs_of (set_job j s)) = map cj_id (jobs_of s)"
  by (simp add: set_job_def update_job_const_ids)

lemma persist_disk: "sv_disk (persist s) = (case sv_store s of None \<Rightarrow> sv_disk s | Some js \<Rightarrow> js)"
  by (simp add: persist_def split: option.splits)

lemma mark_all_ids [simp]: "map cj_id (mark_all now chosen js) = map cj_id js"
  by (simp add: mark_all_def mark_running_def comp_def)

lemma timer_fields [simp]:
  "sv_store (armRunningRecheckTimer s) = sv_store s" "sv_disk (armRunningRecheckTimer s) = sv_disk s"
  "sv_store (armTimer deps now s) = sv_store s" "sv_disk (armTimer deps now s) = sv_disk s"
  "sv_running (armTimer deps now s) = sv_running s" "sv_out (armTimer deps now s) = sv_out s"
  "jobs_of (armTimer deps now s) = jobs_of s" "jobs_of (armRunningRecheckTimer s) = jobs_of s"
  by (auto simp: armRunningRecheckTimer_def armTimer_def Let_def jobs_of_def split: option.splits)

lemma warnIfDisabled_fields [simp]:
  "sv_store (warnIfDisabled deps s) = sv_store s" "sv_disk (warnIfDisabled deps s) = sv_disk s"
  "jobs_of (warnIfDisabled deps s) = jobs_of s"
  by (simp_all add: warnIfDisabled_def jobs_of_def)

lemma recompute_disk [simp]:
  "sv_disk (fst (walkSchedulableJobs fn n s)) = sv_disk s"
  "sv_disk (fst (recomputeNextRuns deps n s)) = sv_disk s"
  "sv_disk (fst (recomputeNextRunsForMaintenance deps b n s)) = sv_disk s"
  by (auto simp: recomputeNextRuns_def recomputeNextRunsForMaintenance_def walkSchedulableJobs_def
      split: option.splits prod.splits)

lemma recompute_ids [simp]:
  "map cj_id (jobs_of (fst (recomputeNextRuns deps n s))) = map cj_id (jobs_of s)"
  "map cj_id (jobs_of (fst (recomputeNextRunsForMaintenance deps b n s))) = map cj_id (jobs_of s)"
  by (simp_all add: recomputeNextRuns_def recomputeNextRunsForMaintenance_def due_pass.walk_ids missing_pass.walk_ids)

end
