(* ===== verification/Cron_Machine.thy ===== *)
theory Cron_Machine
  imports Cron_Facts
begin

text \<open>
  The cron service as a state machine. Its transitions are the sections of
  \<open>src/cron/service/timer.ts\<close> and \<open>src/cron/service/ops.ts\<close> that run under the lock, and the
  few statements between them, so that a run of the machine is any interleaving of ticks,
  manual runs, edits and reads. \<open>store_property\<close> is the contract of a predicate on the stored
  jobs that the sections keep; it is a \<open>step_machine\<close>.
\<close>

subsection \<open>The transitions\<close>

datatype cron_call =
    CallStartClear ms
  | CallPlanCatchup ms "string set"
  | CallCandidate "cron_job \<Rightarrow> core_result fallible \<times> ms" "cron_job \<Rightarrow> ms" "cron_job \<Rightarrow> bool" cron_job
  | CallApplyCatchup ms catchup_plan "timed_outcome list"
  | CallStartFinish ms
  | CallStop
  | CallStatus ms
  | CallList ms bool
  | CallListPage "string \<Rightarrow> string \<Rightarrow> int" "string \<Rightarrow> string \<Rightarrow> int" ms list_page_options
  | CallAdd ms string cron_create
  | CallUpdate ms string cron_patch
  | CallRemove ms string
  | CallTickBegin
  | CallTickCollect ms ms
  | CallStartDue bool ms cron_job
  | CallTickApply ms "timed_outcome list"
  | CallTickEnd ms
  | CallPreflight ms string bool
  | CallReserve bool ms string
  | CallFinish ms ms bool "core_result fallible" prepared_run
  | CallWake wake_mode string

definition cron_step :: "cron_deps \<Rightarrow> cron_service \<Rightarrow> cron_call \<Rightarrow> cron_service" where
  "cron_step deps s call =
     (case call of
        CallStartClear now \<Rightarrow> snd (start_clear deps now s)
      | CallPlanCatchup now skip \<Rightarrow> snd (planStartupCatchup deps now skip s)
      | CallCandidate execute startedAt accepts job \<Rightarrow> snd (runStartupCatchupCandidate execute startedAt accepts job ([], s))
      | CallApplyCatchup now plan outcomes \<Rightarrow> applyStartupCatchupOutcomes deps now plan outcomes s
      | CallStartFinish now \<Rightarrow> start_finish deps now s
      | CallStop \<Rightarrow> stop s
      | CallStatus now \<Rightarrow> snd (status deps now s)
      | CallList now includeDisabled \<Rightarrow> snd (list_jobs deps now includeDisabled s)
      | CallListPage nameCompare idCompare now opts \<Rightarrow> snd (listPage nameCompare idCompare deps now opts s)
      | CallAdd now newId input \<Rightarrow> snd (add deps now newId input s)
      | CallUpdate now i patch \<Rightarrow> snd (update deps now i patch s)
      | CallRemove now i \<Rightarrow> snd (remove deps now i s)
      | CallTickBegin \<Rightarrow> snd (tick_begin s)
      | CallTickCollect dueCheckNow now \<Rightarrow> snd (tick_collect deps dueCheckNow now s)
      | CallStartDue accepts startedAt job \<Rightarrow> snd (start_due_job accepts startedAt job s)
      | CallTickApply now outcomes \<Rightarrow> tick_apply deps now outcomes s
      | CallTickEnd now \<Rightarrow> tick_end deps now s
      | CallPreflight now i force \<Rightarrow> snd (inspectManualRunPreflight deps now i force s)
      | CallReserve accepts now i \<Rightarrow> snd (reserveManualRun accepts now i s)
      | CallFinish endedAt now force result prepared \<Rightarrow> finishPreparedManualRun deps endedAt now force result prepared s
      | CallWake mode text \<Rightarrow> snd (wake mode text s))"

definition supported_in :: "cron_job list \<Rightarrow> string \<Rightarrow> bool" where
  "supported_in js i =
     list_all (\<lambda>j. cj_id j = i \<longrightarrow> assertSupportedJobSpec (cj_sessionTarget j) (cj_payload j) = Inr ()) js"

text \<open>
  What a run may do: the clocks its sections read, the jobs that are edited or finished, whether
  the service restarts, and which ids a new job gets.
\<close>

definition call_allowed ::
  "(ms \<Rightarrow> bool) \<Rightarrow> (string \<Rightarrow> bool) \<Rightarrow> bool \<Rightarrow> (string \<Rightarrow> string list \<Rightarrow> bool) \<Rightarrow> cron_service \<Rightarrow> cron_call \<Rightarrow> bool" where
  "call_allowed clock touch may_clear fresh s call =
     (case call of
        CallStartClear now \<Rightarrow> may_clear
      | CallPlanCatchup now skip \<Rightarrow> clock now
      | CallApplyCatchup now plan outcomes \<Rightarrow> clock now \<and> list_all (\<lambda>r. touch (to_jobId r)) outcomes
      | CallStartFinish now \<Rightarrow> clock now
      | CallStatus now \<Rightarrow> clock now
      | CallList now includeDisabled \<Rightarrow> clock now
      | CallListPage nameCompare idCompare now opts \<Rightarrow> clock now
      | CallAdd now newId input \<Rightarrow>
          clock now \<and> fresh newId (map cj_id (jobs_of s)) \<and> fresh newId (map cj_id (sv_disk s))
      | CallUpdate now i patch \<Rightarrow> clock now \<and> touch i
      | CallRemove now i \<Rightarrow> clock now
      | CallTickCollect dueCheckNow now \<Rightarrow> clock dueCheckNow \<and> clock now
      | CallStartDue accepts startedAt job \<Rightarrow> clock startedAt
      | CallTickApply now outcomes \<Rightarrow> clock now \<and> list_all (\<lambda>r. touch (to_jobId r)) outcomes
      | CallPreflight now i force \<Rightarrow> clock now \<and> (touch i \<or> supported_in (jobs_of s) i \<and> supported_in (sv_disk s) i)
      | CallReserve accepts now i \<Rightarrow> clock now
      | CallFinish endedAt now force result prepared \<Rightarrow> clock now \<and> touch (pr_jobId prepared)
      | _ \<Rightarrow> True)"

subsection \<open>Keeping the identity of jobs\<close>

lemma run_steps_id:
  "(\<And>f j. f \<in> set fs \<Longrightarrow> cj_id (snd (f j)) = cj_id j) \<Longrightarrow> cj_id (snd (run_steps fs job)) = cj_id job"
proof (induction fs arbitrary: job)
  case (Cons f fs)
  then have "cj_id (snd (f job)) = cj_id job" and "\<And>j. cj_id (snd (run_steps fs j)) = cj_id j" by simp_all
  then show ?case by (cases "f job") (auto simp: run_steps_simps split: option.splits)
qed (simp add: run_steps_simps)

lemma step_ids [simp]:
  "(\<And>j. cj_id (f j) = cj_id j) \<Longrightarrow> cj_id (snd (pure_step f job)) = cj_id job"
  "cj_id (snd (fail_step msg job)) = cj_id job"
  "(\<And>v j. cj_id (snd (g v j)) = cj_id j) \<Longrightarrow> cj_id (snd (when_some x g job)) = cj_id job"
  "(\<And>b j. cj_id (h b j) = cj_id j) \<Longrightarrow> cj_id (snd (patch_bool v h job)) = cj_id job"
  by (auto simp: pure_step_def fail_step_def when_some_def patch_bool_def split: option.splits js_value.splits)

lemma assert_ids [simp]:
  "cj_id (snd (assertDeliverySupport env job)) = cj_id job"
  "cj_id (snd (assertFailureDestinationSupport env job)) = cj_id job"
  by (auto simp: assertDeliverySupport_def assertFailureDestinationSupport_def fail_step_def split: option.splits)

lemma try_step_id [simp]: "(\<And>v. cj_id (f v) = cj_id job) \<Longrightarrow> cj_id (snd (try_step r f job)) = cj_id job"
  by (auto simp: try_step_def split: sum.splits)

lemma applyJobPatch_id [simp]: "cj_id (snd (applyJobPatch env def patch job)) = cj_id job"
proof -
  have "cj_id (snd (f j)) = cj_id j" if "f \<in> set (patch_steps patch)" for f j
    using that by (auto simp: patch_steps_def)
  moreover have "cj_id (snd (assert_job env def j)) = cj_id j" for j
    unfolding assert_job_def by (rule run_steps_id) auto
  ultimately show ?thesis
    unfolding applyJobPatch_def by (intro run_steps_id) auto
qed

end
