(* ===== verification/Cron_Store.thy ===== *)
theory Cron_Store
  imports Cron_Machine
begin

text \<open>
  What the sections of the cron service keep of the stored jobs, in memory and in the file:
  the contract \<open>store_property\<close> asks for what the small updates keep, and gives the
  invariance along every run. It is interpreted twice: for the distinctness of the job ids,
  and for a job that is being run.
\<close>

subsection \<open>The contract\<close>

definition stored :: "(cron_job list \<Rightarrow> bool) \<Rightarrow> cron_service \<Rightarrow> bool" where
  "stored P s = (P (jobs_of s) \<and> P (sv_disk s))"

definition service_pass :: "cron_deps \<Rightarrow> job_pass \<Rightarrow> bool" where
  "service_pass deps pass =
     (pass = recompute_due_or_missing deps \<or> (\<exists>b. pass = recompute_missing_or_executed deps b))"

lemma tick_job_spec:
  assumes "service_pass deps pass"
  shows "cj_sessionTarget (fst (tick_job pass job n)) = cj_sessionTarget job"
    "cj_payload (fst (tick_job pass job n)) = cj_payload job" "cj_id (fst (tick_job pass job n)) = cj_id job"
proof -
  have base: "cj_sessionTarget (fst (normalizeJobTickState j n)) = cj_sessionTarget j"
    "cj_payload (fst (normalizeJobTickState j n)) = cj_payload j" "cj_id (fst (normalizeJobTickState j n)) = cj_id j" for j
    by (auto simp: normalizeJobTickState_def Let_def split: cron_schedule.split)
  have step: "cj_sessionTarget (fst (recomputeJobNextRunAtMs deps j n)) = cj_sessionTarget j"
    "cj_payload (fst (recomputeJobNextRunAtMs deps j n)) = cj_payload j"
    "cj_id (fst (recomputeJobNextRunAtMs deps j n)) = cj_id j" for j
    by (auto simp: recomputeJobNextRunAtMs_def recordScheduleComputeError_def Let_def case_prod_unfold split: sum.split)
  have "cj_sessionTarget (fst (pass j n)) = cj_sessionTarget j" "cj_payload (fst (pass j n)) = cj_payload j"
    "cj_id (fst (pass j n)) = cj_id j" for j
    using assms step [of j]
    by (auto simp: service_pass_def recompute_due_or_missing_def recompute_missing_or_executed_def Let_def split: option.split)
  with base show "cj_sessionTarget (fst (tick_job pass job n)) = cj_sessionTarget job"
    "cj_payload (fst (tick_job pass job n)) = cj_payload job" "cj_id (fst (tick_job pass job n)) = cj_id job"
    by (simp_all add: tick_job_def case_prod_unfold Let_def)
qed

lemma supported_in_maintenance:
  "supported_in (jobs_of s) i \<Longrightarrow> supported_in (jobs_of (fst (recomputeNextRunsForMaintenance deps b n s))) i"
proof -
  have "service_pass deps (recompute_missing_or_executed deps b)" by (auto simp: service_pass_def)
  note [simp] = tick_job_spec [OF this]
  show "supported_in (jobs_of s) i \<Longrightarrow> supported_in (jobs_of (fst (recomputeNextRunsForMaintenance deps b n s))) i"
    by (cases "sv_store s")
      (auto simp: supported_in_def recomputeNextRunsForMaintenance_def walkSchedulableJobs_def walk_jobs_map jobs_of_def
        list_all_iff)
qed

lemma supported_in_load:
  "supported_in (jobs_of s) i \<Longrightarrow> supported_in (sv_disk s) i \<Longrightarrow> supported_in (jobs_of (ensureLoaded deps force True n s)) i"
  by (simp add: ensureLoaded_def reload_store_def jobs_of_def [of "s\<lparr>sv_store := _\<rparr>"])

lemma supported_in_find:
  "supported_in js i \<Longrightarrow> find_job i js = Some j \<Longrightarrow> assertSupportedJobSpec (cj_sessionTarget j) (cj_payload j) = Inr ()"
  using find_job_id [of i js j] by (auto simp: supported_in_def list_all_iff)

lemma update_job_found: "find_job i js = Some j \<Longrightarrow> update_job i (\<lambda>_. g j) js = update_job i g js"
  by (induction js) (auto simp: find_job_def split: if_splits)

locale store_property =
  fixes deps :: cron_deps
    and P :: "cron_job list \<Rightarrow> bool"
    and clock :: "ms \<Rightarrow> bool"
    and touch :: "string \<Rightarrow> bool"
    and may_clear :: bool
    and fresh :: "string \<Rightarrow> string list \<Rightarrow> bool"
  assumes P_nil: "P []"
    and P_walk: "P js \<Longrightarrow> clock n \<Longrightarrow> service_pass deps pass \<Longrightarrow> P (map (\<lambda>j. fst (tick_job pass j n)) js)"
    and P_filter: "P js \<Longrightarrow> P (filter (\<lambda>j. cj_id j \<noteq> i) js)"
    and P_update: "P js \<Longrightarrow> touch i \<Longrightarrow> (\<And>j. cj_id j = i \<Longrightarrow> cj_id (f j) = i) \<Longrightarrow> P (update_job i f js)"
    and P_mark: "P js \<Longrightarrow> clock n \<Longrightarrow> (\<And>st. st_runningAtMs (g st) = Some n) \<Longrightarrow> P (update_job i (set_state g) js)"
    and P_mark_all: "P js \<Longrightarrow> clock n \<Longrightarrow> P (mark_all n chosen js)"
    and P_state: "P js \<Longrightarrow> (\<And>st. st_runningAtMs (g st) = st_runningAtMs st) \<Longrightarrow> P (update_job i (set_state g) js)"
    and P_clear: "P js \<Longrightarrow> may_clear \<Longrightarrow> P (map clear_running js)"
    and P_add: "P js \<Longrightarrow> fresh (cj_id j) (map cj_id js) \<Longrightarrow> P (js @ [j])"
begin

lemma keep_base [simp, intro]:
  "stored P s \<Longrightarrow> stored P (persist s)" "stored P s \<Longrightarrow> stored P (reload_store s)"
  "stored P (do_effects es s) = stored P s" "stored P (do_effect e s) = stored P s"
  "stored P (emit_event ev s) = stored P s"
  "stored P (markCronJobActive i s) = stored P s" "stored P (clearCronJobActive i s) = stored P s"
  "stored P (armTimer deps n s) = stored P s" "stored P (armRunningRecheckTimer s) = stored P s"
  "stored P (warnIfDisabled deps s) = stored P s" "stored P (stopTimer s) = stored P s"
  "stored P (s\<lparr>sv_running := b\<rparr>) = stored P s"
  by (auto simp: stored_def persist_disk reload_store_def stopTimer_def jobs_of_def split: option.splits)

lemma keep_set_jobs [simp]: "stored P s \<Longrightarrow> stored P (set_jobs js s) = P js"
  by (simp add: stored_def)

lemma stored_jobs: "stored P s \<Longrightarrow> P (jobs_of s)"
  by (simp add: stored_def)

lemma keep_walk: "stored P s \<Longrightarrow> clock n \<Longrightarrow> service_pass deps pass \<Longrightarrow> stored P (fst (walkSchedulableJobs pass n s))"
  using P_walk [of "jobs_of s" n pass]
  by (cases "sv_store s") (auto simp: stored_def walkSchedulableJobs_def walk_jobs_map jobs_of_def)

lemma keep_recompute [simp, intro]:
  "stored P s \<Longrightarrow> clock n \<Longrightarrow> stored P (fst (recomputeNextRuns deps n s))"
  "stored P s \<Longrightarrow> clock n \<Longrightarrow> stored P (fst (recomputeNextRunsForMaintenance deps b n s))"
  unfolding recomputeNextRuns_def recomputeNextRunsForMaintenance_def
  by (rule keep_walk; auto simp: service_pass_def)+

lemma keep_load [simp, intro]:
  "stored P s \<Longrightarrow> clock n \<or> skip \<Longrightarrow> stored P (ensureLoaded deps force skip n s)"
  by (auto simp: ensureLoaded_def)

lemma keep_read [simp, intro]: "stored P s \<Longrightarrow> clock n \<Longrightarrow> stored P (ensureLoadedForRead deps n s)"
  by (auto simp: ensureLoadedForRead_def Let_def case_prod_unfold)

lemma keep_remove_job [simp, intro]: "stored P s \<Longrightarrow> stored P (remove_job i s)"
  using P_filter [of "jobs_of s" i] by (simp add: remove_job_def stored_def)

lemma keep_set_job: "stored P s \<Longrightarrow> touch (cj_id j) \<Longrightarrow> stored P (set_job j s)"
  using P_update [of "jobs_of s" "cj_id j" "\<lambda>_. j"] by (simp add: set_job_def stored_def)

lemma keep_outcome: "stored P s \<Longrightarrow> touch (to_jobId r) \<Longrightarrow> stored P (applyOutcomeToStoredJob deps n r s)"
  by (auto simp: applyOutcomeToStoredJob_def Let_def keep_set_job split: option.splits prod.splits
      dest!: applyJobResult_fields(1) find_job_id)

lemma keep_outcomes:
  "stored P s \<Longrightarrow> list_all (\<lambda>r. touch (to_jobId r)) rs \<Longrightarrow> stored P (fold (applyOutcomeToStoredJob deps n) rs s)"
  by (induction rs arbitrary: s) (auto intro: keep_outcome)

lemma keep_defer [simp]: "P js \<Longrightarrow> P (defer_jobs ids base stagger offset js)"
proof (induction ids arbitrary: offset js)
  case (Cons i ids)
  then show ?case
    using P_state [of js "\<lambda>st. st\<lparr>st_nextRunAtMs := Some (base + offset)\<rparr>" i] by (simp split: option.split)
qed simp

lemma keep_mark: "P js \<Longrightarrow> clock n \<Longrightarrow> find_job i js = Some j \<Longrightarrow> P (update_job i (\<lambda>_. mark_running n j) js)"
  using update_job_found [of i js j "mark_running n"] P_mark [of js n] by (auto simp: mark_running_def [abs_def])

subsection \<open>The sections\<close>

lemma keep_startup:
  "stored P s \<Longrightarrow> may_clear \<Longrightarrow> stored P (snd (start_clear deps n s))"
  "stored P s \<Longrightarrow> clock n \<Longrightarrow> stored P (snd (planStartupCatchup deps n skip s))"
  "stored P s \<Longrightarrow> stored P (snd (runStartupCatchupCandidate execute startedAt accepts job ([], s)))"
  "stored P s \<Longrightarrow> clock n \<Longrightarrow> list_all (\<lambda>r. touch (to_jobId r)) outcomes \<Longrightarrow>
     stored P (applyStartupCatchupOutcomes deps n plan outcomes s)"
  "stored P s \<Longrightarrow> clock n \<Longrightarrow> stored P (start_finish deps n s)"
proof -
  assume s: "stored P s"
  then have load: "stored P (ensureLoaded deps False True n s)" by simp
  then have js: "P (jobs_of (ensureLoaded deps False True n s))" by (simp add: stored_def)
  show "stored P (snd (start_clear deps n s))" if may_clear
    using P_clear [OF js that] load by (simp add: start_clear_def Let_def)
  show "stored P (snd (planStartupCatchup deps n skip s))" if "clock n"
    using P_mark_all [OF js that] load by (auto simp: planStartupCatchup_def Let_def)
  show "stored P (snd (runStartupCatchupCandidate execute startedAt accepts job ([], s)))"
    using s by (simp add: runStartupCatchupCandidate_def case_prod_unfold Let_def)
  show "stored P (applyStartupCatchupOutcomes deps n plan outcomes s)"
    if c: "clock n" and t: "list_all (\<lambda>r. touch (to_jobId r)) outcomes"
  proof -
    have "stored P (fold (applyOutcomeToStoredJob deps n) outcomes (ensureLoaded deps False True n s))"
      by (rule keep_outcomes [OF load t])
    then show ?thesis using c by (simp add: applyStartupCatchupOutcomes_def Let_def stored_jobs)
  qed
  show "stored P (start_finish deps n s)" if "clock n"
    using load that by (simp add: start_finish_def Let_def case_prod_unfold)
qed

lemma keep_reads:
  assumes s: "stored P s" and c: "clock n"
  shows "stored P (snd (status deps n s))" "stored P (snd (list_jobs deps n includeDisabled s))"
    "stored P (snd (listPage nameCompare idCompare deps n opts s))"
  using assms by (simp_all add: status_def list_jobs_def listPage_def Let_def)

lemma ensureLoaded_ids:
  "map cj_id (jobs_of (ensureLoaded deps force skip n s)) = map cj_id (jobs_of s) \<or>
   map cj_id (jobs_of (ensureLoaded deps force skip n s)) = map cj_id (sv_disk s)"
  by (simp add: ensureLoaded_def reload_store_def jobs_of_def [of "s\<lparr>sv_store := _\<rparr>"])

lemma keep_add:
  assumes s: "stored P s" and c: "clock n"
    and f: "fresh i (map cj_id (jobs_of s))" "fresh i (map cj_id (sv_disk s))"
  shows "stored P (snd (add deps n i input s))"
proof -
  let ?s1 = "ensureLoaded deps False False n (warnIfDisabled deps s)"
  have s1: "stored P ?s1" using s c by simp
  have "fresh i (map cj_id (jobs_of ?s1))"
    using ensureLoaded_ids [of False False n "warnIfDisabled deps s"] f by auto
  then have "stored P (set_jobs (jobs_of ?s1 @ [j]) ?s1)" if "cj_id j = i" for j
    using P_add [of "jobs_of ?s1" j] s1 that by (simp add: stored_def)
  then show ?thesis using s1 c
    by (auto simp: add_def Let_def createJob_valid(3) split: sum.split)
qed

lemma keep_update:
  assumes s: "stored P s" and c: "clock n" and t: "touch i"
  shows "stored P (snd (update deps n i patch s))"
proof -
  let ?s1 = "ensureLoaded deps False True n (warnIfDisabled deps s)"
  have s1: "stored P ?s1" using s by simp
  have anchor: "cj_id (repair_anchor n patch j) = cj_id j" for j
    by (simp add: repair_anchor_def Let_def split: cron_schedule.split)
  have sched: "cj_id j' = cj_id j" if "update_schedule deps n patch j = Inr j'" for j j'
    using that by (auto simp: update_schedule_def reschedule_def split: if_splits sum.splits)
  show ?thesis
  proof (cases "find_job i (jobs_of ?s1)")
    case None
    then show ?thesis using s1 by (simp add: update_def Let_def findJobOrThrow_def throw_error_def)
  next
    case (Some job)
    obtain e job' where p: "applyJobPatch (dp_env deps) (dp_defaultAgentId deps) patch job = (e, job')" by force
    then have i: "cj_id job' = i"
      using applyJobPatch_id [of "dp_env deps" "dp_defaultAgentId deps" patch job] find_job_id [OF Some] by simp
    have set: "stored P (set_job j ?s1)" if "cj_id j = i" for j
      using keep_set_job [OF s1, of j] that t by simp
    show ?thesis
      using Some p i by (auto simp: update_def Let_def findJobOrThrow_def anchor set sched split: option.split sum.split)
  qed
qed

lemma keep_remove: "stored P s \<Longrightarrow> clock n \<Longrightarrow> stored P (snd (remove deps n i s))"
  using P_filter [of "jobs_of (ensureLoaded deps False False n (warnIfDisabled deps s))" i]
    keep_load [of "warnIfDisabled deps s" n False False]
  by (auto simp: remove_def Let_def stored_def [of P "ensureLoaded deps False False n (warnIfDisabled deps s)"])

lemma keep_tick:
  "stored P s \<Longrightarrow> stored P (snd (tick_begin s))"
  "stored P s \<Longrightarrow> stored P (tick_end deps n s)"
  by (simp_all add: tick_begin_def tick_end_def)

lemma keep_tick_collect:
  assumes s: "stored P s" and c: "clock d" "clock n"
  shows "stored P (snd (tick_collect deps d n s))"
proof -
  have load: "stored P (ensureLoaded deps True True d s)" using s by simp
  then have "P (mark_all n js (jobs_of (ensureLoaded deps True True d s)))" for js
    using P_mark_all c(2) by (simp add: stored_def)
  then show ?thesis using load c by (simp add: tick_collect_def Let_def case_prod_unfold)
qed

lemma keep_start_due: "stored P s \<Longrightarrow> clock t \<Longrightarrow> stored P (snd (start_due_job accepts t job s))"
  using P_mark [of "jobs_of s" t "\<lambda>st. st\<lparr>st_runningAtMs := Some t\<rparr>" "cj_id job"]
  by (simp add: start_due_job_def Let_def case_prod_unfold stored_def [of P s])

lemma keep_tick_apply:
  assumes "stored P s" "clock n" "list_all (\<lambda>r. touch (to_jobId r)) rs"
  shows "stored P (tick_apply deps n rs s)"
  using assms keep_outcomes [OF _ assms(3), of "ensureLoaded deps True True n s"]
  by (simp add: tick_apply_def Let_def)

lemma keep_preflight:
  assumes s: "stored P s" and c: "clock n"
    and t: "touch i \<or> supported_in (jobs_of s) i \<and> supported_in (sv_disk s) i"
  shows "stored P (snd (inspectManualRunPreflight deps n i force s))"
proof -
  let ?s1 = "fst (recomputeNextRunsForMaintenance deps False n (ensureLoaded deps False True n (warnIfDisabled deps s)))"
  have s1: "stored P ?s1" using s c by simp
  have "stored P (skipInvalidPersistedManualRun deps n force e job ?s1)" if "cj_id job = i" "touch i" for e job
    using keep_set_job [OF s1] that c
    by (auto simp: skipInvalidPersistedManualRun_def Let_def split: prod.split dest!: applyJobResult_fields(1))
  moreover have "touch i \<or> (\<forall>job. find_job i (jobs_of ?s1) = Some job \<longrightarrow>
      assertSupportedJobSpec (cj_sessionTarget job) (cj_payload job) = Inr ())"
    using t supported_in_load [of "warnIfDisabled deps s" i] supported_in_maintenance supported_in_find
    by (metis warnIfDisabled_fields(2,3))
  ultimately show ?thesis using s1
    by (auto simp: inspectManualRunPreflight_def Let_def findJobOrThrow_def throw_error_def
        split: option.split sum.split dest: find_job_id)
qed

lemma keep_reserve:
  assumes s: "stored P s" and c: "clock n"
  shows "stored P (snd (reserveManualRun accepts n i s))"
proof (cases "find_job i (jobs_of s)")
  case (Some job)
  then have "stored P (set_job (mark_running n job) s)"
    using keep_mark [OF stored_jobs [OF s] c Some] find_job_id [OF Some] s
    by (simp add: set_job_def mark_running_def)
  then show ?thesis using Some s
    by (simp add: reserveManualRun_def findJobOrThrow_def Let_def case_prod_unfold)
qed (simp add: s reserveManualRun_def findJobOrThrow_def throw_error_def)

lemma keep_merge:
  "stored P s \<Longrightarrow> touch i \<Longrightarrow> stored P (mergeManualRunSnapshotAfterReload i snapshot removed s)"
  by (auto simp: mergeManualRunSnapshotAfterReload_def stored_jobs P_filter P_update split: option.split)

lemma keep_finish:
  assumes s: "stored P s" and c: "clock n" and t: "touch (pr_jobId prepared)"
  shows "stored P (finishPreparedManualRun deps e n force result prepared s)"
proof -
  let ?s1 = "ensureLoaded deps False True n
    (do_effects (tryFinishManualTaskRun (pr_taskRunId prepared) (run_outcome result) e) s)"
  have s1: "stored P ?s1" using s by simp
  show ?thesis
  proof (cases "find_job (pr_jobId prepared) (jobs_of ?s1)")
    case (Some job)
    let ?r = "\<lparr>rs_status = kr_status (run_outcome result), rs_error = kr_error (run_outcome result),
      rs_delivered = kr_delivered (run_outcome result), rs_startedAt = pr_startedAt prepared, rs_endedAt = e\<rparr>"
    obtain job' effects del where r: "applyJobResult deps n force job ?r = (job', effects, del)"
      using prod_cases3 by blast
    then have "stored P (set_job job' ?s1)"
      using keep_set_job [OF s1, of job'] applyJobResult_fields(1) [OF r] find_job_id [OF Some] t by simp
    then show ?thesis using Some r c t
      by (simp add: finishPreparedManualRun_def Let_def keep_merge)
  qed (use s1 in \<open>simp add: finishPreparedManualRun_def Let_def\<close>)
qed

lemma keep_wake: "stored P s \<Longrightarrow> stored P (snd (wake mode text s))"
  by (simp add: wake_def Let_def)

lemma keep_step: "stored P s \<Longrightarrow> call_allowed clock touch may_clear fresh s call \<Longrightarrow> stored P (cron_step deps s call)"
  by (cases call)
    (simp_all add: cron_step_def call_allowed_def keep_startup keep_reads keep_add keep_update keep_remove keep_tick
      keep_tick_collect keep_start_due keep_tick_apply keep_preflight keep_reserve keep_finish keep_wake stop_def)

end

sublocale store_property \<subseteq> machine: step_machine "cron_step deps" "call_allowed clock touch may_clear fresh" "stored P"
  by unfold_locales (rule keep_step)

end
