(* ===== verification/Cron_Invariants.thy ===== *)
theory Cron_Invariants
  imports Cron_Store
begin

text \<open>
  Invariants of the cron service along arbitrary interleavings of its sections: the ids of the
  stored jobs are distinct, and a job that is being run stays marked, so that no tick starts it
  a second time. Both are instances of the contract \<open>store_property\<close>.
\<close>

subsection \<open>Distinct ids\<close>

definition distinct_ids :: "cron_job list \<Rightarrow> bool" where
  "distinct_ids js = distinct (map cj_id js)"

lemma map_id_keep: "(\<And>j. cj_id (f j) = cj_id j) \<Longrightarrow> map cj_id (map f js) = map cj_id js"
  by simp

lemma update_job_keeps: "(\<And>j. cj_id j = i \<Longrightarrow> cj_id (f j) = i) \<Longrightarrow> map cj_id (update_job i f js) = map cj_id js"
  by (induction js) auto

interpretation ids: store_property deps distinct_ids "\<lambda>_. True" "\<lambda>_. True" True "\<lambda>i known. i \<notin> set known" for deps
proof
  fix js n pass assume "distinct_ids js" "service_pass deps pass"
  then show "distinct_ids (map (\<lambda>j. fst (tick_job pass j n)) js)"
    by (simp add: distinct_ids_def comp_def tick_job_spec(3))
qed (auto simp: distinct_ids_def update_job_keeps distinct_map_filter comp_def clear_running_def)

text \<open>
  The states of the service: it starts from a file with distinct ids, and new jobs get ids that
  are not in use (\<open>crypto.randomUUID()\<close>).
\<close>

definition fresh_call :: "cron_service \<Rightarrow> cron_call \<Rightarrow> bool" where
  "fresh_call = call_allowed (\<lambda>_. True) (\<lambda>_. True) True (\<lambda>i known. i \<notin> set known)"

inductive cron_reachable :: "cron_deps \<Rightarrow> cron_service \<Rightarrow> bool" for deps where
  reach_init: "distinct_ids disk \<Longrightarrow> cron_reachable deps (createCronServiceState disk)"
| reach_step: "cron_reachable deps s \<Longrightarrow> fresh_call s call \<Longrightarrow> cron_reachable deps (cron_step deps s call)"

inductive_cases cron_reachable_cases: "cron_reachable deps s"

lemma reachable_ids: "cron_reachable deps s \<Longrightarrow> stored distinct_ids s"
proof (induction rule: cron_reachable.induct)
  case (reach_init disk)
  then show ?case by (simp add: stored_def createCronServiceState_def jobs_of_def distinct_ids_def)
next
  case (reach_step s call)
  then show ?case using ids.machine.inv_step [of s call] by (simp add: fresh_call_def)
qed

lemma reachable_run:
  "cron_reachable deps s \<Longrightarrow> allowed_run (cron_step deps) fresh_call s calls \<Longrightarrow>
   cron_reachable deps (foldl (cron_step deps) s calls)"
  by (induction calls arbitrary: s) (auto intro: reach_step)

subsection \<open>A job that is being run\<close>

text \<open>Every copy of the job is marked as running since \<open>t0\<close> or later, or is disabled.\<close>

definition held_job :: "ms \<Rightarrow> cron_job \<Rightarrow> bool" where
  "held_job t0 j = (cj_enabled j \<longrightarrow> (case st_runningAtMs (cj_state j) of None \<Rightarrow> False | Some r \<Rightarrow> t0 \<le> r))"

definition held :: "string \<Rightarrow> ms \<Rightarrow> cron_job list \<Rightarrow> bool" where
  "held i t0 js = list_all (\<lambda>j. cj_id j = i \<longrightarrow> held_job t0 j) js"

definition within_run :: "ms \<Rightarrow> ms \<Rightarrow> bool" where
  "within_run t0 n = (t0 \<le> n \<and> n \<le> t0 + STUCK_RUN_MS)"

lemma recompute_running:
  "st_runningAtMs (cj_state (fst (recomputeJobNextRunAtMs deps j n))) = st_runningAtMs (cj_state j)"
  by (simp add: recomputeJobNextRunAtMs_def Let_def case_prod_unfold split: sum.split)

lemma recompute_held: "held_job t0 j \<Longrightarrow> held_job t0 (fst (recomputeJobNextRunAtMs deps j n))"
  using recomputeJobNextRunAtMs_facts(2) [of deps j n] by (simp add: held_job_def recompute_running)

lemma pass_held: "service_pass deps pass \<Longrightarrow> held_job t0 j \<Longrightarrow> held_job t0 (fst (pass j n))"
  by (auto simp: service_pass_def recompute_due_or_missing_def recompute_missing_or_executed_def Let_def recompute_held
      split: option.split)

lemma normalize_held: "within_run t0 n \<Longrightarrow> held_job t0 j \<Longrightarrow> held_job t0 (fst (normalizeJobTickState j n))"
  by (auto simp: held_job_def normalizeJobTickState_def Let_def isJobEnabled_def within_run_def
      split: cron_schedule.splits option.splits)

lemma tick_held: "service_pass deps pass \<Longrightarrow> within_run t0 n \<Longrightarrow> held_job t0 j \<Longrightarrow> held_job t0 (fst (tick_job pass j n))"
  using normalize_held [of t0 n j] pass_held by (auto simp: tick_job_def case_prod_unfold Let_def)

lemma mark_held: "t0 \<le> n \<Longrightarrow> st_runningAtMs (g (cj_state j)) = Some n \<Longrightarrow> held_job t0 (set_state g j)"
  by (simp add: held_job_def)

lemma held_update:
  "held i t0 js \<Longrightarrow> (\<And>j. cj_id j = k \<Longrightarrow> cj_id (f j) = k) \<Longrightarrow> (\<And>j. cj_id j = i \<Longrightarrow> k = i \<Longrightarrow> held_job t0 j \<Longrightarrow> held_job t0 (f j))
   \<Longrightarrow> held i t0 (update_job k f js)"
  by (induction js) (auto simp: held_def)

interpretation held: store_property deps "held i t0" "within_run t0" "\<lambda>k. k \<noteq> i" False "\<lambda>k _. k \<noteq> i" for deps i t0
proof
  fix js n pass assume "held i t0 js" "within_run t0 n" "service_pass deps pass"
  then show "held i t0 (map (\<lambda>j. fst (tick_job pass j n)) js)"
    by (auto simp: held_def list_all_iff tick_job_spec(3) tick_held)
next
  fix js n k and g :: "job_state \<Rightarrow> job_state"
  assume "held i t0 js" "within_run t0 n" "\<And>st. st_runningAtMs (g st) = Some n"
  then show "held i t0 (update_job k (set_state g) js)"
    by (intro held_update) (auto simp: within_run_def mark_held)
next
  fix js n chosen assume "held i t0 js" "within_run t0 n"
  then show "held i t0 (mark_all n chosen js)"
    by (auto simp: held_def list_all_iff mark_all_def mark_running_def within_run_def mark_held)
next
  fix js k and f :: "cron_job \<Rightarrow> cron_job"
  assume "held i t0 js" "k \<noteq> i" "\<And>j. cj_id j = k \<Longrightarrow> cj_id (f j) = k"
  then show "held i t0 (update_job k f js)" by (intro held_update) auto
next
  fix js k and g :: "job_state \<Rightarrow> job_state"
  assume "held i t0 js" "\<And>st. st_runningAtMs (g st) = st_runningAtMs st"
  then show "held i t0 (update_job k (set_state g) js)"
    by (intro held_update) (auto simp: held_job_def)
qed (auto simp: held_def list_all_iff)

text \<open>A tick never collects a job that is held.\<close>

lemma held_not_runnable: "held_job t0 j \<Longrightarrow> \<not> isRunnableJob env skip skipAt missed j n"
  by (auto simp: held_job_def isRunnableJob_def Let_def isJobEnabled_def split: option.splits)

lemma collect_not_held:
  assumes "stored (held i t0) s"
  shows "\<forall>j \<in> set (fst (tick_collect deps d n s)). cj_id j \<noteq> i"
proof -
  have "held i t0 (jobs_of (ensureLoaded deps True True d s))"
    using assms held.stored_jobs [OF held.keep_load [OF assms, of d True deps True]] by blast
  then have "cj_id j \<noteq> i" if "j \<in> set (collectRunnableJobs env d {} False False (ensureLoaded deps True True d s))" for j env
    using that held_not_runnable by (auto simp: collectRunnableJobs_def held_def list_all_iff)
  then show ?thesis
    by (auto simp: tick_collect_def Let_def case_prod_unfold mark_running_def)
qed

lemma collected_held:
  assumes "j \<in> set (fst (tick_collect deps d n s))"
  shows "stored (held (cj_id j) n) (snd (tick_collect deps d n s)) \<or>
    (\<exists>k \<in> set (sv_disk s). cj_id k = cj_id j \<and> cj_enabled k \<and> \<not> isRunnableJob (dp_env deps) {} False False k d)"
proof -
  let ?s = "ensureLoaded deps True True d s"
  let ?due = "collectRunnableJobs (dp_env deps) d {} False False ?s"
  have disk: "jobs_of ?s = sv_disk s" by (simp add: ensureLoaded_def reload_store_def jobs_of_def)
  have due: "?due \<noteq> []" using assms by (auto simp: tick_collect_def Let_def case_prod_unfold)
  have "held (cj_id j) n (mark_all n ?due (sv_disk s))"
    if "\<not> (\<exists>k \<in> set (sv_disk s). cj_id k = cj_id j \<and> cj_enabled k \<and> \<not> isRunnableJob (dp_env deps) {} False False k d)"
    using that
    by (auto simp: held_def list_all_iff mark_all_def mark_running_def mark_held collectRunnableJobs_def disk held_job_def)
  then show ?thesis
    using due disk by (auto simp: tick_collect_def Let_def stored_def persist_disk)
qed

end
