(* ===== verification/Cron_Samples.thy ===== *)
theory Cron_Samples
  imports Cron_Invariants
begin

text \<open>
  Concrete values for the witnesses of the properties: an environment whose cron library
  fires on the hour, dependencies with the defaults, and jobs of each kind of schedule.
\<close>

definition hourly_env :: cron_env where
  "hourly_env =
     \<lparr>ce_cron_new = (\<lambda>expr tz. if expr = ''bad'' then Inl ''TypeError: bad'' else Inr ()),
      ce_next_run = (\<lambda>expr tz n. Inr (DateMs ((n div 3600000 + 1) * 3600000))),
      ce_previous_run = (\<lambda>expr tz n. Inr (DateMs ((n - 1) div 3600000 * 3600000))),
      ce_date_parse = (\<lambda>_. None), ce_local_tz = ''UTC'', ce_sha256_u32 = (\<lambda>_. 7),
      ce_url_protocol = (\<lambda>s. if prefix ''https://'' s then Some ''https:'' else None),
      ce_failover_reason = (\<lambda>_. None)\<rparr>"

definition plain_deps :: cron_deps where
  "plain_deps =
     \<lparr>dp_env = hourly_env, dp_cronEnabled = True, dp_defaultAgentId = None, dp_retry = None, dp_failureAlert = None,
      dp_maxConcurrentRuns = None, dp_missedJobStaggerMs = None, dp_maxMissedJobsPerRestart = None,
      dp_hasAlertSender = False, dp_hasHeartbeatRunner = False, dp_busyMaxWaitMs = None, dp_busyRetryDelayMs = None\<rparr>"

definition sample_job :: "string \<Rightarrow> cron_schedule \<Rightarrow> job_state \<Rightarrow> cron_job" where
  "sample_job i schedule st =
     \<lparr>cj_id = i, cj_agentId = None, cj_sessionKey = None, cj_name = ''job'', cj_description = None, cj_enabled = True,
      cj_deleteAfterRun = None, cj_createdAtMs = 0, cj_updatedAtMs = 0, cj_schedule = schedule,
      cj_sessionTarget = ''main'', cj_wakeMode = WakeNow, cj_payload = SystemEventPayload ''tick'',
      cj_delivery = None, cj_failureAlert = AlertUnset, cj_state = st\<rparr>"

definition every_minute :: cron_schedule where
  "every_minute = SchedEvery (JNum (js_int 60000)) (JNum (js_int 0))"

definition hourly :: cron_schedule where
  "hourly = SchedCron (JStr ''17 * * * *'') JUndef JUndef JUndef"

definition one_shot :: cron_schedule where
  "one_shot = SchedAt JUndef (LegacyMs 5000)"

definition due_at :: "ms \<Rightarrow> job_state" where
  "due_at t = empty_job_state\<lparr>st_nextRunAtMs := Some t\<rparr>"

lemmas sample_defs = hourly_env_def plain_deps_def sample_job_def every_minute_def hourly_def one_shot_def due_at_def
  empty_job_state_def

definition loaded_service :: "cron_job list \<Rightarrow> cron_service" where
  "loaded_service js = (createCronServiceState js)\<lparr>sv_store := Some js\<rparr>"

lemma loaded_fields [simp]:
  "sv_store (loaded_service js) = Some js" "sv_disk (loaded_service js) = js" "jobs_of (loaded_service js) = js"
  "sv_running (loaded_service js) = False" "sv_out (loaded_service js) = []"
  by (simp_all add: loaded_service_def createCronServiceState_def jobs_of_def)

lemma sample_job_fields [simp]:
  "cj_id (sample_job i s st) = i" "cj_enabled (sample_job i s st)" "cj_schedule (sample_job i s st) = s"
  "cj_state (sample_job i s st) = st" "cj_payload (sample_job i s st) = SystemEventPayload ''tick''"
  "cj_sessionTarget (sample_job i s st) = ''main''" "cj_deleteAfterRun (sample_job i s st) = None"
  by (simp_all add: sample_job_def)

lemma due_at_fields [simp]:
  "st_nextRunAtMs (due_at t) = Some t" "st_runningAtMs (due_at t) = None" "st_lastRunAtMs (due_at t) = None"
  "st_lastStatus (due_at t) = None" "st_consecutiveErrors (due_at t) = None"
  by (simp_all add: due_at_def empty_job_state_def)

lemma sample_kinds [simp]:
  "\<not> is_at every_minute" "is_every every_minute" "\<not> is_cron every_minute"
  "\<not> is_at hourly" "\<not> is_every hourly" "is_cron hourly" "is_at one_shot" "\<not> is_every one_shot" "\<not> is_cron one_shot"
  by (simp_all add: every_minute_def hourly_def one_shot_def)

definition retarget_patch :: "string \<Rightarrow> cron_patch" where
  "retarget_patch target =
     \<lparr>pa_name = None, pa_description = None, pa_enabled = JUndef, pa_deleteAfterRun = JUndef, pa_schedule = None,
      pa_sessionTarget = Some target, pa_wakeMode = None, pa_payload = None, pa_delivery = None, pa_failureAlert = None,
      pa_state = None, pa_agentId = None, pa_sessionKey = None\<rparr>"

definition sample_input :: "js_value \<Rightarrow> cron_create" where
  "sample_input name =
     \<lparr>cc_name = name, cc_description = JUndef, cc_agentId = JUndef, cc_sessionKey = JUndef, cc_enabled = JUndef,
      cc_deleteAfterRun = JUndef, cc_schedule = every_minute, cc_sessionTarget = ''main'', cc_wakeMode = WakeNow,
      cc_payload = SystemEventPayload ''tick'', cc_delivery = None, cc_failureAlert = AlertUnset, cc_state = None\<rparr>"

lemma retarget_sample:
  "applyJobPatch env def (retarget_patch ''isolated'') (sample_job i schedule st) =
     (Some ''Error: isolated/current/session cron jobs require payload.kind=\"agentTurn\"'',
      (sample_job i schedule st)\<lparr>cj_sessionTarget := ''isolated''\<rparr>)"
  by (simp add: applyJobPatch_def patch_steps_def run_steps_simps retarget_patch_def when_some_def patch_bool_def
      pure_step_def assert_job_def assertSupportedJobSpec_def is_isolated_like_def throw_error_def try_step_def sample_job_def)

end
