(* ===== verification/Cron_Schedule_Properties.thy ===== *)
theory Cron_Schedule_Properties
  imports Cron_Samples
begin

text \<open>
  What the scheduling of the cron service promises: where the next runs lie, how runs after
  errors are delayed, and that the timer is armed in time for the earliest of them.
\<close>

subsection \<open>The next run\<close>

text \<open>C35: The four attempts of the staggered search amount to one shifted lookup: a staggered
  job runs exactly its offset after the run of its expression that follows the clock less the
  offset.\<close>

theorem staggered_is_shift:
  "computeStaggeredCronNextRunAtMs env i s n =
     (let offset = resolveStableCronOffsetMs env i (resolveCronStaggerMs s) in
      if is_cron s \<and> 0 < offset then shifted_by offset (computeNextRunAtMs env s (max 0 (n - offset)))
      else computeNextRunAtMs env s n)"
proof (cases "is_cron s")
  case True
  then have "staggered_next_loop (computeNextRunAtMs env s) offset n (Suc 3) (max 0 (n - offset)) =
      shifted_by offset (computeNextRunAtMs env s (max 0 (n - offset)))" if "0 < offset" for offset
    using cron_runs.next_loop_first [where s = s and env = env and n = n and k = 3, OF that] by simp
  with True show ?thesis by (simp add: computeStaggeredCronNextRunAtMs_def Let_def del: staggered_next_loop.simps)
qed (simp add: computeStaggeredCronNextRunAtMs_def)

text \<open>The next run of an enabled recurring job is never in the past, and that of a cron
  job is strictly in the future.\<close>

theorem job_next_run_ahead:
  assumes "computeJobNextRunAtMs env job n = Inr (Some t)" "\<not> is_at (cj_schedule job)"
  shows "n \<le> t \<and> cj_enabled job \<and> (is_every (cj_schedule job) \<or> n < t)"
proof -
  have "cj_enabled job" using assms(1) by (cases "cj_enabled job") simp_all
  then show ?thesis
    using assms computeJobNextRunAtMs_cron_ahead [of job env n t] computeJobNextRunAtMs_every_ahead [of job env n t]
    by (cases "cj_schedule job") force+
qed

theorem job_next_run_ahead_witness: "(90000 :: ms) \<le> 120000 \<and> cj_enabled (sample_job ''a'' every_minute empty_job_state)"
proof -
  have "computeJobNextRunAtMs hourly_env (sample_job ''a'' every_minute empty_job_state) 90000 = Inr (Some 120000)"
    by (simp add: computeJobNextRunAtMs_def isJobEnabled_def every_minute_def coerceFiniteScheduleNumber_def js_int_def
        computeNextRunAtMs_def nextEveryRun_def resolveEveryAnchorMs_def empty_job_state_def)
  from job_next_run_ahead [OF this] show ?thesis by simp
qed

text \<open>An interval schedule that has started fires at the nearest slot: a whole number of
  intervals after the anchor, not before the clock, and less than one interval after it.\<close>

theorem every_run_is_nearest_slot:
  assumes "every_anchor a n < n"
  shows "\<exists>k \<ge> 0. nextEveryRun e a n = every_anchor a n + k * every_interval e \<and>
    n \<le> nextEveryRun e a n \<and> nextEveryRun e a n < n + every_interval e"
  using nextEveryRun_slot [of e a n] nextEveryRun_ge [of n e a] nextEveryRun_near [OF assms, of e] by metis

theorem every_run_is_nearest_slot_witness:
  "nextEveryRun 1000 (Some 500) 2400 = 2500 \<and> (\<exists>k \<ge> 0. (2500 :: int) = 500 + k * 1000 \<and> 2400 \<le> (2500 :: int))"
proof -
  have "nextEveryRun 1000 (Some 500) 2400 = 2500" "every_anchor (Some 500) 2400 = 500" "every_interval 1000 = 1000"
    by (simp_all add: nextEveryRun_def every_anchor_def every_interval_def)
  with every_run_is_nearest_slot [of "Some 500" 2400 1000] show ?thesis by auto
qed

text \<open>A pass that only repairs the store leaves the pending run of an enabled job as it is,
  due or not: it is still there for the tick that has to run it.\<close>

theorem maintenance_keeps_pending_run:
  assumes "find_job i (jobs_of s) = Some job" "cj_enabled job" "st_nextRunAtMs (cj_state job) = Some t" "0 < t"
  shows "\<exists>job'. find_job i (jobs_of (fst (recomputeNextRunsForMaintenance deps False n s))) = Some job' \<and>
    cj_enabled job' \<and> st_nextRunAtMs (cj_state job') = Some t"
proof -
  let ?tick = "\<lambda>j. fst (tick_job (recompute_missing_or_executed deps False) j n)"
  have "sv_store s \<noteq> None" using assms(1) by (cases "sv_store s") (auto simp: jobs_of_def find_job_def js_or_else_def)
  then have "find_job i (jobs_of (fst (recomputeNextRunsForMaintenance deps False n s))) = Some (?tick job)"
    using assms(1) by (simp add: recomputeNextRunsForMaintenance_def missing_pass.walk_find)
  moreover have "cj_enabled (?tick job) \<and> st_nextRunAtMs (cj_state (?tick job)) = Some t"
    using assms(2-4)
    by (auto simp: tick_job_def normalizeJobTickState_def recompute_missing_or_executed_def hasScheduledNextRunAtMs_def
        isJobEnabled_def Let_def split: cron_schedule.split)
  ultimately show ?thesis by blast
qed

theorem maintenance_keeps_pending_run_witness:
  "\<exists>job'. find_job ''a'' (jobs_of (fst (recomputeNextRunsForMaintenance plain_deps False 900000
       (loaded_service [sample_job ''a'' every_minute (due_at 60000)])))) = Some job' \<and>
     cj_enabled job' \<and> st_nextRunAtMs (cj_state job') = Some 60000"
  by (rule maintenance_keeps_pending_run [where job = "sample_job ''a'' every_minute (due_at 60000)"])
    (simp_all add: find_job_def)

subsection \<open>After a run\<close>

text \<open>After a run of a recurring job the next one comes no earlier than half a minute
  after an error, and for a cron job no earlier than two seconds after any run.\<close>

theorem refire_gap:
  assumes "applyJobResult deps now preserve job r = (job', effects, del)" "\<not> is_at (cj_schedule job)"
    "st_nextRunAtMs (cj_state job') = Some t" "rs_status r = StatusError \<or> is_cron (cj_schedule job)"
  shows "rs_endedAt r + (if rs_status r = StatusError then 30000 else 2000) \<le> t"
proof -
  obtain job1 e where "settle_recurring deps preserve (st_lastRunAtMs (cj_state job)) job1 r = (job', e)"
    and "cj_schedule job1 = cj_schedule job"
    using applyJobResult_recurring [OF assms(1,2)] by blast
  with settle_recurring_gap [OF _ assms(3)] assms(4) show ?thesis by auto
qed

theorem refire_gap_witness:
  "\<exists>job' effects. applyJobResult plain_deps 0 False (sample_job ''a'' every_minute (due_at 60000))
      \<lparr>rs_status = StatusError, rs_error = Some ''boom'', rs_delivered = None, rs_startedAt = 60000, rs_endedAt = 61000\<rparr>
     = (job', effects, False) \<and> st_nextRunAtMs (cj_state job') = Some 120000 \<and> 61000 + (30000 :: ms) \<le> 120000"
proof -
  let ?job = "sample_job ''a'' every_minute (due_at 60000)"
  let ?r = "\<lparr>rs_status = StatusError, rs_error = Some ''boom'', rs_delivered = None, rs_startedAt = 60000, rs_endedAt = 61000\<rparr>"
  obtain job' effects del where r: "applyJobResult plain_deps 0 False ?job ?r = (job', effects, del)"
    using prod_cases3 by blast
  then have "st_nextRunAtMs (cj_state job') = Some 120000 \<and> \<not> del"
    by (auto simp: applyJobResult_def track_errors_def record_run_def settle_recurring_def natural_next_def Let_def
        resolveDeliveryState_def resolveFailureAlert_def computeJobNextRunAtMs_def isJobEnabled_def set_state_def
        coerceFiniteScheduleNumber_def js_int_def sample_defs errorBackoffMs_def DEFAULT_ERROR_BACKOFF_SCHEDULE_MS_def
        opt_field_def split: prod.splits)
  with r refire_gap [OF r, of 120000] show ?thesis by auto
qed

text \<open>The default backoff grows with the consecutive errors, from half a minute to an hour.\<close>

theorem backoff_grows:
  "errorBackoffMs c DEFAULT_ERROR_BACKOFF_SCHEDULE_MS \<le>
     errorBackoffMs (c + int k) DEFAULT_ERROR_BACKOFF_SCHEDULE_MS \<and>
   errorBackoffMs c DEFAULT_ERROR_BACKOFF_SCHEDULE_MS \<in> {30000..3600000} \<and>
   errorBackoffMs 1 DEFAULT_ERROR_BACKOFF_SCHEDULE_MS = 30000 \<and>
   errorBackoffMs (5 + int k) DEFAULT_ERROR_BACKOFF_SCHEDULE_MS = 3600000"
  using errorBackoffMs_mono [of DEFAULT_ERROR_BACKOFF_SCHEDULE_MS c "c + int k"] errorBackoffMs_default [of c]
  by (simp add: DEFAULT_ERROR_BACKOFF_SCHEDULE_MS_def errorBackoffMs_def)

text \<open>A one-shot job that failed is tried again only after a transient error and while its
  consecutive errors do not exceed the limit; in every other case it is disabled for good.\<close>

theorem one_shot_settles:
  assumes "applyJobResult deps now preserve job r = (job', effects, False)" "is_at (cj_schedule job)"
  shows "(if rs_status r = StatusError \<and> isTransientCronError (rs_error r) (rr_retryOn (resolveRetryConfig (dp_retry deps))) \<and>
           js_or_else (st_consecutiveErrors (cj_state job)) 0 < rr_maxAttempts (resolveRetryConfig (dp_retry deps))
         then st_nextRunAtMs (cj_state job') = Some (rs_endedAt r +
                errorBackoffMs (js_or_else (st_consecutiveErrors (cj_state job)) 0 + 1)
                  (rr_backoffMs (resolveRetryConfig (dp_retry deps))))
         else \<not> cj_enabled job' \<and> st_nextRunAtMs (cj_state job') = None)"
proof -
  let ?j = "fst (track_errors deps now (record_run (dp_env deps) job r) r)"
  have "job' = settle_one_shot deps ?j r"
    using assms by (auto simp: applyJobResult_def case_prod_unfold Let_def split: if_splits)
  then show ?thesis
    by (cases "rs_status r") (auto simp: settle_one_shot_def Let_def)
qed

theorem one_shot_settles_witness:
  "\<exists>job' effects. applyJobResult plain_deps 0 False (sample_job ''a'' one_shot (due_at 5000))
      \<lparr>rs_status = StatusError, rs_error = Some ''fetch failed'', rs_delivered = None, rs_startedAt = 5000, rs_endedAt = 6000\<rparr>
     = (job', effects, False) \<and> st_nextRunAtMs (cj_state job') = Some 36000"
proof -
  let ?job = "sample_job ''a'' one_shot (due_at 5000)"
  let ?r = "\<lparr>rs_status = StatusError, rs_error = Some ''fetch failed'', rs_delivered = None, rs_startedAt = 5000, rs_endedAt = 6000\<rparr>"
  obtain job' effects del where r: "applyJobResult plain_deps 0 False ?job ?r = (job', effects, del)"
    using prod_cases3 by blast
  have t: "isTransientCronError (Some ''fetch failed'') None" by code_simp
  have "\<not> del" using r by (auto simp: applyJobResult_def Let_def split: prod.splits if_splits)
  with one_shot_settles [of plain_deps 0 False ?job ?r job' effects] r t show ?thesis
    by (simp add: resolveRetryConfig_def plain_deps_def errorBackoffMs_def DEFAULT_ERROR_BACKOFF_SCHEDULE_MS_def)
qed

subsection \<open>Alerts\<close>

text \<open>An alert goes out only for an error, once there have been enough in a row, to a job
  that is not best-effort, and not before the cooldown of the last alert has passed.\<close>

theorem alert_needs_reason:
  assumes "track_errors deps now job r = (job', effects)" "effects \<noteq> []"
  shows "\<exists>alert. resolveFailureAlert deps job = Some alert \<and> rs_status r = StatusError \<and>
    al_after alert \<le> js_or_else (st_consecutiveErrors (cj_state job)) 0 + 1 \<and>
    opt_field cd_bestEffort (cj_delivery job) \<noteq> Some True \<and>
    (\<forall>lastAlert \<in> set_option (st_lastFailureAlertAtMs (cj_state job)). al_cooldownMs alert \<le> now - lastAlert) \<and>
    st_lastFailureAlertAtMs (cj_state job') = Some now"
proof -
  have same: "resolveFailureAlert deps (set_state f job) = resolveFailureAlert deps job" for f
    by (simp add: resolveFailureAlert_def)
  show ?thesis using assms
    by (auto simp: track_errors_def Let_def same split: if_splits option.splits)
qed

theorem alert_needs_reason_witness:
  "\<exists>job' effects. track_errors (plain_deps\<lparr>dp_failureAlert := Some \<lparr>fc_enabled = Some True, fc_after = None,
        fc_cooldownMs = None, fc_mode = None, fc_accountId = None\<rparr>\<rparr>) 900
      (sample_job ''a'' every_minute (empty_job_state\<lparr>st_consecutiveErrors := Some 1\<rparr>))
      \<lparr>rs_status = StatusError, rs_error = Some ''boom'', rs_delivered = None, rs_startedAt = 5, rs_endedAt = 6\<rparr>
     = (job', effects) \<and> length effects = 2 \<and> st_lastFailureAlertAtMs (cj_state job') = Some 900"
proof -
  let ?deps = "plain_deps\<lparr>dp_failureAlert := Some \<lparr>fc_enabled = Some True, fc_after = None,
        fc_cooldownMs = None, fc_mode = None, fc_accountId = None\<rparr>\<rparr>"
  let ?job = "sample_job ''a'' every_minute (empty_job_state\<lparr>st_consecutiveErrors := Some 1\<rparr>)"
  let ?r = "\<lparr>rs_status = StatusError, rs_error = Some ''boom'', rs_delivered = None, rs_startedAt = 5, rs_endedAt = 6\<rparr>"
  obtain job' effects where r: "track_errors ?deps 900 ?job ?r = (job', effects)" by force
  then have "length effects = 2"
    by (auto simp: track_errors_def Let_def resolveFailureAlert_def opt_field_def clampPositiveInt_def sample_job_def
        set_state_def emitFailureAlert_def plain_deps_def empty_job_state_def DEFAULT_FAILURE_ALERT_AFTER_def)
  with r alert_needs_reason [OF r] show ?thesis by force
qed

end
