(* ===== verification/Cron_Durability.thy ===== *)
theory Cron_Durability
  imports Cron_Samples
begin

text \<open>
  What is in memory is in the file: the maintenance passes report every change they make, so
  that an operation that saves only when something changed leaves nothing unsaved. The contract
  \<open>reporting_pass\<close> extends \<open>maintenance_pass\<close>.
\<close>

subsection \<open>Passes report their changes\<close>

lemma state_keep:
  "st_nextRunAtMs st = None \<Longrightarrow> st_runningAtMs st = None \<Longrightarrow> st\<lparr>st_nextRunAtMs := None, st_runningAtMs := None\<rparr> = st"
  "st_nextRunAtMs st = None \<Longrightarrow> st\<lparr>st_nextRunAtMs := None, st_runningAtMs := st_runningAtMs st\<rparr> = st"
  by (cases st; simp)+

locale reporting_pass = maintenance_pass +
  assumes reports: "\<not> snd (snd (pass job n)) \<Longrightarrow> fst (pass job n) = job \<and> fst (snd (pass job n)) = []"
begin

lemma normalize_reports:
  "\<not> fst (snd (normalizeJobTickState job n)) \<Longrightarrow> fst (normalizeJobTickState job n) = job"
  by (cases job; cases "cj_schedule job"; cases "cj_enabled job")
    (simp_all add: normalizeJobTickState_def Let_def isJobEnabled_def state_keep split: if_split_asm, auto)

lemma tick_reports: "\<not> snd (snd (tick_job pass job n)) \<Longrightarrow> fst (tick_job pass job n) = job \<and> fst (snd (tick_job pass job n)) = []"
  using normalize_reports [of job n] reports [of job n]
  by (auto simp: tick_job_def case_prod_unfold Let_def split: if_splits)

lemma walk_reports: "\<not> snd (walkSchedulableJobs pass n s) \<Longrightarrow> fst (walkSchedulableJobs pass n s) = s"
proof (cases "sv_store s")
  case (Some js)
  assume "\<not> snd (walkSchedulableJobs pass n s)"
  then have "\<forall>j \<in> set js. \<not> snd (snd (tick_job pass j n))"
    using Some by (simp add: walkSchedulableJobs_def walk_jobs_map list_ex_iff)
  then have "map (\<lambda>j. fst (tick_job pass j n)) js = js" "concat (map (\<lambda>j. fst (snd (tick_job pass j n))) js) = []"
    using tick_reports by (induction js) auto
  then show ?thesis
    using Some by (cases s) (simp add: walkSchedulableJobs_def walk_jobs_map do_effects_def set_jobs_def)
qed (simp add: walkSchedulableJobs_def)

end

lemma recomputeJobNextRunAtMs_reports:
  "\<not> snd (snd (recomputeJobNextRunAtMs deps job n)) \<Longrightarrow>
   fst (recomputeJobNextRunAtMs deps job n) = job \<and> fst (snd (recomputeJobNextRunAtMs deps job n)) = []"
  by (auto simp: recomputeJobNextRunAtMs_def Let_def case_prod_unfold split: sum.splits option.splits)

interpretation due_reports: reporting_pass "recompute_due_or_missing deps" for deps
  by unfold_locales (auto simp: recompute_due_or_missing_def Let_def recomputeJobNextRunAtMs_reports split: if_splits)

interpretation missing_reports: reporting_pass "recompute_missing_or_executed deps b" for deps b
  by unfold_locales
    (auto simp: recompute_missing_or_executed_def Let_def recomputeJobNextRunAtMs_reports split: if_splits option.splits)

subsection \<open>Memory and file\<close>

definition in_sync :: "cron_service \<Rightarrow> bool" where
  "in_sync s = (sv_store s = Some (sv_disk s))"

definition is_loaded :: "cron_service \<Rightarrow> bool" where
  "is_loaded s = (sv_store s \<noteq> None)"

definition unloaded_or_synced :: "cron_service \<Rightarrow> bool" where
  "unloaded_or_synced s = (sv_store s = None \<or> in_sync s)"

lemma sync_base [simp]:
  "in_sync (do_effects es s) = in_sync s" "in_sync (do_effect e s) = in_sync s" "in_sync (emit_event ev s) = in_sync s"
  "in_sync (markCronJobActive i s) = in_sync s" "in_sync (clearCronJobActive i s) = in_sync s"
  "in_sync (armTimer deps n s) = in_sync s" "in_sync (warnIfDisabled deps s) = in_sync s"
  "unloaded_or_synced (warnIfDisabled deps s) = unloaded_or_synced s"
  "unloaded_or_synced (do_effects es s) = unloaded_or_synced s"
  "in_sync (reload_store s)"
  by (simp_all add: in_sync_def unloaded_or_synced_def reload_store_def)

lemma loaded_base [simp]:
  "is_loaded (do_effects es s) = is_loaded s" "is_loaded (do_effect e s) = is_loaded s"
  "is_loaded (emit_event ev s) = is_loaded s" "is_loaded (set_jobs js s)" "is_loaded (set_job j s)"
  "is_loaded (clearCronJobActive i s) = is_loaded s" "is_loaded (remove_job i s)"
  by (simp_all add: is_loaded_def set_job_def remove_job_def)

lemma sync_persist: "is_loaded s \<Longrightarrow> in_sync (persist s)"
  by (auto simp: in_sync_def persist_def is_loaded_def)

lemma sync_load: "unloaded_or_synced s \<or> force \<Longrightarrow> in_sync (ensureLoaded deps force True n s)"
  by (auto simp: ensureLoaded_def unloaded_or_synced_def)

lemma sync_loaded: "in_sync s \<Longrightarrow> is_loaded s"
  by (simp add: in_sync_def is_loaded_def)

lemma recompute_store [simp]:
  "is_loaded (fst (walkSchedulableJobs pass n s)) = is_loaded s"
  "is_loaded (fst (recomputeNextRuns deps n s)) = is_loaded s"
  "is_loaded (fst (recomputeNextRunsForMaintenance deps b n s)) = is_loaded s"
  by (cases "sv_store s"; simp add: recomputeNextRuns_def recomputeNextRunsForMaintenance_def walkSchedulableJobs_def
      case_prod_unfold Let_def is_loaded_def)+

lemma load_store [simp]: "is_loaded (ensureLoaded deps force skip n s)"
  by (simp add: ensureLoaded_def is_loaded_def [of "reload_store s"] reload_store_def) (simp add: is_loaded_def)

text \<open>Saving when a pass reports a change is enough.\<close>

lemma sync_after_pass:
  "in_sync s \<Longrightarrow> in_sync (if snd (recomputeNextRuns deps n s) then persist (fst (recomputeNextRuns deps n s))
     else fst (recomputeNextRuns deps n s))"
  "in_sync s \<Longrightarrow> in_sync (if snd (recomputeNextRunsForMaintenance deps b n s)
     then persist (fst (recomputeNextRunsForMaintenance deps b n s)) else fst (recomputeNextRunsForMaintenance deps b n s))"
  using due_reports.walk_reports [of deps n s] missing_reports.walk_reports [of deps b n s] sync_loaded [of s]
  by (simp_all add: recomputeNextRuns_def recomputeNextRunsForMaintenance_def sync_persist)

lemma sync_read: "unloaded_or_synced s \<Longrightarrow> in_sync (ensureLoadedForRead deps n s)"
  using sync_after_pass(2) [OF sync_load [of s False deps n]]
  by (simp add: ensureLoadedForRead_def Let_def case_prod_unfold)

lemma outcome_store: "is_loaded s \<Longrightarrow> is_loaded (applyOutcomeToStoredJob deps n r s)"
  by (simp add: applyOutcomeToStoredJob_def Let_def case_prod_unfold split: option.split)

lemma outcomes_store: "is_loaded s \<Longrightarrow> is_loaded (fold (applyOutcomeToStoredJob deps n) rs s)"
  by (induction rs arbitrary: s) (simp_all add: outcome_store)

text \<open>The sections that end with the store saved.\<close>

definition saves :: "cron_deps \<Rightarrow> cron_service \<Rightarrow> cron_call \<Rightarrow> bool" where
  "saves deps s call =
     (case call of
        CallStartClear _ \<Rightarrow> True
      | CallPlanCatchup _ _ \<Rightarrow> True
      | CallApplyCatchup _ _ _ \<Rightarrow> True
      | CallStartFinish _ \<Rightarrow> True
      | CallStatus _ \<Rightarrow> True
      | CallList _ _ \<Rightarrow> True
      | CallListPage _ _ _ _ \<Rightarrow> True
      | CallAdd now i input \<Rightarrow> \<not> isl (fst (add deps now i input s))
      | CallUpdate now i patch \<Rightarrow> \<not> isl (fst (update deps now i patch s))
      | CallRemove _ _ \<Rightarrow> True
      | CallTickCollect _ _ \<Rightarrow> True
      | CallTickApply _ outcomes \<Rightarrow> outcomes \<noteq> []
      | CallReserve accepts now i \<Rightarrow> (case fst (reserveManualRun accepts now i s) of Inr (Prepared _) \<Rightarrow> True | _ \<Rightarrow> False)
      | CallFinish _ _ _ _ _ \<Rightarrow> True
      | _ \<Rightarrow> False)"

lemma startup_saves:
  assumes "unloaded_or_synced s"
  shows "in_sync (snd (start_clear deps n s))" "in_sync (snd (planStartupCatchup deps n skip s))"
    "in_sync (applyStartupCatchupOutcomes deps n plan outcomes s)" "in_sync (start_finish deps n s)"
  using sync_load [of s False deps n] assms sync_after_pass(1) [of "ensureLoaded deps False True n s" deps n]
  by (auto simp: start_clear_def planStartupCatchup_def start_finish_def applyStartupCatchupOutcomes_def Let_def
      case_prod_unfold outcomes_store intro!: sync_persist)

lemma tick_saves:
  "in_sync (snd (tick_collect deps d n s))"
  "rs \<noteq> [] \<Longrightarrow> in_sync (tick_apply deps n rs s)"
  using sync_load [of s True deps d] sync_after_pass(2) [of "ensureLoaded deps True True d s" deps True d]
  by (auto simp: tick_collect_def tick_apply_def Let_def case_prod_unfold outcomes_store intro!: sync_persist)

lemma edit_saves:
  "\<not> isl (fst (add deps n i input s)) \<Longrightarrow> in_sync (snd (add deps n i input s))"
  "\<not> isl (fst (update deps n i patch s)) \<Longrightarrow> in_sync (snd (update deps n i patch s))"
  "in_sync (snd (remove deps n i s))"
  by (auto simp: add_def update_def remove_def set_job_def Let_def intro!: sync_persist split: sum.splits prod.splits option.splits)

lemma manual_saves:
  "fst (reserveManualRun accepts n i s) = Inr (Prepared p) \<Longrightarrow> in_sync (snd (reserveManualRun accepts n i s))"
  "unloaded_or_synced s \<Longrightarrow> in_sync (finishPreparedManualRun deps e n force result prepared s)"
proof -
  show "in_sync (snd (reserveManualRun accepts n i s))" if "fst (reserveManualRun accepts n i s) = Inr (Prepared p)"
    using that by (auto simp: reserveManualRun_def set_job_def Let_def case_prod_unfold intro!: sync_persist
        split: sum.splits if_splits)
  have merge: "is_loaded (mergeManualRunSnapshotAfterReload i sn removed t) = is_loaded t" for i sn removed t
    by (auto simp: mergeManualRunSnapshotAfterReload_def is_loaded_def split: option.split)
  show "in_sync (finishPreparedManualRun deps e n force result prepared s)" if "unloaded_or_synced s"
    using that by (auto simp: finishPreparedManualRun_def Let_def case_prod_unfold merge intro!: sync_persist sync_load
        split: option.split)
qed

end
