(* ===== verification/Cron_Data_Properties.thy ===== *)
theory Cron_Data_Properties
  imports Cron_Samples
begin

text \<open>
  What the data operations of the cron service promise: created and patched jobs are
  consistent, failure plans can be used, paging shows every job once, and the caches of
  compiled expressions and of offsets never change an answer.
\<close>

subsection \<open>Consistent jobs\<close>

text \<open>A job that is created is consistent: its target fits its payload and its delivery, its session
  target is safe, every webhook of it has a URL that the parser accepts, and it has the id it was given.\<close>

theorem created_job_is_valid:
  assumes "createJob deps now i input = Inr job"
  shows "valid_spec (dp_defaultAgentId deps) job \<and> valid_webhooks (dp_env deps) job \<and> cj_id job = i"
  using createJob_valid [OF assms] by simp

theorem created_job_is_valid_witness:
  "\<exists>job. createJob plain_deps 5 ''a'' (sample_input (JStr '' job '')) = Inr job \<and> valid_spec None job \<and> cj_name job = ''job''"
proof -
  have n: "normalizeRequiredName (JStr '' job '') = Inr ''job''" by code_simp
  have agent: "normalizeOptionalAgentId JUndef = None" "\<not> js_truthy_str None" by code_simp+
  obtain job where j: "createJob plain_deps 5 ''a'' (sample_input (JStr '' job '')) = Inr job" "cj_name job = ''job''"
    by (simp add: createJob_def n sample_input_def Let_def initial_schedule_def every_minute_def assert_job_def run_steps_simps
        assertSupportedJobSpec_def is_isolated_like_def try_step_def assertMainSessionAgentId_def agent
        resolveInitialCronDelivery_def assertDeliverySupport_def assertFailureDestinationSupport_def
        failure_destination_of_def computeJobNextRunAtMs_def computeNextRunAtMs_def isJobEnabled_def coerceFiniteScheduleNumber_def js_int_def
        spread_state_def empty_job_state_def empty_state_patch_def)
  with created_job_is_valid [OF j(1)] show ?thesis by (auto simp: plain_deps_def)
qed

text \<open>C34: a patch that is accepted leaves a consistent job, whatever the job was before.\<close>

theorem patched_job_is_valid:
  assumes "applyJobPatch env defaultAgentId patch job = (None, job')"
  shows "valid_spec defaultAgentId job' \<and> valid_webhooks env job' \<and> cj_id job' = cj_id job"
  using applyJobPatch_valid [OF assms] applyJobPatch_id [of env defaultAgentId patch job] assms by simp

theorem patched_job_is_valid_witness:
  "valid_spec None (sample_job ''a'' hourly (due_at 1))"
proof -
  have "applyJobPatch hourly_env None (retarget_patch ''main'') (sample_job ''a'' hourly (due_at 1)) =
      (None, sample_job ''a'' hourly (due_at 1))"
    by (simp add: applyJobPatch_def patch_steps_def run_steps_simps retarget_patch_def when_some_def patch_bool_def
        pure_step_def assert_job_def assertSupportedJobSpec_def is_isolated_like_def try_step_def assertMainSessionAgentId_def
        assertDeliverySupport_def assertFailureDestinationSupport_def failure_destination_of_def delivery_mode_of_def sample_job_def)
  from patched_job_is_valid [OF this] show ?thesis by simp
qed

subsection \<open>Failure destinations\<close>

text \<open>A failure plan can always be carried out and never repeats the primary delivery: a webhook plan has a
  target, an announcement has a channel, and neither is the destination the job delivers to anyway.\<close>

theorem failure_plan_is_usable:
  assumes "resolveFailureDestination job g = Some plan"
  shows "(case fp_planMode plan of
            FailWebhook \<Rightarrow> js_truthy_str (fp_planTo plan) \<and> fp_planChannel plan = None
          | FailAnnounce \<Rightarrow> fp_planChannel plan \<noteq> None) \<and>
         (case cj_delivery job of None \<Rightarrow> True | Some d \<Rightarrow> \<not> isSameDeliveryTarget d plan)"
  using resolveFailureDestination_usable [OF assms] by (simp split: failure_mode.split)

theorem failure_plan_is_usable_witness:
  "\<exists>plan. resolveFailureDestination (sample_job ''a'' hourly (due_at 1))
      (Some \<lparr>fg_channel = Some ''Slack'', fg_to = None, fg_accountId = None, fg_mode = None\<rparr>) = Some plan \<and>
     fp_planChannel plan = Some ''slack'' \<and> fp_planMode plan = FailAnnounce"
proof -
  let ?g = "Some \<lparr>fg_channel = Some ''Slack'', fg_to = None, fg_accountId = None, fg_mode = None\<rparr>"
  have c: "normalizeChannel (Some ''Slack'') = Some ''slack''" "normalizeOptionalString (js_opt None) = None"
    "normalizeFailureMode None = None" by code_simp+
  obtain plan where p: "resolveFailureDestination (sample_job ''a'' hourly (due_at 1)) ?g = Some plan"
    "fp_planChannel plan = Some ''slack''" "fp_planMode plan = FailAnnounce"
    by (simp add: resolveFailureDestination_def merge_failure_fields_def failure_destination_of_def sample_job_def c Let_def
        js_truthy_str_def)
  with failure_plan_is_usable [OF p(1)] show ?thesis by auto
qed

subsection \<open>Paging\<close>

text \<open>Following \<open>nextOffset\<close> from the first page, for as many pages as there are jobs and one.\<close>

primrec all_pages :: "nat \<Rightarrow> cron_job list \<Rightarrow> rat option \<Rightarrow> rat option \<Rightarrow> cron_job list" where
  "all_pages 0 jobs offset limit = []"
| "all_pages (Suc k) jobs offset limit =
     (let page = page_of jobs offset limit in
      lp_jobs page @ (case lp_nextOffset page of
                        None \<Rightarrow> [] | Some nextOffset \<Rightarrow> all_pages k jobs (Some (of_int nextOffset)) limit))"

definition page_size :: "cron_job list \<Rightarrow> rat option \<Rightarrow> nat" where
  "page_size jobs limit =
     nat (max 1 (min 200 (case limit of None \<Rightarrow> (if length jobs = 0 then 50 else int (length jobs)) | Some l \<Rightarrow> \<lfloor>l\<rfloor>)))"

lemma page_size_pos: "0 < page_size jobs limit"
  by (simp add: page_size_def)

lemma page_of_at:
  assumes "m \<le> length jobs"
  shows "lp_jobs (page_of jobs (Some (of_int (int m))) limit) = take (page_size jobs limit) (drop m jobs)"
    "lp_nextOffset (page_of jobs (Some (of_int (int m))) limit) =
       (if m + page_size jobs limit < length jobs then Some (int (m + page_size jobs limit)) else None)"
proof -
  have o: "max 0 (min (int (length jobs)) \<lfloor>js_or_else (Some (of_int (int m) :: rat)) 0\<rfloor>) = int m"
    using assms by (simp only: js_or_else_simps floor_of_int)
  have len: "int m + int (length (take k (drop m jobs))) < int (length jobs) \<longleftrightarrow> m + k < length jobs"
    "m + k < length jobs \<Longrightarrow> int m + int (length (take k (drop m jobs))) = int (m + k)" for k
    using assms by auto
  show "lp_jobs (page_of jobs (Some (of_int (int m))) limit) = take (page_size jobs limit) (drop m jobs)"
    by (simp only: page_of_def Let_def o page_size_def nat_int list_page_result.select_convs)
  have "lp_nextOffset (page_of jobs (Some (of_int (int m))) limit) =
      (let n = int m + int (length (take (page_size jobs limit) (drop m jobs)))
       in if n < int (length jobs) then Some n else None)"
    by (simp only: page_of_def Let_def o page_size_def nat_int list_page_result.select_convs)
  then show "lp_nextOffset (page_of jobs (Some (of_int (int m))) limit) =
       (if m + page_size jobs limit < length jobs then Some (int (m + page_size jobs limit)) else None)"
    using len [of "page_size jobs limit"] by (simp only: Let_def split: if_split) blast
qed

text \<open>Paging through a listing shows every job exactly once, in the order of the listing, and ends,
  whatever page size was asked for.\<close>

theorem pages_show_everything_once:
  "all_pages (Suc (length jobs)) jobs None limit = jobs"
proof -
  have at: "all_pages (Suc k) jobs (Some (of_int (int m))) limit = drop m jobs" if "m \<le> length jobs" "length jobs - m \<le> k" for k m
    using that
  proof (induction k arbitrary: m)
    case 0
    then show ?case by (simp only: all_pages.simps Let_def page_of_at) (simp split: option.split)
  next
    case (Suc k)
    let ?l = "page_size jobs limit"
    have "all_pages (Suc k) jobs (Some (of_int (int (m + ?l)))) limit = drop (m + ?l) jobs" if "m + ?l < length jobs"
      using Suc.IH [of "m + ?l"] that Suc.prems page_size_pos [of jobs limit] by linarith
    moreover have "take ?l (drop m jobs) @ drop (m + ?l) jobs = drop m jobs"
      by (metis add.commute append_take_drop_id drop_drop)
    ultimately show ?case
      by (simp only: all_pages.simps(2) [of "Suc k"] Let_def page_of_at [OF Suc.prems(1)])
        (simp split: if_split option.split)
  qed
  have "page_of jobs None limit = page_of jobs (Some (of_int (int 0))) limit"
    by (simp only: page_of_def js_or_else_simps floor_of_int floor_zero of_nat_0 of_int_0)
  then have "all_pages (Suc (length jobs)) jobs None limit = all_pages (Suc (length jobs)) jobs (Some (of_int (int 0))) limit"
    by (simp only: all_pages.simps)
  with at [of 0 "length jobs"] show ?thesis by simp
qed

subsection \<open>Caches\<close>

text \<open>The bounded cache of compiled expressions is transparent: any sequence of lookups, evictions and
  failures included, gives what compiling anew gives.\<close>

theorem cron_cache_transparent:
  assumes "list_all (\<lambda>(expr, tz). CHR 0x00 \<notin> set tz) ks"
  shows "cron_cache.lookups env [] ks = map (\<lambda>(expr, tz). new_Cron env expr tz) ks"
  using assms by (intro cron_cache.lookups_transparent) (simp_all add: cron_cache_ok_def jm_size_def)

theorem cron_cache_transparent_witness:
  "cron_cache.lookups hourly_env [] [(''x'', ''UTC''), (''bad'', ''UTC''), (''x'', ''UTC'')] =
   [Inr \<lparr>ch_expr = ''x'', ch_tz = ''UTC''\<rparr>, Inl ''TypeError: bad'', Inr \<lparr>ch_expr = ''x'', ch_tz = ''UTC''\<rparr>]"
  by (subst cron_cache_transparent) (simp_all add: new_Cron_def hourly_env_def)

text \<open>The bounded cache of stagger offsets is transparent, and every offset lies in its window.\<close>

theorem stagger_cache_transparent:
  "stagger_cache.lookups env [] ks = map (\<lambda>(i, s). resolveStableCronOffsetMs env i s) ks \<and>
   list_all (\<lambda>(i, s). 0 \<le> resolveStableCronOffsetMs env i s \<and> resolveStableCronOffsetMs env i s < max 1 s) ks"
proof
  show "stagger_cache.lookups env [] ks = map (\<lambda>(i, s). resolveStableCronOffsetMs env i s) ks"
    by (intro stagger_cache.lookups_transparent) (simp_all add: stagger_cache_ok_def jm_size_def list_all_iff)
  show "list_all (\<lambda>(i, s). 0 \<le> resolveStableCronOffsetMs env i s \<and> resolveStableCronOffsetMs env i s < max 1 s) ks"
    by (auto simp: list_all_iff resolveStableCronOffsetMs_def max_def)
qed

end
