(* ===== verification/Command_Queue.thy ===== *)
theory Command_Queue
  imports Ordered_Store
begin

text \<open>
  The command queue: \<open>src/process/command-queue.ts\<close> and \<open>src/process/lanes.ts\<close>. Commands wait in
  lanes; a lane runs as many at once as its limit allows.

  A promise is named by the ticket of its call. A task that was started and not yet answered
  is a suspended call that remembers its lane, its id and the generation it was started in:
  \<open>qs_inflight\<close> holds these. What the promises are told, and when tasks start, is the trace
  \<open>qs_trace\<close>. A task is taken to call the queue only after its first suspension. Logging is left
  out.
\<close>

subsection \<open>State\<close>

record queue_entry =
  en_ticket :: nat
  en_enqueuedAt :: ms
  en_warnAfterMs :: ms
  en_hasOnWait :: bool

record lane_state =
  ln_lane :: string
  ln_queue :: "queue_entry list"
  ln_activeTaskIds :: "nat list"
  ln_maxConcurrent :: js_num
  ln_draining :: bool
  ln_generation :: nat

record inflight_task =
  if_lane :: string
  if_taskId :: nat
  if_generation :: nat
  if_ticket :: nat

record active_waiter =
  aw_id :: nat
  aw_activeTaskIds :: "nat list"

datatype queue_error = GatewayDrainingError | CommandLaneClearedError string | TaskError string

datatype queue_event =
    Enqueued string nat
  | TaskStart string nat
  | WaitWarning nat ms nat
  | Cleared string "nat list"
  | TaskResolved nat
  | TaskRejected nat queue_error
  | WaiterResolved nat bool

record queue_state =
  qs_gatewayDraining :: bool
  qs_lanes :: "(string, lane_state) js_map"
  qs_waiters :: "active_waiter list"
  qs_nextTaskId :: nat
  qs_inflight :: "inflight_task list"
  qs_trace :: "queue_event list"

definition initial_queue_state :: queue_state where
  "initial_queue_state =
     \<lparr>qs_gatewayDraining = False, qs_lanes = [], qs_waiters = [], qs_nextTaskId = 1, qs_inflight = [], qs_trace = []\<rparr>"

definition MAIN_LANE :: string where
  "MAIN_LANE = ''main''"

definition normalizeLane :: "string \<Rightarrow> string" where
  "normalizeLane lane = (let t = js_trim lane in if t \<noteq> [] then t else MAIN_LANE)"

definition getLaneDepth :: "lane_state \<Rightarrow> nat" where
  "getLaneDepth ls = length (ln_queue ls) + length (ln_activeTaskIds ls)"

definition new_lane :: "string \<Rightarrow> lane_state" where
  "new_lane lane =
     \<lparr>ln_lane = lane, ln_queue = [], ln_activeTaskIds = [], ln_maxConcurrent = js_int 1, ln_draining = False,
      ln_generation = 0\<rparr>"

text \<open>The lane object, created on first use; and writing it back.\<close>

definition getLaneState :: "string \<Rightarrow> queue_state \<Rightarrow> lane_state" where
  "getLaneState lane s = js_or_else (jm_get (qs_lanes s) lane) (new_lane lane)"

definition put_lane :: "string \<Rightarrow> lane_state \<Rightarrow> queue_state \<Rightarrow> queue_state" where
  "put_lane lane ls s = s\<lparr>qs_lanes := jm_set (qs_lanes s) lane ls\<rparr>"

definition record_events :: "queue_event list \<Rightarrow> queue_state \<Rightarrow> queue_state" where
  "record_events es s = s\<lparr>qs_trace := qs_trace s @ es\<rparr>"

subsection \<open>Waiting for active tasks\<close>

definition hasPendingActiveTasks :: "queue_state \<Rightarrow> nat list \<Rightarrow> bool" where
  "hasPendingActiveTasks s taskIds =
     list_ex (\<lambda>(_, ls). list_ex (\<lambda>t. t \<in> set taskIds) (ln_activeTaskIds ls)) (qs_lanes s)"

definition resolveActiveTaskWaiter :: "nat \<Rightarrow> bool \<Rightarrow> queue_state \<Rightarrow> queue_state" where
  "resolveActiveTaskWaiter w drained s =
     (if list_ex (\<lambda>x. aw_id x = w) (qs_waiters s)
      then record_events [WaiterResolved w drained] (s\<lparr>qs_waiters := filter (\<lambda>x. aw_id x \<noteq> w) (qs_waiters s)\<rparr>) else s)"

definition notifyActiveTaskWaiters :: "queue_state \<Rightarrow> queue_state" where
  "notifyActiveTaskWaiters s =
     fold (\<lambda>w s. if aw_activeTaskIds w = [] \<or> \<not> hasPendingActiveTasks s (aw_activeTaskIds w)
                 then resolveActiveTaskWaiter (aw_id w) True s else s) (qs_waiters s) s"

subsection \<open>Draining a lane\<close>

text \<open>\<open>size < maxConcurrent\<close>, which is false when the limit is not a number.\<close>

definition below_limit :: "nat \<Rightarrow> js_num \<Rightarrow> bool" where
  "below_limit n limit = (case limit of Finite r \<Rightarrow> of_nat n < r | PosInf \<Rightarrow> True | _ \<Rightarrow> False)"

definition wait_warning :: "queue_entry \<Rightarrow> ms \<Rightarrow> nat \<Rightarrow> queue_event list" where
  "wait_warning e now queued =
     (let waitedMs = now - en_enqueuedAt e in
      if waitedMs \<ge> en_warnAfterMs e \<and> en_hasOnWait e then [WaitWarning (en_ticket e) waitedMs queued] else [])"

text \<open>One round of the loop: the oldest entry is taken from the queue and started.\<close>

definition start_entry :: "(nat \<Rightarrow> ms) \<Rightarrow> string \<Rightarrow> queue_entry \<Rightarrow> queue_entry list \<Rightarrow> queue_state \<Rightarrow> queue_state" where
  "start_entry clock lane e rest s =
     (let ls = getLaneState lane s; taskId = qs_nextTaskId s in
      record_events (wait_warning e (clock taskId) (length rest) @ [TaskStart lane (en_ticket e)])
        (put_lane lane (ls\<lparr>ln_queue := rest, ln_activeTaskIds := ln_activeTaskIds ls @ [taskId]\<rparr>)
          (s\<lparr>qs_nextTaskId := taskId + 1,
             qs_inflight := qs_inflight s @ [\<lparr>if_lane = lane, if_taskId = taskId,
                               if_generation = ln_generation ls, if_ticket = en_ticket e\<rparr>]\<rparr>)))"

fun pump_entries :: "(nat \<Rightarrow> ms) \<Rightarrow> string \<Rightarrow> queue_entry list \<Rightarrow> queue_state \<Rightarrow> queue_state" where
  "pump_entries clock lane [] s = s"
| "pump_entries clock lane (e # rest) s =
     (if below_limit (length (ln_activeTaskIds (getLaneState lane s))) (ln_maxConcurrent (getLaneState lane s))
      then pump_entries clock lane rest (start_entry clock lane e rest s)
      else s)"

definition set_draining :: "bool \<Rightarrow> string \<Rightarrow> queue_state \<Rightarrow> queue_state" where
  "set_draining b lane s = put_lane lane ((getLaneState lane s)\<lparr>ln_draining := b\<rparr>) s"

definition pump :: "(nat \<Rightarrow> ms) \<Rightarrow> string \<Rightarrow> queue_state \<Rightarrow> queue_state" where
  "pump clock lane s = set_draining False lane (pump_entries clock lane (ln_queue (getLaneState lane s)) s)"

definition drainLane :: "(nat \<Rightarrow> ms) \<Rightarrow> string \<Rightarrow> queue_state \<Rightarrow> queue_state" where
  "drainLane clock lane s =
     (if ln_draining (getLaneState lane s) then s else pump clock lane (set_draining True lane s))"

subsection \<open>Operations\<close>

definition markGatewayDraining :: "queue_state \<Rightarrow> queue_state" where
  "markGatewayDraining s = s\<lparr>qs_gatewayDraining := True\<rparr>"

text \<open>\<open>Math.max(1, Math.floor(n))\<close>.\<close>

definition clamp_limit :: "js_num \<Rightarrow> js_num" where
  "clamp_limit n =
     (case n of Finite r \<Rightarrow> js_int (max 1 \<lfloor>r\<rfloor>) | NegInf \<Rightarrow> js_int 1 | x \<Rightarrow> x)"

definition setCommandLaneConcurrency :: "(nat \<Rightarrow> ms) \<Rightarrow> string \<Rightarrow> js_num \<Rightarrow> queue_state \<Rightarrow> queue_state" where
  "setCommandLaneConcurrency clock lane maxConcurrent s =
     (let cleaned = normalizeLane lane in
      drainLane clock cleaned
        (put_lane cleaned ((getLaneState cleaned s)\<lparr>ln_maxConcurrent := clamp_limit maxConcurrent\<rparr>) s))"

definition enqueueCommandInLane ::
  "(nat \<Rightarrow> ms) \<Rightarrow> string \<Rightarrow> nat \<Rightarrow> ms \<Rightarrow> ms option \<Rightarrow> bool \<Rightarrow> queue_state \<Rightarrow> queue_state" where
  "enqueueCommandInLane clock lane ticket now warnAfterMs hasOnWait s =
     (if qs_gatewayDraining s then record_events [TaskRejected ticket GatewayDrainingError] s
      else let cleaned = normalizeLane lane; ls = getLaneState cleaned s;
               e = \<lparr>en_ticket = ticket, en_enqueuedAt = now, en_warnAfterMs = js_or_else warnAfterMs 2000,
                    en_hasOnWait = hasOnWait\<rparr>
           in drainLane clock cleaned
                (record_events [Enqueued cleaned ticket] (put_lane cleaned (ls\<lparr>ln_queue := ln_queue ls @ [e]\<rparr>) s)))"

definition getQueueSize :: "string \<Rightarrow> queue_state \<Rightarrow> nat" where
  "getQueueSize lane s = (case jm_get (qs_lanes s) (normalizeLane lane) of None \<Rightarrow> 0 | Some ls \<Rightarrow> getLaneDepth ls)"

definition getTotalQueueSize :: "queue_state \<Rightarrow> nat" where
  "getTotalQueueSize s = sum_list (map (\<lambda>(_, ls). getLaneDepth ls) (qs_lanes s))"

definition clearCommandLane :: "string \<Rightarrow> queue_state \<Rightarrow> nat \<times> queue_state" where
  "clearCommandLane lane s =
     (let cleaned = normalizeLane lane in
      case jm_get (qs_lanes s) cleaned of
        None \<Rightarrow> (0, s)
      | Some ls \<Rightarrow>
        (let tickets = map en_ticket (ln_queue ls) in
         (length (ln_queue ls),
          record_events (Cleared cleaned tickets # map (\<lambda>t. TaskRejected t (CommandLaneClearedError cleaned)) tickets)
            (put_lane cleaned (ls\<lparr>ln_queue := []\<rparr>) s))))"

definition reset_lane :: "lane_state \<Rightarrow> lane_state" where
  "reset_lane ls = ls\<lparr>ln_generation := ln_generation ls + 1, ln_activeTaskIds := [], ln_draining := False\<rparr>"

definition resetAllLanes :: "(nat \<Rightarrow> ms) \<Rightarrow> queue_state \<Rightarrow> queue_state" where
  "resetAllLanes clock s =
     (let lanesToDrain = map (\<lambda>(_, ls). ln_lane ls) (filter (\<lambda>(_, ls). ln_queue ls \<noteq> []) (qs_lanes s));
          s1 = s\<lparr>qs_gatewayDraining := False, qs_lanes := map (\<lambda>(k, ls). (k, reset_lane ls)) (qs_lanes s)\<rparr>
      in notifyActiveTaskWaiters (fold (drainLane clock) lanesToDrain s1))"

definition resetCommandQueueStateForTest :: "queue_state \<Rightarrow> queue_state" where
  "resetCommandQueueStateForTest s =
     (fold (\<lambda>w. resolveActiveTaskWaiter (aw_id w) True) (qs_waiters s)
        (s\<lparr>qs_gatewayDraining := False, qs_lanes := []\<rparr>))\<lparr>qs_nextTaskId := 1\<rparr>"

definition getActiveTaskCount :: "queue_state \<Rightarrow> nat" where
  "getActiveTaskCount s = sum_list (map (\<lambda>(_, ls). length (ln_activeTaskIds ls)) (qs_lanes s))"

definition waitForActiveTasks :: "nat \<Rightarrow> ms \<Rightarrow> queue_state \<Rightarrow> queue_state" where
  "waitForActiveTasks w timeoutMs s =
     (let activeAtStart = remdups (concat (map (\<lambda>(_, ls). ln_activeTaskIds ls) (qs_lanes s))) in
      if activeAtStart = [] then record_events [WaiterResolved w True] s
      else if timeoutMs \<le> 0 then record_events [WaiterResolved w False] s
      else notifyActiveTaskWaiters (s\<lparr>qs_waiters := qs_waiters s @ [\<lparr>aw_id = w, aw_activeTaskIds = activeAtStart\<rparr>]\<rparr>))"

subsection \<open>A task answers\<close>

definition completeTask :: "inflight_task \<Rightarrow> queue_state \<Rightarrow> bool \<times> queue_state" where
  "completeTask t s =
     (let ls = getLaneState (if_lane t) s in
      if if_generation t \<noteq> ln_generation ls then (False, s)
      else (True, put_lane (if_lane t) (ls\<lparr>ln_activeTaskIds := removeAll (if_taskId t) (ln_activeTaskIds ls)\<rparr>) s))"

definition task_answers :: "(nat \<Rightarrow> ms) \<Rightarrow> inflight_task \<Rightarrow> string option \<Rightarrow> queue_state \<Rightarrow> queue_state" where
  "task_answers clock t failure s =
     (let s0 = s\<lparr>qs_inflight := remove1 t (qs_inflight s)\<rparr>;
          (completedCurrentGeneration, s1) = completeTask t s0;
          s2 = (if completedCurrentGeneration then pump clock (if_lane t) (notifyActiveTaskWaiters s1) else s1)
      in record_events [case failure of None \<Rightarrow> TaskResolved (if_ticket t) | Some e \<Rightarrow> TaskRejected (if_ticket t) (TaskError e)] s2)"

subsection \<open>The machine\<close>

datatype queue_call =
    QEnqueue string nat ms "ms option" bool
  | QAnswer inflight_task "string option"
  | QSetConcurrency string js_num
  | QClear string
  | QReset
  | QMarkDraining
  | QWait nat ms
  | QWaitTimeout nat

definition queue_step :: "(nat \<Rightarrow> ms) \<Rightarrow> queue_state \<Rightarrow> queue_call \<Rightarrow> queue_state" where
  "queue_step clock s call =
     (case call of
        QEnqueue lane ticket now warnAfterMs hasOnWait \<Rightarrow> enqueueCommandInLane clock lane ticket now warnAfterMs hasOnWait s
      | QAnswer t failure \<Rightarrow> task_answers clock t failure s
      | QSetConcurrency lane n \<Rightarrow> setCommandLaneConcurrency clock lane n s
      | QClear lane \<Rightarrow> snd (clearCommandLane lane s)
      | QReset \<Rightarrow> resetAllLanes clock s
      | QMarkDraining \<Rightarrow> markGatewayDraining s
      | QWait w timeoutMs \<Rightarrow> waitForActiveTasks w timeoutMs s
      | QWaitTimeout w \<Rightarrow> resolveActiveTaskWaiter w False s)"

text \<open>Only a task in flight can answer.\<close>

definition queue_allowed :: "queue_state \<Rightarrow> queue_call \<Rightarrow> bool" where
  "queue_allowed s call = (case call of QAnswer t _ \<Rightarrow> t \<in> set (qs_inflight s) | _ \<Rightarrow> True)"

end
