(* ===== verification/Command_Queue_Facts.thy ===== *)
theory Command_Queue_Facts
  imports Command_Queue "HOL-Library.Multiset"
begin

text \<open>
  Invariants of the command queue. The abstract queue of a lane is what replaying the trace
  gives (first in, first out); the books are balanced when every ticket is waiting, running or
  settled, once; a lane is busy when nothing waits in it that could run.
\<close>

subsection \<open>The abstract queue\<close>

fun replay_event :: "string \<Rightarrow> queue_event \<Rightarrow> nat list option \<Rightarrow> nat list option" where
  "replay_event lane (Enqueued l t) q = (if l = lane then map_option (\<lambda>ts. ts @ [t]) q else q)"
| "replay_event lane (TaskStart l t) q =
     (if l = lane then (case q of Some (x # ts) \<Rightarrow> if x = t then Some ts else None | _ \<Rightarrow> None) else q)"
| "replay_event lane (Cleared l ts) q = (if l = lane then (if q = Some ts then Some [] else None) else q)"
| "replay_event lane _ q = q"

definition replay :: "string \<Rightarrow> queue_event list \<Rightarrow> nat list option" where
  "replay lane trace = fold (replay_event lane) trace (Some [])"

definition waiting :: "string \<Rightarrow> queue_state \<Rightarrow> nat list" where
  "waiting lane s = map en_ticket (ln_queue (getLaneState lane s))"

definition active_in :: "string \<Rightarrow> queue_state \<Rightarrow> nat list" where
  "active_in lane s = ln_activeTaskIds (getLaneState lane s)"

text \<open>The tasks of a lane that run in its present generation.\<close>

definition running_now :: "string \<Rightarrow> queue_state \<Rightarrow> inflight_task list" where
  "running_now lane s =
     filter (\<lambda>t. if_lane t = lane \<and> if_generation t = ln_generation (getLaneState lane s)) (qs_inflight s)"

definition queue_base :: "queue_state \<Rightarrow> bool" where
  "queue_base s \<longleftrightarrow>
     (\<forall>lane. replay lane (qs_trace s) = Some (waiting lane s)) \<and>
     (\<forall>lane. active_in lane s = map if_taskId (running_now lane s)) \<and>
     (\<forall>lane. ln_lane (getLaneState lane s) = lane) \<and>
     (\<forall>t \<in> set (qs_inflight s). if_generation t \<le> ln_generation (getLaneState (if_lane t) s) \<and> if_taskId t < qs_nextTaskId s) \<and>
     distinct (map if_taskId (qs_inflight s))"

definition lane_settled :: "string \<Rightarrow> queue_state \<Rightarrow> bool" where
  "lane_settled lane s \<longleftrightarrow>
     (let ls = getLaneState lane s in
      \<not> ln_draining ls \<and> (ln_queue ls = [] \<or> \<not> below_limit (length (ln_activeTaskIds ls)) (ln_maxConcurrent ls)))"

definition queue_inv :: "queue_state \<Rightarrow> bool" where
  "queue_inv s \<longleftrightarrow> queue_base s \<and> (\<forall>lane. lane_settled lane s)"

subsection \<open>Fields\<close>

lemma jm_get_set_if: "jm_get (jm_set m k v) k' = (if k' = k then Some v else jm_get m k')"
  by (simp add: jm_get_def jm_set_def update_conv')

lemma lane_put [simp]: "getLaneState l (put_lane l' ls s) = (if l = l' then ls else getLaneState l s)"
  by (simp add: getLaneState_def put_lane_def jm_get_set_if)

lemma put_lane_fields [simp]:
  "qs_trace (put_lane l ls s) = qs_trace s" "qs_inflight (put_lane l ls s) = qs_inflight s"
  "qs_nextTaskId (put_lane l ls s) = qs_nextTaskId s" "qs_waiters (put_lane l ls s) = qs_waiters s"
  "qs_gatewayDraining (put_lane l ls s) = qs_gatewayDraining s"
  by (simp_all add: put_lane_def)

lemma note_fields [simp]:
  "getLaneState l (record_events es s) = getLaneState l s" "qs_trace (record_events es s) = qs_trace s @ es"
  "qs_inflight (record_events es s) = qs_inflight s" "qs_nextTaskId (record_events es s) = qs_nextTaskId s"
  "qs_lanes (record_events es s) = qs_lanes s" "qs_waiters (record_events es s) = qs_waiters s"
  "qs_gatewayDraining (record_events es s) = qs_gatewayDraining s"
  by (simp_all add: record_events_def getLaneState_def)

lemma lane_of_update [simp]:
  "getLaneState l (s\<lparr>qs_nextTaskId := n\<rparr>) = getLaneState l s" "getLaneState l (s\<lparr>qs_inflight := i\<rparr>) = getLaneState l s"
  "getLaneState l (s\<lparr>qs_nextTaskId := n, qs_inflight := i\<rparr>) = getLaneState l s"
  "getLaneState l (s\<lparr>qs_waiters := w\<rparr>) = getLaneState l s" "getLaneState l (s\<lparr>qs_gatewayDraining := b\<rparr>) = getLaneState l s"
  by (simp_all add: getLaneState_def)

lemma resolveActiveTaskWaiter_fields [simp]:
  "getLaneState l (resolveActiveTaskWaiter w b s) = getLaneState l s"
  "qs_inflight (resolveActiveTaskWaiter w b s) = qs_inflight s" "qs_nextTaskId (resolveActiveTaskWaiter w b s) = qs_nextTaskId s"
  "qs_lanes (resolveActiveTaskWaiter w b s) = qs_lanes s"
  by (simp_all add: resolveActiveTaskWaiter_def)

lemma notify_induct:
  assumes "\<And>w s. P s \<Longrightarrow> P (resolveActiveTaskWaiter w True s)" "P s"
  shows "P (notifyActiveTaskWaiters s)"
proof -
  have "P s \<Longrightarrow> P (fold (\<lambda>w s. if aw_activeTaskIds w = [] \<or> \<not> hasPendingActiveTasks s (aw_activeTaskIds w)
                 then resolveActiveTaskWaiter (aw_id w) True s else s) ws s)" for ws s
    using assms(1) by (induction ws arbitrary: s) auto
  then show ?thesis using assms(2) by (simp add: notifyActiveTaskWaiters_def)
qed

lemma notify_fields [simp]:
  "getLaneState l (notifyActiveTaskWaiters s) = getLaneState l s"
  "qs_inflight (notifyActiveTaskWaiters s) = qs_inflight s"
  "qs_nextTaskId (notifyActiveTaskWaiters s) = qs_nextTaskId s"
  by (rule notify_induct [of "\<lambda>t. getLaneState l t = getLaneState l s"]
      notify_induct [of "\<lambda>t. qs_inflight t = qs_inflight s"] notify_induct [of "\<lambda>t. qs_nextTaskId t = qs_nextTaskId s"]; simp)+

subsection \<open>The invariant of the books\<close>

lemma replay_append: "replay lane (es @ fs) = fold (replay_event lane) fs (replay lane es)"
  by (simp add: replay_def)

lemma replay_warning [simp]: "fold (replay_event lane) (wait_warning e n k) q = q"
  by (simp add: wait_warning_def Let_def)

lemma base_note_other:
  "queue_base s \<Longrightarrow> (\<And>lane q. fold (replay_event lane) es q = q) \<Longrightarrow> queue_base (record_events es s)"
  by (simp add: queue_base_def waiting_def active_in_def running_now_def replay_append)

lemma base_waiter: "queue_base s \<Longrightarrow> queue_base (resolveActiveTaskWaiter w b s)"
  using base_note_other [of "s\<lparr>qs_waiters := filter (\<lambda>x. aw_id x \<noteq> w) (qs_waiters s)\<rparr>" "[WaiterResolved w b]"]
  by (simp add: resolveActiveTaskWaiter_def queue_base_def waiting_def active_in_def running_now_def)

lemma base_notify: "queue_base s \<Longrightarrow> queue_base (notifyActiveTaskWaiters s)"
  by (rule notify_induct) (auto intro: base_waiter)

lemma base_put_limits:
  "queue_base s \<Longrightarrow> ln_queue ls = ln_queue (getLaneState l s) \<Longrightarrow> ln_activeTaskIds ls = ln_activeTaskIds (getLaneState l s) \<Longrightarrow>
   ln_generation ls = ln_generation (getLaneState l s) \<Longrightarrow> ln_lane ls = l \<Longrightarrow> queue_base (put_lane l ls s)"
  by (auto simp: queue_base_def waiting_def active_in_def running_now_def)

lemma base_set_draining: "queue_base s \<Longrightarrow> queue_base (set_draining b l s)"
  unfolding set_draining_def by (rule base_put_limits) (auto simp: queue_base_def)

lemma start_entry_base:
  assumes "queue_base s" "ln_queue (getLaneState lane s) = e # rest"
  shows "queue_base (start_entry clock lane e rest s)" "ln_queue (getLaneState lane (start_entry clock lane e rest s)) = rest"
proof -
  show "ln_queue (getLaneState lane (start_entry clock lane e rest s)) = rest"
    by (simp add: start_entry_def Let_def)
  have "replay lane (qs_trace s) = Some (en_ticket e # map en_ticket rest)"
    using assms by (simp add: queue_base_def waiting_def)
  moreover have "qs_nextTaskId s \<notin> if_taskId ` set (qs_inflight s)"
    using assms(1) by (auto simp: queue_base_def)
  ultimately show "queue_base (start_entry clock lane e rest s)"
    using assms
    by (auto simp: queue_base_def start_entry_def Let_def waiting_def active_in_def running_now_def replay_append less_Suc_eq)
qed

lemma pump_entries_base:
  "queue_base s \<Longrightarrow> ln_queue (getLaneState lane s) = es \<Longrightarrow> queue_base (pump_entries clock lane es s)"
proof (induction clock lane es s rule: pump_entries.induct)
  case (2 clock lane e rest s)
  then show ?case using start_entry_base [of s lane e rest clock] by simp
qed simp

lemma pump_base: "queue_base s \<Longrightarrow> queue_base (pump clock lane s)"
  by (simp add: pump_def base_set_draining pump_entries_base)

lemma drain_base: "queue_base s \<Longrightarrow> queue_base (drainLane clock lane s)"
  by (simp add: drainLane_def pump_base base_set_draining)

lemma drains_base: "queue_base s \<Longrightarrow> queue_base (fold (drainLane clock) lanes s)"
  by (induction lanes arbitrary: s) (simp_all add: drain_base)

subsection \<open>Lanes do not keep work waiting\<close>

lemma start_entry_other: "l \<noteq> lane \<Longrightarrow> getLaneState l (start_entry clock lane e rest s) = getLaneState l s"
  by (simp add: start_entry_def Let_def)

lemma pump_entries_other: "l \<noteq> lane \<Longrightarrow> getLaneState l (pump_entries clock lane es s) = getLaneState l s"
  by (induction es arbitrary: s) (simp_all add: start_entry_other)

lemma pump_entries_stops:
  "ln_queue (getLaneState lane s) = es \<Longrightarrow>
   (let ls = getLaneState lane (pump_entries clock lane es s) in
    ln_queue ls = [] \<or> \<not> below_limit (length (ln_activeTaskIds ls)) (ln_maxConcurrent ls))"
proof (induction clock lane es s rule: pump_entries.induct)
  case (2 clock lane e rest s)
  then show ?case by (auto simp: Let_def start_entry_def)
qed simp

lemma pump_settles:
  "lane_settled lane (pump clock lane s)"
  "l \<noteq> lane \<Longrightarrow> lane_settled l (pump clock lane s) = lane_settled l s"
  using pump_entries_stops [of lane s _ clock]
  by (auto simp: lane_settled_def pump_def set_draining_def Let_def pump_entries_other)

lemma drain_settles:
  "\<not> ln_draining (getLaneState lane s) \<Longrightarrow> lane_settled lane (drainLane clock lane s)"
  "lane_settled l s \<Longrightarrow> lane_settled l (drainLane clock lane s)"
proof -
  show "lane_settled lane (drainLane clock lane s)" if "\<not> ln_draining (getLaneState lane s)"
    using that pump_settles(1) by (simp add: drainLane_def)
  show "lane_settled l (drainLane clock lane s)" if "lane_settled l s"
    using that pump_settles(1) [where clock = clock and lane = lane and s = "set_draining True lane s"]
      pump_settles(2) [where l = l and clock = clock and lane = lane and s = "set_draining True lane s"]
    by (cases "l = lane") (auto simp: drainLane_def lane_settled_def set_draining_def Let_def)
qed

lemma drains_settle:
  "lane_settled l s \<Longrightarrow> lane_settled l (fold (drainLane clock) lanes s)"
  "l \<in> set lanes \<Longrightarrow> \<forall>k. \<not> ln_draining (getLaneState k s) \<Longrightarrow> lane_settled l (fold (drainLane clock) lanes s)"
proof -
  have keep: "lane_settled l s \<Longrightarrow> lane_settled l (fold (drainLane clock) lanes s)" for l lanes s
    by (induction lanes arbitrary: s) (simp_all add: drain_settles(2))
  then show "lane_settled l s \<Longrightarrow> lane_settled l (fold (drainLane clock) lanes s)" by blast
  have idle: "\<forall>k. \<not> ln_draining (getLaneState k (drainLane clock lane s))" if "\<forall>k. \<not> ln_draining (getLaneState k s)" for lane s
    using that drain_settles(1) [of lane s clock]
    by (auto simp: drainLane_def lane_settled_def Let_def pump_def set_draining_def pump_entries_other)
  show "lane_settled l (fold (drainLane clock) lanes s)" if "l \<in> set lanes" "\<forall>k. \<not> ln_draining (getLaneState k s)"
    using that
  proof (induction lanes arbitrary: s)
    case (Cons lane lanes)
    then show ?case
      using drain_settles(1) [of lane s clock] idle [of s lane] keep [of lane "drainLane clock lane s" lanes] by auto
  qed simp
qed

subsection \<open>Every operation keeps the invariant\<close>

lemma settled_fields: "getLaneState l t = getLaneState l s \<Longrightarrow> lane_settled l t = lane_settled l s"
  by (simp add: lane_settled_def)

lemma inv_lane: "queue_inv s \<Longrightarrow> \<not> ln_draining (getLaneState lane s)"
  by (auto simp: queue_inv_def lane_settled_def Let_def)

lemma inv_drain_put:
  assumes "queue_inv s" "queue_base (put_lane lane ls (record_events es s))" "\<not> ln_draining ls"
  shows "queue_inv (drainLane clock lane (put_lane lane ls (record_events es s)))"
proof -
  let ?t = "put_lane lane ls (record_events es s)"
  have "lane_settled l (drainLane clock lane ?t)" for l
    using assms drain_settles(1) [of lane ?t clock] drain_settles(2) [of l ?t clock lane] settled_fields [of l ?t s]
    by (cases "l = lane") (auto simp: queue_inv_def)
  then show ?thesis using drain_base [OF assms(2)] by (simp add: queue_inv_def)
qed

lemma put_note: "record_events es (put_lane l ls s) = put_lane l ls (record_events es s)"
  by (simp add: record_events_def put_lane_def)

lemma inv_note: "queue_inv s \<Longrightarrow> (\<And>lane q. fold (replay_event lane) es q = q) \<Longrightarrow> queue_inv (record_events es s)"
  by (simp add: queue_inv_def base_note_other settled_fields [of _ "record_events es s" s])

lemma base_enqueue:
  assumes "queue_base s"
  shows "queue_base (put_lane l ((getLaneState l s)\<lparr>ln_queue := ln_queue (getLaneState l s) @ [e]\<rparr>)
    (record_events [Enqueued l (en_ticket e)] s))"
  using assms by (auto simp: queue_base_def waiting_def active_in_def running_now_def replay_append)

lemma inv_enqueue: "queue_inv s \<Longrightarrow> queue_inv (enqueueCommandInLane clock lane ticket now w b s)"
  using inv_drain_put [OF _ base_enqueue [of s "normalizeLane lane" "\<lparr>en_ticket = ticket, en_enqueuedAt = now,
    en_warnAfterMs = js_or_else w 2000, en_hasOnWait = b\<rparr>"]] inv_lane [of s]
  by (auto simp: enqueueCommandInLane_def Let_def put_note queue_inv_def [of s] intro!: inv_note)

lemma inv_concurrency: "queue_inv s \<Longrightarrow> queue_inv (setCommandLaneConcurrency clock lane n s)"
proof -
  assume inv: "queue_inv s"
  let ?l = "normalizeLane lane"
  let ?ls = "(getLaneState ?l s)\<lparr>ln_maxConcurrent := clamp_limit n\<rparr>"
  have "queue_base (put_lane ?l ?ls s)"
    using inv by (intro base_put_limits) (auto simp: queue_inv_def queue_base_def)
  then have "queue_inv (drainLane clock ?l (put_lane ?l ?ls (record_events [] s)))"
    using inv inv_lane [OF inv] by (intro inv_drain_put) (simp_all add: record_events_def)
  then show ?thesis by (simp add: setCommandLaneConcurrency_def Let_def record_events_def)
qed

lemma fold_rejections: "fold (replay_event lane) (map (\<lambda>t. TaskRejected t err) ts) q = q"
  by (induction ts) simp_all

lemma inv_clear: "queue_inv s \<Longrightarrow> queue_inv (snd (clearCommandLane lane s))"
proof (cases "jm_get (qs_lanes s) (normalizeLane lane)")
  case (Some ls)
  assume inv: "queue_inv s"
  let ?l = "normalizeLane lane"
  have ls: "getLaneState ?l s = ls" using Some by (simp add: getLaneState_def)
  let ?es = "Cleared ?l (map en_ticket (ln_queue ls)) #
    map (\<lambda>t. TaskRejected t (CommandLaneClearedError ?l)) (map en_ticket (ln_queue ls))"
  have "queue_base (put_lane ?l (ls\<lparr>ln_queue := []\<rparr>) (record_events ?es s))"
    using inv ls by (auto simp: queue_inv_def queue_base_def waiting_def active_in_def running_now_def replay_append
        fold_rejections simp del: map_map)
  moreover have "lane_settled l (put_lane ?l (ls\<lparr>ln_queue := []\<rparr>) (record_events ?es s))" for l
    using inv ls inv_lane [OF inv, of ?l] by (auto simp: queue_inv_def lane_settled_def Let_def)
  ultimately show ?thesis
    using Some by (simp add: clearCommandLane_def Let_def queue_inv_def put_note)
qed (simp add: clearCommandLane_def)

lemma inv_waiters:
  "queue_inv s \<Longrightarrow> queue_inv (resolveActiveTaskWaiter w b s)"
  "queue_inv s \<Longrightarrow> queue_inv (notifyActiveTaskWaiters s)"
  "queue_inv s \<Longrightarrow> queue_inv (waitForActiveTasks w timeoutMs s)"
proof -
  show r: "queue_inv s \<Longrightarrow> queue_inv (resolveActiveTaskWaiter w b s)" for s w b
    by (simp add: queue_inv_def base_waiter settled_fields [of _ "resolveActiveTaskWaiter w b s" s])
  then show n: "queue_inv s \<Longrightarrow> queue_inv (notifyActiveTaskWaiters s)" for s
    by (rule notify_induct)
  have "queue_inv s \<Longrightarrow> queue_inv (s\<lparr>qs_waiters := ws\<rparr>)" for ws
    by (simp add: queue_inv_def queue_base_def waiting_def active_in_def running_now_def lane_settled_def)
  then show "queue_inv s \<Longrightarrow> queue_inv (waitForActiveTasks w timeoutMs s)"
    by (auto simp: waitForActiveTasks_def Let_def intro!: n inv_note)
qed

lemma lane_reset:
  "getLaneState l (s\<lparr>qs_gatewayDraining := b, qs_lanes := map (\<lambda>(k, ls). (k, reset_lane ls)) (qs_lanes s)\<rparr>) =
   (case jm_get (qs_lanes s) l of None \<Rightarrow> new_lane l | Some ls \<Rightarrow> reset_lane ls)"
proof -
  have "jm_get (map (\<lambda>(k, ls). (k, reset_lane ls)) m) l = map_option reset_lane (jm_get m l)" for m
    by (simp add: jm_get_def map_of_map)
  then show ?thesis by (simp add: getLaneState_def split: option.split)
qed

lemma inv_reset:
  assumes "queue_inv s"
  shows "queue_inv (resetAllLanes clock s)"
proof -
  let ?s1 = "s\<lparr>qs_gatewayDraining := False, qs_lanes := map (\<lambda>(k, ls). (k, reset_lane ls)) (qs_lanes s)\<rparr>"
  let ?lanes = "map (\<lambda>(_, ls). ln_lane ls) (filter (\<lambda>(_, ls). ln_queue ls \<noteq> []) (qs_lanes s))"
  have base: "queue_base s" using assms by (simp add: queue_inv_def)
  have lane0: "ln_lane (getLaneState l s) = l" for l using base by (simp add: queue_base_def)
  have ls1: "getLaneState l ?s1 = (if jm_get (qs_lanes s) l = None then new_lane l else reset_lane (getLaneState l s))" for l
    unfolding lane_reset by (simp add: getLaneState_def split: option.split)
  have none: "getLaneState l s = new_lane l" if "jm_get (qs_lanes s) l = None" for l
    using that by (simp add: getLaneState_def)
  have lane: "ln_queue (getLaneState l ?s1) = ln_queue (getLaneState l s)" "ln_lane (getLaneState l ?s1) = l"
    "ln_activeTaskIds (getLaneState l ?s1) = []" "\<not> ln_draining (getLaneState l ?s1)" for l
    using lane0 [of l] none [of l] unfolding ls1 by (simp_all add: reset_lane_def new_lane_def)
  have gen: "ln_generation (getLaneState l s) \<le> ln_generation (getLaneState l ?s1)"
    "running_now l ?s1 = []" for l
  proof -
    show "ln_generation (getLaneState l s) \<le> ln_generation (getLaneState l ?s1)"
      unfolding ls1 by (simp add: none reset_lane_def)
    show "running_now l ?s1 = []"
    proof (cases "jm_get (qs_lanes s) l")
      case None
      then have "running_now l ?s1 = running_now l s" by (simp add: running_now_def ls1 none)
      moreover have "active_in l s = []" using None by (simp add: active_in_def getLaneState_def new_lane_def)
      ultimately show ?thesis using base by (metis queue_base_def Nil_is_map_conv)
    next
      case (Some ls)
      then have "ln_generation (getLaneState l ?s1) = ln_generation (getLaneState l s) + 1"
        unfolding ls1 by (simp add: reset_lane_def)
      then show ?thesis using base by (fastforce simp: running_now_def queue_base_def filter_empty_conv)
    qed
  qed
  have b1: "queue_base ?s1"
    using base lane gen by (auto simp: queue_base_def waiting_def active_in_def intro: order_trans)
  have "lane_settled l (fold (drainLane clock) ?lanes ?s1)" for l
  proof (cases "ln_queue (getLaneState l s) = []")
    case True
    then have "lane_settled l ?s1" using lane [of l] by (simp add: lane_settled_def Let_def)
    then show ?thesis by (rule drains_settle(1))
  next
    case False
    then obtain ls where ls: "jm_get (qs_lanes s) l = Some ls" "ln_queue ls \<noteq> []"
      by (cases "jm_get (qs_lanes s) l") (auto simp: getLaneState_def new_lane_def)
    moreover have "ln_lane ls = l" using base ls by (auto simp: queue_base_def getLaneState_def dest: spec [of _ l])
    ultimately have "l \<in> set ?lanes" using jm_get_mem [OF ls(1)] by force
    then show ?thesis using lane by (intro drains_settle(2)) auto
  qed
  then have "queue_inv (fold (drainLane clock) ?lanes ?s1)" using drains_base [OF b1] by (simp add: queue_inv_def)
  then show ?thesis using inv_waiters(2) by (simp add: resetAllLanes_def Let_def)
qed

lemma inv_answer:
  assumes "queue_inv s" "t \<in> set (qs_inflight s)"
  shows "queue_inv (task_answers clock t failure s)"
proof -
  let ?l = "if_lane t" let ?g = "getLaneState ?l s"
  let ?s0 = "s\<lparr>qs_inflight := remove1 t (qs_inflight s)\<rparr>"
  have base: "queue_base s" and dist: "distinct (map if_taskId (qs_inflight s))"
    using assms(1) by (auto simp: queue_inv_def queue_base_def)
  then have "distinct (qs_inflight s)" by (simp add: distinct_map)
  then have rm: "remove1 t (qs_inflight s) = filter (\<lambda>u. u \<noteq> t) (qs_inflight s)"
    by (simp add: distinct_remove1_removeAll removeAll_filter_not_eq) (metis (no_types))
  have idt: "if_taskId u = if_taskId t \<longleftrightarrow> u = t" "if_taskId t = if_taskId u \<longleftrightarrow> u = t" if "u \<in> set (qs_inflight s)" for u
    using dist assms(2) that by (auto simp: distinct_map inj_on_def)
  have sub: "distinct (map if_taskId (filter P (qs_inflight s)))" for P
    using dist by (simp add: distinct_map_filter)
  show ?thesis
  proof (cases "if_generation t = ln_generation ?g")
    case False
    have "running_now l ?s0 = running_now l s" for l
      using False by (auto simp: running_now_def rm intro!: filter_cong)
    then have "queue_base ?s0" using base sub by (auto simp: queue_base_def waiting_def active_in_def rm)
    then have "queue_inv ?s0"
      using assms(1) by (simp add: queue_inv_def settled_fields [of _ ?s0 s])
    then show ?thesis using False
      by (auto simp: task_answers_def completeTask_def Let_def intro!: inv_note split: option.split)
  next
    case True
    let ?s1 = "put_lane ?l (?g\<lparr>ln_activeTaskIds := removeAll (if_taskId t) (ln_activeTaskIds ?g)\<rparr>) ?s0"
    have act: "removeAll (if_taskId t) (map if_taskId xs) = map if_taskId (filter (\<lambda>u. u \<noteq> t) xs)"
      if "set xs \<subseteq> set (qs_inflight s)" for xs
      using that by (induction xs) (auto simp: idt)
    have run: "running_now l ?s1 = filter (\<lambda>u. u \<noteq> t) (running_now l s)" for l
      by (auto simp: running_now_def rm intro!: filter_cong)
    have other: "l \<noteq> ?l \<Longrightarrow> filter (\<lambda>u. u \<noteq> t) (running_now l s) = running_now l s" for l
      by (auto simp: running_now_def intro!: filter_cong)
    have active: "active_in l ?s1 = map if_taskId (running_now l ?s1)" for l
    proof -
      have "active_in l s = map if_taskId (running_now l s)" using base by (simp add: queue_base_def)
      moreover have "set (running_now l s) \<subseteq> set (qs_inflight s)" by (auto simp: running_now_def)
      ultimately show ?thesis
        using act [of "running_now l s"] other [of l] unfolding run by (cases "l = ?l") (simp_all add: active_in_def)
    qed
    have "queue_base ?s1"
      using base sub active by (auto simp: queue_base_def waiting_def rm)
    then have "queue_base (pump clock ?l (notifyActiveTaskWaiters ?s1))" by (intro pump_base base_notify)
    moreover have "lane_settled l (pump clock ?l (notifyActiveTaskWaiters ?s1))" for l
      using assms(1) pump_settles(1) [of ?l clock "notifyActiveTaskWaiters ?s1"]
        pump_settles(2) [where l = l and lane = ?l and clock = clock and s = "notifyActiveTaskWaiters ?s1"]
        settled_fields [of l "notifyActiveTaskWaiters ?s1" s]
      by (cases "l = ?l") (auto simp: queue_inv_def)
    ultimately have "queue_inv (pump clock ?l (notifyActiveTaskWaiters ?s1))" by (simp add: queue_inv_def)
    then show ?thesis using True
      by (auto simp: task_answers_def completeTask_def Let_def intro!: inv_note split: option.split)
  qed
qed

lemma inv_mark: "queue_inv s \<Longrightarrow> queue_inv (markGatewayDraining s)"
  by (simp add: markGatewayDraining_def queue_inv_def queue_base_def waiting_def active_in_def running_now_def
      lane_settled_def)

lemma inv_initial: "queue_inv initial_queue_state"
  by (simp add: queue_inv_def queue_base_def initial_queue_state_def replay_def waiting_def active_in_def running_now_def
      lane_settled_def getLaneState_def new_lane_def jm_get_def)

interpretation queue: step_machine "queue_step clock" queue_allowed queue_inv for clock
proof
  fix s call assume "queue_inv s" "queue_allowed s call"
  then show "queue_inv (queue_step clock s call)"
    by (cases call)
      (simp_all add: queue_step_def queue_allowed_def inv_enqueue inv_answer inv_concurrency inv_clear inv_reset inv_waiters
        inv_mark)
qed

end
