(* ===== verification/Command_Queue_Properties.thy ===== *)
theory Command_Queue_Properties
  imports Command_Queue_Facts
begin

text \<open>
  What the command queue promises: lanes are first in, first out, no command is lost or run
  twice, a lane never exceeds its limit by starting commands, and nothing waits in a lane that
  could run.
\<close>

subsection \<open>Started and answered commands\<close>

definition started_tickets :: "queue_event list \<Rightarrow> nat list" where
  "started_tickets trace = concat (map (\<lambda>e. case e of TaskStart _ t \<Rightarrow> [t] | _ \<Rightarrow> []) trace)"

definition answered_tickets :: "queue_event list \<Rightarrow> nat list" where
  "answered_tickets trace =
     concat (map (\<lambda>e. case e of TaskResolved t \<Rightarrow> [t] | TaskRejected t (TaskError _) \<Rightarrow> [t] | _ \<Rightarrow> []) trace)"

lemma ticket_lists [simp]:
  "started_tickets (es @ fs) = started_tickets es @ started_tickets fs"
  "answered_tickets (es @ fs) = answered_tickets es @ answered_tickets fs"
  by (simp_all add: started_tickets_def answered_tickets_def)

definition balanced :: "queue_state \<Rightarrow> bool" where
  "balanced s \<longleftrightarrow>
     mset (started_tickets (qs_trace s)) = mset (map if_ticket (qs_inflight s)) + mset (answered_tickets (qs_trace s))"

lemma balanced_note:
  "balanced s \<Longrightarrow> started_tickets es = [] \<Longrightarrow> answered_tickets es = [] \<Longrightarrow> balanced (record_events es s)"
  by (simp add: balanced_def)

lemma balanced_put [simp]: "balanced (put_lane l ls s) = balanced s"
  by (simp add: balanced_def)

lemma balanced_waiter: "balanced s \<Longrightarrow> balanced (resolveActiveTaskWaiter w b s)"
  by (simp add: resolveActiveTaskWaiter_def balanced_def started_tickets_def answered_tickets_def)

lemma balanced_notify: "balanced s \<Longrightarrow> balanced (notifyActiveTaskWaiters s)"
  by (rule notify_induct) (auto intro: balanced_waiter)

lemma balanced_start: "balanced s \<Longrightarrow> balanced (start_entry clock lane e rest s)"
  by (simp add: balanced_def start_entry_def Let_def started_tickets_def answered_tickets_def wait_warning_def)

lemma balanced_pump: "balanced s \<Longrightarrow> balanced (pump clock lane s)"
proof -
  have "balanced s \<Longrightarrow> balanced (pump_entries clock lane es s)" for es s
    by (induction es arbitrary: s) (simp_all add: balanced_start)
  then show "balanced s \<Longrightarrow> balanced (pump clock lane s)" by (simp add: pump_def set_draining_def)
qed

lemma balanced_drain: "balanced s \<Longrightarrow> balanced (drainLane clock lane s)"
  by (simp add: drainLane_def balanced_pump set_draining_def)

lemma balanced_drains: "balanced s \<Longrightarrow> balanced (fold (drainLane clock) lanes s)"
  by (induction lanes arbitrary: s) (simp_all add: balanced_drain)

lemma balanced_answer:
  assumes "balanced s" "t \<in> set (qs_inflight s)"
  shows "balanced (task_answers clock t failure s)"
proof -
  let ?e = "case failure of None \<Rightarrow> TaskResolved (if_ticket t) | Some e \<Rightarrow> TaskRejected (if_ticket t) (TaskError e)"
  define owed where "owed u \<longleftrightarrow>
     mset (started_tickets (qs_trace u)) = mset (map if_ticket (qs_inflight u)) + mset (answered_tickets (qs_trace u)) + {#if_ticket t#}" for u :: queue_state
  have "mset (map if_ticket (qs_inflight s)) = mset (map if_ticket (remove1 t (qs_inflight s))) + {#if_ticket t#}"
    using assms(2) by (metis add_mset_add_single image_mset_add_mset insert_DiffM mset_map mset_remove1 set_mset_mset)
  then have o: "owed (s\<lparr>qs_inflight := remove1 t (qs_inflight s)\<rparr>)" using assms(1) by (simp add: owed_def balanced_def)
  have put: "owed (put_lane l ls u) = owed u" for l ls u by (simp add: owed_def)
  have start: "owed u \<Longrightarrow> owed (start_entry clock l e rest u)" for l e rest u
    by (simp add: owed_def start_entry_def Let_def started_tickets_def answered_tickets_def wait_warning_def)
  have "owed u \<Longrightarrow> owed (pump_entries clock l es u)" for l es u
    by (induction es arbitrary: u) (simp_all add: start)
  then have pump: "owed u \<Longrightarrow> owed (pump clock l u)" for l u by (simp add: pump_def set_draining_def put)
  have notify: "owed u \<Longrightarrow> owed (notifyActiveTaskWaiters u)" for u
    by (rule notify_induct) (auto simp: resolveActiveTaskWaiter_def owed_def started_tickets_def answered_tickets_def)
  have close: "owed u \<Longrightarrow> balanced (record_events [?e] u)" for u
    by (auto simp: owed_def balanced_def started_tickets_def answered_tickets_def split: option.split)
  show ?thesis
    using o by (auto simp: task_answers_def completeTask_def Let_def intro!: close pump notify simp: put)
qed

interpretation books: step_machine "queue_step clock" queue_allowed balanced for clock
proof
  fix s call assume b: "balanced s" "queue_allowed s call"
  have rec: "balanced (record_events es s)" if "started_tickets es = []" "answered_tickets es = []" for es
    using b(1) that by (rule balanced_note)
  have waiters: "balanced (s\<lparr>qs_waiters := ws\<rparr>)" "balanced (s\<lparr>qs_gatewayDraining := d, qs_lanes := m\<rparr>)"
    "balanced (s\<lparr>qs_gatewayDraining := d\<rparr>)" for ws d m
    using b(1) by (simp_all add: balanced_def)
  have clear: "started_tickets (Cleared l ts # map (\<lambda>t. TaskRejected t (CommandLaneClearedError l)) us) = []"
    "answered_tickets (Cleared l ts # map (\<lambda>t. TaskRejected t (CommandLaneClearedError l)) us) = []" for l ts us
    by (simp_all add: started_tickets_def answered_tickets_def)
  have single: "started_tickets [Enqueued l t] = []" "answered_tickets [Enqueued l t] = []"
    "started_tickets [TaskRejected t GatewayDrainingError] = []" "answered_tickets [TaskRejected t GatewayDrainingError] = []"
    "started_tickets [WaiterResolved t x] = []" "answered_tickets [WaiterResolved t x] = []" for l t x
    by (simp_all add: started_tickets_def answered_tickets_def)
  show "balanced (queue_step clock s call)"
  proof (cases call)
    case (QAnswer t failure)
    then show ?thesis using b balanced_answer by (simp add: queue_step_def queue_allowed_def)
  next
    case (QClear lane)
    then show ?thesis using b(1) rec clear
      by (auto simp: queue_step_def clearCommandLane_def Let_def put_note simp del: map_map split: option.split)
  qed (use b(1) in \<open>auto simp: queue_step_def enqueueCommandInLane_def setCommandLaneConcurrency_def resetAllLanes_def
      markGatewayDraining_def waitForActiveTasks_def Let_def put_note single
      intro!: balanced_drain balanced_drains balanced_notify balanced_waiter rec waiters\<close>)
qed

subsection \<open>Starting within the limit\<close>

definition limit_of :: "string \<Rightarrow> queue_state \<Rightarrow> js_num" where
  "limit_of lane s = ln_maxConcurrent (getLaneState lane s)"

definition grew_within :: "string \<Rightarrow> queue_state \<Rightarrow> queue_state \<Rightarrow> bool" where
  "grew_within lane s t \<longleftrightarrow>
     length (active_in lane t) \<le> length (active_in lane s) \<or> below_limit (length (active_in lane t) - 1) (limit_of lane t)"

lemma below_limit_less: "m \<le> n \<Longrightarrow> below_limit n x \<Longrightarrow> below_limit m x"
  by (auto simp: below_limit_def split: js_num.splits intro: le_less_trans)

lemma grew_trans: "grew_within l s t \<Longrightarrow> grew_within l t u \<Longrightarrow> limit_of l u = limit_of l t \<Longrightarrow> grew_within l s u"
  unfolding grew_within_def by (metis below_limit_less diff_le_mono order_trans)

lemma pump_limit [simp]: "limit_of l (pump clock lane s) = limit_of l s" "limit_of l (drainLane clock lane s) = limit_of l s"
proof -
  have "limit_of l (pump_entries clock lane es s) = limit_of l s" for es s
    by (induction es arbitrary: s) (simp_all add: limit_of_def start_entry_def Let_def)
  then show p: "limit_of l (pump clock lane s) = limit_of l s" for s
    by (auto simp: pump_def set_draining_def limit_of_def)
  show "limit_of l (drainLane clock lane s) = limit_of l s"
    using p [of "set_draining True lane s"] by (auto simp: drainLane_def set_draining_def limit_of_def)
qed

lemma pump_grows: "grew_within l s (pump clock lane s)"
proof -
  have "grew_within l s (pump_entries clock lane es s)" for es s
  proof (induction es arbitrary: s)
    case (Cons e es)
    have lim: "limit_of l (pump_entries clock lane es u) = limit_of l u" for u
      using pump_limit(1) by (induction es arbitrary: u) (simp_all add: limit_of_def start_entry_def Let_def)
    have "grew_within l s (start_entry clock lane e es s)"
      if "below_limit (length (ln_activeTaskIds (getLaneState lane s))) (ln_maxConcurrent (getLaneState lane s))"
      using that by (auto simp: grew_within_def active_in_def limit_of_def start_entry_def Let_def)
    then show ?case
      using Cons [of "start_entry clock lane e es s"] lim [of "start_entry clock lane e es s"]
      by (auto simp: grew_within_def [of _ s s] intro: grew_trans)
  qed (simp add: grew_within_def)
  then show ?thesis
    by (auto simp: pump_def set_draining_def grew_within_def active_in_def limit_of_def)
qed

lemma drain_grows: "grew_within l s (drainLane clock lane s)"
proof -
  have "active_in l (set_draining True lane s) = active_in l s" by (simp add: active_in_def set_draining_def)
  then show ?thesis using pump_grows [of l "set_draining True lane s" clock lane]
    by (simp add: drainLane_def grew_within_def)
qed

lemma drains_grow: "grew_within l s (fold (drainLane clock) lanes s)"
proof (induction lanes arbitrary: s)
  case (Cons lane lanes)
  have "limit_of l (fold (drainLane clock) lanes u) = limit_of l u" for u
    by (induction lanes arbitrary: u) simp_all
  then show ?case using grew_trans [OF drain_grows [of l s clock lane] Cons] by simp
qed (simp add: grew_within_def)

lemma grew_after: "active_in l t = active_in l s \<Longrightarrow> grew_within l t u \<Longrightarrow> grew_within l s u"
  by (simp add: grew_within_def)

lemma grew_shrunk: "length (active_in l t) \<le> length (active_in l s) \<Longrightarrow> grew_within l t u \<Longrightarrow> grew_within l s u"
  by (auto simp: grew_within_def)

lemma step_grows: "grew_within lane s (queue_step clock s call)"
proof (cases call)
  case (QEnqueue l ticket now w b)
  show ?thesis unfolding QEnqueue queue_step_def enqueueCommandInLane_def Let_def queue_call.case
    by (auto simp: grew_within_def [of _ s "record_events _ _"] active_in_def [of _ "record_events _ _"]
        active_in_def [of _ s] intro!: grew_after [OF _ drain_grows])
next
  case (QAnswer t failure)
  have n: "grew_within lane s (record_events es u) = grew_within lane s u" for es u
    by (simp add: grew_within_def active_in_def limit_of_def)
  have "length (active_in lane (notifyActiveTaskWaiters (snd (completeTask t (s\<lparr>qs_inflight := i\<rparr>))))) \<le> length (active_in lane s)" for i
    by (auto simp: completeTask_def Let_def active_in_def length_removeAll_less_eq)
  moreover have "grew_within lane s (s\<lparr>qs_inflight := i\<rparr>)" for i by (simp add: grew_within_def active_in_def)
  ultimately show ?thesis
    by (auto simp: QAnswer queue_step_def task_answers_def Let_def case_prod_unfold n completeTask_def
        intro: grew_shrunk [OF _ pump_grows])
next
  case (QSetConcurrency l n)
  show ?thesis unfolding QSetConcurrency queue_step_def setCommandLaneConcurrency_def Let_def queue_call.case
    by (rule grew_after [OF _ drain_grows]) (simp add: active_in_def)
next
  case QReset
  let ?s1 = "s\<lparr>qs_gatewayDraining := False, qs_lanes := map (\<lambda>(k, ls). (k, reset_lane ls)) (qs_lanes s)\<rparr>"
  have "active_in lane ?s1 = []"
    unfolding active_in_def lane_reset by (simp add: new_lane_def reset_lane_def split: option.split)
  moreover have "grew_within lane u (notifyActiveTaskWaiters v) = grew_within lane u v" for u v
    by (simp add: grew_within_def active_in_def limit_of_def)
  ultimately show ?thesis
    unfolding QReset queue_step_def resetAllLanes_def Let_def queue_call.case
    by (simp only:) (rule grew_shrunk [OF _ drains_grow], simp)
next
  case (QClear l)
  then show ?thesis
    by (auto simp: queue_step_def clearCommandLane_def Let_def grew_within_def active_in_def getLaneState_def [of _ s]
        split: option.split)
qed (auto simp: queue_step_def markGatewayDraining_def waitForActiveTasks_def Let_def grew_within_def
    active_in_def split: option.split)

subsection \<open>Properties\<close>

text \<open>C24: the lanes refine first-in-first-out queues and lose nothing: after any run, replaying the trace of a lane on
  an abstract queue is defined and gives what waits in the lane, and the commands that were started are, each once,
  those that still run and those that were answered.\<close>

theorem lanes_are_fifo:
  assumes "allowed_run (queue_step clock) queue_allowed initial_queue_state calls"
  shows "let s = foldl (queue_step clock) initial_queue_state calls in
    (\<forall>lane. replay lane (qs_trace s) = Some (waiting lane s)) \<and>
    mset (started_tickets (qs_trace s)) = mset (map if_ticket (qs_inflight s)) + mset (answered_tickets (qs_trace s))"
proof -
  have "balanced initial_queue_state"
    by (simp add: balanced_def initial_queue_state_def started_tickets_def answered_tickets_def)
  from books.inv_run [OF this assms] queue.inv_run [OF inv_initial assms] show ?thesis
    by (simp add: Let_def balanced_def queue_inv_def queue_base_def)
qed

text \<open>Starting commands never exceeds a limit: after any step of any run, the commands of a lane that run in its
  present generation are no more than before, or no more than the limit.\<close>

theorem lanes_start_within_limit:
  assumes "allowed_run (queue_step clock) queue_allowed initial_queue_state (calls @ [call])"
  shows "let s = foldl (queue_step clock) initial_queue_state calls; t = queue_step clock s call in
    length (running_now lane t) \<le> length (running_now lane s) \<or>
    below_limit (length (running_now lane t) - 1) (limit_of lane t)"
proof -
  let ?s = "foldl (queue_step clock) initial_queue_state calls"
  have s: "queue_inv ?s" by (rule queue.inv_along [OF inv_initial assms])
  have t: "queue_inv (queue_step clock ?s call)" using queue.inv_run [OF inv_initial assms] by simp
  have "length (running_now lane u) = length (active_in lane u)" if "queue_inv u" for u
    using that by (simp add: queue_inv_def queue_base_def)
  with s t step_grows [of lane ?s clock call] show ?thesis by (simp add: Let_def grew_within_def)
qed

text \<open>C25: nothing waits that could run: in every reachable state a command waits in a lane only while the lane runs as many
  commands of its present generation as its limit allows, after restarts too.\<close>

theorem lanes_keep_nothing_waiting:
  assumes "allowed_run (queue_step clock) queue_allowed initial_queue_state calls"
  shows "let s = foldl (queue_step clock) initial_queue_state calls in
    waiting lane s = [] \<or> \<not> below_limit (length (running_now lane s)) (limit_of lane s)"
proof -
  have "queue_inv (foldl (queue_step clock) initial_queue_state calls)"
    by (rule queue.inv_run [OF inv_initial assms])
  moreover have "length (running_now lane u) = length (active_in lane u)" if "queue_inv u" for u
    using that by (simp add: queue_inv_def queue_base_def)
  ultimately show ?thesis
    by (auto simp: Let_def queue_inv_def lane_settled_def waiting_def active_in_def limit_of_def)
qed

text \<open>A run for the witnesses: two commands in the main lane, and the answer of the first.\<close>

definition two_commands :: "queue_call list" where
  "two_commands = [QEnqueue ''main'' 7 0 None False, QEnqueue ''main'' 8 0 None False]"

definition first_task :: inflight_task where
  "first_task = \<lparr>if_lane = ''main'', if_taskId = 1, if_generation = 0, if_ticket = 7\<rparr>"

lemma main_lane: "normalizeLane ''main'' = ''main''"
  by code_simp

lemma two_commands_run:
  "waiting ''main'' (foldl (queue_step (\<lambda>_. 0)) initial_queue_state two_commands) = [8]"
  "qs_inflight (foldl (queue_step (\<lambda>_. 0)) initial_queue_state two_commands) = [first_task]"
  "qs_trace (foldl (queue_step (\<lambda>_. 0)) initial_queue_state two_commands) =
     [Enqueued ''main'' 7, TaskStart ''main'' 7, Enqueued ''main'' 8]"
  by (simp_all add: two_commands_def queue_step_def enqueueCommandInLane_def main_lane Let_def initial_queue_state_def
      drainLane_def pump_def set_draining_def start_entry_def wait_warning_def below_limit_def js_int_def new_lane_def
      getLaneState_def [of _ "\<lparr>qs_gatewayDraining = _, qs_lanes = [], qs_waiters = _, qs_nextTaskId = _, qs_inflight = _, qs_trace = _\<rparr>"]
      jm_get_def first_task_def waiting_def)

theorem lanes_are_fifo_witness:
  "replay ''main'' [Enqueued ''main'' 7, TaskStart ''main'' 7, Enqueued ''main'' 8] = Some [8]"
proof -
  have "allowed_run (queue_step (\<lambda>_. 0)) queue_allowed initial_queue_state two_commands"
    by (simp add: two_commands_def queue_allowed_def)
  from lanes_are_fifo [OF this] show ?thesis by (simp add: Let_def two_commands_run)
qed

theorem lanes_start_within_limit_witness:
  "let t = queue_step (\<lambda>_. 0) (foldl (queue_step (\<lambda>_. 0)) initial_queue_state two_commands) (QAnswer first_task None) in
   length (running_now ''main'' t) \<le> length (running_now ''main'' (foldl (queue_step (\<lambda>_. 0)) initial_queue_state two_commands)) \<or>
   below_limit (length (running_now ''main'' t) - 1) (limit_of ''main'' t)"
proof -
  have "queue_allowed (foldl (queue_step (\<lambda>_. 0)) initial_queue_state two_commands) (QAnswer first_task None)"
    by (simp add: queue_allowed_def two_commands_run)
  then have "allowed_run (queue_step (\<lambda>_. 0)) queue_allowed initial_queue_state (two_commands @ [QAnswer first_task None])"
    by (simp add: two_commands_def queue_allowed_def)
  from lanes_start_within_limit [OF this, of "''main''"] show ?thesis by (simp add: Let_def)
qed

theorem lanes_keep_nothing_waiting_witness:
  "\<not> below_limit (length (running_now ''main'' (foldl (queue_step (\<lambda>_. 0)) initial_queue_state two_commands)))
     (limit_of ''main'' (foldl (queue_step (\<lambda>_. 0)) initial_queue_state two_commands))"
proof -
  have "allowed_run (queue_step (\<lambda>_. 0)) queue_allowed initial_queue_state two_commands"
    by (simp add: two_commands_def queue_allowed_def)
  from lanes_keep_nothing_waiting [OF this, of "''main''"] show ?thesis by (simp add: Let_def two_commands_run)
qed

end
