(* ===== verification/Ip_Address.thy ===== *)
theory Ip_Address
  imports String_Coerce "HOL-Library.Word"
begin

text \<open>
  IP addresses: \<open>src/shared/net/ip.ts\<close> and \<open>src/shared/net/ipv4.ts\<close>. The library that parses,
  prints and classifies addresses is not part of the sources; what they use of it are the fields of \<open>ip_lib\<close>.
  An IPv4 address is its four octets, an IPv6 address its eight hextets and its zone. A match
  of the library that throws counts as a failed one, as its callers take it. \<open>net.isIP\<close> is the
  address syntax of the platform.
\<close>

unbundle bit_operations_syntax

subsection \<open>Addresses\<close>

datatype ip_address = V4 "8 word list" | V6 "16 word list" "string option"

record ip_lib =
  il_v4_valid :: "string \<Rightarrow> bool"
  il_v4_four_part :: "string \<Rightarrow> bool"
  il_v4_parse :: "string \<Rightarrow> 8 word list"
  il_v6_valid :: "string \<Rightarrow> bool"
  il_v6_parse :: "string \<Rightarrow> 16 word list \<times> string option"
  il_valid :: "string \<Rightarrow> bool"
  il_parse :: "string \<Rightarrow> ip_address"
  il_range4 :: "8 word list \<Rightarrow> string"
  il_range6 :: "16 word list \<Rightarrow> string"
  il_mapped :: "16 word list \<Rightarrow> 8 word list option"
  il_show :: "ip_address \<Rightarrow> string"
  il_parse_cidr :: "string \<Rightarrow> (ip_address \<times> int) option"
  il_match :: "ip_address \<Rightarrow> ip_address \<Rightarrow> int \<Rightarrow> bool"

definition BLOCKED_IPV4_SPECIAL_USE_RANGES :: "string list" where
  "BLOCKED_IPV4_SPECIAL_USE_RANGES =
     [''unspecified'', ''broadcast'', ''multicast'', ''linkLocal'', ''loopback'', ''carrierGradeNat'', ''private'', ''reserved'']"

definition PRIVATE_OR_LOOPBACK_IPV4_RANGES :: "string list" where
  "PRIVATE_OR_LOOPBACK_IPV4_RANGES = [''loopback'', ''private'', ''linkLocal'', ''carrierGradeNat'']"

definition BLOCKED_IPV6_SPECIAL_USE_RANGES :: "string list" where
  "BLOCKED_IPV6_SPECIAL_USE_RANGES =
     [''unspecified'', ''loopback'', ''linkLocal'', ''uniqueLocal'', ''multicast'', ''reserved'', ''benchmarking'',
      ''discard'', ''orchid2'']"

definition RFC2544_BENCHMARK_PREFIX :: "ip_lib \<Rightarrow> 8 word list \<times> int" where
  "RFC2544_BENCHMARK_PREFIX lib = (il_v4_parse lib ''198.18.0.0'', 15)"

subsection \<open>IPv4 addresses inside IPv6 addresses\<close>

text \<open>The rules in the order of the table: when they match, and where the address is.\<close>

definition EMBEDDED_IPV4_SENTINEL_RULES :: "((16 word list \<Rightarrow> bool) \<times> (16 word list \<Rightarrow> 16 word \<times> 16 word)) list" where
  "EMBEDDED_IPV4_SENTINEL_RULES =
     [(\<lambda>p. p ! 0 = 0 \<and> p ! 1 = 0 \<and> p ! 2 = 0 \<and> p ! 3 = 0 \<and> p ! 4 = 0 \<and> p ! 5 = 0, \<lambda>p. (p ! 6, p ! 7)),
      (\<lambda>p. p ! 0 = 0x64 \<and> p ! 1 = 0xff9b \<and> p ! 2 = 1 \<and> p ! 3 = 0 \<and> p ! 4 = 0 \<and> p ! 5 = 0, \<lambda>p. (p ! 6, p ! 7)),
      (\<lambda>p. p ! 0 = 0x2002, \<lambda>p. (p ! 1, p ! 2)),
      (\<lambda>p. p ! 0 = 0x2001 \<and> p ! 1 = 0, \<lambda>p. (p ! 6 XOR 0xffff, p ! 7 XOR 0xffff)),
      (\<lambda>p. p ! 4 AND 0xfcff = 0 \<and> p ! 5 = 0x5efe, \<lambda>p. (p ! 6, p ! 7))]"

definition octet :: "nat \<Rightarrow> 16 word \<Rightarrow> 8 word" where
  "octet shift w = ucast (drop_bit shift w AND 0xff)"

definition decodeIpv4FromHextets :: "ip_lib \<Rightarrow> 16 word \<Rightarrow> 16 word \<Rightarrow> 8 word list" where
  "decodeIpv4FromHextets lib high low =
     (let octets = [octet 8 high, octet 0 high, octet 8 low, octet 0 low] in
      il_v4_parse lib (js_join ''.'' (map (\<lambda>b. js_show_nat (unat b)) octets)))"

definition extractEmbeddedIpv4FromIpv6 :: "ip_lib \<Rightarrow> 16 word list \<Rightarrow> 8 word list option" where
  "extractEmbeddedIpv4FromIpv6 lib parts =
     (case il_mapped lib parts of
        Some v4 \<Rightarrow> Some v4
      | None \<Rightarrow>
        if il_range6 lib parts = ''rfc6145'' \<or> il_range6 lib parts = ''rfc6052''
        then Some (decodeIpv4FromHextets lib (parts ! 6) (parts ! 7))
        else (case List.find (\<lambda>rule. fst rule parts) EMBEDDED_IPV4_SENTINEL_RULES of
                None \<Rightarrow> None
              | Some (_, toHextets) \<Rightarrow>
                  (let (high, low) = toHextets parts in Some (decodeIpv4FromHextets lib high low))))"

subsection \<open>Parsing\<close>

definition stripIpv6Brackets :: "string \<Rightarrow> string" where
  "stripIpv6Brackets s = (if s \<noteq> [] \<and> hd s = CHR ''['' \<and> last s = CHR '']'' then butlast (tl s) else s)"

definition is_hex_digit :: "char \<Rightarrow> bool" where
  "is_hex_digit c = (js_digit_value c < 16)"

definition isNumericIpv4LiteralPart :: "string \<Rightarrow> bool" where
  "isNumericIpv4LiteralPart s =
     ((s \<noteq> [] \<and> list_all js_is_digit s) \<or>
      (prefix ''0x'' (js_lower s) \<and> drop 2 s \<noteq> [] \<and> list_all is_hex_digit (drop 2 s)))"

fun js_show_hex :: "nat \<Rightarrow> string" where
  "js_show_hex n =
     (let d = n mod 16; c = (if d < 10 then char_of (48 + d) else char_of (87 + d)) in
      if n < 16 then [c] else js_show_hex (n div 16) @ [c])"

text \<open>\<open>[^:%]+(?:\.[^:%]+){k}\<close> on a text without colons and percent signs.\<close>

fun dotted_parts :: "nat \<Rightarrow> string \<Rightarrow> bool" where
  "dotted_parts 0 s = (s \<noteq> [])"
| "dotted_parts (Suc k) s = list_ex (\<lambda>i. s ! i = CHR ''.'' \<and> dotted_parts k (drop (Suc i) s)) [1..<length s]"

definition is_line_end :: "char \<Rightarrow> bool" where
  "is_line_end c = (js_code c = 10 \<or> js_code c = 13)"

definition is_alnum :: "char \<Rightarrow> bool" where
  "is_alnum c = (js_digit_value c < 36)"

text \<open>The prefix up to the last colon, the dotted part, and the zone with its percent sign.\<close>

definition split_embedded :: "string \<Rightarrow> (string \<times> string \<times> string) option" where
  "split_embedded raw =
     (let rest = rev (takeWhile (\<lambda>c. c \<noteq> CHR '':'') (rev raw));
          before = take (length raw - length rest) raw;
          body = takeWhile (\<lambda>c. c \<noteq> CHR ''%'') rest;
          zone = dropWhile (\<lambda>c. c \<noteq> CHR ''%'') rest
      in if before \<noteq> [] \<and> \<not> list_ex is_line_end before \<and> dotted_parts 3 body \<and>
            (zone = [] \<or> (tl zone \<noteq> [] \<and> list_all is_alnum (tl zone)))
         then Some (before, body, zone) else None)"

definition hextet_of :: "nat \<Rightarrow> nat \<Rightarrow> string" where
  "hextet_of a b = js_show_hex (unat (push_bit 8 (of_nat a) OR of_nat b :: 32 word))"

definition parseIpv6WithEmbeddedIpv4 :: "ip_lib \<Rightarrow> string \<Rightarrow> ip_address option" where
  "parseIpv6WithEmbeddedIpv4 lib raw =
     (if CHR '':'' \<notin> set raw \<or> CHR ''.'' \<notin> set raw then None
      else case split_embedded raw of
        None \<Rightarrow> None
      | Some (before, embeddedIpv4, zoneSuffix) \<Rightarrow>
        if \<not> il_v4_four_part lib embeddedIpv4 then None
        else let octets = map (js_digits_value 10) (js_split CHR ''.'' embeddedIpv4);
                 normalizedIpv6 = before @ hextet_of (octets ! 0) (octets ! 1) @ '':'' @
                                  hextet_of (octets ! 2) (octets ! 3) @ zoneSuffix
             in if il_v6_valid lib normalizedIpv6
                then (let (parts, zone) = il_v6_parse lib normalizedIpv6 in Some (V6 parts zone)) else None)"

definition isIpv4Address :: "ip_address \<Rightarrow> bool" where
  "isIpv4Address a = (case a of V4 _ \<Rightarrow> True | V6 _ _ \<Rightarrow> False)"

definition isIpv6Address :: "ip_address \<Rightarrow> bool" where
  "isIpv6Address a = (case a of V4 _ \<Rightarrow> False | V6 _ _ \<Rightarrow> True)"

definition normalizeIpv4MappedAddress :: "ip_lib \<Rightarrow> ip_address \<Rightarrow> ip_address" where
  "normalizeIpv4MappedAddress lib a =
     (case a of
        V4 _ \<Rightarrow> a
      | V6 parts _ \<Rightarrow> (case il_mapped lib parts of None \<Rightarrow> a | Some v4 \<Rightarrow> V4 v4))"

definition normalizeIpParseInput :: "string option \<Rightarrow> string option" where
  "normalizeIpParseInput raw = map_option stripIpv6Brackets (normalizeOptionalString (js_opt raw))"

definition parseCanonicalIpAddress :: "ip_lib \<Rightarrow> string option \<Rightarrow> ip_address option" where
  "parseCanonicalIpAddress lib raw =
     (case normalizeIpParseInput raw of
        None \<Rightarrow> None
      | Some normalized \<Rightarrow>
        if normalized = [] then None
        else if il_v4_valid lib normalized then
          (if il_v4_four_part lib normalized then Some (V4 (il_v4_parse lib normalized)) else None)
        else if il_v6_valid lib normalized then
          (let (parts, zone) = il_v6_parse lib normalized in Some (V6 parts zone))
        else parseIpv6WithEmbeddedIpv4 lib normalized)"

definition parseLooseIpAddress :: "ip_lib \<Rightarrow> string option \<Rightarrow> ip_address option" where
  "parseLooseIpAddress lib raw =
     (case normalizeIpParseInput raw of
        None \<Rightarrow> None
      | Some normalized \<Rightarrow>
        if normalized = [] then None
        else if il_valid lib normalized then Some (il_parse lib normalized)
        else parseIpv6WithEmbeddedIpv4 lib normalized)"

definition normalizeIpAddress :: "ip_lib \<Rightarrow> string option \<Rightarrow> string option" where
  "normalizeIpAddress lib raw =
     map_option (\<lambda>parsed. normalizeLowercaseStringOrEmpty (JStr (il_show lib (normalizeIpv4MappedAddress lib parsed))))
       (parseCanonicalIpAddress lib raw)"

definition isCanonicalDottedDecimalIPv4 :: "ip_lib \<Rightarrow> string option \<Rightarrow> bool" where
  "isCanonicalDottedDecimalIPv4 lib raw =
     (case normalizeOptionalString (js_opt raw) of
        None \<Rightarrow> False
      | Some trimmed \<Rightarrow> stripIpv6Brackets trimmed \<noteq> [] \<and> il_v4_four_part lib (stripIpv6Brackets trimmed))"

definition isLegacyIpv4Literal :: "ip_lib \<Rightarrow> string option \<Rightarrow> bool" where
  "isLegacyIpv4Literal lib raw =
     (case normalizeOptionalString (js_opt raw) of
        None \<Rightarrow> False
      | Some trimmed \<Rightarrow>
        (let normalized = stripIpv6Brackets trimmed; parts = js_split CHR ''.'' normalized in
         normalized \<noteq> [] \<and> CHR '':'' \<notin> set normalized \<and> \<not> isCanonicalDottedDecimalIPv4 lib (Some normalized) \<and>
         length parts \<le> 4 \<and> list_all (\<lambda>p. p \<noteq> []) parts \<and> list_all isNumericIpv4LiteralPart parts))"

subsection \<open>Classification\<close>

definition range_of :: "ip_lib \<Rightarrow> ip_address \<Rightarrow> string" where
  "range_of lib a = (case a of V4 o4 \<Rightarrow> il_range4 lib o4 | V6 parts _ \<Rightarrow> il_range6 lib parts)"

definition isLoopbackIpAddress :: "ip_lib \<Rightarrow> string option \<Rightarrow> bool" where
  "isLoopbackIpAddress lib raw =
     (case parseCanonicalIpAddress lib raw of
        None \<Rightarrow> False
      | Some parsed \<Rightarrow> range_of lib (normalizeIpv4MappedAddress lib parsed) = ''loopback'')"

definition isBlockedSpecialUseIpv6Address :: "ip_lib \<Rightarrow> 16 word list \<Rightarrow> bool" where
  "isBlockedSpecialUseIpv6Address lib parts =
     (il_range6 lib parts \<in> set BLOCKED_IPV6_SPECIAL_USE_RANGES \<or> parts ! 0 AND 0xffc0 = 0xfec0)"

definition isPrivateOrLoopbackIpAddress :: "ip_lib \<Rightarrow> string option \<Rightarrow> bool" where
  "isPrivateOrLoopbackIpAddress lib raw =
     (case parseCanonicalIpAddress lib raw of
        None \<Rightarrow> False
      | Some parsed \<Rightarrow>
        (case normalizeIpv4MappedAddress lib parsed of
           V4 o4 \<Rightarrow> il_range4 lib o4 \<in> set PRIVATE_OR_LOOPBACK_IPV4_RANGES
         | V6 parts _ \<Rightarrow> isBlockedSpecialUseIpv6Address lib parts))"

definition isRfc1918Ipv4Address :: "ip_lib \<Rightarrow> string option \<Rightarrow> bool" where
  "isRfc1918Ipv4Address lib raw =
     (case parseCanonicalIpAddress lib raw of Some (V4 o4) \<Rightarrow> il_range4 lib o4 = ''private'' | _ \<Rightarrow> False)"

definition isCarrierGradeNatIpv4Address :: "ip_lib \<Rightarrow> string option \<Rightarrow> bool" where
  "isCarrierGradeNatIpv4Address lib raw =
     (case parseCanonicalIpAddress lib raw of Some (V4 o4) \<Rightarrow> il_range4 lib o4 = ''carrierGradeNat'' | _ \<Rightarrow> False)"

definition isBlockedSpecialUseIpv4Address :: "ip_lib \<Rightarrow> bool \<Rightarrow> 8 word list \<Rightarrow> bool" where
  "isBlockedSpecialUseIpv4Address lib allowRfc2544BenchmarkRange o4 =
     (let (base, bits) = RFC2544_BENCHMARK_PREFIX lib;
          inRfc2544BenchmarkRange = il_match lib (V4 o4) (V4 base) bits
      in if inRfc2544BenchmarkRange \<and> allowRfc2544BenchmarkRange then False
         else il_range4 lib o4 \<in> set BLOCKED_IPV4_SPECIAL_USE_RANGES \<or> inRfc2544BenchmarkRange)"

definition isIpInCidr :: "ip_lib \<Rightarrow> string \<Rightarrow> string \<Rightarrow> bool" where
  "isIpInCidr lib ip cidr =
     (case parseCanonicalIpAddress lib (Some ip) of
        None \<Rightarrow> False
      | Some normalizedIp \<Rightarrow>
        (let candidate = js_trim cidr; comparableIp = normalizeIpv4MappedAddress lib normalizedIp in
         if candidate = [] then False
         else if CHR ''/'' \<notin> set candidate then
           (case parseCanonicalIpAddress lib (Some candidate) of
              None \<Rightarrow> False
            | Some exact \<Rightarrow>
              (let comparableExact = normalizeIpv4MappedAddress lib exact in
               isIpv4Address comparableIp = isIpv4Address comparableExact \<and>
               il_show lib comparableIp = il_show lib comparableExact))
         else (case il_parse_cidr lib candidate of
                 None \<Rightarrow> False
               | Some (baseAddress, prefixLength) \<Rightarrow>
                 (let comparableBase = normalizeIpv4MappedAddress lib baseAddress in
                  isIpv4Address comparableIp = isIpv4Address comparableBase \<and>
                  il_match lib comparableIp comparableBase prefixLength))))"

definition validateDottedDecimalIPv4Input :: "ip_lib \<Rightarrow> string option \<Rightarrow> string option" where
  "validateDottedDecimalIPv4Input lib v =
     (if \<not> js_truthy_str v then Some ''IP address is required for custom bind mode''
      else if isCanonicalDottedDecimalIPv4 lib v then None
      else Some ''Invalid IPv4 address (e.g., 192.168.1.100)'')"

subsection \<open>The address syntax of the platform\<close>

text \<open>\<open>net.isIP\<close>: dotted decimal octets, or groups of hexadecimal digits with at most one \<open>::\<close>.\<close>

definition is_octet_text :: "string \<Rightarrow> bool" where
  "is_octet_text s =
     (s \<noteq> [] \<and> length s \<le> 3 \<and> list_all js_is_digit s \<and> (length s = 1 \<or> hd s \<noteq> CHR ''0'') \<and> js_digits_value 10 s \<le> 255)"

definition is_ipv4_text :: "string \<Rightarrow> bool" where
  "is_ipv4_text s = (let ps = js_split CHR ''.'' s in length ps = 4 \<and> list_all is_octet_text ps)"

definition is_group_text :: "string \<Rightarrow> bool" where
  "is_group_text s = (s \<noteq> [] \<and> length s \<le> 4 \<and> list_all is_hex_digit s)"

text \<open>How many hextets a colon-separated list stands for; its last group may be an IPv4 address.\<close>

fun count_groups :: "string list \<Rightarrow> nat option" where
  "count_groups [] = Some 0"
| "count_groups [g] = (if is_group_text g then Some 1 else if is_ipv4_text g then Some 2 else None)"
| "count_groups (g # gs) = (if is_group_text g then map_option Suc (count_groups gs) else None)"

definition groups_of :: "string \<Rightarrow> string list" where
  "groups_of s = (if s = [] then [] else js_split CHR '':'' s)"

fun split_double_colon :: "string \<Rightarrow> (string \<times> string) option" where
  "split_double_colon [] = None"
| "split_double_colon (c # s) =
     (if c = CHR '':'' \<and> s \<noteq> [] \<and> hd s = CHR '':'' then Some ([], tl s)
      else map_option (\<lambda>(a, b). (c # a, b)) (split_double_colon s))"

definition is_zone_char :: "char \<Rightarrow> bool" where
  "is_zone_char c = (is_alnum c \<or> c \<in> {CHR ''-'', CHR ''.'', CHR '':''})"

definition is_ipv6_text :: "string \<Rightarrow> bool" where
  "is_ipv6_text s =
     (let body = takeWhile (\<lambda>c. c \<noteq> CHR ''%'') s; zone = dropWhile (\<lambda>c. c \<noteq> CHR ''%'') s in
      (zone = [] \<or> (tl zone \<noteq> [] \<and> list_all is_zone_char (tl zone))) \<and>
      (case split_double_colon body of
         None \<Rightarrow> count_groups (groups_of body) = Some 8
       | Some (l, r) \<Rightarrow>
           list_all is_group_text (groups_of l) \<and>
           (case count_groups (groups_of r) of None \<Rightarrow> False | Some n \<Rightarrow> length (groups_of l) + n \<le> 7)))"

definition net_isIP :: "string \<Rightarrow> nat" where
  "net_isIP s = (if is_ipv4_text s then 4 else if is_ipv6_text s then 6 else 0)"

end
