(* ===== verification/Client_Ip.thy ===== *)
theory Client_Ip
  imports Ip_Address
begin

text \<open>
  Who is calling the gateway: the client address, trusted proxies and host checks of
  \<open>src/gateway/net.ts\<close>. The interfaces of the
  machine, the attempt to bind a socket and the detection of a container are arguments.
\<close>

subsection \<open>Host names\<close>

definition normalizeHostHeader :: "string option \<Rightarrow> string" where
  "normalizeHostHeader hostHeader = normalizeLowercaseStringOrEmpty (js_opt hostHeader)"

text \<open>\<open>s.slice(1, s.indexOf("]"))\<close> of a text that starts with a bracket, if there is a closing one.\<close>

definition bracketed :: "string \<Rightarrow> string option" where
  "bracketed s =
     (if s \<noteq> [] \<and> hd s = CHR ''['' \<and> CHR '']'' \<in> set s then Some (takeWhile (\<lambda>c. c \<noteq> CHR '']'') (tl s)) else None)"

definition resolveHostName :: "string option \<Rightarrow> string" where
  "resolveHostName hostHeader =
     (let host = normalizeHostHeader hostHeader in
      if host = [] then []
      else case bracketed host of
        Some inner \<Rightarrow> inner
      | None \<Rightarrow> if net_isIP host = 6 then host else hd (js_split CHR '':'' host))"

subsection \<open>The client address\<close>

definition stripOptionalPort :: "string \<Rightarrow> string" where
  "stripOptionalPort ip =
     (case bracketed ip of
        Some inner \<Rightarrow> inner
      | None \<Rightarrow>
        if net_isIP ip \<noteq> 0 then ip
        else let candidate = takeWhile (\<lambda>c. c \<noteq> CHR '':'') ip in
          if CHR '':'' \<in> set ip \<and> CHR ''.'' \<in> set ip \<and> length (filter (\<lambda>c. c = CHR '':'') ip) = 1 \<and> net_isIP candidate = 4
          then candidate else ip)"

definition parseIpLiteral :: "ip_lib \<Rightarrow> string option \<Rightarrow> string option" where
  "parseIpLiteral lib raw =
     (let trimmed = js_trim (js_or_else raw []) in
      if trimmed = [] then None
      else case normalizeIpAddress lib (Some (stripOptionalPort trimmed)) of
        None \<Rightarrow> None
      | Some normalized \<Rightarrow> if normalized = [] \<or> net_isIP normalized = 0 then None else Some normalized)"

definition parseRealIp :: "ip_lib \<Rightarrow> string option \<Rightarrow> string option" where
  "parseRealIp lib realIp = parseIpLiteral lib realIp"

definition isTrustedProxyAddress :: "ip_lib \<Rightarrow> string option \<Rightarrow> string list \<Rightarrow> bool" where
  "isTrustedProxyAddress lib ip trustedProxies =
     (case normalizeIpAddress lib ip of
        None \<Rightarrow> False
      | Some normalized \<Rightarrow>
          normalized \<noteq> [] \<and> list_ex (\<lambda>proxy. js_trim proxy \<noteq> [] \<and> isIpInCidr lib normalized (js_trim proxy)) trustedProxies)"

definition forwarded_chain :: "ip_lib \<Rightarrow> string option \<Rightarrow> string list" where
  "forwarded_chain lib forwardedFor =
     (case forwardedFor of
        None \<Rightarrow> []
      | Some header \<Rightarrow> List.map_filter (\<lambda>entry. parseIpLiteral lib (Some entry)) (js_split CHR '','' header))"

text \<open>Right to left, the first hop that is neither a loopback address nor a trusted proxy.\<close>

definition client_hop :: "ip_lib \<Rightarrow> string list \<Rightarrow> string \<Rightarrow> bool" where
  "client_hop lib trustedProxies hop =
     (\<not> isLoopbackIpAddress lib (Some hop) \<and> \<not> isTrustedProxyAddress lib (Some hop) trustedProxies)"

definition resolveForwardedClientIp :: "ip_lib \<Rightarrow> string option \<Rightarrow> string list \<Rightarrow> string option" where
  "resolveForwardedClientIp lib forwardedFor trustedProxies =
     (if trustedProxies = [] then None
      else List.find (client_hop lib trustedProxies) (rev (forwarded_chain lib forwardedFor)))"

definition resolveClientIp ::
  "ip_lib \<Rightarrow> string option \<Rightarrow> string option \<Rightarrow> string option \<Rightarrow> string list \<Rightarrow> bool \<Rightarrow> string option" where
  "resolveClientIp lib remoteAddr forwardedFor realIp trustedProxies allowRealIpFallback =
     (case normalizeIpAddress lib remoteAddr of
        None \<Rightarrow> None
      | Some remote \<Rightarrow>
        if remote = [] then None
        else if \<not> isTrustedProxyAddress lib (Some remote) trustedProxies then Some remote
        else case resolveForwardedClientIp lib forwardedFor trustedProxies of
          Some ip \<Rightarrow> Some ip
        | None \<Rightarrow> if allowRealIpFallback then parseRealIp lib realIp else None)"

text \<open>A header that was sent more than once is a list; its first value counts.\<close>

datatype header_value = OneHeader string | HeaderList "string list"

definition headerValue :: "header_value option \<Rightarrow> string option" where
  "headerValue v =
     (case v of
        None \<Rightarrow> None
      | Some (OneHeader s) \<Rightarrow> Some s
      | Some (HeaderList []) \<Rightarrow> None
      | Some (HeaderList (s # _)) \<Rightarrow> Some s)"

record incoming_request =
  rq_remoteAddress :: "string option"
  rq_forwardedFor :: "header_value option"
  rq_realIp :: "header_value option"

definition resolveRequestClientIp :: "ip_lib \<Rightarrow> incoming_request option \<Rightarrow> string list \<Rightarrow> bool \<Rightarrow> string option" where
  "resolveRequestClientIp lib req trustedProxies allowRealIpFallback =
     (case req of
        None \<Rightarrow> None
      | Some r \<Rightarrow>
          resolveClientIp lib (Some (js_or_else (rq_remoteAddress r) [])) (headerValue (rq_forwardedFor r))
            (headerValue (rq_realIp r)) trustedProxies allowRealIpFallback)"

text \<open>\<open>primaryTailnet\<close>: the addresses of the tailnet interface, IPv4 and IPv6.\<close>

definition isLocalGatewayAddress :: "ip_lib \<Rightarrow> string option \<times> string option \<Rightarrow> string option \<Rightarrow> bool" where
  "isLocalGatewayAddress lib primaryTailnet ip =
     (if isLoopbackIpAddress lib ip then True
      else if \<not> js_truthy_str ip then False
      else case normalizeIpAddress lib ip of
        None \<Rightarrow> False
      | Some normalized \<Rightarrow>
          normalized \<noteq> [] \<and>
          ((js_truthy_str (fst primaryTailnet) \<and> normalized = normalizeLowercaseStringOrEmpty (js_opt (fst primaryTailnet))) \<or>
           (js_truthy_str (snd primaryTailnet) \<and>
            normalizeLowercaseStringOrEmpty (js_opt ip) = normalizeLowercaseStringOrEmpty (js_opt (snd primaryTailnet)))))"

subsection \<open>Hosts\<close>

definition strip_dots :: "string \<Rightarrow> string" where
  "strip_dots s = rev (dropWhile (\<lambda>c. c = CHR ''.'') (rev s))"

definition parseHostForAddressChecks :: "string \<Rightarrow> (bool \<times> string) option" where
  "parseHostForAddressChecks host =
     (if host = [] then None
      else let normalizedHost = normalizeLowercaseStringOrEmpty (JStr host); canonicalHost = strip_dots normalizedHost in
        if canonicalHost = ''localhost'' then Some (True, canonicalHost)
        else Some (False, stripIpv6Brackets normalizedHost))"

definition isLoopbackHost :: "ip_lib \<Rightarrow> string \<Rightarrow> bool" where
  "isLoopbackHost lib host =
     (case parseHostForAddressChecks host of
        None \<Rightarrow> False
      | Some (isLocalhost, unbracketedHost) \<Rightarrow> isLocalhost \<or> isLoopbackIpAddress lib (Some unbracketedHost))"

definition isLocalishHost :: "ip_lib \<Rightarrow> string option \<Rightarrow> bool" where
  "isLocalishHost lib hostHeader =
     (let host = resolveHostName hostHeader in host \<noteq> [] \<and> (isLoopbackHost lib host \<or> suffix ''.ts.net'' host))"

definition isPrivateOrLoopbackHost :: "ip_lib \<Rightarrow> string \<Rightarrow> bool" where
  "isPrivateOrLoopbackHost lib host =
     (case parseHostForAddressChecks host of
        None \<Rightarrow> False
      | Some (True, _) \<Rightarrow> True
      | Some (False, unbracketedHost) \<Rightarrow>
        (case normalizeIpAddress lib (Some unbracketedHost) of
           None \<Rightarrow> False
         | Some normalized \<Rightarrow>
             normalized \<noteq> [] \<and> isPrivateOrLoopbackIpAddress lib (Some normalized) \<and>
             \<not> (net_isIP normalized = 6 \<and> (prefix ''ff'' normalized \<or> normalized = ''::''))))"

text \<open>A URL as the platform parses it: its protocol and host name.\<close>

definition isSecureWebSocketUrl :: "ip_lib \<Rightarrow> (string \<times> string) option \<Rightarrow> bool \<Rightarrow> bool" where
  "isSecureWebSocketUrl lib parsed allowPrivateWs =
     (case parsed of
        None \<Rightarrow> False
      | Some (rawProtocol, hostname) \<Rightarrow>
        (let protocol = (if rawProtocol = ''https:'' then ''wss:'' else if rawProtocol = ''http:'' then ''ws:'' else rawProtocol) in
         if protocol = ''wss:'' then True
         else if protocol \<noteq> ''ws:'' then False
         else if isLoopbackHost lib hostname then True
         else allowPrivateWs \<and> (isPrivateOrLoopbackHost lib hostname \<or> net_isIP (stripIpv6Brackets hostname) = 0)))"

subsection \<open>Where the gateway listens\<close>

text \<open>
  \<open>canBind\<close> tries to bind a socket, \<open>tailnetIPv4\<close> is the address of the tailnet interface and
  \<open>isContainer\<close> the cached answer of \<open>isContainerEnvironment\<close>; an unknown mode falls through to the last return.
\<close>

datatype gateway_bind_mode = BindAuto | BindLan | BindLoopback | BindCustom | BindTailnet

definition loopback_or_all :: "(string \<Rightarrow> bool) \<Rightarrow> string" where
  "loopback_or_all canBind = (if canBind ''127.0.0.1'' then ''127.0.0.1'' else ''0.0.0.0'')"

definition isValidIPv4 :: "ip_lib \<Rightarrow> string \<Rightarrow> bool" where
  "isValidIPv4 lib host = isCanonicalDottedDecimalIPv4 lib (Some host)"

definition resolveGatewayBindHost ::
  "ip_lib \<Rightarrow> (string \<Rightarrow> bool) \<Rightarrow> string option \<Rightarrow> bool \<Rightarrow> gateway_bind_mode option \<Rightarrow> string option \<Rightarrow> string" where
  "resolveGatewayBindHost lib canBind tailnetIPv4 isContainer bind customHost =
     (case js_or_else bind BindLoopback of
        BindLoopback \<Rightarrow> loopback_or_all canBind
      | BindTailnet \<Rightarrow>
          (if js_truthy_str tailnetIPv4 \<and> canBind (the tailnetIPv4) then the tailnetIPv4 else loopback_or_all canBind)
      | BindLan \<Rightarrow> ''0.0.0.0''
      | BindCustom \<Rightarrow>
          (let host = js_trim (js_or_else customHost []) in
           if host = [] then ''0.0.0.0'' else if isValidIPv4 lib host \<and> canBind host then host else ''0.0.0.0'')
      | BindAuto \<Rightarrow> if isContainer then ''0.0.0.0'' else loopback_or_all canBind)"

definition defaultGatewayBindMode :: "bool \<Rightarrow> string option \<Rightarrow> gateway_bind_mode" where
  "defaultGatewayBindMode isContainer tailscaleMode =
     (if js_truthy_str tailscaleMode \<and> tailscaleMode \<noteq> Some ''off'' then BindLoopback
      else if isContainer then BindAuto else BindLoopback)"

definition resolveGatewayListenHosts :: "(string \<Rightarrow> bool) \<Rightarrow> string \<Rightarrow> string list" where
  "resolveGatewayListenHosts canBind bindHost =
     (if bindHost \<noteq> ''127.0.0.1'' then [bindHost]
      else if canBind ''::1'' then [bindHost, ''::1''] else [bindHost])"

end
