(* ===== verification/Ssrf.thy ===== *)
theory Ssrf
  imports Ip_Address
begin

text \<open>
  The guard of outgoing requests: \<open>src/infra/net/ssrf.ts\<close> and \<open>src/infra/net/hostname.ts\<close>. A host is
  checked against the policy before it is looked up, the addresses it resolves to are checked
  again, and the connection is pinned to them. The name service is an argument. A lookup
  function is a value of \<open>lookup_fn\<close>: the one of the system, or a pinned one with its counter;
  calling it returns it with the counter advanced.
\<close>

subsection \<open>Host names and policies\<close>

definition strip_last_dot :: "string \<Rightarrow> string" where
  "strip_last_dot s = (if s \<noteq> [] \<and> last s = CHR ''.'' then butlast s else s)"

definition normalizeHostname :: "string \<Rightarrow> string" where
  "normalizeHostname hostname = stripIpv6Brackets (strip_last_dot (normalizeLowercaseStringOrEmpty (JStr hostname)))"

record ssrf_policy =
  sp_allowPrivateNetwork :: "bool option"
  sp_dangerouslyAllowPrivateNetwork :: "bool option"
  sp_allowRfc2544BenchmarkRange :: "bool option"
  sp_allowedHostnames :: "string list option"
  sp_hostnameAllowlist :: "string list option"

datatype ssrf_error = SsrFBlockedError string | LookupError string

text \<open>The URL of the argument as the platform parses it: protocol and host name.\<close>

definition ssrfPolicyFromHttpBaseUrlAllowedHostname ::
  "(string \<Rightarrow> (string \<times> string) option) \<Rightarrow> string \<Rightarrow> ssrf_policy option" where
  "ssrfPolicyFromHttpBaseUrlAllowedHostname parse_url baseUrl =
     (let trimmed = js_trim baseUrl in
      if trimmed = [] then None
      else case parse_url trimmed of
        None \<Rightarrow> None
      | Some (protocol, hostname) \<Rightarrow>
        if protocol \<noteq> ''http:'' \<and> protocol \<noteq> ''https:'' then None
        else Some \<lparr>sp_allowPrivateNetwork = None, sp_dangerouslyAllowPrivateNetwork = None,
                   sp_allowRfc2544BenchmarkRange = None, sp_allowedHostnames = Some [hostname],
                   sp_hostnameAllowlist = None\<rparr>)"

definition BLOCKED_HOSTNAMES :: "string list" where
  "BLOCKED_HOSTNAMES = [''localhost'', ''localhost.localdomain'', ''metadata.google.internal'']"

definition normalizeHostnameSet :: "string list option \<Rightarrow> string set" where
  "normalizeHostnameSet values =
     (case values of None \<Rightarrow> {} | Some vs \<Rightarrow> set (filter (\<lambda>v. v \<noteq> []) (map normalizeHostname vs)))"

definition normalizeHostnameAllowlist :: "string list option \<Rightarrow> string list" where
  "normalizeHostnameAllowlist values =
     (case values of
        None \<Rightarrow> []
      | Some vs \<Rightarrow> js_unique (filter (\<lambda>v. v \<noteq> ''*'' \<and> v \<noteq> ''*.'' \<and> v \<noteq> []) (map normalizeHostname vs)))"

definition isPrivateNetworkAllowedByPolicy :: "ssrf_policy option \<Rightarrow> bool" where
  "isPrivateNetworkAllowedByPolicy policy =
     (case policy of
        None \<Rightarrow> False
      | Some p \<Rightarrow> sp_dangerouslyAllowPrivateNetwork p = Some True \<or> sp_allowPrivateNetwork p = Some True)"

definition shouldSkipPrivateNetworkChecks :: "string \<Rightarrow> ssrf_policy option \<Rightarrow> bool" where
  "shouldSkipPrivateNetworkChecks hostname policy =
     (isPrivateNetworkAllowedByPolicy policy \<or>
      hostname \<in> normalizeHostnameSet (Option.bind policy sp_allowedHostnames))"

definition resolveIpv4SpecialUseBlockOptions :: "ssrf_policy option \<Rightarrow> bool" where
  "resolveIpv4SpecialUseBlockOptions policy = (Option.bind policy sp_allowRfc2544BenchmarkRange = Some True)"

definition isHostnameAllowedByPattern :: "string \<Rightarrow> string \<Rightarrow> bool" where
  "isHostnameAllowedByPattern hostname pattern =
     (if prefix ''*.'' pattern then
        (let sfx = drop 2 pattern in
         if sfx = [] \<or> hostname = sfx then False else suffix (CHR ''.'' # sfx) hostname)
      else hostname = pattern)"

definition matchesHostnameAllowlist :: "string \<Rightarrow> string list \<Rightarrow> bool" where
  "matchesHostnameAllowlist hostname allowlist =
     (if allowlist = [] then True else list_ex (isHostnameAllowedByPattern hostname) allowlist)"

subsection \<open>Blocked hosts and addresses\<close>

definition looksLikeUnsupportedIpv4Literal :: "string \<Rightarrow> bool" where
  "looksLikeUnsupportedIpv4Literal address =
     (let parts = js_split CHR ''.'' address in
      if length parts = 0 \<or> length parts > 4 then False
      else if list_ex (\<lambda>part. part = []) parts then True
      else list_all (\<lambda>part. (part \<noteq> [] \<and> list_all js_is_digit part) \<or> prefix ''0x'' (js_lower part)) parts)"

definition isPrivateIpAddress :: "ip_lib \<Rightarrow> string \<Rightarrow> ssrf_policy option \<Rightarrow> bool" where
  "isPrivateIpAddress lib address policy =
     (let normalized = normalizeHostname address; blockOptions = resolveIpv4SpecialUseBlockOptions policy in
      if normalized = [] then False
      else case parseCanonicalIpAddress lib (Some normalized) of
        Some (V4 o4) \<Rightarrow> isBlockedSpecialUseIpv4Address lib blockOptions o4
      | Some (V6 parts _) \<Rightarrow>
          (if isBlockedSpecialUseIpv6Address lib parts then True
           else case extractEmbeddedIpv4FromIpv6 lib parts of
             Some embeddedIpv4 \<Rightarrow> isBlockedSpecialUseIpv4Address lib blockOptions embeddedIpv4
           | None \<Rightarrow> False)
      | None \<Rightarrow>
          (if CHR '':'' \<in> set normalized \<and> parseLooseIpAddress lib (Some normalized) = None then True
           else if \<not> isCanonicalDottedDecimalIPv4 lib (Some normalized) \<and> isLegacyIpv4Literal lib (Some normalized) then True
           else looksLikeUnsupportedIpv4Literal normalized))"

definition isBlockedHostnameNormalized :: "string \<Rightarrow> bool" where
  "isBlockedHostnameNormalized normalized =
     (if normalized \<in> set BLOCKED_HOSTNAMES then True
      else suffix ''.localhost'' normalized \<or> suffix ''.local'' normalized \<or> suffix ''.internal'' normalized)"

definition isBlockedHostname :: "string \<Rightarrow> bool" where
  "isBlockedHostname hostname =
     (let normalized = normalizeHostname hostname in
      if normalized = [] then False else isBlockedHostnameNormalized normalized)"

definition isBlockedHostnameOrIp :: "ip_lib \<Rightarrow> string \<Rightarrow> ssrf_policy option \<Rightarrow> bool" where
  "isBlockedHostnameOrIp lib hostname policy =
     (let normalized = normalizeHostname hostname in
      if normalized = [] then False
      else isBlockedHostnameNormalized normalized \<or> isPrivateIpAddress lib normalized policy)"

definition BLOCKED_HOST_OR_IP_MESSAGE :: string where
  "BLOCKED_HOST_OR_IP_MESSAGE = ''Blocked hostname or private/internal/special-use IP address''"

definition BLOCKED_RESOLVED_IP_MESSAGE :: string where
  "BLOCKED_RESOLVED_IP_MESSAGE = ''Blocked: resolves to private/internal/special-use IP address''"

definition assertAllowedHostOrIpOrThrow :: "ip_lib \<Rightarrow> string \<Rightarrow> ssrf_policy option \<Rightarrow> ssrf_error + unit" where
  "assertAllowedHostOrIpOrThrow lib hostnameOrIp policy =
     (if isBlockedHostnameOrIp lib hostnameOrIp policy then Inl (SsrFBlockedError BLOCKED_HOST_OR_IP_MESSAGE) else Inr ())"

definition resolveHostnamePolicyChecks ::
  "ip_lib \<Rightarrow> string \<Rightarrow> ssrf_policy option \<Rightarrow> ssrf_error + (string \<times> bool)" where
  "resolveHostnamePolicyChecks lib hostname policy =
     (let normalized = normalizeHostname hostname in
      if normalized = [] then Inl (LookupError ''Invalid hostname'')
      else let hostnameAllowlist = normalizeHostnameAllowlist (Option.bind policy sp_hostnameAllowlist);
               skipPrivateNetworkChecks = shouldSkipPrivateNetworkChecks normalized policy
        in if \<not> matchesHostnameAllowlist normalized hostnameAllowlist
           then Inl (SsrFBlockedError (''Blocked hostname (not in allowlist): '' @ hostname))
           else if skipPrivateNetworkChecks then Inr (normalized, skipPrivateNetworkChecks)
           else case assertAllowedHostOrIpOrThrow lib normalized policy of
             Inl e \<Rightarrow> Inl e
           | Inr _ \<Rightarrow> Inr (normalized, skipPrivateNetworkChecks))"

definition assertHostnameAllowedWithPolicy :: "ip_lib \<Rightarrow> string \<Rightarrow> ssrf_policy option \<Rightarrow> ssrf_error + string" where
  "assertHostnameAllowedWithPolicy lib hostname policy =
     map_sum id fst (resolveHostnamePolicyChecks lib hostname policy)"

subsection \<open>Answers of the name service\<close>

record lookup_address =
  la_address :: string
  la_family :: int

datatype lookup_result = OneAddress lookup_address | AddressList "lookup_address list"

definition normalizeLookupResults :: "lookup_result \<Rightarrow> lookup_address list" where
  "normalizeLookupResults results = (case results of AddressList as \<Rightarrow> as | OneAddress a \<Rightarrow> [a])"

primrec assertAllowedResolvedAddressesOrThrow ::
  "ip_lib \<Rightarrow> lookup_address list \<Rightarrow> ssrf_policy option \<Rightarrow> ssrf_error + unit" where
  "assertAllowedResolvedAddressesOrThrow lib [] policy = Inr ()"
| "assertAllowedResolvedAddressesOrThrow lib (entry # results) policy =
     (if isBlockedHostnameOrIp lib (la_address entry) policy then Inl (SsrFBlockedError BLOCKED_RESOLVED_IP_MESSAGE)
      else assertAllowedResolvedAddressesOrThrow lib results policy)"

text \<open>The loop with its three accumulators: seen addresses, IPv4 addresses, the others.\<close>

fun dedupe_loop :: "lookup_address list \<Rightarrow> string set \<Rightarrow> string list \<Rightarrow> string list \<Rightarrow> string list" where
  "dedupe_loop [] seen ipv4 otherFamilies = ipv4 @ otherFamilies"
| "dedupe_loop (entry # results) seen ipv4 otherFamilies =
     (if la_address entry \<in> seen then dedupe_loop results seen ipv4 otherFamilies
      else if la_family entry = 4
      then dedupe_loop results (insert (la_address entry) seen) (ipv4 @ [la_address entry]) otherFamilies
      else dedupe_loop results (insert (la_address entry) seen) ipv4 (otherFamilies @ [la_address entry]))"

definition dedupeAndPreferIpv4 :: "lookup_address list \<Rightarrow> string list" where
  "dedupeAndPreferIpv4 results = dedupe_loop results {} [] []"

subsection \<open>Pinned lookups\<close>

datatype lookup_options = NoOptions | FamilyOption int | LookupOptions bool "int option"

datatype lookup_answer =
    NoCallback
  | SystemAnswer string lookup_options
  | AnswerAll "lookup_address list"
  | AnswerOne string int

datatype lookup_fn = SystemLookup | PinnedLookup string "lookup_address list" nat lookup_fn

definition pinned_record :: "string \<Rightarrow> lookup_address" where
  "pinned_record address = \<lparr>la_address = address, la_family = (if CHR '':'' \<in> set address then 6 else 4)\<rparr>"

definition createPinnedLookup :: "string \<Rightarrow> string list \<Rightarrow> lookup_fn option \<Rightarrow> ssrf_error + lookup_fn" where
  "createPinnedLookup hostname addresses fallback =
     (if addresses = [] then Inl (LookupError (''Pinned lookup requires at least one address for '' @ hostname))
      else Inr (PinnedLookup (normalizeHostname hostname) (map pinned_record addresses) 0 (js_or_else fallback SystemLookup)))"

definition requested_family :: "lookup_options \<Rightarrow> int" where
  "requested_family options =
     (case options of NoOptions \<Rightarrow> 0 | FamilyOption f \<Rightarrow> f | LookupOptions _ f \<Rightarrow> js_or_else f 0)"

definition usable_records :: "lookup_address list \<Rightarrow> int \<Rightarrow> lookup_address list" where
  "usable_records records requestedFamily =
     (let candidates = (if requestedFamily = 4 \<or> requestedFamily = 6
                        then filter (\<lambda>entry. la_family entry = requestedFamily) records else records)
      in if candidates \<noteq> [] then candidates else records)"

fun call_lookup :: "lookup_fn \<Rightarrow> string \<Rightarrow> lookup_options \<Rightarrow> bool \<Rightarrow> lookup_answer \<times> lookup_fn" where
  "call_lookup SystemLookup host options has_cb = (if has_cb then SystemAnswer host options else NoCallback, SystemLookup)"
| "call_lookup (PinnedLookup normalizedHost records index fallback) host options has_cb =
     (if \<not> has_cb then (NoCallback, PinnedLookup normalizedHost records index fallback)
      else let normalized = normalizeHostname host in
        if normalized = [] \<or> normalized \<noteq> normalizedHost then
          (let (answer, fallback') = call_lookup fallback host options has_cb
           in (answer, PinnedLookup normalizedHost records index fallback'))
        else let usable = usable_records records (requested_family options) in
          case options of
            LookupOptions True _ \<Rightarrow> (AnswerAll usable, PinnedLookup normalizedHost records index fallback)
          | _ \<Rightarrow> (let chosen = usable ! (index mod length usable) in
                   (AnswerOne (la_address chosen) (la_family chosen),
                    PinnedLookup normalizedHost records (index + 1) fallback)))"

record pinned_hostname =
  ph_hostname :: string
  ph_addresses :: "string list"
  ph_lookup :: lookup_fn

definition resolvePinnedHostnameWithPolicy ::
  "ip_lib \<Rightarrow> (string \<Rightarrow> string + lookup_result) \<Rightarrow> string \<Rightarrow> ssrf_policy option \<Rightarrow> ssrf_error + pinned_hostname" where
  "resolvePinnedHostnameWithPolicy lib lookupFn hostname policy =
     (case resolveHostnamePolicyChecks lib hostname policy of
        Inl e \<Rightarrow> Inl e
      | Inr (normalized, skipPrivateNetworkChecks) \<Rightarrow>
        (case lookupFn normalized of
           Inl e \<Rightarrow> Inl (LookupError e)
         | Inr answer \<Rightarrow>
           (let results = normalizeLookupResults answer in
            if results = [] then Inl (LookupError (''Unable to resolve hostname: '' @ hostname))
            else case (if skipPrivateNetworkChecks then Inr ()
                       else assertAllowedResolvedAddressesOrThrow lib results policy) of
              Inl e \<Rightarrow> Inl e
            | Inr _ \<Rightarrow>
              (let addresses = dedupeAndPreferIpv4 results in
               if addresses = [] then Inl (LookupError (''Unable to resolve hostname: '' @ hostname))
               else map_sum id (\<lambda>lookup. \<lparr>ph_hostname = normalized, ph_addresses = addresses, ph_lookup = lookup\<rparr>)
                      (createPinnedLookup normalized addresses None)))))"

definition resolvePinnedHostname ::
  "ip_lib \<Rightarrow> (string \<Rightarrow> string + lookup_result) \<Rightarrow> string \<Rightarrow> ssrf_error + pinned_hostname" where
  "resolvePinnedHostname lib lookupFn hostname = resolvePinnedHostnameWithPolicy lib lookupFn hostname None"

definition assertPublicHostname :: "ip_lib \<Rightarrow> (string \<Rightarrow> string + lookup_result) \<Rightarrow> string \<Rightarrow> ssrf_error + unit" where
  "assertPublicHostname lib lookupFn hostname = map_sum id (\<lambda>_. ()) (resolvePinnedHostname lib lookupFn hostname)"

definition resolvePinnedDispatcherLookup ::
  "ip_lib \<Rightarrow> pinned_hostname \<Rightarrow> (string \<times> string list) option \<Rightarrow> ssrf_policy option \<Rightarrow> ssrf_error + lookup_fn" where
  "resolvePinnedDispatcherLookup lib pinned override policy =
     (case override of
        None \<Rightarrow> Inr (ph_lookup pinned)
      | Some (overrideHostname, overrideAddresses) \<Rightarrow>
        (let normalizedOverrideHost = normalizeHostname overrideHostname in
         if normalizedOverrideHost = [] \<or> normalizedOverrideHost \<noteq> ph_hostname pinned
         then Inl (LookupError (''Pinned dispatcher override hostname mismatch: expected '' @ ph_hostname pinned @
                                '', got '' @ overrideHostname))
         else case (if shouldSkipPrivateNetworkChecks (ph_hostname pinned) policy then Inr ()
                    else assertAllowedResolvedAddressesOrThrow lib (map pinned_record overrideAddresses) policy) of
           Inl e \<Rightarrow> Inl e
         | Inr _ \<Rightarrow> createPinnedLookup (ph_hostname pinned) overrideAddresses (Some (ph_lookup pinned))))"

end
