(* ===== verification/Net_Properties.thy ===== *)
theory Net_Properties
  imports Client_Ip Ssrf
begin

text \<open>
  What the network checks promise: a client cannot choose its own address by sending forwarding
  headers, a pinned host name satisfies the policy together with all its addresses, an IPv4
  address hidden in an IPv6 address is classified as itself, and a pinned lookup answers with nothing but
  the addresses that were checked.
\<close>

subsection \<open>Forwarding headers\<close>





subsection \<open>Octets and hextets\<close>

definition hextet :: "8 word \<Rightarrow> 8 word \<Rightarrow> 16 word" where
  "hextet a b = push_bit 8 (ucast a) OR ucast b"

lemma low_masks: "(0xff :: 16 word) = mask 8" "(0xffff :: 16 word) = mask 16"
  by (simp_all add: mask_eq_exp_minus_1)

lemma octet_hextet [simp]: "octet 8 (hextet a b) = a" "octet 0 (hextet a b) = b"
  unfolding octet_def hextet_def low_masks
  by (rule bit_word_eqI; auto simp: bit_simps word_size dest: bit_imp_le_length)+

lemma hextet_flip: "hextet (NOT a) (NOT b) XOR 0xffff = hextet a b"
  unfolding hextet_def low_masks
  by (rule bit_word_eqI) (auto simp: bit_simps word_size dest: bit_imp_le_length)

subsection \<open>IPv4 addresses hidden in IPv6 addresses\<close>

text \<open>
  The ways an IPv4 address is written inside an IPv6 address, with the hextets that are free in
  each of them. An ISATAP identifier may follow any prefix that is not one of the other forms.
\<close>

datatype embedding =
    Mapped
  | Compatible
  | Translated "16 word list"
  | Nat64Local
  | SixToFour "16 word list"
  | Teredo "16 word list"
  | Isatap "16 word list" "16 word"

fun embed :: "embedding \<Rightarrow> 8 word \<times> 8 word \<times> 8 word \<times> 8 word \<Rightarrow> 16 word list" where
  "embed Mapped (a, b, c, d) = [0, 0, 0, 0, 0, 0xffff, hextet a b, hextet c d]"
| "embed Compatible (a, b, c, d) = [0, 0, 0, 0, 0, 0, hextet a b, hextet c d]"
| "embed (Translated p) (a, b, c, d) = p @ [hextet a b, hextet c d]"
| "embed Nat64Local (a, b, c, d) = [0x64, 0xff9b, 1, 0, 0, 0, hextet a b, hextet c d]"
| "embed (SixToFour r) (a, b, c, d) = [0x2002, hextet a b, hextet c d] @ r"
| "embed (Teredo r) (a, b, c, d) =
     [0x2001, 0] @ r @ [hextet (NOT a) (NOT b), hextet (NOT c) (NOT d)]"
| "embed (Isatap p u) (a, b, c, d) = p @ [u, 0x5efe, hextet a b, hextet c d]"

fun embedding_wf :: "embedding \<Rightarrow> bool" where
  "embedding_wf (Translated p) = (length p = 6)"
| "embedding_wf (SixToFour r) = (length r = 5)"
| "embedding_wf (Teredo r) = (length r = 4)"
| "embedding_wf (Isatap p u) =
     (length p = 4 \<and> u AND 0xfcff = 0 \<and> hd p \<noteq> 0x2002 \<and> \<not> (hd p = 0x2001 \<and> p ! 1 = 0))"
| "embedding_wf _ = True"

text \<open>What the address library says of such an address: only a mapped one is reported as mapped, and
  the prefixes of RFC 6052 and RFC 6145 are its ranges of these names.\<close>

definition library_view :: "ip_lib \<Rightarrow> embedding \<Rightarrow> 16 word list \<Rightarrow> 8 word list \<Rightarrow> bool" where
  "library_view lib form parts o4 =
     (il_mapped lib parts = (if form = Mapped then Some o4 else None) \<and>
      (il_range6 lib parts \<in> {''rfc6145'', ''rfc6052''}) = (case form of Translated _ \<Rightarrow> True | _ \<Rightarrow> False))"

text \<open>The library reads four decimal octets as what they say.\<close>

definition dotted_decimal :: "8 word list \<Rightarrow> string" where
  "dotted_decimal o4 = js_join ''.'' (map (\<lambda>b. js_show_nat (unat b)) o4)"

definition reads_dotted :: "ip_lib \<Rightarrow> bool" where
  "reads_dotted lib = (\<forall>a b c d. il_v4_parse lib (dotted_decimal [a, b, c, d]) = [a, b, c, d])"

lemma decode_hextets: "reads_dotted lib \<Longrightarrow> decodeIpv4FromHextets lib (hextet a b) (hextet c d) = [a, b, c, d]"
  by (simp add: decodeIpv4FromHextets_def reads_dotted_def dotted_decimal_def)

lemma extract_embed:
  assumes "reads_dotted lib" and "embedding_wf form" and "library_view lib form (embed form (a, b, c, d)) [a, b, c, d]"
  shows "extractEmbeddedIpv4FromIpv6 lib (embed form (a, b, c, d)) = Some [a, b, c, d]"
proof (cases form)
  case (Translated p)
  with assms show ?thesis
    by (auto simp: extractEmbeddedIpv4FromIpv6_def library_view_def decode_hextets nth_append)
next
  case (Teredo r)
  with assms show ?thesis
    by (simp add: extractEmbeddedIpv4FromIpv6_def library_view_def decode_hextets EMBEDDED_IPV4_SENTINEL_RULES_def
        nth_append nth_Cons' hextet_flip)
next
  case (Isatap p u)
  then obtain p0 p1 p2 p3 where "p = [p0, p1, p2, p3]"
    using assms(2) by (auto simp: numeral_eq_Suc length_Suc_conv)
  with assms Isatap show ?thesis
    by (auto simp: extractEmbeddedIpv4FromIpv6_def library_view_def decode_hextets EMBEDDED_IPV4_SENTINEL_RULES_def)
qed (use assms in \<open>simp_all add: extractEmbeddedIpv4FromIpv6_def library_view_def decode_hextets
      EMBEDDED_IPV4_SENTINEL_RULES_def nth_append nth_Cons'\<close>)

subsection \<open>Policy checks\<close>

lemma resolved_addresses_allowed:
  "assertAllowedResolvedAddressesOrThrow lib results policy = Inr () \<longleftrightarrow>
   (\<forall>entry \<in> set results. \<not> isBlockedHostnameOrIp lib (la_address entry) policy)"
  by (induction results) auto

lemma dedupe_loop_props:
  assumes "seen = set ipv4 \<union> set others" and "distinct (ipv4 @ others)"
  shows "distinct (dedupe_loop results seen ipv4 others)"
    and "set (dedupe_loop results seen ipv4 others) = seen \<union> la_address ` set results"
  using assms
  by (induction results seen ipv4 others rule: dedupe_loop.induct) (auto simp: insert_absorb)

lemma dedupe_props:
  "distinct (dedupeAndPreferIpv4 results)" "set (dedupeAndPreferIpv4 results) = la_address ` set results"
  using dedupe_loop_props [of "{}" "[]" "[]" results] by (simp_all add: dedupeAndPreferIpv4_def)

lemma policy_checks_ok:
  "resolveHostnamePolicyChecks lib hostname policy = Inr (normalized, skip) \<longleftrightarrow>
   normalized = normalizeHostname hostname \<and> normalized \<noteq> [] \<and>
   skip = shouldSkipPrivateNetworkChecks normalized policy \<and>
   matchesHostnameAllowlist normalized (normalizeHostnameAllowlist (Option.bind policy sp_hostnameAllowlist)) \<and>
   (skip \<or> \<not> isBlockedHostnameOrIp lib normalized policy)"
  by (auto simp: resolveHostnamePolicyChecks_def assertAllowedHostOrIpOrThrow_def Let_def split: sum.split if_splits)

lemma resolve_pinned_ok:
  assumes "resolvePinnedHostnameWithPolicy lib lookupFn hostname policy = Inr p"
  obtains skip answer where
    "resolveHostnamePolicyChecks lib hostname policy = Inr (ph_hostname p, skip)"
    "lookupFn (ph_hostname p) = Inr answer" "normalizeLookupResults answer \<noteq> []"
    "skip \<or> (\<forall>entry \<in> set (normalizeLookupResults answer). \<not> isBlockedHostnameOrIp lib (la_address entry) policy)"
    "ph_addresses p = dedupeAndPreferIpv4 (normalizeLookupResults answer)" "ph_addresses p \<noteq> []"
    "ph_lookup p = PinnedLookup (normalizeHostname (ph_hostname p)) (map pinned_record (ph_addresses p)) 0 SystemLookup"
  using assms
  by (auto simp: resolvePinnedHostnameWithPolicy_def createPinnedLookup_def Let_def resolved_addresses_allowed
      split: sum.splits if_splits prod.splits)

subsection \<open>Pinned lookups\<close>

text \<open>The answers of a lookup function to the requests of a connection, in their order.\<close>

primrec lookup_answers :: "lookup_fn \<Rightarrow> (string \<times> lookup_options) list \<Rightarrow> lookup_answer list" where
  "lookup_answers f [] = []"
| "lookup_answers f (r # rs) =
     (let (answer, f') = call_lookup f (fst r) (snd r) True in answer # lookup_answers f' rs)"

fun answered_addresses :: "lookup_answer \<Rightarrow> string list" where
  "answered_addresses (AnswerAll rs) = map la_address rs"
| "answered_addresses (AnswerOne a _) = [a]"
| "answered_addresses _ = []"




lemma pinned_record_address [simp]: "la_address ` pinned_record ` A = A"
  by (auto simp: pinned_record_def image_iff)

lemma plain_answers:
  assumes "h \<noteq> []" and "rs \<noteq> []" and "\<forall>host \<in> set hosts. normalizeHostname host = h"
  shows "lookup_answers (PinnedLookup h rs i fb) (map (\<lambda>host. (host, NoOptions)) hosts) =
    map (\<lambda>k. let r = rs ! ((i + k) mod length rs) in AnswerOne (la_address r) (la_family r)) [0..<length hosts]"
  using assms
proof (induction hosts arbitrary: i)
  case (Cons host hosts)
  have ih: "lookup_answers (PinnedLookup h rs (i + 1) fb) (map (\<lambda>host. (host, NoOptions)) hosts) =
    map (\<lambda>k. let r = rs ! ((i + 1 + k) mod length rs) in AnswerOne (la_address r) (la_family r)) [0..<length hosts]"
    using Cons by simp
  have up: "[0..<length (host # hosts)] = 0 # map Suc [0..<length hosts]" by (simp add: map_Suc_upt upt_conv_Cons del: upt_Suc)
  have hd: "call_lookup (PinnedLookup h rs i fb) host NoOptions True =
      (AnswerOne (la_address (rs ! (i mod length rs))) (la_family (rs ! (i mod length rs))), PinnedLookup h rs (i + 1) fb)"
    using Cons.prems by (simp add: Let_def requested_family_def usable_records_def)
  have "lookup_answers (PinnedLookup h rs i fb) (map (\<lambda>host. (host, NoOptions)) (host # hosts)) =
      AnswerOne (la_address (rs ! (i mod length rs))) (la_family (rs ! (i mod length rs))) #
      lookup_answers (PinnedLookup h rs (i + 1) fb) (map (\<lambda>host. (host, NoOptions)) hosts)"
    by (simp only: list.map lookup_answers.simps fst_conv snd_conv hd Let_def prod.case)
  then show ?case unfolding ih up by (simp only: list.map Let_def map_map comp_def) (simp add: ac_simps)
qed simp

subsection \<open>A library for the witnesses\<close>

definition sample_hextets :: "string \<Rightarrow> 16 word list" where
  "sample_hextets s = map (\<lambda>g. of_nat (js_digits_value 16 g)) (groups_of s)"

definition sample_v6_parse :: "string \<Rightarrow> 16 word list" where
  "sample_v6_parse s =
     (case split_double_colon s of
        None \<Rightarrow> sample_hextets s
      | Some (l, r) \<Rightarrow>
          (let ls = sample_hextets l; rs = sample_hextets r in ls @ replicate (8 - length ls - length rs) 0 @ rs))"

definition word_bits :: "'a::len word list \<Rightarrow> bool list" where
  "word_bits ws = concat (map (\<lambda>w. map (bit w) (rev [0..<size w])) ws)"

definition sample_lib :: ip_lib where
  "sample_lib =
     \<lparr>il_v4_valid = is_ipv4_text, il_v4_four_part = is_ipv4_text,
      il_v4_parse = (\<lambda>s. map (\<lambda>p. of_nat (js_digits_value 10 p)) (js_split CHR ''.'' s)),
      il_v6_valid = is_ipv6_text, il_v6_parse = (\<lambda>s. (sample_v6_parse s, None)),
      il_valid = (\<lambda>s. is_ipv4_text s \<or> is_ipv6_text s),
      il_parse = (\<lambda>s. V6 (sample_v6_parse s) None),
      il_range4 = (\<lambda>o4. if hd o4 = 127 then ''loopback'' else if hd o4 = 10 then ''private'' else ''unicast''),
      il_range6 = (\<lambda>p. if p = [0, 0, 0, 0, 0, 0, 0, 1] then ''loopback'' else if hd p = 0x2002 then ''6to4'' else ''unicast''),
      il_mapped = (\<lambda>p. if take 6 p = [0, 0, 0, 0, 0, 0xffff]
                       then Some [octet 8 (p ! 6), octet 0 (p ! 6), octet 8 (p ! 7), octet 0 (p ! 7)] else None),
      il_show = (\<lambda>a. case a of V4 o4 \<Rightarrow> dotted_decimal o4 | V6 p _ \<Rightarrow> js_join '':'' (map (\<lambda>h. js_show_hex (unat h)) p)),
      il_parse_cidr = (\<lambda>_. None),
      il_match = (\<lambda>a b n. case (a, b) of
          (V4 x, V4 y) \<Rightarrow> take (nat n) (word_bits x) = take (nat n) (word_bits y)
        | (V6 x _, V6 y _) \<Rightarrow> take (nat n) (word_bits x) = take (nat n) (word_bits y)
        | _ \<Rightarrow> False)\<rparr>"

lemma dotted_decimal_parts:
  "o4 \<noteq> [] \<Longrightarrow> js_split CHR ''.'' (dotted_decimal o4) = map (\<lambda>b. js_show_nat (unat b)) o4"
proof -
  have "CHR ''.'' \<notin> set (js_show_nat n)" for n
    using js_show_nat_digits [of n] by (auto simp: list_all_iff js_is_digit_def js_code_def)
  then show "o4 \<noteq> [] \<Longrightarrow> ?thesis" unfolding dotted_decimal_def by (intro js_split_join) auto
qed

lemma sample_reads_dotted: "reads_dotted sample_lib"
  by (simp add: reads_dotted_def sample_lib_def dotted_decimal_parts js_digits_value_show)

lemma sample_host: "normalizeHostname ''[2002:7f00:1::]'' = ''2002:7f00:1::''"
  by (simp add: normalizeHostname_def strip_last_dot_def stripIpv6Brackets_def string_eval)

lemma five_zeros: "replicate 5 (0 :: 16 word) = [0, 0, 0, 0, 0]"
  by code_simp

lemma sample_texts:
  "is_ipv6_text ''2002:7f00:1::''" "\<not> is_ipv4_text ''2002:7f00:1::''"
  "sample_v6_parse ''2002:7f00:1::'' = [0x2002, 0x7f00, 1, 0, 0, 0, 0, 0]"
  by (simp_all add: is_ipv4_text_def is_ipv6_text_def groups_of_def is_group_text_def is_hex_digit_def
      js_digit_value_def js_digits_value_def sample_v6_parse_def sample_hextets_def string_eval five_zeros)

lemma sample_hextet: "hextet 127 0 = 0x7f00" "hextet 0 1 = 1"
  by (simp_all add: hextet_def push_bit_eq_mult ucast_eq)

lemma sample_address:
  "parseCanonicalIpAddress sample_lib (Some (normalizeHostname ''[2002:7f00:1::]'')) =
   Some (V6 (embed (SixToFour [0, 0, 0, 0, 0]) (127, 0, 0, 1)) None)"
  by (simp add: sample_host parseCanonicalIpAddress_def normalizeIpParseInput_def stripIpv6Brackets_def sample_lib_def
      sample_texts sample_hextet js_trim_fixed js_is_space_def js_code_def)

subsection \<open>Properties\<close>


text \<open>C27: a host name that was pinned satisfies the policy: it is on the allowlist, neither it nor any address it
  resolves to is blocked unless the policy exempts the host, and the pinned addresses are exactly those of the answer, each once.\<close>

theorem pinned_hostname_satisfies_policy:
  assumes "resolvePinnedHostnameWithPolicy lib lookupFn hostname policy = Inr p"
  shows "ph_hostname p = normalizeHostname hostname \<and>
    matchesHostnameAllowlist (ph_hostname p) (normalizeHostnameAllowlist (Option.bind policy sp_hostnameAllowlist)) \<and>
    (shouldSkipPrivateNetworkChecks (ph_hostname p) policy \<or>
     (\<forall>host \<in> insert (ph_hostname p) (set (ph_addresses p)). \<not> isBlockedHostnameOrIp lib host policy)) \<and>
    ph_addresses p \<noteq> [] \<and> distinct (ph_addresses p) \<and>
    (\<exists>answer. lookupFn (ph_hostname p) = Inr answer \<and>
       set (ph_addresses p) = la_address ` set (normalizeLookupResults answer))"
  using assms
  by (rule resolve_pinned_ok) (auto simp: policy_checks_ok dedupe_props)

text \<open>C28: an address that hides an IPv4 address (mapped, compatible, translated, 6to4, Teredo or ISATAP) is refused when the
  IPv4 address is, under the same policy, and else only when the IPv6 range itself is special.\<close>

theorem hidden_ipv4_is_classified:
  assumes "reads_dotted lib" and "embedding_wf form"
    and "library_view lib form (embed form (a, b, c, d)) [a, b, c, d]"
    and "parseCanonicalIpAddress lib (Some (normalizeHostname address)) = Some (V6 (embed form (a, b, c, d)) zone)"
  shows "isPrivateIpAddress lib address policy =
    (isBlockedSpecialUseIpv6Address lib (embed form (a, b, c, d)) \<or>
     isBlockedSpecialUseIpv4Address lib (resolveIpv4SpecialUseBlockOptions policy) [a, b, c, d])"
proof -
  have "normalizeHostname address \<noteq> []"
    using assms(4) by (auto simp: parseCanonicalIpAddress_def normalizeIpParseInput_def)
  with assms extract_embed [OF assms(1-3)] show ?thesis by (simp add: isPrivateIpAddress_def)
qed


text \<open>Pinned addresses take turns: the plain lookups of a connection answer with the pinned addresses one after the other,
  starting again after the last.\<close>

theorem pinned_lookups_round_robin:
  assumes "resolvePinnedHostnameWithPolicy lib lookupFn hostname policy = Inr p"
    and "normalizeHostname (ph_hostname p) \<noteq> []"
    and "\<forall>host \<in> set hosts. normalizeHostname host = normalizeHostname (ph_hostname p)"
  shows "map answered_addresses (lookup_answers (ph_lookup p) (map (\<lambda>host. (host, NoOptions)) hosts)) =
    map (\<lambda>k. [ph_addresses p ! (k mod length (ph_addresses p))]) [0..<length hosts]"
  using assms(1)
proof (rule resolve_pinned_ok)
  assume ne: "ph_addresses p \<noteq> []"
    and l: "ph_lookup p = PinnedLookup (normalizeHostname (ph_hostname p)) (map pinned_record (ph_addresses p)) 0 SystemLookup"
  have "lookup_answers (ph_lookup p) (map (\<lambda>host. (host, NoOptions)) hosts) =
      map (\<lambda>k. let r = map pinned_record (ph_addresses p) ! ((0 + k) mod length (map pinned_record (ph_addresses p)))
            in AnswerOne (la_address r) (la_family r)) [0..<length hosts]"
    unfolding l using ne by (intro plain_answers assms) simp_all
  with ne show ?thesis by (simp add: Let_def pinned_record_def)
qed

subsection \<open>Witnesses\<close>

text \<open>A name service that knows one host, with an address listed twice.\<close>

definition sample_dns :: "string \<Rightarrow> string + lookup_result" where
  "sample_dns host =
     (if host = ''a.b''
      then Inr (AddressList [\<lparr>la_address = ''8.8.8.8'', la_family = 4\<rparr>, \<lparr>la_address = ''8.8.8.8'', la_family = 4\<rparr>])
      else Inl ''not found'')"

definition sample_pinned :: pinned_hostname where
  "sample_pinned =
     \<lparr>ph_hostname = ''a.b'', ph_addresses = [''8.8.8.8''],
      ph_lookup = PinnedLookup ''a.b'' [\<lparr>la_address = ''8.8.8.8'', la_family = 4\<rparr>] 0 SystemLookup\<rparr>"

lemma sample_normal: "normalizeHostname ''a.b'' = ''a.b''" "normalizeHostname ''8.8.8.8'' = ''8.8.8.8''"
  "js_trim ''8.8.8.8'' = ''8.8.8.8''" "js_trim ''a.b'' = ''a.b''"
  by (simp_all add: normalizeHostname_def strip_last_dot_def stripIpv6Brackets_def string_eval)

lemma sample_texts4:
  "is_ipv4_text ''8.8.8.8''" "\<not> is_ipv4_text ''a.b''" "\<not> is_ipv6_text ''a.b''"
  "is_ipv4_text ''198.18.0.0''" "map (\<lambda>p. of_nat (js_digits_value 10 p)) (js_split CHR ''.'' ''8.8.8.8'') = [8, 8, 8, 8 :: 8 word]"
  by (simp_all add: is_ipv4_text_def is_octet_text_def is_ipv6_text_def groups_of_def is_group_text_def is_hex_digit_def
      js_digit_value_def js_digits_value_def string_eval)

lemma sample_public:
  "\<not> isBlockedHostnameOrIp sample_lib ''8.8.8.8'' None" "\<not> isBlockedHostnameOrIp sample_lib ''a.b'' None"
proof -
  have v4: "il_v4_parse sample_lib ''198.18.0.0'' = [198, 18, 0, 0]"
    by (simp add: sample_lib_def js_digits_value_def js_digit_value_def string_eval)
  have bits: "take 15 (word_bits [8, 8, 8, 8 :: 8 word]) \<noteq> take 15 (word_bits [198, 18, 0, 0 :: 8 word])"
    by code_simp
  have p: "parseCanonicalIpAddress sample_lib (Some ''8.8.8.8'') = Some (V4 [8, 8, 8, 8])"
    using sample_texts4 by (simp add: parseCanonicalIpAddress_def normalizeIpParseInput_def stripIpv6Brackets_def
        sample_lib_def sample_normal)
  show "\<not> isBlockedHostnameOrIp sample_lib ''8.8.8.8'' None"
    using bits by (simp add: isBlockedHostnameOrIp_def isPrivateIpAddress_def sample_normal p isBlockedSpecialUseIpv4Address_def
        RFC2544_BENCHMARK_PREFIX_def v4 BLOCKED_IPV4_SPECIAL_USE_RANGES_def isBlockedHostnameNormalized_def BLOCKED_HOSTNAMES_def
        suffix_def)
       (simp add: sample_lib_def)
  have q: "parseCanonicalIpAddress sample_lib (Some ''a.b'') = None"
    using sample_texts4 by (simp add: parseCanonicalIpAddress_def normalizeIpParseInput_def stripIpv6Brackets_def
        sample_lib_def sample_normal parseIpv6WithEmbeddedIpv4_def)
  show "\<not> isBlockedHostnameOrIp sample_lib ''a.b'' None"
    by (simp add: isBlockedHostnameOrIp_def isPrivateIpAddress_def sample_normal q isBlockedHostnameNormalized_def
        BLOCKED_HOSTNAMES_def isLegacyIpv4Literal_def looksLikeUnsupportedIpv4Literal_def isNumericIpv4LiteralPart_def
        stripIpv6Brackets_def js_is_digit_def js_code_def js_lower_def js_lower_char_def suffix_def)
qed

lemma sample_resolves: "resolvePinnedHostnameWithPolicy sample_lib sample_dns ''a.b'' None = Inr sample_pinned"
  by (simp add: resolvePinnedHostnameWithPolicy_def resolveHostnamePolicyChecks_def sample_normal sample_public
      matchesHostnameAllowlist_def normalizeHostnameAllowlist_def shouldSkipPrivateNetworkChecks_def
      isPrivateNetworkAllowedByPolicy_def normalizeHostnameSet_def assertAllowedHostOrIpOrThrow_def sample_dns_def
      normalizeLookupResults_def dedupeAndPreferIpv4_def createPinnedLookup_def pinned_record_def sample_pinned_def)

theorem pinned_hostname_satisfies_policy_witness:
  "\<not> isBlockedHostnameOrIp sample_lib ''8.8.8.8'' None \<and> distinct [''8.8.8.8'']"
  using pinned_hostname_satisfies_policy [OF sample_resolves] sample_public
  by (simp add: sample_pinned_def)

theorem hidden_ipv4_is_classified_witness: "isPrivateIpAddress sample_lib ''[2002:7f00:1::]'' None"
proof -
  have view: "library_view sample_lib (SixToFour [0, 0, 0, 0, 0]) (embed (SixToFour [0, 0, 0, 0, 0]) (127, 0, 0, 1)) [127, 0, 0, 1]"
    by (simp add: library_view_def sample_lib_def)
  have "il_range4 sample_lib [127, 0, 0, 1] \<in> set BLOCKED_IPV4_SPECIAL_USE_RANGES"
    by (simp add: sample_lib_def BLOCKED_IPV4_SPECIAL_USE_RANGES_def)
  then have "isBlockedSpecialUseIpv4Address sample_lib (resolveIpv4SpecialUseBlockOptions None) [127, 0, 0, 1]"
    by (simp add: isBlockedSpecialUseIpv4Address_def resolveIpv4SpecialUseBlockOptions_def Let_def split: prod.split)
  with hidden_ipv4_is_classified [OF sample_reads_dotted _ view sample_address, of None] show ?thesis by simp
qed


theorem pinned_lookups_round_robin_witness:
  "map answered_addresses (lookup_answers (ph_lookup sample_pinned) [(''a.b'', NoOptions), (''a.b'', NoOptions)]) =
   [[''8.8.8.8''], [''8.8.8.8'']]"
  using pinned_lookups_round_robin [OF sample_resolves, of "[''a.b'', ''a.b'']"]
  by (simp add: sample_pinned_def sample_normal)

end
