(* ===== verification/Rate_Limits.thy ===== *)
theory Rate_Limits
  imports Client_Ip Ordered_Store
begin

text \<open>
  The limits of the gateway: \<open>src/gateway/auth-rate-limit.ts\<close> (failed logins),
  \<open>src/infra/fixed-window-rate-limit.ts\<close>, \<open>src/gateway/control-plane-rate-limit.ts\<close> (writes of a client)
  and \<open>src/gateway/server/preauth-connection-budget.ts\<close> (open connections before login). The object that a factory
  of the sources returns is a record here, each of its methods a function of it; the time at which a
  method is called is an argument. The entries of a \<open>Map\<close> are objects that the methods change in
  place: the changed object is written back under its key, which keeps its place.
\<close>

subsection \<open>Failed logins\<close>

record auth_entry =
  re_attempts :: "ms list"
  re_lockedUntil :: "ms option"

record rate_limit_config =
  rc_maxAttempts :: "int option"
  rc_windowMs :: "ms option"
  rc_lockoutMs :: "ms option"
  rc_exemptLoopback :: "bool option"

record check_result =
  cr_allowed :: bool
  cr_remaining :: int
  cr_retryAfterMs :: ms

record auth_limiter =
  al_maxAttempts :: int
  al_windowMs :: ms
  al_lockoutMs :: ms
  al_exemptLoopback :: bool
  al_entries :: "(string, auth_entry) js_map"

definition AUTH_RATE_LIMIT_SCOPE_DEFAULT :: string where
  "AUTH_RATE_LIMIT_SCOPE_DEFAULT = ''default''"

definition BROWSER_ORIGIN_RATE_LIMIT_KEY_PREFIX :: string where
  "BROWSER_ORIGIN_RATE_LIMIT_KEY_PREFIX = ''browser-origin:''"

definition createAuthRateLimiter :: "rate_limit_config \<Rightarrow> auth_limiter" where
  "createAuthRateLimiter config =
     \<lparr>al_maxAttempts = js_or_else (rc_maxAttempts config) 10,
      al_windowMs = js_or_else (rc_windowMs config) 60000,
      al_lockoutMs = js_or_else (rc_lockoutMs config) 300000,
      al_exemptLoopback = js_or_else (rc_exemptLoopback config) True,
      al_entries = []\<rparr>"

definition normalizeRateLimitClientIp :: "ip_lib \<Rightarrow> string option \<Rightarrow> string" where
  "normalizeRateLimitClientIp lib ip =
     (case ip of
        Some s \<Rightarrow>
          (if prefix BROWSER_ORIGIN_RATE_LIMIT_KEY_PREFIX s then s
           else js_or_else (resolveClientIp lib ip None None [] False) ''unknown'')
      | None \<Rightarrow> js_or_else (resolveClientIp lib ip None None [] False) ''unknown'')"

definition normalizeScope :: "string option \<Rightarrow> string" where
  "normalizeScope scope =
     (let trimmed = js_trim (js_or_else scope AUTH_RATE_LIMIT_SCOPE_DEFAULT) in
      if trimmed = [] then AUTH_RATE_LIMIT_SCOPE_DEFAULT else trimmed)"

definition resolveKey :: "ip_lib \<Rightarrow> string option \<Rightarrow> string option \<Rightarrow> string \<times> string" where
  "resolveKey lib rawIp rawScope =
     (let ip = normalizeRateLimitClientIp lib rawIp; scope = normalizeScope rawScope in (scope @ '':'' @ ip, ip))"

definition isExempt :: "ip_lib \<Rightarrow> auth_limiter \<Rightarrow> string \<Rightarrow> bool" where
  "isExempt lib l ip = (al_exemptLoopback l \<and> isLoopbackIpAddress lib (Some ip))"

definition slideWindow :: "auth_limiter \<Rightarrow> ms \<Rightarrow> auth_entry \<Rightarrow> auth_entry" where
  "slideWindow l now entry =
     entry\<lparr>re_attempts := filter (\<lambda>ts. ts > now - al_windowMs l) (re_attempts entry)\<rparr>"

text \<open>\<open>entry.lockedUntil && now < entry.lockedUntil\<close>.\<close>

definition is_locked :: "ms \<Rightarrow> auth_entry \<Rightarrow> bool" where
  "is_locked now entry = (js_truthy_int (re_lockedUntil entry) \<and> now < the (re_lockedUntil entry))"

definition checkAuthLimit ::
  "ip_lib \<Rightarrow> ms \<Rightarrow> string option \<Rightarrow> string option \<Rightarrow> auth_limiter \<Rightarrow> check_result \<times> auth_limiter" where
  "checkAuthLimit lib now rawIp rawScope l =
     (let (key, ip) = resolveKey lib rawIp rawScope;
          fresh = \<lparr>cr_allowed = True, cr_remaining = al_maxAttempts l, cr_retryAfterMs = 0\<rparr>
      in if isExempt lib l ip then (fresh, l)
         else case jm_get (al_entries l) key of
           None \<Rightarrow> (fresh, l)
         | Some entry \<Rightarrow>
           if is_locked now entry
           then (\<lparr>cr_allowed = False, cr_remaining = 0, cr_retryAfterMs = the (re_lockedUntil entry) - now\<rparr>, l)
           else
             (let unlocked = (if js_truthy_int (re_lockedUntil entry)
                              then entry\<lparr>re_lockedUntil := None, re_attempts := []\<rparr> else entry);
                  slid = slideWindow l now unlocked;
                  remaining = max 0 (al_maxAttempts l - int (length (re_attempts slid)))
              in (\<lparr>cr_allowed = remaining > 0, cr_remaining = remaining, cr_retryAfterMs = 0\<rparr>,
                  l\<lparr>al_entries := jm_set (al_entries l) key slid\<rparr>)))"

definition recordFailure :: "ip_lib \<Rightarrow> ms \<Rightarrow> string option \<Rightarrow> string option \<Rightarrow> auth_limiter \<Rightarrow> auth_limiter" where
  "recordFailure lib now rawIp rawScope l =
     (let (key, ip) = resolveKey lib rawIp rawScope in
      if isExempt lib l ip then l
      else let entry = js_or_else (jm_get (al_entries l) key) \<lparr>re_attempts = [], re_lockedUntil = None\<rparr>;
               l1 = l\<lparr>al_entries := jm_set (al_entries l) key entry\<rparr>
        in if is_locked now entry then l1
           else let slid = slideWindow l now entry;
                    pushed = slid\<lparr>re_attempts := re_attempts slid @ [now]\<rparr>;
                    locked = (if int (length (re_attempts pushed)) \<ge> al_maxAttempts l
                              then pushed\<lparr>re_lockedUntil := Some (now + al_lockoutMs l)\<rparr> else pushed)
             in l1\<lparr>al_entries := jm_set (al_entries l1) key locked\<rparr>)"

definition resetAuthLimit :: "ip_lib \<Rightarrow> string option \<Rightarrow> string option \<Rightarrow> auth_limiter \<Rightarrow> auth_limiter" where
  "resetAuthLimit lib rawIp rawScope l =
     l\<lparr>al_entries := jm_delete (al_entries l) (fst (resolveKey lib rawIp rawScope))\<rparr>"

text \<open>The sweep of the timer: a locked entry stays as it is, another one slides, and an empty one goes.\<close>

primrec prune_entries :: "auth_limiter \<Rightarrow> ms \<Rightarrow> (string \<times> auth_entry) list \<Rightarrow> (string \<times> auth_entry) list" where
  "prune_entries l now [] = []"
| "prune_entries l now (p # ps) =
     (if is_locked now (snd p) then p # prune_entries l now ps
      else let slid = slideWindow l now (snd p) in
        if re_attempts slid = [] then prune_entries l now ps
        else (fst p, slid) # prune_entries l now ps)"

definition pruneAuthLimits :: "ms \<Rightarrow> auth_limiter \<Rightarrow> auth_limiter" where
  "pruneAuthLimits now l = l\<lparr>al_entries := prune_entries l now (al_entries l)\<rparr>"

definition authLimiterSize :: "auth_limiter \<Rightarrow> nat" where
  "authLimiterSize l = jm_size (al_entries l)"

definition disposeAuthLimiter :: "auth_limiter \<Rightarrow> auth_limiter" where
  "disposeAuthLimiter l = l\<lparr>al_entries := []\<rparr>"

datatype auth_call =
    AuthCheck ms "string option" "string option"
  | AuthFailure ms "string option" "string option"
  | AuthReset ms "string option" "string option"
  | AuthPrune ms
  | AuthDispose ms

fun auth_step :: "ip_lib \<Rightarrow> auth_limiter \<Rightarrow> auth_call \<Rightarrow> auth_limiter" where
  "auth_step lib l (AuthCheck now ip scope) = snd (checkAuthLimit lib now ip scope l)"
| "auth_step lib l (AuthFailure now ip scope) = recordFailure lib now ip scope l"
| "auth_step lib l (AuthReset now ip scope) = resetAuthLimit lib ip scope l"
| "auth_step lib l (AuthPrune now) = pruneAuthLimits now l"
| "auth_step lib l (AuthDispose now) = disposeAuthLimiter l"

subsection \<open>Fixed windows\<close>

record window_limiter =
  wl_maxRequests :: int
  wl_windowMs :: ms
  wl_count :: int
  wl_windowStartMs :: ms

definition createFixedWindowRateLimiter :: "rat \<Rightarrow> rat \<Rightarrow> window_limiter" where
  "createFixedWindowRateLimiter maxRequests windowMs =
     \<lparr>wl_maxRequests = max 1 \<lfloor>maxRequests\<rfloor>, wl_windowMs = max 1 \<lfloor>windowMs\<rfloor>, wl_count = 0, wl_windowStartMs = 0\<rparr>"

definition consumeWindow :: "ms \<Rightarrow> window_limiter \<Rightarrow> check_result \<times> window_limiter" where
  "consumeWindow nowMs w =
     (let w1 = (if nowMs - wl_windowStartMs w \<ge> wl_windowMs w
                then w\<lparr>wl_windowStartMs := nowMs, wl_count := 0\<rparr> else w)
      in if wl_count w1 \<ge> wl_maxRequests w1
         then (\<lparr>cr_allowed = False, cr_remaining = 0,
                cr_retryAfterMs = max 0 (wl_windowStartMs w1 + wl_windowMs w1 - nowMs)\<rparr>, w1)
         else (let count = wl_count w1 + 1 in
               (\<lparr>cr_allowed = True, cr_remaining = max 0 (wl_maxRequests w1 - count), cr_retryAfterMs = 0\<rparr>,
                w1\<lparr>wl_count := count\<rparr>)))"

definition resetWindow :: "window_limiter \<Rightarrow> window_limiter" where
  "resetWindow w = w\<lparr>wl_count := 0, wl_windowStartMs := 0\<rparr>"

subsection \<open>Control-plane writes\<close>

definition CONTROL_PLANE_RATE_LIMIT_MAX_REQUESTS :: int where
  "CONTROL_PLANE_RATE_LIMIT_MAX_REQUESTS = 3"

definition CONTROL_PLANE_RATE_LIMIT_WINDOW_MS :: ms where
  "CONTROL_PLANE_RATE_LIMIT_WINDOW_MS = 60000"

definition CONTROL_PLANE_BUCKET_MAX_STALE_MS :: ms where
  "CONTROL_PLANE_BUCKET_MAX_STALE_MS = 5 * 60000"

definition CONTROL_PLANE_BUCKET_MAX_ENTRIES :: nat where
  "CONTROL_PLANE_BUCKET_MAX_ENTRIES = 10000"

record plane_bucket =
  pb_count :: int
  pb_windowStartMs :: ms

record gateway_client =
  gc_deviceId :: js_value
  gc_clientIp :: js_value
  gc_connId :: js_value

definition normalizePart :: "js_value \<Rightarrow> string \<Rightarrow> string" where
  "normalizePart v fallback =
     (case v of JStr s \<Rightarrow> (let normalized = js_trim s in if normalized \<noteq> [] then normalized else fallback) | _ \<Rightarrow> fallback)"

definition resolveControlPlaneRateLimitKey :: "gateway_client option \<Rightarrow> string" where
  "resolveControlPlaneRateLimitKey client =
     (let part = (\<lambda>field fallback. normalizePart (case client of None \<Rightarrow> JUndef | Some c \<Rightarrow> field c) fallback);
          deviceId = part gc_deviceId ''unknown-device''; clientIp = part gc_clientIp ''unknown-ip'';
          connId = part gc_connId []
      in if deviceId = ''unknown-device'' \<and> clientIp = ''unknown-ip'' \<and> connId \<noteq> []
         then deviceId @ ''|'' @ clientIp @ ''|conn='' @ connId
         else deviceId @ ''|'' @ clientIp)"

definition consumeControlPlaneWriteBudget ::
  "ms \<Rightarrow> gateway_client option \<Rightarrow> (string, plane_bucket) js_map \<Rightarrow> (check_result \<times> string) \<times> (string, plane_bucket) js_map" where
  "consumeControlPlaneWriteBudget nowMs client buckets =
     (let key = resolveControlPlaneRateLimitKey client;
          start_window =
            (let room = (if jm_get buckets key = None \<and> jm_size buckets \<ge> CONTROL_PLANE_BUCKET_MAX_ENTRIES
                         then jm_drop_oldest buckets else buckets)
             in ((\<lparr>cr_allowed = True, cr_remaining = CONTROL_PLANE_RATE_LIMIT_MAX_REQUESTS - 1, cr_retryAfterMs = 0\<rparr>, key),
                 jm_set room key \<lparr>pb_count = 1, pb_windowStartMs = nowMs\<rparr>))
      in case jm_get buckets key of
           None \<Rightarrow> start_window
         | Some bucket \<Rightarrow>
           if nowMs - pb_windowStartMs bucket \<ge> CONTROL_PLANE_RATE_LIMIT_WINDOW_MS then start_window
           else if pb_count bucket \<ge> CONTROL_PLANE_RATE_LIMIT_MAX_REQUESTS
           then ((\<lparr>cr_allowed = False, cr_remaining = 0,
                   cr_retryAfterMs = max 0 (pb_windowStartMs bucket + CONTROL_PLANE_RATE_LIMIT_WINDOW_MS - nowMs)\<rparr>, key), buckets)
           else (let count = pb_count bucket + 1 in
                 ((\<lparr>cr_allowed = True, cr_remaining = max 0 (CONTROL_PLANE_RATE_LIMIT_MAX_REQUESTS - count),
                    cr_retryAfterMs = 0\<rparr>, key),
                  jm_set buckets key (bucket\<lparr>pb_count := count\<rparr>))))"

definition pruneStaleControlPlaneBuckets ::
  "ms \<Rightarrow> (string, plane_bucket) js_map \<Rightarrow> nat \<times> (string, plane_bucket) js_map" where
  "pruneStaleControlPlaneBuckets nowMs buckets =
     (let stale = (\<lambda>p. nowMs - pb_windowStartMs (snd p) > CONTROL_PLANE_BUCKET_MAX_STALE_MS) in
      (length (filter stale buckets), filter (\<lambda>p. \<not> stale p) buckets))"

subsection \<open>Connections before login\<close>

definition getMaxPreauthConnectionsPerIpFromEnv :: "string option \<Rightarrow> string option \<Rightarrow> string option \<Rightarrow> int" where
  "getMaxPreauthConnectionsPerIpFromEnv maxPerIp vitest testMaxPerIp =
     (let configured = (if js_truthy_str maxPerIp then maxPerIp
                        else if js_truthy_str vitest then testMaxPerIp else vitest)
      in if \<not> js_truthy_str configured then 32
         else case js_Number (the configured) of
           Finite r \<Rightarrow> if r < 1 then 32 else max 1 \<lfloor>r\<rfloor>
         | _ \<Rightarrow> 32)"

definition normalizeBudgetKey :: "string option \<Rightarrow> string" where
  "normalizeBudgetKey clientIp =
     (let ip = js_trim (js_or_else clientIp []) in if ip = [] then ''__openclaw_unknown_client_ip__'' else ip)"

definition acquirePreauth :: "int \<Rightarrow> string option \<Rightarrow> (string, int) js_map \<Rightarrow> bool \<times> (string, int) js_map" where
  "acquirePreauth limit clientIp counts =
     (let ip = normalizeBudgetKey clientIp; succ_count = js_or_else (jm_get counts ip) 0 + 1 in
      if succ_count > limit then (False, counts) else (True, jm_set counts ip succ_count))"

definition releasePreauth :: "string option \<Rightarrow> (string, int) js_map \<Rightarrow> (string, int) js_map" where
  "releasePreauth clientIp counts =
     (let ip = normalizeBudgetKey clientIp in
      case jm_get counts ip of
        None \<Rightarrow> counts
      | Some current \<Rightarrow> if current \<le> 1 then jm_delete counts ip else jm_set counts ip (current - 1))"

end
