(* ===== verification/Dedupe_Cache.thy ===== *)
theory Dedupe_Cache
  imports Ordered_Store
begin

text \<open>
  The cache of recently seen keys, \<open>src/infra/dedupe.ts\<close>: a \<open>Map\<close> from keys to the time they
  were last seen, oldest first. The methods of the object that the factory returns are functions
  of its record; a missing or empty key is never a duplicate.
\<close>

record dedupe_cache =
  dc_ttlMs :: ms
  dc_maxSize :: int
  dc_cache :: "(string, ms) js_map"

definition createDedupeCache :: "ms \<Rightarrow> rat \<Rightarrow> dedupe_cache" where
  "createDedupeCache ttlMs maxSize = \<lparr>dc_ttlMs = max 0 ttlMs, dc_maxSize = max 0 \<lfloor>maxSize\<rfloor>, dc_cache = []\<rparr>"

definition dedupe_touch :: "string \<Rightarrow> ms \<Rightarrow> dedupe_cache \<Rightarrow> dedupe_cache" where
  "dedupe_touch key now d = d\<lparr>dc_cache := jm_set (jm_delete (dc_cache d) key) key now\<rparr>"

definition dedupe_prune :: "ms \<Rightarrow> dedupe_cache \<Rightarrow> dedupe_cache" where
  "dedupe_prune now d =
     (let unexpired = (if dc_ttlMs d > 0 then filter (\<lambda>p. \<not> snd p < now - dc_ttlMs d) (dc_cache d) else dc_cache d)
      in if dc_maxSize d \<le> 0 then d\<lparr>dc_cache := []\<rparr>
         else d\<lparr>dc_cache := pruneMapToMaxSize unexpired (dc_maxSize d)\<rparr>)"

definition hasUnexpired :: "string \<Rightarrow> ms \<Rightarrow> bool \<Rightarrow> dedupe_cache \<Rightarrow> bool \<times> dedupe_cache" where
  "hasUnexpired key now touchOnRead d =
     (case jm_get (dc_cache d) key of
        None \<Rightarrow> (False, d)
      | Some existing \<Rightarrow>
        if dc_ttlMs d > 0 \<and> now - existing \<ge> dc_ttlMs d then (False, d\<lparr>dc_cache := jm_delete (dc_cache d) key\<rparr>)
        else (True, if touchOnRead then dedupe_touch key now d else d))"

definition dedupe_check :: "string option \<Rightarrow> ms \<Rightarrow> dedupe_cache \<Rightarrow> bool \<times> dedupe_cache" where
  "dedupe_check key now d =
     (if \<not> js_truthy_str key then (False, d)
      else case hasUnexpired (the key) now True d of
        (True, d1) \<Rightarrow> (True, d1)
      | (False, d1) \<Rightarrow> (False, dedupe_prune now (dedupe_touch (the key) now d1)))"

definition dedupe_peek :: "string option \<Rightarrow> ms \<Rightarrow> dedupe_cache \<Rightarrow> bool \<times> dedupe_cache" where
  "dedupe_peek key now d = (if \<not> js_truthy_str key then (False, d) else hasUnexpired (the key) now False d)"

definition dedupe_delete :: "string option \<Rightarrow> dedupe_cache \<Rightarrow> dedupe_cache" where
  "dedupe_delete key d = (if \<not> js_truthy_str key then d else d\<lparr>dc_cache := jm_delete (dc_cache d) (the key)\<rparr>)"

definition dedupe_clear :: "dedupe_cache \<Rightarrow> dedupe_cache" where
  "dedupe_clear d = d\<lparr>dc_cache := []\<rparr>"

definition dedupe_size :: "dedupe_cache \<Rightarrow> nat" where
  "dedupe_size d = jm_size (dc_cache d)"

datatype dedupe_call =
    DedupeCheck "string option" ms
  | DedupePeek "string option" ms
  | DedupeDelete "string option"
  | DedupeClear

fun dedupe_step :: "dedupe_cache \<Rightarrow> dedupe_call \<Rightarrow> dedupe_cache" where
  "dedupe_step d (DedupeCheck key now) = snd (dedupe_check key now d)"
| "dedupe_step d (DedupePeek key now) = snd (dedupe_peek key now d)"
| "dedupe_step d (DedupeDelete key) = dedupe_delete key d"
| "dedupe_step d DedupeClear = dedupe_clear d"

subsection \<open>Invariant\<close>

text \<open>The cache is a map of at most the maximal size.\<close>

definition dedupe_inv :: "dedupe_cache \<Rightarrow> bool" where
  "dedupe_inv d \<longleftrightarrow> jm_wf (dc_cache d) \<and> int (jm_size (dc_cache d)) \<le> dc_maxSize d"

lemma jm_filter_wf: "jm_wf m \<Longrightarrow> jm_wf (filter P m)"
  by (simp add: jm_wf_def distinct_map_filter)

lemma dedupe_config [simp]:
  "dc_ttlMs (dedupe_touch k now d) = dc_ttlMs d" "dc_maxSize (dedupe_touch k now d) = dc_maxSize d"
  "dc_ttlMs (dedupe_prune now d) = dc_ttlMs d" "dc_maxSize (dedupe_prune now d) = dc_maxSize d"
  "dc_ttlMs (snd (hasUnexpired k now b d)) = dc_ttlMs d" "dc_maxSize (snd (hasUnexpired k now b d)) = dc_maxSize d"
  by (simp_all add: dedupe_touch_def dedupe_prune_def hasUnexpired_def Let_def split: option.split)

lemma dedupe_touch_map: "dc_cache (dedupe_touch k now d) = jm_delete (dc_cache d) k @ [(k, now)]"
proof -
  have "AList.update k v (AList.delete k m) = AList.delete k m @ [(k, v)]" for v :: ms and m :: "(string \<times> ms) list"
    by (induction m) auto
  then show ?thesis by (simp add: dedupe_touch_def jm_set_def jm_delete_def)
qed

lemma prune_size_int: "jm_wf m \<Longrightarrow> 0 \<le> n \<Longrightarrow> int (jm_size (pruneMapToMaxSize m n)) \<le> n"
  using prune_size [of m n] by simp

lemma dedupe_prune_inv: "jm_wf (dc_cache d) \<Longrightarrow> 0 \<le> dc_maxSize d \<Longrightarrow> dedupe_inv (dedupe_prune now d)"
  by (auto simp: dedupe_inv_def dedupe_prune_def Let_def jm_size_def [of "[]"] jm_filter_wf prune_wf prune_size_int)

lemma hasUnexpired_inv: "dedupe_inv d \<Longrightarrow> dedupe_inv (snd (hasUnexpired k now b d))"
  using jm.count_del [of "dc_cache d" k] jm.count_del_present [of "dc_cache d" k]
  by (auto simp: hasUnexpired_def dedupe_inv_def dedupe_touch_def jm.wf_del jm.wf_put jm.count_put jm.get_del
      split: option.split)

lemma dedupe_step_inv: "dedupe_inv d \<Longrightarrow> dedupe_inv (dedupe_step d c)"
proof (cases c)
  case (DedupeCheck key now)
  assume inv: "dedupe_inv d"
  then have h: "dedupe_inv (snd (hasUnexpired (the key) now True d))" by (rule hasUnexpired_inv)
  then have "0 \<le> dc_maxSize d" using inv by (simp add: dedupe_inv_def)
  then have "dedupe_inv (dedupe_prune now (dedupe_touch (the key) now (snd (hasUnexpired (the key) now True d))))"
    using h by (intro dedupe_prune_inv) (simp_all add: dedupe_inv_def dedupe_touch_def jm.wf_put jm.wf_del)
  with inv h DedupeCheck show ?thesis
    by (auto simp: dedupe_check_def split: prod.splits bool.split)
next
  case (DedupePeek key now)
  assume "dedupe_inv d"
  with DedupePeek show ?thesis by (simp add: dedupe_peek_def hasUnexpired_inv)
next
  case (DedupeDelete key)
  assume "dedupe_inv d"
  with DedupeDelete jm.count_del [of "dc_cache d" "the key"] show ?thesis
    by (auto simp: dedupe_delete_def dedupe_inv_def jm.wf_del)
qed (auto simp: dedupe_clear_def dedupe_inv_def jm_size_def)

interpretation dedupe: step_machine dedupe_step "\<lambda>_ _. True" dedupe_inv
  by unfold_locales (rule dedupe_step_inv)

end
