(* ===== verification/Limits_Properties.thy ===== *)
theory Limits_Properties
  imports Rate_Limits Dedupe_Cache
begin

text \<open>
  What the limits promise: the login limiter counts exactly the failures of one client, the fixed window and the
  buckets of the control plane bound what they grant, the connection budget is an exact
  counter per client, and the dedupe cache remembers what it has to and invents nothing.
\<close>

subsection \<open>Failed logins\<close>

fun auth_time :: "auth_call \<Rightarrow> ms" where
  "auth_time (AuthCheck now _ _) = now"
| "auth_time (AuthFailure now _ _) = now"
| "auth_time (AuthReset now _ _) = now"
| "auth_time (AuthPrune now) = now"
| "auth_time (AuthDispose now) = now"

text \<open>The failures that count for a client, and the calls that do not forget it.\<close>

fun fails_as :: "ip_lib \<Rightarrow> auth_limiter \<Rightarrow> string \<Rightarrow> auth_call \<Rightarrow> bool" where
  "fails_as lib l key (AuthFailure _ ip scope) =
     (fst (resolveKey lib ip scope) = key \<and> \<not> isExempt lib l (snd (resolveKey lib ip scope)))"
| "fails_as lib l key _ = False"

fun keeps_client :: "ip_lib \<Rightarrow> string \<Rightarrow> auth_call \<Rightarrow> bool" where
  "keeps_client lib key (AuthReset _ ip scope) = (fst (resolveKey lib ip scope) \<noteq> key)"
| "keeps_client lib key (AuthDispose _) = False"
| "keeps_client lib key _ = True"

definition same_config :: "auth_limiter \<Rightarrow> auth_limiter \<Rightarrow> bool" where
  "same_config l l' \<longleftrightarrow>
     al_maxAttempts l = al_maxAttempts l' \<and> al_windowMs l = al_windowMs l' \<and>
     al_lockoutMs l = al_lockoutMs l' \<and> al_exemptLoopback l = al_exemptLoopback l'"

lemma auth_step_config: "same_config (auth_step lib l c) l"
  by (cases c) (auto simp: same_config_def checkAuthLimit_def recordFailure_def resetAuthLimit_def pruneAuthLimits_def
      disposeAuthLimiter_def Let_def split: prod.split option.split)

text \<open>After \<open>n\<close> failures of a client since time \<open>a\<close>: no entry, an open entry with so many attempts, or a lock.\<close>

definition recorded :: "ms \<Rightarrow> string \<Rightarrow> nat \<Rightarrow> auth_limiter \<Rightarrow> bool" where
  "recorded a key n l \<longleftrightarrow> jm_wf (al_entries l) \<and>
     (case jm_get (al_entries l) key of
        None \<Rightarrow> n = 0
      | Some e \<Rightarrow> 0 < n \<and>
          (if int n < al_maxAttempts l
           then re_lockedUntil e = None \<and> length (re_attempts e) = n \<and> (\<forall>ts \<in> set (re_attempts e). a \<le> ts)
           else \<exists>until. re_lockedUntil e = Some until \<and> a + al_lockoutMs l \<le> until))"

lemma prune_entries_keys: "k \<notin> fst ` set m \<Longrightarrow> k \<notin> fst ` set (prune_entries l now m)"
  by (induction m) (auto simp: Let_def)

lemma prune_entries_wf: "jm_wf m \<Longrightarrow> jm_wf (prune_entries l now m)"
  by (induction m) (auto simp: jm_wf_def Let_def dest: prune_entries_keys)

lemma prune_entries_get:
  "jm_wf m \<Longrightarrow> jm_get (prune_entries l now m) k =
   (case jm_get m k of
      None \<Rightarrow> None
    | Some e \<Rightarrow> if is_locked now e then Some e
                else if re_attempts (slideWindow l now e) = [] then None else Some (slideWindow l now e))"
proof (induction m)
  case (Cons p m)
  then have "fst p \<notin> fst ` set (prune_entries l now m)" by (intro prune_entries_keys) (simp add: jm_wf_def)
  then have "map_of (prune_entries l now m) (fst p) = None" by (simp add: map_of_eq_None_iff)
  with Cons show ?case by (cases p) (auto simp: jm_get_def jm_wf_def Let_def)
qed (simp add: jm_get_def)

lemma slide_recent:
  "\<forall>ts \<in> set (re_attempts e). a \<le> ts \<Longrightarrow> now < a + al_windowMs l \<Longrightarrow> slideWindow l now e = e"
  by (cases e) (auto simp: slideWindow_def filter_id_conv)

lemma recorded_entry:
  assumes "recorded a key n l" and "jm_get (al_entries l) key = Some e" and "0 < a" and "0 < al_lockoutMs l"
  shows recorded_pos: "0 < n"
    and recorded_open: "int n < al_maxAttempts l \<Longrightarrow> now < a + al_windowMs l \<Longrightarrow> \<not> is_locked now e \<and> slideWindow l now e = e"
    and recorded_locked: "\<not> int n < al_maxAttempts l \<Longrightarrow> now < a + al_lockoutMs l \<Longrightarrow> is_locked now e"
  using assms slide_recent [of e a now l]
  by (auto simp: recorded_def is_locked_def js_truthy_int_def split: if_splits)

text \<open>What a step writes for other clients, or writes back unchanged, does not matter.\<close>

lemma recorded_update:
  "recorded a key n l \<Longrightarrow> jm_wf m \<Longrightarrow> jm_get m key = jm_get (al_entries l) key \<Longrightarrow> recorded a key n (l\<lparr>al_entries := m\<rparr>)"
  by (simp add: recorded_def split: option.splits)

lemma recorded_put:
  "recorded a key n l \<Longrightarrow> k \<noteq> key \<Longrightarrow> recorded a key n (l\<lparr>al_entries := jm_set (al_entries l) k e\<rparr>)"
  by (rule recorded_update) (simp_all add: recorded_def jm.wf_put jm.get_put)

lemma recorded_same:
  "recorded a key n l \<Longrightarrow> jm_get (al_entries l) key = Some e \<Longrightarrow> recorded a key n (l\<lparr>al_entries := jm_set (al_entries l) key e\<rparr>)"
  by (rule recorded_update) (simp_all add: recorded_def jm.wf_put jm.get_put)

lemma recorded_check:
  assumes "recorded a key n l" and "now < a + al_windowMs l" and "al_windowMs l \<le> al_lockoutMs l" and "0 < a" and "a \<le> now"
  shows "recorded a key n (snd (checkAuthLimit lib now ip scope l))"
proof (cases "fst (resolveKey lib ip scope) = key")
  case False
  with assms(1) show ?thesis
    by (auto simp: checkAuthLimit_def Let_def recorded_put split: prod.split option.split)
next
  case True
  then obtain r where r: "resolveKey lib ip scope = (key, r)" by (metis prod.collapse)
  show ?thesis
  proof (cases "isExempt lib l r \<or> jm_get (al_entries l) key = None")
    case False
    then obtain e where e: "jm_get (al_entries l) key = Some e" by auto
    have L: "0 < al_lockoutMs l" using assms by simp
    note facts = recorded_open [OF assms(1) e assms(4) L] recorded_locked [OF assms(1) e assms(4) L]
    show ?thesis
    proof (cases "int n < al_maxAttempts l")
      case True
      with facts assms have f: "\<not> is_locked now e" "slideWindow l now e = e" by auto
      moreover have "\<not> js_truthy_int (re_lockedUntil e)"
        using assms(1) e True by (simp add: recorded_def js_truthy_int_def)
      ultimately show ?thesis
        using r e False recorded_same [OF assms(1) e] by (simp add: checkAuthLimit_def Let_def)
    next
      case over: False
      with facts assms have "is_locked now e" by auto
      with r e False assms(1) show ?thesis by (simp add: checkAuthLimit_def Let_def)
    qed
  qed (use r assms(1) in \<open>auto simp: checkAuthLimit_def Let_def split: option.split\<close>)
qed

lemma recorded_failure:
  assumes "recorded a key n l" and "now < a + al_windowMs l" and "al_windowMs l \<le> al_lockoutMs l" and "0 < a" and "a \<le> now"
    and "0 < al_maxAttempts l" and r: "resolveKey lib ip scope = (k, r)"
  shows "recorded a key (if k = key \<and> \<not> isExempt lib l r then Suc n else n) (recordFailure lib now ip scope l)"
proof (cases "isExempt lib l r \<or> k \<noteq> key")
  case True
  then show ?thesis
    using assms(1) r by (auto simp: recordFailure_def Let_def jm.wf_put jm.get_put recorded_def [of _ _ _ l]
        intro!: recorded_update)
next
  case False
  have L: "0 < al_lockoutMs l" using assms by simp
  show ?thesis
  proof (cases "jm_get (al_entries l) key")
    case None
    with assms(1) have "n = 0" by (simp add: recorded_def)
    with None False r assms show ?thesis
      by (auto simp: recordFailure_def Let_def recorded_def is_locked_def js_truthy_int_def slideWindow_def jm.wf_put jm.get_put)
  next
    case (Some e)
    note facts = recorded_pos [OF assms(1) Some assms(4) L] recorded_open [OF assms(1) Some assms(4) L]
      recorded_locked [OF assms(1) Some assms(4) L]
    show ?thesis
    proof (cases "int n < al_maxAttempts l")
      case True
      with facts assms have "\<not> is_locked now e" "slideWindow l now e = e" "0 < n" by auto
      with Some True False r assms show ?thesis
        by (auto simp: recordFailure_def Let_def recorded_def jm.wf_put jm.get_put)
    next
      case over: False
      with facts assms have "is_locked now e" "0 < n" by auto
      with Some over False r assms(1) show ?thesis
        by (auto simp: recordFailure_def Let_def recorded_def jm.wf_put jm.get_put)
    qed
  qed
qed

lemma recorded_prune:
  assumes "recorded a key n l" and "now < a + al_windowMs l" and "al_windowMs l \<le> al_lockoutMs l" and "0 < a" and "a \<le> now"
  shows "recorded a key n (pruneAuthLimits now l)"
proof (cases "jm_get (al_entries l) key")
  case None
  with assms(1) show ?thesis
    by (auto simp: pruneAuthLimits_def prune_entries_wf prune_entries_get recorded_def [of _ _ _ l] intro!: recorded_update)
next
  case (Some e)
  have L: "0 < al_lockoutMs l" using assms by simp
  note facts = recorded_pos [OF assms(1) Some assms(4) L] recorded_open [OF assms(1) Some assms(4) L]
    recorded_locked [OF assms(1) Some assms(4) L]
  have wf: "jm_wf (al_entries l)" using assms(1) by (simp add: recorded_def)
  have "jm_get (prune_entries l now (al_entries l)) key = Some e"
  proof (cases "int n < al_maxAttempts l")
    case True
    with facts assms have f: "\<not> is_locked now e" "slideWindow l now e = e" "0 < n" by auto
    then have "re_attempts e \<noteq> []" using assms(1) Some True by (auto simp: recorded_def)
    with f show ?thesis by (simp add: prune_entries_get [OF wf] Some)
  next
    case False
    with facts assms have "is_locked now e" by auto
    then show ?thesis by (simp add: prune_entries_get [OF wf] Some)
  qed
  with assms(1) Some wf show ?thesis
    unfolding pruneAuthLimits_def by (intro recorded_update) (simp_all add: prune_entries_wf)
qed

lemma recorded_step:
  assumes "recorded a key n l" and "keeps_client lib key c"
    and "a \<le> auth_time c" and "auth_time c < a + al_windowMs l"
    and "al_windowMs l \<le> al_lockoutMs l" and "0 < a" and "0 < al_maxAttempts l"
  shows "recorded a key (if fails_as lib l key c then Suc n else n) (auth_step lib l c)"
proof (cases c)
  case (AuthFailure now ip scope)
  with assms recorded_failure [of a key n l now lib ip scope] show ?thesis
    by (cases "resolveKey lib ip scope") simp
next
  case (AuthReset now ip scope)
  with assms(1,2) show ?thesis
    by (auto simp: resetAuthLimit_def jm.wf_del jm.get_del recorded_def [of _ _ _ l] intro!: recorded_update)
qed (use assms in \<open>simp_all add: recorded_check recorded_prune\<close>)

lemma same_config_fails: "same_config l l' \<Longrightarrow> fails_as lib l key = fails_as lib l' key"
proof
  fix c
  assume "same_config l l'"
  then show "fails_as lib l key c = fails_as lib l' key c"
    by (cases c) (auto simp: same_config_def isExempt_def)
qed

lemma recorded_run:
  assumes "list_all (\<lambda>c. keeps_client lib key c \<and> a \<le> auth_time c \<and> auth_time c < a + al_windowMs l) calls"
    and "recorded a key n l" and "al_windowMs l \<le> al_lockoutMs l" and "0 < a" and "0 < al_maxAttempts l"
  shows "recorded a key (n + length (filter (fails_as lib l key) calls)) (foldl (auth_step lib) l calls) \<and>
    same_config (foldl (auth_step lib) l calls) l"
  using assms
proof (induction calls arbitrary: l n)
  case (Cons c calls)
  let ?l = "auth_step lib l c"
  have cfg: "same_config ?l l" by (rule auth_step_config)
  then have f: "fails_as lib ?l key = fails_as lib l key" by (rule same_config_fails)
  have "recorded a key (if fails_as lib l key c then Suc n else n) ?l"
    using Cons.prems by (intro recorded_step) simp_all
  with Cons.prems cfg Cons.IH [of ?l "if fails_as lib l key c then Suc n else n"] show ?case
    by (auto simp: f same_config_def)
qed (simp add: same_config_def)

lemma check_recorded:
  assumes "recorded a key n l" and "resolveKey lib ip scope = (key, r)" and "\<not> isExempt lib l r"
    and "0 < a" and "0 < al_lockoutMs l" and "0 < al_maxAttempts l"
    and "now < a + (if int n < al_maxAttempts l then al_windowMs l else al_lockoutMs l)"
  shows "let result = fst (checkAuthLimit lib now ip scope l) in
    cr_allowed result = (int n < al_maxAttempts l) \<and>
    cr_remaining result = max 0 (al_maxAttempts l - int n) \<and>
    (cr_allowed result \<or> a + al_lockoutMs l \<le> now + cr_retryAfterMs result)"
proof (cases "jm_get (al_entries l) key")
  case None
  with assms show ?thesis by (simp add: recorded_def checkAuthLimit_def)
next
  case (Some e)
  note facts = recorded_open [OF assms(1) Some assms(4,5)] recorded_locked [OF assms(1) Some assms(4,5)]
  show ?thesis
  proof (cases "int n < al_maxAttempts l")
    case True
    with facts assms have "\<not> is_locked now e" "slideWindow l now e = e" by auto
    moreover have "\<not> js_truthy_int (re_lockedUntil e)" "length (re_attempts e) = n"
      using assms(1) Some True by (simp_all add: recorded_def js_truthy_int_def)
    ultimately show ?thesis using True assms(2,3) Some by (simp add: checkAuthLimit_def Let_def)
  next
    case False
    with facts assms have "is_locked now e" by auto
    with False assms(1-3) Some show ?thesis by (auto simp: checkAuthLimit_def Let_def recorded_def)
  qed
qed

subsection \<open>Fixed windows\<close>

text \<open>The answers to requests at the given times.\<close>

primrec window_answers :: "ms list \<Rightarrow> window_limiter \<Rightarrow> check_result list" where
  "window_answers [] w = []"
| "window_answers (t # ts) w = fst (consumeWindow t w) # window_answers ts (snd (consumeWindow t w))"

definition window_ok :: "window_limiter \<Rightarrow> bool" where
  "window_ok w \<longleftrightarrow> 1 \<le> wl_maxRequests w \<and> 1 \<le> wl_windowMs w \<and> 0 \<le> wl_count w \<and> wl_count w \<le> wl_maxRequests w"

lemma consume_config [simp]:
  "wl_maxRequests (snd (consumeWindow t w)) = wl_maxRequests w" "wl_windowMs (snd (consumeWindow t w)) = wl_windowMs w"
  by (simp_all add: consumeWindow_def Let_def)

interpretation window: step_machine "\<lambda>w t. snd (consumeWindow t w)" "\<lambda>_ _. True" window_ok
  by unfold_locales (auto simp: window_ok_def consumeWindow_def Let_def)

text \<open>Once a window has started in an interval no longer than a window, no other one does.\<close>

lemma grants_in_window:
  assumes "list_all (\<lambda>t. t < a + wl_windowMs w) ts" and "a \<le> wl_windowStartMs w" and "window_ok w"
  shows "int (length (filter cr_allowed (window_answers ts w))) \<le> wl_maxRequests w - wl_count w"
  using assms
proof (induction ts arbitrary: w)
  case (Cons t ts)
  let ?w = "snd (consumeWindow t w)"
  have w: "window_ok ?w" using Cons.prems(3) by (rule window.inv_step) simp
  have "wl_windowStartMs ?w = wl_windowStartMs w \<and>
      wl_count ?w = wl_count w + (if cr_allowed (fst (consumeWindow t w)) then 1 else 0)"
    using Cons.prems by (auto simp: consumeWindow_def Let_def)
  with Cons.prems w Cons.IH [of ?w] show ?case by auto
qed (simp add: window_ok_def)

lemma grants_in_interval:
  assumes "list_all (\<lambda>t. a \<le> t \<and> t < a + wl_windowMs w) ts" and "window_ok w"
  shows "int (length (filter cr_allowed (window_answers ts w))) \<le> 2 * wl_maxRequests w - wl_count w"
  using assms
proof (induction ts arbitrary: w)
  case (Cons t ts)
  let ?w = "snd (consumeWindow t w)"
  have w: "window_ok ?w" using Cons.prems(2) by (rule window.inv_step) simp
  show ?case
  proof (cases "t - wl_windowStartMs w \<ge> wl_windowMs w")
    case True
    with Cons.prems have s: "wl_windowStartMs ?w = t" "wl_count ?w = 1" "cr_allowed (fst (consumeWindow t w))"
      by (auto simp: consumeWindow_def Let_def window_ok_def)
    have "list_all (\<lambda>t. t < a + wl_windowMs ?w) ts" using Cons.prems(1) by (auto simp: list_all_iff)
    with grants_in_window [of a ?w ts] s w Cons.prems show ?thesis by (simp add: window_ok_def)
  next
    case False
    then have "wl_count ?w = wl_count w + (if cr_allowed (fst (consumeWindow t w)) then 1 else 0)"
      by (auto simp: consumeWindow_def Let_def)
    with Cons.prems w Cons.IH [of ?w] show ?thesis by auto
  qed
qed (simp add: window_ok_def)

lemma window_created: "window_ok (createFixedWindowRateLimiter m win)"
  by (simp add: window_ok_def createFixedWindowRateLimiter_def)

subsection \<open>Buckets of the control plane\<close>

datatype plane_call = PlaneConsume ms "gateway_client option" | PlanePrune ms

fun plane_step :: "(string, plane_bucket) js_map \<Rightarrow> plane_call \<Rightarrow> (string, plane_bucket) js_map" where
  "plane_step buckets (PlaneConsume now client) = snd (consumeControlPlaneWriteBudget now client buckets)"
| "plane_step buckets (PlanePrune now) = snd (pruneStaleControlPlaneBuckets now buckets)"

definition plane_inv :: "(string, plane_bucket) js_map \<Rightarrow> bool" where
  "plane_inv m \<longleftrightarrow> jm_wf m \<and> jm_size m \<le> CONTROL_PLANE_BUCKET_MAX_ENTRIES \<and>
     (\<forall>p \<in> set m. 1 \<le> pb_count (snd p) \<and> pb_count (snd p) \<le> CONTROL_PLANE_RATE_LIMIT_MAX_REQUESTS)"

lemma plane_put:
  assumes "plane_inv m" and "jm_get m key \<noteq> None \<or> jm_size m < CONTROL_PLANE_BUCKET_MAX_ENTRIES"
    and "1 \<le> pb_count b" and "pb_count b \<le> CONTROL_PLANE_RATE_LIMIT_MAX_REQUESTS"
  shows "plane_inv (jm_set m key b)"
  using assms by (auto simp: plane_inv_def jm.wf_put jm.count_put dest!: jm_set_memD)

lemma plane_drop: "plane_inv m \<Longrightarrow> plane_inv (jm_drop_oldest m) \<and> (m \<noteq> [] \<longrightarrow> jm_size (jm_drop_oldest m) < jm_size m)"
proof -
  assume inv: "plane_inv m"
  then have "jm_drop_oldest m = tl m" and "jm_wf (tl m)"
    using jm_drop_oldest_wf [of m] by (simp_all add: plane_inv_def jm_drop_oldest_tl)
  with inv show ?thesis by (cases m) (simp_all add: plane_inv_def jm_size_def)
qed

lemma plane_step_inv: "plane_inv m \<Longrightarrow> plane_inv (plane_step m c)"
proof (cases c)
  case (PlaneConsume now client)
  assume inv: "plane_inv m"
  let ?key = "resolveControlPlaneRateLimitKey client"
  let ?room = "if jm_get m ?key = None \<and> jm_size m \<ge> CONTROL_PLANE_BUCKET_MAX_ENTRIES then jm_drop_oldest m else m"
  have fresh: "plane_inv (jm_set ?room ?key \<lparr>pb_count = 1, pb_windowStartMs = now\<rparr>)"
    using plane_drop [OF inv] inv
    by (intro plane_put) (auto simp: plane_inv_def CONTROL_PLANE_BUCKET_MAX_ENTRIES_def
        CONTROL_PLANE_RATE_LIMIT_MAX_REQUESTS_def jm_size_def)
  show ?thesis
  proof (cases "jm_get m ?key")
    case None
    with fresh PlaneConsume show ?thesis by (simp add: consumeControlPlaneWriteBudget_def Let_def)
  next
    case (Some b)
    then have b: "1 \<le> pb_count b" using inv jm_get_mem by (fastforce simp: plane_inv_def)
    have "pb_count b < CONTROL_PLANE_RATE_LIMIT_MAX_REQUESTS \<Longrightarrow> plane_inv (jm_set m ?key (b\<lparr>pb_count := pb_count b + 1\<rparr>))"
      using inv Some b by (intro plane_put) auto
    with fresh inv Some PlaneConsume show ?thesis by (simp add: consumeControlPlaneWriteBudget_def Let_def)
  qed
next
  case (PlanePrune now)
  assume "plane_inv m"
  with PlanePrune show ?thesis
    by (auto simp: plane_inv_def pruneStaleControlPlaneBuckets_def Let_def jm_filter_wf jm_size_def
        intro: order_trans [OF length_filter_le])
qed

interpretation plane: step_machine plane_step "\<lambda>_ _. True" plane_inv
  by unfold_locales (rule plane_step_inv)

subsection \<open>Connections before login\<close>

datatype preauth_call = PreAcquire "string option" | PreRelease "string option"

fun preauth_step :: "int \<Rightarrow> (string, int) js_map \<Rightarrow> preauth_call \<Rightarrow> (string, int) js_map" where
  "preauth_step limit m (PreAcquire ip) = snd (acquirePreauth limit ip m)"
| "preauth_step limit m (PreRelease ip) = releasePreauth ip m"

text \<open>How many connections one client has open: the others do not matter.\<close>

fun open_after :: "int \<Rightarrow> string \<Rightarrow> nat \<Rightarrow> preauth_call \<Rightarrow> nat" where
  "open_after limit key n (PreAcquire ip) = (if normalizeBudgetKey ip = key \<and> int n < limit then Suc n else n)"
| "open_after limit key n (PreRelease ip) = (if normalizeBudgetKey ip = key then n - 1 else n)"

definition budget_shows :: "string \<Rightarrow> nat \<Rightarrow> (string, int) js_map \<Rightarrow> bool" where
  "budget_shows key n m \<longleftrightarrow> jm_get m key = (if n = 0 then None else Some (int n))"

lemma budget_shows_step: "budget_shows key n m \<Longrightarrow> budget_shows key (open_after limit key n c) (preauth_step limit m c)"
  by (cases c) (auto simp: budget_shows_def acquirePreauth_def releasePreauth_def Let_def jm.get_put jm.get_del
      split: if_splits option.split)

lemma budget_shows_run:
  "budget_shows key n m \<Longrightarrow> budget_shows key (foldl (open_after limit key) n calls) (foldl (preauth_step limit) m calls)"
  by (induction calls arbitrary: n m) (auto intro: budget_shows_step)

lemma open_after_bound: "int n \<le> max 0 limit \<Longrightarrow> int (foldl (open_after limit key) n calls) \<le> max 0 limit"
proof (induction calls arbitrary: n)
  case (Cons c calls)
  then have "int (open_after limit key n c) \<le> max 0 limit" by (cases c) auto
  with Cons show ?case by simp
qed simp

subsection \<open>Remembered keys\<close>

text \<open>Every key of the cache was checked at the time it carries.\<close>

definition dedupe_from :: "dedupe_call list \<Rightarrow> dedupe_cache \<Rightarrow> bool" where
  "dedupe_from calls d \<longleftrightarrow> jm_wf (dc_cache d) \<and> (\<forall>(k, t) \<in> set (dc_cache d). DedupeCheck (Some k) t \<in> set calls)"

lemma dedupe_prune_mem: "jm_wf (dc_cache d) \<Longrightarrow> x \<in> set (dc_cache (dedupe_prune now d)) \<Longrightarrow> x \<in> set (dc_cache d)"
  by (auto simp: dedupe_prune_def Let_def split: if_splits dest!: prune_mem [rotated] simp: jm_filter_wf)

lemma dedupe_prune_wf: "jm_wf (dc_cache d) \<Longrightarrow> jm_wf (dc_cache (dedupe_prune now d))"
  by (auto simp: dedupe_prune_def Let_def jm_filter_wf prune_wf)

lemma dedupe_touch_wf: "jm_wf (dc_cache d) \<Longrightarrow> jm_wf (dc_cache (dedupe_touch k now d))"
  by (simp add: dedupe_touch_def jm.wf_put jm.wf_del)

lemma dedupe_touch_mem: "x \<in> set (dc_cache (dedupe_touch k now d)) \<Longrightarrow> x = (k, now) \<or> x \<in> set (dc_cache d)"
  by (cases x) (auto simp: dedupe_touch_map jm_delete_mem)

lemma hasUnexpired_mem:
  "x \<in> set (dc_cache (snd (hasUnexpired k now touch d))) \<Longrightarrow> x \<in> set (dc_cache d) \<or> touch \<and> x = (k, now)"
  by (cases x) (auto simp: hasUnexpired_def jm_delete_mem split: option.splits if_splits dest!: dedupe_touch_mem)

lemma hasUnexpired_wf: "jm_wf (dc_cache d) \<Longrightarrow> jm_wf (dc_cache (snd (hasUnexpired k now touch d)))"
  by (auto simp: hasUnexpired_def jm.wf_del dedupe_touch_wf split: option.split)

lemma dedupe_check_state:
  "snd (dedupe_check (Some k) now d) =
   (if k = [] then d
    else if fst (hasUnexpired k now True d) then snd (hasUnexpired k now True d)
    else dedupe_prune now (dedupe_touch k now (snd (hasUnexpired k now True d))))"
  by (auto simp: dedupe_check_def js_truthy_str_def split: prod.split bool.split)

lemma dedupe_from_step: "dedupe_from calls d \<Longrightarrow> dedupe_from (calls @ [c]) (dedupe_step d c)"
proof (cases c)
  case (DedupeCheck key now)
  assume inv: "dedupe_from calls d"
  show ?thesis
  proof (cases key)
    case (Some k)
    have wf: "jm_wf (dc_cache (snd (hasUnexpired k now True d)))"
      using inv by (simp add: dedupe_from_def hasUnexpired_wf)
    have "x \<in> set (dc_cache d) \<or> x = (k, now)" if "x \<in> set (dc_cache (dedupe_step d c))" for x
      using that DedupeCheck Some hasUnexpired_mem [of x k now True d]
        dedupe_prune_mem [OF dedupe_touch_wf [OF wf], of x now k now] dedupe_touch_mem [of x k now "snd (hasUnexpired k now True d)"]
      by (auto simp: dedupe_check_state split: if_splits)
    moreover have "jm_wf (dc_cache (dedupe_step d c))"
      using inv wf DedupeCheck Some by (simp add: dedupe_check_state dedupe_prune_wf dedupe_touch_wf dedupe_from_def)
    ultimately show ?thesis using inv DedupeCheck Some by (fastforce simp: dedupe_from_def)
  qed (use inv DedupeCheck in \<open>auto simp: dedupe_check_def js_truthy_str_def dedupe_from_def\<close>)
next
  case (DedupePeek key now)
  assume "dedupe_from calls d"
  with DedupePeek show ?thesis
    by (auto simp: dedupe_peek_def dedupe_from_def hasUnexpired_wf dest!: hasUnexpired_mem)
next
  case (DedupeDelete key)
  assume "dedupe_from calls d"
  with DedupeDelete show ?thesis
    by (auto simp: dedupe_delete_def dedupe_from_def jm.wf_del jm_delete_mem)
qed (auto simp: dedupe_from_def dedupe_clear_def)

lemma dedupe_from_run: "dedupe_from calls (foldl dedupe_step (createDedupeCache ttl maxSize) calls)"
  by (induction calls rule: rev_induct)
    (auto intro: dedupe_from_step, simp add: dedupe_from_def createDedupeCache_def)

text \<open>A key stands in the map with its time, and at most \<open>n\<close> others are newer.\<close>

definition stands :: "string \<Rightarrow> ms \<Rightarrow> nat \<Rightarrow> (string, ms) js_map \<Rightarrow> bool" where
  "stands k t n m \<longleftrightarrow> jm_wf m \<and> (\<exists>xs ys. m = xs @ (k, t) # ys \<and> length ys \<le> n)"

lemma stands_get: "stands k t n m \<Longrightarrow> jm_get m k = Some t"
  using jm_wf_mem_get by (force simp: stands_def)

lemma stands_filter: "stands k t n m \<Longrightarrow> P (k, t) \<Longrightarrow> stands k t n (filter P m)"
  by (auto simp: stands_def jm_filter_wf intro: order_trans [OF length_filter_le]) (metis length_filter_le order_trans)

lemma stands_delete: "stands k t n m \<Longrightarrow> j \<noteq> k \<Longrightarrow> stands k t n (jm_delete m j)"
  unfolding jm_delete_def AList.delete_eq by (rule stands_filter) simp_all

lemma stands_touch: "stands k t n (dc_cache d) \<Longrightarrow> j \<noteq> k \<Longrightarrow> stands k t (Suc n) (dc_cache (dedupe_touch j now d))"
proof -
  assume s: "stands k t n (dc_cache d)" and j: "j \<noteq> k"
  from stands_delete [OF this] obtain xs ys where "jm_delete (dc_cache d) j = xs @ (k, t) # ys" "length ys \<le> n"
    by (auto simp: stands_def)
  moreover have "jm_wf (dc_cache (dedupe_touch j now d))" using s by (simp add: stands_def dedupe_touch_wf)
  ultimately show ?thesis unfolding stands_def dedupe_touch_map by (intro conjI exI [of _ xs] exI [of _ "ys @ [(j, now)]"]) simp_all
qed

lemma stands_newest: "stands k t n m \<Longrightarrow> int n < size_limit \<Longrightarrow> stands k t n (pruneMapToMaxSize m size_limit)"
proof -
  assume "stands k t n m" and n: "int n < size_limit"
  then obtain xs ys where m: "m = xs @ (k, t) # ys" "length ys \<le> n" and wf: "jm_wf m" by (auto simp: stands_def)
  let ?d = "length m - nat size_limit"
  have "?d \<le> length xs" using m n by simp
  then have "drop ?d m = drop ?d xs @ (k, t) # ys" by (simp add: m)
  then have "pruneMapToMaxSize m size_limit = drop ?d xs @ (k, t) # ys" using n wf by (simp add: prune_newest)
  with m prune_wf [OF wf, of size_limit] show ?thesis unfolding stands_def by metis
qed

lemma stands_prune:
  "stands k t n (dc_cache d) \<Longrightarrow> now < t + dc_ttlMs d \<Longrightarrow> int n < dc_maxSize d \<Longrightarrow> stands k t n (dc_cache (dedupe_prune now d))"
  by (auto simp: dedupe_prune_def Let_def intro!: stands_newest stands_filter)

lemma stands_mono: "stands k t n m \<Longrightarrow> n \<le> n' \<Longrightarrow> stands k t n' m"
  by (auto simp: stands_def intro: order_trans)

lemma stands_unexpired:
  assumes "stands k t n (dc_cache d)" and "j \<noteq> k"
  shows "\<not> fst (hasUnexpired j now touch d) \<or> \<not> touch \<Longrightarrow> stands k t n (dc_cache (snd (hasUnexpired j now touch d)))"
    and "stands k t (Suc n) (dc_cache (snd (hasUnexpired j now touch d)))"
  using assms stands_delete [OF assms] stands_touch [OF assms, of now]
  by (auto simp: hasUnexpired_def split: option.split intro: stands_mono [of k t n])

fun checks :: "dedupe_call \<Rightarrow> bool" where
  "checks (DedupeCheck _ _) = True"
| "checks _ = False"

text \<open>Calls within the time to live of a key that neither renew nor delete it.\<close>

fun leaves_key :: "string \<Rightarrow> ms \<Rightarrow> dedupe_call \<Rightarrow> bool" where
  "leaves_key k until (DedupeCheck key now) = (key \<noteq> Some k \<and> now < until)"
| "leaves_key k until (DedupePeek key now) = (now < until)"
| "leaves_key k until (DedupeDelete key) = (key \<noteq> Some k)"
| "leaves_key k until DedupeClear = False"

lemma stands_step:
  assumes "stands k t n (dc_cache d)" and "leaves_key k (t + dc_ttlMs d) c"
    and "int (if checks c then Suc n else n) < dc_maxSize d"
  shows "stands k t (if checks c then Suc n else n) (dc_cache (dedupe_step d c))"
proof (cases c)
  case (DedupeCheck key now)
  show ?thesis
  proof (cases "js_truthy_str key")
    case True
    then obtain j where j: "key = Some j" "j \<noteq> []" by (cases key) (auto simp: js_truthy_str_def)
    with assms DedupeCheck have jk: "j \<noteq> k" and now: "now < t + dc_ttlMs d" and n: "int (Suc n) < dc_maxSize d" by auto
    let ?h = "hasUnexpired j now True d"
    note hit = stands_unexpired(2) [OF assms(1) jk, of now True] and miss = stands_unexpired(1) [OF assms(1) jk, of now True]
    have "stands k t (Suc n) (dc_cache (dedupe_prune now (dedupe_touch j now (snd ?h))))" if "\<not> fst ?h"
      using miss that now n by (intro stands_prune stands_touch jk) simp_all
    with hit DedupeCheck j show ?thesis by (simp add: dedupe_check_state)
  next
    case False
    with DedupeCheck stands_mono [OF assms(1)] show ?thesis by (simp add: dedupe_check_def)
  qed
next
  case (DedupePeek key now)
  show ?thesis
  proof (cases "key = Some k")
    case True
    with DedupePeek assms stands_get [OF assms(1)] show ?thesis
      by (auto simp: dedupe_peek_def hasUnexpired_def js_truthy_str_def)
  next
    case False
    then have "js_truthy_str key \<Longrightarrow> the key \<noteq> k" by (cases key) (auto simp: js_truthy_str_def)
    with DedupePeek assms stands_unexpired(1) [OF assms(1), of "the key" now False] show ?thesis
      by (auto simp: dedupe_peek_def)
  qed
next
  case (DedupeDelete key)
  then have "js_truthy_str key \<Longrightarrow> the key \<noteq> k" using assms(2) by (cases key) (auto simp: js_truthy_str_def)
  with DedupeDelete assms stands_delete [OF assms(1), of "the key"] show ?thesis
    by (auto simp: dedupe_delete_def)
qed (use assms in simp)

lemma dedupe_step_config: "dc_ttlMs (dedupe_step d c) = dc_ttlMs d" "dc_maxSize (dedupe_step d c) = dc_maxSize d"
  by (cases c; auto simp: dedupe_check_def dedupe_peek_def dedupe_delete_def dedupe_clear_def split: prod.splits bool.split
      dest!: arg_cong [of "hasUnexpired _ _ _ _" _ snd])+

lemma dedupe_run_config:
  "dc_ttlMs (foldl dedupe_step d calls) = dc_ttlMs d" "dc_maxSize (foldl dedupe_step d calls) = dc_maxSize d"
  by (induction calls arbitrary: d) (simp_all add: dedupe_step_config)

lemma stands_run:
  "stands k t n (dc_cache d) \<Longrightarrow> list_all (leaves_key k (t + dc_ttlMs d)) calls \<Longrightarrow>
   int (n + length (filter checks calls)) < dc_maxSize d \<Longrightarrow>
   stands k t (n + length (filter checks calls)) (dc_cache (foldl dedupe_step d calls))"
proof (induction calls arbitrary: n d)
  case (Cons c calls)
  then have "stands k t (if checks c then Suc n else n) (dc_cache (dedupe_step d c))" by (intro stands_step) auto
  from Cons.IH [OF this] Cons.prems show ?case by (auto simp: dedupe_step_config split: if_splits)
qed simp

lemma checked_stands:
  assumes "jm_wf (dc_cache d)" and "k \<noteq> []" and "0 < dc_ttlMs d" and "0 < dc_maxSize d"
  shows "stands k t 0 (dc_cache (dedupe_step d (DedupeCheck (Some k) t)))"
proof -
  have touch: "stands k t 0 (dc_cache (dedupe_touch k t d'))" if "jm_wf (dc_cache d')" for d'
    using dedupe_touch_wf [OF that] unfolding stands_def dedupe_touch_map by blast
  let ?h = "hasUnexpired k t True d"
  have "stands k t 0 (dc_cache (dedupe_prune t (dedupe_touch k t (snd ?h))))"
    using assms by (intro stands_prune touch hasUnexpired_wf) simp_all
  moreover have "stands k t 0 (dc_cache (snd ?h))" if "fst ?h"
    using that touch [OF assms(1)] by (auto simp: hasUnexpired_def split: option.splits if_splits)
  ultimately show ?thesis using assms(2) by (simp add: dedupe_check_state)
qed

lemma stands_found:
  "stands k t n (dc_cache d) \<Longrightarrow> k \<noteq> [] \<Longrightarrow> now < t + dc_ttlMs d \<Longrightarrow> fst (dedupe_check (Some k) now d)"
  using stands_get [of k t n "dc_cache d"] by (simp add: dedupe_check_def js_truthy_str_def hasUnexpired_def)

subsection \<open>Properties\<close>

text \<open>The login limiter counts exactly the failures of a client: within a window a client may try again just as long as
  it failed fewer times than allowed, with the attempts it has left, and after that it is refused until a full lockout has
  passed, whatever other clients do and however often the limiter is checked or swept meanwhile.\<close>

theorem login_failures_are_counted:
  assumes "al_entries l = []" and "0 < al_maxAttempts l" and "al_windowMs l \<le> al_lockoutMs l"
    and "list_all (\<lambda>c. keeps_client lib key c \<and> a \<le> auth_time c \<and> auth_time c < a + al_windowMs l) calls"
    and "resolveKey lib ip scope = (key, r)" and "\<not> isExempt lib l r" and "0 < a" and "0 < al_lockoutMs l"
    and "now < a + (if int (length (filter (fails_as lib l key) calls)) < al_maxAttempts l then al_windowMs l else al_lockoutMs l)"
  shows "let n = int (length (filter (fails_as lib l key) calls));
             result = fst (checkAuthLimit lib now ip scope (foldl (auth_step lib) l calls))
    in cr_allowed result = (n < al_maxAttempts l) \<and>
       cr_remaining result = max 0 (al_maxAttempts l - n) \<and>
       (cr_allowed result \<or> a + al_lockoutMs l \<le> now + cr_retryAfterMs result)"
proof -
  have "recorded a key 0 l" using assms(1) by (simp add: recorded_def jm_get_def)
  from recorded_run [OF assms(4) this assms(3,7,2)]
  have run: "recorded a key (length (filter (fails_as lib l key) calls)) (foldl (auth_step lib) l calls)"
    and cfg: "same_config (foldl (auth_step lib) l calls) l" by simp_all
  then have eqs: "al_maxAttempts (foldl (auth_step lib) l calls) = al_maxAttempts l"
    "al_windowMs (foldl (auth_step lib) l calls) = al_windowMs l"
    "al_lockoutMs (foldl (auth_step lib) l calls) = al_lockoutMs l"
    "isExempt lib (foldl (auth_step lib) l calls) r = isExempt lib l r"
    by (simp_all add: same_config_def isExempt_def)
  show ?thesis using check_recorded [OF run assms(5), unfolded eqs, OF assms(6,7,8,2,9)] unfolding Let_def by blast
qed

text \<open>A fixed-window limiter grants at most twice its limit in any interval as long as a window, wherever the interval
  starts and whatever was asked before.\<close>

theorem window_grants_bounded:
  assumes "w = foldl (\<lambda>w t. snd (consumeWindow t w)) (createFixedWindowRateLimiter maxRequests windowMs) before"
    and "list_all (\<lambda>t. a \<le> t \<and> t < a + wl_windowMs w) ts"
  shows "int (length (filter cr_allowed (window_answers ts w))) \<le> 2 * max 1 \<lfloor>maxRequests\<rfloor>"
proof -
  have "wl_maxRequests (foldl (\<lambda>w t. snd (consumeWindow t w)) v ts) = wl_maxRequests v" for v ts
    by (induction ts arbitrary: v) simp_all
  then have "wl_maxRequests w = max 1 \<lfloor>maxRequests\<rfloor>" by (simp add: assms(1) createFixedWindowRateLimiter_def)
  moreover have "allowed_run (\<lambda>w t. snd (consumeWindow t w)) (\<lambda>_ _. True) v ts" for v ts
    by (induction ts arbitrary: v) simp_all
  then have "window_ok w" unfolding assms(1) by (intro window.inv_run window_created)
  ultimately show ?thesis using grants_in_interval [OF assms(2)] by (simp add: window_ok_def)
qed

text \<open>The buckets of the control plane stay bounded: after any sequence of requests and sweeps there are at most ten thousand
  of them, one for each key, and none has granted more than three requests of its window.\<close>

theorem plane_buckets_bounded:
  "let buckets = foldl plane_step [] calls in
   distinct (jm_keys buckets) \<and> jm_size buckets \<le> CONTROL_PLANE_BUCKET_MAX_ENTRIES \<and>
   list_all (\<lambda>p. 1 \<le> pb_count (snd p) \<and> pb_count (snd p) \<le> CONTROL_PLANE_RATE_LIMIT_MAX_REQUESTS) buckets"
proof -
  have "allowed_run plane_step (\<lambda>_ _. True) m calls" for m by (induction calls arbitrary: m) simp_all
  then have "plane_inv (foldl plane_step [] calls)"
    by (intro plane.inv_run) (simp_all add: plane_inv_def jm_size_def)
  then show ?thesis by (simp add: plane_inv_def Let_def jm.wf_distinct list_all_iff)
qed

text \<open>The connection budget refines a counter per client: after any sequence of connections and releases the map
  holds the number of open connections of each client, never more than the limit and never a zero, and a further connection
  of the client is accepted just when its own counter is below the limit.\<close>

theorem preauth_budget_counts_open:
  "let counts = foldl (preauth_step limit) [] calls; n = foldl (open_after limit (normalizeBudgetKey ip)) 0 calls in
   jm_get counts (normalizeBudgetKey ip) = (if n = 0 then None else Some (int n)) \<and>
   int n \<le> max 0 limit \<and> fst (acquirePreauth limit ip counts) = (int n < limit)"
proof -
  have "budget_shows (normalizeBudgetKey ip) 0 []" by (simp add: budget_shows_def jm_get_def)
  from budget_shows_run [OF this] show ?thesis
    using open_after_bound [of 0 limit] by (simp add: Let_def budget_shows_def acquirePreauth_def)
qed

text \<open>The dedupe cache remembers: a key that was checked is reported as a duplicate within its time to live, as long as fewer
  other keys were checked since than the cache has places.\<close>

theorem dedupe_remembers:
  assumes "k \<noteq> []" and "0 < ttl" and "now < t + ttl" and "list_all (leaves_key k (t + ttl)) calls"
    and "int (length (filter checks calls)) < \<lfloor>maxSize\<rfloor>"
  shows "fst (dedupe_check (Some k) now
    (foldl dedupe_step (createDedupeCache ttl maxSize) (earlier @ DedupeCheck (Some k) t # calls)))"
proof -
  let ?d = "foldl dedupe_step (createDedupeCache ttl maxSize) earlier"
  let ?e = "dedupe_step ?d (DedupeCheck (Some k) t)"
  have cfg: "dc_ttlMs ?d = ttl" "dc_maxSize ?d = \<lfloor>maxSize\<rfloor>"
    using assms by (simp_all add: dedupe_run_config createDedupeCache_def)
  have "0 < \<lfloor>maxSize\<rfloor>" using assms(5) by linarith
  then have "0 < dc_maxSize ?d" by (simp only: cfg)
  moreover have "jm_wf (dc_cache ?d)" using dedupe_from_run by (simp add: dedupe_from_def)
  ultimately have "stands k t 0 (dc_cache ?e)" using assms(1,2) cfg by (intro checked_stands) simp_all
  from stands_run [OF this] have "stands k t (length (filter checks calls)) (dc_cache (foldl dedupe_step ?e calls))"
    using cfg assms by (simp add: dedupe_step_config del: dedupe_step.simps)
  moreover have "dc_ttlMs (foldl dedupe_step ?e calls) = ttl" using cfg(1) by (simp only: dedupe_run_config dedupe_step_config)
  ultimately show ?thesis using assms(1,3) stands_found by (simp del: dedupe_step.simps)
qed

text \<open>The dedupe cache invents nothing and stays small: a key is reported as a duplicate only if it was checked before
  within its time to live, and the cache never holds more keys than its size.\<close>

theorem dedupe_never_invents:
  "let d = foldl dedupe_step (createDedupeCache ttl maxSize) calls in
   int (dedupe_size d) \<le> max 0 \<lfloor>maxSize\<rfloor> \<and>
   (\<not> fst (dedupe_check (Some k) now d) \<or> (\<exists>t. DedupeCheck (Some k) t \<in> set calls \<and> (ttl \<le> 0 \<or> now < t + ttl)))"
proof -
  let ?d = "foldl dedupe_step (createDedupeCache ttl maxSize) calls"
  have "allowed_run dedupe_step (\<lambda>_ _. True) d calls" for d by (induction calls arbitrary: d) simp_all
  then have inv: "dedupe_inv ?d"
    by (intro dedupe.inv_run) (simp_all add: dedupe_inv_def createDedupeCache_def jm_size_def)
  have cfg: "dc_ttlMs ?d = max 0 ttl" "dc_maxSize ?d = max 0 \<lfloor>maxSize\<rfloor>"
    by (simp_all add: dedupe_run_config createDedupeCache_def)
  have "\<exists>t. DedupeCheck (Some k) t \<in> set calls \<and> (ttl \<le> 0 \<or> now < t + ttl)" if "fst (dedupe_check (Some k) now ?d)"
  proof -
    from that obtain t where "jm_get (dc_cache ?d) k = Some t" "\<not> (0 < dc_ttlMs ?d \<and> dc_ttlMs ?d \<le> now - t)"
      by (auto simp: dedupe_check_def hasUnexpired_def js_truthy_str_def split: prod.splits bool.splits option.splits if_splits)
    with dedupe_from_run [of calls ttl maxSize] cfg show ?thesis
      by (intro exI [of _ t]) (auto simp: dedupe_from_def dest!: jm_get_mem)
  qed
  with inv cfg show ?thesis by (auto simp: Let_def dedupe_inv_def dedupe_size_def)
qed

subsection \<open>Witnesses\<close>

text \<open>A limiter that allows two failures, for the client \<open>browser-origin:x\<close>, with a library that knows no addresses.\<close>

definition blank_lib :: ip_lib where
  "blank_lib =
     \<lparr>il_v4_valid = (\<lambda>_. False), il_v4_four_part = (\<lambda>_. False), il_v4_parse = (\<lambda>_. []), il_v6_valid = (\<lambda>_. False),
      il_v6_parse = (\<lambda>_. ([], None)), il_valid = (\<lambda>_. False), il_parse = (\<lambda>_. V4 []), il_range4 = (\<lambda>_. []),
      il_range6 = (\<lambda>_. []), il_mapped = (\<lambda>_. None), il_show = (\<lambda>_. []), il_parse_cidr = (\<lambda>_. None),
      il_match = (\<lambda>_ _ _. False)\<rparr>"

definition two_attempts :: auth_limiter where
  "two_attempts = createAuthRateLimiter
     \<lparr>rc_maxAttempts = Some 2, rc_windowMs = None, rc_lockoutMs = None, rc_exemptLoopback = Some False\<rparr>"

definition some_client :: "string option" where
  "some_client = Some ''browser-origin:x''"

lemma some_client_key: "resolveKey blank_lib some_client None = (''default:browser-origin:x'', ''browser-origin:x'')"
  by (simp add: resolveKey_def some_client_def normalizeRateLimitClientIp_def BROWSER_ORIGIN_RATE_LIMIT_KEY_PREFIX_def
      normalizeScope_def AUTH_RATE_LIMIT_SCOPE_DEFAULT_def string_eval)

theorem login_failures_are_counted_witness:
  "\<not> cr_allowed (fst (checkAuthLimit blank_lib 20 some_client None
     (foldl (auth_step blank_lib) two_attempts [AuthFailure 10 some_client None, AuthFailure 11 some_client None])))"
proof -
  let ?calls = "[AuthFailure 10 some_client None, AuthFailure 11 some_client None]"
  have c: "al_entries two_attempts = []" "al_maxAttempts two_attempts = 2" "al_windowMs two_attempts = 60000"
    "al_lockoutMs two_attempts = 300000" "\<not> isExempt blank_lib two_attempts ''browser-origin:x''"
    by (simp_all add: two_attempts_def createAuthRateLimiter_def isExempt_def)
  show ?thesis
    using login_failures_are_counted [of two_attempts blank_lib "''default:browser-origin:x''" 10 ?calls, OF c(1) _ _ _ some_client_key c(5), of 20]
    by (simp add: some_client_key c Let_def del: auth_step.simps)
qed

theorem window_grants_bounded_witness:
  "int (length (filter cr_allowed (window_answers [5, 6, 7] (createFixedWindowRateLimiter 1 10)))) \<le> 2"
  using window_grants_bounded [of "createFixedWindowRateLimiter 1 10" 1 10 "[]" 0 "[5, 6, 7]"]
  by (simp add: createFixedWindowRateLimiter_def)

theorem dedupe_remembers_witness:
  "fst (dedupe_check (Some ''k'') 5 (foldl dedupe_step (createDedupeCache 10 2)
     [DedupeCheck (Some ''k'') 1, DedupeCheck (Some ''j'') 2]))"
  using dedupe_remembers [of "''k''" 10 5 1 "[DedupeCheck (Some ''j'') 2]" 2 "[]"]
  by simp

theorem dedupe_never_invents_witness:
  "\<exists>t. DedupeCheck (Some ''k'') t \<in> set [DedupeCheck (Some ''k'') 1] \<and> (5 :: ms) < t + 10"
proof -
  have "fst (dedupe_check (Some ''k'') 5 (foldl dedupe_step (createDedupeCache 10 2) [DedupeCheck (Some ''k'') 1]))"
    by (simp add: dedupe_check_def js_truthy_str_def hasUnexpired_def createDedupeCache_def dedupe_prune_def dedupe_touch_def
        jm_get_def jm_set_def jm_delete_def pruneMapToMaxSize_def prune_loop.simps jm_size_def)
  with dedupe_never_invents [of 10 2 "[DedupeCheck (Some ''k'') 1]" "''k''" 5] show ?thesis
    unfolding Let_def by (auto simp del: foldl.simps dedupe_step.simps)
qed

end
