(* ===== verification/Attempt_Serializer.thy ===== *)
theory Attempt_Serializer
  imports Rate_Limits
begin

text \<open>
  \<open>src/gateway/rate-limit-attempt-serialization.ts\<close>: attempts with the same scope and address run one after the other. An
  attempt that enters takes the last promise of its key as the one to wait for and leaves its own; it runs when that promise has
  settled, and its own settles when it has finished, whether its body returned or threw, and the one before has
  settled. An attempt is known by the number of its entry. The body is not modelled: between its start and its
  finish other attempts may take steps.
\<close>

definition buildSerializationKey :: "ip_lib \<Rightarrow> string option \<Rightarrow> string option \<Rightarrow> string" where
  "buildSerializationKey lib ip scope = normalizeScope scope @ '':'' @ normalizeRateLimitClientIp lib ip"

datatype attempt_phase = Waiting | Running | Finished

record attempt =
  at_key :: string
  at_previous :: "nat option"
  at_phase :: attempt_phase

record serializer =
  se_pending :: "(string, nat) js_map"
  se_attempts :: "attempt list"

definition empty_serializer :: serializer where
  "empty_serializer = \<lparr>se_pending = [], se_attempts = []\<rparr>"

text \<open>\<open>previous.catch(() => {}).then(() => current)\<close> has settled.\<close>

fun tail_settled :: "attempt list \<Rightarrow> nat \<Rightarrow> bool" where
  "tail_settled attempts i =
     (i < length attempts \<and> at_phase (attempts ! i) = Finished \<and>
      (case at_previous (attempts ! i) of None \<Rightarrow> True | Some j \<Rightarrow> if j < i then tail_settled attempts j else False))"

declare tail_settled.simps [simp del]

datatype serializer_event = EnterAttempt string | StartAttempt nat | FinishAttempt nat

definition enter_attempt :: "string \<Rightarrow> serializer \<Rightarrow> serializer" where
  "enter_attempt key s =
     s\<lparr>se_pending := jm_set (se_pending s) key (length (se_attempts s)),
       se_attempts := se_attempts s @ [\<lparr>at_key = key, at_previous = jm_get (se_pending s) key, at_phase = Waiting\<rparr>]\<rparr>"

definition may_start :: "serializer \<Rightarrow> nat \<Rightarrow> bool" where
  "may_start s i =
     (i < length (se_attempts s) \<and> at_phase (se_attempts s ! i) = Waiting \<and>
      (case at_previous (se_attempts s ! i) of None \<Rightarrow> True | Some j \<Rightarrow> tail_settled (se_attempts s) j))"

definition start_attempt :: "nat \<Rightarrow> serializer \<Rightarrow> serializer" where
  "start_attempt i s = s\<lparr>se_attempts := (se_attempts s)[i := (se_attempts s ! i)\<lparr>at_phase := Running\<rparr>]\<rparr>"

definition finish_attempt :: "nat \<Rightarrow> serializer \<Rightarrow> serializer" where
  "finish_attempt i s =
     (let key = at_key (se_attempts s ! i) in
      s\<lparr>se_attempts := (se_attempts s)[i := (se_attempts s ! i)\<lparr>at_phase := Finished\<rparr>],
        se_pending := (if jm_get (se_pending s) key = Some i then jm_delete (se_pending s) key else se_pending s)\<rparr>)"

fun serializer_allowed :: "serializer \<Rightarrow> serializer_event \<Rightarrow> bool" where
  "serializer_allowed s (EnterAttempt key) = True"
| "serializer_allowed s (StartAttempt i) = may_start s i"
| "serializer_allowed s (FinishAttempt i) = (i < length (se_attempts s) \<and> at_phase (se_attempts s ! i) = Running)"

fun serializer_step :: "serializer \<Rightarrow> serializer_event \<Rightarrow> serializer" where
  "serializer_step s (EnterAttempt key) = enter_attempt key s"
| "serializer_step s (StartAttempt i) = start_attempt i s"
| "serializer_step s (FinishAttempt i) = finish_attempt i s"

subsection \<open>The invariant\<close>

text \<open>
  Attempts of one key form a queue: an attempt that has started has only finished ones of its key before it; it waits for the
  one just before it of its key, or had none unfinished when it entered; and the entry of a key in the map is its last
  attempt, which is there while it is unfinished.
\<close>

definition same_key :: "attempt list \<Rightarrow> nat \<Rightarrow> nat \<Rightarrow> bool" where
  "same_key as i j \<longleftrightarrow> at_key (as ! i) = at_key (as ! j)"

definition done_before :: "attempt list \<Rightarrow> nat \<Rightarrow> bool" where
  "done_before as i \<longleftrightarrow> (\<forall>j < i. same_key as j i \<longrightarrow> at_phase (as ! j) = Finished)"

definition started_ok :: "attempt list \<Rightarrow> bool" where
  "started_ok as \<longleftrightarrow> (\<forall>i < length as. at_phase (as ! i) \<noteq> Waiting \<longrightarrow> done_before as i)"

definition linked_ok :: "attempt list \<Rightarrow> nat \<Rightarrow> bool" where
  "linked_ok as i \<longleftrightarrow> (case at_previous (as ! i) of
     None \<Rightarrow> done_before as i
   | Some j \<Rightarrow> j < i \<and> same_key as j i \<and> (\<forall>k. j < k \<and> k < i \<longrightarrow> \<not> same_key as k i))"

definition last_ok :: "attempt list \<Rightarrow> string \<Rightarrow> nat option \<Rightarrow> bool" where
  "last_ok as key entry \<longleftrightarrow> (case entry of
     None \<Rightarrow> (\<forall>i < length as. at_key (as ! i) = key \<longrightarrow> at_phase (as ! i) = Finished)
   | Some i \<Rightarrow> i < length as \<and> at_key (as ! i) = key \<and> at_phase (as ! i) \<noteq> Finished \<and>
       (\<forall>j. i < j \<and> j < length as \<longrightarrow> at_key (as ! j) \<noteq> key))"

definition serializer_inv :: "serializer \<Rightarrow> bool" where
  "serializer_inv s \<longleftrightarrow> started_ok (se_attempts s) \<and> (\<forall>i < length (se_attempts s). linked_ok (se_attempts s) i) \<and>
     (\<forall>key. last_ok (se_attempts s) key (jm_get (se_pending s) key))"

lemmas serializer_ok_defs = same_key_def done_before_def started_ok_def linked_ok_def last_ok_def

lemma settled_done:
  assumes "tail_settled as i" "\<forall>k < length as. linked_ok as k"
  shows "at_phase (as ! i) = Finished \<and> done_before as i"
  using assms
proof (induction as i rule: tail_settled.induct)
  case (1 as i)
  then have i: "i < length as" "at_phase (as ! i) = Finished" by (simp_all add: tail_settled.simps [of as i])
  have link: "linked_ok as i" using 1 i by simp
  show ?case
  proof (cases "at_previous (as ! i)")
    case None
    then show ?thesis using link i by (simp add: linked_ok_def)
  next
    case (Some j)
    then have j: "j < i" "same_key as j i" "\<And>k. j < k \<Longrightarrow> k < i \<Longrightarrow> \<not> same_key as k i"
      using link by (auto simp: linked_ok_def)
    then have "tail_settled as j" using 1(2) Some by (simp add: tail_settled.simps [of as i])
    then have "at_phase (as ! j) = Finished \<and> done_before as j" using 1 i Some j(1) by blast
    then show ?thesis using i j unfolding done_before_def same_key_def by (metis nat_neq_iff)
  qed
qed

lemma nth_phase: "i < length as \<Longrightarrow> at_key (as[i := (as ! i)\<lparr>at_phase := p\<rparr>] ! j) = at_key (as ! j)"
  "i < length as \<Longrightarrow> at_previous (as[i := (as ! i)\<lparr>at_phase := p\<rparr>] ! j) = at_previous (as ! j)"
  "i < length as \<Longrightarrow> at_phase (as[i := (as ! i)\<lparr>at_phase := p\<rparr>] ! j) = (if j = i then p else at_phase (as ! j))"
  by (cases "j = i"; simp)+

lemma enter_inv: "serializer_inv s \<Longrightarrow> serializer_inv (enter_attempt key s)"
proof -
  assume inv: "serializer_inv s"
  let ?as = "se_attempts s" and ?n = "length (se_attempts s)"
  let ?new = "\<lparr>at_key = key, at_previous = jm_get (se_pending s) key, at_phase = Waiting\<rparr>"
  have nth: "(?as @ [?new]) ! j = ?as ! j" if "j < ?n" for j using that by (simp add: nth_append)
  have started: "started_ok (?as @ [?new])"
    using inv unfolding serializer_inv_def started_ok_def done_before_def same_key_def
    by (auto simp: nth nth_append less_Suc_eq)
  have old: "linked_ok (?as @ [?new]) i" if "i < ?n" for i
  proof -
    have "linked_ok ?as i" using inv that by (simp add: serializer_inv_def)
    then show ?thesis using that unfolding linked_ok_def done_before_def same_key_def
      by (cases "at_previous (?as ! i)") (auto simp: nth_append)
  qed
  have new: "linked_ok (?as @ [?new]) ?n"
  proof -
    have "last_ok ?as key (jm_get (se_pending s) key)" using inv by (simp add: serializer_inv_def)
    then show ?thesis unfolding linked_ok_def done_before_def same_key_def last_ok_def
      by (cases "jm_get (se_pending s) key") (auto simp: nth_append)
  qed
  have last: "last_ok (?as @ [?new]) k (jm_get (jm_set (se_pending s) key ?n) k)" for k
  proof (cases "k = key")
    case True
    then show ?thesis by (auto simp: last_ok_def jm_get_def jm_set_def update_conv')
  next
    case False
    have "last_ok ?as k (jm_get (se_pending s) k)" using inv by (simp add: serializer_inv_def)
    then show ?thesis using False unfolding last_ok_def
      by (cases "jm_get (se_pending s) k") (auto simp: jm_get_def jm_set_def update_conv' nth_append less_Suc_eq)
  qed
  show ?thesis using started old new last by (auto simp: serializer_inv_def enter_attempt_def less_Suc_eq)
qed

lemma start_inv: "serializer_inv s \<Longrightarrow> may_start s i \<Longrightarrow> serializer_inv (start_attempt i s)"
proof -
  assume inv: "serializer_inv s" and may: "may_start s i"
  let ?as = "se_attempts s"
  have i: "i < length ?as" "at_phase (?as ! i) = Waiting" using may by (simp_all add: may_start_def)
  have links: "\<forall>k < length ?as. linked_ok ?as k" using inv by (simp add: serializer_inv_def)
  have "done_before ?as i"
  proof (cases "at_previous (?as ! i)")
    case None
    then show ?thesis using links i by (auto simp: linked_ok_def)
  next
    case (Some j)
    have "linked_ok ?as i" using links i by blast
    then have j: "j < i" "same_key ?as j i" "\<And>k. j < k \<Longrightarrow> k < i \<Longrightarrow> \<not> same_key ?as k i"
      using Some by (auto simp: linked_ok_def)
    have "at_phase (?as ! j) = Finished \<and> done_before ?as j"
      using settled_done [OF _ links] may Some by (simp add: may_start_def)
    then show ?thesis using j unfolding done_before_def same_key_def by (metis nat_neq_iff)
  qed
  then have before: "done_before ?as i" .
  let ?bs = "?as[i := (?as ! i)\<lparr>at_phase := Running\<rparr>]"
  have fin: "at_phase (?bs ! k) = Finished \<longleftrightarrow> at_phase (?as ! k) = Finished" for k using i by (simp add: nth_phase)
  then have db: "done_before ?bs k \<longleftrightarrow> done_before ?as k" for k using i by (simp add: done_before_def same_key_def nth_phase)
  have "started_ok ?bs" using inv before i unfolding serializer_inv_def started_ok_def by (simp add: db nth_phase)
  moreover have "linked_ok ?bs k" if "k < length ?as" for k
    using links that i unfolding linked_ok_def by (cases "at_previous (?as ! k)") (auto simp: db same_key_def nth_phase)
  moreover have "last_ok ?bs k (jm_get (se_pending s) k)" for k
  proof -
    have "last_ok ?as k (jm_get (se_pending s) k)" using inv by (simp add: serializer_inv_def)
    then show ?thesis using i unfolding last_ok_def by (cases "jm_get (se_pending s) k") (auto simp: nth_phase)
  qed
  ultimately show ?thesis by (simp add: serializer_inv_def start_attempt_def)
qed

lemma finish_inv:
  assumes inv: "serializer_inv s" and i: "i < length (se_attempts s)" "at_phase (se_attempts s ! i) = Running"
  shows "serializer_inv (finish_attempt i s)"
proof -
  let ?as = "se_attempts s" let ?key = "at_key (?as ! i)"
  let ?bs = "?as[i := (?as ! i)\<lparr>at_phase := Finished\<rparr>]"
  have before: "done_before ?as i" using inv i by (auto simp: serializer_inv_def started_ok_def)
  have "started_ok ?bs" using inv before i unfolding serializer_inv_def started_ok_def done_before_def same_key_def
    by (auto simp: nth_phase)
  moreover have "linked_ok ?bs k" if "k < length ?bs" for k
    using inv that i unfolding serializer_inv_def linked_ok_def done_before_def same_key_def
    by (auto simp: nth_phase split: option.splits)
  moreover have "last_ok ?bs k (jm_get (se_pending (finish_attempt i s)) k)" for k
  proof -
    have old: "last_ok ?as k (jm_get (se_pending s) k)" using inv by (simp add: serializer_inv_def)
    show ?thesis
    proof (cases "k = ?key \<and> jm_get (se_pending s) ?key = Some i")
      case True
      have "at_phase (?bs ! j) = Finished" if "j < length ?as" "at_key (?as ! j) = ?key" for j
        using old before True that i unfolding last_ok_def done_before_def same_key_def
        by (cases j i rule: linorder_cases) (auto simp: nth_phase)
      then show ?thesis using True i
        by (simp add: last_ok_def finish_attempt_def Let_def jm_get_def jm_delete_def delete_conv' nth_phase)
    next
      case False
      then have "jm_get (se_pending (finish_attempt i s)) k = jm_get (se_pending s) k"
        by (auto simp: finish_attempt_def Let_def jm_get_def jm_delete_def delete_conv')
      then show ?thesis using old False i by (cases "jm_get (se_pending s) k") (auto simp: last_ok_def nth_phase)
    qed
  qed
  ultimately show ?thesis by (simp add: serializer_inv_def finish_attempt_def Let_def)
qed

lemma serializer_step_inv: "serializer_inv s \<Longrightarrow> serializer_allowed s e \<Longrightarrow> serializer_inv (serializer_step s e)"
  by (cases e) (simp_all add: enter_inv start_inv finish_inv)

interpretation serializer: step_machine serializer_step serializer_allowed serializer_inv
  by unfold_locales (rule serializer_step_inv)

lemma empty_serializer_inv: "serializer_inv empty_serializer"
  by (simp add: serializer_inv_def empty_serializer_def started_ok_def last_ok_def jm_get_def)

text \<open>A chain of finished attempts has settled.\<close>

lemma done_settled:
  "i < length as \<Longrightarrow> \<forall>k < length as. linked_ok as k \<Longrightarrow> at_phase (as ! i) = Finished \<Longrightarrow> done_before as i \<Longrightarrow> tail_settled as i"
proof (induction as i rule: tail_settled.induct)
  case (1 as i)
  have link: "linked_ok as i" using 1 by blast
  show ?case
  proof (cases "at_previous (as ! i)")
    case None
    then show ?thesis using 1 by (simp add: tail_settled.simps [of as i])
  next
    case (Some j)
    then have j: "j < i" "same_key as j i" using link by (auto simp: linked_ok_def)
    then have "at_phase (as ! j) = Finished" "done_before as j"
      using 1(5) by (auto simp: done_before_def same_key_def)
    then show ?thesis using 1 Some j(1) by (simp add: tail_settled.simps [of as i])
  qed
qed

subsection \<open>What serialization gives\<close>

text \<open>C20: Of two attempts with the same key the later one does not start before the earlier one has finished, so the check
  of the limiter and the record of a failure are never interleaved for one client.\<close>

theorem attempts_are_serialized:
  assumes "allowed_run serializer_step serializer_allowed empty_serializer es"
  defines "as \<equiv> se_attempts (foldl serializer_step empty_serializer es)"
  assumes "i < j" "j < length as" "at_key (as ! i) = at_key (as ! j)" "at_phase (as ! j) \<noteq> Waiting"
  shows "at_phase (as ! i) = Finished"
proof -
  have "started_ok as" using serializer.inv_run [OF empty_serializer_inv assms(1)] by (simp add: serializer_inv_def as_def)
  then show ?thesis using assms(3-) by (auto simp: started_ok_def done_before_def same_key_def)
qed

text \<open>Serialization does not block: the first unfinished attempt of a key is running or may start, however the
  earlier ones ended; and when all attempts have finished nothing is left in the map.\<close>

theorem attempts_make_progress:
  assumes "allowed_run serializer_step serializer_allowed empty_serializer es"
  defines "s \<equiv> foldl serializer_step empty_serializer es"
  shows "(\<forall>i < length (se_attempts s). at_phase (se_attempts s ! i) \<noteq> Finished \<longrightarrow>
      (\<forall>j < i. at_key (se_attempts s ! j) = at_key (se_attempts s ! i) \<longrightarrow> at_phase (se_attempts s ! j) = Finished) \<longrightarrow>
      at_phase (se_attempts s ! i) = Running \<or> may_start s i) \<and>
    ((\<forall>a \<in> set (se_attempts s). at_phase a = Finished) \<longrightarrow> se_pending s = [])"
proof -
  let ?as = "se_attempts s"
  have inv: "serializer_inv s" using serializer.inv_run [OF empty_serializer_inv assms(1)] by (simp add: s_def)
  then have links: "\<forall>k < length ?as. linked_ok ?as k" by (simp add: serializer_inv_def)
  have "may_start s i" if i: "i < length ?as" "at_phase (?as ! i) = Waiting" "done_before ?as i" for i
  proof (cases "at_previous (?as ! i)")
    case None
    then show ?thesis using i by (simp add: may_start_def)
  next
    case (Some j)
    have "linked_ok ?as i" using links i by blast
    then have j: "j < i" "same_key ?as j i" using Some by (auto simp: linked_ok_def)
    then have "at_phase (?as ! j) = Finished" "done_before ?as j" using i(3) by (auto simp: done_before_def same_key_def)
    then have "tail_settled ?as j" using j i by (intro done_settled links) auto
    then show ?thesis using i Some by (simp add: may_start_def)
  qed
  then have first: "\<forall>i < length ?as. at_phase (?as ! i) \<noteq> Finished \<longrightarrow>
      (\<forall>j < i. at_key (?as ! j) = at_key (?as ! i) \<longrightarrow> at_phase (?as ! j) = Finished) \<longrightarrow> at_phase (?as ! i) = Running \<or> may_start s i"
    unfolding done_before_def same_key_def by (meson attempt_phase.exhaust)
  have "se_pending s = []" if fin: "\<forall>a \<in> set ?as. at_phase a = Finished"
  proof -
    have "jm_get (se_pending s) key = None" for key
    proof -
      have "last_ok ?as key (jm_get (se_pending s) key)" using inv by (simp add: serializer_inv_def)
      then show ?thesis using fin by (cases "jm_get (se_pending s) key") (auto simp: last_ok_def)
    qed
    from this [of "fst (hd (se_pending s))"] show ?thesis by (cases "se_pending s") (simp_all add: jm_get_def)
  qed
  then show ?thesis using first by blast
qed

definition sample_attempts :: "serializer_event list" where
  "sample_attempts = [EnterAttempt ''k'', EnterAttempt ''k'', StartAttempt 0, FinishAttempt 0, StartAttempt 1]"

lemma sample_attempts_allowed: "allowed_run serializer_step serializer_allowed empty_serializer sample_attempts"
  by code_simp

theorem attempts_are_serialized_witness:
  "at_phase (se_attempts (foldl serializer_step empty_serializer sample_attempts) ! 0) = Finished"
proof (rule attempts_are_serialized [OF sample_attempts_allowed, of 0 1])
  show "1 < length (se_attempts (foldl serializer_step empty_serializer sample_attempts))" by code_simp
  show "at_key (se_attempts (foldl serializer_step empty_serializer sample_attempts) ! 0) =
      at_key (se_attempts (foldl serializer_step empty_serializer sample_attempts) ! 1)" by code_simp
  show "at_phase (se_attempts (foldl serializer_step empty_serializer sample_attempts) ! 1) \<noteq> Waiting" by code_simp
qed simp

theorem attempts_make_progress_witness:
  "se_pending (foldl serializer_step empty_serializer (sample_attempts @ [FinishAttempt 1])) = []"
proof -
  have run: "allowed_run serializer_step serializer_allowed empty_serializer (sample_attempts @ [FinishAttempt 1])" by code_simp
  have "\<forall>a \<in> set (se_attempts (foldl serializer_step empty_serializer (sample_attempts @ [FinishAttempt 1]))). at_phase a = Finished"
    by code_simp
  with attempts_make_progress [OF run] show ?thesis by blast
qed

end
