(* ===== verification/Operator_Scopes.thy ===== *)
theory Operator_Scopes
  imports String_Coerce "HOL-Library.List_Lexorder"
begin

text \<open>
  Who may call what: roles and scopes of a gateway client. \<open>src/gateway/operator-scopes.ts\<close>,
  \<open>src/gateway/method-scopes.ts\<close>, \<open>src/gateway/role-policy.ts\<close>, \<open>src/shared/gateway-method-policy.ts\<close>,
  \<open>src/shared/operator-scope-compat.ts\<close>, \<open>src/shared/device-auth.ts\<close> and
  \<open>src/shared/device-bootstrap-profile.ts\<close>. A scope is a string. The scopes that plug-ins registered for
  their own methods are the argument \<open>plugins\<close>. A \<open>Set\<close> is the list of its elements in the order of
  their insertion.
\<close>

subsection \<open>Scopes\<close>

definition ADMIN_SCOPE :: string where "ADMIN_SCOPE = ''operator.admin''"
definition READ_SCOPE :: string where "READ_SCOPE = ''operator.read''"
definition WRITE_SCOPE :: string where "WRITE_SCOPE = ''operator.write''"
definition APPROVALS_SCOPE :: string where "APPROVALS_SCOPE = ''operator.approvals''"
definition PAIRING_SCOPE :: string where "PAIRING_SCOPE = ''operator.pairing''"
definition TALK_SECRETS_SCOPE :: string where "TALK_SECRETS_SCOPE = ''operator.talk.secrets''"

lemmas scope_defs = ADMIN_SCOPE_def READ_SCOPE_def WRITE_SCOPE_def APPROVALS_SCOPE_def PAIRING_SCOPE_def TALK_SECRETS_SCOPE_def

definition CLI_DEFAULT_OPERATOR_SCOPES :: "string list" where
  "CLI_DEFAULT_OPERATOR_SCOPES =
     [ADMIN_SCOPE, READ_SCOPE, WRITE_SCOPE, APPROVALS_SCOPE, PAIRING_SCOPE, TALK_SECRETS_SCOPE]"

subsection \<open>Which scope a method needs\<close>

definition NODE_ROLE_METHODS :: "string list" where
  "NODE_ROLE_METHODS =
     [''node.invoke.result'', ''node.event'', ''node.pending.drain'', ''node.canvas.capability.refresh'',
      ''node.pending.pull'', ''node.pending.ack'', ''skills.bins'']"

definition METHOD_SCOPE_GROUPS :: "(string \<times> string list) list" where
  "METHOD_SCOPE_GROUPS =
     [(APPROVALS_SCOPE,
       [''exec.approval.get'', ''exec.approval.list'', ''exec.approval.request'',
        ''exec.approval.waitDecision'', ''exec.approval.resolve'', ''plugin.approval.list'',
        ''plugin.approval.request'', ''plugin.approval.waitDecision'', ''plugin.approval.resolve'']),
      (PAIRING_SCOPE,
       [''node.pair.request'', ''node.pair.list'', ''node.pair.reject'', ''node.pair.verify'',
        ''node.pair.approve'', ''device.pair.list'', ''device.pair.approve'', ''device.pair.reject'',
        ''device.pair.remove'', ''device.token.rotate'', ''device.token.revoke'', ''node.rename'']),
      (READ_SCOPE,
       [''assistant.media.get'', ''health'', ''doctor.memory.status'', ''doctor.memory.dreamDiary'',
        ''logs.tail'', ''channels.status'', ''status'', ''usage.status'', ''usage.cost'', ''tts.status'',
        ''tts.providers'', ''commands.list'', ''models.list'', ''models.authStatus'', ''tools.catalog'',
        ''tools.effective'', ''agents.list'', ''agent.identity.get'', ''skills.status'', ''skills.search'',
        ''skills.detail'', ''voicewake.get'', ''sessions.list'', ''sessions.get'', ''sessions.preview'',
        ''sessions.resolve'', ''sessions.compaction.list'', ''sessions.compaction.get'',
        ''sessions.subscribe'', ''sessions.unsubscribe'', ''sessions.messages.subscribe'',
        ''sessions.messages.unsubscribe'', ''sessions.usage'', ''sessions.usage.timeseries'',
        ''sessions.usage.logs'', ''cron.list'', ''cron.status'', ''cron.runs'', ''gateway.identity.get'',
        ''system-presence'', ''last-heartbeat'', ''node.list'', ''node.describe'', ''chat.history'',
        ''config.get'', ''config.schema.lookup'', ''talk.config'', ''agents.files.list'', ''agents.files.get'']),
      (WRITE_SCOPE,
       [''message.action'', ''send'', ''poll'', ''agent'', ''agent.wait'', ''wake'', ''talk.mode'',
        ''talk.speak'', ''tts.enable'', ''tts.disable'', ''tts.convert'', ''tts.setProvider'',
        ''voicewake.set'', ''node.invoke'', ''chat.send'', ''chat.abort'', ''sessions.create'',
        ''sessions.send'', ''sessions.steer'', ''sessions.abort'', ''sessions.compaction.branch'',
        ''doctor.memory.backfillDreamDiary'', ''doctor.memory.resetDreamDiary'',
        ''doctor.memory.resetGroundedShortTerm'', ''doctor.memory.repairDreamingArtifacts'',
        ''doctor.memory.dedupeDreamDiary'', ''push.test'', ''node.pending.enqueue'']),
      (ADMIN_SCOPE,
       [''channels.start'', ''channels.logout'', ''agents.create'', ''agents.update'', ''agents.delete'',
        ''skills.install'', ''skills.update'', ''secrets.reload'', ''secrets.resolve'', ''cron.add'',
        ''cron.update'', ''cron.remove'', ''cron.run'', ''sessions.patch'', ''sessions.reset'',
        ''sessions.delete'', ''sessions.compact'', ''sessions.compaction.restore'', ''connect'',
        ''chat.inject'', ''web.login.start'', ''web.login.wait'', ''set-heartbeats'', ''system-event'',
        ''agents.files.set'']),
      (TALK_SECRETS_SCOPE,
       [])]"

definition METHOD_SCOPE_BY_NAME :: "(string, string) js_map" where
  "METHOD_SCOPE_BY_NAME =
     fold (\<lambda>(method, scope) m. jm_set m method scope)
       (concat (map (\<lambda>(scope, methods). map (\<lambda>method. (method, scope)) methods) METHOD_SCOPE_GROUPS)) []"

definition RESERVED_ADMIN_GATEWAY_METHOD_PREFIXES :: "string list" where
  "RESERVED_ADMIN_GATEWAY_METHOD_PREFIXES = [''exec.approvals.'', ''config.'', ''wizard.'', ''update.'']"

definition isReservedAdminGatewayMethod :: "string \<Rightarrow> bool" where
  "isReservedAdminGatewayMethod method = list_ex (\<lambda>p. prefix p method) RESERVED_ADMIN_GATEWAY_METHOD_PREFIXES"

definition resolveReservedGatewayMethodScope :: "string \<Rightarrow> string option" where
  "resolveReservedGatewayMethodScope method = (if \<not> isReservedAdminGatewayMethod method then None else Some ADMIN_SCOPE)"

definition normalizePluginGatewayMethodScope :: "string \<Rightarrow> string option \<Rightarrow> string option \<times> bool" where
  "normalizePluginGatewayMethodScope method scope =
     (case resolveReservedGatewayMethodScope method of
        None \<Rightarrow> (scope, False)
      | Some reservedScope \<Rightarrow>
          if \<not> js_truthy_str scope \<or> scope = Some reservedScope then (scope, False) else (Some reservedScope, True))"

definition resolveScopedMethod :: "(string \<Rightarrow> string option) \<Rightarrow> string \<Rightarrow> string option" where
  "resolveScopedMethod plugins method =
     (case jm_get METHOD_SCOPE_BY_NAME method of
        Some explicitScope \<Rightarrow> Some explicitScope
      | None \<Rightarrow>
        (case resolveReservedGatewayMethodScope method of
           Some reservedScope \<Rightarrow> Some reservedScope
         | None \<Rightarrow> if js_truthy_str (plugins method) then plugins method else None))"

definition isApprovalMethod :: "(string \<Rightarrow> string option) \<Rightarrow> string \<Rightarrow> bool" where
  "isApprovalMethod plugins method = (resolveScopedMethod plugins method = Some APPROVALS_SCOPE)"

definition isPairingMethod :: "(string \<Rightarrow> string option) \<Rightarrow> string \<Rightarrow> bool" where
  "isPairingMethod plugins method = (resolveScopedMethod plugins method = Some PAIRING_SCOPE)"

definition isReadMethod :: "(string \<Rightarrow> string option) \<Rightarrow> string \<Rightarrow> bool" where
  "isReadMethod plugins method = (resolveScopedMethod plugins method = Some READ_SCOPE)"

definition isWriteMethod :: "(string \<Rightarrow> string option) \<Rightarrow> string \<Rightarrow> bool" where
  "isWriteMethod plugins method = (resolveScopedMethod plugins method = Some WRITE_SCOPE)"

definition isNodeRoleMethod :: "string \<Rightarrow> bool" where
  "isNodeRoleMethod method = (method \<in> set NODE_ROLE_METHODS)"

definition isAdminOnlyMethod :: "(string \<Rightarrow> string option) \<Rightarrow> string \<Rightarrow> bool" where
  "isAdminOnlyMethod plugins method = (resolveScopedMethod plugins method = Some ADMIN_SCOPE)"

definition resolveRequiredOperatorScopeForMethod :: "(string \<Rightarrow> string option) \<Rightarrow> string \<Rightarrow> string option" where
  "resolveRequiredOperatorScopeForMethod plugins method = resolveScopedMethod plugins method"

definition resolveLeastPrivilegeOperatorScopesForMethod :: "(string \<Rightarrow> string option) \<Rightarrow> string \<Rightarrow> string list" where
  "resolveLeastPrivilegeOperatorScopesForMethod plugins method =
     (case resolveRequiredOperatorScopeForMethod plugins method of Some requiredScope \<Rightarrow> [requiredScope] | None \<Rightarrow> [])"

text \<open>The answer is \<open>None\<close> when the call is allowed, else the missing scope.\<close>

definition authorizeOperatorScopesForMethod :: "(string \<Rightarrow> string option) \<Rightarrow> string \<Rightarrow> string list \<Rightarrow> string option" where
  "authorizeOperatorScopesForMethod plugins method scopes =
     (if ADMIN_SCOPE \<in> set scopes then None
      else let requiredScope = js_or_else (resolveRequiredOperatorScopeForMethod plugins method) ADMIN_SCOPE in
        if requiredScope = READ_SCOPE then
          (if READ_SCOPE \<in> set scopes \<or> WRITE_SCOPE \<in> set scopes then None else Some READ_SCOPE)
        else if requiredScope \<in> set scopes then None else Some requiredScope)"

definition isGatewayMethodClassified :: "(string \<Rightarrow> string option) \<Rightarrow> string \<Rightarrow> bool" where
  "isGatewayMethodClassified plugins method =
     (if isNodeRoleMethod method then True else resolveRequiredOperatorScopeForMethod plugins method \<noteq> None)"

subsection \<open>Roles\<close>

datatype gateway_role = OperatorRole | NodeRole

definition parseGatewayRole :: "js_value \<Rightarrow> gateway_role option" where
  "parseGatewayRole roleRaw =
     (if roleRaw = JStr ''operator'' then Some OperatorRole else if roleRaw = JStr ''node'' then Some NodeRole else None)"

definition roleCanSkipDeviceIdentity :: "gateway_role \<Rightarrow> bool \<Rightarrow> bool" where
  "roleCanSkipDeviceIdentity role sharedAuthOk = (role = OperatorRole \<and> sharedAuthOk)"

definition isRoleAuthorizedForMethod :: "gateway_role \<Rightarrow> string \<Rightarrow> bool" where
  "isRoleAuthorizedForMethod role method = (if isNodeRoleMethod method then role = NodeRole else role = OperatorRole)"

subsection \<open>Whether granted scopes cover requested ones\<close>

definition OPERATOR_ROLE :: string where "OPERATOR_ROLE = ''operator''"
definition OPERATOR_SCOPE_PREFIX :: string where "OPERATOR_SCOPE_PREFIX = ''operator.''"

text \<open>The trimmed entries that are not blank, each once.\<close>

definition normalizeScopeList :: "string list \<Rightarrow> string list" where
  "normalizeScopeList scopes = js_unique (filter (\<lambda>s. s \<noteq> []) (map js_trim scopes))"

definition operatorScopeSatisfied :: "string \<Rightarrow> string set \<Rightarrow> bool" where
  "operatorScopeSatisfied requestedScope granted =
     (if \<not> prefix OPERATOR_SCOPE_PREFIX requestedScope then False
      else if ADMIN_SCOPE \<in> granted then True
      else if requestedScope = READ_SCOPE then READ_SCOPE \<in> granted \<or> WRITE_SCOPE \<in> granted
      else if requestedScope = WRITE_SCOPE then WRITE_SCOPE \<in> granted
      else requestedScope \<in> granted)"

definition roleScopesAllow :: "string \<Rightarrow> string list \<Rightarrow> string list \<Rightarrow> bool" where
  "roleScopesAllow role requestedScopes allowedScopes =
     (let requested = normalizeScopeList requestedScopes in
      if requested = [] then True
      else let allowed = normalizeScopeList allowedScopes in
        if allowed = [] then False
        else if js_trim role \<noteq> OPERATOR_ROLE
        then list_all (\<lambda>scope. prefix (js_trim role @ ''.'') scope \<and> scope \<in> set allowed) requested
        else list_all (\<lambda>scope. operatorScopeSatisfied scope (set allowed)) requested)"

definition resolveMissingRequestedScope :: "string \<Rightarrow> string list \<Rightarrow> string list \<Rightarrow> string option" where
  "resolveMissingRequestedScope role requestedScopes allowedScopes =
     List.find (\<lambda>scope. \<not> roleScopesAllow role [scope] allowedScopes) requestedScopes"

definition resolveScopeOutsideRequestedRoles :: "string list \<Rightarrow> string list \<Rightarrow> string option" where
  "resolveScopeOutsideRequestedRoles requestedRoles requestedScopes =
     List.find (\<lambda>scope. \<not> list_ex (\<lambda>role. roleScopesAllow role [scope] [scope]) requestedRoles) requestedScopes"

subsection \<open>Scopes and roles of devices\<close>

definition normalizeDeviceAuthRole :: "string \<Rightarrow> string" where
  "normalizeDeviceAuthRole role = js_trim role"

text \<open>Writing implies reading and administration implies both; the result is sorted by code units.\<close>

definition normalizeDeviceAuthScopes :: "string list option \<Rightarrow> string list" where
  "normalizeDeviceAuthScopes scopes =
     (case scopes of
        None \<Rightarrow> []
      | Some ss \<Rightarrow>
        (let out = filter (\<lambda>s. s \<noteq> []) (map js_trim ss);
             implied = (if ADMIN_SCOPE \<in> set out then [READ_SCOPE, WRITE_SCOPE]
                        else if WRITE_SCOPE \<in> set out then [READ_SCOPE] else [])
         in sort (js_unique (out @ implied))))"

record bootstrap_profile =
  bp_roles :: "string list"
  bp_scopes :: "string list"

definition BOOTSTRAP_HANDOFF_OPERATOR_SCOPES :: "string list" where
  "BOOTSTRAP_HANDOFF_OPERATOR_SCOPES = [''operator.approvals'', ''operator.read'', ''operator.talk.secrets'', ''operator.write'']"

definition PAIRING_SETUP_BOOTSTRAP_PROFILE :: bootstrap_profile where
  "PAIRING_SETUP_BOOTSTRAP_PROFILE = \<lparr>bp_roles = [''node'', ''operator''], bp_scopes = BOOTSTRAP_HANDOFF_OPERATOR_SCOPES\<rparr>"

definition resolveBootstrapProfileScopesForRole :: "string \<Rightarrow> string list \<Rightarrow> string list" where
  "resolveBootstrapProfileScopesForRole role scopes =
     (if normalizeDeviceAuthRole role = ''operator''
      then filter (\<lambda>s. s \<in> set BOOTSTRAP_HANDOFF_OPERATOR_SCOPES) (normalizeDeviceAuthScopes (Some scopes)) else [])"

definition normalizeBootstrapRoles :: "string list option \<Rightarrow> string list" where
  "normalizeBootstrapRoles roles =
     (case roles of None \<Rightarrow> [] | Some rs \<Rightarrow> sort (js_unique (filter (\<lambda>r. r \<noteq> []) (map normalizeDeviceAuthRole rs))))"

definition normalizeDeviceBootstrapProfile :: "(string list option \<times> string list option) option \<Rightarrow> bootstrap_profile" where
  "normalizeDeviceBootstrapProfile input =
     \<lparr>bp_roles = normalizeBootstrapRoles (Option.bind input fst),
      bp_scopes = normalizeDeviceAuthScopes (Some (case Option.bind input snd of None \<Rightarrow> [] | Some ss \<Rightarrow> ss))\<rparr>"

end
