(* ===== verification/Device_Pairing.thy ===== *)
theory Device_Pairing
  imports Operator_Scopes
begin

text \<open>
  Pairing of devices: \<open>src/infra/device-pairing.ts\<close>, \<open>src/infra/pairing-files.ts\<close>,
  \<open>src/infra/pairing-pending.ts\<close>, \<open>src/infra/pairing-token.ts\<close> and \<open>src/security/secret-equal.ts\<close>.
  The state is the content of the two files. Every operation runs under one lock: it loads the files,
  which forgets expired requests, and either writes both or returns without writing, so that the files stay as
  they were. The operation's reading of the clock, the random identifier of a new request and the random
  tokens of an approval (one for each role) are arguments; so is the digest that secrets are compared by.
  Identifiers and roles that name members of every JavaScript object are outside the model.
\<close>

subsection \<open>Data\<close>

record pairing_input =
  pi_deviceId :: string
  pi_publicKey :: string
  pi_displayName :: "string option"
  pi_platform :: "string option"
  pi_deviceFamily :: "string option"
  pi_clientId :: "string option"
  pi_clientMode :: "string option"
  pi_role :: "string option"
  pi_roles :: "string list option"
  pi_scopes :: "string list option"
  pi_remoteIp :: "string option"
  pi_silent :: "bool option"

record pending_request = pairing_input +
  pr_requestId :: string
  pr_isRepair :: "bool option"
  pr_ts :: ms

record device_token =
  dt_token :: string
  dt_role :: string
  dt_scopes :: "string list"
  dt_createdAtMs :: ms
  dt_rotatedAtMs :: "ms option"
  dt_revokedAtMs :: "ms option"
  dt_lastUsedAtMs :: "ms option"

record paired_device =
  pd_deviceId :: string
  pd_publicKey :: string
  pd_displayName :: "string option"
  pd_platform :: "string option"
  pd_deviceFamily :: "string option"
  pd_clientId :: "string option"
  pd_clientMode :: "string option"
  pd_role :: "string option"
  pd_roles :: "string list option"
  pd_scopes :: "string list option"
  pd_approvedScopes :: "string list option"
  pd_remoteIp :: "string option"
  pd_tokens :: "(string, device_token) js_map option"
  pd_createdAtMs :: ms
  pd_approvedAtMs :: ms

record pairing_state =
  ps_pending :: "(string, pending_request) js_map"
  ps_paired :: "(string, paired_device) js_map"

datatype forbidden_reason =
    CallerScopesRequired
  | CallerMissingScope
  | ScopeOutsideRequestedRoles
  | BootstrapRoleNotAllowed
  | BootstrapScopeNotAllowed

datatype approve_result =
    NoSuchRequest
  | Forbidden forbidden_reason "string option" "string option"
  | Approved string paired_device

datatype rotate_deny = UnknownDeviceOrRole | MissingApprovedScopeBaseline | ScopeOutsideApprovedBaseline

definition PENDING_TTL_MS :: ms where
  "PENDING_TTL_MS = 5 * 60 * 1000"

definition formatDevicePairingForbiddenMessage :: "forbidden_reason \<Rightarrow> string option \<Rightarrow> string option \<Rightarrow> string" where
  "formatDevicePairingForbiddenMessage reason scope role =
     (case reason of
        CallerScopesRequired \<Rightarrow> ''missing scope: '' @ js_or_else scope ''callerScopes-required''
      | CallerMissingScope \<Rightarrow> ''missing scope: '' @ js_or_else scope ''unknown''
      | ScopeOutsideRequestedRoles \<Rightarrow> ''invalid scope for requested roles: '' @ js_or_else scope ''unknown''
      | BootstrapRoleNotAllowed \<Rightarrow> ''bootstrap profile does not allow role: '' @ js_or_else role ''unknown''
      | BootstrapScopeNotAllowed \<Rightarrow> ''bootstrap profile does not allow scope: '' @ js_or_else scope ''unknown'')"

subsection \<open>Files\<close>

definition pruneExpiredPending :: "ms \<Rightarrow> ms \<Rightarrow> (string, pending_request) js_map \<Rightarrow> (string, pending_request) js_map" where
  "pruneExpiredPending nowMs ttlMs pendingById = filter (\<lambda>p. \<not> nowMs - pr_ts (snd p) > ttlMs) pendingById"

definition loadState :: "ms \<Rightarrow> pairing_state \<Rightarrow> pairing_state" where
  "loadState now files = files\<lparr>ps_pending := pruneExpiredPending now PENDING_TTL_MS (ps_pending files)\<rparr>"

text \<open>One open request for a subject: refresh the only one, or replace all of them by a new one.\<close>

definition reconcilePendingPairingRequests ::
  "(string, pending_request) js_map \<Rightarrow> pending_request list \<Rightarrow> (pending_request \<Rightarrow> bool) \<Rightarrow>
   (pending_request \<Rightarrow> pending_request) \<Rightarrow> (pending_request list \<Rightarrow> pending_request) \<Rightarrow>
   (pending_request \<times> bool) \<times> (string, pending_request) js_map" where
  "reconcilePendingPairingRequests pendingById existing canRefreshSingle refreshSingle buildReplacement =
     (if length existing = 1 \<and> canRefreshSingle (hd existing)
      then let refreshed = refreshSingle (hd existing) in
        ((refreshed, False), jm_set pendingById (pr_requestId refreshed) refreshed)
      else let cleared = fold (\<lambda>e m. jm_delete m (pr_requestId e)) existing pendingById;
               request = buildReplacement existing
        in ((request, True), jm_set cleared (pr_requestId request) request))"

subsection \<open>Tokens\<close>

definition safeEqualSecret :: "(string \<Rightarrow> nat list) \<Rightarrow> string option \<Rightarrow> string option \<Rightarrow> bool" where
  "safeEqualSecret digest provided expected =
     (case (provided, expected) of (Some p, Some e) \<Rightarrow> digest p = digest e | _ \<Rightarrow> False)"

definition verifyPairingToken :: "(string \<Rightarrow> nat list) \<Rightarrow> string \<Rightarrow> string \<Rightarrow> bool" where
  "verifyPairingToken digest provided expected =
     (if js_trim provided = [] \<or> js_trim expected = [] then False else safeEqualSecret digest (Some provided) (Some expected))"

subsection \<open>Roles and scopes of requests and devices\<close>

definition normalizeDeviceId :: "string \<Rightarrow> string" where
  "normalizeDeviceId deviceId = js_trim deviceId"

definition normalizeRole :: "string option \<Rightarrow> string option" where
  "normalizeRole role =
     (case role of None \<Rightarrow> None | Some r \<Rightarrow> let trimmed = js_trim r in if trimmed \<noteq> [] then Some trimmed else None)"

text \<open>A single role is a list of one.\<close>

definition one_role :: "string option \<Rightarrow> string list option" where
  "one_role role = map_option (\<lambda>r. [r]) role"

definition trimmed_items :: "string list option list \<Rightarrow> string list" where
  "trimmed_items items = normalizeScopeList (concat (map (\<lambda>item. js_or_else item []) items))"

definition mergeRoles :: "string list option list \<Rightarrow> string list option" where
  "mergeRoles items = (let roles = trimmed_items items in if roles = [] then None else Some roles)"

definition listActiveTokenRoles :: "(string, device_token) js_map option \<Rightarrow> string list option" where
  "listActiveTokenRoles tokens =
     (case tokens of
        None \<Rightarrow> None
      | Some ts \<Rightarrow> mergeRoles [Some (map dt_role (filter (\<lambda>t. \<not> js_truthy_int (dt_revokedAtMs t)) (map snd ts)))])"

definition listApprovedPairedDeviceRoles :: "paired_device \<Rightarrow> string list" where
  "listApprovedPairedDeviceRoles device = js_or_else (mergeRoles [pd_roles device, one_role (pd_role device)]) []"

definition listEffectivePairedDeviceRoles :: "paired_device \<Rightarrow> string list" where
  "listEffectivePairedDeviceRoles device =
     (case listActiveTokenRoles (pd_tokens device) of
        None \<Rightarrow> []
      | Some activeTokenRoles \<Rightarrow>
          if activeTokenRoles \<noteq> [] then filter (\<lambda>role. role \<in> set (listApprovedPairedDeviceRoles device)) activeTokenRoles
          else [])"

definition hasEffectivePairedDeviceRole :: "paired_device \<Rightarrow> string \<Rightarrow> bool" where
  "hasEffectivePairedDeviceRole device role =
     (case normalizeRole (Some role) of None \<Rightarrow> False | Some normalized \<Rightarrow> normalized \<in> set (listEffectivePairedDeviceRoles device))"

definition mergeScopes :: "string list option list \<Rightarrow> string list option" where
  "mergeScopes items =
     (let scopes = trimmed_items items in
      if scopes = [] then (if list_ex (\<lambda>item. item \<noteq> None) items then Some [] else None) else Some scopes)"

definition sameStringSet :: "string list \<Rightarrow> string list \<Rightarrow> bool" where
  "sameStringSet left right = (length left = length right \<and> list_all (\<lambda>v. v \<in> set right) left)"

definition resolveRequestedRoles :: "'a pairing_input_scheme \<Rightarrow> string list" where
  "resolveRequestedRoles input = js_or_else (mergeRoles [pi_roles input, one_role (pi_role input)]) []"

definition resolveRequestedScopes :: "'a pairing_input_scheme \<Rightarrow> string list" where
  "resolveRequestedScopes input = normalizeDeviceAuthScopes (pi_scopes input)"

definition samePendingApprovalSnapshot :: "pending_request \<Rightarrow> pairing_input \<Rightarrow> bool" where
  "samePendingApprovalSnapshot existing incoming =
     (if pi_publicKey existing \<noteq> pi_publicKey incoming then False
      else if normalizeRole (pi_role existing) \<noteq> normalizeRole (pi_role incoming) then False
      else sameStringSet (resolveRequestedRoles existing) (resolveRequestedRoles incoming) \<and>
           sameStringSet (resolveRequestedScopes existing) (resolveRequestedScopes incoming))"

definition js_true :: "bool option \<Rightarrow> bool" where
  "js_true b = (b = Some True)"

definition refreshPendingDevicePairingRequest :: "pending_request \<Rightarrow> pairing_input \<Rightarrow> bool \<Rightarrow> pending_request" where
  "refreshPendingDevicePairingRequest existing incoming isRepair =
     existing\<lparr>pi_publicKey := pi_publicKey incoming,
       pi_displayName := js_alt (pi_displayName incoming) (pi_displayName existing),
       pi_platform := js_alt (pi_platform incoming) (pi_platform existing),
       pi_deviceFamily := js_alt (pi_deviceFamily incoming) (pi_deviceFamily existing),
       pi_clientId := js_alt (pi_clientId incoming) (pi_clientId existing),
       pi_clientMode := js_alt (pi_clientMode incoming) (pi_clientMode existing),
       pi_remoteIp := js_alt (pi_remoteIp incoming) (pi_remoteIp existing),
       pi_silent := Some (js_true (pi_silent existing) \<and> js_true (pi_silent incoming)),
       pr_isRepair := Some (js_true (pr_isRepair existing) \<or> isRepair)\<rparr>"

definition resolveSupersededPendingSilent :: "pending_request list \<Rightarrow> bool option \<Rightarrow> bool" where
  "resolveSupersededPendingSilent existing incomingSilent =
     (js_true incomingSilent \<and> list_all (\<lambda>pending. pi_silent pending = Some True) existing)"

definition buildPendingDevicePairingRequest ::
  "string \<Rightarrow> ms \<Rightarrow> string \<Rightarrow> bool \<Rightarrow> pairing_input \<Rightarrow> pending_request" where
  "buildPendingDevicePairingRequest uuid now deviceId isRepair req =
     (let role = normalizeRole (pi_role req) in
      \<lparr>pi_deviceId = deviceId, pi_publicKey = pi_publicKey req, pi_displayName = pi_displayName req,
       pi_platform = pi_platform req, pi_deviceFamily = pi_deviceFamily req, pi_clientId = pi_clientId req,
       pi_clientMode = pi_clientMode req, pi_role = role, pi_roles = mergeRoles [pi_roles req, one_role role],
       pi_scopes = mergeScopes [pi_scopes req], pi_remoteIp = pi_remoteIp req, pi_silent = pi_silent req,
       pr_requestId = uuid, pr_isRepair = Some isRepair, pr_ts = now\<rparr>)"

definition getPairedDeviceFromState :: "pairing_state \<Rightarrow> string \<Rightarrow> paired_device option" where
  "getPairedDeviceFromState state deviceId = jm_get (ps_paired state) (normalizeDeviceId deviceId)"

definition cloneDeviceTokens :: "paired_device \<Rightarrow> (string, device_token) js_map" where
  "cloneDeviceTokens device = js_or_else (pd_tokens device) []"

definition buildDeviceAuthToken :: "string \<Rightarrow> string \<Rightarrow> string list \<Rightarrow> device_token option \<Rightarrow> ms \<Rightarrow> ms option \<Rightarrow> device_token" where
  "buildDeviceAuthToken newToken role scopes existing now rotatedAtMs =
     \<lparr>dt_token = newToken, dt_role = role, dt_scopes = scopes,
      dt_createdAtMs = js_or_else (map_option dt_createdAtMs existing) now, dt_rotatedAtMs = rotatedAtMs,
      dt_revokedAtMs = None, dt_lastUsedAtMs = Option.bind existing dt_lastUsedAtMs\<rparr>"

definition resolveRoleScopedDeviceTokenScopes :: "string \<Rightarrow> string list option \<Rightarrow> string list" where
  "resolveRoleScopedDeviceTokenScopes role scopes =
     (let normalized = normalizeDeviceAuthScopes scopes in
      if role = ''operator'' then filter (prefix OPERATOR_SCOPE_PREFIX) normalized
      else filter (\<lambda>scope. \<not> prefix OPERATOR_SCOPE_PREFIX scope) normalized)"

definition resolveApprovedTokenScopes ::
  "string \<Rightarrow> pending_request \<Rightarrow> device_token option \<Rightarrow> string list option \<Rightarrow> paired_device option \<Rightarrow> string list" where
  "resolveApprovedTokenScopes role pending existingToken approvedScopes existing =
     (let requestedScopes = resolveRoleScopedDeviceTokenScopes role (pi_scopes pending) in
      if requestedScopes \<noteq> [] then requestedScopes
      else resolveRoleScopedDeviceTokenScopes role
             (js_alt (map_option dt_scopes existingToken)
               (js_alt approvedScopes
                 (js_alt (Option.bind existing pd_approvedScopes) (Option.bind existing pd_scopes)))))"

definition resolveApprovedDeviceScopeBaseline :: "paired_device \<Rightarrow> string list option" where
  "resolveApprovedDeviceScopeBaseline device =
     (case js_alt (pd_approvedScopes device) (pd_scopes device) of
        None \<Rightarrow> None
      | Some baseline \<Rightarrow> Some (normalizeDeviceAuthScopes (Some baseline)))"

definition scopesWithinApprovedDeviceBaseline :: "string \<Rightarrow> string list \<Rightarrow> string list option \<Rightarrow> bool" where
  "scopesWithinApprovedDeviceBaseline role scopes approvedScopes =
     (case approvedScopes of None \<Rightarrow> False | Some allowed \<Rightarrow> roleScopesAllow role scopes allowed)"

subsection \<open>Queries\<close>

definition listDevicePairing :: "ms \<Rightarrow> pairing_state \<Rightarrow> pending_request list \<times> paired_device list" where
  "listDevicePairing now files =
     (let state = loadState now files in
      (sort_key (\<lambda>p. - pr_ts p) (map snd (ps_pending state)), sort_key (\<lambda>d. - pd_approvedAtMs d) (map snd (ps_paired state))))"

definition getPairedDevice :: "ms \<Rightarrow> string \<Rightarrow> pairing_state \<Rightarrow> paired_device option" where
  "getPairedDevice now deviceId files = jm_get (ps_paired (loadState now files)) (normalizeDeviceId deviceId)"

definition getPendingDevicePairing :: "ms \<Rightarrow> string \<Rightarrow> pairing_state \<Rightarrow> pending_request option" where
  "getPendingDevicePairing now requestId files = jm_get (ps_pending (loadState now files)) requestId"

subsection \<open>Requests\<close>

text \<open>The open requests of a device, latest first, and the one request that supersedes them.\<close>

definition pending_for_device :: "pairing_state \<Rightarrow> string \<Rightarrow> pending_request list" where
  "pending_for_device state deviceId =
     sort_key (\<lambda>p. - pr_ts p) (filter (\<lambda>p. pi_deviceId p = deviceId) (map snd (ps_pending state)))"

definition superseding_request ::
  "ms \<Rightarrow> string \<Rightarrow> string \<Rightarrow> bool \<Rightarrow> pairing_input \<Rightarrow> pending_request list \<Rightarrow> pending_request" where
  "superseding_request now uuid deviceId isRepair req existing =
     (let latestRole = (case existing of [] \<Rightarrow> None | latestPending # _ \<Rightarrow> pi_role latestPending);
          mergedRoles = mergeRoles (concat (map (\<lambda>p. [pi_roles p, one_role (pi_role p)]) existing) @
                                    [pi_roles req, one_role (pi_role req)]);
          mergedScopes = mergeScopes (map pi_scopes existing @ [pi_scopes req])
      in buildPendingDevicePairingRequest uuid now deviceId isRepair
           (req\<lparr>pi_role := js_alt (normalizeRole (pi_role req)) latestRole, pi_roles := mergedRoles,
                pi_scopes := mergedScopes,
                pi_silent := Some (resolveSupersededPendingSilent existing (pi_silent req))\<rparr>))"

definition requestDevicePairing ::
  "ms \<Rightarrow> string \<Rightarrow> pairing_input \<Rightarrow> pairing_state \<Rightarrow> (pending_request \<times> bool) fallible \<times> pairing_state" where
  "requestDevicePairing now uuid req files =
     (let state = loadState now files; deviceId = normalizeDeviceId (pi_deviceId req) in
      if deviceId = [] then (Inl ''deviceId required'', files)
      else let isRepair = (jm_get (ps_paired state) deviceId \<noteq> None);
               (result, pendingById) = reconcilePendingPairingRequests (ps_pending state) (pending_for_device state deviceId)
                 (\<lambda>existing. samePendingApprovalSnapshot existing req)
                 (\<lambda>existing. refreshPendingDevicePairingRequest existing req isRepair)
                 (superseding_request now uuid deviceId isRepair req)
           in (Inr result, state\<lparr>ps_pending := pendingById\<rparr>))"

definition rejectDevicePairing :: "ms \<Rightarrow> string \<Rightarrow> pairing_state \<Rightarrow> (string \<times> string) option \<times> pairing_state" where
  "rejectDevicePairing now requestId files =
     (let state = loadState now files in
      case jm_get (ps_pending state) requestId of
        None \<Rightarrow> (None, files)
      | Some pending \<Rightarrow>
          (Some (requestId, pi_deviceId pending), state\<lparr>ps_pending := jm_delete (ps_pending state) requestId\<rparr>))"

subsection \<open>Approval\<close>

text \<open>The paired device an approval writes, with the roles, scopes and tokens it computed.\<close>

definition approved_device ::
  "ms \<Rightarrow> pending_request \<Rightarrow> paired_device option \<Rightarrow> string list option \<Rightarrow> string list option \<Rightarrow>
   (string, device_token) js_map \<Rightarrow> paired_device" where
  "approved_device now pending existing roles approvedScopes tokens =
     \<lparr>pd_deviceId = pi_deviceId pending, pd_publicKey = pi_publicKey pending, pd_displayName = pi_displayName pending,
      pd_platform = pi_platform pending, pd_deviceFamily = pi_deviceFamily pending, pd_clientId = pi_clientId pending,
      pd_clientMode = pi_clientMode pending, pd_role = pi_role pending, pd_roles = roles, pd_scopes = approvedScopes,
      pd_approvedScopes = approvedScopes, pd_remoteIp = pi_remoteIp pending, pd_tokens = Some tokens,
      pd_createdAtMs = js_or_else (map_option pd_createdAtMs existing) now, pd_approvedAtMs = now\<rparr>"

definition finish_approval :: "string \<Rightarrow> paired_device \<Rightarrow> pairing_state \<Rightarrow> approve_result \<times> pairing_state" where
  "finish_approval requestId device state =
     (Approved requestId device,
      state\<lparr>ps_pending := jm_delete (ps_pending state) requestId,
            ps_paired := jm_set (ps_paired state) (pd_deviceId device) device\<rparr>)"

definition existing_baseline :: "paired_device option \<Rightarrow> string list option" where
  "existing_baseline existing = js_alt (Option.bind existing pd_approvedScopes) (Option.bind existing pd_scopes)"

text \<open>What the interactive approval checks, before it changes anything.\<close>

definition approval_refusal :: "pending_request \<Rightarrow> string list option \<Rightarrow> approve_result option" where
  "approval_refusal pending callerScopes =
     (let requestedRoles = resolveRequestedRoles pending; requestedScopes = normalizeDeviceAuthScopes (pi_scopes pending);
          roleMismatchScope = resolveScopeOutsideRequestedRoles requestedRoles requestedScopes
      in if js_truthy_str roleMismatchScope then Some (Forbidden ScopeOutsideRequestedRoles roleMismatchScope None)
         else let requestedOperatorScopes = filter (prefix OPERATOR_SCOPE_PREFIX) requestedScopes in
           if requestedOperatorScopes = [] then None
           else case callerScopes of
             None \<Rightarrow> Some (Forbidden CallerScopesRequired (Some (hd requestedOperatorScopes)) None)
           | Some scopes \<Rightarrow>
             (let missingScope = resolveMissingRequestedScope OPERATOR_ROLE requestedOperatorScopes scopes in
              if js_truthy_str missingScope then Some (Forbidden CallerMissingScope missingScope None) else None))"

definition approval_token ::
  "ms \<Rightarrow> (string \<Rightarrow> string) \<Rightarrow> pending_request \<Rightarrow> string list option \<Rightarrow> paired_device option \<Rightarrow> string \<Rightarrow>
   (string, device_token) js_map \<Rightarrow> (string, device_token) js_map" where
  "approval_token now mint pending approvedScopes existing roleForToken tokens =
     (let existingToken = jm_get tokens roleForToken;
          nextScopes = resolveApprovedTokenScopes roleForToken pending existingToken approvedScopes existing
      in jm_set tokens roleForToken
           (buildDeviceAuthToken (mint roleForToken) roleForToken nextScopes existingToken now
             (if existingToken \<noteq> None then Some now else None)))"

definition approveDevicePairing ::
  "ms \<Rightarrow> (string \<Rightarrow> string) \<Rightarrow> string \<Rightarrow> string list option \<Rightarrow> pairing_state \<Rightarrow> approve_result \<times> pairing_state" where
  "approveDevicePairing now mint requestId callerScopes files =
     (let state = loadState now files in
      case jm_get (ps_pending state) requestId of
        None \<Rightarrow> (NoSuchRequest, files)
      | Some pending \<Rightarrow>
        (case approval_refusal pending callerScopes of
           Some refusal \<Rightarrow> (refusal, files)
         | None \<Rightarrow>
           (let existing = jm_get (ps_paired state) (pi_deviceId pending);
                roles = mergeRoles [Option.bind existing pd_roles, one_role (Option.bind existing pd_role),
                                    pi_roles pending, one_role (pi_role pending)];
                approvedScopes = mergeScopes [existing_baseline existing, pi_scopes pending];
                tokens = fold (approval_token now mint pending approvedScopes existing) (resolveRequestedRoles pending)
                           (js_or_else (Option.bind existing pd_tokens) [])
            in finish_approval requestId (approved_device now pending existing roles approvedScopes tokens) state)))"

definition bootstrap_refusal :: "pending_request \<Rightarrow> string list \<Rightarrow> string list \<Rightarrow> approve_result option" where
  "bootstrap_refusal pending approvedRoles approvedScopes =
     (let missingRole = List.find (\<lambda>role. role \<notin> set approvedRoles) (resolveRequestedRoles pending) in
      if js_truthy_str missingRole then Some (Forbidden BootstrapRoleNotAllowed None missingRole)
      else let requestedOperatorScopes = filter (prefix OPERATOR_SCOPE_PREFIX) (normalizeDeviceAuthScopes (pi_scopes pending));
               missingScope = resolveMissingRequestedScope OPERATOR_ROLE requestedOperatorScopes approvedScopes
        in if js_truthy_str missingScope then Some (Forbidden BootstrapScopeNotAllowed missingScope None) else None)"

definition bootstrap_token ::
  "ms \<Rightarrow> (string \<Rightarrow> string) \<Rightarrow> string list \<Rightarrow> string \<Rightarrow> (string, device_token) js_map \<Rightarrow> (string, device_token) js_map" where
  "bootstrap_token now mint approvedScopes roleForToken tokens =
     (let existingToken = jm_get tokens roleForToken;
          tokenScopes = (if roleForToken = OPERATOR_ROLE then resolveBootstrapProfileScopesForRole roleForToken approvedScopes else [])
      in jm_set tokens roleForToken
           (buildDeviceAuthToken (mint roleForToken) roleForToken tokenScopes existingToken now
             (if existingToken \<noteq> None then Some now else None)))"

definition approveBootstrapDevicePairing ::
  "ms \<Rightarrow> (string \<Rightarrow> string) \<Rightarrow> string \<Rightarrow> bootstrap_profile \<Rightarrow> pairing_state \<Rightarrow> approve_result \<times> pairing_state" where
  "approveBootstrapDevicePairing now mint requestId bootstrapProfile files =
     (let approvedRoles = js_or_else (mergeRoles [Some (bp_roles bootstrapProfile)]) [];
          approvedScopes = normalizeDeviceAuthScopes (Some (bp_scopes bootstrapProfile));
          state = loadState now files
      in case jm_get (ps_pending state) requestId of
           None \<Rightarrow> (NoSuchRequest, files)
         | Some pending \<Rightarrow>
           (case bootstrap_refusal pending approvedRoles approvedScopes of
              Some refusal \<Rightarrow> (refusal, files)
            | None \<Rightarrow>
              (let existing = jm_get (ps_paired state) (pi_deviceId pending);
                   roles = mergeRoles [Option.bind existing pd_roles, one_role (Option.bind existing pd_role),
                                       pi_roles pending, one_role (pi_role pending), Some approvedRoles];
                   nextApprovedScopes = mergeScopes [existing_baseline existing, pi_scopes pending, Some approvedScopes];
                   tokens = fold (bootstrap_token now mint approvedScopes) approvedRoles
                              (js_or_else (Option.bind existing pd_tokens) [])
               in finish_approval requestId (approved_device now pending existing roles nextApprovedScopes tokens) state)))"

subsection \<open>Paired devices\<close>

definition removePairedDevice :: "ms \<Rightarrow> string \<Rightarrow> pairing_state \<Rightarrow> string option \<times> pairing_state" where
  "removePairedDevice now deviceId files =
     (let state = loadState now files; normalized = normalizeDeviceId deviceId in
      if normalized = [] \<or> jm_get (ps_paired state) normalized = None then (None, files)
      else (Some normalized, state\<lparr>ps_paired := jm_delete (ps_paired state) normalized\<rparr>))"

text \<open>A field of the patch is \<open>None\<close> when it is absent, \<open>Some\<close> when it is present, perhaps as \<open>undefined\<close>.\<close>

record metadata_patch =
  mp_displayName :: "string option option"
  mp_clientId :: "string option option"
  mp_clientMode :: "string option option"
  mp_remoteIp :: "string option option"

definition updatePairedDeviceMetadata :: "ms \<Rightarrow> string \<Rightarrow> metadata_patch \<Rightarrow> pairing_state \<Rightarrow> pairing_state" where
  "updatePairedDeviceMetadata now deviceId patch files =
     (let state = loadState now files; normalizedDeviceId = normalizeDeviceId deviceId in
      case jm_get (ps_paired state) normalizedDeviceId of
        None \<Rightarrow> files
      | Some existing \<Rightarrow>
        (let patched = existing\<lparr>pd_displayName := js_or_else (mp_displayName patch) (pd_displayName existing),
               pd_clientId := js_or_else (mp_clientId patch) (pd_clientId existing),
               pd_clientMode := js_or_else (mp_clientMode patch) (pd_clientMode existing),
               pd_remoteIp := js_or_else (mp_remoteIp patch) (pd_remoteIp existing)\<rparr>
         in state\<lparr>ps_paired := jm_set (ps_paired state) normalizedDeviceId patched\<rparr>))"

text \<open>The result of a check is \<open>None\<close> when it succeeds, else the reason.\<close>

definition put_token :: "pairing_state \<Rightarrow> paired_device \<Rightarrow> (string, device_token) js_map \<Rightarrow> string \<Rightarrow> device_token \<Rightarrow> pairing_state" where
  "put_token state device tokens role entry =
     state\<lparr>ps_paired := jm_set (ps_paired state) (pd_deviceId device) (device\<lparr>pd_tokens := Some (jm_set tokens role entry)\<rparr>)\<rparr>"

definition verifyDeviceToken ::
  "(string \<Rightarrow> nat list) \<Rightarrow> ms \<Rightarrow> string \<Rightarrow> string \<Rightarrow> string \<Rightarrow> string list \<Rightarrow> pairing_state \<Rightarrow> string option \<times> pairing_state" where
  "verifyDeviceToken digest now deviceId token rawRole scopes files =
     (let state = loadState now files in
      case getPairedDeviceFromState state deviceId of
        None \<Rightarrow> (Some ''device-not-paired'', files)
      | Some device \<Rightarrow>
        (case normalizeRole (Some rawRole) of
           None \<Rightarrow> (Some ''role-missing'', files)
         | Some role \<Rightarrow>
           (case Option.bind (pd_tokens device) (\<lambda>ts. jm_get ts role) of
              None \<Rightarrow> (Some ''token-missing'', files)
            | Some entry \<Rightarrow>
              if js_truthy_int (dt_revokedAtMs entry) then (Some ''token-revoked'', files)
              else if \<not> verifyPairingToken digest token (dt_token entry) then (Some ''token-mismatch'', files)
              else if \<not> scopesWithinApprovedDeviceBaseline role (dt_scopes entry) (resolveApprovedDeviceScopeBaseline device)
              then (Some ''scope-mismatch'', files)
              else if \<not> roleScopesAllow role (normalizeDeviceAuthScopes (Some scopes)) (dt_scopes entry)
              then (Some ''scope-mismatch'', files)
              else (None, put_token state device (cloneDeviceTokens device) role (entry\<lparr>dt_lastUsedAtMs := Some now\<rparr>)))))"

definition resolveDeviceTokenUpdateContext ::
  "pairing_state \<Rightarrow> string \<Rightarrow> string \<Rightarrow> (paired_device \<times> string \<times> (string, device_token) js_map \<times> device_token option) option" where
  "resolveDeviceTokenUpdateContext state deviceId rawRole =
     (case getPairedDeviceFromState state deviceId of
        None \<Rightarrow> None
      | Some device \<Rightarrow>
        (case normalizeRole (Some rawRole) of
           None \<Rightarrow> None
         | Some role \<Rightarrow>
           if role \<notin> set (listApprovedPairedDeviceRoles device) then None
           else (let tokens = cloneDeviceTokens device in Some (device, role, tokens, jm_get tokens role))))"

definition ensureDeviceToken ::
  "ms \<Rightarrow> string \<Rightarrow> string \<Rightarrow> string \<Rightarrow> string list \<Rightarrow> pairing_state \<Rightarrow> device_token option \<times> pairing_state" where
  "ensureDeviceToken now newToken deviceId rawRole scopes files =
     (let state = loadState now files; requestedScopes = normalizeDeviceAuthScopes (Some scopes) in
      case resolveDeviceTokenUpdateContext state deviceId rawRole of
        None \<Rightarrow> (None, files)
      | Some (device, role, tokens, existing) \<Rightarrow>
        (let approvedScopes = resolveApprovedDeviceScopeBaseline device;
             reusable = (case existing of
                 None \<Rightarrow> False
               | Some e \<Rightarrow> \<not> js_truthy_int (dt_revokedAtMs e) \<and>
                   scopesWithinApprovedDeviceBaseline role (dt_scopes e) approvedScopes \<and>
                   roleScopesAllow role requestedScopes (dt_scopes e));
             fresh = buildDeviceAuthToken newToken role requestedScopes existing now
                       (if existing \<noteq> None then Some now else None)
         in if \<not> scopesWithinApprovedDeviceBaseline role requestedScopes approvedScopes then (None, files)
            else if reusable then (existing, files)
            else (Some fresh, put_token state device tokens role fresh)))"

definition rotateDeviceToken ::
  "ms \<Rightarrow> string \<Rightarrow> string \<Rightarrow> string \<Rightarrow> string list option \<Rightarrow> pairing_state \<Rightarrow> (rotate_deny + device_token) \<times> pairing_state" where
  "rotateDeviceToken now newToken deviceId rawRole scopes files =
     (let state = loadState now files in
      case resolveDeviceTokenUpdateContext state deviceId rawRole of
        None \<Rightarrow> (Inl UnknownDeviceOrRole, files)
      | Some (device, role, tokens, existing) \<Rightarrow>
        (let requestedScopes = normalizeDeviceAuthScopes (js_alt scopes (js_alt (map_option dt_scopes existing) (pd_scopes device)));
             approvedScopes = resolveApprovedDeviceScopeBaseline device;
             fresh = buildDeviceAuthToken newToken role requestedScopes existing now (Some now)
         in if approvedScopes = None then (Inl MissingApprovedScopeBaseline, files)
            else if \<not> scopesWithinApprovedDeviceBaseline role requestedScopes approvedScopes
            then (Inl ScopeOutsideApprovedBaseline, files)
            else (Inr fresh, put_token state device tokens role fresh)))"

definition revokeDeviceToken :: "ms \<Rightarrow> string \<Rightarrow> string \<Rightarrow> pairing_state \<Rightarrow> device_token option \<times> pairing_state" where
  "revokeDeviceToken now deviceId rawRole files =
     (let state = loadState now files in
      case jm_get (ps_paired state) (normalizeDeviceId deviceId) of
        None \<Rightarrow> (None, files)
      | Some device \<Rightarrow>
        (case normalizeRole (Some rawRole) of
           None \<Rightarrow> (None, files)
         | Some role \<Rightarrow>
           (case Option.bind (pd_tokens device) (\<lambda>ts. jm_get ts role) of
              None \<Rightarrow> (None, files)
            | Some token \<Rightarrow>
              (let entry = token\<lparr>dt_revokedAtMs := Some now\<rparr> in
               (Some entry, put_token state device (cloneDeviceTokens device) role entry)))))"

definition clearDevicePairing :: "ms \<Rightarrow> string \<Rightarrow> pairing_state \<Rightarrow> bool \<times> pairing_state" where
  "clearDevicePairing now deviceId files =
     (let state = loadState now files; normalizedId = normalizeDeviceId deviceId in
      if jm_get (ps_paired state) normalizedId = None then (False, files)
      else (True, state\<lparr>ps_paired := jm_delete (ps_paired state) normalizedId\<rparr>))"

end
