(* ===== verification/Device_Bootstrap.thy ===== *)
theory Device_Bootstrap
  imports Device_Pairing
begin

text \<open>
  Bootstrap tokens, with which a new device pairs itself: \<open>src/infra/device-bootstrap.ts\<close>. The state is the content of the
  file, a map from keys to records whose fields may be missing. Every operation runs under one lock; it loads the file, which
  completes the records and forgets expired ones, and writes it back or leaves it. The clock, the random token of an issue
  and the digest that secrets are compared by are arguments; so is \<open>norm_key\<close>, the library that brings a PEM or
  base64 public key into one form.
\<close>

definition DEVICE_BOOTSTRAP_TOKEN_TTL_MS :: ms where
  "DEVICE_BOOTSTRAP_TOKEN_TTL_MS = 10 * 60 * 1000"

record bootstrap_record =
  br_token :: "string option"
  br_ts :: "ms option"
  br_deviceId :: "string option"
  br_publicKey :: "string option"
  br_profile :: "bootstrap_profile option"
  br_redeemedProfile :: "bootstrap_profile option"
  br_roles :: "string list option"
  br_scopes :: "string list option"
  br_issuedAtMs :: "ms option"
  br_lastUsedAtMs :: "ms option"

type_synonym bootstrap_file = "(string, bootstrap_record) js_map"

definition profile_input :: "bootstrap_profile \<Rightarrow> string list option \<times> string list option" where
  "profile_input p = (Some (bp_roles p), Some (bp_scopes p))"

definition resolvePersistedBootstrapProfile :: "bootstrap_record \<Rightarrow> bootstrap_profile" where
  "resolvePersistedBootstrapProfile r =
     normalizeDeviceBootstrapProfile (Some (case br_profile r of Some p \<Rightarrow> profile_input p | None \<Rightarrow> (br_roles r, br_scopes r)))"

definition resolvePersistedRedeemedProfile :: "bootstrap_record \<Rightarrow> bootstrap_profile" where
  "resolvePersistedRedeemedProfile r = normalizeDeviceBootstrapProfile (map_option profile_input (br_redeemedProfile r))"

definition resolveIssuedBootstrapProfile ::
  "(string list option \<times> string list option) option \<Rightarrow> string list option \<Rightarrow> string list option \<Rightarrow> bootstrap_profile" where
  "resolveIssuedBootstrapProfile profile roles scopes =
     (if profile \<noteq> None then normalizeDeviceBootstrapProfile profile
      else if roles \<noteq> None \<or> scopes \<noteq> None then normalizeDeviceBootstrapProfile (Some (roles, scopes))
      else PAIRING_SETUP_BOOTSTRAP_PROFILE)"

definition bootstrapProfileAllowsRequest :: "bootstrap_profile \<Rightarrow> string \<Rightarrow> string list \<Rightarrow> bool" where
  "bootstrapProfileAllowsRequest allowedProfile requestedRole requestedScopes =
     (requestedRole \<in> set (bp_roles allowedProfile) \<and> roleScopesAllow requestedRole requestedScopes (bp_scopes allowedProfile))"

definition resolveBootstrapProfileScopes :: "string \<Rightarrow> string list \<Rightarrow> string list" where
  "resolveBootstrapProfileScopes role scopes =
     (if role = ''operator'' then filter (prefix ''operator.'') scopes else filter (\<lambda>scope. \<not> prefix ''operator.'' scope) scopes)"

definition bootstrapProfileSatisfiesProfile :: "bootstrap_profile \<Rightarrow> bootstrap_profile \<Rightarrow> bool" where
  "bootstrapProfileSatisfiesProfile actualProfile requiredProfile =
     list_all (\<lambda>requiredRole. requiredRole \<in> set (bp_roles actualProfile) \<and>
       (let requiredScopes = resolveBootstrapProfileScopes requiredRole (bp_scopes requiredProfile) in
        requiredScopes = [] \<or> bootstrapProfileAllowsRequest actualProfile requiredRole requiredScopes)) (bp_roles requiredProfile)"

definition normalizeBootstrapPublicKey :: "(string \<Rightarrow> string option) \<Rightarrow> string \<Rightarrow> string" where
  "normalizeBootstrapPublicKey norm_key publicKey =
     (let trimmed = js_trim publicKey in
      if trimmed = [] then []
      else if sublist ''BEGIN'' trimmed \<or> list_ex (\<lambda>c. c \<in> set ''+/='') trimmed then js_or_else (norm_key trimmed) trimmed
      else trimmed)"

definition loaded_record :: "string \<Rightarrow> bootstrap_record \<Rightarrow> bootstrap_record" where
  "loaded_record tokenKey r =
     (let issuedAtMs = js_or_else (br_issuedAtMs r) 0 in
      \<lparr>br_token = Some (case br_token r of Some t \<Rightarrow> if js_trim t \<noteq> [] then t else tokenKey | None \<Rightarrow> tokenKey),
       br_ts = Some (js_or_else (br_ts r) issuedAtMs), br_deviceId = br_deviceId r, br_publicKey = br_publicKey r,
       br_profile = Some (resolvePersistedBootstrapProfile r), br_redeemedProfile = Some (resolvePersistedRedeemedProfile r),
       br_roles = None, br_scopes = None, br_issuedAtMs = Some issuedAtMs, br_lastUsedAtMs = br_lastUsedAtMs r\<rparr>)"

definition loadBootstrapState :: "ms \<Rightarrow> bootstrap_file \<Rightarrow> bootstrap_file" where
  "loadBootstrapState now file =
     filter (\<lambda>p. \<not> now - js_or_else (br_ts (snd p)) 0 > DEVICE_BOOTSTRAP_TOKEN_TTL_MS)
       (map (\<lambda>(tokenKey, r). (tokenKey, loaded_record tokenKey r)) file)"

text \<open>The record of a token, by the digest of the token it holds.\<close>

definition find_bootstrap :: "(string \<Rightarrow> nat list) \<Rightarrow> string \<Rightarrow> bootstrap_file \<Rightarrow> (string \<times> bootstrap_record) option" where
  "find_bootstrap digest providedToken state =
     List.find (\<lambda>(_, candidate). verifyPairingToken digest providedToken (js_or_else (br_token candidate) [])) state"

definition issueDeviceBootstrapToken ::
  "ms \<Rightarrow> string \<Rightarrow> (string list option \<times> string list option) option \<Rightarrow> string list option \<Rightarrow> string list option \<Rightarrow>
   bootstrap_file \<Rightarrow> (string \<times> ms) \<times> bootstrap_file" where
  "issueDeviceBootstrapToken now token profile roles scopes file =
     (let state = loadBootstrapState now file in
      ((token, now + DEVICE_BOOTSTRAP_TOKEN_TTL_MS),
       jm_set state token
         \<lparr>br_token = Some token, br_ts = Some now, br_deviceId = None, br_publicKey = None,
          br_profile = Some (resolveIssuedBootstrapProfile profile roles scopes),
          br_redeemedProfile = Some (normalizeDeviceBootstrapProfile None), br_roles = None, br_scopes = None,
          br_issuedAtMs = Some now, br_lastUsedAtMs = None\<rparr>))"

definition clearDeviceBootstrapTokens :: "ms \<Rightarrow> bootstrap_file \<Rightarrow> nat \<times> bootstrap_file" where
  "clearDeviceBootstrapTokens now file = (length (loadBootstrapState now file), [])"

definition revokeDeviceBootstrapToken ::
  "(string \<Rightarrow> nat list) \<Rightarrow> ms \<Rightarrow> string \<Rightarrow> bootstrap_file \<Rightarrow> bootstrap_record option \<times> bootstrap_file" where
  "revokeDeviceBootstrapToken digest now token file =
     (let providedToken = js_trim token; state = loadBootstrapState now file in
      if providedToken = [] then (None, file)
      else case find_bootstrap digest providedToken state of
        None \<Rightarrow> (None, file)
      | Some (tokenKey, r) \<Rightarrow> (Some r, jm_delete state tokenKey))"

definition restoreDeviceBootstrapToken :: "ms \<Rightarrow> bootstrap_record \<Rightarrow> bootstrap_file \<Rightarrow> bootstrap_file" where
  "restoreDeviceBootstrapToken now r file = jm_set (loadBootstrapState now file) (js_or_else (br_token r) []) r"

definition getDeviceBootstrapTokenProfile ::
  "(string \<Rightarrow> nat list) \<Rightarrow> ms \<Rightarrow> string \<Rightarrow> bootstrap_file \<Rightarrow> bootstrap_profile option" where
  "getDeviceBootstrapTokenProfile digest now token file =
     (let providedToken = js_trim token in
      if providedToken = [] then None
      else map_option (\<lambda>(_, r). resolvePersistedBootstrapProfile r) (find_bootstrap digest providedToken (loadBootstrapState now file)))"

text \<open>The answer says whether the redemption was recorded and whether the whole profile has been redeemed.\<close>

definition redeemDeviceBootstrapTokenProfile ::
  "(string \<Rightarrow> nat list) \<Rightarrow> ms \<Rightarrow> string \<Rightarrow> string \<Rightarrow> string list \<Rightarrow> bootstrap_file \<Rightarrow> (bool \<times> bool) \<times> bootstrap_file" where
  "redeemDeviceBootstrapTokenProfile digest now token role scopes file =
     (let providedToken = js_trim token; state = loadBootstrapState now file in
      if providedToken = [] then ((False, False), file)
      else case find_bootstrap digest providedToken state of
        None \<Rightarrow> ((False, False), file)
      | Some (tokenKey, r) \<Rightarrow>
        (let issuedProfile = resolvePersistedBootstrapProfile r;
             redeemedProfile = normalizeDeviceBootstrapProfile
               (Some (Some (bp_roles (resolvePersistedRedeemedProfile r) @ [role]),
                      Some (bp_scopes (resolvePersistedRedeemedProfile r) @ resolveBootstrapProfileScopes role scopes)))
         in ((True, bootstrapProfileSatisfiesProfile redeemedProfile issuedProfile),
             jm_set state tokenKey (r\<lparr>br_profile := Some issuedProfile, br_redeemedProfile := Some redeemedProfile\<rparr>))))"

text \<open>The result of a check is \<open>None\<close> when it succeeds, else the reason.\<close>

definition verifyDeviceBootstrapToken ::
  "(string \<Rightarrow> nat list) \<Rightarrow> (string \<Rightarrow> string option) \<Rightarrow> ms \<Rightarrow> string \<Rightarrow> string \<Rightarrow> string \<Rightarrow> string \<Rightarrow> string list \<Rightarrow>
   bootstrap_file \<Rightarrow> string option \<times> bootstrap_file" where
  "verifyDeviceBootstrapToken digest norm_key now token rawDeviceId rawPublicKey rawRole scopes file =
     (let state = loadBootstrapState now file; providedToken = js_trim token; invalid = (Some ''bootstrap_token_invalid'', file) in
      if providedToken = [] then invalid
      else case find_bootstrap digest providedToken state of
        None \<Rightarrow> invalid
      | Some (tokenKey, r) \<Rightarrow>
        (let deviceId = js_trim rawDeviceId; publicKey = normalizeBootstrapPublicKey norm_key rawPublicKey; role = js_trim rawRole;
             allowedProfile = resolvePersistedBootstrapProfile r;
             boundDeviceId = map_option js_trim (br_deviceId r);
             boundPublicKey = map_option (normalizeBootstrapPublicKey norm_key) (br_publicKey r);
             used = r\<lparr>br_profile := Some allowedProfile, br_deviceId := Some deviceId, br_publicKey := Some publicKey,
                      br_lastUsedAtMs := Some now\<rparr>
         in if deviceId = [] \<or> publicKey = [] \<or> role = [] then invalid
            else if bp_roles allowedProfile = [] \<or> \<not> bootstrapProfileAllowsRequest allowedProfile role scopes then invalid
            else if (js_truthy_str boundDeviceId \<or> js_truthy_str boundPublicKey) \<and>
                    (boundDeviceId \<noteq> Some deviceId \<or> boundPublicKey \<noteq> Some publicKey) then invalid
            else (None, jm_set state tokenKey used)))"

definition getBoundDeviceBootstrapProfile ::
  "(string \<Rightarrow> nat list) \<Rightarrow> (string \<Rightarrow> string option) \<Rightarrow> ms \<Rightarrow> string \<Rightarrow> string \<Rightarrow> string \<Rightarrow> bootstrap_file \<Rightarrow> bootstrap_profile option" where
  "getBoundDeviceBootstrapProfile digest norm_key now token rawDeviceId rawPublicKey file =
     (let providedToken = js_trim token in
      if providedToken = [] then None
      else case find_bootstrap digest providedToken (loadBootstrapState now file) of
        None \<Rightarrow> None
      | Some (_, r) \<Rightarrow>
        (let deviceId = js_trim rawDeviceId; publicKey = normalizeBootstrapPublicKey norm_key rawPublicKey;
             recordPublicKey = map_option (normalizeBootstrapPublicKey norm_key) (br_publicKey r)
         in if deviceId = [] \<or> publicKey = [] then None
            else if map_option js_trim (br_deviceId r) \<noteq> Some deviceId \<or> recordPublicKey \<noteq> Some publicKey then None
            else Some (resolvePersistedBootstrapProfile r)))"

end
