(* ===== verification/Gateway_Auth.thy ===== *)
theory Gateway_Auth
  imports Attempt_Serializer Device_Bootstrap
begin

text \<open>
  Who gets into the gateway: \<open>src/gateway/auth.ts\<close>, \<open>src/gateway/origin-check.ts\<close> and
  \<open>src/gateway/server/ws-connection/auth-context.ts\<close>. The rate limiter is the record of \<open>Rate_Limits\<close>; a call
  returns it as it left it. Arguments stand for what is outside: the digest secrets are compared by, the answer of
  \<open>tailscale whois\<close>, and the platform's URL parser (origin, host and host name of a text). A request is its socket's
  address and its headers, by lower-case name.
\<close>

subsection \<open>Data\<close>

record http_request =
  hr_remoteAddress :: "string option"
  hr_headers :: "string \<Rightarrow> header_value option"

datatype auth_mode = AuthNone | AuthToken | AuthPassword | AuthTrustedProxy | AuthUnknown

record trusted_proxy_config =
  tp_userHeader :: string
  tp_requiredHeaders :: "string list option"
  tp_allowUsers :: "string list option"

record resolved_auth =
  ra_mode :: auth_mode
  ra_token :: "string option"
  ra_password :: "string option"
  ra_allowTailscale :: bool
  ra_trustedProxy :: "trusted_proxy_config option"

datatype auth_method =
    ByNone | ByToken | ByPassword | ByTailscale | ByDeviceToken | ByBootstrapToken | ByTrustedProxy

record auth_result =
  ar_ok :: bool
  ar_method :: "auth_method option"
  ar_user :: "string option"
  ar_reason :: "string option"
  ar_rateLimited :: bool
  ar_retryAfterMs :: "ms option"

datatype auth_surface = HttpSurface | ControlUiSurface

record origin_policy =
  op_requestHost :: "string option"
  op_origin :: "string option"
  op_allowedOrigins :: "string list option"
  op_allowHostHeaderOriginFallback :: "bool option"

record whois_identity =
  wi_login :: string
  wi_name :: "string option"

record tailscale_user =
  tu_login :: string
  tu_name :: string
  tu_profilePic :: "string option"

record connect_auth =
  ca_token :: "string option"
  ca_password :: "string option"

record connect_params =
  cp_auth :: resolved_auth
  cp_connectAuth :: "connect_auth option"
  cp_req :: "http_request option"
  cp_trustedProxies :: "string list option"
  cp_authSurface :: "auth_surface option"
  cp_clientIp :: "string option"
  cp_rateLimitScope :: "string option"
  cp_allowRealIpFallback :: "bool option"
  cp_browserOriginPolicy :: "origin_policy option"

record auth_world =
  aw_ip :: ip_lib
  aw_digest :: "string \<Rightarrow> nat list"
  aw_whois :: "string \<Rightarrow> whois_identity option"
  aw_url :: "string \<Rightarrow> (string \<times> string \<times> string) option"

definition AUTH_RATE_LIMIT_SCOPE_SHARED_SECRET :: string where
  "AUTH_RATE_LIMIT_SCOPE_SHARED_SECRET = ''shared-secret''"

definition AUTH_RATE_LIMIT_SCOPE_DEVICE_TOKEN :: string where
  "AUTH_RATE_LIMIT_SCOPE_DEVICE_TOKEN = ''device-token''"

definition granted :: "auth_method \<Rightarrow> string option \<Rightarrow> auth_result" where
  "granted via user = \<lparr>ar_ok = True, ar_method = Some via, ar_user = user, ar_reason = None, ar_rateLimited = False, ar_retryAfterMs = None\<rparr>"

definition denied :: "string \<Rightarrow> auth_result" where
  "denied reason = \<lparr>ar_ok = False, ar_method = None, ar_user = None, ar_reason = Some reason, ar_rateLimited = False, ar_retryAfterMs = None\<rparr>"

definition rate_limited :: "ms \<Rightarrow> auth_result" where
  "rate_limited retryAfterMs = (denied ''rate_limited'')\<lparr>ar_rateLimited := True, ar_retryAfterMs := Some retryAfterMs\<rparr>"

subsection \<open>Requests\<close>

definition header_js :: "header_value option \<Rightarrow> js_value" where
  "header_js v = (case v of None \<Rightarrow> JUndef | Some (OneHeader s) \<Rightarrow> JStr s | Some (HeaderList _) \<Rightarrow> JObject)"

definition header_truthy :: "header_value option \<Rightarrow> bool" where
  "header_truthy v = (case v of None \<Rightarrow> False | Some (OneHeader s) \<Rightarrow> s \<noteq> [] | Some (HeaderList _) \<Rightarrow> True)"

definition incoming :: "http_request \<Rightarrow> incoming_request" where
  "incoming r = \<lparr>rq_remoteAddress = hr_remoteAddress r, rq_forwardedFor = hr_headers r ''x-forwarded-for'',
     rq_realIp = hr_headers r ''x-real-ip''\<rparr>"

definition hasExplicitSharedSecretAuth :: "connect_auth option \<Rightarrow> bool" where
  "hasExplicitSharedSecretAuth connectAuth =
     (js_truthy_str (normalizeOptionalString (js_opt (Option.bind connectAuth ca_token))) \<or>
      js_truthy_str (normalizeOptionalString (js_opt (Option.bind connectAuth ca_password))))"

definition normalizeLogin :: "string \<Rightarrow> string" where
  "normalizeLogin login = normalizeLowercaseStringOrEmpty (JStr login)"

definition TAILSCALE_TRUSTED_PROXIES :: "string list" where
  "TAILSCALE_TRUSTED_PROXIES = [''127.0.0.1'', ''::1'']"

definition resolveTailscaleClientIp :: "ip_lib \<Rightarrow> http_request option \<Rightarrow> string option" where
  "resolveTailscaleClientIp lib req =
     (case req of
        None \<Rightarrow> None
      | Some r \<Rightarrow> resolveClientIp lib (Some (js_or_else (hr_remoteAddress r) [])) (headerValue (hr_headers r ''x-forwarded-for''))
                    None TAILSCALE_TRUSTED_PROXIES False)"

definition isLocalDirectRequest :: "ip_lib \<Rightarrow> http_request option \<Rightarrow> bool" where
  "isLocalDirectRequest lib req =
     (case req of
        None \<Rightarrow> False
      | Some r \<Rightarrow>
        (let hasForwarded = list_ex (\<lambda>h. header_truthy (hr_headers r h))
               [''forwarded'', ''x-forwarded-for'', ''x-forwarded-proto'', ''x-real-ip'', ''x-forwarded-host'']
         in if \<not> hasForwarded then isLoopbackIpAddress lib (hr_remoteAddress r) else False))"

definition getTailscaleUser :: "http_request option \<Rightarrow> tailscale_user option" where
  "getTailscaleUser req =
     (case req of
        None \<Rightarrow> None
      | Some r \<Rightarrow>
        (case normalizeOptionalString (header_js (hr_headers r ''tailscale-user-login'')) of
           None \<Rightarrow> None
         | Some login \<Rightarrow>
             Some \<lparr>tu_login = login,
                   tu_name = js_or_else (normalizeOptionalString (header_js (hr_headers r ''tailscale-user-name''))) login,
                   tu_profilePic = normalizeOptionalString (header_js (hr_headers r ''tailscale-user-profile-pic''))\<rparr>))"

definition hasTailscaleProxyHeaders :: "http_request option \<Rightarrow> bool" where
  "hasTailscaleProxyHeaders req =
     (case req of
        None \<Rightarrow> False
      | Some r \<Rightarrow> list_all (\<lambda>h. header_truthy (hr_headers r h)) [''x-forwarded-for'', ''x-forwarded-proto'', ''x-forwarded-host''])"

definition isTailscaleProxyRequest :: "ip_lib \<Rightarrow> http_request option \<Rightarrow> bool" where
  "isTailscaleProxyRequest lib req =
     (case req of None \<Rightarrow> False | Some r \<Rightarrow> isLoopbackIpAddress lib (hr_remoteAddress r) \<and> hasTailscaleProxyHeaders req)"

definition resolveVerifiedTailscaleUser :: "auth_world \<Rightarrow> http_request option \<Rightarrow> tailscale_user fallible" where
  "resolveVerifiedTailscaleUser w req =
     (case getTailscaleUser req of
        None \<Rightarrow> Inl ''tailscale_user_missing''
      | Some tailscaleUser \<Rightarrow>
        if \<not> isTailscaleProxyRequest (aw_ip w) req then Inl ''tailscale_proxy_missing''
        else case resolveTailscaleClientIp (aw_ip w) req of
          None \<Rightarrow> Inl ''tailscale_whois_failed''
        | Some clientIp \<Rightarrow>
          if clientIp = [] then Inl ''tailscale_whois_failed''
          else case aw_whois w clientIp of
            None \<Rightarrow> Inl ''tailscale_whois_failed''
          | Some whois \<Rightarrow>
            if wi_login whois = [] then Inl ''tailscale_whois_failed''
            else if normalizeLogin (wi_login whois) \<noteq> normalizeLogin (tu_login tailscaleUser) then Inl ''tailscale_user_mismatch''
            else Inr \<lparr>tu_login = wi_login whois, tu_name = js_or_else (wi_name whois) (tu_name tailscaleUser),
                      tu_profilePic = tu_profilePic tailscaleUser\<rparr>)"

text \<open>The argument \<open>secretObject\<close> says that the configured password is an object, not a text. The message for it is
  shortened to its first clause, which ends before a character outside the modelled range.\<close>

definition assertGatewayAuthConfigured :: "resolved_auth \<Rightarrow> bool \<Rightarrow> unit fallible" where
  "assertGatewayAuthConfigured auth secretObject =
     (if ra_mode auth = AuthToken \<and> \<not> js_truthy_str (ra_token auth) then
        (if ra_allowTailscale auth then Inr ()
         else Inl ''gateway auth mode is token, but no token was configured (set gateway.auth.token or OPENCLAW_GATEWAY_TOKEN)'')
      else if ra_mode auth = AuthPassword \<and> \<not> js_truthy_str (ra_password auth) then
        (if secretObject then Inl ''gateway auth mode is password, but gateway.auth.password contains a provider reference object instead of a resolved string''
         else Inl ''gateway auth mode is password, but no password was configured'')
      else if ra_mode auth = AuthTrustedProxy then
        (case ra_trustedProxy auth of
           None \<Rightarrow> Inl ''gateway auth mode is trusted-proxy, but no trustedProxy config was provided (set gateway.auth.trustedProxy)''
         | Some tp \<Rightarrow>
           if js_trim (tp_userHeader tp) = []
           then Inl ''gateway auth mode is trusted-proxy, but trustedProxy.userHeader is empty (set gateway.auth.trustedProxy.userHeader)''
           else if js_truthy_str (ra_token auth)
           then Inl ''gateway auth mode is trusted-proxy, but a shared token is also configured; remove gateway.auth.token / OPENCLAW_GATEWAY_TOKEN because trusted-proxy and token auth are mutually exclusive''
           else Inr ())
      else Inr ())"

subsection \<open>Trusted proxies\<close>

text \<open>The user the proxy vouches for, or the reason.\<close>

definition missing_header :: "http_request \<Rightarrow> string \<Rightarrow> bool" where
  "missing_header r header =
     (case headerValue (hr_headers r (normalizeLowercaseStringOrEmpty (JStr header))) of
        None \<Rightarrow> True
      | Some v \<Rightarrow> js_trim v = [])"

definition authorizeTrustedProxy :: "ip_lib \<Rightarrow> http_request option \<Rightarrow> string list \<Rightarrow> trusted_proxy_config \<Rightarrow> string fallible" where
  "authorizeTrustedProxy lib req trustedProxies config =
     (case req of
        None \<Rightarrow> Inl ''trusted_proxy_no_request''
      | Some r \<Rightarrow>
        (let remoteAddr = hr_remoteAddress r in
         if \<not> js_truthy_str remoteAddr \<or> \<not> isTrustedProxyAddress lib remoteAddr trustedProxies
         then Inl ''trusted_proxy_untrusted_source''
         else if isLoopbackIpAddress lib remoteAddr then Inl ''trusted_proxy_loopback_source''
         else case List.find (missing_header r) (js_or_else (tp_requiredHeaders config) []) of
           Some header \<Rightarrow> Inl (''trusted_proxy_missing_header_'' @ header)
         | None \<Rightarrow>
           if missing_header r (tp_userHeader config) then Inl ''trusted_proxy_user_missing''
           else let user = js_trim (js_or_else (headerValue (hr_headers r (normalizeLowercaseStringOrEmpty (JStr (tp_userHeader config))))) []);
                    allowUsers = js_or_else (tp_allowUsers config) []
             in if allowUsers \<noteq> [] \<and> user \<notin> set allowUsers then Inl ''trusted_proxy_user_not_allowed'' else Inr user))"

definition shouldAllowTailscaleHeaderAuth :: "auth_surface \<Rightarrow> bool" where
  "shouldAllowTailscaleHeaderAuth surface = (surface = ControlUiSurface)"

definition parseOrigin :: "auth_world \<Rightarrow> string option \<Rightarrow> (string \<times> string \<times> string) option" where
  "parseOrigin w originRaw =
     (let trimmed = js_trim (js_or_else originRaw []) in
      if trimmed = [] \<or> trimmed = ''null'' then None
      else map_option (\<lambda>(origin, host, hostname).
        (normalizeLowercaseStringOrEmpty (JStr origin), normalizeLowercaseStringOrEmpty (JStr host),
         normalizeLowercaseStringOrEmpty (JStr hostname))) (aw_url w trimmed))"

datatype origin_match = OriginAllowlist | OriginHostHeader | OriginLocalLoopback

definition checkBrowserOrigin ::
  "auth_world \<Rightarrow> string option \<Rightarrow> string option \<Rightarrow> string list option \<Rightarrow> bool option \<Rightarrow> bool \<Rightarrow> origin_match fallible" where
  "checkBrowserOrigin w requestHostRaw originRaw allowedOrigins allowHostHeaderOriginFallback isLocalClient =
     (case parseOrigin w originRaw of
        None \<Rightarrow> Inl ''origin missing or invalid''
      | Some (origin, host, hostname) \<Rightarrow>
        (let allowlist = List.map_filter (\<lambda>v. normalizeOptionalLowercaseString (JStr v)) (js_or_else allowedOrigins []);
             requestHost = normalizeHostHeader requestHostRaw
         in if ''*'' \<in> set allowlist \<or> origin \<in> set allowlist then Inr OriginAllowlist
            else if allowHostHeaderOriginFallback = Some True \<and> requestHost \<noteq> [] \<and> host = requestHost then Inr OriginHostHeader
            else if isLocalClient \<and> isLoopbackHost (aw_ip w) hostname then Inr OriginLocalLoopback
            else Inl ''origin not allowed''))"

definition authorizeTrustedProxyBrowserOrigin :: "auth_world \<Rightarrow> auth_surface \<Rightarrow> origin_policy option \<Rightarrow> auth_result option" where
  "authorizeTrustedProxyBrowserOrigin w surface policy =
     (if surface \<noteq> HttpSurface then None
      else let origin = map_option js_trim (Option.bind policy op_origin) in
        if \<not> js_truthy_str origin then None
        else case checkBrowserOrigin w (Option.bind policy op_requestHost) origin (Option.bind policy op_allowedOrigins)
                    (Option.bind policy op_allowHostHeaderOriginFallback) False of
          Inr _ \<Rightarrow> None
        | Inl _ \<Rightarrow> Some (denied ''trusted_proxy_origin_not_allowed''))"

subsection \<open>Shared secrets\<close>

definition limiter_failure :: "auth_world \<Rightarrow> ms \<Rightarrow> string option \<Rightarrow> string \<Rightarrow> auth_limiter option \<Rightarrow> auth_limiter option" where
  "limiter_failure w now ip scope limiter = map_option (recordFailure (aw_ip w) now ip (Some scope)) limiter"

definition limiter_reset :: "auth_world \<Rightarrow> string option \<Rightarrow> string \<Rightarrow> auth_limiter option \<Rightarrow> auth_limiter option" where
  "limiter_reset w ip scope limiter = map_option (resetAuthLimit (aw_ip w) ip (Some scope)) limiter"

definition authorizeTokenAuth ::
  "auth_world \<Rightarrow> ms \<Rightarrow> string option \<Rightarrow> string option \<Rightarrow> string option \<Rightarrow> string \<Rightarrow> auth_limiter option \<Rightarrow> auth_result \<times> auth_limiter option" where
  "authorizeTokenAuth w now authToken connectToken ip scope limiter =
     (if \<not> js_truthy_str authToken then (denied ''token_missing_config'', limiter)
      else if \<not> js_truthy_str connectToken then (denied ''token_missing'', limiter)
      else if \<not> safeEqualSecret (aw_digest w) connectToken authToken
      then (denied ''token_mismatch'', limiter_failure w now ip scope limiter)
      else (granted ByToken None, limiter_reset w ip scope limiter))"

definition authorizePasswordAuth ::
  "auth_world \<Rightarrow> ms \<Rightarrow> string option \<Rightarrow> string option \<Rightarrow> string option \<Rightarrow> string \<Rightarrow> auth_limiter option \<Rightarrow> auth_result \<times> auth_limiter option" where
  "authorizePasswordAuth w now authPassword password ip scope limiter =
     (if \<not> js_truthy_str authPassword then (denied ''password_missing_config'', limiter)
      else if \<not> js_truthy_str password then (denied ''password_missing'', limiter)
      else if \<not> safeEqualSecret (aw_digest w) password authPassword
      then (denied ''password_mismatch'', limiter_failure w now ip scope limiter)
      else (granted ByPassword None, limiter_reset w ip scope limiter))"

definition connect_ip :: "auth_world \<Rightarrow> connect_params \<Rightarrow> string option" where
  "connect_ip w p =
     js_alt (cp_clientIp p)
       (js_alt (resolveRequestClientIp (aw_ip w) (map_option incoming (cp_req p)) (js_or_else (cp_trustedProxies p) [])
                  (cp_allowRealIpFallback p = Some True))
               (Option.bind (cp_req p) hr_remoteAddress))"

definition connect_scope :: "connect_params \<Rightarrow> string" where
  "connect_scope p = js_or_else (cp_rateLimitScope p) AUTH_RATE_LIMIT_SCOPE_SHARED_SECRET"

text \<open>The key under which a login is serialized, when it may wait for Tailscale while the limiter is in use.\<close>

definition serialization_key :: "auth_world \<Rightarrow> connect_params \<Rightarrow> auth_limiter option \<Rightarrow> string option" where
  "serialization_key w p limiter =
     (if limiter \<noteq> None \<and> shouldAllowTailscaleHeaderAuth (js_or_else (cp_authSurface p) HttpSurface) \<and> ra_allowTailscale (cp_auth p) \<and>
         \<not> isLocalDirectRequest (aw_ip w) (cp_req p)
      then Some (buildSerializationKey (aw_ip w) (connect_ip w p) (Some (connect_scope p))) else None)"

definition trusted_proxy_connect :: "auth_world \<Rightarrow> connect_params \<Rightarrow> auth_result" where
  "trusted_proxy_connect w p =
     (case ra_trustedProxy (cp_auth p) of
        None \<Rightarrow> denied ''trusted_proxy_config_missing''
      | Some config \<Rightarrow>
        if js_or_else (cp_trustedProxies p) [] = [] then denied ''trusted_proxy_no_proxies_configured''
        else case authorizeTrustedProxy (aw_ip w) (cp_req p) (js_or_else (cp_trustedProxies p) []) config of
          Inl reason \<Rightarrow> denied reason
        | Inr user \<Rightarrow>
          (case authorizeTrustedProxyBrowserOrigin w (js_or_else (cp_authSurface p) HttpSurface) (cp_browserOriginPolicy p) of
             Some originResult \<Rightarrow> originResult
           | None \<Rightarrow> granted ByTrustedProxy (Some user)))"

text \<open>After the check of the limiter: a Tailscale login when nothing explicit was sent, else the shared secret.\<close>

definition authorize_credentials ::
  "auth_world \<Rightarrow> ms \<Rightarrow> connect_params \<Rightarrow> auth_limiter option \<Rightarrow> auth_result \<times> auth_limiter option" where
  "authorize_credentials w now p limiter =
     (let auth = cp_auth p; ip = connect_ip w p; scope = connect_scope p;
          tailscale = (if shouldAllowTailscaleHeaderAuth (js_or_else (cp_authSurface p) HttpSurface) \<and> ra_allowTailscale auth \<and>
                          \<not> isLocalDirectRequest (aw_ip w) (cp_req p) \<and> \<not> hasExplicitSharedSecretAuth (cp_connectAuth p)
                       then resolveVerifiedTailscaleUser w (cp_req p) else Inl [])
      in case tailscale of
           Inr user \<Rightarrow> (granted ByTailscale (Some (tu_login user)), limiter_reset w ip scope limiter)
         | Inl _ \<Rightarrow>
           (case ra_mode auth of
              AuthToken \<Rightarrow> authorizeTokenAuth w now (ra_token auth) (Option.bind (cp_connectAuth p) ca_token) ip scope limiter
            | AuthPassword \<Rightarrow> authorizePasswordAuth w now (ra_password auth) (Option.bind (cp_connectAuth p) ca_password) ip scope limiter
            | _ \<Rightarrow> (denied ''unauthorized'', limiter_failure w now ip scope limiter)))"

definition authorizeGatewayConnect ::
  "auth_world \<Rightarrow> ms \<Rightarrow> connect_params \<Rightarrow> auth_limiter option \<Rightarrow> auth_result \<times> auth_limiter option" where
  "authorizeGatewayConnect w now p limiter =
     (if ra_mode (cp_auth p) = AuthTrustedProxy then (trusted_proxy_connect w p, limiter)
      else if ra_mode (cp_auth p) = AuthNone then (granted ByNone None, limiter)
      else case limiter of
        None \<Rightarrow> authorize_credentials w now p None
      | Some l \<Rightarrow>
        (let (check, l') = checkAuthLimit (aw_ip w) now (connect_ip w p) (Some (connect_scope p)) l in
         if \<not> cr_allowed check then (rate_limited (cr_retryAfterMs check), Some l')
         else authorize_credentials w now p (Some l')))"

definition authorizeHttpGatewayConnect ::
  "auth_world \<Rightarrow> ms \<Rightarrow> connect_params \<Rightarrow> auth_limiter option \<Rightarrow> auth_result \<times> auth_limiter option" where
  "authorizeHttpGatewayConnect w now p limiter = authorizeGatewayConnect w now (p\<lparr>cp_authSurface := Some HttpSurface\<rparr>) limiter"

definition authorizeWsControlUiGatewayConnect ::
  "auth_world \<Rightarrow> ms \<Rightarrow> connect_params \<Rightarrow> auth_limiter option \<Rightarrow> auth_result \<times> auth_limiter option" where
  "authorizeWsControlUiGatewayConnect w now p limiter = authorizeGatewayConnect w now (p\<lparr>cp_authSurface := Some ControlUiSurface\<rparr>) limiter"

subsection \<open>The handshake of a connection\<close>

record handshake_auth =
  ha_token :: "string option"
  ha_bootstrapToken :: "string option"
  ha_deviceToken :: "string option"
  ha_password :: "string option"

datatype candidate_source = ExplicitDeviceToken | SharedTokenFallback

record connect_state =
  cs_authResult :: auth_result
  cs_authOk :: bool
  cs_authMethod :: auth_method
  cs_sharedAuthOk :: bool
  cs_sharedAuthProvided :: bool
  cs_bootstrapTokenCandidate :: "string option"
  cs_deviceTokenCandidate :: "string option"
  cs_deviceTokenCandidateSource :: "candidate_source option"

definition resolveSharedConnectAuth :: "handshake_auth option \<Rightarrow> connect_auth option" where
  "resolveSharedConnectAuth connectAuth =
     (let token = normalizeOptionalString (js_opt (Option.bind connectAuth ha_token));
          password = normalizeOptionalString (js_opt (Option.bind connectAuth ha_password))
      in if \<not> js_truthy_str token \<and> \<not> js_truthy_str password then None else Some \<lparr>ca_token = token, ca_password = password\<rparr>)"

definition resolveDeviceTokenCandidate :: "handshake_auth option \<Rightarrow> string option \<times> candidate_source option" where
  "resolveDeviceTokenCandidate connectAuth =
     (case normalizeOptionalString (js_opt (Option.bind connectAuth ha_deviceToken)) of
        Some explicitDeviceToken \<Rightarrow> (Some explicitDeviceToken, Some ExplicitDeviceToken)
      | None \<Rightarrow>
        (case normalizeOptionalString (js_opt (Option.bind connectAuth ha_token)) of
           Some fallbackToken \<Rightarrow> (Some fallbackToken, Some SharedTokenFallback)
         | None \<Rightarrow> (None, None)))"

definition handshake_params ::
  "resolved_auth \<Rightarrow> connect_auth option \<Rightarrow> http_request \<Rightarrow> string list \<Rightarrow> bool \<Rightarrow> string option \<Rightarrow> connect_params" where
  "handshake_params auth connectAuth req trustedProxies allowRealIpFallback clientIp =
     \<lparr>cp_auth = auth, cp_connectAuth = connectAuth, cp_req = Some req, cp_trustedProxies = Some trustedProxies,
      cp_authSurface = None, cp_clientIp = clientIp, cp_rateLimitScope = Some AUTH_RATE_LIMIT_SCOPE_SHARED_SECRET,
      cp_allowRealIpFallback = Some allowRealIpFallback, cp_browserOriginPolicy = None\<rparr>"

text \<open>Without a shared secret the limiter is not used; the second check, of the shared secret alone, never uses it.\<close>

definition resolveConnectAuthState ::
  "auth_world \<Rightarrow> ms \<Rightarrow> resolved_auth \<Rightarrow> handshake_auth option \<Rightarrow> bool \<Rightarrow> http_request \<Rightarrow> string list \<Rightarrow> bool \<Rightarrow> string option \<Rightarrow>
   auth_limiter option \<Rightarrow> connect_state \<times> auth_limiter option" where
  "resolveConnectAuthState w now resolvedAuth connectAuth hasDeviceIdentity req trustedProxies allowRealIpFallback clientIp limiter =
     (let sharedConnectAuth = resolveSharedConnectAuth connectAuth;
          provided = (sharedConnectAuth \<noteq> None);
          (candidate, source) = (if hasDeviceIdentity then resolveDeviceTokenCandidate connectAuth else (None, None));
          (authResult, used) = authorizeWsControlUiGatewayConnect w now
             (handshake_params resolvedAuth sharedConnectAuth req trustedProxies allowRealIpFallback clientIp)
             (if provided then limiter else None);
          sharedResult = (if provided then Some (fst (authorizeHttpGatewayConnect w now
             ((handshake_params (resolvedAuth\<lparr>ra_allowTailscale := False\<rparr>) sharedConnectAuth req trustedProxies allowRealIpFallback clientIp)
                \<lparr>cp_clientIp := None\<rparr>) None)) else None)
      in (\<lparr>cs_authResult = authResult, cs_authOk = ar_ok authResult,
           cs_authMethod = js_or_else (ar_method authResult) (if ra_mode resolvedAuth = AuthPassword then ByPassword else ByToken),
           cs_sharedAuthOk = ((case sharedResult of None \<Rightarrow> False
                               | Some r \<Rightarrow> ar_ok r \<and> (ar_method r = Some ByToken \<or> ar_method r = Some ByPassword)) \<or>
                              (ar_ok authResult \<and> ar_method authResult = Some ByTrustedProxy)),
           cs_sharedAuthProvided = provided,
           cs_bootstrapTokenCandidate = (if hasDeviceIdentity then normalizeOptionalString (js_opt (Option.bind connectAuth ha_bootstrapToken)) else None),
           cs_deviceTokenCandidate = candidate, cs_deviceTokenCandidateSource = source\<rparr>,
          if provided then used else limiter))"

record auth_decision =
  ad_authResult :: auth_result
  ad_authOk :: bool
  ad_authMethod :: auth_method

record gateway_store =
  gs_limiter :: "auth_limiter option"
  gs_bootstrap :: bootstrap_file
  gs_pairing :: pairing_state

text \<open>The bootstrap token first: a valid one decides even when the login has succeeded already.\<close>

definition try_bootstrap ::
  "auth_world \<Rightarrow> (string \<Rightarrow> string option) \<Rightarrow> ms \<Rightarrow> connect_state \<Rightarrow> bool \<Rightarrow> string option \<Rightarrow> string option \<Rightarrow> string \<Rightarrow> string list \<Rightarrow>
   gateway_store \<Rightarrow> auth_decision \<times> gateway_store" where
  "try_bootstrap w norm_key now state hasDeviceIdentity deviceId publicKey role scopes store =
     (let before = \<lparr>ad_authResult = cs_authResult state, ad_authOk = cs_authOk state, ad_authMethod = cs_authMethod state\<rparr> in
      if hasDeviceIdentity \<and> js_truthy_str deviceId \<and> js_truthy_str publicKey \<and> js_truthy_str (cs_bootstrapTokenCandidate state)
      then (let (reason, file) = verifyDeviceBootstrapToken (aw_digest w) norm_key now (the (cs_bootstrapTokenCandidate state))
                   (the deviceId) (the publicKey) role scopes (gs_bootstrap store);
                store' = store\<lparr>gs_bootstrap := file\<rparr>
            in case reason of
                 None \<Rightarrow> (before\<lparr>ad_authOk := True, ad_authMethod := ByBootstrapToken\<rparr>, store')
               | Some r \<Rightarrow> (if \<not> ad_authOk before then before\<lparr>ad_authResult := denied r\<rparr> else before, store'))
      else (before, store))"

text \<open>Then the device's token, under its own scope of the limiter.\<close>

definition try_device_token ::
  "auth_world \<Rightarrow> ms \<Rightarrow> connect_state \<Rightarrow> string \<Rightarrow> string \<Rightarrow> string \<Rightarrow> string list \<Rightarrow> string option \<Rightarrow> auth_decision \<Rightarrow>
   gateway_store \<Rightarrow> auth_decision \<times> gateway_store" where
  "try_device_token w now state deviceId token role scopes clientIp d store =
     (let (check, checked) =
        (case gs_limiter store of
           None \<Rightarrow> (None, None)
         | Some l \<Rightarrow> (let (c, l') = checkAuthLimit (aw_ip w) now clientIp (Some AUTH_RATE_LIMIT_SCOPE_DEVICE_TOKEN) l in (Some c, Some l')))
      in if (case check of None \<Rightarrow> False | Some c \<Rightarrow> \<not> cr_allowed c)
         then (d\<lparr>ad_authResult := rate_limited (cr_retryAfterMs (the check))\<rparr>, store\<lparr>gs_limiter := checked\<rparr>)
         else (let (reason, pairing) = verifyDeviceToken (aw_digest w) now deviceId token role scopes (gs_pairing store) in
               if reason = None
               then (let l1 = limiter_reset w clientIp AUTH_RATE_LIMIT_SCOPE_DEVICE_TOKEN checked;
                         l2 = (if cs_sharedAuthProvided state then limiter_reset w clientIp AUTH_RATE_LIMIT_SCOPE_SHARED_SECRET l1 else l1)
                     in (d\<lparr>ad_authOk := True, ad_authMethod := ByDeviceToken\<rparr>, store\<lparr>gs_limiter := l2, gs_pairing := pairing\<rparr>))
               else (let why = (if cs_deviceTokenCandidateSource state = Some ExplicitDeviceToken then ''device_token_mismatch''
                                else js_or_else (ar_reason (ad_authResult d)) ''device_token_mismatch'')
                     in (d\<lparr>ad_authResult := denied why\<rparr>,
                         store\<lparr>gs_limiter := limiter_failure w now clientIp AUTH_RATE_LIMIT_SCOPE_DEVICE_TOKEN checked,
                               gs_pairing := pairing\<rparr>))))"

definition resolveConnectAuthDecision ::
  "auth_world \<Rightarrow> (string \<Rightarrow> string option) \<Rightarrow> ms \<Rightarrow> connect_state \<Rightarrow> bool \<Rightarrow> string option \<Rightarrow> string option \<Rightarrow> string \<Rightarrow> string list \<Rightarrow>
   string option \<Rightarrow> gateway_store \<Rightarrow> auth_decision \<times> gateway_store" where
  "resolveConnectAuthDecision w norm_key now state hasDeviceIdentity deviceId publicKey role scopes clientIp store =
     (let (d, store1) = try_bootstrap w norm_key now state hasDeviceIdentity deviceId publicKey role scopes store in
      if \<not> hasDeviceIdentity \<or> \<not> js_truthy_str deviceId \<or> ad_authOk d \<or> \<not> js_truthy_str (cs_deviceTokenCandidate state)
      then (d, store1)
      else try_device_token w now state (the deviceId) (the (cs_deviceTokenCandidate state)) role scopes clientIp d store1)"

end
