(* ===== verification/Gateway_Request.thy ===== *)
theory Gateway_Request
  imports Gateway_Auth
begin

text \<open>
  From a request to its handler: \<open>authorizeGatewayMethod\<close> and \<open>handleGatewayRequest\<close> of \<open>src/gateway/server-methods.ts\<close>, and
  \<open>src/gateway/control-plane-audit.ts\<close>. The handlers themselves are not modelled: the tables are arguments, and
  a request ends in an error response or in the call of a handler. A table is a JavaScript object, so a name that is not its
  own may be a member every object inherits.
\<close>

record connect_info =
  ci_role :: "string option"
  ci_scopes :: "string list option"
  ci_clientId :: js_value

record request_client = gateway_client +
  rc_connect :: "connect_info option"

record gateway_error =
  ge_code :: string
  ge_message :: string
  ge_retryable :: "bool option"
  ge_retryAfterMs :: "ms option"

definition errorShape :: "string \<Rightarrow> string \<Rightarrow> (bool \<times> ms) option \<Rightarrow> gateway_error" where
  "errorShape code message retry =
     \<lparr>ge_code = code, ge_message = message, ge_retryable = map_option fst retry, ge_retryAfterMs = map_option snd retry\<rparr>"

subsection \<open>The actor of a control-plane write\<close>

record control_plane_actor =
  pa_actor :: string
  pa_deviceId :: string
  pa_clientIp :: string
  pa_connId :: string

definition resolveControlPlaneActor :: "request_client option \<Rightarrow> control_plane_actor" where
  "resolveControlPlaneActor client =
     (let part = (\<lambda>field fallback. normalizePart (case client of None \<Rightarrow> JUndef | Some c \<Rightarrow> field c) fallback) in
      \<lparr>pa_actor = part (\<lambda>c. case rc_connect c of None \<Rightarrow> JUndef | Some ci \<Rightarrow> ci_clientId ci) ''unknown-actor'',
       pa_deviceId = part gc_deviceId ''unknown-device'', pa_clientIp = part gc_clientIp ''unknown-ip'',
       pa_connId = part gc_connId ''unknown-conn''\<rparr>)"

definition formatControlPlaneActor :: "control_plane_actor \<Rightarrow> string" where
  "formatControlPlaneActor a =
     ''actor='' @ pa_actor a @ '' device='' @ pa_deviceId a @ '' ip='' @ pa_clientIp a @ '' conn='' @ pa_connId a"

definition summarizeChangedPaths :: "string list \<Rightarrow> nat \<Rightarrow> string" where
  "summarizeChangedPaths paths maxPaths =
     (if paths = [] then ''<none>''
      else if length paths \<le> maxPaths then js_join '','' paths
      else js_join '','' (take maxPaths paths) @ '',+'' @ js_show_nat (length paths - maxPaths) @ '' more'')"

subsection \<open>Authorisation of a method\<close>

definition role_text :: "gateway_role \<Rightarrow> string" where
  "role_text r = (case r of OperatorRole \<Rightarrow> ''operator'' | NodeRole \<Rightarrow> ''node'')"

definition authorizeGatewayMethod :: "(string \<Rightarrow> string option) \<Rightarrow> string \<Rightarrow> request_client option \<Rightarrow> gateway_error option" where
  "authorizeGatewayMethod plugins method client =
     (case Option.bind client rc_connect of
        None \<Rightarrow> None
      | Some connect \<Rightarrow>
        if method = ''health'' then None
        else let roleRaw = js_or_else (ci_role connect) ''operator''; scopes = js_or_else (ci_scopes connect) [] in
          case parseGatewayRole (JStr roleRaw) of
            None \<Rightarrow> Some (errorShape ''INVALID_REQUEST'' (''unauthorized role: '' @ roleRaw) None)
          | Some role \<Rightarrow>
            if \<not> isRoleAuthorizedForMethod role method
            then Some (errorShape ''INVALID_REQUEST'' (''unauthorized role: '' @ role_text role) None)
            else if role = NodeRole then None
            else if ADMIN_SCOPE \<in> set scopes then None
            else (case authorizeOperatorScopesForMethod plugins method scopes of
                    None \<Rightarrow> None
                  | Some missingScope \<Rightarrow> Some (errorShape ''INVALID_REQUEST'' (''missing scope: '' @ missingScope) None)))"

subsection \<open>Dispatch\<close>

definition CONTROL_PLANE_WRITE_METHODS :: "string list" where
  "CONTROL_PLANE_WRITE_METHODS = [''config.apply'', ''config.patch'', ''update.run'']"

text \<open>The members that every object inherits; \<open>__proto__\<close> is one that cannot be called.\<close>

definition OBJECT_MEMBERS :: "string list" where
  "OBJECT_MEMBERS = [''constructor'', ''__defineGetter__'', ''__defineSetter__'', ''hasOwnProperty'', ''__lookupGetter__'',
     ''__lookupSetter__'', ''isPrototypeOf'', ''propertyIsEnumerable'', ''toString'', ''valueOf'', ''__proto__'', ''toLocaleString'']"

datatype 'h handler = OwnHandler 'h | InheritedMember string

definition member_of :: "(string \<Rightarrow> 'h option) \<Rightarrow> string \<Rightarrow> 'h handler option" where
  "member_of table name =
     (case table name of
        Some h \<Rightarrow> Some (OwnHandler h)
      | None \<Rightarrow> if name \<in> set OBJECT_MEMBERS then Some (InheritedMember name) else None)"

datatype 'h request_outcome = Rejected gateway_error | Invoked "'h handler"

record gateway_context =
  gx_unavailable :: "string list option"
  gx_buckets :: "(string, plane_bucket) js_map"
  gx_warnings :: "string list"

definition budget_refusal :: "string \<Rightarrow> ms \<Rightarrow> gateway_error" where
  "budget_refusal method retryAfterMs =
     errorShape ''UNAVAILABLE''
       (''rate limit exceeded for '' @ method @ ''; retry after '' @ js_show_int \<lceil>rat_of_int retryAfterMs / 1000\<rceil> @ ''s'')
       (Some (True, retryAfterMs))"

definition budget_warning :: "string \<Rightarrow> request_client option \<Rightarrow> ms \<Rightarrow> string \<Rightarrow> string" where
  "budget_warning method client retryAfterMs key =
     ''control-plane write rate-limited method='' @ method @ '' '' @ formatControlPlaneActor (resolveControlPlaneActor client) @
     '' retryAfterMs='' @ js_show_int retryAfterMs @ '' key='' @ key"

definition dispatch_request ::
  "(string \<Rightarrow> 'h option) option \<Rightarrow> (string \<Rightarrow> 'h option) \<Rightarrow> string \<Rightarrow> 'h request_outcome" where
  "dispatch_request extraHandlers coreHandlers method =
     (case js_alt (Option.bind extraHandlers (\<lambda>table. member_of table method)) (member_of coreHandlers method) of
        None \<Rightarrow> Rejected (errorShape ''INVALID_REQUEST'' (''unknown method: '' @ method) None)
      | Some handler \<Rightarrow> Invoked handler)"

definition handleGatewayRequest ::
  "(string \<Rightarrow> string option) \<Rightarrow> ms \<Rightarrow> (string \<Rightarrow> 'h option) option \<Rightarrow> (string \<Rightarrow> 'h option) \<Rightarrow> string \<Rightarrow> request_client option \<Rightarrow>
   gateway_context \<Rightarrow> 'h request_outcome \<times> gateway_context" where
  "handleGatewayRequest plugins now extraHandlers coreHandlers method client context =
     (case authorizeGatewayMethod plugins method client of
        Some authError \<Rightarrow> (Rejected authError, context)
      | None \<Rightarrow>
        if method \<in> set (js_or_else (gx_unavailable context) [])
        then (Rejected (errorShape ''UNAVAILABLE'' (method @ '' unavailable during gateway startup'') (Some (True, 500))), context)
        else if method \<in> set CONTROL_PLANE_WRITE_METHODS
        then (let ((budget, key), buckets) =
                consumeControlPlaneWriteBudget now (map_option gateway_client.truncate client) (gx_buckets context) in
              if \<not> cr_allowed budget
              then (Rejected (budget_refusal method (cr_retryAfterMs budget)),
                    context\<lparr>gx_buckets := buckets,
                            gx_warnings := gx_warnings context @ [budget_warning method client (cr_retryAfterMs budget) key]\<rparr>)
              else (dispatch_request extraHandlers coreHandlers method, context\<lparr>gx_buckets := buckets\<rparr>))
        else (dispatch_request extraHandlers coreHandlers method, context))"

end
