(* ===== verification/Device_Pairing_Facts.thy ===== *)
theory Device_Pairing_Facts
  imports Device_Pairing
begin

text \<open>
  Facts about scopes and pairing: what it takes for granted scopes to cover a requested one, which operations
  can widen what a device may do, and the invariant that ties a device's tokens to its approved roles. The
  operations on the two files are collected in one type, so that a history of the gateway is a list of calls.
\<close>

subsection \<open>Scope sets\<close>

lemma trim_image_idem: "js_trim ` (js_trim ` X - {[]}) - {[]} = js_trim ` X - {[]}"
proof -
  have "x \<in> js_trim ` (js_trim ` X - {[]})" if "x \<in> js_trim ` X - {[]}" for x
    using that by (intro image_eqI [of _ _ x]) auto
  then show ?thesis by auto
qed

lemma set_normalizeScopeList: "set (normalizeScopeList ss) = js_trim ` set ss - {[]}"
  by (auto simp: normalizeScopeList_def)

lemma operator_scopes_prefixed:
  "prefix OPERATOR_SCOPE_PREFIX ADMIN_SCOPE" "prefix OPERATOR_SCOPE_PREFIX READ_SCOPE" "prefix OPERATOR_SCOPE_PREFIX WRITE_SCOPE"
  by (simp_all add: OPERATOR_SCOPE_PREFIX_def scope_defs)

lemma operator_scopes_distinct:
  "ADMIN_SCOPE \<noteq> READ_SCOPE" "ADMIN_SCOPE \<noteq> WRITE_SCOPE" "READ_SCOPE \<noteq> WRITE_SCOPE"
  "READ_SCOPE \<noteq> ADMIN_SCOPE" "WRITE_SCOPE \<noteq> ADMIN_SCOPE" "WRITE_SCOPE \<noteq> READ_SCOPE"
  by (simp_all add: scope_defs)

text \<open>A requested scope needs one of the scopes that imply it.\<close>

definition implied_by :: "string \<Rightarrow> string set" where
  "implied_by s = {s, ADMIN_SCOPE} \<union> (if s = READ_SCOPE then {WRITE_SCOPE} else {})"

lemma satisfied_iff:
  "operatorScopeSatisfied s granted \<longleftrightarrow> prefix OPERATOR_SCOPE_PREFIX s \<and> implied_by s \<inter> granted \<noteq> {}"
  by (auto simp: operatorScopeSatisfied_def implied_by_def)

lemma implied_by_prefixed: "prefix OPERATOR_SCOPE_PREFIX s \<Longrightarrow> t \<in> implied_by s \<Longrightarrow> prefix OPERATOR_SCOPE_PREFIX t"
  using operator_scopes_prefixed by (auto simp: implied_by_def split: if_splits)

lemma implied_by_trans: "t \<in> implied_by s \<Longrightarrow> u \<in> implied_by t \<Longrightarrow> u \<in> implied_by s"
  using operator_scopes_distinct by (auto simp: implied_by_def split: if_splits)

lemma satisfied_union: "operatorScopeSatisfied s (A \<union> B) \<longleftrightarrow> operatorScopeSatisfied s A \<or> operatorScopeSatisfied s B"
  by (auto simp: satisfied_iff)

lemma satisfied_mono: "operatorScopeSatisfied s A \<Longrightarrow> A \<subseteq> B \<Longrightarrow> operatorScopeSatisfied s B"
  by (auto simp: satisfied_iff)

lemma satisfied_trans:
  assumes "operatorScopeSatisfied s A" and "\<And>a. a \<in> A \<Longrightarrow> prefix OPERATOR_SCOPE_PREFIX a \<Longrightarrow> operatorScopeSatisfied a B"
  shows "operatorScopeSatisfied s B"
proof -
  from assms(1) obtain t where t: "prefix OPERATOR_SCOPE_PREFIX s" "t \<in> implied_by s" "t \<in> A" by (auto simp: satisfied_iff)
  with assms(2) [of t] implied_by_prefixed obtain u where "u \<in> implied_by t" "u \<in> B" by (auto simp: satisfied_iff)
  with t implied_by_trans show ?thesis by (auto simp: satisfied_iff)
qed

text \<open>What the scopes of a device are worth does not depend on the implied scopes being written out.\<close>

lemma set_normalizeDeviceAuthScopes:
  "set (normalizeDeviceAuthScopes (Some ss)) =
     set (normalizeScopeList ss) \<union>
     (if ADMIN_SCOPE \<in> set (normalizeScopeList ss) then {READ_SCOPE, WRITE_SCOPE}
      else if WRITE_SCOPE \<in> set (normalizeScopeList ss) then {READ_SCOPE} else {})"
proof -
  have "set (filter (\<lambda>s. s \<noteq> []) (map js_trim ss)) = set (normalizeScopeList ss)" by (simp add: normalizeScopeList_def)
  then show ?thesis by (simp only: normalizeDeviceAuthScopes_def option.case Let_def set_sort js_unique_set set_append if_distrib list.set Un_insert_right Un_empty_right) simp
qed

lemma satisfied_auth_scopes:
  "operatorScopeSatisfied s (set (normalizeDeviceAuthScopes (Some ss))) \<longleftrightarrow>
   operatorScopeSatisfied s (set (normalizeScopeList ss))"
proof -
  let ?N = "set (normalizeScopeList ss)"
  have "implied_by s \<inter> set (normalizeDeviceAuthScopes (Some ss)) \<noteq> {} \<longleftrightarrow> implied_by s \<inter> ?N \<noteq> {}"
    using operator_scopes_distinct
    by (cases "ADMIN_SCOPE \<in> ?N"; cases "WRITE_SCOPE \<in> ?N"; cases "s = READ_SCOPE")
      (auto simp: set_normalizeDeviceAuthScopes implied_by_def)
  then show ?thesis by (simp add: satisfied_iff)
qed

text \<open>The covering test, without the loops.\<close>

lemma roleScopesAllow_operator:
  "js_trim role = OPERATOR_ROLE \<Longrightarrow>
   roleScopesAllow role req allowed \<longleftrightarrow> (\<forall>s \<in> set (normalizeScopeList req). operatorScopeSatisfied s (set (normalizeScopeList allowed)))"
  by (auto simp: roleScopesAllow_def Let_def list_all_iff satisfied_iff)

lemma roleScopesAllow_other:
  "js_trim role \<noteq> OPERATOR_ROLE \<Longrightarrow>
   roleScopesAllow role req allowed \<longleftrightarrow>
     (\<forall>s \<in> set (normalizeScopeList req). prefix (js_trim role @ ''.'') s \<and> s \<in> set (normalizeScopeList allowed))"
  by (auto simp: roleScopesAllow_def Let_def list_all_iff)

lemma roleScopesAllow_trans:
  assumes ab: "roleScopesAllow role a b" and bc: "roleScopesAllow role b c"
  shows "roleScopesAllow role a c"
proof (cases "js_trim role = OPERATOR_ROLE")
  case True
  then show ?thesis using ab bc by (auto simp: roleScopesAllow_operator intro: satisfied_trans)
next
  case False
  then show ?thesis using ab bc by (auto simp: roleScopesAllow_other)
qed

lemma normalizeScopeList_idem: "set (normalizeScopeList (normalizeScopeList ss)) = set (normalizeScopeList ss)"
  by (simp only: set_normalizeScopeList trim_image_idem)

lemma trim_operator_scopes: "js_trim ADMIN_SCOPE = ADMIN_SCOPE" "js_trim READ_SCOPE = READ_SCOPE" "js_trim WRITE_SCOPE = WRITE_SCOPE"
  by (simp_all add: scope_defs string_eval)

lemma auth_scopes_normal:
  "set (normalizeScopeList (normalizeDeviceAuthScopes ss)) = set (normalizeDeviceAuthScopes ss)"
proof (cases ss)
  case None
  then show ?thesis by (simp add: normalizeDeviceAuthScopes_def normalizeScopeList_def)
next
  case (Some l)
  have ne: "ADMIN_SCOPE \<noteq> []" "READ_SCOPE \<noteq> []" "WRITE_SCOPE \<noteq> []" by (simp_all add: scope_defs)
  have "\<forall>x \<in> set (normalizeDeviceAuthScopes (Some l)). js_trim x = x \<and> x \<noteq> []"
    using trim_operator_scopes ne
    by (auto simp: set_normalizeDeviceAuthScopes set_normalizeScopeList split: if_splits)
  then show ?thesis unfolding Some set_normalizeScopeList by force
qed

lemma normal_scope: "a \<in> set (normalizeScopeList xs) \<Longrightarrow> js_trim a = a \<and> a \<noteq> []"
  by (auto simp: set_normalizeScopeList)

lemma auth_scope_trim: "a \<in> set (normalizeDeviceAuthScopes ss) \<Longrightarrow> js_trim a = a \<and> a \<noteq> []"
  using normal_scope [of a "normalizeDeviceAuthScopes ss"] by (simp add: auth_scopes_normal)

lemma resolveMissing_None:
  "js_truthy_str (resolveMissingRequestedScope role req allowed) = False \<Longrightarrow> s \<in> set req \<Longrightarrow> s \<noteq> [] \<Longrightarrow>
   (\<And>x. x \<in> set req \<Longrightarrow> x \<noteq> []) \<Longrightarrow> roleScopesAllow role [s] allowed"
  by (cases "resolveMissingRequestedScope role req allowed")
    (auto simp: resolveMissingRequestedScope_def js_truthy_str_def find_None_all dest: find_Some_set)

subsection \<open>Roles and scopes that are merged\<close>

lemma set_trimmed_items: "set (trimmed_items items) = js_trim ` (\<Union>i \<in> set items. set (js_or_else i [])) - {[]}"
  by (auto simp: trimmed_items_def set_normalizeScopeList)

lemma set_mergeRoles: "set (js_or_else (mergeRoles items) []) = set (trimmed_items items)"
  by (simp add: mergeRoles_def Let_def)

lemma set_mergeScopes: "set (js_or_else (mergeScopes items) []) = set (trimmed_items items)"
  by (simp add: mergeScopes_def Let_def)

lemma mergeScopes_None: "mergeScopes items = None \<Longrightarrow> trimmed_items items = []"
  by (auto simp: mergeScopes_def Let_def split: if_splits)

lemma trimmed_Cons: "set (trimmed_items (i # is)) = set (normalizeScopeList (js_or_else i [])) \<union> set (trimmed_items is)"
  by (auto simp: set_trimmed_items set_normalizeScopeList)

lemma trimmed_Nil: "trimmed_items [] = []"
  by (simp add: trimmed_items_def normalizeScopeList_def js_unique_def)

lemma trimmed_trimmed: "set (normalizeScopeList (trimmed_items items)) = set (trimmed_items items)"
  by (simp add: trimmed_items_def normalizeScopeList_idem)

text \<open>What a baseline is worth after scopes were merged into it.\<close>

lemma satisfied_merged:
  "operatorScopeSatisfied s (set (normalizeScopeList (js_or_else (mergeScopes items) []))) \<longleftrightarrow>
   (\<exists>i \<in> set items. operatorScopeSatisfied s (set (normalizeScopeList (js_or_else i []))))"
proof -
  have *: "set (normalizeScopeList (js_or_else (mergeScopes items) [])) = set (trimmed_items items)"
    by (simp only: set_normalizeScopeList set_mergeScopes set_trimmed_items trim_image_idem)
  have "operatorScopeSatisfied s (set (trimmed_items items)) \<longleftrightarrow>
     (\<exists>i \<in> set items. operatorScopeSatisfied s (set (normalizeScopeList (js_or_else i []))))"
    by (induction items) (simp_all add: trimmed_Nil trimmed_Cons satisfied_union, simp add: satisfied_iff)
  with * show ?thesis by simp
qed

subsection \<open>Histories\<close>

datatype pairing_call =
    CallRequest string pairing_input
  | CallReject string
  | CallApprove "string \<Rightarrow> string" string "string list option"
  | CallBootstrap "string \<Rightarrow> string" string bootstrap_profile
  | CallRemove string
  | CallMetadata string metadata_patch
  | CallVerify "string \<Rightarrow> nat list" string string string "string list"
  | CallEnsure string string string "string list"
  | CallRotate string string string "string list option"
  | CallRevoke string string
  | CallClear string

fun pairing_step :: "pairing_state \<Rightarrow> ms \<times> pairing_call \<Rightarrow> pairing_state" where
  "pairing_step st (now, CallRequest uuid req) = snd (requestDevicePairing now uuid req st)"
| "pairing_step st (now, CallReject requestId) = snd (rejectDevicePairing now requestId st)"
| "pairing_step st (now, CallApprove mint requestId callerScopes) = snd (approveDevicePairing now mint requestId callerScopes st)"
| "pairing_step st (now, CallBootstrap mint requestId profile) = snd (approveBootstrapDevicePairing now mint requestId profile st)"
| "pairing_step st (now, CallRemove deviceId) = snd (removePairedDevice now deviceId st)"
| "pairing_step st (now, CallMetadata deviceId patch) = updatePairedDeviceMetadata now deviceId patch st"
| "pairing_step st (now, CallVerify digest deviceId token role scopes) = snd (verifyDeviceToken digest now deviceId token role scopes st)"
| "pairing_step st (now, CallEnsure newToken deviceId role scopes) = snd (ensureDeviceToken now newToken deviceId role scopes st)"
| "pairing_step st (now, CallRotate newToken deviceId role scopes) = snd (rotateDeviceToken now newToken deviceId role scopes st)"
| "pairing_step st (now, CallRevoke deviceId role) = snd (revokeDeviceToken now deviceId role st)"
| "pairing_step st (now, CallClear deviceId) = snd (clearDevicePairing now deviceId st)"

definition empty_pairing :: pairing_state where
  "empty_pairing = \<lparr>ps_pending = [], ps_paired = []\<rparr>"

text \<open>
  What an approved device may look like: its key is its trimmed id, and the key of every token is a role the
  device is approved for.
\<close>

definition device_ok :: "string \<Rightarrow> paired_device \<Rightarrow> bool" where
  "device_ok key d \<longleftrightarrow> pd_deviceId d = key \<and> js_trim key = key \<and>
     (\<forall>(role, t) \<in> set (cloneDeviceTokens d). dt_role t = role \<and> role \<in> set (listApprovedPairedDeviceRoles d))"

definition pairing_ok :: "pairing_state \<Rightarrow> bool" where
  "pairing_ok st \<longleftrightarrow>
     (\<forall>(key, p) \<in> set (ps_pending st). pr_requestId p = key \<and> js_trim (pi_deviceId p) = pi_deviceId p) \<and>
     distinct (map fst (ps_pending st)) \<and> distinct (map fst (ps_paired st)) \<and>
     (\<forall>(key, d) \<in> set (ps_paired st). device_ok key d)"

lemmas jm_defs = jm_get_def jm_set_def jm_delete_def

lemma jm_keys_distinct:
  "distinct (map fst m) \<Longrightarrow> distinct (map fst (jm_set m k v))" "distinct (map fst m) \<Longrightarrow> distinct (map fst (jm_delete m k))"
  "distinct (map fst m) \<Longrightarrow> distinct (map fst (filter P m))"
  by (simp_all add: jm_set_def jm_delete_def distinct_update distinct_delete distinct_map_filter)

lemma loadState_simps [simp]: "ps_paired (loadState now st) = ps_paired st"
  by (simp add: loadState_def)

lemma loadState_pending: "x \<in> set (ps_pending (loadState now st)) \<Longrightarrow> x \<in> set (ps_pending st)"
  by (auto simp: loadState_def pruneExpiredPending_def)

lemma pairing_ok_load: "pairing_ok st \<Longrightarrow> pairing_ok (loadState now st)"
  by (auto simp: pairing_ok_def loadState_def pruneExpiredPending_def distinct_map_filter)

lemma pairing_okD:
  "pairing_ok st \<Longrightarrow> jm_get (ps_paired st) key = Some d \<Longrightarrow> device_ok key d"
  "pairing_ok st \<Longrightarrow> jm_get (ps_pending st) key = Some p \<Longrightarrow> pr_requestId p = key \<and> js_trim (pi_deviceId p) = pi_deviceId p"
  by (auto simp: pairing_ok_def dest!: jm_get_mem)

lemma pairing_ok_put_device:
  assumes "pairing_ok st" "device_ok key d"
  shows "pairing_ok (st\<lparr>ps_paired := jm_set (ps_paired st) key d\<rparr>)"
  using assms by (fastforce simp: pairing_ok_def jm_keys_distinct dest!: jm_set_mem)

lemma pairing_ok_delete_device:
  "pairing_ok st \<Longrightarrow> pairing_ok (st\<lparr>ps_paired := jm_delete (ps_paired st) key\<rparr>)"
  by (fastforce simp: pairing_ok_def jm_keys_distinct jm_delete_mem)

lemma pairing_ok_delete_pending:
  "pairing_ok st \<Longrightarrow> pairing_ok (st\<lparr>ps_pending := jm_delete (ps_pending st) key\<rparr>)"
  by (fastforce simp: pairing_ok_def jm_keys_distinct jm_delete_mem)

lemma pairing_ok_put_pending:
  "pairing_ok st \<Longrightarrow> pr_requestId p = key \<Longrightarrow> js_trim (pi_deviceId p) = pi_deviceId p \<Longrightarrow>
   pairing_ok (st\<lparr>ps_pending := jm_set (ps_pending st) key p\<rparr>)"
  by (fastforce simp: pairing_ok_def jm_keys_distinct dest!: jm_set_mem)

lemma device_ok_metadata:
  "device_ok key d \<Longrightarrow> device_ok key (d\<lparr>pd_displayName := a, pd_clientId := b, pd_clientMode := c, pd_remoteIp := e\<rparr>)"
  by (simp add: device_ok_def cloneDeviceTokens_def listApprovedPairedDeviceRoles_def)

lemma device_ok_token:
  assumes "device_ok key d" "dt_role t = role" "role \<in> set (listApprovedPairedDeviceRoles d)"
  shows "device_ok key (d\<lparr>pd_tokens := Some (jm_set (cloneDeviceTokens d) role t)\<rparr>)"
  using assms unfolding device_ok_def
  by (auto simp: cloneDeviceTokens_def listApprovedPairedDeviceRoles_def dest!: jm_set_mem)

lemma pairing_ok_put_token:
  assumes "pairing_ok st" "jm_get (ps_paired st) key = Some d" "dt_role t = role"
    "role \<in> set (listApprovedPairedDeviceRoles d)"
  shows "pairing_ok (put_token st d (cloneDeviceTokens d) role t)"
proof -
  have "device_ok key d" using pairing_okD(1) [OF assms(1,2)] .
  moreover from this have "pd_deviceId d = key" by (simp add: device_ok_def)
  ultimately show ?thesis unfolding put_token_def using assms(1,3,4) by (simp add: device_ok_token pairing_ok_put_device)
qed

subsection \<open>The invariant is kept\<close>

lemma fold_tokens_mem:
  "(role, t) \<in> set (fold (\<lambda>r m. jm_set m r (tok r m)) rs m) \<Longrightarrow> (\<And>r m. dt_role (tok r m) = r) \<Longrightarrow>
   (role \<in> set rs \<and> dt_role t = role) \<or> (role, t) \<in> set m"
proof (induction rs arbitrary: m)
  case (Cons r rs)
  from Cons.IH [of "jm_set m r (tok r m)"] Cons.prems have
    "(role \<in> set rs \<and> dt_role t = role) \<or> (role, t) \<in> set (jm_set m r (tok r m))" by simp
  then show ?case using Cons.prems(2) by (auto dest!: jm_set_mem)
qed simp

lemma approval_token_eq:
  "approval_token now mint pending approvedScopes existing =
     (\<lambda>r m. jm_set m r (buildDeviceAuthToken (mint r) r (resolveApprovedTokenScopes r pending (jm_get m r) approvedScopes existing)
        (jm_get m r) now (if jm_get m r \<noteq> None then Some now else None)))"
  by (intro ext) (simp add: approval_token_def Let_def)

lemma bootstrap_token_eq:
  "bootstrap_token now mint approvedScopes =
     (\<lambda>r m. jm_set m r (buildDeviceAuthToken (mint r) r
        (if r = OPERATOR_ROLE then resolveBootstrapProfileScopesForRole r approvedScopes else [])
        (jm_get m r) now (if jm_get m r \<noteq> None then Some now else None)))"
  by (intro ext) (simp add: bootstrap_token_def Let_def)

lemma token_role [simp]: "dt_role (buildDeviceAuthToken tok r sc ex now rot) = r"
  by (simp add: buildDeviceAuthToken_def)

lemma set_approved_roles:
  "set (listApprovedPairedDeviceRoles d) = set (trimmed_items [pd_roles d, one_role (pd_role d)])"
  by (simp add: listApprovedPairedDeviceRoles_def set_mergeRoles)

lemma merged_roles_kept:
  "set (normalizeScopeList (js_or_else (mergeRoles items) [])) = set (trimmed_items items)"
  by (simp only: set_normalizeScopeList set_mergeRoles set_trimmed_items trim_image_idem)

text \<open>The device an approval writes: old tokens keep their roles, and the roles it was asked for are among its own.\<close>

lemma approved_device_ok:
  assumes "js_trim (pi_deviceId pending) = pi_deviceId pending"
    and ex: "\<And>d. existing = Some d \<Longrightarrow> device_ok key d"
    and toks: "\<And>role t. (role, t) \<in> set tokens \<Longrightarrow>
        (role \<in> set rs \<and> dt_role t = role) \<or> (role, t) \<in> set (js_or_else (Option.bind existing pd_tokens) [])"
    and rs: "set rs \<subseteq> set (trimmed_items items)"
  shows "device_ok (pi_deviceId pending) (approved_device now pending existing
     (mergeRoles ([Option.bind existing pd_roles, one_role (Option.bind existing pd_role)] @ items)) sc tokens)"
    (is "device_ok _ ?d")
proof -
  let ?old = "[Option.bind existing pd_roles, one_role (Option.bind existing pd_role)]"
  have "set (trimmed_items (?old @ items)) \<subseteq> set (listApprovedPairedDeviceRoles ?d)"
    by (simp add: set_approved_roles approved_device_def trimmed_Cons merged_roles_kept)
  moreover have "set (trimmed_items (?old @ items)) = set (trimmed_items ?old) \<union> set (trimmed_items items)"
    by (simp add: trimmed_Cons trimmed_Nil Un_assoc)
  ultimately have sub: "set (trimmed_items ?old) \<subseteq> set (listApprovedPairedDeviceRoles ?d)"
      "set rs \<subseteq> set (listApprovedPairedDeviceRoles ?d)" using rs by auto
  have old: "dt_role t = role \<and> role \<in> set (trimmed_items ?old)"
    if "(role, t) \<in> set (js_or_else (Option.bind existing pd_tokens) [])" for role t
  proof (cases existing)
    case (Some d)
    with ex [OF Some] that show ?thesis by (auto simp: device_ok_def cloneDeviceTokens_def set_approved_roles)
  qed (use that in simp)
  have "dt_role t = role \<and> role \<in> set (listApprovedPairedDeviceRoles ?d)" if "(role, t) \<in> set tokens" for role t
    using toks [OF that] old [of role t] sub by blast
  then show ?thesis using assms(1) by (auto simp: device_ok_def cloneDeviceTokens_def approved_device_def)
qed

lemma resolveRequestedRoles_set: "set (resolveRequestedRoles p) = set (trimmed_items [pi_roles p, one_role (pi_role p)])"
  by (simp add: resolveRequestedRoles_def set_mergeRoles)

lemma finish_approval_ok:
  "pairing_ok st \<Longrightarrow> device_ok (pd_deviceId d) d \<Longrightarrow> pairing_ok (snd (finish_approval requestId d st))"
  using pairing_ok_put_device [OF pairing_ok_delete_pending] by (simp add: finish_approval_def)

lemma approve_ok: "pairing_ok st \<Longrightarrow> pairing_ok (snd (approveDevicePairing now mint requestId callerScopes st))"
proof -
  assume ok: "pairing_ok st"
  let ?st = "loadState now st"
  note ok' = pairing_ok_load [OF ok, of now]
  show ?thesis
  proof (cases "jm_get (ps_pending ?st) requestId")
    case (Some pending)
    let ?ex = "jm_get (ps_paired ?st) (pi_deviceId pending)"
    let ?sc = "mergeScopes [existing_baseline ?ex, pi_scopes pending]"
    have "device_ok (pi_deviceId pending) (approved_device now pending ?ex
       (mergeRoles ([Option.bind ?ex pd_roles, one_role (Option.bind ?ex pd_role)] @ [pi_roles pending, one_role (pi_role pending)]))
       ?sc (fold (approval_token now mint pending ?sc ?ex) (resolveRequestedRoles pending) (js_or_else (Option.bind ?ex pd_tokens) [])))"
    proof (rule approved_device_ok)
      show "js_trim (pi_deviceId pending) = pi_deviceId pending" using pairing_okD(2) [OF ok' Some] by simp
      show "device_ok (pi_deviceId pending) d" if "?ex = Some d" for d using pairing_okD(1) [OF ok' that] .
      show "set (resolveRequestedRoles pending) \<subseteq> set (trimmed_items [pi_roles pending, one_role (pi_role pending)])"
        by (simp add: resolveRequestedRoles_set)
      show "(role \<in> set (resolveRequestedRoles pending) \<and> dt_role t = role) \<or> (role, t) \<in> set (js_or_else (Option.bind ?ex pd_tokens) [])"
        if "(role, t) \<in> set (fold (approval_token now mint pending ?sc ?ex) (resolveRequestedRoles pending) (js_or_else (Option.bind ?ex pd_tokens) []))"
        for role t using fold_tokens_mem [OF that [unfolded approval_token_eq]] by simp
    qed
    moreover have "pd_deviceId (approved_device now pending e r s t) = pi_deviceId pending" for e r s t
      by (simp add: approved_device_def)
    ultimately show ?thesis using Some ok ok'
      by (auto simp: approveDevicePairing_def Let_def split: option.split intro!: finish_approval_ok)
  qed (simp add: approveDevicePairing_def ok)
qed

lemma bootstrap_ok: "pairing_ok st \<Longrightarrow> pairing_ok (snd (approveBootstrapDevicePairing now mint requestId profile st))"
proof -
  assume ok: "pairing_ok st"
  let ?st = "loadState now st"
  let ?roles = "js_or_else (mergeRoles [Some (bp_roles profile)]) []"
  let ?scopes = "normalizeDeviceAuthScopes (Some (bp_scopes profile))"
  note ok' = pairing_ok_load [OF ok, of now]
  show ?thesis
  proof (cases "jm_get (ps_pending ?st) requestId")
    case (Some pending)
    let ?ex = "jm_get (ps_paired ?st) (pi_deviceId pending)"
    let ?sc = "mergeScopes [existing_baseline ?ex, pi_scopes pending, Some ?scopes]"
    have "device_ok (pi_deviceId pending) (approved_device now pending ?ex
       (mergeRoles ([Option.bind ?ex pd_roles, one_role (Option.bind ?ex pd_role)] @
          [pi_roles pending, one_role (pi_role pending), Some ?roles]))
       ?sc (fold (bootstrap_token now mint ?scopes) ?roles (js_or_else (Option.bind ?ex pd_tokens) [])))"
    proof (rule approved_device_ok)
      show "js_trim (pi_deviceId pending) = pi_deviceId pending" using pairing_okD(2) [OF ok' Some] by simp
      show "device_ok (pi_deviceId pending) d" if "?ex = Some d" for d using pairing_okD(1) [OF ok' that] .
      show "set ?roles \<subseteq> set (trimmed_items [pi_roles pending, one_role (pi_role pending), Some ?roles])"
        by (auto simp: trimmed_Cons trimmed_Nil merged_roles_kept set_mergeRoles)
      show "(role \<in> set ?roles \<and> dt_role t = role) \<or> (role, t) \<in> set (js_or_else (Option.bind ?ex pd_tokens) [])"
        if "(role, t) \<in> set (fold (bootstrap_token now mint ?scopes) ?roles (js_or_else (Option.bind ?ex pd_tokens) []))"
        for role t using fold_tokens_mem [OF that [unfolded bootstrap_token_eq]] by simp
    qed
    moreover have "pd_deviceId (approved_device now pending e r s t) = pi_deviceId pending" for e r s t
      by (simp add: approved_device_def)
    ultimately show ?thesis using Some ok ok'
      by (auto simp: approveBootstrapDevicePairing_def Let_def split: option.split intro!: finish_approval_ok)
  qed (simp add: approveBootstrapDevicePairing_def ok)
qed

lemma context_Some:
  "resolveDeviceTokenUpdateContext st deviceId rawRole = Some (device, role, tokens, existing) \<Longrightarrow>
   jm_get (ps_paired st) (js_trim deviceId) = Some device \<and> role \<in> set (listApprovedPairedDeviceRoles device) \<and>
   tokens = cloneDeviceTokens device \<and> existing = jm_get tokens role \<and> normalizeRole (Some rawRole) = Some role"
  by (auto simp: resolveDeviceTokenUpdateContext_def getPairedDeviceFromState_def normalizeDeviceId_def Let_def
      split: option.splits if_splits)

lemma token_entry:
  "Option.bind (pd_tokens d) (\<lambda>ts. jm_get ts role) = Some t \<Longrightarrow> (role, t) \<in> set (cloneDeviceTokens d)"
  by (auto simp: cloneDeviceTokens_def bind_eq_Some_conv dest: jm_get_mem)

lemma pairing_ok_update_token:
  assumes ok: "pairing_ok st" and d: "jm_get (ps_paired st) key = Some d"
    and t: "Option.bind (pd_tokens d) (\<lambda>ts. jm_get ts role) = Some t" and "dt_role t' = dt_role t"
  shows "pairing_ok (put_token st d (cloneDeviceTokens d) role t')"
proof (rule pairing_ok_put_token [OF ok d])
  have "dt_role t = role \<and> role \<in> set (listApprovedPairedDeviceRoles d)"
    using pairing_okD(1) [OF ok d] token_entry [OF t] by (auto simp: device_ok_def)
  then show "dt_role t' = role" "role \<in> set (listApprovedPairedDeviceRoles d)" using assms(4) by auto
qed

lemma fold_delete_pending_ok:
  "pairing_ok (st\<lparr>ps_pending := m\<rparr>) \<Longrightarrow>
   pairing_ok (st\<lparr>ps_pending := fold (\<lambda>e m. jm_delete m (pr_requestId e)) es m\<rparr>)"
proof (induction es arbitrary: m)
  case (Cons e es)
  have "pairing_ok (st\<lparr>ps_pending := jm_delete m (pr_requestId e)\<rparr>)"
    using pairing_ok_delete_pending [OF Cons.prems, of "pr_requestId e"] by simp
  then show ?case using Cons.IH by simp
qed simp

lemma refresh_simps [simp]:
  "pr_requestId (refreshPendingDevicePairingRequest e i r) = pr_requestId e"
  "pi_deviceId (refreshPendingDevicePairingRequest e i r) = pi_deviceId e"
  "pi_silent (refreshPendingDevicePairingRequest e i r) = Some (js_true (pi_silent e) \<and> js_true (pi_silent i))"
  by (simp_all add: refreshPendingDevicePairingRequest_def)

lemma build_simps [simp]:
  "pr_requestId (buildPendingDevicePairingRequest uuid now deviceId isRepair req) = uuid"
  "pi_deviceId (buildPendingDevicePairingRequest uuid now deviceId isRepair req) = deviceId"
  "pi_silent (buildPendingDevicePairingRequest uuid now deviceId isRepair req) = pi_silent req"
  by (simp_all add: buildPendingDevicePairingRequest_def Let_def)

text \<open>A request either refreshes the only open one or replaces all of them; this is its new pending map.\<close>

lemma reconcile_cases:
  "reconcilePendingPairingRequests m es can refresh build =
     (if length es = 1 \<and> can (hd es)
      then ((refresh (hd es), False), jm_set m (pr_requestId (refresh (hd es))) (refresh (hd es)))
      else ((build es, True), jm_set (fold (\<lambda>e m. jm_delete m (pr_requestId e)) es m) (pr_requestId (build es)) (build es)))"
  by (simp add: reconcilePendingPairingRequests_def Let_def)

lemma superseding_simps [simp]:
  "pr_requestId (superseding_request now uuid deviceId isRepair req es) = uuid"
  "pi_deviceId (superseding_request now uuid deviceId isRepair req es) = deviceId"
  "pi_silent (superseding_request now uuid deviceId isRepair req es) = Some (resolveSupersededPendingSilent es (pi_silent req))"
  by (simp_all add: superseding_request_def Let_def)

lemma pending_for_device_mem:
  "p \<in> set (pending_for_device st deviceId) \<longleftrightarrow> p \<in> snd ` set (ps_pending st) \<and> pi_deviceId p = deviceId"
  by (auto simp: pending_for_device_def)

lemma the_only_request: "length es = 1 \<Longrightarrow> hd es \<in> set es"
  by (cases es) auto

lemma request_state:
  "requestDevicePairing now uuid req st =
     (let cur = loadState now st; dev = js_trim (pi_deviceId req); es = pending_for_device cur dev;
          rep = (jm_get (ps_paired cur) dev \<noteq> None);
          p = refreshPendingDevicePairingRequest (hd es) req rep; q = superseding_request now uuid dev rep req es
      in if dev = [] then (Inl ''deviceId required'', st)
         else if length es = 1 \<and> samePendingApprovalSnapshot (hd es) req
         then (Inr (p, False), cur\<lparr>ps_pending := jm_set (ps_pending cur) (pr_requestId (hd es)) p\<rparr>)
         else (Inr (q, True), cur\<lparr>ps_pending := jm_set (fold (\<lambda>e m. jm_delete m (pr_requestId e)) es (ps_pending cur)) uuid q\<rparr>))"
  by (simp add: requestDevicePairing_def normalizeDeviceId_def reconcile_cases Let_def)

lemma request_ok: "pairing_ok st \<Longrightarrow> pairing_ok (snd (requestDevicePairing now uuid req st))"
proof -
  assume ok: "pairing_ok st"
  let ?st = "loadState now st"
  let ?es = "pending_for_device ?st (js_trim (pi_deviceId req))"
  note ok' = pairing_ok_load [OF ok, of now]
  have cleared: "pairing_ok (?st\<lparr>ps_pending := fold (\<lambda>e m. jm_delete m (pr_requestId e)) ?es (ps_pending ?st)\<rparr>)"
    by (rule fold_delete_pending_ok) (simp add: ok')
  have only: "js_trim (pi_deviceId (hd ?es)) = pi_deviceId (hd ?es)" if "length ?es = 1"
    using the_only_request [OF that] by (simp add: pending_for_device_mem)
  have refreshed: "pairing_ok (?st\<lparr>ps_pending := jm_set (ps_pending ?st) (pr_requestId (hd ?es)) (refreshPendingDevicePairingRequest (hd ?es) req rep)\<rparr>)"
    if "length ?es = 1" for rep
    using only [OF that] by (intro pairing_ok_put_pending [OF ok']) simp_all
  have replaced: "pairing_ok (?st\<lparr>ps_pending := jm_set (fold (\<lambda>e m. jm_delete m (pr_requestId e)) ?es (ps_pending ?st)) uuid
      (superseding_request now uuid (js_trim (pi_deviceId req)) rep req ?es)\<rparr>)" for rep
    using pairing_ok_put_pending [OF cleared, of "superseding_request now uuid (js_trim (pi_deviceId req)) rep req ?es"] by simp
  show ?thesis unfolding request_state Let_def using ok refreshed replaced by (auto split: if_splits)
qed

lemma pairing_step_ok: "pairing_ok st \<Longrightarrow> pairing_ok (pairing_step st e)"
proof -
  assume ok: "pairing_ok st"
  obtain now c where e: "e = (now, c)" by (cases e)
  note ok' = pairing_ok_load [OF ok, of now]
  note simps = Let_def normalizeDeviceId_def getPairedDeviceFromState_def
  show ?thesis unfolding e
  proof (cases c)
    case (CallRequest uuid req)
    then show "pairing_ok (pairing_step st (now, c))" by (simp add: request_ok ok)
  next
    case (CallReject requestId)
    then show "pairing_ok (pairing_step st (now, c))"
      using ok by (auto simp: rejectDevicePairing_def Let_def ok' pairing_ok_delete_pending split: option.split)
  next
    case (CallApprove mint requestId callerScopes)
    then show "pairing_ok (pairing_step st (now, c))" by (simp add: approve_ok ok)
  next
    case (CallBootstrap mint requestId profile)
    then show "pairing_ok (pairing_step st (now, c))" by (simp add: bootstrap_ok ok)
  next
    case (CallRemove deviceId)
    then show "pairing_ok (pairing_step st (now, c))" using ok pairing_ok_delete_device [OF ok', of "js_trim deviceId"] by (auto simp: removePairedDevice_def simps)
  next
    case (CallMetadata deviceId patch)
    then show "pairing_ok (pairing_step st (now, c))" using ok
      by (cases "jm_get (ps_paired st) (js_trim deviceId)")
        (simp_all add: updatePairedDeviceMetadata_def simps pairing_ok_put_device [OF ok', simplified] device_ok_metadata pairing_okD(1) [OF ok])
  next
    case (CallVerify digest deviceId token role scopes)
    then show "pairing_ok (pairing_step st (now, c))" using ok
      by (auto simp: verifyDeviceToken_def simps split: option.split intro: pairing_ok_update_token [OF ok'])
  next
    case (CallEnsure newToken deviceId role scopes)
    then show "pairing_ok (pairing_step st (now, c))" using ok
      by (auto simp: ensureDeviceToken_def simps split: option.split dest!: context_Some intro!: pairing_ok_put_token [OF ok'])
  next
    case (CallRotate newToken deviceId role scopes)
    then show "pairing_ok (pairing_step st (now, c))" using ok
      by (auto simp: rotateDeviceToken_def simps split: option.split dest!: context_Some intro!: pairing_ok_put_token [OF ok'])
  next
    case (CallRevoke deviceId role)
    then show "pairing_ok (pairing_step st (now, c))" using ok
      by (auto simp: revokeDeviceToken_def simps split: option.split intro: pairing_ok_update_token [OF ok'])
  next
    case (CallClear deviceId)
    then show "pairing_ok (pairing_step st (now, c))" using ok pairing_ok_delete_device [OF ok', of "js_trim deviceId"]
      by (auto simp: clearDevicePairing_def simps)
  qed
qed

interpretation pairing: step_machine pairing_step "\<lambda>st e. True" pairing_ok
  by unfold_locales (rule pairing_step_ok)

lemma allowed_run_True: "allowed_run pairing_step (\<lambda>st e. True) st es"
  by (induction es arbitrary: st) auto

lemma pairing_history_ok: "pairing_ok (foldl pairing_step empty_pairing es)"
  by (rule pairing.inv_run) (simp_all add: allowed_run_True pairing_ok_def empty_pairing_def)

end
