(* ===== verification/Device_Pairing_Properties.thy ===== *)
theory Device_Pairing_Properties
  imports Device_Pairing_Facts
begin

text \<open>
  What pairing guarantees: a device's token never opens more than somebody who held the scope approved, and a
  device has one open request at a time.
\<close>

subsection \<open>What a device was approved for\<close>

definition device_holds :: "pairing_state \<Rightarrow> string \<Rightarrow> string \<Rightarrow> bool" where
  "device_holds st deviceId s =
     (case jm_get (ps_paired st) deviceId of
        None \<Rightarrow> False
      | Some d \<Rightarrow> operatorScopeSatisfied s (set (js_or_else (resolveApprovedDeviceScopeBaseline d) [])))"

text \<open>The calls that vouch for a scope: the approver held it, or the bootstrap profile has it.\<close>

fun vouches :: "string \<Rightarrow> ms \<times> pairing_call \<Rightarrow> bool" where
  "vouches s (now, CallApprove mint requestId callerScopes) =
     (case callerScopes of None \<Rightarrow> False | Some cs \<Rightarrow> operatorScopeSatisfied s (set (normalizeScopeList cs)))"
| "vouches s (now, CallBootstrap mint requestId profile) = operatorScopeSatisfied s (set (normalizeScopeList (bp_scopes profile)))"
| "vouches s (now, c) = False"










lemma holds_pending [simp]: "device_holds (st\<lparr>ps_pending := m\<rparr>) deviceId s = device_holds st deviceId s"
  by (simp add: device_holds_def)




subsection \<open>Verification of a token\<close>

lemma verified_token:
  assumes "fst (verifyDeviceToken digest now deviceId token rawRole scopes st) = None"
  obtains d role t where "jm_get (ps_paired st) (js_trim deviceId) = Some d" "normalizeRole (Some rawRole) = Some role"
    "(role, t) \<in> set (cloneDeviceTokens d)" "jm_get (cloneDeviceTokens d) role = Some t"
    "\<not> js_truthy_int (dt_revokedAtMs t)" "digest token = digest (dt_token t)"
    "\<exists>baseline. resolveApprovedDeviceScopeBaseline d = Some baseline \<and> roleScopesAllow role (dt_scopes t) baseline"
    "roleScopesAllow role (normalizeDeviceAuthScopes (Some scopes)) (dt_scopes t)"
proof -
  from assms obtain d role t where *: "jm_get (ps_paired st) (js_trim deviceId) = Some d" "normalizeRole (Some rawRole) = Some role"
    "Option.bind (pd_tokens d) (\<lambda>ts. jm_get ts role) = Some t" "\<not> js_truthy_int (dt_revokedAtMs t)"
    "verifyPairingToken digest token (dt_token t)"
    "scopesWithinApprovedDeviceBaseline role (dt_scopes t) (resolveApprovedDeviceScopeBaseline d)"
    "roleScopesAllow role (normalizeDeviceAuthScopes (Some scopes)) (dt_scopes t)"
    by (auto simp: verifyDeviceToken_def Let_def getPairedDeviceFromState_def normalizeDeviceId_def split: option.splits if_splits)
  show thesis
  proof (rule that [OF *(1,2) token_entry [OF *(3)] _ *(4) _ _ *(7)])
    show "jm_get (cloneDeviceTokens d) role = Some t" using *(3) by (auto simp: cloneDeviceTokens_def bind_eq_Some_conv)
    show "digest token = digest (dt_token t)" using *(5) by (simp add: verifyPairingToken_def safeEqualSecret_def split: if_splits)
    show "\<exists>baseline. resolveApprovedDeviceScopeBaseline d = Some baseline \<and> roleScopesAllow role (dt_scopes t) baseline"
      using *(6) by (simp add: scopesWithinApprovedDeviceBaseline_def split: option.splits)
  qed
qed

lemma normalizeRole_trim: "normalizeRole r = Some role \<Longrightarrow> js_trim role = role \<and> role \<noteq> []"
  by (auto simp: normalizeRole_def Let_def split: option.splits if_splits)

lemma token_role_effective:
  assumes ok: "device_ok key d" and t: "(role, t) \<in> set (cloneDeviceTokens d)" "\<not> js_truthy_int (dt_revokedAtMs t)"
    and role: "js_trim role = role" "role \<noteq> []"
  shows "role \<in> set (listEffectivePairedDeviceRoles d)"
proof -
  obtain ts where ts: "pd_tokens d = Some ts" using t(1) by (cases "pd_tokens d") (simp_all add: cloneDeviceTokens_def)
  have m: "(role, t) \<in> set ts" "dt_role t = role" "role \<in> set (listApprovedPairedDeviceRoles d)"
    using ok t(1) by (auto simp: device_ok_def cloneDeviceTokens_def ts)
  let ?active = "map dt_role (filter (\<lambda>t. \<not> js_truthy_int (dt_revokedAtMs t)) (map snd ts))"
  have "t \<in> set (filter (\<lambda>t. \<not> js_truthy_int (dt_revokedAtMs t)) (map snd ts))" using m(1) t(2) by force
  then have "role \<in> set ?active" using m(2) by force
  then have "role \<in> set (js_or_else (mergeRoles [Some ?active]) [])"
    unfolding set_mergeRoles set_trimmed_items using role by (auto intro!: image_eqI [of _ _ role])
  then obtain roles where "mergeRoles [Some ?active] = Some roles" "role \<in> set roles"
    by (cases "mergeRoles [Some ?active]") auto
  then show ?thesis using m(3) ts by (auto simp: listEffectivePairedDeviceRoles_def listActiveTokenRoles_def)
qed

text \<open>In every state the gateway can reach, a token that verifies belongs to a paired device, has not been
  revoked, carries a role that is in effect for the device, has the digest of the stored token, and every scope
  it is used with lies in what the device was approved for.\<close>

theorem verified_token_is_in_effect:
  assumes "fst (verifyDeviceToken digest now deviceId token rawRole scopes (foldl pairing_step empty_pairing calls)) = None"
  shows "\<exists>d t baseline.
     getPairedDevice now deviceId (foldl pairing_step empty_pairing calls) = Some d \<and>
     hasEffectivePairedDeviceRole d rawRole \<and>
     jm_get (cloneDeviceTokens d) (js_trim rawRole) = Some t \<and> \<not> js_truthy_int (dt_revokedAtMs t) \<and>
     digest token = digest (dt_token t) \<and>
     resolveApprovedDeviceScopeBaseline d = Some baseline \<and>
     roleScopesAllow (js_trim rawRole) (normalizeDeviceAuthScopes (Some scopes)) baseline"
proof -
  let ?st = "foldl pairing_step empty_pairing calls"
  from assms obtain d role t where
    d: "jm_get (ps_paired ?st) (js_trim deviceId) = Some d" and role: "normalizeRole (Some rawRole) = Some role"
    and mem: "(role, t) \<in> set (cloneDeviceTokens d)" and t: "jm_get (cloneDeviceTokens d) role = Some t"
    and live: "\<not> js_truthy_int (dt_revokedAtMs t)" and dig: "digest token = digest (dt_token t)"
    and base: "\<exists>baseline. resolveApprovedDeviceScopeBaseline d = Some baseline \<and> roleScopesAllow role (dt_scopes t) baseline"
    and scopes: "roleScopesAllow role (normalizeDeviceAuthScopes (Some scopes)) (dt_scopes t)"
    by (rule verified_token)
  have r: "js_trim rawRole = role" using role by (auto simp: normalizeRole_def Let_def split: if_splits)
  have "device_ok (js_trim deviceId) d" by (rule pairing_okD(1) [OF pairing_history_ok d])
  from token_role_effective [OF this mem live] normalizeRole_trim [OF role]
  have "hasEffectivePairedDeviceRole d rawRole" by (simp add: hasEffectivePairedDeviceRole_def role)
  moreover have "getPairedDevice now deviceId ?st = Some d" using d by (simp add: getPairedDevice_def normalizeDeviceId_def)
  ultimately show ?thesis using t live dig base roleScopesAllow_trans [OF scopes] r by blast
qed



text \<open>Whoever vouches for a scope vouches for what it implies.\<close>

lemma vouches_implied:
  assumes "vouches t call" "t \<in> implied_by s" "prefix OPERATOR_SCOPE_PREFIX s"
  shows "vouches s call"
proof -
  have "operatorScopeSatisfied s A" if "operatorScopeSatisfied t A" for A
    using that assms(2,3) implied_by_trans unfolding satisfied_iff by blast
  then show ?thesis using assms(1) by (cases "(s, call)" rule: vouches.cases) (auto split: option.splits)
qed

subsection \<open>Rotation\<close>

text \<open>Once the token of a role has been rotated, only the new token verifies for that device and role.\<close>

theorem rotation_retires_old_token:
  assumes ok: "pairing_ok st"
    and rot: "rotateDeviceToken now newToken deviceId role rotScopes st = (Inr fresh, st')"
    and ver: "fst (verifyDeviceToken digest later deviceId token role scopes st') = None"
  shows "digest token = digest newToken"
proof -
  from rot obtain d r toks existing where ctx: "resolveDeviceTokenUpdateContext (loadState now st) deviceId role = Some (d, r, toks, existing)"
    and fresh: "dt_token fresh = newToken" and put: "st' = put_token (loadState now st) d toks r fresh"
    by (auto simp: rotateDeviceToken_def Let_def buildDeviceAuthToken_def split: option.splits if_splits)
  have c: "jm_get (ps_paired st) (js_trim deviceId) = Some d" "normalizeRole (Some role) = Some r"
    and st': "st' = put_token (loadState now st) d (cloneDeviceTokens d) r fresh"
    using context_Some [OF ctx] put by auto
  have key: "pd_deviceId d = js_trim deviceId" using pairing_okD(1) [OF ok c(1)] by (simp add: device_ok_def)
  from ver obtain d' r' t where
    v: "jm_get (ps_paired st') (js_trim deviceId) = Some d'" "normalizeRole (Some role) = Some r'"
      "(r', t) \<in> set (cloneDeviceTokens d')" "jm_get (cloneDeviceTokens d') r' = Some t"
      "\<not> js_truthy_int (dt_revokedAtMs t)" "digest token = digest (dt_token t)"
      "\<exists>baseline. resolveApprovedDeviceScopeBaseline d' = Some baseline \<and> roleScopesAllow r' (dt_scopes t) baseline"
      "roleScopesAllow r' (normalizeDeviceAuthScopes (Some scopes)) (dt_scopes t)"
    by (rule verified_token)
  have "d' = d\<lparr>pd_tokens := Some (jm_set (cloneDeviceTokens d) r fresh)\<rparr>"
    using v(1) by (simp add: st' put_token_def key jm_get_set)
  then have "t = fresh" using v(2,4) c(2) by (simp add: cloneDeviceTokens_def jm_get_set)
  then show ?thesis using v(6) fresh by simp
qed

subsection \<open>One open request\<close>

lemma filter_jm_set:
  "distinct (map fst m) \<Longrightarrow> k \<notin> fst ` set m \<Longrightarrow> jm_set m k v = m @ [(k, v)]"
  by (induction m) (auto simp: jm_set_def)

lemma fold_delete_filter:
  "fold (\<lambda>e m. jm_delete m (pr_requestId e)) es m = filter (\<lambda>p. fst p \<notin> pr_requestId ` set es) m"
proof (induction es arbitrary: m)
  case (Cons e es)
  then show ?case by (auto simp: jm_delete_def AList.delete_eq intro!: filter_cong)
qed simp

lemma jm_set_map: "distinct (map fst m) \<Longrightarrow> k \<in> fst ` set m \<Longrightarrow> jm_set m k v = map (\<lambda>p. if fst p = k then (k, v) else p) m"
proof (induction m)
  case (Cons a m)
  show ?case
  proof (cases "fst a = k")
    case True
    then have "map (\<lambda>p. if fst p = k then (k, v) else p) m = m"
      using Cons.prems(1) by (intro map_idI) (force simp: rev_image_eqI)
    then show ?thesis using True by (cases a) (simp add: jm_set_def)
  next
    case False
    then have "jm_set m k v = map (\<lambda>p. if fst p = k then (k, v) else p) m" using Cons by auto
    then show ?thesis using False by (cases a) (simp add: jm_set_def)
  qed
qed simp

lemma pending_key: "pairing_ok st \<Longrightarrow> x \<in> set (ps_pending st) \<Longrightarrow> pr_requestId (snd x) = fst x"
  by (auto simp: pairing_ok_def)

lemma pending_key_unique:
  assumes "pairing_ok st" "x \<in> set (ps_pending st)" "e \<in> snd ` set (ps_pending st)" "fst x = pr_requestId e"
  shows "snd x = e"
proof -
  from assms(3) obtain y where y: "y \<in> set (ps_pending st)" "e = snd y" by blast
  with assms pending_key [of st y] have "fst y = fst x" by simp
  moreover have "distinct (map fst (ps_pending st))" using assms(1) by (simp add: pairing_ok_def)
  ultimately show ?thesis using assms(2) y eq_key_imp_eq_value [of "ps_pending st" "fst x" "snd x" "snd y"] by (metis prod.collapse)
qed

lemma pending_keys_of_device:
  assumes "pairing_ok st" and "x \<in> set (ps_pending st)"
  shows "fst x \<in> pr_requestId ` set (pending_for_device st dev) \<longleftrightarrow> pi_deviceId (snd x) = dev"
proof
  assume "fst x \<in> pr_requestId ` set (pending_for_device st dev)"
  then obtain e where e: "fst x = pr_requestId e" "e \<in> snd ` set (ps_pending st)" "pi_deviceId e = dev"
    by (auto simp only: pending_for_device_mem)
  then show "pi_deviceId (snd x) = dev" using pending_key_unique [OF assms e(2,1)] by simp
next
  assume "pi_deviceId (snd x) = dev"
  then have "snd x \<in> set (pending_for_device st dev)" using assms(2) by (simp add: pending_for_device_mem)
  then show "fst x \<in> pr_requestId ` set (pending_for_device st dev)" using pending_key [OF assms] by (metis imageI)
qed

lemma pending_for_device_single:
  assumes "pairing_ok st" "pending_for_device st dev = [e]"
  shows "filter (\<lambda>x. pi_deviceId (snd x) = dev) (ps_pending st) = [(pr_requestId e, e)]"
proof -
  let ?xs = "filter (\<lambda>x. pi_deviceId (snd x) = dev) (ps_pending st)"
  have s: "sort_key (\<lambda>p. - pr_ts p) (map snd ?xs) = [e]" using assms(2) by (simp add: pending_for_device_def filter_map o_def)
  then have "length ?xs = 1" by (metis length_sort length_map length_Cons list.size(3) One_nat_def)
  then obtain y where y: "?xs = [y]" by (cases ?xs) auto
  then have "y \<in> set (ps_pending st)" by (metis (no_types, lifting) filter_is_subset list.set_intros(1) subsetD)
  then have "pr_requestId (snd y) = fst y" by (rule pending_key [OF assms(1)])
  moreover have "snd y = e" using s y by simp
  ultimately show ?thesis using y by (cases y) simp
qed

text \<open>Refreshing the only open request changes no other entry.\<close>

lemma refreshed_pending:
  assumes ok: "pairing_ok st" and es: "pending_for_device st dev = [e]" and dev: "pi_deviceId p = dev"
  defines "m \<equiv> jm_set (ps_pending st) (pr_requestId e) p"
  shows "filter (\<lambda>q. pi_deviceId q = dev) (map snd m) = [p]"
    and "filter (\<lambda>q. pi_deviceId q \<noteq> dev) (map snd m) = filter (\<lambda>q. pi_deviceId q \<noteq> dev) (map snd (ps_pending st))"
proof -
  let ?f = "\<lambda>x. if fst x = pr_requestId e then (pr_requestId e, p) else x"
  have e: "e \<in> snd ` set (ps_pending st)" "pi_deviceId e = dev" using pending_for_device_mem [of e st dev] es by auto
  have "pr_requestId e \<in> fst ` set (ps_pending st)" using e(1) pending_key [OF ok] by force
  then have m: "m = map ?f (ps_pending st)" using ok by (simp add: m_def jm_set_map pairing_ok_def)
  have same: "pi_deviceId (snd (?f x)) = pi_deviceId (snd x)" if "x \<in> set (ps_pending st)" for x
    using pending_key_unique [OF ok that e(1)] dev e(2) by auto
  have fm: "filter (\<lambda>q. P (pi_deviceId q)) (map snd m) = map (\<lambda>x. snd (?f x)) (filter (\<lambda>x. P (pi_deviceId (snd x))) (ps_pending st))" for P
    unfolding m filter_map map_map o_def using same by (intro arg_cong [of _ _ "map _"] filter_cong) auto
  show "filter (\<lambda>q. pi_deviceId q = dev) (map snd m) = [p]"
    using fm [of "\<lambda>d. d = dev"] pending_for_device_single [OF ok es] by simp
  have other: "?f x = x" if "x \<in> set (filter (\<lambda>x. pi_deviceId (snd x) \<noteq> dev) (ps_pending st))" for x
    using that pending_key_unique [OF ok _ e(1), of x] e(2) by auto
  have "map (\<lambda>x. snd (?f x)) (filter (\<lambda>x. pi_deviceId (snd x) \<noteq> dev) (ps_pending st)) = map snd (filter (\<lambda>x. pi_deviceId (snd x) \<noteq> dev) (ps_pending st))"
    by (rule map_cong [OF refl]) (simp only: other)
  then show "filter (\<lambda>q. pi_deviceId q \<noteq> dev) (map snd m) = filter (\<lambda>q. pi_deviceId q \<noteq> dev) (map snd (ps_pending st))"
    using fm [of "\<lambda>d. d \<noteq> dev"] by (simp add: filter_map o_def)
qed

lemma replaced_pending:
  assumes ok: "pairing_ok st" and fresh: "uuid \<notin> fst ` set (ps_pending st)"
  shows "jm_set (fold (\<lambda>e m. jm_delete m (pr_requestId e)) (pending_for_device st dev) (ps_pending st)) uuid q =
     filter (\<lambda>x. pi_deviceId (snd x) \<noteq> dev) (ps_pending st) @ [(uuid, q)]"
proof -
  have "fold (\<lambda>e m. jm_delete m (pr_requestId e)) (pending_for_device st dev) (ps_pending st) =
     filter (\<lambda>x. pi_deviceId (snd x) \<noteq> dev) (ps_pending st)"
    unfolding fold_delete_filter using pending_keys_of_device [OF ok] by (intro filter_cong) auto
  moreover have "distinct (map fst (ps_pending st))" using ok by (simp add: pairing_ok_def)
  ultimately show ?thesis using fresh by (simp add: filter_jm_set distinct_map_filter image_iff)
qed

text \<open>After a device has asked to be paired, it has exactly one open request, the one returned; the requests of the
  other devices are as they were. The request may be approved silently only when this and all requests it
  supersedes were silent.\<close>

theorem one_open_request:
  assumes ok: "pairing_ok st" and fresh: "uuid \<notin> fst ` set (ps_pending (loadState now st))"
    and req: "requestDevicePairing now uuid req st = (Inr (p, created), st')"
  shows "filter (\<lambda>q. pi_deviceId q = js_trim (pi_deviceId req)) (map snd (ps_pending st')) = [p] \<and>
     filter (\<lambda>q. pi_deviceId q \<noteq> js_trim (pi_deviceId req)) (map snd (ps_pending st')) =
       filter (\<lambda>q. pi_deviceId q \<noteq> js_trim (pi_deviceId req)) (map snd (ps_pending (loadState now st))) \<and>
     (js_true (pi_silent p) \<longleftrightarrow>
       js_true (pi_silent req) \<and>
       list_all (\<lambda>q. js_true (pi_silent q)) (pending_for_device (loadState now st) (js_trim (pi_deviceId req))))"
proof -
  let ?cur = "loadState now st" and ?dev = "js_trim (pi_deviceId req)"
  let ?es = "pending_for_device ?cur ?dev"
  have ok': "pairing_ok ?cur" by (rule pairing_ok_load [OF ok])
  show ?thesis
  proof (cases "length ?es = 1 \<and> samePendingApprovalSnapshot (hd ?es) req")
    case True
    then obtain e where es: "?es = [e]" by (cases ?es) auto
    then have "pi_deviceId e = ?dev" using pending_for_device_mem [of e ?cur ?dev] by simp
    moreover have p: "p = refreshPendingDevicePairingRequest e req (jm_get (ps_paired ?cur) ?dev \<noteq> None)"
        and st': "ps_pending st' = jm_set (ps_pending ?cur) (pr_requestId e) p"
      using req True es by (auto simp: request_state Let_def split: if_splits)
    ultimately have "pi_deviceId p = ?dev" by simp
    from refreshed_pending [OF ok' es this] show ?thesis unfolding st' es using p by (auto simp: js_true_def)
  next
    case False
    then have p: "p = superseding_request now uuid ?dev (jm_get (ps_paired ?cur) ?dev \<noteq> None) req ?es"
        and st': "ps_pending st' = filter (\<lambda>x. pi_deviceId (snd x) \<noteq> ?dev) (ps_pending ?cur) @ [(uuid, p)]"
      using req replaced_pending [OF ok' fresh] by (auto simp: request_state Let_def split: if_splits)
    have "filter (\<lambda>x. pi_deviceId (snd x) = ?dev) (filter (\<lambda>x. pi_deviceId (snd x) \<noteq> ?dev) (ps_pending ?cur)) = []"
      by (simp add: filter_empty_conv)
    with p show ?thesis unfolding st' by (simp add: filter_map o_def resolveSupersededPendingSilent_def js_true_def)
  qed
qed

subsection \<open>Methods and scopes\<close>

lemma fold_set_mem: "jm_get (fold (\<lambda>(k, v) m. jm_set m k v) xs m) k = Some v \<Longrightarrow> v \<in> snd ` set xs \<or> jm_get m k = Some v"
  by (induction xs arbitrary: m) (fastforce simp: jm_get_set split: if_splits)+

lemma jm_get_fold: "jm_get (fold (\<lambda>(k, v) m. jm_set m k v) xs m) k = (case map_of (rev xs) k of Some v \<Rightarrow> Some v | None \<Rightarrow> jm_get m k)"
proof (induction xs arbitrary: m)
  case (Cons x xs)
  then show ?case by (cases x) (auto simp: jm_get_set map_add_def map_of_append split: option.split)
qed simp

lemma sessions_list_scope: "jm_get METHOD_SCOPE_BY_NAME ''sessions.list'' = Some READ_SCOPE"
  unfolding METHOD_SCOPE_BY_NAME_def jm_get_fold METHOD_SCOPE_GROUPS_def by (simp add: jm_get_def)

lemma operator_scope_values:
  "s \<in> fst ` set METHOD_SCOPE_GROUPS \<Longrightarrow> prefix OPERATOR_SCOPE_PREFIX s \<and> js_trim s = s"
  by (auto simp: METHOD_SCOPE_GROUPS_def scope_defs OPERATOR_SCOPE_PREFIX_def string_eval)

lemma classified_scope:
  assumes "jm_get METHOD_SCOPE_BY_NAME method = Some s"
  shows "s \<in> fst ` set METHOD_SCOPE_GROUPS"
proof -
  have "s \<in> snd ` set (concat (map (\<lambda>(scope, methods). map (\<lambda>method. (method, scope)) methods) METHOD_SCOPE_GROUPS))"
    using fold_set_mem [OF assms [unfolded METHOD_SCOPE_BY_NAME_def]] by (simp add: jm_get_def)
  then show ?thesis by force
qed

text \<open>The scope a call needs, when the scopes of plug-ins are operator scopes.\<close>

lemma required_scope:
  fixes plugins :: "string \<Rightarrow> string option" and meth :: string
  assumes "\<And>m s. plugins m = Some s \<Longrightarrow> s \<noteq> [] \<Longrightarrow> prefix OPERATOR_SCOPE_PREFIX s \<and> js_trim s = s"
  defines "r \<equiv> js_or_else (resolveRequiredOperatorScopeForMethod plugins meth) ADMIN_SCOPE"
  shows "prefix OPERATOR_SCOPE_PREFIX r \<and> js_trim r = r"
proof (cases "jm_get METHOD_SCOPE_BY_NAME meth")
  case (Some s)
  then show ?thesis using operator_scope_values [OF classified_scope [OF Some]]
    by (simp add: r_def resolveRequiredOperatorScopeForMethod_def resolveScopedMethod_def)
next
  case None
  then show ?thesis using assms(1) [of meth] operator_scopes_prefixed(1) trim_operator_scopes(1)
    by (auto simp: r_def resolveRequiredOperatorScopeForMethod_def resolveScopedMethod_def resolveReservedGatewayMethodScope_def
        js_truthy_str_def split: option.splits)
qed

text \<open>The check of a gateway call and the check of a device's token agree: a call is allowed exactly when the scopes
  cover the method's scope, or administration for a method without one; and the scope that a refusal
  names is one that would have sufficed.\<close>

theorem method_check_is_scope_coverage:
  assumes plugins: "\<And>m s. plugins m = Some s \<Longrightarrow> s \<noteq> [] \<Longrightarrow> prefix OPERATOR_SCOPE_PREFIX s \<and> js_trim s = s"
    and trimmed: "\<And>s. s \<in> set scopes \<Longrightarrow> js_trim s = s"
  shows "(authorizeOperatorScopesForMethod plugins method scopes = None \<longleftrightarrow>
      roleScopesAllow ''operator'' [js_or_else (resolveRequiredOperatorScopeForMethod plugins method) ADMIN_SCOPE] scopes) \<and>
    (\<forall>missing. authorizeOperatorScopesForMethod plugins method scopes = Some missing \<longrightarrow>
      authorizeOperatorScopesForMethod plugins method (missing # scopes) = None)"
proof -
  let ?r = "js_or_else (resolveRequiredOperatorScopeForMethod plugins method) ADMIN_SCOPE"
  have r: "prefix OPERATOR_SCOPE_PREFIX ?r" "js_trim ?r = ?r" using required_scope [OF plugins] by auto
  then have ne: "?r \<noteq> []" by (auto simp: OPERATOR_SCOPE_PREFIX_def)
  have nes: "ADMIN_SCOPE \<noteq> []" "READ_SCOPE \<noteq> []" "WRITE_SCOPE \<noteq> []" by (simp_all add: scope_defs)
  have scopes: "set (normalizeScopeList scopes) = set scopes - {[]}"
    using trimmed by (auto simp: set_normalizeScopeList image_iff)
  have op: "js_trim ''operator'' = OPERATOR_ROLE" by (simp add: OPERATOR_ROLE_def string_eval)
  have one: "set (normalizeScopeList [?r]) = {?r}" using ne r(2) by (simp add: set_normalizeScopeList)
  have "roleScopesAllow ''operator'' [?r] scopes \<longleftrightarrow> operatorScopeSatisfied ?r (set scopes - {[]})"
    by (simp add: roleScopesAllow_operator [OF op] scopes one)
  also have "\<dots> \<longleftrightarrow> implied_by ?r \<inter> set scopes \<noteq> {}"
    using r(1) nes ne by (auto simp: satisfied_iff implied_by_def)
  also have "\<dots> \<longleftrightarrow> authorizeOperatorScopesForMethod plugins method scopes = None"
    by (auto simp: authorizeOperatorScopesForMethod_def Let_def implied_by_def)
  finally show ?thesis by (auto simp: authorizeOperatorScopesForMethod_def Let_def split: if_splits)
qed

subsection \<open>Examples\<close>

definition sample_request :: pairing_input where
  "sample_request = \<lparr>pi_deviceId = ''d'', pi_publicKey = ''k'', pi_displayName = None, pi_platform = None, pi_deviceFamily = None,
     pi_clientId = None, pi_clientMode = None, pi_role = Some ''operator'', pi_roles = None, pi_scopes = Some [''operator.read''],
     pi_remoteIp = None, pi_silent = None\<rparr>"

definition sample_history :: "(ms \<times> pairing_call) list" where
  "sample_history = [(1, CallRequest ''r'' sample_request), (2, CallApprove (\<lambda>role. ''t'') ''r'' (Some [''operator.write'']))]"

definition sample_digest :: "string \<Rightarrow> nat list" where
  "sample_digest s = map js_code s"

lemma sample_verified:
  "fst (verifyDeviceToken sample_digest 3 ''d'' ''t'' ''operator'' [''operator.read''] (foldl pairing_step empty_pairing sample_history)) = None"
  by code_simp

lemma empty_pairing_ok: "pairing_ok empty_pairing"
  by (simp add: pairing_ok_def empty_pairing_def)

theorem verified_token_is_in_effect_witness:
  "\<exists>d t baseline.
     getPairedDevice 3 ''d'' (foldl pairing_step empty_pairing sample_history) = Some d \<and>
     hasEffectivePairedDeviceRole d ''operator'' \<and>
     jm_get (cloneDeviceTokens d) (js_trim ''operator'') = Some t \<and> \<not> js_truthy_int (dt_revokedAtMs t) \<and>
     sample_digest ''t'' = sample_digest (dt_token t) \<and>
     resolveApprovedDeviceScopeBaseline d = Some baseline \<and>
     roleScopesAllow (js_trim ''operator'') (normalizeDeviceAuthScopes (Some [''operator.read''])) baseline"
  by (rule verified_token_is_in_effect [OF sample_verified])


definition sample_rotated :: "(rotate_deny + device_token) \<times> pairing_state" where
  "sample_rotated = rotateDeviceToken 4 ''u'' ''d'' ''operator'' None (foldl pairing_step empty_pairing sample_history)"

theorem rotation_retires_old_token_witness:
  "fst (verifyDeviceToken sample_digest 5 ''d'' ''u'' ''operator'' [] (snd sample_rotated)) = None \<and>
   fst (verifyDeviceToken sample_digest 5 ''d'' ''t'' ''operator'' [] (snd sample_rotated)) \<noteq> None"
proof -
  obtain fresh where "fst sample_rotated = Inr fresh"
    by (cases "fst sample_rotated") (use in \<open>code_simp\<close>)
  then have rot: "rotateDeviceToken 4 ''u'' ''d'' ''operator'' None (foldl pairing_step empty_pairing sample_history) = (Inr fresh, snd sample_rotated)"
    by (metis prod.collapse sample_rotated_def)
  have "sample_digest ''t'' \<noteq> sample_digest ''u''" by code_simp
  then have "fst (verifyDeviceToken sample_digest 5 ''d'' ''t'' ''operator'' [] (snd sample_rotated)) \<noteq> None"
    using rotation_retires_old_token [OF pairing_history_ok rot] by blast
  moreover have "fst (verifyDeviceToken sample_digest 5 ''d'' ''u'' ''operator'' [] (snd sample_rotated)) = None" by code_simp
  ultimately show ?thesis by blast
qed

definition sample_asked :: "(pending_request \<times> bool) fallible \<times> pairing_state" where
  "sample_asked = requestDevicePairing 1 ''r'' sample_request empty_pairing"

theorem one_open_request_witness:
  "length (filter (\<lambda>q. pi_deviceId q = ''d'') (map snd (ps_pending (snd sample_asked)))) = 1"
proof -
  have "\<not> isl (fst sample_asked)" by code_simp
  then obtain p created where "fst sample_asked = Inr (p, created)" by (cases "fst sample_asked") auto
  then have req: "requestDevicePairing 1 ''r'' sample_request empty_pairing = (Inr (p, created), snd sample_asked)"
    by (metis prod.collapse sample_asked_def)
  have dev: "js_trim (pi_deviceId sample_request) = ''d''" by code_simp
  have "''r'' \<notin> fst ` set (ps_pending (loadState 1 empty_pairing))" by code_simp
  from one_open_request [OF empty_pairing_ok this req] show ?thesis by (simp add: dev)
qed

theorem method_check_is_scope_coverage_witness:
  "authorizeOperatorScopesForMethod (\<lambda>m. None) ''sessions.list'' [''operator.write''] = None \<longleftrightarrow>
   roleScopesAllow ''operator'' [js_or_else (resolveRequiredOperatorScopeForMethod (\<lambda>m. None) ''sessions.list'') ADMIN_SCOPE] [''operator.write'']"
proof -
  have "js_trim ''operator.write'' = ''operator.write''" by code_simp
  then show ?thesis
    using method_check_is_scope_coverage [of "\<lambda>m. None" "[''operator.write'']" "''sessions.list''"] by simp
qed

end
