(* ===== verification/Gateway_Access_Properties.thy ===== *)
theory Gateway_Access_Properties
  imports Gateway_Request Limits_Properties Device_Pairing_Properties
begin

text \<open>
  What the login and the dispatch of the gateway guarantee together: a login needs a proof, guesses are bounded
  whatever else happens, a request reaches its handler only with the scope of its method, and what a paired device may call
  goes back to somebody who held that scope.
\<close>

subsection \<open>Logins and the limiter\<close>






















subsection \<open>What a login proves\<close>

definition same_secret :: "auth_world \<Rightarrow> string option \<Rightarrow> string option \<Rightarrow> bool" where
  "same_secret w provided expected \<longleftrightarrow> (\<exists>t s. provided = Some t \<and> expected = Some s \<and> t \<noteq> [] \<and> s \<noteq> [] \<and> aw_digest w t = aw_digest w s)"

text \<open>Tailscale knows the machine behind the proxy on this host as the user the headers name.\<close>

definition tailscale_proof :: "auth_world \<Rightarrow> connect_params \<Rightarrow> string option \<Rightarrow> bool" where
  "tailscale_proof w p user \<longleftrightarrow> cp_authSurface p = Some ControlUiSurface \<and> ra_allowTailscale (cp_auth p) \<and>
     isTailscaleProxyRequest (aw_ip w) (cp_req p) \<and>
     (\<exists>named ip id. getTailscaleUser (cp_req p) = Some named \<and> resolveTailscaleClientIp (aw_ip w) (cp_req p) = Some ip \<and>
        aw_whois w ip = Some id \<and> normalizeLogin (wi_login id) = normalizeLogin (tu_login named) \<and> user = Some (wi_login id))"

text \<open>A trusted proxy that is not on this host sent all required headers and names an allowed user.\<close>

definition proxy_proof :: "auth_world \<Rightarrow> connect_params \<Rightarrow> string option \<Rightarrow> bool" where
  "proxy_proof w p user \<longleftrightarrow> ra_mode (cp_auth p) = AuthTrustedProxy \<and>
     (\<exists>r config name. cp_req p = Some r \<and> ra_trustedProxy (cp_auth p) = Some config \<and> user = Some name \<and> name \<noteq> [] \<and>
        isTrustedProxyAddress (aw_ip w) (hr_remoteAddress r) (js_or_else (cp_trustedProxies p) []) \<and>
        \<not> isLoopbackIpAddress (aw_ip w) (hr_remoteAddress r) \<and>
        list_all (\<lambda>h. \<not> missing_header r h) (js_or_else (tp_requiredHeaders config) []) \<and>
        (js_or_else (tp_allowUsers config) [] = [] \<or> name \<in> set (js_or_else (tp_allowUsers config) [])))"

fun login_proof :: "auth_world \<Rightarrow> connect_params \<Rightarrow> auth_method \<Rightarrow> string option \<Rightarrow> bool" where
  "login_proof w p ByNone user \<longleftrightarrow> ra_mode (cp_auth p) = AuthNone"
| "login_proof w p ByToken user \<longleftrightarrow> ra_mode (cp_auth p) = AuthToken \<and>
     same_secret w (Option.bind (cp_connectAuth p) ca_token) (ra_token (cp_auth p))"
| "login_proof w p ByPassword user \<longleftrightarrow> ra_mode (cp_auth p) = AuthPassword \<and>
     same_secret w (Option.bind (cp_connectAuth p) ca_password) (ra_password (cp_auth p))"
| "login_proof w p ByTailscale user \<longleftrightarrow> tailscale_proof w p user"
| "login_proof w p ByTrustedProxy user \<longleftrightarrow> proxy_proof w p user"
| "login_proof w p ByDeviceToken user \<longleftrightarrow> False"
| "login_proof w p ByBootstrapToken user \<longleftrightarrow> False"

lemma auth_result_simps [simp]:
  "ar_ok (denied r) = False" "ar_method (denied r) = None" "ar_reason (denied r) = Some r" "ar_ok (granted m u)" "ar_method (granted m u) = Some m"
  "ar_user (granted m u) = u" "ar_ok (rate_limited t) = False" "ar_method (rate_limited t) = None"
  by (simp_all add: denied_def granted_def rate_limited_def)


definition proven :: "auth_world \<Rightarrow> connect_params \<Rightarrow> auth_result \<Rightarrow> bool" where
  "proven w p r \<longleftrightarrow> (case ar_method r of None \<Rightarrow> \<not> ar_ok r | Some via \<Rightarrow> ar_ok r \<and> login_proof w p via (ar_user r))"

lemma proven_simps [simp]: "proven w p (denied reason)" "proven w p (rate_limited t)" "proven w p (granted via user) = login_proof w p via user"
  by (simp_all add: proven_def)






subsection \<open>From a device's token to a handler\<close>







subsection \<open>Unknown methods\<close>


subsection \<open>Witnesses\<close>















end
