(* ===== verification/Device_Bootstrap_Properties.thy ===== *)
theory Device_Bootstrap_Properties
  imports Device_Bootstrap Device_Pairing_Properties
begin

text \<open>
  A bootstrap token serves one device: once it has verified for a device and its key, it verifies for no other,
  through any sequence of operations that does not issue or restore it again.
\<close>

datatype bootstrap_call =
    BootIssue string "(string list option \<times> string list option) option" "string list option" "string list option"
  | BootClear
  | BootRevoke string
  | BootRestore bootstrap_record
  | BootRedeem string string "string list"
  | BootVerify string string string string "string list"

fun bootstrap_step ::
  "(string \<Rightarrow> nat list) \<Rightarrow> (string \<Rightarrow> string option) \<Rightarrow> bootstrap_file \<Rightarrow> ms \<times> bootstrap_call \<Rightarrow> bootstrap_file" where
  "bootstrap_step digest norm_key file (now, BootIssue token profile roles scopes) = snd (issueDeviceBootstrapToken now token profile roles scopes file)"
| "bootstrap_step digest norm_key file (now, BootClear) = snd (clearDeviceBootstrapTokens now file)"
| "bootstrap_step digest norm_key file (now, BootRevoke token) = snd (revokeDeviceBootstrapToken digest now token file)"
| "bootstrap_step digest norm_key file (now, BootRestore r) = restoreDeviceBootstrapToken now r file"
| "bootstrap_step digest norm_key file (now, BootRedeem token role scopes) = snd (redeemDeviceBootstrapTokenProfile digest now token role scopes file)"
| "bootstrap_step digest norm_key file (now, BootVerify token dev key role scopes) =
     snd (verifyDeviceBootstrapToken digest norm_key now token dev key role scopes file)"

text \<open>The token a record is found by, once it has been loaded.\<close>

definition token_of :: "string \<Rightarrow> bootstrap_record \<Rightarrow> string" where
  "token_of k r = (case br_token r of Some t \<Rightarrow> if js_trim t \<noteq> [] then t else k | None \<Rightarrow> k)"

definition opens :: "(string \<Rightarrow> nat list) \<Rightarrow> string \<Rightarrow> string \<times> bootstrap_record \<Rightarrow> bool" where
  "opens digest token x = verifyPairingToken digest (js_trim token) (token_of (fst x) (snd x))"

text \<open>The calls that do not put the token, or one with its digest, into the file again.\<close>

fun leaves_token :: "(string \<Rightarrow> nat list) \<Rightarrow> string \<Rightarrow> ms \<times> bootstrap_call \<Rightarrow> bool" where
  "leaves_token digest token (now, BootIssue t profile roles scopes) = (digest t \<noteq> digest (js_trim token))"
| "leaves_token digest token (now, BootRestore r) = (\<not> opens digest token (js_or_else (br_token r) [], r))"
| "leaves_token digest token (now, c) = True"

definition bound_to :: "(string \<Rightarrow> string option) \<Rightarrow> string \<Rightarrow> string \<Rightarrow> bootstrap_record \<Rightarrow> bool" where
  "bound_to norm_key dev key r \<longleftrightarrow> map_option js_trim (br_deviceId r) = Some (js_trim dev) \<and>
     map_option (normalizeBootstrapPublicKey norm_key) (br_publicKey r) = Some (normalizeBootstrapPublicKey norm_key key)"

definition token_bound :: "(string \<Rightarrow> nat list) \<Rightarrow> (string \<Rightarrow> string option) \<Rightarrow> string \<Rightarrow> string \<Rightarrow> string \<Rightarrow> bootstrap_file \<Rightarrow> bool" where
  "token_bound digest norm_key token dev key file \<longleftrightarrow> jm_wf file \<and>
     (\<forall>x \<in> set file. opens digest token x \<longrightarrow> bound_to norm_key dev key (snd x))"

lemma loaded_simps [simp]:
  "br_token (loaded_record k r) = Some (token_of k r)" "br_deviceId (loaded_record k r) = br_deviceId r"
  "br_publicKey (loaded_record k r) = br_publicKey r"
  by (simp_all add: loaded_record_def token_of_def Let_def)

lemma token_of_loaded [simp]: "token_of k (loaded_record k r) = token_of k r"
  by (simp add: token_of_def [of _ "loaded_record k r"]) (simp add: token_of_def split: option.split)

lemma load_mem: "x \<in> set (loadBootstrapState now file) \<Longrightarrow> \<exists>r. (fst x, r) \<in> set file \<and> snd x = loaded_record (fst x) r"
  by (auto simp: loadBootstrapState_def)

lemma load_wf: "jm_wf fs \<Longrightarrow> jm_wf (loadBootstrapState now fs)"
proof -
  have "map fst (map (\<lambda>(k, r). (k, loaded_record k r)) fs) = map fst fs" by (induction fs) auto
  then show "jm_wf fs \<Longrightarrow> jm_wf (loadBootstrapState now fs)"
    unfolding jm_wf_def loadBootstrapState_def by (simp add: distinct_map_filter del: map_map)
qed

lemma bound_load: "token_bound digest norm_key token dev key file \<Longrightarrow> token_bound digest norm_key token dev key (loadBootstrapState now file)"
  unfolding token_bound_def by (fastforce simp: load_wf opens_def bound_to_def dest!: load_mem)

lemma jm_set_mem_wf:
  "jm_wf m \<Longrightarrow> x \<in> set (jm_set m k v) \<Longrightarrow> x = (k, v) \<or> (fst x \<noteq> k \<and> x \<in> set m)"
proof (induction m)
  case (Cons a m)
  then show ?case by (cases a) (auto simp: jm_set_def jm_wf_def split: if_splits)
qed (simp add: jm_set_def)

lemma find_bootstrap_Some:
  "find_bootstrap digest t state = Some (k, r) \<Longrightarrow> (k, r) \<in> set state \<and> verifyPairingToken digest t (js_or_else (br_token r) [])"
  by (auto simp: find_bootstrap_def dest: find_Some_set)

lemma found_loaded:
  assumes "find_bootstrap digest (js_trim t) (loadBootstrapState now file) = Some (k, r)"
  shows "(k, r) \<in> set (loadBootstrapState now file)" "opens digest t (k, r)" "br_token r = Some (token_of k r)"
proof -
  have f: "(k, r) \<in> set (loadBootstrapState now file)" "verifyPairingToken digest (js_trim t) (js_or_else (br_token r) [])"
    using find_bootstrap_Some [OF assms] by auto
  then show "(k, r) \<in> set (loadBootstrapState now file)" by simp
  from load_mem [OF f(1)] obtain r0 where "r = loaded_record k r0" by auto
  then show "br_token r = Some (token_of k r)" "opens digest t (k, r)" using f(2) by (simp_all add: opens_def)
qed

text \<open>A record may be replaced when what opens it and what it is bound to stay.\<close>

lemma bound_put:
  assumes "token_bound digest norm_key token dev key m" and "opens digest token (k, r) \<Longrightarrow> bound_to norm_key dev key r"
  shows "token_bound digest norm_key token dev key (jm_set m k r)"
  using assms unfolding token_bound_def by (auto simp: jm.wf_put dest!: jm_set_mem_wf)

lemma bound_delete: "token_bound digest norm_key token dev key m \<Longrightarrow> token_bound digest norm_key token dev key (jm_delete m k)"
  unfolding token_bound_def by (auto simp: jm.wf_del jm_delete_mem)

lemma verified_bootstrap:
  assumes "fst (verifyDeviceBootstrapToken digest norm_key now token dev key role scopes file) = None"
  obtains k r where "find_bootstrap digest (js_trim token) (loadBootstrapState now file) = Some (k, r)"
    "js_trim dev \<noteq> []"
    "(js_truthy_str (map_option js_trim (br_deviceId r)) \<or> js_truthy_str (map_option (normalizeBootstrapPublicKey norm_key) (br_publicKey r))) \<Longrightarrow>
       bound_to norm_key dev key r"
    "snd (verifyDeviceBootstrapToken digest norm_key now token dev key role scopes file) =
       jm_set (loadBootstrapState now file) k
         (r\<lparr>br_profile := Some (resolvePersistedBootstrapProfile r), br_deviceId := Some (js_trim dev),
           br_publicKey := Some (normalizeBootstrapPublicKey norm_key key), br_lastUsedAtMs := Some now\<rparr>)"
  using assms by (auto simp: verifyDeviceBootstrapToken_def Let_def bound_to_def split: option.splits if_splits)

lemma bound_step:
  assumes idem: "\<And>k. normalizeBootstrapPublicKey norm_key (normalizeBootstrapPublicKey norm_key k) = normalizeBootstrapPublicKey norm_key k"
    and dev: "js_trim dev \<noteq> []"
    and bound: "token_bound digest norm_key token dev key fs" and leaves: "leaves_token digest token e"
  shows "token_bound digest norm_key token dev key (bootstrap_step digest norm_key fs e)"
proof -
  obtain now c where e: "e = (now, c)" by (cases e)
  let ?st = "loadBootstrapState now fs"
  have st: "token_bound digest norm_key token dev key ?st" by (rule bound_load [OF bound])
  show ?thesis unfolding e
  proof (cases c)
    case (BootIssue t profile roles scopes)
    then show "token_bound digest norm_key token dev key (bootstrap_step digest norm_key fs (now, c))" using leaves st
      by (auto simp: e issueDeviceBootstrapToken_def Let_def opens_def token_of_def verifyPairingToken_def safeEqualSecret_def
          split: if_splits intro!: bound_put)
  next
    case BootClear
    then show "token_bound digest norm_key token dev key (bootstrap_step digest norm_key fs (now, c))"
      by (simp add: clearDeviceBootstrapTokens_def token_bound_def jm_wf_def)
  next
    case (BootRevoke t)
    then show "token_bound digest norm_key token dev key (bootstrap_step digest norm_key fs (now, c))"
      using bound st by (auto simp: revokeDeviceBootstrapToken_def Let_def intro: bound_delete split: option.split)
  next
    case (BootRestore r)
    then show "token_bound digest norm_key token dev key (bootstrap_step digest norm_key fs (now, c))"
      using leaves st by (auto simp: e restoreDeviceBootstrapToken_def intro!: bound_put)
  next
    case (BootRedeem t role scopes)
    have "bound_to norm_key dev key (r\<lparr>br_profile := p, br_redeemedProfile := q\<rparr>)"
      if "find_bootstrap digest (js_trim t) ?st = Some (k, r)" "opens digest token (k, r\<lparr>br_profile := p, br_redeemedProfile := q\<rparr>)" for k r p q
    proof -
      have "opens digest token (k, r)" using that(2) by (simp add: opens_def token_of_def)
      then have "bound_to norm_key dev key r" using st found_loaded(1) [OF that(1)] by (force simp: token_bound_def)
      then show ?thesis by (simp add: bound_to_def)
    qed
    then show "token_bound digest norm_key token dev key (bootstrap_step digest norm_key fs (now, c))"
      using BootRedeem bound st
      by (auto simp: redeemDeviceBootstrapTokenProfile_def Let_def split: option.split intro!: bound_put)
  next
    case (BootVerify t dev' key' role scopes)
    show "token_bound digest norm_key token dev key (bootstrap_step digest norm_key fs (now, c))"
    proof (cases "fst (verifyDeviceBootstrapToken digest norm_key now t dev' key' role scopes fs) = None")
      case True
      then obtain k r where f: "find_bootstrap digest (js_trim t) ?st = Some (k, r)"
        and b: "(js_truthy_str (map_option js_trim (br_deviceId r)) \<or> js_truthy_str (map_option (normalizeBootstrapPublicKey norm_key) (br_publicKey r))) \<Longrightarrow>
          bound_to norm_key dev' key' r"
        and s: "snd (verifyDeviceBootstrapToken digest norm_key now t dev' key' role scopes fs) =
          jm_set ?st k (r\<lparr>br_profile := Some (resolvePersistedBootstrapProfile r), br_deviceId := Some (js_trim dev'),
             br_publicKey := Some (normalizeBootstrapPublicKey norm_key key'), br_lastUsedAtMs := Some now\<rparr>)"
        by (rule verified_bootstrap) blast
      have "bound_to norm_key dev key (r\<lparr>br_profile := p, br_deviceId := Some (js_trim dev'), br_publicKey := Some (normalizeBootstrapPublicKey norm_key key'), br_lastUsedAtMs := q\<rparr>)"
        if "opens digest token (k, r)" for p q
      proof -
        have mine: "bound_to norm_key dev key r" using st found_loaded(1) [OF f] that by (force simp: token_bound_def)
        then have "js_truthy_str (map_option js_trim (br_deviceId r))" using dev by (auto simp: bound_to_def js_truthy_str_def)
        with b have "bound_to norm_key dev' key' r" by simp
        then show ?thesis using mine idem by (auto simp: bound_to_def)
      qed
      then show ?thesis using BootVerify s st by (auto simp: opens_def token_of_def intro!: bound_put)
    next
      case False
      then have "snd (verifyDeviceBootstrapToken digest norm_key now t dev' key' role scopes fs) = fs"
        by (auto simp: verifyDeviceBootstrapToken_def Let_def split: option.splits if_splits)
      then show ?thesis using BootVerify bound by simp
    qed
  qed
qed

lemma bound_run:
  assumes idem: "\<And>k. normalizeBootstrapPublicKey norm_key (normalizeBootstrapPublicKey norm_key k) = normalizeBootstrapPublicKey norm_key k"
    and dev: "js_trim dev \<noteq> []"
  shows "token_bound digest norm_key token dev key fs \<Longrightarrow> list_all (leaves_token digest token) es \<Longrightarrow>
    token_bound digest norm_key token dev key (foldl (bootstrap_step digest norm_key) fs es)"
proof (induction es arbitrary: fs)
  case (Cons e es)
  then show ?case using bound_step [OF idem dev, of digest token key fs e] by simp
qed simp

lemma first_verification_binds:
  assumes idem: "\<And>k. normalizeBootstrapPublicKey norm_key (normalizeBootstrapPublicKey norm_key k) = normalizeBootstrapPublicKey norm_key k"
    and wf: "jm_wf fs"
    and unique: "\<And>x y. x \<in> set fs \<Longrightarrow> y \<in> set fs \<Longrightarrow> opens digest token x \<Longrightarrow> opens digest token y \<Longrightarrow> fst x = fst y"
    and ok: "fst (verifyDeviceBootstrapToken digest norm_key now token dev key role scopes fs) = None"
  shows "js_trim dev \<noteq> []" "token_bound digest norm_key token dev key (snd (verifyDeviceBootstrapToken digest norm_key now token dev key role scopes fs))"
proof -
  let ?st = "loadBootstrapState now fs"
  from ok obtain k r where f: "find_bootstrap digest (js_trim token) ?st = Some (k, r)" and dev: "js_trim dev \<noteq> []"
    and s: "snd (verifyDeviceBootstrapToken digest norm_key now token dev key role scopes fs) =
      jm_set ?st k (r\<lparr>br_profile := Some (resolvePersistedBootstrapProfile r), br_deviceId := Some (js_trim dev),
         br_publicKey := Some (normalizeBootstrapPublicKey norm_key key), br_lastUsedAtMs := Some now\<rparr>)"
    by (rule verified_bootstrap) blast
  show "js_trim dev \<noteq> []" by (rule dev)
  have same: "fst x = k" if "x \<in> set ?st" "opens digest token x" for x
  proof -
    from load_mem [OF that(1)] obtain a where a: "(fst x, a) \<in> set fs" "snd x = loaded_record (fst x) a" by blast
    from load_mem [OF found_loaded(1) [OF f]] obtain b where b: "(k, b) \<in> set fs" "r = loaded_record k b" by auto
    show ?thesis using unique [OF a(1) b(1)] that(2) found_loaded(2) [OF f] a(2) b(2) by (simp add: opens_def)
  qed
  show "token_bound digest norm_key token dev key (snd (verifyDeviceBootstrapToken digest norm_key now token dev key role scopes fs))"
    unfolding s token_bound_def
  proof (intro conjI ballI impI)
    let ?used = "r\<lparr>br_profile := Some (resolvePersistedBootstrapProfile r), br_deviceId := Some (js_trim dev),
         br_publicKey := Some (normalizeBootstrapPublicKey norm_key key), br_lastUsedAtMs := Some now\<rparr>"
    show "jm_wf (jm_set ?st k ?used)" by (rule jm.wf_put [OF load_wf [OF wf]])
    fix x assume "x \<in> set (jm_set ?st k ?used)" "opens digest token x"
    then have "x = (k, ?used)" using jm_set_mem_wf [OF load_wf [OF wf]] same by blast
    then show "bound_to norm_key dev key (snd x)" by (simp add: bound_to_def idem)
  qed
qed

text \<open>C36: A bootstrap token serves one device: after it has verified for a device and its key, any later verification that
  succeeds is for the same device id and key, whatever is done with the file in between short of issuing or restoring
  the token. The library that brings keys into one form is only assumed to give a form that it keeps.\<close>

theorem bootstrap_token_binds_one_device:
  assumes idem: "\<And>k. normalizeBootstrapPublicKey norm_key (normalizeBootstrapPublicKey norm_key k) = normalizeBootstrapPublicKey norm_key k"
    and "jm_wf fs"
    and "\<And>x y. x \<in> set fs \<Longrightarrow> y \<in> set fs \<Longrightarrow> opens digest token x \<Longrightarrow> opens digest token y \<Longrightarrow> fst x = fst y"
    and first: "fst (verifyDeviceBootstrapToken digest norm_key now token dev key role scopes fs) = None"
    and "list_all (leaves_token digest token) es"
    and second: "fst (verifyDeviceBootstrapToken digest norm_key later token dev' key' role' scopes'
       (foldl (bootstrap_step digest norm_key) (snd (verifyDeviceBootstrapToken digest norm_key now token dev key role scopes fs)) es)) = None"
  shows "js_trim dev' = js_trim dev \<and> normalizeBootstrapPublicKey norm_key key' = normalizeBootstrapPublicKey norm_key key"
proof -
  let ?fs = "foldl (bootstrap_step digest norm_key) (snd (verifyDeviceBootstrapToken digest norm_key now token dev key role scopes fs)) es"
  note binds = first_verification_binds [OF idem assms(2,3) first]
  have "token_bound digest norm_key token dev key ?fs" by (rule bound_run [OF idem binds assms(5)])
  then have st: "token_bound digest norm_key token dev key (loadBootstrapState later ?fs)" by (rule bound_load)
  from second obtain k r where f: "find_bootstrap digest (js_trim token) (loadBootstrapState later ?fs) = Some (k, r)"
    and b: "(js_truthy_str (map_option js_trim (br_deviceId r)) \<or> js_truthy_str (map_option (normalizeBootstrapPublicKey norm_key) (br_publicKey r))) \<Longrightarrow>
      bound_to norm_key dev' key' r"
    by (rule verified_bootstrap) blast
  have mine: "bound_to norm_key dev key r" using st found_loaded(1,2) [OF f] by (force simp: token_bound_def)
  then have "js_truthy_str (map_option js_trim (br_deviceId r))" using binds(1) by (auto simp: bound_to_def js_truthy_str_def)
  then have "bound_to norm_key dev' key' r" using b by simp
  with mine show ?thesis by (auto simp: bound_to_def)
qed

definition sample_boot :: bootstrap_file where
  "sample_boot = snd (issueDeviceBootstrapToken 1 ''b'' None None None [])"

theorem bootstrap_token_binds_one_device_witness:
  "fst (verifyDeviceBootstrapToken sample_digest (\<lambda>k. None) 2 ''b'' ''d'' ''k'' ''node'' [] sample_boot) = None \<and>
   fst (verifyDeviceBootstrapToken sample_digest (\<lambda>k. None) 3 ''b'' ''e'' ''k'' ''node'' []
     (snd (verifyDeviceBootstrapToken sample_digest (\<lambda>k. None) 2 ''b'' ''d'' ''k'' ''node'' [] sample_boot))) \<noteq> None"
proof -
  let ?norm = "\<lambda>k :: string. None :: string option"
  have idem: "normalizeBootstrapPublicKey ?norm (normalizeBootstrapPublicKey ?norm k) = normalizeBootstrapPublicKey ?norm k" for k
    by (simp add: normalizeBootstrapPublicKey_def Let_def)
  have one: "sample_boot = [hd sample_boot]" by code_simp
  have wf: "jm_wf sample_boot" by (subst one) (simp add: jm_wf_def)
  have uni: "fst x = fst y" if "x \<in> set sample_boot" "y \<in> set sample_boot" for x y using that by (subst (asm) one, subst (asm) (2) one) auto
  have first: "fst (verifyDeviceBootstrapToken sample_digest ?norm 2 ''b'' ''d'' ''k'' ''node'' [] sample_boot) = None" by code_simp
  have "js_trim ''e'' \<noteq> js_trim ''d''" by code_simp
  then have "fst (verifyDeviceBootstrapToken sample_digest ?norm 3 ''b'' ''e'' ''k'' ''node'' []
     (snd (verifyDeviceBootstrapToken sample_digest ?norm 2 ''b'' ''d'' ''k'' ''node'' [] sample_boot))) \<noteq> None"
    using bootstrap_token_binds_one_device [OF idem wf uni first, of "[]" 3 "''e''" "''k''" "''node''" "[]"]
    by (auto simp only: list.pred_inject foldl.simps)
  with first show ?thesis by blast
qed

end
