(* ===== verification/Shell_Words.thy ===== *)
theory Shell_Words
  imports String_Coerce
begin

text \<open>
  How a shell command line is read and written back: \<open>src/utils/shell-argv.ts\<close> and the
  part of \<open>src/infra/exec-approvals-analysis.ts\<close> that splits a POSIX command line into chain parts,
  pipeline segments and words, and that rebuilds a command line from planned words. The loops of the source
  walk an index over the text; here the text that is left is the argument, and one round of a loop
  is a step function that says what becomes of the state and how many further characters it has consumed.
  The flags \<open>inSingle\<close>, \<open>inDouble\<close> and \<open>escaped\<close> of the source are never set together; the
  three of them are one value of type \<open>shell_quoting\<close>. The PowerShell and \<open>cmd.exe\<close>
  branches of the file are outside the model.
\<close>

subsection \<open>Characters\<close>

abbreviation (input) ch_squote :: char where "ch_squote \<equiv> CHR 0x27"
abbreviation (input) ch_dquote :: char where "ch_dquote \<equiv> CHR 0x22"
abbreviation (input) ch_backslash :: char where "ch_backslash \<equiv> CHR 0x5C"
abbreviation (input) ch_backtick :: char where "ch_backtick \<equiv> CHR 0x60"
abbreviation (input) ch_newline :: char where "ch_newline \<equiv> CHR 0x0A"
abbreviation (input) ch_return :: char where "ch_return \<equiv> CHR 0x0D"
abbreviation (input) ch_tab :: char where "ch_tab \<equiv> CHR 0x09"
abbreviation (input) ch_blank :: char where "ch_blank \<equiv> CHR 0x20"
abbreviation (input) ch_hash :: char where "ch_hash \<equiv> CHR 0x23"
abbreviation (input) ch_dollar :: char where "ch_dollar \<equiv> CHR 0x24"

datatype shell_quoting = Plain | Escaped | InSingle | InDouble

text \<open>\<open>s[i + 1]\<close>, when the rest of the text starts at \<open>i + 1\<close>.\<close>

definition peek :: "string \<Rightarrow> char option" where
  "peek rest = (case rest of [] \<Rightarrow> None | n # _ \<Rightarrow> Some n)"

lemma peek_simps [simp]: "peek [] = None" "peek (c # s) = Some c"
  by (simp_all add: peek_def)

subsection \<open>Words of a segment\<close>

text \<open>\<open>isDoubleQuoteEscape\<close> of \<open>shell-argv.ts\<close>; the file of the splitters has its own.\<close>

definition isArgvDoubleQuoteEscape :: "char option \<Rightarrow> bool" where
  "isArgvDoubleQuoteEscape c =
     (c \<in> {Some ch_backslash, Some ch_dquote, Some ch_dollar, Some ch_backtick, Some ch_newline, Some ch_return})"

definition push_token :: "string list \<Rightarrow> string \<Rightarrow> string list" where
  "push_token tokens buf = (if buf \<noteq> [] then tokens @ [buf] else tokens)"

fun split_args_loop :: "shell_quoting \<Rightarrow> string list \<Rightarrow> string \<Rightarrow> string \<Rightarrow> string list option" where
  "split_args_loop q tokens buf [] = (if q = Plain then Some (push_token tokens buf) else None)"
| "split_args_loop q tokens buf (ch # rest) =
     (case q of
        Escaped \<Rightarrow> split_args_loop Plain tokens (buf @ [ch]) rest
      | InSingle \<Rightarrow>
          if ch = ch_squote then split_args_loop Plain tokens buf rest
          else split_args_loop InSingle tokens (buf @ [ch]) rest
      | InDouble \<Rightarrow>
          if ch = ch_backslash \<and> isArgvDoubleQuoteEscape (peek rest)
          then split_args_loop InDouble tokens (buf @ take 1 rest) (drop 1 rest)
          else if ch = ch_dquote then split_args_loop Plain tokens buf rest
          else split_args_loop InDouble tokens (buf @ [ch]) rest
      | Plain \<Rightarrow>
          if ch = ch_backslash then split_args_loop Escaped tokens buf rest
          else if ch = ch_squote then split_args_loop InSingle tokens buf rest
          else if ch = ch_dquote then split_args_loop InDouble tokens buf rest
          else if ch = ch_hash \<and> buf = [] then Some tokens
          else if js_is_space ch then split_args_loop Plain (push_token tokens buf) [] rest
          else split_args_loop Plain tokens (buf @ [ch]) rest)"

definition splitShellArgs :: "string \<Rightarrow> string list option" where
  "splitShellArgs raw = split_args_loop Plain [] [] raw"

subsection \<open>Pipelines\<close>

definition isDoubleQuoteEscape :: "char option \<Rightarrow> bool" where
  "isDoubleQuoteEscape c = (c \<in> {Some ch_backslash, Some ch_dquote, Some ch_dollar, Some ch_backtick})"

definition isEscapedLineContinuation :: "char option \<Rightarrow> bool" where
  "isEscapedLineContinuation c = (c \<in> {Some ch_newline, Some ch_return})"

text \<open>\<open>prev\<close> is the character before, \<open>None\<close> at the start of the text.\<close>

definition isShellCommentStart :: "char option \<Rightarrow> char \<Rightarrow> bool" where
  "isShellCommentStart prev ch =
     (ch = ch_hash \<and> (case prev of None \<Rightarrow> True | Some p \<Rightarrow> js_is_space p))"

definition DISALLOWED_PIPELINE_TOKENS :: "char list" where
  "DISALLOWED_PIPELINE_TOKENS =
     [CHR ''>'', CHR ''<'', ch_backtick, ch_newline, ch_return, CHR ''('', CHR '')'']"

record heredoc_spec =
  hs_delimiter :: string
  hs_stripTabs :: bool
  hs_quoted :: bool

text \<open>The delimiter of a here-document, how many characters it takes, whether it is quoted.\<close>

fun quoted_delimiter :: "char \<Rightarrow> string \<Rightarrow> nat \<Rightarrow> string \<Rightarrow> (string \<times> nat) option" where
  "quoted_delimiter quote delimiter n [] = None"
| "quoted_delimiter quote delimiter n (ch # rest) =
     (if ch = ch_newline \<or> ch = ch_return then None
      else if quote = ch_dquote \<and> ch = ch_backslash \<and> rest \<noteq> []
      then quoted_delimiter quote (delimiter @ take 1 rest) (n + 2) (drop 1 rest)
      else if ch = quote then Some (delimiter, n + 1)
      else quoted_delimiter quote (delimiter @ [ch]) (n + 1) rest)"

definition ends_bare_delimiter :: "char \<Rightarrow> bool" where
  "ends_bare_delimiter ch =
     (js_is_space ch \<or> ch \<in> {CHR ''|'', CHR ''&'', CHR '';'', CHR ''<'', CHR ''>''})"

definition parseHeredocDelimiter :: "string \<Rightarrow> (string \<times> nat \<times> bool) option" where
  "parseHeredocDelimiter source =
     (let blanks = takeWhile (\<lambda>c. c = ch_blank \<or> c = ch_tab) source;
          text = drop (length blanks) source
      in case text of
           [] \<Rightarrow> None
         | first # r \<Rightarrow>
             if first = ch_squote \<or> first = ch_dquote
             then map_option (\<lambda>(d, n). (d, n, True)) (quoted_delimiter first [] (length blanks + 1) r)
             else let delimiter = takeWhile (\<lambda>c. \<not> ends_bare_delimiter c) text
                  in if delimiter = [] then None
                     else Some (delimiter, length blanks + length delimiter, False))"

text \<open>\<open>slashes\<close> counts the backslashes just before the rest of the line.\<close>

fun expansion_token :: "nat \<Rightarrow> string \<Rightarrow> bool" where
  "expansion_token slashes [] = False"
| "expansion_token slashes (ch # rest) =
     (if ch = ch_backtick \<and> even slashes then True
      else if ch = ch_dollar \<and> even slashes \<and> peek rest \<in> {Some CHR ''('', Some CHR ''{''} then True
      else expansion_token (if ch = ch_backslash then Suc slashes else 0) rest)"

definition hasUnquotedHeredocExpansionToken :: "string \<Rightarrow> bool" where
  "hasUnquotedHeredocExpansionToken line = expansion_token 0 line"

record pipe_state =
  pl_segments :: "string list"
  pl_buf :: string
  pl_quoting :: shell_quoting
  pl_emptySegment :: bool
  pl_pendingHeredocs :: "heredoc_spec list"
  pl_inHeredocBody :: bool
  pl_heredocLine :: string

definition pipe_start :: pipe_state where
  "pipe_start = \<lparr>pl_segments = [], pl_buf = [], pl_quoting = Plain, pl_emptySegment = False,
     pl_pendingHeredocs = [], pl_inHeredocBody = False, pl_heredocLine = []\<rparr>"

definition pushPart :: "pipe_state \<Rightarrow> pipe_state" where
  "pushPart st =
     (let trimmed = js_trim (pl_buf st)
      in st\<lparr>pl_segments := (if trimmed \<noteq> [] then pl_segments st @ [trimmed] else pl_segments st), pl_buf := []\<rparr>)"

definition heredoc_line_text :: "heredoc_spec \<Rightarrow> string \<Rightarrow> string" where
  "heredoc_line_text current line = (if hs_stripTabs current then dropWhile (\<lambda>c. c = ch_tab) line else line)"

text \<open>What one round of the loop does: go on after \<open>n\<close> further characters, leave the loop, or refuse.\<close>

datatype 's scan_step = Go 's nat | Break 's | Refuse string

definition put :: "pipe_state \<Rightarrow> shell_quoting \<Rightarrow> string \<Rightarrow> pipe_state" where
  "put st q text = st\<lparr>pl_buf := pl_buf st @ text, pl_quoting := q, pl_emptySegment := False\<rparr>"

definition heredoc_step :: "pipe_state \<Rightarrow> char \<Rightarrow> string \<Rightarrow> pipe_state scan_step" where
  "heredoc_step st ch rest =
     (if ch = ch_newline \<or> ch = ch_return
      then let skip = (if ch = ch_return \<and> peek rest = Some ch_newline then 1 else 0) in
        (case pl_pendingHeredocs st of
           [] \<Rightarrow> Go (st\<lparr>pl_heredocLine := [], pl_inHeredocBody := False\<rparr>) skip
         | current # others \<Rightarrow>
             if heredoc_line_text current (pl_heredocLine st) = hs_delimiter current
             then Go (st\<lparr>pl_pendingHeredocs := others, pl_heredocLine := [], pl_inHeredocBody := (others \<noteq> [])\<rparr>) skip
             else if \<not> hs_quoted current \<and> hasUnquotedHeredocExpansionToken (pl_heredocLine st)
             then Refuse ''command substitution in unquoted heredoc''
             else Go (st\<lparr>pl_heredocLine := []\<rparr>) skip)
      else Go (st\<lparr>pl_heredocLine := pl_heredocLine st @ [ch]\<rparr>) 0)"

definition double_quoted_step :: "pipe_state \<Rightarrow> char \<Rightarrow> string \<Rightarrow> pipe_state scan_step" where
  "double_quoted_step st ch rest =
     (if ch = ch_backslash \<and> isEscapedLineContinuation (peek rest)
      then Refuse ''unsupported shell token: newline''
      else if ch = ch_backslash \<and> isDoubleQuoteEscape (peek rest)
      then Go (put st InDouble (ch # take 1 rest)) 1
      else if ch = ch_dollar \<and> peek rest = Some CHR ''('' then Refuse ''unsupported shell token: $()''
      else if ch = ch_backtick then Refuse (''unsupported shell token: '' @ [ch_backtick])
      else if ch = ch_newline \<or> ch = ch_return then Refuse ''unsupported shell token: newline''
      else Go (put st (if ch = ch_dquote then Plain else InDouble) [ch]) 0)"

text \<open>\<open><<\<close> and, where one follows, the delimiter of its body.\<close>

definition heredoc_open :: "pipe_state \<Rightarrow> string \<Rightarrow> pipe_state scan_step" where
  "heredoc_open st rest =
     (let after = drop 1 rest; stripTabs = (peek after = Some CHR ''-'');
          scan = (if stripTabs then drop 1 after else after);
          st1 = put st Plain (if stripTabs then ''<<-'' else ''<<'')
      in case parseHeredocDelimiter scan of
           None \<Rightarrow> Go st1 1
         | Some (delimiter, n, quoted) \<Rightarrow>
             Go (st1\<lparr>pl_pendingHeredocs := pl_pendingHeredocs st1 @
                       [\<lparr>hs_delimiter = delimiter, hs_stripTabs = stripTabs, hs_quoted = quoted\<rparr>],
                     pl_buf := pl_buf st1 @ take n scan\<rparr>)
                (1 + (if stripTabs then 1 else 0) + n))"

definition plain_step :: "pipe_state \<Rightarrow> char option \<Rightarrow> char \<Rightarrow> string \<Rightarrow> pipe_state scan_step" where
  "plain_step st prev ch rest =
     (if ch = ch_backslash then Go (put st Escaped [ch]) 0
      else if ch = ch_squote then Go (put st InSingle [ch]) 0
      else if ch = ch_dquote then Go (put st InDouble [ch]) 0
      else if isShellCommentStart prev ch then Break st
      else if (ch = ch_newline \<or> ch = ch_return) \<and> pl_pendingHeredocs st \<noteq> []
      then Go (st\<lparr>pl_inHeredocBody := True, pl_heredocLine := []\<rparr>)
              (if ch = ch_return \<and> peek rest = Some ch_newline then 1 else 0)
      else if ch = CHR ''|'' \<and> peek rest = Some CHR ''|'' then Refuse ''unsupported shell token: ||''
      else if ch = CHR ''|'' \<and> peek rest = Some CHR ''&'' then Refuse ''unsupported shell token: |&''
      else if ch = CHR ''|'' then Go (pushPart (st\<lparr>pl_emptySegment := True\<rparr>)) 0
      else if ch = CHR ''&'' \<or> ch = CHR '';'' then Refuse (''unsupported shell token: '' @ [ch])
      else if ch = CHR ''<'' \<and> peek rest = Some CHR ''<'' then heredoc_open st rest
      else if ch \<in> set DISALLOWED_PIPELINE_TOKENS then Refuse (''unsupported shell token: '' @ [ch])
      else if ch = ch_dollar \<and> peek rest = Some CHR ''('' then Refuse ''unsupported shell token: $()''
      else Go (put st Plain [ch]) 0)"

definition pipe_step :: "pipe_state \<Rightarrow> char option \<Rightarrow> char \<Rightarrow> string \<Rightarrow> pipe_state scan_step" where
  "pipe_step st prev ch rest =
     (if pl_inHeredocBody st then heredoc_step st ch rest
      else case pl_quoting st of
             Escaped \<Rightarrow> Go (put st Plain [ch]) 0
           | InSingle \<Rightarrow> Go (put st (if ch = ch_squote then Plain else InSingle) [ch]) 0
           | InDouble \<Rightarrow> double_quoted_step st ch rest
           | Plain \<Rightarrow> plain_step st prev ch rest)"

text \<open>The loop over the text, for any step: the character before the next round is the last one consumed.\<close>

fun scan :: "('s \<Rightarrow> char option \<Rightarrow> char \<Rightarrow> string \<Rightarrow> 's scan_step) \<Rightarrow> 's \<Rightarrow> char option \<Rightarrow> string \<Rightarrow> 's fallible" where
  "scan step st prev [] = Inr st"
| "scan step st prev (ch # rest) =
     (case step st prev ch rest of
        Refuse reason \<Rightarrow> Inl reason
      | Break st' \<Rightarrow> Inr st'
      | Go st' n \<Rightarrow> scan step st' (Some (last (ch # take n rest))) (drop n rest))"

definition close_last_heredoc :: "pipe_state \<Rightarrow> pipe_state" where
  "close_last_heredoc st =
     (case pl_pendingHeredocs st of
        [] \<Rightarrow> st
      | current # others \<Rightarrow>
          if pl_inHeredocBody st \<and> heredoc_line_text current (pl_heredocLine st) = hs_delimiter current
          then st\<lparr>pl_pendingHeredocs := others, pl_inHeredocBody := (others \<noteq> [])\<rparr>
          else st)"

definition finish_pipeline :: "pipe_state \<Rightarrow> string list fallible" where
  "finish_pipeline st0 =
     (let st = close_last_heredoc st0 in
      if pl_pendingHeredocs st \<noteq> [] \<or> pl_inHeredocBody st then Inl ''unterminated heredoc''
      else if pl_quoting st \<noteq> Plain then Inl ''unterminated shell quote/escape''
      else let st' = pushPart st in
        if pl_emptySegment st' \<or> pl_segments st' = []
        then Inl (if pl_segments st' = [] then ''empty command'' else ''empty pipeline segment'')
        else Inr (pl_segments st'))"

definition splitShellPipeline :: "string \<Rightarrow> string list fallible" where
  "splitShellPipeline command =
     (case scan pipe_step pipe_start None command of Inl reason \<Rightarrow> Inl reason | Inr st \<Rightarrow> finish_pipeline st)"

subsection \<open>Chains\<close>

datatype chain_operator = AndIf | OrIf | Semi

record chain_state =
  cs_parts :: "(string \<times> chain_operator option) list"
  cs_buf :: string
  cs_quoting :: shell_quoting
  cs_foundChain :: bool
  cs_invalidChain :: bool

definition chain_start :: chain_state where
  "chain_start = \<lparr>cs_parts = [], cs_buf = [], cs_quoting = Plain, cs_foundChain = False, cs_invalidChain = False\<rparr>"

definition chain_put :: "chain_state \<Rightarrow> shell_quoting \<Rightarrow> string \<Rightarrow> chain_state" where
  "chain_put st q text = st\<lparr>cs_buf := cs_buf st @ text, cs_quoting := q\<rparr>"

definition chain_cut :: "chain_state \<Rightarrow> chain_operator \<Rightarrow> chain_state" where
  "chain_cut st op =
     (let trimmed = js_trim (cs_buf st); cleared = st\<lparr>cs_buf := [], cs_foundChain := True\<rparr>
      in if trimmed = [] then cleared\<lparr>cs_invalidChain := True\<rparr>
         else cleared\<lparr>cs_parts := cs_parts st @ [(trimmed, Some op)]\<rparr>)"

definition chain_step :: "chain_state \<Rightarrow> char option \<Rightarrow> char \<Rightarrow> string \<Rightarrow> chain_state scan_step" where
  "chain_step st prev ch rest =
     (case cs_quoting st of
        Escaped \<Rightarrow> Go (chain_put st Plain [ch]) 0
      | InSingle \<Rightarrow> Go (chain_put st (if ch = ch_squote then Plain else InSingle) [ch]) 0
      | InDouble \<Rightarrow>
          if ch = ch_backslash \<and> isEscapedLineContinuation (peek rest) then Break (st\<lparr>cs_invalidChain := True\<rparr>)
          else if ch = ch_backslash \<and> isDoubleQuoteEscape (peek rest)
          then Go (chain_put st InDouble (ch # take 1 rest)) 1
          else Go (chain_put st (if ch = ch_dquote then Plain else InDouble) [ch]) 0
      | Plain \<Rightarrow>
          if ch = ch_backslash then Go (chain_put st Escaped [ch]) 0
          else if ch = ch_squote then Go (chain_put st InSingle [ch]) 0
          else if ch = ch_dquote then Go (chain_put st InDouble [ch]) 0
          else if isShellCommentStart prev ch then Break st
          else if ch = CHR ''&'' \<and> peek rest = Some CHR ''&'' then Go (chain_cut st AndIf) 1
          else if ch = CHR ''|'' \<and> peek rest = Some CHR ''|'' then Go (chain_cut st OrIf) 1
          else if ch = CHR '';'' then Go (chain_cut st Semi) 0
          else Go (chain_put st Plain [ch]) 0)"

definition finish_chain :: "chain_state \<Rightarrow> (string \<times> chain_operator option) list option" where
  "finish_chain st =
     (let trimmed = js_trim (cs_buf st) in
      if \<not> cs_foundChain st \<or> trimmed = [] \<or> cs_invalidChain st then None
      else Some (cs_parts st @ [(trimmed, None)]))"

definition splitCommandChainWithOperators :: "string \<Rightarrow> (string \<times> chain_operator option) list option" where
  "splitCommandChainWithOperators command =
     (case scan chain_step chain_start None command of Inl _ \<Rightarrow> None | Inr st \<Rightarrow> finish_chain st)"

definition splitCommandChain :: "string \<Rightarrow> string list option" where
  "splitCommandChain command = map_option (map fst) (splitCommandChainWithOperators command)"

subsection \<open>Writing a command line\<close>

definition shellEscapeSingleArg :: "string \<Rightarrow> string" where
  "shellEscapeSingleArg value =
     [ch_squote] @
     concat (map (\<lambda>c. if c = ch_squote then [ch_squote, ch_dquote, ch_squote, ch_dquote, ch_squote] else [c]) value) @
     [ch_squote]"

definition renderQuotedArgv :: "string list \<Rightarrow> string" where
  "renderQuotedArgv argv = js_join '' '' (map shellEscapeSingleArg argv)"

definition operator_text :: "chain_operator \<Rightarrow> string" where
  "operator_text op = (case op of AndIf \<Rightarrow> ''&&'' | OrIf \<Rightarrow> ''||'' | Semi \<Rightarrow> '';'')"

text \<open>\<open>rebuildShellCommandFromSource\<close>: the segments of the chain parts, rendered in turn.\<close>

fun render_segments :: "(string \<Rightarrow> nat \<Rightarrow> string fallible) \<Rightarrow> nat \<Rightarrow> string list \<Rightarrow> string list fallible" where
  "render_segments renderSegment n [] = Inr []"
| "render_segments renderSegment n (raw # raws) =
     (case renderSegment raw n of
        Inl reason \<Rightarrow> Inl reason
      | Inr text \<Rightarrow>
          (case render_segments renderSegment (Suc n) raws of Inl reason \<Rightarrow> Inl reason | Inr texts \<Rightarrow> Inr (text # texts)))"

fun render_parts :: "(string \<Rightarrow> nat \<Rightarrow> string fallible) \<Rightarrow> nat \<Rightarrow> (string \<times> chain_operator option) list \<Rightarrow>
  (string \<times> nat) fallible" where
  "render_parts renderSegment n [] = Inr ([], n)"
| "render_parts renderSegment n ((part, opToNext) # parts) =
     (case splitShellPipeline part of
        Inl reason \<Rightarrow> Inl reason
      | Inr segments \<Rightarrow>
          (case render_segments renderSegment n segments of
             Inl reason \<Rightarrow> Inl reason
           | Inr texts \<Rightarrow>
               (case render_parts renderSegment (n + length segments) parts of
                  Inl reason \<Rightarrow> Inl reason
                | Inr (others, count) \<Rightarrow>
                    Inr (js_join '' | '' texts @
                         (case opToNext of None \<Rightarrow> [] | Some op \<Rightarrow> '' '' @ operator_text op @ '' '') @ others, count))))"

definition rebuildShellCommandFromSource ::
  "string \<Rightarrow> (string \<Rightarrow> nat \<Rightarrow> string fallible) \<Rightarrow> (string \<times> nat) fallible" where
  "rebuildShellCommandFromSource command renderSegment =
     (let source = js_trim command in
      if source = [] then Inl ''empty command''
      else render_parts renderSegment 0 (js_or_else (splitCommandChainWithOperators source) [(source, None)]))"

definition buildSafeShellCommand :: "string \<Rightarrow> string fallible" where
  "buildSafeShellCommand command =
     map_sum id fst (rebuildShellCommandFromSource command
       (\<lambda>raw _. let argv = js_or_else (splitShellArgs raw) [] in
          if argv = [] then Inl ''unable to parse shell segment'' else Inr (renderQuotedArgv argv)))"

text \<open>\<open>finalizeRebuiltShellCommand\<close> with an expected number of segments.\<close>

definition finalizeRebuiltShellCommand :: "(string \<times> nat) fallible \<Rightarrow> nat \<Rightarrow> string fallible" where
  "finalizeRebuiltShellCommand rebuilt expectedSegmentCount =
     (case rebuilt of
        Inl reason \<Rightarrow> Inl reason
      | Inr (command, segmentCount) \<Rightarrow>
          if segmentCount \<noteq> expectedSegmentCount then Inl ''segment count mismatch'' else Inr command)"

end
