(* ===== verification/Exec_Wrappers.thy ===== *)
theory Exec_Wrappers
  imports Shell_Words
begin

text \<open>
  Programs that run other programs: \<open>src/infra/exec-wrapper-tokens.ts\<close>,
  \<open>dispatch-wrapper-resolution.ts\<close> (\<open>env\<close>, \<open>nice\<close>, \<open>timeout\<close>, \<open>sudo\<close> ...),
  \<open>shell-inline-command.ts\<close>, \<open>shell-wrapper-resolution.ts\<close> (\<open>sh -c\<close>, \<open>busybox sh\<close> ...) and
  \<open>exec-wrapper-trust-plan.ts\<close>. The approval policy looks through the wrappers that leave their command
  as it is and refuses those that do not. \<open>process.platform\<close> is the argument \<open>platform\<close>. An index into
  the arguments is a number; a scan over them carries the arguments that are left beside the index.
\<close>

subsection \<open>Names of executables\<close>

definition posix_basename :: "string \<Rightarrow> string" where
  "posix_basename p = (case filter (\<lambda>c. c \<noteq> []) (js_split CHR ''/'' p) of [] \<Rightarrow> [] | cs \<Rightarrow> last cs)"

definition is_ascii_letter :: "char \<Rightarrow> bool" where
  "is_ascii_letter c = (let n = js_code c in (65 \<le> n \<and> n \<le> 90) \<or> (97 \<le> n \<and> n \<le> 122))"

definition slashed :: "string \<Rightarrow> string" where
  "slashed p = map (\<lambda>c. if c = ch_backslash then CHR ''/'' else c) p"

definition win32_basename :: "string \<Rightarrow> string" where
  "win32_basename p =
     posix_basename (slashed (if length p \<ge> 2 \<and> is_ascii_letter (p ! 0) \<and> p ! 1 = CHR '':'' then drop 2 p else p))"

definition WINDOWS_EXECUTABLE_SUFFIXES :: "string list" where
  "WINDOWS_EXECUTABLE_SUFFIXES = [''.exe'', ''.cmd'', ''.bat'', ''.com'']"

definition stripWindowsExecutableSuffix :: "string \<Rightarrow> string" where
  "stripWindowsExecutableSuffix value =
     (case List.find (\<lambda>sf. suffix sf value) WINDOWS_EXECUTABLE_SUFFIXES of
        None \<Rightarrow> value | Some sf \<Rightarrow> take (length value - length sf) value)"

definition basenameLower :: "string \<Rightarrow> string" where
  "basenameLower token =
     (let win = win32_basename token; posix = posix_basename token;
          base = (if length win < length posix then win else posix)
      in normalizeLowercaseStringOrEmpty (JStr base))"

definition normalizeExecutableToken :: "string \<Rightarrow> string" where
  "normalizeExecutableToken token = stripWindowsExecutableSuffix (basenameLower token)"

text \<open>\<open>argv[i]?.trim()\<close>, empty when there is none.\<close>

definition trimmed_at :: "string list \<Rightarrow> nat \<Rightarrow> string" where
  "trimmed_at argv i = (if i < length argv then js_trim (argv ! i) else [])"

subsection \<open>Scanning the options of a wrapper\<close>

datatype scan_directive = Continue | ConsumeNext | StopScan | InvalidToken

fun scan_wrapper_loop ::
  "string list \<Rightarrow> ('s \<Rightarrow> string \<Rightarrow> string \<Rightarrow> scan_directive \<times> 's) \<Rightarrow> 's \<Rightarrow> bool \<Rightarrow> nat \<Rightarrow> string list \<Rightarrow> (nat \<times> bool) option" where
  "scan_wrapper_loop separators onToken s expectsOptionValue idx [] = Some (idx, expectsOptionValue)"
| "scan_wrapper_loop separators onToken s expectsOptionValue idx (arg # rest) =
     (let token = js_trim arg in
      if token = [] then scan_wrapper_loop separators onToken s expectsOptionValue (idx + 1) rest
      else if expectsOptionValue then scan_wrapper_loop separators onToken s False (idx + 1) rest
      else if token \<in> set separators then Some (idx + 1, False)
      else case onToken s token (normalizeLowercaseStringOrEmpty (JStr token)) of
             (StopScan, _) \<Rightarrow> Some (idx, False)
           | (InvalidToken, _) \<Rightarrow> None
           | (ConsumeNext, s') \<Rightarrow> scan_wrapper_loop separators onToken s' True (idx + 1) rest
           | (Continue, s') \<Rightarrow> scan_wrapper_loop separators onToken s' False (idx + 1) rest)"

definition scanWrapperInvocation ::
  "string list \<Rightarrow> string list \<Rightarrow> ('s \<Rightarrow> string \<Rightarrow> string \<Rightarrow> scan_directive \<times> 's) \<Rightarrow> 's \<Rightarrow>
   (nat \<Rightarrow> string list \<Rightarrow> nat option) \<Rightarrow> string list option" where
  "scanWrapperInvocation argv separators onToken s0 adjustCommandIndex =
     (case scan_wrapper_loop separators onToken s0 False 1 (drop 1 argv) of
        None \<Rightarrow> None
      | Some (idx, expectsOptionValue) \<Rightarrow>
          if expectsOptionValue then None
          else case adjustCommandIndex idx argv of
                 None \<Rightarrow> None
               | Some commandIndex \<Rightarrow> if commandIndex \<ge> length argv then None else Some (drop commandIndex argv))"

definition no_adjust :: "nat \<Rightarrow> string list \<Rightarrow> nat option" where
  "no_adjust commandIndex argv = Some commandIndex"

text \<open>\<open>const [flag] = text.split("=", 2)\<close>.\<close>

definition flag_of :: "string \<Rightarrow> string" where
  "flag_of text = takeWhile (\<lambda>c. c \<noteq> CHR ''='') text"

definition is_dash_option :: "string \<Rightarrow> bool" where
  "is_dash_option token = (prefix ''-'' token \<and> token \<noteq> ''-'')"

definition unwrapDashOptionInvocation ::
  "string list \<Rightarrow> (string \<Rightarrow> string \<Rightarrow> scan_directive) \<Rightarrow> (nat \<Rightarrow> string list \<Rightarrow> nat option) \<Rightarrow> string list option" where
  "unwrapDashOptionInvocation argv onFlag adjustCommandIndex =
     scanWrapperInvocation argv [''--'']
       (\<lambda>_ token lower. (if \<not> is_dash_option token then StopScan else onFlag (flag_of lower) lower, ())) ()
       adjustCommandIndex"

subsection \<open>The environment wrapper\<close>

definition is_name_start :: "char \<Rightarrow> bool" where
  "is_name_start c = (is_ascii_letter c \<or> c = CHR ''_'')"

definition is_name_char :: "char \<Rightarrow> bool" where
  "is_name_char c = (is_name_start c \<or> js_is_digit c)"

definition isEnvAssignment :: "string \<Rightarrow> bool" where
  "isEnvAssignment token =
     (case token of [] \<Rightarrow> False
      | c # r \<Rightarrow> is_name_start c \<and> peek (dropWhile is_name_char r) = Some CHR ''='')"

definition ENV_OPTIONS_WITH_VALUE :: "string list" where
  "ENV_OPTIONS_WITH_VALUE =
     [''-u'', ''--unset'', ''-c'', ''--chdir'', ''-s'', ''--split-string'', ''--default-signal'', ''--ignore-signal'', ''--block-signal'']"

definition ENV_INLINE_VALUE_PREFIXES :: "string list" where
  "ENV_INLINE_VALUE_PREFIXES =
     [''-u'', ''-c'', ''-s'', ''--unset='', ''--chdir='', ''--split-string='', ''--default-signal='', ''--ignore-signal='', ''--block-signal='']"

definition ENV_FLAG_OPTIONS :: "string list" where
  "ENV_FLAG_OPTIONS = [''-i'', ''--ignore-environment'', ''-0'', ''--null'']"

definition hasEnvInlineValuePrefix :: "string \<Rightarrow> bool" where
  "hasEnvInlineValuePrefix lower = (\<exists>p \<in> set ENV_INLINE_VALUE_PREFIXES. prefix p lower)"

fun env_prelude_loop :: "bool \<Rightarrow> string list \<Rightarrow> nat \<Rightarrow> string list \<Rightarrow> (string list \<times> nat \<times> bool) option" where
  "env_prelude_loop expectsOptionValue keys idx [] = Some (keys, idx, expectsOptionValue)"
| "env_prelude_loop expectsOptionValue keys idx (arg # rest) =
     (let token = js_trim arg; lower = normalizeLowercaseStringOrEmpty (JStr token) in
      if token = [] then env_prelude_loop expectsOptionValue keys (idx + 1) rest
      else if expectsOptionValue then env_prelude_loop False keys (idx + 1) rest
      else if token = ''--'' \<or> token = ''-'' then Some (keys, idx + 1, False)
      else if isEnvAssignment token then env_prelude_loop False (keys @ [flag_of token]) (idx + 1) rest
      else if \<not> is_dash_option token then Some (keys, idx, False)
      else if flag_of lower \<in> set ENV_FLAG_OPTIONS then env_prelude_loop False keys (idx + 1) rest
      else if flag_of lower \<in> set ENV_OPTIONS_WITH_VALUE
      then env_prelude_loop (CHR ''='' \<notin> set lower) keys (idx + 1) rest
      else if hasEnvInlineValuePrefix lower then env_prelude_loop False keys (idx + 1) rest
      else None)"

definition parseEnvInvocationPrelude :: "string list \<Rightarrow> (string list \<times> nat) option" where
  "parseEnvInvocationPrelude argv =
     (case env_prelude_loop False [] 1 (drop 1 argv) of
        None \<Rightarrow> None
      | Some (keys, idx, expectsOptionValue) \<Rightarrow>
          if expectsOptionValue \<or> idx \<ge> length argv then None else Some (keys, idx))"

definition unwrapEnvInvocation :: "string list \<Rightarrow> string list option" where
  "unwrapEnvInvocation argv = map_option (\<lambda>(_, commandIndex). drop commandIndex argv) (parseEnvInvocationPrelude argv)"

fun env_modifiers_loop :: "bool \<Rightarrow> string list \<Rightarrow> bool" where
  "env_modifiers_loop expectsOptionValue [] = False"
| "env_modifiers_loop expectsOptionValue (arg # rest) =
     (let token = js_trim arg; lower = normalizeLowercaseStringOrEmpty (JStr token) in
      if token = [] then env_modifiers_loop expectsOptionValue rest
      else if expectsOptionValue then True
      else if token = ''--'' \<or> token = ''-'' then False
      else if isEnvAssignment token then True
      else if \<not> is_dash_option token then False
      else if flag_of lower \<in> set ENV_FLAG_OPTIONS then True
      else if flag_of lower \<in> set ENV_OPTIONS_WITH_VALUE
      then (if CHR ''='' \<in> set lower then True else env_modifiers_loop True rest)
      else True)"

definition envInvocationUsesModifiers :: "string list \<Rightarrow> bool" where
  "envInvocationUsesModifiers argv = env_modifiers_loop False (drop 1 argv)"

subsection \<open>The other wrappers\<close>

definition inline_or_next :: "string \<Rightarrow> scan_directive" where
  "inline_or_next lower = (if CHR ''='' \<in> set lower then Continue else ConsumeNext)"

definition unwrapNiceInvocation :: "string list \<Rightarrow> string list option" where
  "unwrapNiceInvocation argv =
     unwrapDashOptionInvocation argv
       (\<lambda>flag lower.
          if length lower > 1 \<and> list_all js_is_digit (drop 1 lower) then Continue
          else if flag \<in> {''-n'', ''--adjustment'', ''--priority''}
          then (if CHR ''='' \<in> set lower \<or> lower \<noteq> flag then Continue else ConsumeNext)
          else if prefix ''-n'' lower \<and> length lower > 2 then Continue
          else InvalidToken) no_adjust"

definition unwrapCaffeinateInvocation :: "string list \<Rightarrow> string list option" where
  "unwrapCaffeinateInvocation argv =
     unwrapDashOptionInvocation argv
       (\<lambda>flag lower.
          if flag \<in> {''-d'', ''-i'', ''-m'', ''-s'', ''-u''} then Continue
          else if flag \<in> {''-t'', ''-w''} then (if lower \<noteq> flag \<or> CHR ''='' \<in> set lower then Continue else ConsumeNext)
          else InvalidToken) no_adjust"

definition unwrapNohupInvocation :: "string list \<Rightarrow> string list option" where
  "unwrapNohupInvocation argv =
     scanWrapperInvocation argv [''--'']
       (\<lambda>_ token lower.
          (if \<not> is_dash_option token then StopScan
           else if lower = ''--help'' \<or> lower = ''--version'' then Continue else InvalidToken, ())) () no_adjust"

definition unwrapSandboxExecInvocation :: "string list \<Rightarrow> string list option" where
  "unwrapSandboxExecInvocation argv =
     unwrapDashOptionInvocation argv
       (\<lambda>flag lower.
          if flag \<in> {''-f'', ''-p'', ''-d''} then (if lower \<noteq> flag \<or> CHR ''='' \<in> set lower then Continue else ConsumeNext)
          else InvalidToken) no_adjust"

definition unwrapStdbufInvocation :: "string list \<Rightarrow> string list option" where
  "unwrapStdbufInvocation argv =
     unwrapDashOptionInvocation argv
       (\<lambda>flag lower.
          if flag \<notin> {''-i'', ''--input'', ''-o'', ''--output'', ''-e'', ''--error''} then InvalidToken
          else inline_or_next lower) no_adjust"

definition TIME_FLAG_OPTIONS :: "string list" where
  "TIME_FLAG_OPTIONS =
     [''-a'', ''--append'', ''-h'', ''--help'', ''-l'', ''-p'', ''-q'', ''--quiet'', ''-v'', ''--verbose'', ''-V'', ''--version'']"

definition unwrapTimeInvocation :: "string list \<Rightarrow> string list option" where
  "unwrapTimeInvocation argv =
     unwrapDashOptionInvocation argv
       (\<lambda>flag lower.
          if flag \<in> set TIME_FLAG_OPTIONS then Continue
          else if flag \<in> {''-f'', ''--format'', ''-o'', ''--output''} then inline_or_next lower
          else InvalidToken) no_adjust"

text \<open>The index after the transcript file of \<open>script\<close>: the second argument that is not blank.\<close>

fun script_command_index :: "bool \<Rightarrow> nat \<Rightarrow> string list \<Rightarrow> nat option" where
  "script_command_index sawTranscript idx [] = None"
| "script_command_index sawTranscript idx (arg # rest) =
     (if js_trim arg = [] then script_command_index sawTranscript (idx + 1) rest
      else if \<not> sawTranscript then script_command_index True (idx + 1) rest
      else Some idx)"

definition unwrapScriptInvocation :: "string \<Rightarrow> string list \<Rightarrow> string list option" where
  "unwrapScriptInvocation platform argv =
     (if \<not> (platform = ''darwin'' \<or> platform = ''freebsd'') then None
      else scanWrapperInvocation argv [''--'']
        (\<lambda>_ token lower.
           (if \<not> is_dash_option lower then StopScan
            else if flag_of token \<in> {''-F'', ''-t''} then (if CHR ''='' \<in> set token then Continue else ConsumeNext)
            else if flag_of token \<in> {''-a'', ''-d'', ''-k'', ''-p'', ''-q'', ''-r''} then Continue
            else InvalidToken, ())) ()
        (\<lambda>commandIndex currentArgv. script_command_index False commandIndex (drop commandIndex currentArgv)))"

definition unwrapTimeoutInvocation :: "string list \<Rightarrow> string list option" where
  "unwrapTimeoutInvocation argv =
     unwrapDashOptionInvocation argv
       (\<lambda>flag lower.
          if flag \<in> {''--foreground'', ''--preserve-status'', ''-v'', ''--verbose''} then Continue
          else if flag \<in> {''-k'', ''--kill-after'', ''-s'', ''--signal''} then inline_or_next lower
          else InvalidToken)
       (\<lambda>commandIndex currentArgv. if commandIndex + 1 < length currentArgv then Some (commandIndex + 1) else None)"

definition isArchSelectorToken :: "string \<Rightarrow> bool" where
  "isArchSelectorToken token = (prefix ''-'' token \<and> length token > 1 \<and> list_all is_name_char (drop 1 token))"

definition isKnownArchSelectorToken :: "string \<Rightarrow> bool" where
  "isKnownArchSelectorToken token = (token \<in> {''-arm64'', ''-arm64e'', ''-i386'', ''-x86_64'', ''-x86_64h''})"

definition isKnownArchNameToken :: "string \<Rightarrow> bool" where
  "isKnownArchNameToken token = isKnownArchSelectorToken (''-'' @ token)"

definition unwrapArchInvocation :: "string list \<Rightarrow> string list option" where
  "unwrapArchInvocation argv =
     scanWrapperInvocation argv []
       (\<lambda>expectsArchName token lower.
          if expectsArchName then (if isKnownArchNameToken lower then Continue else InvalidToken, False)
          else if \<not> is_dash_option token then (StopScan, False)
          else if lower = ''-32'' \<or> lower = ''-64'' then (Continue, False)
          else if lower = ''-arch'' then (Continue, True)
          else if lower \<in> {''-c'', ''-d'', ''-e'', ''-h''} then (InvalidToken, False)
          else (if isArchSelectorToken token \<and> isKnownArchSelectorToken lower then Continue else InvalidToken, False))
       False no_adjust"

definition XCRUN_FLAG_OPTIONS :: "string list" where
  "XCRUN_FLAG_OPTIONS =
     [''-k'', ''--kill-cache'', ''-l'', ''--log'', ''-n'', ''--no-cache'', ''-r'', ''--run'', ''-v'', ''--verbose'']"

definition unwrapXcrunInvocation :: "string list \<Rightarrow> string list option" where
  "unwrapXcrunInvocation argv =
     scanWrapperInvocation argv []
       (\<lambda>_ token lower.
          (if \<not> is_dash_option token then StopScan
           else if lower \<in> set XCRUN_FLAG_OPTIONS then Continue else InvalidToken, ())) () no_adjust"

subsection \<open>The table of dispatch wrappers\<close>

definition MAX_DISPATCH_WRAPPER_DEPTH :: nat where
  "MAX_DISPATCH_WRAPPER_DEPTH = 4"

record dispatch_spec =
  ds_unwrap :: "(string list \<Rightarrow> string \<Rightarrow> string list option) option"
  ds_transparentUsage :: "string list \<Rightarrow> string \<Rightarrow> bool"

definition transparent_wrapper :: "(string list \<Rightarrow> string list option) \<Rightarrow> dispatch_spec" where
  "transparent_wrapper unwrap = \<lparr>ds_unwrap = Some (\<lambda>argv _. unwrap argv), ds_transparentUsage = (\<lambda>_ _. True)\<rparr>"

definition opaque_wrapper :: dispatch_spec where
  "opaque_wrapper = \<lparr>ds_unwrap = None, ds_transparentUsage = (\<lambda>_ _. False)\<rparr>"

definition darwin_wrapper :: "(string list \<Rightarrow> string list option) \<Rightarrow> dispatch_spec" where
  "darwin_wrapper unwrap =
     \<lparr>ds_unwrap = Some (\<lambda>argv platform. if platform = ''darwin'' then unwrap argv else None),
      ds_transparentUsage = (\<lambda>_ platform. platform = ''darwin'')\<rparr>"

definition DISPATCH_WRAPPER_SPECS :: "(string \<times> dispatch_spec) list" where
  "DISPATCH_WRAPPER_SPECS =
     [(''arch'', darwin_wrapper unwrapArchInvocation),
      (''caffeinate'', transparent_wrapper unwrapCaffeinateInvocation),
      (''chrt'', opaque_wrapper),
      (''doas'', opaque_wrapper),
      (''env'', \<lparr>ds_unwrap = Some (\<lambda>argv _. unwrapEnvInvocation argv),
                 ds_transparentUsage = (\<lambda>argv _. \<not> envInvocationUsesModifiers argv)\<rparr>),
      (''ionice'', opaque_wrapper),
      (''nice'', transparent_wrapper unwrapNiceInvocation),
      (''nohup'', transparent_wrapper unwrapNohupInvocation),
      (''sandbox-exec'', transparent_wrapper unwrapSandboxExecInvocation),
      (''script'', \<lparr>ds_unwrap = Some (\<lambda>argv platform. unwrapScriptInvocation platform argv),
                    ds_transparentUsage = (\<lambda>_ _. True)\<rparr>),
      (''setsid'', opaque_wrapper),
      (''stdbuf'', transparent_wrapper unwrapStdbufInvocation),
      (''sudo'', opaque_wrapper),
      (''taskset'', opaque_wrapper),
      (''time'', transparent_wrapper unwrapTimeInvocation),
      (''timeout'', transparent_wrapper unwrapTimeoutInvocation),
      (''xcrun'', darwin_wrapper unwrapXcrunInvocation)]"

definition isDispatchWrapperExecutable :: "string \<Rightarrow> bool" where
  "isDispatchWrapperExecutable token = (map_of DISPATCH_WRAPPER_SPECS (normalizeExecutableToken token) \<noteq> None)"

datatype unwrap_result = NotWrapper | BlockedWrapper string | Unwrapped string "string list"

definition unwrapKnownDispatchWrapperInvocation :: "string \<Rightarrow> string list \<Rightarrow> unwrap_result" where
  "unwrapKnownDispatchWrapperInvocation platform argv =
     (let token0 = trimmed_at argv 0 in
      if token0 = [] then NotWrapper
      else let wrapper = normalizeExecutableToken token0 in
        case map_of DISPATCH_WRAPPER_SPECS wrapper of
          None \<Rightarrow> NotWrapper
        | Some spec \<Rightarrow>
            (case ds_unwrap spec of
               None \<Rightarrow> BlockedWrapper wrapper
             | Some unwrap \<Rightarrow>
                 (case unwrap argv platform of
                    None \<Rightarrow> BlockedWrapper wrapper
                  | Some unwrapped \<Rightarrow> Unwrapped wrapper unwrapped)))"

definition isSemanticDispatchWrapperUsage :: "string \<Rightarrow> string \<Rightarrow> string list \<Rightarrow> bool" where
  "isSemanticDispatchWrapperUsage platform wrapper argv =
     (case map_of DISPATCH_WRAPPER_SPECS wrapper of
        None \<Rightarrow> True
      | Some spec \<Rightarrow> ds_unwrap spec = None \<or> \<not> ds_transparentUsage spec argv platform)"

record dispatch_plan =
  dp_argv :: "string list"
  dp_wrappers :: "string list"
  dp_policyBlocked :: bool
  dp_blockedWrapper :: "string option"

definition blockedDispatchWrapperPlan :: "string list \<Rightarrow> string list \<Rightarrow> string \<Rightarrow> dispatch_plan" where
  "blockedDispatchWrapperPlan argv wrappers blockedWrapper =
     \<lparr>dp_argv = argv, dp_wrappers = wrappers, dp_policyBlocked = True, dp_blockedWrapper = Some blockedWrapper\<rparr>"

definition finish_dispatch :: "string \<Rightarrow> nat \<Rightarrow> string list \<Rightarrow> string list \<Rightarrow> dispatch_plan" where
  "finish_dispatch platform maxDepth current wrappers =
     (let open_plan = \<lparr>dp_argv = current, dp_wrappers = wrappers, dp_policyBlocked = False, dp_blockedWrapper = None\<rparr> in
      if length wrappers \<ge> maxDepth
      then (case unwrapKnownDispatchWrapperInvocation platform current of
              NotWrapper \<Rightarrow> open_plan
            | BlockedWrapper w \<Rightarrow> blockedDispatchWrapperPlan current wrappers w
            | Unwrapped w _ \<Rightarrow> blockedDispatchWrapperPlan current wrappers w)
      else open_plan)"

fun dispatch_loop :: "string \<Rightarrow> nat \<Rightarrow> nat \<Rightarrow> string list \<Rightarrow> string list \<Rightarrow> dispatch_plan" where
  "dispatch_loop platform maxDepth 0 current wrappers = finish_dispatch platform maxDepth current wrappers"
| "dispatch_loop platform maxDepth (Suc rounds) current wrappers =
     (case unwrapKnownDispatchWrapperInvocation platform current of
        BlockedWrapper w \<Rightarrow> blockedDispatchWrapperPlan current wrappers w
      | NotWrapper \<Rightarrow> finish_dispatch platform maxDepth current wrappers
      | Unwrapped w argv \<Rightarrow>
          if argv = [] then finish_dispatch platform maxDepth current wrappers
          else if isSemanticDispatchWrapperUsage platform w current
          then blockedDispatchWrapperPlan current (wrappers @ [w]) w
          else dispatch_loop platform maxDepth rounds argv (wrappers @ [w]))"

definition resolveDispatchWrapperTrustPlan :: "string \<Rightarrow> string list \<Rightarrow> nat \<Rightarrow> dispatch_plan" where
  "resolveDispatchWrapperTrustPlan platform argv maxDepth = dispatch_loop platform maxDepth maxDepth argv []"

definition unwrapDispatchWrappersForResolution :: "string \<Rightarrow> string list \<Rightarrow> string list" where
  "unwrapDispatchWrappersForResolution platform argv =
     dp_argv (resolveDispatchWrapperTrustPlan platform argv MAX_DISPATCH_WRAPPER_DEPTH)"

definition hasDispatchEnvManipulation :: "string \<Rightarrow> string list \<Rightarrow> bool" where
  "hasDispatchEnvManipulation platform argv =
     (case unwrapKnownDispatchWrapperInvocation platform argv of
        Unwrapped w _ \<Rightarrow> w = ''env'' \<and> envInvocationUsesModifiers argv
      | _ \<Rightarrow> False)"

subsection \<open>Commands given to a shell inline\<close>

definition POSIX_INLINE_COMMAND_FLAGS :: "string list" where
  "POSIX_INLINE_COMMAND_FLAGS = [''-lc'', ''-c'', ''--command'']"

definition POWERSHELL_INLINE_COMMAND_FLAGS :: "string list" where
  "POWERSHELL_INLINE_COMMAND_FLAGS =
     [''-c'', ''-command'', ''--command'', ''-f'', ''-file'', ''-encodedcommand'', ''-enc'', ''-e'']"

text \<open>\<open>/^-[^-]*c[^-]*$/i\<close>, and with any letter for \<open>c\<close>.\<close>

definition is_cluster_with :: "char \<Rightarrow> string \<Rightarrow> bool" where
  "is_cluster_with letter token =
     (case token of [] \<Rightarrow> False | c # r \<Rightarrow> c = CHR ''-'' \<and> CHR ''-'' \<notin> set r \<and> letter \<in> set (js_lower r))"

definition non_empty :: "string \<Rightarrow> string option" where
  "non_empty s = (if s = [] then None else Some s)"

fun inline_match_loop :: "string list \<Rightarrow> bool \<Rightarrow> nat \<Rightarrow> string list \<Rightarrow> string option \<times> nat option" where
  "inline_match_loop flags allowCombinedC i [] = (None, None)"
| "inline_match_loop flags allowCombinedC i (arg # rest) =
     (let token = js_trim arg; lower = normalizeLowercaseStringOrEmpty (JStr token);
          next_value = (if rest = [] then None else non_empty (js_trim (hd rest)), if rest = [] then None else Some (i + 1))
      in if token = [] then inline_match_loop flags allowCombinedC (i + 1) rest
         else if lower = ''--'' then (None, None)
         else if lower \<in> set flags then next_value
         else if allowCombinedC \<and> is_cluster_with CHR ''c'' token
         then (let inline = js_trim (drop 1 (dropWhile (\<lambda>c. js_lower_char c \<noteq> CHR ''c'') token))
               in if inline \<noteq> [] then (Some inline, Some i) else next_value)
         else inline_match_loop flags allowCombinedC (i + 1) rest)"

definition resolveInlineCommandMatch :: "string list \<Rightarrow> string list \<Rightarrow> bool \<Rightarrow> string option \<times> nat option" where
  "resolveInlineCommandMatch argv flags allowCombinedC = inline_match_loop flags allowCombinedC 1 (drop 1 argv)"

subsection \<open>Shells\<close>

definition POSIX_SHELL_WRAPPER_NAMES :: "string list" where
  "POSIX_SHELL_WRAPPER_NAMES = [''ash'', ''bash'', ''dash'', ''fish'', ''ksh'', ''sh'', ''zsh'']"

definition POWERSHELL_WRAPPER_NAMES :: "string list" where
  "POWERSHELL_WRAPPER_NAMES = [''powershell'', ''pwsh'']"

datatype shell_kind = PosixShell | CmdShell | PowerShell

definition findShellWrapperSpec :: "string \<Rightarrow> shell_kind option" where
  "findShellWrapperSpec baseExecutable =
     (if baseExecutable \<in> set POSIX_SHELL_WRAPPER_NAMES then Some PosixShell
      else if baseExecutable = ''cmd'' then Some CmdShell
      else if baseExecutable \<in> set POWERSHELL_WRAPPER_NAMES then Some PowerShell
      else None)"

definition isShellWrapperExecutable :: "string \<Rightarrow> bool" where
  "isShellWrapperExecutable token =
     (normalizeExecutableToken token \<in> set (POSIX_SHELL_WRAPPER_NAMES @ [''cmd''] @ POWERSHELL_WRAPPER_NAMES))"

definition unwrapKnownShellMultiplexerInvocation :: "string list \<Rightarrow> unwrap_result" where
  "unwrapKnownShellMultiplexerInvocation argv =
     (let token0 = trimmed_at argv 0 in
      if token0 = [] then NotWrapper
      else let wrapper = normalizeExecutableToken token0 in
        if wrapper \<notin> {''busybox'', ''toybox''} then NotWrapper
        else let appletIndex = (if trimmed_at argv 1 = ''--'' then 2 else 1);
                 applet = trimmed_at argv appletIndex
             in if applet = [] \<or> \<not> isShellWrapperExecutable applet then BlockedWrapper wrapper
                else let unwrapped = drop appletIndex argv
                     in if unwrapped = [] then BlockedWrapper wrapper else Unwrapped wrapper unwrapped)"

definition extractCmdInlineCommand :: "string list \<Rightarrow> string option" where
  "extractCmdInlineCommand argv =
     (let after = drop 1 (dropWhile (\<lambda>item. normalizeLowercaseStringOrEmpty (JStr item) \<notin> {''/c'', ''/k''}) argv)
      in if after = [] then None else non_empty (js_trim (js_join '' '' after)))"

definition extractShellWrapperPayload :: "string list \<Rightarrow> shell_kind \<Rightarrow> string option" where
  "extractShellWrapperPayload argv kind =
     (case kind of
        PosixShell \<Rightarrow> fst (resolveInlineCommandMatch argv POSIX_INLINE_COMMAND_FLAGS True)
      | CmdShell \<Rightarrow> extractCmdInlineCommand argv
      | PowerShell \<Rightarrow> fst (resolveInlineCommandMatch argv POWERSHELL_INLINE_COMMAND_FLAGS False))"

text \<open>The shell under dispatch wrappers and multiplexers, with what the wrappers on the way added to \<open>s\<close>.\<close>

function resolveShellWrapperCandidate ::
  "string \<Rightarrow> string list \<Rightarrow> nat \<Rightarrow> 's \<Rightarrow> ('s \<Rightarrow> string list \<Rightarrow> 's) \<Rightarrow> (string list \<times> string \<times> 's) option" where
  "resolveShellWrapperCandidate platform argv depth s onDispatchUnwrap =
     (let token0 = trimmed_at argv 0 in
      if \<not> depth \<le> MAX_DISPATCH_WRAPPER_DEPTH \<or> token0 = [] then None
      else case unwrapKnownDispatchWrapperInvocation platform argv of
             BlockedWrapper _ \<Rightarrow> None
           | Unwrapped _ wrapped \<Rightarrow>
               resolveShellWrapperCandidate platform wrapped (depth + 1) (onDispatchUnwrap s argv) onDispatchUnwrap
           | NotWrapper \<Rightarrow>
               (case unwrapKnownShellMultiplexerInvocation argv of
                  BlockedWrapper _ \<Rightarrow> None
                | Unwrapped _ wrapped \<Rightarrow> resolveShellWrapperCandidate platform wrapped (depth + 1) s onDispatchUnwrap
                | NotWrapper \<Rightarrow> Some (argv, token0, s)))"
  by pat_completeness auto

termination
  by (relation "measure (\<lambda>(_, _, depth, _, _). Suc MAX_DISPATCH_WRAPPER_DEPTH - depth)") auto

declare resolveShellWrapperCandidate.simps [simp del]

definition resolveShellWrapperSpecAndArgv :: "string \<Rightarrow> string list \<Rightarrow> (string list \<times> string) option" where
  "resolveShellWrapperSpecAndArgv platform argv =
     (case resolveShellWrapperCandidate platform argv 0 () (\<lambda>_ _. ()) of
        None \<Rightarrow> None
      | Some (candidate, token0, _) \<Rightarrow>
          (case findShellWrapperSpec (normalizeExecutableToken token0) of
             None \<Rightarrow> None
           | Some kind \<Rightarrow> map_option (\<lambda>payload. (candidate, payload)) (extractShellWrapperPayload candidate kind)))"

definition isShellWrapperInvocation :: "string \<Rightarrow> string list \<Rightarrow> bool" where
  "isShellWrapperInvocation platform argv =
     (case resolveShellWrapperCandidate platform argv 0 () (\<lambda>_ _. ()) of
        None \<Rightarrow> False | Some (_, token0, _) \<Rightarrow> isShellWrapperExecutable token0)"

definition hasEnvManipulationBeforeShellWrapper :: "string \<Rightarrow> string list \<Rightarrow> bool" where
  "hasEnvManipulationBeforeShellWrapper platform argv =
     (case resolveShellWrapperCandidate platform argv 0 False
             (\<lambda>seen wrapped. seen \<or> hasDispatchEnvManipulation platform wrapped) of
        None \<Rightarrow> False
      | Some (candidate, token0, seen) \<Rightarrow>
          (case findShellWrapperSpec (normalizeExecutableToken token0) of
             None \<Rightarrow> False
           | Some kind \<Rightarrow> extractShellWrapperPayload candidate kind \<noteq> None \<and> seen))"

text \<open>\<open>Some\<close> is a wrapper with its command; the sources' \<open>{isWrapper: false, command: null}\<close> is \<open>None\<close>.\<close>

definition extractShellWrapperCommand :: "string \<Rightarrow> string list \<Rightarrow> string option" where
  "extractShellWrapperCommand platform argv = map_option snd (resolveShellWrapperSpecAndArgv platform argv)"

definition resolveShellWrapperTransportArgv :: "string \<Rightarrow> string list \<Rightarrow> string list option" where
  "resolveShellWrapperTransportArgv platform argv = map_option fst (resolveShellWrapperSpecAndArgv platform argv)"

definition extractShellWrapperInlineCommand :: "string \<Rightarrow> string list \<Rightarrow> string option" where
  "extractShellWrapperInlineCommand platform argv = extractShellWrapperCommand platform argv"

subsection \<open>What a command line is trusted as\<close>

record trust_plan =
  tp_argv :: "string list"
  tp_policyArgv :: "string list"
  tp_wrapperChain :: "string list"
  tp_policyBlocked :: bool
  tp_blockedWrapper :: "string option"
  tp_shellWrapperExecutable :: bool
  tp_shellInlineCommand :: "string option"

definition blockedExecWrapperTrustPlan :: "string list \<Rightarrow> string list \<Rightarrow> string list \<Rightarrow> string \<Rightarrow> trust_plan" where
  "blockedExecWrapperTrustPlan argv policyArgv wrapperChain blockedWrapper =
     \<lparr>tp_argv = argv, tp_policyArgv = policyArgv, tp_wrapperChain = wrapperChain, tp_policyBlocked = True,
      tp_blockedWrapper = Some blockedWrapper, tp_shellWrapperExecutable = False, tp_shellInlineCommand = None\<rparr>"

definition finalizeExecWrapperTrustPlan :: "string \<Rightarrow> string list \<Rightarrow> string list \<Rightarrow> string list \<Rightarrow> trust_plan" where
  "finalizeExecWrapperTrustPlan platform argv policyArgv wrapperChain =
     (let rawExecutable = trimmed_at argv 0;
          shell = rawExecutable \<noteq> [] \<and> isShellWrapperExecutable rawExecutable
      in \<lparr>tp_argv = argv, tp_policyArgv = policyArgv, tp_wrapperChain = wrapperChain, tp_policyBlocked = False,
          tp_blockedWrapper = None, tp_shellWrapperExecutable = shell,
          tp_shellInlineCommand = (if shell then extractShellWrapperInlineCommand platform argv else None)\<rparr>)"

definition finish_trust :: "string \<Rightarrow> nat \<Rightarrow> string list \<Rightarrow> string list \<Rightarrow> string list \<Rightarrow> trust_plan" where
  "finish_trust platform maxDepth current policyArgv wrapperChain =
     (let open_plan = finalizeExecWrapperTrustPlan platform current policyArgv wrapperChain;
          blocked = blockedExecWrapperTrustPlan current policyArgv wrapperChain
      in if length wrapperChain \<ge> maxDepth
         then (case unwrapKnownDispatchWrapperInvocation platform current of
                 BlockedWrapper w \<Rightarrow> blocked w
               | Unwrapped w _ \<Rightarrow> blocked w
               | NotWrapper \<Rightarrow>
                   (case unwrapKnownShellMultiplexerInvocation current of
                      BlockedWrapper w \<Rightarrow> blocked w
                    | Unwrapped w _ \<Rightarrow> blocked w
                    | NotWrapper \<Rightarrow> open_plan))
         else open_plan)"

fun trust_loop :: "string \<Rightarrow> nat \<Rightarrow> nat \<Rightarrow> string list \<Rightarrow> string list \<Rightarrow> bool \<Rightarrow> string list \<Rightarrow> trust_plan" where
  "trust_loop platform maxDepth 0 current policyArgv sawShellMultiplexer wrapperChain =
     finish_trust platform maxDepth current policyArgv wrapperChain"
| "trust_loop platform maxDepth (Suc rounds) current policyArgv sawShellMultiplexer wrapperChain =
     (let plan = resolveDispatchWrapperTrustPlan platform current (maxDepth - length wrapperChain) in
      if dp_policyBlocked plan
      then blockedExecWrapperTrustPlan (dp_argv plan) (dp_argv plan) wrapperChain
             (js_or_else (dp_blockedWrapper plan) (if current = [] then ''unknown'' else hd current))
      else if dp_wrappers plan \<noteq> []
      then (let chain = wrapperChain @ dp_wrappers plan;
                policy = (if sawShellMultiplexer then policyArgv else dp_argv plan)
            in if length chain \<ge> maxDepth then finish_trust platform maxDepth (dp_argv plan) policy chain
               else trust_loop platform maxDepth rounds (dp_argv plan) policy sawShellMultiplexer chain)
      else case unwrapKnownShellMultiplexerInvocation current of
             BlockedWrapper w \<Rightarrow> blockedExecWrapperTrustPlan current policyArgv wrapperChain w
           | Unwrapped w argv \<Rightarrow>
               (let chain = wrapperChain @ [w]; policy = (if sawShellMultiplexer then policyArgv else current)
                in if length chain \<ge> maxDepth then finish_trust platform maxDepth argv policy chain
                   else trust_loop platform maxDepth rounds argv policy True chain)
           | NotWrapper \<Rightarrow> finish_trust platform maxDepth current policyArgv wrapperChain)"

definition resolveExecWrapperTrustPlan :: "string \<Rightarrow> string list \<Rightarrow> trust_plan" where
  "resolveExecWrapperTrustPlan platform argv =
     trust_loop platform MAX_DISPATCH_WRAPPER_DEPTH MAX_DISPATCH_WRAPPER_DEPTH argv argv False []"

end
