(* ===== verification/Exec_Resolution.thy ===== *)
theory Exec_Resolution
  imports Exec_Wrappers
begin

text \<open>
  Which program a command would run and whether an allowlist entry names it:
  \<open>src/infra/executable-path.ts\<close>, \<open>home-dir.ts\<close> (the expansion of a leading tilde),
  \<open>exec-command-resolution.ts\<close> and \<open>exec-allowlist-pattern.ts\<close>, on hosts other than Windows. What the
  code asks of the machine is a record: which files are executable, what the links of a path resolve to, the
  home directory and the directory of the process, the home directory and the search path of the command. Of Node's \<open>path\<close> module the POSIX
  functions that the code uses are written out.
\<close>

subsection \<open>Paths\<close>

definition path_isAbsolute :: "string \<Rightarrow> bool" where
  "path_isAbsolute p = prefix ''/'' p"

text \<open>The components of an absolute path, without \<open>.\<close> and with \<open>..\<close> applied.\<close>

fun normal_components :: "string list \<Rightarrow> string list \<Rightarrow> string list" where
  "normal_components done_cs [] = done_cs"
| "normal_components done_cs (c # cs) =
     (if c = [] \<or> c = ''.'' then normal_components done_cs cs
      else if c = ''..'' then normal_components (butlast done_cs) cs
      else normal_components (done_cs @ [c]) cs)"

definition resolved_components :: "string \<Rightarrow> string list \<Rightarrow> string list" where
  "resolved_components cwd ps =
     normal_components []
       (js_split CHR ''/'' (foldl (\<lambda>acc p. if p = [] then acc else if path_isAbsolute p then p else acc @ ''/'' @ p) cwd ps))"

definition path_resolve :: "string \<Rightarrow> string list \<Rightarrow> string" where
  "path_resolve cwd ps = ''/'' @ js_join ''/'' (resolved_components cwd ps)"

text \<open>\<open>path.dirname(path.resolve(p))\<close>.\<close>

definition resolved_dirname :: "string \<Rightarrow> string \<Rightarrow> string" where
  "resolved_dirname cwd p = ''/'' @ js_join ''/'' (butlast (resolved_components cwd [p]))"

text \<open>\<open>path.join(dir, name)\<close> for a name without a separator; a relative directory keeps leading \<open>..\<close>.\<close>

fun relative_components :: "string list \<Rightarrow> string list \<Rightarrow> string list" where
  "relative_components done_cs [] = done_cs"
| "relative_components done_cs (c # cs) =
     (if c = [] \<or> c = ''.'' then relative_components done_cs cs
      else if c = ''..'' \<and> done_cs \<noteq> [] \<and> last done_cs \<noteq> ''..'' then relative_components (butlast done_cs) cs
      else relative_components (done_cs @ [c]) cs)"

definition path_join :: "string \<Rightarrow> string \<Rightarrow> string" where
  "path_join dir name =
     (let cs = js_split CHR ''/'' (dir @ ''/'' @ name) in
      if path_isAbsolute dir then ''/'' @ js_join ''/'' (normal_components [] cs)
      else js_join ''/'' (relative_components [] cs))"

subsection \<open>The machine\<close>

record machine =
  mc_platform :: string
  mc_cwd :: string
  mc_home :: "string option"
  mc_commandHome :: "string option"
  mc_isExecutableFile :: "string \<Rightarrow> bool"
  mc_realpath :: "string \<Rightarrow> string option"
  mc_path :: string

definition isWindowsPlatform :: "string \<Rightarrow> bool" where
  "isWindowsPlatform platform = prefix ''win'' (normalizeLowercaseStringOrEmpty (JStr platform))"

definition expandHomePrefix :: "string option \<Rightarrow> string \<Rightarrow> string" where
  "expandHomePrefix homeDir input =
     (case input of
        [] \<Rightarrow> input
      | c # r \<Rightarrow>
          if c \<noteq> CHR ''~'' then input
          else case homeDir of
                 None \<Rightarrow> input
               | Some home \<Rightarrow> if r = [] \<or> hd r \<in> {CHR ''/'', ch_backslash} then home @ r else input)"

definition has_separator :: "string \<Rightarrow> bool" where
  "has_separator s = (CHR ''/'' \<in> set s \<or> ch_backslash \<in> set s)"

definition command_base :: "machine \<Rightarrow> string option \<Rightarrow> string" where
  "command_base mc cwd = (let t = js_trim (js_or_else cwd []) in if t \<noteq> [] then t else mc_cwd mc)"

definition resolveExecutablePathCandidate ::
  "machine \<Rightarrow> string option \<Rightarrow> string option \<Rightarrow> bool \<Rightarrow> string \<Rightarrow> string option" where
  "resolveExecutablePathCandidate mc homeDir cwd requirePathSeparator rawExecutable =
     (let expanded = expandHomePrefix homeDir rawExecutable in
      if requirePathSeparator \<and> \<not> has_separator expanded then None
      else if \<not> has_separator expanded then Some expanded
      else if path_isAbsolute expanded then Some expanded
      else Some (path_resolve (mc_cwd mc) [command_base mc cwd, expanded]))"

definition resolveExecutableFromPathEnv :: "machine \<Rightarrow> string \<Rightarrow> string option" where
  "resolveExecutableFromPathEnv mc executable =
     List.find (mc_isExecutableFile mc)
       (map (\<lambda>entry. path_join entry executable) (filter (\<lambda>e. e \<noteq> []) (js_split CHR '':'' (mc_path mc))))"

definition resolveExecutablePath :: "machine \<Rightarrow> string option \<Rightarrow> string \<Rightarrow> string option" where
  "resolveExecutablePath mc cwd rawExecutable =
     (case resolveExecutablePathCandidate mc (mc_commandHome mc) cwd False rawExecutable of
        None \<Rightarrow> None
      | Some candidate \<Rightarrow>
          if candidate = [] then None
          else if has_separator candidate then (if mc_isExecutableFile mc candidate then Some candidate else None)
          else resolveExecutableFromPathEnv mc candidate)"

subsection \<open>Resolution of a command\<close>

record executable_resolution =
  er_rawExecutable :: string
  er_resolvedPath :: "string option"
  er_resolvedRealPath :: "string option"
  er_executableName :: string

record command_resolution =
  cr_execution :: executable_resolution
  cr_policy :: executable_resolution
  cr_effectiveArgv :: "string list"
  cr_wrapperChain :: "string list"
  cr_policyBlocked :: bool
  cr_blockedWrapper :: "string option"

definition buildExecutableResolution :: "machine \<Rightarrow> string option \<Rightarrow> string \<Rightarrow> executable_resolution" where
  "buildExecutableResolution mc cwd rawExecutable =
     (let resolvedPath = resolveExecutablePath mc cwd rawExecutable in
      \<lparr>er_rawExecutable = rawExecutable, er_resolvedPath = resolvedPath,
       er_resolvedRealPath = Option.bind resolvedPath (mc_realpath mc),
       er_executableName = (case resolvedPath of None \<Rightarrow> rawExecutable | Some p \<Rightarrow> posix_basename p)\<rparr>)"

definition resolveCommandResolutionFromArgv :: "machine \<Rightarrow> string option \<Rightarrow> string list \<Rightarrow> command_resolution option" where
  "resolveCommandResolutionFromArgv mc cwd argv =
     (let plan = resolveExecWrapperTrustPlan (mc_platform mc) argv;
          rawExecutable = trimmed_at (tp_argv plan) 0;
          policyRawExecutable = trimmed_at (tp_policyArgv plan) 0;
          execution = buildExecutableResolution mc cwd rawExecutable
      in if rawExecutable = [] then None
         else Some \<lparr>cr_execution = execution,
                    cr_policy = (if policyRawExecutable \<noteq> [] then buildExecutableResolution mc cwd policyRawExecutable
                                 else execution),
                    cr_effectiveArgv = tp_argv plan, cr_wrapperChain = tp_wrapperChain plan,
                    cr_policyBlocked = tp_policyBlocked plan, cr_blockedWrapper = tp_blockedWrapper plan\<rparr>)"

definition resolveExecutableCandidatePathFromResolution ::
  "machine \<Rightarrow> string option \<Rightarrow> executable_resolution \<Rightarrow> string option" where
  "resolveExecutableCandidatePathFromResolution mc cwd resolution =
     (case er_resolvedPath resolution of
        Some p \<Rightarrow> Some p
      | None \<Rightarrow>
          let raw = js_trim (er_rawExecutable resolution) in
          if raw = [] then None else resolveExecutablePathCandidate mc (mc_home mc) cwd True raw)"

definition resolveExecutionTargetCandidatePath :: "machine \<Rightarrow> string option \<Rightarrow> command_resolution option \<Rightarrow> string option" where
  "resolveExecutionTargetCandidatePath mc cwd resolution =
     Option.bind resolution (\<lambda>r. resolveExecutableCandidatePathFromResolution mc cwd (cr_execution r))"

definition resolvePolicyTargetCandidatePath :: "machine \<Rightarrow> string option \<Rightarrow> command_resolution option \<Rightarrow> string option" where
  "resolvePolicyTargetCandidatePath mc cwd resolution =
     Option.bind resolution (\<lambda>r. resolveExecutableCandidatePathFromResolution mc cwd (cr_policy r))"

subsection \<open>Segments\<close>

record command_segment =
  sg_raw :: string
  sg_argv :: "string list"
  sg_resolution :: "command_resolution option"

definition execution_of :: "command_segment \<Rightarrow> executable_resolution option" where
  "execution_of segment = map_option cr_execution (sg_resolution segment)"

definition policy_blocked :: "command_segment \<Rightarrow> bool" where
  "policy_blocked segment = (case sg_resolution segment of None \<Rightarrow> False | Some r \<Rightarrow> cr_policyBlocked r)"

definition effective_argv :: "command_segment \<Rightarrow> string list" where
  "effective_argv segment =
     (case sg_resolution segment of
        Some r \<Rightarrow> if cr_effectiveArgv r \<noteq> [] then cr_effectiveArgv r else sg_argv segment
      | None \<Rightarrow> sg_argv segment)"

fun parseSegmentsFromParts :: "machine \<Rightarrow> string option \<Rightarrow> string list \<Rightarrow> command_segment list option" where
  "parseSegmentsFromParts mc cwd [] = Some []"
| "parseSegmentsFromParts mc cwd (raw # raws) =
     (case splitShellArgs raw of
        None \<Rightarrow> None
      | Some argv \<Rightarrow>
          if argv = [] then None
          else map_option
            (\<lambda>segments. \<lparr>sg_raw = raw, sg_argv = argv, sg_resolution = resolveCommandResolutionFromArgv mc cwd argv\<rparr> # segments)
            (parseSegmentsFromParts mc cwd raws))"

text \<open>\<open>analyzeShellCommand\<close> on a POSIX host: the segments, grouped by chain parts when there are any.\<close>

record command_analysis =
  an_segments :: "command_segment list"
  an_chains :: "command_segment list list option"

definition analyze_pipeline :: "machine \<Rightarrow> string option \<Rightarrow> string \<Rightarrow> command_segment list fallible" where
  "analyze_pipeline mc cwd part =
     (case splitShellPipeline part of
        Inl reason \<Rightarrow> Inl reason
      | Inr raws \<Rightarrow>
          (case parseSegmentsFromParts mc cwd raws of
             None \<Rightarrow> Inl ''unable to parse shell segment'' | Some segments \<Rightarrow> Inr segments))"

fun analyze_parts :: "machine \<Rightarrow> string option \<Rightarrow> string list \<Rightarrow> command_segment list list fallible" where
  "analyze_parts mc cwd [] = Inr []"
| "analyze_parts mc cwd (part # parts) =
     (case analyze_pipeline mc cwd part of
        Inl reason \<Rightarrow> Inl reason
      | Inr segments \<Rightarrow>
          (case analyze_parts mc cwd parts of Inl reason \<Rightarrow> Inl reason | Inr groups \<Rightarrow> Inr (segments # groups)))"

definition analyzeShellCommand :: "machine \<Rightarrow> string option \<Rightarrow> string \<Rightarrow> command_analysis fallible" where
  "analyzeShellCommand mc cwd command =
     (case splitCommandChain command of
        Some chainParts \<Rightarrow>
          map_sum id (\<lambda>groups. \<lparr>an_segments = concat groups, an_chains = Some groups\<rparr>) (analyze_parts mc cwd chainParts)
      | None \<Rightarrow> map_sum id (\<lambda>segments. \<lparr>an_segments = segments, an_chains = None\<rparr>) (analyze_pipeline mc cwd command))"

definition analyzeArgvCommand :: "machine \<Rightarrow> string option \<Rightarrow> string list \<Rightarrow> command_analysis fallible" where
  "analyzeArgvCommand mc cwd argv0 =
     (let argv = filter (\<lambda>entry. js_trim entry \<noteq> []) argv0 in
      if argv = [] then Inl ''empty argv''
      else Inr \<lparr>an_segments = [\<lparr>sg_raw = js_join '' '' argv, sg_argv = argv,
                                sg_resolution = resolveCommandResolutionFromArgv mc cwd argv\<rparr>], an_chains = None\<rparr>)"

subsection \<open>Planned commands\<close>

definition resolvePlannedSegmentArgv :: "command_segment \<Rightarrow> string list option" where
  "resolvePlannedSegmentArgv segment =
     (if policy_blocked segment then None
      else let baseArgv = effective_argv segment in
        if baseArgv = [] then None
        else let resolvedExecutable =
                   (case execution_of segment of
                      None \<Rightarrow> []
                    | Some execution \<Rightarrow>
                        js_or_else (js_alt (map_option js_trim (er_resolvedRealPath execution))
                                           (map_option js_trim (er_resolvedPath execution))) [])
             in Some (if resolvedExecutable \<noteq> [] then resolvedExecutable # tl baseArgv else baseArgv))"

definition buildEnforcedShellCommand :: "string \<Rightarrow> command_segment list \<Rightarrow> string fallible" where
  "buildEnforcedShellCommand command segments =
     finalizeRebuiltShellCommand
       (rebuildShellCommandFromSource command
          (\<lambda>_ segmentIndex.
             if segmentIndex \<ge> length segments then Inl ''segment mapping failed''
             else case resolvePlannedSegmentArgv (segments ! segmentIndex) of
                    None \<Rightarrow> Inl ''segment execution plan unavailable''
                  | Some argv \<Rightarrow> Inr (renderQuotedArgv argv)))
       (length segments)"

datatype satisfied_by = ByAllowlist | BySafeBins | BySkills | BySkillPrelude

definition buildSafeBinsShellCommand :: "string \<Rightarrow> command_segment list \<Rightarrow> satisfied_by option list \<Rightarrow> string fallible" where
  "buildSafeBinsShellCommand command segments segmentSatisfiedBy =
     (if length segments \<noteq> length segmentSatisfiedBy then Inl ''segment metadata mismatch''
      else finalizeRebuiltShellCommand
        (rebuildShellCommandFromSource command
           (\<lambda>raw segmentIndex.
              if segmentIndex \<ge> length segments then Inl ''segment mapping failed''
              else if segmentSatisfiedBy ! segmentIndex \<noteq> Some BySafeBins then Inr (js_trim raw)
              else case resolvePlannedSegmentArgv (segments ! segmentIndex) of
                     None \<Rightarrow> Inl ''segment execution plan unavailable''
                   | Some argv \<Rightarrow> Inr (renderQuotedArgv argv)))
        (length segments))"

subsection \<open>Patterns of the allowlist\<close>

text \<open>The pieces of a compiled pattern, and the match that its anchored regular expression decides.\<close>

datatype glob_piece = AnyPath | AnyName | AnyChar | Literal char

fun compile_glob :: "string \<Rightarrow> glob_piece list" where
  "compile_glob [] = []"
| "compile_glob (ch # rest) =
     (if ch = CHR ''*'' then
        (if peek rest = Some CHR ''*'' then AnyPath # compile_glob (drop 1 rest) else AnyName # compile_glob rest)
      else if ch = CHR ''?'' then AnyChar # compile_glob rest
      else Literal ch # compile_glob rest)"

definition line_end :: "char \<Rightarrow> bool" where
  "line_end c = (c = ch_newline \<or> c = ch_return)"

fun match_glob :: "glob_piece list \<Rightarrow> string \<Rightarrow> bool" where
  "match_glob [] s = (s = [])"
| "match_glob (Literal c # ps) s = (s \<noteq> [] \<and> hd s = c \<and> match_glob ps (tl s))"
| "match_glob (AnyChar # ps) s = (s \<noteq> [] \<and> hd s \<noteq> CHR ''/'' \<and> match_glob ps (tl s))"
| "match_glob (AnyName # ps) [] = match_glob ps []"
| "match_glob (AnyName # ps) (c # s) = (match_glob ps (c # s) \<or> (c \<noteq> CHR ''/'' \<and> match_glob (AnyName # ps) s))"
| "match_glob (AnyPath # ps) [] = match_glob ps []"
| "match_glob (AnyPath # ps) (c # s) = (match_glob ps (c # s) \<or> (\<not> line_end c \<and> match_glob (AnyPath # ps) s))"

text \<open>\<open>value.replace(/\\\\/g, "/")\<close>: two backslashes become a slash.\<close>

fun normalizeMatchTarget :: "string \<Rightarrow> string" where
  "normalizeMatchTarget [] = []"
| "normalizeMatchTarget (c # rest) =
     (if c = ch_backslash \<and> peek rest = Some ch_backslash then CHR ''/'' # normalizeMatchTarget (drop 1 rest)
      else c # normalizeMatchTarget rest)"

definition matchesExecAllowlistPattern :: "machine \<Rightarrow> string \<Rightarrow> string \<Rightarrow> bool" where
  "matchesExecAllowlistPattern mc pattern target =
     (let trimmed = js_trim pattern in
      if trimmed = [] then False
      else match_glob (compile_glob (normalizeMatchTarget (expandHomePrefix (mc_home mc) trimmed))) (normalizeMatchTarget target))"

text \<open>\<open>exec-approvals.types.ts\<close>; \<open>source\<close> has one value, so it is whether the entry came from \<open>allow-always\<close>.\<close>

record allowlist_entry =
  al_id :: "string option"
  al_pattern :: string
  al_allowAlways :: bool
  al_commandText :: "string option"
  al_argPattern :: "string option"
  al_lastUsedAt :: "ms option"
  al_lastUsedCommand :: "string option"
  al_lastResolvedPath :: "string option"

definition matchAllowlist :: "machine \<Rightarrow> allowlist_entry list \<Rightarrow> executable_resolution option \<Rightarrow> allowlist_entry option" where
  "matchAllowlist mc entries resolution =
     (case resolution of
        None \<Rightarrow> None
      | Some r \<Rightarrow>
          (case List.find (\<lambda>e. js_trim (al_pattern e) = ''*'' \<and> \<not> js_truthy_str (al_argPattern e)) entries of
             Some bareWild \<Rightarrow> Some bareWild
           | None \<Rightarrow>
               (case er_resolvedPath r of
                  None \<Rightarrow> None
                | Some resolvedPath \<Rightarrow>
                    List.find (\<lambda>e. let pattern = js_trim (al_pattern e) in
                                 pattern \<noteq> [] \<and> (has_separator pattern \<or> CHR ''~'' \<in> set pattern) \<and>
                                 matchesExecAllowlistPattern mc pattern resolvedPath) entries)))"

end
