(* ===== verification/Safe_Bins.thy ===== *)
theory Safe_Bins
  imports Exec_Resolution
begin

text \<open>
  Programs that may run without an allowlist entry because they only read their standard input:
  \<open>src/infra/exec-safe-bin-policy-profiles.ts\<close>, \<open>exec-safe-bin-policy-validator.ts\<close>,
  \<open>exec-safe-bin-semantics.ts\<close>, \<open>exec-safe-bin-trust.ts\<close> and \<open>isSafeBinUsage\<close> of
  \<open>exec-approvals-allowlist.ts\<close>. A set of the source is the list of its elements. The profiles that a
  configuration adds are an argument; their normalisation is outside the model.
\<close>

subsection \<open>Profiles\<close>

record safe_bin_profile =
  sp_minPositional :: "nat option"
  sp_maxPositional :: "nat option"
  sp_allowedValueFlags :: "string list"
  sp_deniedFlags :: "string list"
  sp_knownLongFlags :: "string list"
  sp_longFlagPrefixMap :: "(string, string option) js_map"

definition DEFAULT_SAFE_BINS :: "string list" where
  "DEFAULT_SAFE_BINS = [''cut'', ''uniq'', ''head'', ''tail'', ''tr'', ''wc'']"

definition collectKnownLongFlags :: "string list \<Rightarrow> string list \<Rightarrow> string list" where
  "collectKnownLongFlags allowedValueFlags deniedFlags =
     js_unique (filter (prefix ''--'') allowedValueFlags @ filter (prefix ''--'') deniedFlags)"

text \<open>A prefix of one known flag means that flag; a prefix of several means none.\<close>

definition add_prefix :: "string \<Rightarrow> string \<Rightarrow> (string, string option) js_map \<Rightarrow> (string, string option) js_map" where
  "add_prefix flag p prefixMap =
     (case jm_get prefixMap p of
        None \<Rightarrow> jm_set prefixMap p (Some flag)
      | Some existing \<Rightarrow> if existing \<noteq> Some flag then jm_set prefixMap p None else prefixMap)"

definition buildLongFlagPrefixMap :: "string list \<Rightarrow> (string, string option) js_map" where
  "buildLongFlagPrefixMap knownLongFlags =
     fold (\<lambda>flag prefixMap.
             if \<not> prefix ''--'' flag \<or> length flag \<le> 2 then prefixMap
             else fold (\<lambda>n. add_prefix flag (take n flag)) [3..<Suc (length flag)] prefixMap)
       knownLongFlags []"

definition compileSafeBinProfile ::
  "nat option \<Rightarrow> nat option \<Rightarrow> string list \<Rightarrow> string list \<Rightarrow> safe_bin_profile" where
  "compileSafeBinProfile minPositional maxPositional allowedValueFlags deniedFlags =
     (let knownLongFlags = collectKnownLongFlags allowedValueFlags deniedFlags in
      \<lparr>sp_minPositional = minPositional, sp_maxPositional = maxPositional,
       sp_allowedValueFlags = allowedValueFlags, sp_deniedFlags = deniedFlags,
       sp_knownLongFlags = knownLongFlags, sp_longFlagPrefixMap = buildLongFlagPrefixMap knownLongFlags\<rparr>)"

definition SAFE_BIN_PROFILES :: "(string \<times> safe_bin_profile) list" where
  "SAFE_BIN_PROFILES =
     [(''jq'', compileSafeBinProfile None (Some 1) [''--arg'', ''--argjson'', ''--argstr'']
         [''--argfile'', ''--rawfile'', ''--slurpfile'', ''--from-file'', ''--library-path'', ''-L'', ''-f'']),
      (''grep'', compileSafeBinProfile None (Some 0)
         [''--regexp'', ''--max-count'', ''--after-context'', ''--before-context'', ''--context'', ''--devices'',
          ''--binary-files'', ''--exclude'', ''--include'', ''--label'', ''-e'', ''-m'', ''-A'', ''-B'', ''-C'', ''-D'']
         [''--file'', ''--exclude-from'', ''--dereference-recursive'', ''--directories'', ''--recursive'',
          ''-f'', ''-d'', ''-r'', ''-R'']),
      (''cut'', compileSafeBinProfile None (Some 0)
         [''--bytes'', ''--characters'', ''--fields'', ''--delimiter'', ''--output-delimiter'', ''-b'', ''-c'', ''-f'', ''-d''] []),
      (''sort'', compileSafeBinProfile None (Some 0)
         [''--key'', ''--field-separator'', ''--buffer-size'', ''--parallel'', ''--batch-size'', ''-k'', ''-t'', ''-S'']
         [''--compress-program'', ''--files0-from'', ''--output'', ''--random-source'', ''--temporary-directory'', ''-T'', ''-o'']),
      (''uniq'', compileSafeBinProfile None (Some 0)
         [''--skip-fields'', ''--skip-chars'', ''--check-chars'', ''--group'', ''-f'', ''-s'', ''-w''] []),
      (''head'', compileSafeBinProfile None (Some 0) [''--lines'', ''--bytes'', ''-n'', ''-c''] []),
      (''tail'', compileSafeBinProfile None (Some 0)
         [''--lines'', ''--bytes'', ''--sleep-interval'', ''--max-unchanged-stats'', ''--pid'', ''-n'', ''-c''] []),
      (''tr'', compileSafeBinProfile (Some 1) (Some 2) [] []),
      (''wc'', compileSafeBinProfile None (Some 0) [] [''--files0-from''])]"

subsection \<open>Tokens of an argument list\<close>

datatype exec_token =
    TokEmpty
  | TokTerminator
  | TokStdin
  | TokPositional
  | TokLong string "string option"
  | TokCluster string

definition parseExecArgvToken :: "string \<Rightarrow> exec_token" where
  "parseExecArgvToken raw =
     (if raw = [] then TokEmpty
      else if raw = ''--'' then TokTerminator
      else if raw = ''-'' then TokStdin
      else if \<not> prefix ''-'' raw then TokPositional
      else if prefix ''--'' raw
      then (if CHR ''='' \<in> set raw
            then TokLong (flag_of raw) (Some (drop 1 (dropWhile (\<lambda>c. c \<noteq> CHR ''='') raw)))
            else TokLong raw None)
      else TokCluster (drop 1 raw))"

definition isPathLikeToken :: "string \<Rightarrow> bool" where
  "isPathLikeToken value =
     (let trimmed = js_trim value in
      if trimmed = [] \<or> trimmed = ''-'' then False
      else prefix ''./'' trimmed \<or> prefix ''../'' trimmed \<or> prefix ''~'' trimmed \<or> prefix ''/'' trimmed \<or>
        (length trimmed \<ge> 3 \<and> is_ascii_letter (trimmed ! 0) \<and> trimmed ! 1 = CHR '':'' \<and>
         trimmed ! 2 \<in> {CHR ''/'', ch_backslash}))"

definition hasGlobToken :: "string \<Rightarrow> bool" where
  "hasGlobToken value = (set value \<inter> {CHR ''*'', CHR ''?'', CHR ''['', CHR '']''} \<noteq> {})"

definition isSafeLiteralToken :: "string \<Rightarrow> bool" where
  "isSafeLiteralToken value = (value = [] \<or> value = ''-'' \<or> (\<not> hasGlobToken value \<and> \<not> isPathLikeToken value))"

definition isInvalidValueToken :: "string list \<Rightarrow> bool" where
  "isInvalidValueToken rest = (case rest of [] \<Rightarrow> True | v # _ \<Rightarrow> v = [] \<or> \<not> isSafeLiteralToken v)"

definition resolveCanonicalLongFlag :: "safe_bin_profile \<Rightarrow> string \<Rightarrow> string option" where
  "resolveCanonicalLongFlag profile flag =
     (if \<not> prefix ''--'' flag \<or> length flag \<le> 2 then None
      else if flag \<in> set (sp_knownLongFlags profile) then Some flag
      else js_or_else (jm_get (sp_longFlagPrefixMap profile) flag) None)"

text \<open>How many arguments an option takes, itself included; \<open>None\<close> where the source returns \<open>-1\<close>.\<close>

definition consumeLongOptionToken :: "safe_bin_profile \<Rightarrow> string \<Rightarrow> string option \<Rightarrow> string list \<Rightarrow> nat option" where
  "consumeLongOptionToken profile flag inlineValue rest =
     (case resolveCanonicalLongFlag profile flag of
        None \<Rightarrow> None
      | Some canonicalFlag \<Rightarrow>
          if canonicalFlag \<in> set (sp_deniedFlags profile) then None
          else let expectsValue = canonicalFlag \<in> set (sp_allowedValueFlags profile) in
            case inlineValue of
              Some v \<Rightarrow> if \<not> expectsValue then None else if isSafeLiteralToken v then Some 1 else None
            | None \<Rightarrow> if \<not> expectsValue then Some 1 else if isInvalidValueToken rest then None else Some 2)"

fun consume_cluster :: "safe_bin_profile \<Rightarrow> string \<Rightarrow> string list \<Rightarrow> nat option" where
  "consume_cluster profile [] rest = None"
| "consume_cluster profile (c # inlineValue) rest =
     (let flag = [CHR ''-'', c] in
      if flag \<in> set (sp_deniedFlags profile) then None
      else if flag \<notin> set (sp_allowedValueFlags profile) then consume_cluster profile inlineValue rest
      else if inlineValue \<noteq> [] then (if isSafeLiteralToken inlineValue then Some 1 else None)
      else if isInvalidValueToken rest then None else Some 2)"

definition consumePositionalToken :: "string \<Rightarrow> string list \<Rightarrow> string list option" where
  "consumePositionalToken token positional = (if isSafeLiteralToken token then Some (positional @ [token]) else None)"

fun collect_after_terminator :: "string list \<Rightarrow> string list \<Rightarrow> string list option" where
  "collect_after_terminator positional [] = Some positional"
| "collect_after_terminator positional (a # rest) =
     (if a = [] \<or> a = ''-'' then collect_after_terminator positional rest
      else Option.bind (consumePositionalToken a positional) (\<lambda>p. collect_after_terminator p rest))"

function collect_positional :: "safe_bin_profile \<Rightarrow> string list \<Rightarrow> string list \<Rightarrow> string list option" where
  "collect_positional profile positional [] = Some positional"
| "collect_positional profile positional (a # rest) =
     (let options = (\<lambda>used. case used of
                       None \<Rightarrow> None | Some n \<Rightarrow> collect_positional profile positional (drop (n - 1) rest))
      in case parseExecArgvToken a of
           TokEmpty \<Rightarrow> collect_positional profile positional rest
         | TokStdin \<Rightarrow> collect_positional profile positional rest
         | TokTerminator \<Rightarrow> collect_after_terminator positional rest
         | TokPositional \<Rightarrow>
             (case consumePositionalToken a positional of None \<Rightarrow> None | Some p \<Rightarrow> collect_positional profile p rest)
         | TokLong flag inlineValue \<Rightarrow> options (consumeLongOptionToken profile flag inlineValue rest)
         | TokCluster cluster \<Rightarrow> options (consume_cluster profile cluster rest))"
  by pat_completeness auto

termination
  by (relation "measure (\<lambda>(_, _, args). length args)") auto

declare collect_positional.simps(2) [simp del]

definition collectPositionalTokens :: "string list \<Rightarrow> safe_bin_profile \<Rightarrow> string list option" where
  "collectPositionalTokens args profile = collect_positional profile [] args"

definition validatePositionalCount :: "string list \<Rightarrow> safe_bin_profile \<Rightarrow> bool" where
  "validatePositionalCount positional profile =
     (js_or_else (sp_minPositional profile) 0 \<le> length positional \<and>
      (case sp_maxPositional profile of None \<Rightarrow> True | Some m \<Rightarrow> length positional \<le> m))"

subsection \<open>Programs with their own rules\<close>

text \<open>\<open>/(^|[^.$A-Za-z0-9_])env([^A-Za-z0-9_]|$)/\<close> and \<open>/\$ENV\b/\<close>.\<close>

fun jq_env_filter :: "char option \<Rightarrow> string \<Rightarrow> bool" where
  "jq_env_filter prev [] = False"
| "jq_env_filter prev (c # rest) =
     ((prefix ''env'' (c # rest) \<and> (case prev of None \<Rightarrow> True | Some p \<Rightarrow> p \<notin> {CHR ''.'', ch_dollar} \<and> \<not> is_name_char p) \<and>
       (case peek (drop 2 rest) of None \<Rightarrow> True | Some n \<Rightarrow> \<not> is_name_char n)) \<or>
      jq_env_filter (Some c) rest)"

fun jq_env_variable :: "string \<Rightarrow> bool" where
  "jq_env_variable [] = False"
| "jq_env_variable (c # rest) =
     ((c = ch_dollar \<and> prefix ''ENV'' rest \<and> (case peek (drop 3 rest) of None \<Rightarrow> True | Some n \<Rightarrow> \<not> is_name_char n)) \<or>
      jq_env_variable rest)"

definition normalizeSafeBinName :: "string \<Rightarrow> string" where
  "normalizeSafeBinName raw =
     (let trimmed = normalizeLowercaseStringOrEmpty (JStr raw) in
      if trimmed = [] then [] else stripWindowsExecutableSuffix (last (js_split CHR ''/'' (slashed trimmed))))"

definition validateSafeBinSemantics :: "string \<Rightarrow> string list \<Rightarrow> bool" where
  "validateSafeBinSemantics binName positional =
     (let bin = normalizeSafeBinName binName in
      if bin = ''jq'' then \<not> list_ex (\<lambda>t. jq_env_filter None t \<or> jq_env_variable t) positional
      else bin \<notin> {''awk'', ''gawk'', ''mawk'', ''nawk'', ''sed'', ''gsed''})"

definition validateSafeBinArgv :: "string list \<Rightarrow> safe_bin_profile \<Rightarrow> string \<Rightarrow> bool" where
  "validateSafeBinArgv args profile binName =
     (case collectPositionalTokens args profile of
        None \<Rightarrow> False
      | Some positional \<Rightarrow> validatePositionalCount positional profile \<and> validateSafeBinSemantics binName positional)"

subsection \<open>Trusted directories\<close>

definition DEFAULT_SAFE_BIN_TRUSTED_DIRS :: "string list" where
  "DEFAULT_SAFE_BIN_TRUSTED_DIRS = [''/bin'', ''/usr/bin'']"

definition normalizeTrustedSafeBinDirs :: "string list \<Rightarrow> string list" where
  "normalizeTrustedSafeBinDirs entries = js_unique (filter (\<lambda>e. e \<noteq> []) (map js_trim entries))"

definition buildTrustedSafeBinDirs :: "string \<Rightarrow> string list \<Rightarrow> string list \<Rightarrow> string list" where
  "buildTrustedSafeBinDirs cwd baseDirs extraDirs =
     js_unique (map (\<lambda>d. path_resolve cwd [d]) (normalizeTrustedSafeBinDirs baseDirs @ normalizeTrustedSafeBinDirs extraDirs))"

definition isTrustedSafeBinPath :: "string \<Rightarrow> string list \<Rightarrow> string \<Rightarrow> bool" where
  "isTrustedSafeBinPath cwd trustedDirs resolvedPath = (resolved_dirname cwd resolvedPath \<in> set trustedDirs)"

subsection \<open>Use of a safe program\<close>

definition normalizeSafeBins :: "string list \<Rightarrow> string list" where
  "normalizeSafeBins entries = js_unique (filter (\<lambda>e. e \<noteq> []) (map (\<lambda>e. normalizeLowercaseStringOrEmpty (JStr e)) entries))"

text \<open>The outer option is \<open>undefined\<close>, the inner one \<open>null\<close>.\<close>

definition resolveSafeBins :: "string list option option \<Rightarrow> string list" where
  "resolveSafeBins entries =
     (case entries of None \<Rightarrow> normalizeSafeBins DEFAULT_SAFE_BINS | Some e \<Rightarrow> normalizeSafeBins (js_or_else e []))"

definition isSafeBinUsage ::
  "machine \<Rightarrow> string list \<Rightarrow> (string \<times> safe_bin_profile) list \<Rightarrow> string list \<Rightarrow>
   string list \<Rightarrow> executable_resolution option \<Rightarrow> bool" where
  "isSafeBinUsage mc safeBins safeBinProfiles trustedDirs argv resolution =
     (\<not> isWindowsPlatform (mc_platform mc) \<and>
      (case resolution of
         None \<Rightarrow> False
       | Some r \<Rightarrow>
           let execName = normalizeLowercaseStringOrEmpty (JStr (er_executableName r)) in
           execName \<noteq> [] \<and> execName \<in> set safeBins \<and>
           (case er_resolvedPath r of None \<Rightarrow> False | Some p \<Rightarrow> isTrustedSafeBinPath (mc_cwd mc) trustedDirs p) \<and>
           (case map_of safeBinProfiles execName of
              None \<Rightarrow> False | Some profile \<Rightarrow> validateSafeBinArgv (drop 1 argv) profile execName)))"

end
