(* ===== verification/Exec_Allowlist.thy ===== *)
theory Exec_Allowlist
  imports Safe_Bins
begin

text \<open>
  Whether a command line is covered by the allowlist: \<open>src/infra/exec-approvals-allowlist.ts\<close> on hosts
  other than Windows, and \<open>src/infra/exec-inline-eval.ts\<close>. A command is covered segment by segment: by an
  entry of the allowlist, by the rules for safe programs, by a trusted program of a skill, or as the display
  prelude of a skill. Two mutually recursive functions of the source evaluate a shell's inline chain to a
  depth of three; here the evaluation of segments takes the evaluation of inline chains as an argument, and the
  remaining depth is a number.
\<close>

definition hasShellLineContinuation :: "string \<Rightarrow> bool" where
  "hasShellLineContinuation command =
     list_ex (\<lambda>(c, n). c = ch_backslash \<and> line_end n) (zip command (tl command))"

record allowlist_context =
  cx_allowlist :: "allowlist_entry list"
  cx_safeBins :: "string list"
  cx_safeBinProfiles :: "(string \<times> safe_bin_profile) list"
  cx_cwd :: "string option"
  cx_trustedSafeBinDirs :: "string list"
  cx_skillBins :: "(string \<times> string) list"
  cx_autoAllowSkills :: bool

record segments_evaluation =
  ev_satisfied :: bool
  ev_matches :: "allowlist_entry list"
  ev_entries :: "allowlist_entry option list"
  ev_by :: "satisfied_by option list"

subsection \<open>Programs of skills\<close>

definition normalizeSkillBinName :: "string \<Rightarrow> string option" where
  "normalizeSkillBinName value = normalizeOptionalLowercaseString (JStr value)"

definition normalizeSkillBinResolvedPath :: "machine \<Rightarrow> string \<Rightarrow> string option" where
  "normalizeSkillBinResolvedPath mc value =
     map_option (\<lambda>trimmed. path_resolve (mc_cwd mc) [trimmed]) (normalizeOptionalString (JStr value))"

definition buildSkillBinTrustIndex :: "machine \<Rightarrow> (string \<times> string) list \<Rightarrow> (string \<times> string) list" where
  "buildSkillBinTrustIndex mc entries =
     List.map_filter
       (\<lambda>(name, p). case (normalizeSkillBinName name, normalizeSkillBinResolvedPath mc p) of
                      (Some n, Some q) \<Rightarrow> Some (n, q) | _ \<Rightarrow> None) entries"

definition isSkillAutoAllowedSegment :: "machine \<Rightarrow> command_segment \<Rightarrow> bool \<Rightarrow> (string \<times> string) list \<Rightarrow> bool" where
  "isSkillAutoAllowedSegment mc segment allowSkills skillBinTrust =
     (allowSkills \<and>
      (case execution_of segment of
         None \<Rightarrow> False
       | Some execution \<Rightarrow>
           (case er_resolvedPath execution of
              None \<Rightarrow> False
            | Some resolvedPath \<Rightarrow>
                let rawExecutable = js_trim (er_rawExecutable execution) in
                rawExecutable \<noteq> [] \<and> \<not> has_separator rawExecutable \<and>
                (case (normalizeSkillBinName (er_executableName execution), normalizeSkillBinResolvedPath mc resolvedPath) of
                   (Some n, Some q) \<Rightarrow> (n, q) \<in> set skillBinTrust | _ \<Rightarrow> False))))"

definition resolveSkillPreludePath :: "machine \<Rightarrow> string \<Rightarrow> string option \<Rightarrow> string" where
  "resolveSkillPreludePath mc rawPath cwd =
     path_resolve (mc_cwd mc) [command_base mc cwd, expandHomePrefix (mc_home mc) rawPath]"

definition path_parts :: "string \<Rightarrow> string list" where
  "path_parts p = filter (\<lambda>c. c \<noteq> []) (js_split CHR ''/'' p)"

definition skill_markdown_path :: "string \<Rightarrow> string" where
  "skill_markdown_path filePath = normalizeLowercaseStringOrEmpty (JStr (slashed filePath))"

text \<open>A component \<open>skills\<close> with one or two components after it.\<close>

definition isSkillMarkdownPreludePath :: "string \<Rightarrow> bool" where
  "isSkillMarkdownPreludePath filePath =
     (let parts = path_parts (skill_markdown_path filePath) in
      suffix ''/skill.md'' (skill_markdown_path filePath) \<and> length parts \<ge> 2 \<and>
      list_ex (\<lambda>index. parts ! index = ''skills'' \<and> length parts - index - 1 \<in> {1, 2}) [0..<length parts - 1])"

definition resolveSkillMarkdownPreludeId :: "string \<Rightarrow> string option" where
  "resolveSkillMarkdownPreludeId filePath =
     (let parts = path_parts (skill_markdown_path filePath) in
      if \<not> suffix ''/skill.md'' (skill_markdown_path filePath) \<or> length parts < 3 then None
      else if parts ! (length parts - 3) = ''skills'' then non_empty (js_trim (parts ! (length parts - 2)))
      else None)"

definition segment_executable_name :: "command_segment \<Rightarrow> string" where
  "segment_executable_name segment =
     (case execution_of segment of
        None \<Rightarrow> [] | Some e \<Rightarrow> normalizeLowercaseStringOrEmpty (JStr (er_executableName e)))"

definition isSkillPreludeReadSegment :: "machine \<Rightarrow> command_segment \<Rightarrow> string option \<Rightarrow> bool" where
  "isSkillPreludeReadSegment mc segment cwd =
     (segment_executable_name segment = ''cat'' \<and> length (sg_argv segment) = 2 \<and> trimmed_at (sg_argv segment) 1 \<noteq> [] \<and>
      isSkillMarkdownPreludePath (resolveSkillPreludePath mc (trimmed_at (sg_argv segment) 1) cwd))"

definition isSkillPreludeMarkerSegment :: "command_segment \<Rightarrow> bool" where
  "isSkillPreludeMarkerSegment segment =
     (segment_executable_name segment = ''printf'' \<and> length (sg_argv segment) = 2 \<and>
      sg_argv segment ! 1 \<in> {[ch_backslash] @ ''n---CMD---'' @ [ch_backslash] @ ''n'', [ch_newline] @ ''---CMD---'' @ [ch_newline]})"

definition isSkillPreludeSegment :: "machine \<Rightarrow> command_segment \<Rightarrow> string option \<Rightarrow> bool" where
  "isSkillPreludeSegment mc segment cwd = (isSkillPreludeReadSegment mc segment cwd \<or> isSkillPreludeMarkerSegment segment)"

definition isSkillPreludeOnlyEvaluation :: "machine \<Rightarrow> command_segment list \<Rightarrow> string option \<Rightarrow> bool" where
  "isSkillPreludeOnlyEvaluation mc segments cwd = (segments \<noteq> [] \<and> list_all (\<lambda>s. isSkillPreludeSegment mc s cwd) segments)"

definition resolveSkillPreludeIds :: "machine \<Rightarrow> command_segment list \<Rightarrow> string option \<Rightarrow> string list" where
  "resolveSkillPreludeIds mc segments cwd =
     List.map_filter
       (\<lambda>segment. if isSkillPreludeReadSegment mc segment cwd
                  then resolveSkillMarkdownPreludeId (resolveSkillPreludePath mc (trimmed_at (sg_argv segment) 1) cwd)
                  else None) segments"

definition resolveAllowlistedSkillWrapperId :: "command_segment \<Rightarrow> string option" where
  "resolveAllowlistedSkillWrapperId segment =
     (let executableName = normalizeExecutableToken
            (case execution_of segment of Some e \<Rightarrow> er_executableName e
             | None \<Rightarrow> if sg_argv segment = [] then [] else hd (sg_argv segment))
      in if \<not> suffix ''-wrapper'' executableName then None
         else non_empty (js_trim (take (length executableName - length ''-wrapper'') executableName)))"

fun trusted_skill_ids :: "command_segment list \<Rightarrow> satisfied_by option list \<Rightarrow> string list" where
  "trusted_skill_ids [] bys = []"
| "trusted_skill_ids (segment # segments) bys =
     (let rest = trusted_skill_ids segments (drop 1 bys);
          executableName = normalizeExecutableToken
            (case execution_of segment of Some e \<Rightarrow> er_executableName e
             | None \<Rightarrow> if sg_argv segment = [] then [] else hd (sg_argv segment))
      in case bys of
           Some BySkills # _ \<Rightarrow> (if executableName \<noteq> [] then executableName # rest else rest)
         | Some ByAllowlist # _ \<Rightarrow>
             (case resolveAllowlistedSkillWrapperId segment of Some skillId \<Rightarrow> skillId # rest | None \<Rightarrow> rest)
         | _ \<Rightarrow> rest)"

definition resolveTrustedSkillExecutionIds :: "command_segment list \<Rightarrow> segments_evaluation \<Rightarrow> string list" where
  "resolveTrustedSkillExecutionIds segments evaluation =
     (if ev_satisfied evaluation then trusted_skill_ids segments (ev_by evaluation) else [])"

subsection \<open>Scripts and carried commands of a shell\<close>

definition hasSegmentExecutableMatch :: "command_segment \<Rightarrow> (string \<Rightarrow> bool) \<Rightarrow> bool" where
  "hasSegmentExecutableMatch segment test =
     list_ex (\<lambda>candidate. js_trim candidate \<noteq> [] \<and> test (js_trim candidate))
       ((case execution_of segment of None \<Rightarrow> [] | Some e \<Rightarrow> [er_executableName e, er_rawExecutable e]) @ take 1 (sg_argv segment))"

definition isShellWrapperSegment :: "command_segment \<Rightarrow> bool" where
  "isShellWrapperSegment segment = hasSegmentExecutableMatch segment isShellWrapperExecutable"

definition SHELL_WRAPPER_OPTIONS_WITH_VALUE :: "string list" where
  "SHELL_WRAPPER_OPTIONS_WITH_VALUE = [''-c'', ''--command'', ''-o'', ''-O'', ''+O'']"

definition SHELL_WRAPPER_DISQUALIFYING_SCRIPT_OPTIONS :: "string list" where
  "SHELL_WRAPPER_DISQUALIFYING_SCRIPT_OPTIONS = [''--rcfile'', ''--init-file'', ''--startup-file'']"

definition hasDisqualifyingShellWrapperScriptOption :: "string \<Rightarrow> bool" where
  "hasDisqualifyingShellWrapperScriptOption token =
     list_ex (\<lambda>option. token = option \<or> prefix (option @ ''='') token) SHELL_WRAPPER_DISQUALIFYING_SCRIPT_OPTIONS"

definition POWERSHELL_OPTIONS_WITH_VALUE :: "string list" where
  "POWERSHELL_OPTIONS_WITH_VALUE = map (\<lambda>n. CHR ''-'' # n)
     [''executionpolicy'', ''ep'', ''windowstyle'', ''w'', ''workingdirectory'', ''wd'', ''inputformat'', ''outputformat'',
      ''settingsfile'', ''configurationfile'', ''version'', ''v'', ''psconsolefile'', ''pscf'', ''encodedcommand'', ''en'',
      ''enc'', ''encodedarguments'', ''ea'']"

text \<open>The arguments from the script on; \<open>None\<close> when an option rules a script out.\<close>

fun script_scan :: "bool \<Rightarrow> string list \<Rightarrow> string list option" where
  "script_scan isPowerShell [] = Some []"
| "script_scan isPowerShell (arg # rest) =
     (let token = js_trim arg in
      if token = [] then script_scan isPowerShell rest
      else if token = ''--'' then Some rest
      else if token = ''-c'' \<or> token = ''--command'' then None
      else if \<not> isPowerShell \<and> is_cluster_with CHR ''c'' token then None
      else if token = ''-s'' \<or> (\<not> isPowerShell \<and> is_cluster_with CHR ''s'' token) then None
      else if hasDisqualifyingShellWrapperScriptOption token then None
      else if token \<in> set SHELL_WRAPPER_OPTIONS_WITH_VALUE \<or>
              (isPowerShell \<and> js_lower token \<in> set POWERSHELL_OPTIONS_WITH_VALUE)
      then script_scan isPowerShell (drop 1 rest)
      else if prefix ''-'' token \<or> prefix ''+'' token then script_scan isPowerShell rest
      else Some (arg # rest))"

definition resolveShellWrapperScriptCandidatePath :: "machine \<Rightarrow> command_segment \<Rightarrow> string option \<Rightarrow> string option" where
  "resolveShellWrapperScriptCandidatePath mc segment cwd =
     (let argv = sg_argv segment in
      if \<not> isShellWrapperSegment segment \<or> length argv < 2 then None
      else case script_scan (normalizeExecutableToken (hd argv) \<in> set POWERSHELL_WRAPPER_NAMES) (drop 1 argv) of
             None \<Rightarrow> None
           | Some rest \<Rightarrow>
               let scriptToken = trimmed_at rest 0 in
               if scriptToken = [] then None
               else if path_isAbsolute scriptToken then Some scriptToken
               else Some (path_resolve (mc_cwd mc)
                 [(case cwd of Some c \<Rightarrow> if js_trim c \<noteq> [] then c else mc_cwd mc | None \<Rightarrow> mc_cwd mc),
                  expandHomePrefix (mc_home mc) scriptToken]))"

text \<open>
  \<open>isDirectShellPositionalCarrierInvocation\<close>: \<open>$0\<close> with positional arguments, after an optional
  \<open>exec\<close>. The words of its regular expression stand between blanks that are not line ends.
\<close>

fun blank_words :: "string \<Rightarrow> string list" where
  "blank_words [] = []"
| "blank_words (c # cs) =
     (let blank = (\<lambda>c. js_is_space c \<and> \<not> line_end c) in
      if blank c then blank_words cs
      else (case cs of
              [] \<Rightarrow> [[c]]
            | d # _ \<Rightarrow> if blank d then [c] # blank_words cs
                      else (case blank_words cs of [] \<Rightarrow> [[c]] | w # ws \<Rightarrow> (c # w) # ws)))"

definition quoted_or_bare :: "string list \<Rightarrow> string list" where
  "quoted_or_bare ws = ws @ map (\<lambda>w. [ch_dquote] @ w @ [ch_dquote]) ws"

definition POSITIONAL_ZERO_WORDS :: "string list" where
  "POSITIONAL_ZERO_WORDS = quoted_or_bare [''$0'', ''${0}'']"

definition POSITIONAL_ARG_WORDS :: "string list" where
  "POSITIONAL_ARG_WORDS =
     quoted_or_bare (concat (map (\<lambda>c. [[ch_dollar, c], ''${'' @ [c] @ ''}'']) ''@*123456789''))"

definition isDirectShellPositionalCarrierInvocation :: "string \<Rightarrow> bool" where
  "isDirectShellPositionalCarrierInvocation command =
     (let ws = blank_words (js_trim command);
          after_exec = (if prefix [''exec''] ws
                        then (if prefix [''exec'', ''--''] ws then drop 2 ws else drop 1 ws) else ws)
      in case after_exec of
           [] \<Rightarrow> False
         | w # args \<Rightarrow> w \<in> set POSITIONAL_ZERO_WORDS \<and> list_all (\<lambda>a. a \<in> set POSITIONAL_ARG_WORDS) args)"

definition resolveShellWrapperPositionalArgvCandidatePath :: "machine \<Rightarrow> command_segment \<Rightarrow> string option \<Rightarrow> string option" where
  "resolveShellWrapperPositionalArgvCandidatePath mc segment cwd =
     (let argv = sg_argv segment in
      if \<not> isShellWrapperSegment segment \<or> length argv < 4 then None
      else if normalizeExecutableToken (hd argv) \<notin> set POSIX_SHELL_WRAPPER_NAMES then None
      else case resolveInlineCommandMatch argv POSIX_INLINE_COMMAND_FLAGS True of
             (Some command, Some valueTokenIndex) \<Rightarrow>
               if \<not> isDirectShellPositionalCarrierInvocation command then None
               else (case List.find (\<lambda>t. t \<noteq> []) (map js_trim (drop (valueTokenIndex + 1) argv)) of
                       None \<Rightarrow> None
                     | Some carriedExecutable \<Rightarrow>
                         let carriedName = normalizeExecutableToken carriedExecutable in
                         if isDispatchWrapperExecutable carriedName \<or> isShellWrapperExecutable carriedName then None
                         else resolveExecutionTargetCandidatePath mc cwd
                                (resolveCommandResolutionFromArgv mc cwd [carriedExecutable]))
           | _ \<Rightarrow> None)"

subsection \<open>One segment\<close>

definition path_resolution :: "string \<Rightarrow> executable_resolution" where
  "path_resolution p =
     \<lparr>er_rawExecutable = p, er_resolvedPath = Some p, er_resolvedRealPath = None, er_executableName = posix_basename p\<rparr>"

definition candidate_resolution :: "machine \<Rightarrow> string option \<Rightarrow> command_segment \<Rightarrow> executable_resolution option" where
  "candidate_resolution mc cwd segment =
     (case map_option cr_policy (sg_resolution segment) of
        None \<Rightarrow> None
      | Some r \<Rightarrow>
          (case resolvePolicyTargetCandidatePath mc cwd (sg_resolution segment) of
             None \<Rightarrow> Some r
           | Some p \<Rightarrow> Some (if p = [] then r else r\<lparr>er_resolvedPath := Some p\<rparr>)))"

text \<open>The inline command of the segment's shell and the entry that matches the segment.\<close>

definition resolveSegmentAllowlistMatch ::
  "machine \<Rightarrow> allowlist_context \<Rightarrow> command_segment \<Rightarrow> string option \<times> allowlist_entry option" where
  "resolveSegmentAllowlistMatch mc cx segment =
     (let allowlistSegment = segment\<lparr>sg_argv := effective_argv segment\<rparr>;
          match = matchAllowlist mc (cx_allowlist cx);
          inlineCommand = extractShellWrapperInlineCommand (mc_platform mc) (sg_argv allowlistSegment);
          isPositionalCarrier = (case inlineCommand of None \<Rightarrow> False | Some c \<Rightarrow> isDirectShellPositionalCarrierInvocation c);
          executableMatch = (if isPositionalCarrier then None else match (candidate_resolution mc (cx_cwd cx) segment));
          shellPositionalArgvMatch =
            (case resolveShellWrapperPositionalArgvCandidatePath mc allowlistSegment (cx_cwd cx) of
               None \<Rightarrow> None | Some p \<Rightarrow> match (Some (path_resolution p)));
          shellScriptMatch =
            (if inlineCommand \<noteq> None then None
             else case resolveShellWrapperScriptCandidatePath mc allowlistSegment (cx_cwd cx) of
                    None \<Rightarrow> None | Some p \<Rightarrow> match (Some (path_resolution p)))
      in (inlineCommand, js_alt executableMatch (js_alt shellPositionalArgvMatch shellScriptMatch)))"

definition allow_skills :: "machine \<Rightarrow> allowlist_context \<Rightarrow> bool" where
  "allow_skills mc cx = (cx_autoAllowSkills cx \<and> buildSkillBinTrustIndex mc (cx_skillBins cx) \<noteq> [])"

definition resolveSegmentSatisfaction ::
  "machine \<Rightarrow> allowlist_context \<Rightarrow> allowlist_entry option \<Rightarrow> command_segment \<Rightarrow> satisfied_by option" where
  "resolveSegmentSatisfaction mc cx match segment =
     (if match \<noteq> None then Some ByAllowlist
      else if isSafeBinUsage mc (cx_safeBins cx) (cx_safeBinProfiles cx) (cx_trustedSafeBinDirs cx)
                (effective_argv segment) (execution_of segment) then Some BySafeBins
      else if isSkillAutoAllowedSegment mc segment (allow_skills mc cx) (buildSkillBinTrustIndex mc (cx_skillBins cx))
      then Some BySkills else None)"

subsection \<open>All segments\<close>

text \<open>\<open>segments.every(...)\<close>: stops at the first segment that is not satisfied, which it has recorded.\<close>

fun evaluate_segments ::
  "(string \<Rightarrow> allowlist_entry list option) \<Rightarrow> machine \<Rightarrow> allowlist_context \<Rightarrow> command_segment list \<Rightarrow> segments_evaluation" where
  "evaluate_segments inline mc cx [] = \<lparr>ev_satisfied = True, ev_matches = [], ev_entries = [], ev_by = []\<rparr>"
| "evaluate_segments inline mc cx (segment # segments) =
     (if policy_blocked segment
      then \<lparr>ev_satisfied = False, ev_matches = [], ev_entries = [None], ev_by = [None]\<rparr>
      else let (inlineCommand, match) = resolveSegmentAllowlistMatch mc cx segment;
               own_matches = (case match of None \<Rightarrow> [] | Some m \<Rightarrow> [m]);
               by = resolveSegmentSatisfaction mc cx match segment;
               inlineResult = (if by \<noteq> None then None else Option.bind inlineCommand inline);
               found = (case inlineResult of Some matches \<Rightarrow> own_matches @ matches | None \<Rightarrow> own_matches);
               shown = (case inlineResult of Some _ \<Rightarrow> Some ByAllowlist | None \<Rightarrow> by)
           in if shown = None
              then \<lparr>ev_satisfied = False, ev_matches = found, ev_entries = [match], ev_by = [None]\<rparr>
              else let rest = evaluate_segments inline mc cx segments
                   in \<lparr>ev_satisfied = ev_satisfied rest, ev_matches = found @ ev_matches rest,
                       ev_entries = match # ev_entries rest, ev_by = shown # ev_by rest\<rparr>)"

fun inline_parts ::
  "(string \<Rightarrow> allowlist_entry list option) \<Rightarrow> machine \<Rightarrow> allowlist_context \<Rightarrow> string list \<Rightarrow> allowlist_entry list option" where
  "inline_parts inline mc cx [] = Some []"
| "inline_parts inline mc cx (part # parts) =
     (case analyzeShellCommand mc (cx_cwd cx) part of
        Inl _ \<Rightarrow> None
      | Inr analysis \<Rightarrow>
          let result = evaluate_segments inline mc cx (an_segments analysis) in
          if \<not> ev_satisfied result then None
          else map_option (\<lambda>matches. ev_matches result @ matches) (inline_parts inline mc cx parts))"

definition MAX_SHELL_WRAPPER_INLINE_EVAL_DEPTH :: nat where
  "MAX_SHELL_WRAPPER_INLINE_EVAL_DEPTH = 3"

text \<open>\<open>evaluateShellWrapperInlineChain\<close> with this many levels left.\<close>

fun inline_chain :: "nat \<Rightarrow> machine \<Rightarrow> allowlist_context \<Rightarrow> string \<Rightarrow> allowlist_entry list option" where
  "inline_chain 0 mc cx inlineCommand = None"
| "inline_chain (Suc levels) mc cx inlineCommand =
     (if isWindowsPlatform (mc_platform mc) then None
      else case splitCommandChain inlineCommand of
             None \<Rightarrow> None
           | Some chainParts \<Rightarrow>
               if length chainParts \<le> 1 then None else inline_parts (inline_chain levels mc cx) mc cx chainParts)"

definition evaluateSegments :: "machine \<Rightarrow> allowlist_context \<Rightarrow> command_segment list \<Rightarrow> segments_evaluation" where
  "evaluateSegments mc cx segments =
     evaluate_segments (inline_chain (MAX_SHELL_WRAPPER_INLINE_EVAL_DEPTH - 1) mc cx) mc cx segments"

definition nothing_satisfied :: segments_evaluation where
  "nothing_satisfied = \<lparr>ev_satisfied = False, ev_matches = [], ev_entries = [], ev_by = []\<rparr>"

fun evaluate_groups :: "machine \<Rightarrow> allowlist_context \<Rightarrow> bool \<Rightarrow> command_segment list list \<Rightarrow> segments_evaluation" where
  "evaluate_groups mc cx hasChains [] = \<lparr>ev_satisfied = True, ev_matches = [], ev_entries = [], ev_by = []\<rparr>"
| "evaluate_groups mc cx hasChains (grp # groups) =
     (let result = evaluateSegments mc cx grp in
      if \<not> ev_satisfied result then (if hasChains then nothing_satisfied else result)
      else let rest = evaluate_groups mc cx hasChains groups in
        if \<not> ev_satisfied rest then nothing_satisfied
        else \<lparr>ev_satisfied = True, ev_matches = ev_matches result @ ev_matches rest,
              ev_entries = ev_entries result @ ev_entries rest, ev_by = ev_by result @ ev_by rest\<rparr>)"

definition evaluateExecAllowlist :: "machine \<Rightarrow> allowlist_context \<Rightarrow> command_analysis fallible \<Rightarrow> segments_evaluation" where
  "evaluateExecAllowlist mc cx analysis =
     (case analysis of
        Inl _ \<Rightarrow> nothing_satisfied
      | Inr a \<Rightarrow>
          if an_segments a = [] then nothing_satisfied
          else evaluate_groups mc cx (an_chains a \<noteq> None) (js_or_else (an_chains a) [an_segments a]))"

subsection \<open>A shell command line\<close>

record allowlist_analysis =
  aa_analysisOk :: bool
  aa_segments :: "command_segment list"
  aa_evaluation :: segments_evaluation

definition analysisFailure :: allowlist_analysis where
  "analysisFailure = \<lparr>aa_analysisOk = False, aa_segments = [], aa_evaluation = nothing_satisfied\<rparr>"

type_synonym part_evaluation = "command_segment list \<times> segments_evaluation \<times> chain_operator option"

fun evaluate_chain ::
  "machine \<Rightarrow> allowlist_context \<Rightarrow> (string \<times> chain_operator option) list \<Rightarrow> part_evaluation list option" where
  "evaluate_chain mc cx [] = Some []"
| "evaluate_chain mc cx ((part, opToNext) # parts) =
     (case analyzeShellCommand mc (cx_cwd cx) part of
        Inl _ \<Rightarrow> None
      | Inr analysis \<Rightarrow>
          map_option (\<lambda>rest. (an_segments analysis, evaluateExecAllowlist mc cx (Inr analysis), opToNext) # rest)
            (evaluate_chain mc cx parts))"

text \<open>From the last part to the first: which parts are a display prelude, and the skills a prelude may reach.\<close>

fun prelude_flags :: "machine \<Rightarrow> string option \<Rightarrow> part_evaluation list \<Rightarrow> bool list \<times> string list" where
  "prelude_flags mc cwd [] = ([], [])"
| "prelude_flags mc cwd ((segments, evaluation, opToNext) # parts) =
     (let (flags, reachableSkillIds) = prelude_flags mc cwd parts;
          trustedSkillIds = resolveTrustedSkillExecutionIds segments evaluation;
          isPreludeOnly = \<not> ev_satisfied evaluation \<and> isSkillPreludeOnlyEvaluation mc segments cwd;
          preludeSkillIds = (if isPreludeOnly then resolveSkillPreludeIds mc segments cwd else []);
          reaches = opToNext = Some AndIf \<and>
            (if preludeSkillIds = [] then reachableSkillIds \<noteq> []
             else list_ex (\<lambda>skillId. skillId \<in> set reachableSkillIds) preludeSkillIds)
      in if trustedSkillIds \<noteq> [] then (False # flags, reachableSkillIds @ trustedSkillIds)
         else if isPreludeOnly \<and> reaches then (True # flags, reachableSkillIds)
         else (False # flags, []))"

fun collect_parts :: "part_evaluation list \<Rightarrow> bool list \<Rightarrow> command_segment list \<times> segments_evaluation" where
  "collect_parts [] flags = ([], \<lparr>ev_satisfied = True, ev_matches = [], ev_entries = [], ev_by = []\<rparr>)"
| "collect_parts ((segments, evaluation, _) # parts) flags =
     (let prelude = flags \<noteq> [] \<and> hd flags;
          own = evaluation\<lparr>ev_by := (if prelude then map (\<lambda>_. Some BySkillPrelude) segments else ev_by evaluation),
                           ev_entries := (if prelude then map (\<lambda>_. None) segments else ev_entries evaluation)\<rparr>
      in if \<not> ev_satisfied evaluation \<and> \<not> prelude then (segments, own\<lparr>ev_satisfied := False\<rparr>)
         else let (more_segments, rest) = collect_parts parts (drop 1 flags)
              in (segments @ more_segments,
                  \<lparr>ev_satisfied = ev_satisfied rest, ev_matches = ev_matches own @ ev_matches rest,
                   ev_entries = ev_entries own @ ev_entries rest, ev_by = ev_by own @ ev_by rest\<rparr>))"

definition evaluateShellAllowlist :: "machine \<Rightarrow> allowlist_context \<Rightarrow> string \<Rightarrow> allowlist_analysis" where
  "evaluateShellAllowlist mc cx command =
     (if hasShellLineContinuation command then analysisFailure
      else case splitCommandChainWithOperators command of
             None \<Rightarrow>
               (case analyzeShellCommand mc (cx_cwd cx) command of
                  Inl _ \<Rightarrow> analysisFailure
                | Inr analysis \<Rightarrow>
                    \<lparr>aa_analysisOk = True, aa_segments = an_segments analysis,
                     aa_evaluation = evaluateExecAllowlist mc cx (Inr analysis)\<rparr>)
           | Some chainParts \<Rightarrow>
               (case evaluate_chain mc cx chainParts of
                  None \<Rightarrow> analysisFailure
                | Some parts \<Rightarrow>
                    let (segments, evaluation) = collect_parts parts (fst (prelude_flags mc (cx_cwd cx) parts))
                    in \<lparr>aa_analysisOk = True, aa_segments = segments, aa_evaluation = evaluation\<rparr>))"

end
