(* ===== verification/Exec_Policy.thy ===== *)
theory Exec_Policy
  imports Exec_Allowlist Session_Keys
begin

text \<open>
  The approvals file and the decisions taken with it: \<open>src/infra/exec-approvals.ts\<close>,
  \<open>src/node-host/exec-policy.ts\<close>, \<open>src/node-host/invoke-system-run-allowlist.ts\<close>, and of the gateway's host
  of the exec tool \<open>src/agents/bash-tools.exec-host-gateway.ts\<close> and
  \<open>bash-tools.exec-host-shared.ts\<close>. The file is a value; an operation that saves it returns the new one. A
  policy field of the file may hold anything, so it is a \<^typ>\<open>js_value\<close>. Random identifiers, the clock and
  the digest of a command are arguments. The socket of the file, its place on disk and the atomic write are
  outside the model.
\<close>

subsection \<open>Policy values\<close>

datatype exec_security = SecDeny | SecAllowlist | SecFull
datatype exec_ask = AskOff | AskOnMiss | AskAlways

definition security_of_text :: "string \<Rightarrow> exec_security option" where
  "security_of_text s =
     (if s = ''deny'' then Some SecDeny else if s = ''allowlist'' then Some SecAllowlist
      else if s = ''full'' then Some SecFull else None)"

definition ask_of_text :: "string \<Rightarrow> exec_ask option" where
  "ask_of_text s =
     (if s = ''off'' then Some AskOff else if s = ''on-miss'' then Some AskOnMiss
      else if s = ''always'' then Some AskAlways else None)"

definition security_text :: "exec_security \<Rightarrow> string" where
  "security_text s = (case s of SecDeny \<Rightarrow> ''deny'' | SecAllowlist \<Rightarrow> ''allowlist'' | SecFull \<Rightarrow> ''full'')"

definition ask_text :: "exec_ask \<Rightarrow> string" where
  "ask_text a = (case a of AskOff \<Rightarrow> ''off'' | AskOnMiss \<Rightarrow> ''on-miss'' | AskAlways \<Rightarrow> ''always'')"

definition normalizeExecSecurity :: "js_value \<Rightarrow> exec_security option" where
  "normalizeExecSecurity value = Option.bind (normalizeOptionalLowercaseString value) security_of_text"

definition normalizeExecAsk :: "js_value \<Rightarrow> exec_ask option" where
  "normalizeExecAsk value = Option.bind (normalizeOptionalLowercaseString value) ask_of_text"

text \<open>\<open>isExecSecurity\<close> and \<open>isExecAsk\<close>: the value, when the test holds.\<close>

definition isExecSecurity :: "js_value \<Rightarrow> exec_security option" where
  "isExecSecurity value = Option.bind (readStringValue value) security_of_text"

definition isExecAsk :: "js_value \<Rightarrow> exec_ask option" where
  "isExecAsk value = Option.bind (readStringValue value) ask_of_text"

definition security_rank :: "exec_security \<Rightarrow> nat" where
  "security_rank s = (case s of SecDeny \<Rightarrow> 0 | SecAllowlist \<Rightarrow> 1 | SecFull \<Rightarrow> 2)"

definition ask_rank :: "exec_ask \<Rightarrow> nat" where
  "ask_rank a = (case a of AskOff \<Rightarrow> 0 | AskOnMiss \<Rightarrow> 1 | AskAlways \<Rightarrow> 2)"

definition minSecurity :: "exec_security \<Rightarrow> exec_security \<Rightarrow> exec_security" where
  "minSecurity a b = (if security_rank a \<le> security_rank b then a else b)"

definition maxAsk :: "exec_ask \<Rightarrow> exec_ask \<Rightarrow> exec_ask" where
  "maxAsk a b = (if ask_rank a \<ge> ask_rank b then a else b)"

subsection \<open>The file\<close>

text \<open>An element of a stored allowlist: an entry, a bare string of an old file, or something else.\<close>

datatype allowlist_item = ItemEntry allowlist_entry | ItemString string | ItemInvalid

record approvals_agent =
  ag_security :: js_value
  ag_ask :: js_value
  ag_askFallback :: js_value
  ag_autoAllowSkills :: "bool option"
  ag_allowlist :: "allowlist_item list option"

type_synonym approvals_agents = "(string, approvals_agent) js_map"

record approvals_file =
  af_defaults :: approvals_agent
  af_agents :: approvals_agents

definition no_agent :: approvals_agent where
  "no_agent = \<lparr>ag_security = JUndef, ag_ask = JUndef, ag_askFallback = JUndef, ag_autoAllowSkills = None, ag_allowlist = None\<rparr>"

definition bare_entry :: "string \<Rightarrow> allowlist_entry" where
  "bare_entry pattern =
     \<lparr>al_id = None, al_pattern = pattern, al_allowAlways = False, al_commandText = None, al_argPattern = None,
      al_lastUsedAt = None, al_lastUsedCommand = None, al_lastResolvedPath = None\<rparr>"

definition normalizeAllowlistPattern :: "string \<Rightarrow> string option" where
  "normalizeAllowlistPattern value = non_empty (js_lower (js_trim value))"

definition merge_key :: "allowlist_entry \<Rightarrow> string \<times> string" where
  "merge_key entry = (js_lower (js_trim (al_pattern entry)), js_trim (js_or_else (al_argPattern entry) []))"

text \<open>The entries that \<open>pushEntry\<close> keeps: those with a pattern, the first one for each key.\<close>

fun push_entries :: "(string \<times> string) list \<Rightarrow> allowlist_item list \<Rightarrow> allowlist_item list" where
  "push_entries seen [] = []"
| "push_entries seen (ItemEntry entry # items) =
     (if normalizeAllowlistPattern (al_pattern entry) = None \<or> merge_key entry \<in> set seen then push_entries seen items
      else ItemEntry entry # push_entries (merge_key entry # seen) items)"
| "push_entries seen (_ # items) = push_entries seen items"

definition js_nullish :: "js_value \<Rightarrow> js_value \<Rightarrow> js_value" where
  "js_nullish a b = (if a = JUndef \<or> a = JNull then b else a)"

definition mergeLegacyAgent :: "approvals_agent \<Rightarrow> approvals_agent \<Rightarrow> approvals_agent" where
  "mergeLegacyAgent current legacy =
     (let allowlist = push_entries [] (js_or_else (ag_allowlist current) [] @ js_or_else (ag_allowlist legacy) []) in
      \<lparr>ag_security = js_nullish (ag_security current) (ag_security legacy),
       ag_ask = js_nullish (ag_ask current) (ag_ask legacy),
       ag_askFallback = js_nullish (ag_askFallback current) (ag_askFallback legacy),
       ag_autoAllowSkills = js_alt (ag_autoAllowSkills current) (ag_autoAllowSkills legacy),
       ag_allowlist = (if allowlist \<noteq> [] then Some allowlist else None)\<rparr>)"

definition valid_item :: "allowlist_item \<Rightarrow> allowlist_item option" where
  "valid_item item =
     (case item of
        ItemEntry e \<Rightarrow> if js_trim (al_pattern e) \<noteq> [] then Some (ItemEntry e) else None
      | ItemString s \<Rightarrow> if js_trim s \<noteq> [] then Some (ItemEntry (bare_entry (js_trim s))) else None
      | ItemInvalid \<Rightarrow> None)"

definition coerceAllowlistEntries :: "allowlist_item list option \<Rightarrow> allowlist_item list option" where
  "coerceAllowlistEntries allowlist =
     (case allowlist of
        None \<Rightarrow> None
      | Some items \<Rightarrow>
          if items = [] then Some []
          else let result = List.map_filter valid_item items in if result \<noteq> [] then Some result else None)"

definition on_entry :: "(allowlist_entry \<Rightarrow> allowlist_entry) \<Rightarrow> allowlist_item \<Rightarrow> allowlist_item" where
  "on_entry f item = (case item of ItemEntry e \<Rightarrow> ItemEntry (f e) | _ \<Rightarrow> item)"

text \<open>An entry without an identifier gets the next random one.\<close>

definition ensureAllowlistIds :: "(nat \<Rightarrow> string) \<Rightarrow> allowlist_item list option \<Rightarrow> allowlist_item list option" where
  "ensureAllowlistIds randomUUID allowlist =
     map_option
       (\<lambda>items. map2 (\<lambda>n. on_entry (\<lambda>e. if js_truthy_str (al_id e) then e else e\<lparr>al_id := Some (randomUUID n)\<rparr>))
                  [0..<length items] items) allowlist"

definition stripAllowlistCommandText :: "allowlist_item list option \<Rightarrow> allowlist_item list option" where
  "stripAllowlistCommandText allowlist = map_option (map (on_entry (\<lambda>e. e\<lparr>al_commandText := None\<rparr>))) allowlist"

definition sanitized_field :: "(string \<Rightarrow> 'a option) \<Rightarrow> js_value \<Rightarrow> js_value" where
  "sanitized_field read value =
     (case map_option js_trim (readStringValue value) of
        None \<Rightarrow> JUndef | Some t \<Rightarrow> if read t \<noteq> None then JStr t else JUndef)"

definition sanitizeExecApprovalPolicy :: "approvals_agent \<Rightarrow> approvals_agent" where
  "sanitizeExecApprovalPolicy policy =
     \<lparr>ag_security = sanitized_field security_of_text (ag_security policy),
      ag_ask = sanitized_field ask_of_text (ag_ask policy),
      ag_askFallback = sanitized_field security_of_text (ag_askFallback policy),
      ag_autoAllowSkills = ag_autoAllowSkills policy, ag_allowlist = None\<rparr>"

definition normalize_agent :: "(nat \<Rightarrow> string) \<Rightarrow> approvals_agent \<Rightarrow> approvals_agent" where
  "normalize_agent randomUUID agent =
     (sanitizeExecApprovalPolicy agent)
       \<lparr>ag_allowlist := stripAllowlistCommandText (ensureAllowlistIds randomUUID (coerceAllowlistEntries (ag_allowlist agent)))\<rparr>"

definition normalizeExecApprovals :: "(string \<Rightarrow> nat \<Rightarrow> string) \<Rightarrow> approvals_file \<Rightarrow> approvals_file" where
  "normalizeExecApprovals randomUUID file =
     (let agents = af_agents file;
          agents1 = (case jm_get agents ''default'' of
                       None \<Rightarrow> agents
                     | Some legacyDefault \<Rightarrow>
                         jm_delete
                           (jm_set agents DEFAULT_AGENT_ID
                              (case jm_get agents DEFAULT_AGENT_ID of
                                 None \<Rightarrow> legacyDefault | Some main \<Rightarrow> mergeLegacyAgent main legacyDefault))
                           ''default'')
      in \<lparr>af_defaults = sanitizeExecApprovalPolicy (af_defaults file),
          af_agents = map (\<lambda>(key, agent). (key, normalize_agent (randomUUID key) agent)) agents1\<rparr>)"

subsection \<open>The policy in force\<close>

definition DEFAULT_SECURITY :: exec_security where "DEFAULT_SECURITY = SecFull"
definition DEFAULT_ASK :: exec_ask where "DEFAULT_ASK = AskOff"
definition DEFAULT_EXEC_APPROVAL_ASK_FALLBACK :: exec_security where "DEFAULT_EXEC_APPROVAL_ASK_FALLBACK = SecFull"

text \<open>An agent's own field, the field of \<open>*\<close>, the default: the first that was written decides where to look.\<close>

definition resolve_policy_field ::
  "(js_value \<Rightarrow> 'a option) \<Rightarrow> string \<Rightarrow> string \<Rightarrow> js_value \<Rightarrow> js_value \<Rightarrow> js_value \<Rightarrow> js_value \<Rightarrow> js_value \<Rightarrow> 'a \<Rightarrow>
   'a \<times> string option" where
  "resolve_policy_field read field agentKey defaultValue rawAgent agent rawWildcard wildcard fallback =
     (let fallbackField = (case read defaultValue of Some v \<Rightarrow> (v, Some (''defaults.'' @ field)) | None \<Rightarrow> (fallback, None)) in
      if js_nullish rawAgent JUndef \<noteq> JUndef
      then (case read agent of Some v \<Rightarrow> (v, Some (''agents.'' @ agentKey @ ''.'' @ field)) | None \<Rightarrow> fallbackField)
      else if js_nullish rawWildcard JUndef \<noteq> JUndef
      then (case read wildcard of Some v \<Rightarrow> (v, Some (''agents.*.'' @ field)) | None \<Rightarrow> fallbackField)
      else fallbackField)"

record policy_overrides =
  po_security :: "exec_security option"
  po_ask :: "exec_ask option"
  po_askFallback :: "exec_security option"
  po_autoAllowSkills :: "bool option"

record resolved_approvals =
  ra_security :: exec_security
  ra_ask :: exec_ask
  ra_askFallback :: exec_security
  ra_autoAllowSkills :: bool
  ra_sources :: "string option \<times> string option \<times> string option"
  ra_allowlist :: "allowlist_entry list"
  ra_file :: approvals_file

definition entries_of :: "allowlist_item list option \<Rightarrow> allowlist_entry list" where
  "entries_of items = List.map_filter (\<lambda>i. case i of ItemEntry e \<Rightarrow> Some e | _ \<Rightarrow> None) (js_or_else items [])"

definition resolveExecApprovalsFromFile ::
  "(string \<Rightarrow> nat \<Rightarrow> string) \<Rightarrow> approvals_file \<Rightarrow> string option \<Rightarrow> policy_overrides \<Rightarrow> resolved_approvals" where
  "resolveExecApprovalsFromFile randomUUID rawFile agentId overrides =
     (let file = normalizeExecApprovals randomUUID rawFile;
          defaults = af_defaults file;
          agentKey = js_or_else agentId DEFAULT_AGENT_ID;
          agent = js_or_else (jm_get (af_agents file) agentKey) no_agent;
          wildcard = js_or_else (jm_get (af_agents file) ''*'') no_agent;
          rawAgent = js_or_else (jm_get (af_agents rawFile) agentKey) no_agent;
          rawWildcard = js_or_else (jm_get (af_agents rawFile) ''*'') no_agent;
          fallbackAskFallback = js_or_else (po_askFallback overrides) DEFAULT_EXEC_APPROVAL_ASK_FALLBACK;
          defaultSecurity = js_or_else (isExecSecurity (ag_security defaults)) (js_or_else (po_security overrides) DEFAULT_SECURITY);
          defaultAsk = js_or_else (isExecAsk (ag_ask defaults)) (js_or_else (po_ask overrides) DEFAULT_ASK);
          defaultAskFallback = js_or_else (isExecSecurity (ag_askFallback defaults)) fallbackAskFallback;
          defaultAutoAllowSkills = js_or_else (ag_autoAllowSkills defaults) (js_or_else (po_autoAllowSkills overrides) False);
          security = resolve_policy_field isExecSecurity ''security'' agentKey (ag_security defaults)
            (ag_security rawAgent) (ag_security agent) (ag_security rawWildcard) (ag_security wildcard) defaultSecurity;
          ask = resolve_policy_field isExecAsk ''ask'' agentKey (ag_ask defaults)
            (ag_ask rawAgent) (ag_ask agent) (ag_ask rawWildcard) (ag_ask wildcard) defaultAsk;
          askFallback = resolve_policy_field isExecSecurity ''askFallback'' agentKey (ag_askFallback defaults)
            (ag_askFallback rawAgent) (ag_askFallback agent) (ag_askFallback rawWildcard) (ag_askFallback wildcard) defaultAskFallback
      in \<lparr>ra_security = fst security, ra_ask = fst ask, ra_askFallback = fst askFallback,
          ra_autoAllowSkills =
            js_or_else (js_alt (ag_autoAllowSkills agent) (ag_autoAllowSkills wildcard)) defaultAutoAllowSkills,
          ra_sources = (snd security, snd ask, snd askFallback),
          ra_allowlist = entries_of (ag_allowlist wildcard) @ entries_of (ag_allowlist agent),
          ra_file = file\<rparr>)"

text \<open>\<open>resolveExecApprovals\<close>: the file has been normalised when it was loaded and saved before.\<close>

definition resolveExecApprovals ::
  "(string \<Rightarrow> nat \<Rightarrow> string) \<Rightarrow> approvals_file \<Rightarrow> string option \<Rightarrow> policy_overrides \<Rightarrow> resolved_approvals" where
  "resolveExecApprovals randomUUID stored agentId overrides =
     resolveExecApprovalsFromFile randomUUID (normalizeExecApprovals randomUUID stored) agentId overrides"

subsection \<open>Whether to ask\<close>

definition requiresExecApproval :: "exec_ask \<Rightarrow> exec_security \<Rightarrow> bool \<Rightarrow> bool \<Rightarrow> bool \<Rightarrow> bool" where
  "requiresExecApproval ask security analysisOk allowlistSatisfied durableApprovalSatisfied =
     (if ask = AskAlways then True
      else if durableApprovalSatisfied then False
      else ask = AskOnMiss \<and> security = SecAllowlist \<and> (\<not> analysisOk \<or> \<not> allowlistSatisfied))"

definition buildDurableCommandApprovalPattern :: "(string \<Rightarrow> string) \<Rightarrow> string \<Rightarrow> string" where
  "buildDurableCommandApprovalPattern sha256Hex commandText = ''=command:'' @ take 16 (sha256Hex commandText)"

definition hasExactCommandDurableExecApproval :: "(string \<Rightarrow> string) \<Rightarrow> allowlist_entry list \<Rightarrow> string \<Rightarrow> bool" where
  "hasExactCommandDurableExecApproval sha256Hex allowlist commandText =
     (let normalizedCommand = js_trim commandText;
          commandPattern = buildDurableCommandApprovalPattern sha256Hex normalizedCommand
      in normalizedCommand \<noteq> [] \<and>
         list_ex (\<lambda>entry. al_allowAlways entry \<and>
           (al_pattern entry = commandPattern \<or> map_option js_trim (al_commandText entry) = Some normalizedCommand)) allowlist)"

definition hasSegmentDurableExecApproval :: "bool \<Rightarrow> allowlist_entry option list \<Rightarrow> bool" where
  "hasSegmentDurableExecApproval analysisOk segmentAllowlistEntries =
     (analysisOk \<and> segmentAllowlistEntries \<noteq> [] \<and>
      list_all (\<lambda>entry. case entry of None \<Rightarrow> False | Some e \<Rightarrow> al_allowAlways e) segmentAllowlistEntries)"

definition hasDurableExecApproval ::
  "(string \<Rightarrow> string) \<Rightarrow> bool \<Rightarrow> allowlist_entry option list \<Rightarrow> allowlist_entry list \<Rightarrow> string \<Rightarrow> bool" where
  "hasDurableExecApproval sha256Hex analysisOk segmentAllowlistEntries allowlist commandText =
     (hasExactCommandDurableExecApproval sha256Hex allowlist commandText \<or>
      hasSegmentDurableExecApproval analysisOk segmentAllowlistEntries)"

datatype exec_decision = AllowOnce | AllowAlways | DenyRun

definition resolveExecApprovalAllowedDecisions :: "js_value \<Rightarrow> exec_decision list" where
  "resolveExecApprovalAllowedDecisions ask =
     (if normalizeExecAsk ask = Some AskAlways then [AllowOnce, DenyRun] else [AllowOnce, AllowAlways, DenyRun])"

text \<open>\<open>explicit\<close>: the decisions a request lists itself, those it does not know left out.\<close>

definition resolveExecApprovalRequestAllowedDecisions :: "js_value \<Rightarrow> exec_decision list \<Rightarrow> exec_decision list" where
  "resolveExecApprovalRequestAllowedDecisions ask explicit =
     (if explicit \<noteq> [] then explicit else resolveExecApprovalAllowedDecisions ask)"

subsection \<open>Entries\<close>

definition update_agent :: "approvals_file \<Rightarrow> string option \<Rightarrow> (approvals_agent \<Rightarrow> approvals_agent) \<Rightarrow> approvals_file" where
  "update_agent approvals agentId f =
     (let target = js_or_else agentId DEFAULT_AGENT_ID in
      approvals\<lparr>af_agents := jm_set (af_agents approvals) target (f (js_or_else (jm_get (af_agents approvals) target) no_agent))\<rparr>)"

definition agent_items :: "approvals_file \<Rightarrow> string option \<Rightarrow> allowlist_item list" where
  "agent_items approvals agentId =
     js_or_else (ag_allowlist (js_or_else (jm_get (af_agents approvals) (js_or_else agentId DEFAULT_AGENT_ID)) no_agent)) []"

definition recordAllowlistUse ::
  "ms \<Rightarrow> string \<Rightarrow> approvals_file \<Rightarrow> string option \<Rightarrow> allowlist_entry \<Rightarrow> string \<Rightarrow> string option \<Rightarrow> approvals_file" where
  "recordAllowlistUse now uuid approvals agentId entry command resolvedPath =
     update_agent approvals agentId
       (\<lambda>agent. agent\<lparr>ag_allowlist := Some (map (on_entry (\<lambda>item.
          if al_pattern item = al_pattern entry \<and> al_argPattern item = al_argPattern entry
          then item\<lparr>al_id := Some (js_or_else (al_id item) uuid), al_lastUsedAt := Some now,
                    al_lastUsedCommand := Some command, al_lastResolvedPath := resolvedPath\<rparr>
          else item)) (agent_items approvals agentId))\<rparr>)"

definition match_key :: "allowlist_entry \<Rightarrow> string \<times> string" where
  "match_key entry = (al_pattern entry, js_trim (js_or_else (al_argPattern entry) []))"

fun record_matches ::
  "ms \<Rightarrow> string \<Rightarrow> string option \<Rightarrow> string \<Rightarrow> string option \<Rightarrow> (string \<times> string) list \<Rightarrow> allowlist_entry list \<Rightarrow>
   approvals_file \<Rightarrow> approvals_file" where
  "record_matches now uuid agentId command resolvedPath seen [] approvals = approvals"
| "record_matches now uuid agentId command resolvedPath seen (match # matches) approvals =
     (if al_pattern match = [] \<or> match_key match \<in> set seen
      then record_matches now uuid agentId command resolvedPath seen matches approvals
      else record_matches now uuid agentId command resolvedPath (match_key match # seen) matches
             (recordAllowlistUse now uuid approvals agentId match command resolvedPath))"

definition recordAllowlistMatchesUse ::
  "ms \<Rightarrow> string \<Rightarrow> approvals_file \<Rightarrow> string option \<Rightarrow> allowlist_entry list \<Rightarrow> string \<Rightarrow> string option \<Rightarrow> approvals_file" where
  "recordAllowlistMatchesUse now uuid approvals agentId matches command resolvedPath =
     record_matches now uuid agentId command resolvedPath [] matches approvals"

definition addAllowlistEntry ::
  "ms \<Rightarrow> string \<Rightarrow> approvals_file \<Rightarrow> string option \<Rightarrow> string \<Rightarrow> string option \<Rightarrow> bool \<Rightarrow> approvals_file" where
  "addAllowlistEntry now uuid approvals agentId pattern argPattern allowAlways =
     (let items = agent_items approvals agentId;
          trimmed = js_trim pattern;
          trimmedArgPattern = normalizeOptionalString (js_opt argPattern);
          existing = List.find (\<lambda>i. case i of ItemEntry e \<Rightarrow> al_pattern e = trimmed \<and> al_argPattern e = trimmedArgPattern
                                            | _ \<Rightarrow> False) items
      in if trimmed = [] then approvals
         else case existing of
           Some (ItemEntry e) \<Rightarrow>
             if \<not> allowAlways \<or> al_allowAlways e then approvals
             else update_agent approvals agentId
               (\<lambda>agent. agent\<lparr>ag_allowlist := Some (map (on_entry (\<lambda>entry.
                  if al_pattern entry = trimmed
                  then entry\<lparr>al_argPattern := trimmedArgPattern, al_allowAlways := allowAlways \<or> al_allowAlways entry,
                             al_lastUsedAt := Some now\<rparr>
                  else entry)) items)\<rparr>)
         | _ \<Rightarrow>
             update_agent approvals agentId
               (\<lambda>agent. agent\<lparr>ag_allowlist := Some (items @
                  [ItemEntry ((bare_entry trimmed)\<lparr>al_id := Some uuid, al_argPattern := trimmedArgPattern,
                                                  al_allowAlways := allowAlways, al_lastUsedAt := Some now\<rparr>)])\<rparr>))"

definition addDurableCommandApproval ::
  "(string \<Rightarrow> string) \<Rightarrow> ms \<Rightarrow> string \<Rightarrow> approvals_file \<Rightarrow> string option \<Rightarrow> string \<Rightarrow> approvals_file" where
  "addDurableCommandApproval sha256Hex now uuid approvals agentId commandText =
     (let normalized = js_trim commandText in
      if normalized = [] then approvals
      else addAllowlistEntry now uuid approvals agentId (buildDurableCommandApprovalPattern sha256Hex normalized) None True)"

end
