(* ===== verification/Exec_Interpreters.thy ===== *)
theory Exec_Interpreters
  imports Exec_Policy
begin

text \<open>
  Programs that run other programs given on their command line, and what an \<open>allow-always\<close> decision
  persists: \<open>src/infra/exec-inline-eval.ts\<close>, and \<open>collectAllowAlwaysPatterns\<close>,
  \<open>resolveAllowAlwaysPatternEntries\<close> of \<open>exec-approvals-allowlist.ts\<close> with \<open>persistAllowAlwaysPatterns\<close> of
  \<open>exec-approvals.ts\<close>, on hosts other than Windows, where no argument pattern is built.
\<close>

subsection \<open>Inline evaluation\<close>

record interpreter_spec =
  is_names :: "string list"
  is_exactFlags :: "string list"
  is_rawExactFlags :: "(string \<times> string) list"
  is_rawPrefixFlags :: "(string \<times> string) list"
  is_prefixFlags :: "(string \<times> string) list"
  is_scanPastDoubleDash :: bool

definition simple_interpreter :: "string list \<Rightarrow> string list \<Rightarrow> interpreter_spec" where
  "simple_interpreter names exactFlags =
     \<lparr>is_names = names, is_exactFlags = exactFlags, is_rawExactFlags = [], is_rawPrefixFlags = [], is_prefixFlags = [],
      is_scanPastDoubleDash = False\<rparr>"

text \<open>A flag with a prefix is a pair of its label and the prefix.\<close>

definition FLAG_INTERPRETER_INLINE_EVAL_SPECS :: "interpreter_spec list" where
  "FLAG_INTERPRETER_INLINE_EVAL_SPECS =
     [simple_interpreter [''python'', ''python2'', ''python3'', ''pypy'', ''pypy3''] [''-c''],
      simple_interpreter [''node'', ''nodejs'', ''bun'', ''deno''] [''-e'', ''--eval'', ''-p'', ''--print''],
      (simple_interpreter [''awk'', ''gawk'', ''mawk'', ''nawk''] [''-e'', ''--source''])
        \<lparr>is_prefixFlags := [(''--source'', ''--source='')]\<rparr>,
      simple_interpreter [''ruby''] [''-e''],
      simple_interpreter [''perl''] [''-e'', ''-E''],
      simple_interpreter [''php''] [''-r''],
      simple_interpreter [''lua''] [''-e''],
      simple_interpreter [''osascript''] [''-e''],
      (simple_interpreter [''find''] [''-exec'', ''-execdir'', ''-ok'', ''-okdir''])\<lparr>is_scanPastDoubleDash := True\<rparr>,
      (simple_interpreter [''make'', ''gmake''] [''-f'', ''--file'', ''--makefile'', ''--eval''])
        \<lparr>is_rawExactFlags := [(''-E'', ''-E'')], is_rawPrefixFlags := [(''-E'', ''-E'')],
         is_prefixFlags := [(''-f'', ''-f''), (''--file'', ''--file=''), (''--makefile'', ''--makefile=''), (''--eval'', ''--eval='')]\<rparr>,
      (simple_interpreter [''sed'', ''gsed''] [])
        \<lparr>is_rawExactFlags := [(''-e'', ''-e'')], is_rawPrefixFlags := [(''-e'', ''-e'')]\<rparr>]"

record positional_spec =
  ps_names :: "string list"
  ps_fileFlags :: "string list"
  ps_fileFlagPrefixes :: "string list"
  ps_exactValueFlags :: "string list"
  ps_exactOptionalValueFlags :: "string list"
  ps_prefixValueFlags :: "string list"
  ps_flag :: string

definition POSITIONAL_INTERPRETER_INLINE_EVAL_SPECS :: "positional_spec list" where
  "POSITIONAL_INTERPRETER_INLINE_EVAL_SPECS =
     [\<lparr>ps_names = [''awk'', ''gawk'', ''mawk'', ''nawk''],
       ps_fileFlags = [''-f'', ''--file''], ps_fileFlagPrefixes = [''-f'', ''--file=''],
       ps_exactValueFlags =
         [''-f'', ''--file'', ''-F'', ''--field-separator'', ''-v'', ''--assign'', ''-i'', ''--include'', ''-l'', ''--load'', ''-W''],
       ps_exactOptionalValueFlags = [],
       ps_prefixValueFlags = [''-F'', ''--field-separator='', ''-v'', ''--assign='', ''--include='', ''--load=''],
       ps_flag = ''<program>''\<rparr>,
      \<lparr>ps_names = [''xargs''], ps_fileFlags = [], ps_fileFlagPrefixes = [],
       ps_exactValueFlags =
         [''-a'', ''--arg-file'', ''-d'', ''--delimiter'', ''-E'', ''-I'', ''-L'', ''--max-lines'', ''-n'', ''--max-args'',
          ''-P'', ''--max-procs'', ''-s'', ''--max-chars''],
       ps_exactOptionalValueFlags = [''--eof'', ''--replace''],
       ps_prefixValueFlags =
         [''-a'', ''--arg-file='', ''-d'', ''--delimiter='', ''-E'', ''--eof='', ''-I'', ''--replace='', ''-i'', ''-L'',
          ''--max-lines='', ''-l'', ''-n'', ''--max-args='', ''-P'', ''--max-procs='', ''-s'', ''--max-chars=''],
       ps_flag = ''<command>''\<rparr>,
      \<lparr>ps_names = [''sed'', ''gsed''],
       ps_fileFlags = [''-f'', ''--file''], ps_fileFlagPrefixes = [''-f'', ''--file=''],
       ps_exactValueFlags = [''-f'', ''--file'', ''-l'', ''--line-length''],
       ps_exactOptionalValueFlags = [''-i'', ''--in-place''],
       ps_prefixValueFlags = [''-f'', ''--file='', ''--in-place='', ''--line-length=''],
       ps_flag = ''<program>''\<rparr>]"

definition INTERPRETER_ALLOWLIST_NAMES :: "string list" where
  "INTERPRETER_ALLOWLIST_NAMES =
     concat (map is_names FLAG_INTERPRETER_INLINE_EVAL_SPECS) @ concat (map ps_names POSITIONAL_INTERPRETER_INLINE_EVAL_SPECS)"

definition longer_with_prefix :: "string \<Rightarrow> string \<Rightarrow> bool" where
  "longer_with_prefix p token = (prefix p token \<and> length token > length p)"

text \<open>The flag by which an interpreter's arguments give it a program.\<close>

fun flag_hit :: "interpreter_spec \<Rightarrow> string list \<Rightarrow> string option" where
  "flag_hit spec [] = None"
| "flag_hit spec (arg # rest) =
     (let token = js_trim arg; lower = normalizeLowercaseStringOrEmpty (JStr token) in
      if token = [] then flag_hit spec rest
      else if token = ''--'' then (if is_scanPastDoubleDash spec then flag_hit spec rest else None)
      else case map_of (is_rawExactFlags spec) token of
        Some label \<Rightarrow> Some label
      | None \<Rightarrow>
          (case List.find (\<lambda>(_, p). longer_with_prefix p token) (is_rawPrefixFlags spec) of
             Some (label, _) \<Rightarrow> Some label
           | None \<Rightarrow>
               if lower \<in> set (is_exactFlags spec) then Some lower
               else (case List.find (\<lambda>(_, p). longer_with_prefix p lower) (is_prefixFlags spec) of
                       Some (label, _) \<Rightarrow> Some label
                     | None \<Rightarrow> flag_hit spec rest)))"

fun positional_hit :: "positional_spec \<Rightarrow> string list \<Rightarrow> string option" where
  "positional_hit spec [] = None"
| "positional_hit spec (arg # rest) =
     (let token = js_trim arg in
      if token = [] then positional_hit spec rest
      else if token = ''--'' then (if trimmed_at rest 0 = [] then None else Some (ps_flag spec))
      else if token \<in> set (ps_fileFlags spec) then None
      else if list_ex (\<lambda>p. longer_with_prefix p token) (ps_fileFlagPrefixes spec) then None
      else if token \<in> set (ps_exactValueFlags spec) then positional_hit spec (drop 1 rest)
      else if token \<in> set (ps_exactOptionalValueFlags spec) then positional_hit spec rest
      else if list_ex (\<lambda>p. longer_with_prefix p token) (ps_prefixValueFlags spec) then positional_hit spec rest
      else if prefix ''-'' token then positional_hit spec rest
      else Some (ps_flag spec))"

definition detectInterpreterInlineEvalArgv :: "string list \<Rightarrow> string option" where
  "detectInterpreterInlineEvalArgv argv =
     (let executable = trimmed_at argv 0; name = normalizeExecutableToken executable; args = drop 1 argv in
      if executable = [] then None
      else let byFlag = Option.bind (List.find (\<lambda>s. name \<in> set (is_names s)) FLAG_INTERPRETER_INLINE_EVAL_SPECS)
                          (\<lambda>spec. flag_hit spec args)
           in case byFlag of
                Some flag \<Rightarrow> Some flag
              | None \<Rightarrow>
                  Option.bind (List.find (\<lambda>s. name \<in> set (ps_names s)) POSITIONAL_INTERPRETER_INLINE_EVAL_SPECS)
                    (\<lambda>spec. positional_hit spec args))"

definition isInterpreterLikeAllowlistPattern :: "string \<Rightarrow> bool" where
  "isInterpreterLikeAllowlistPattern pattern =
     (let trimmed = normalizeLowercaseStringOrEmpty (JStr pattern) in
      if trimmed = [] then False
      else if normalizeExecutableToken trimmed \<in> set INTERPRETER_ALLOWLIST_NAMES then True
      else let basename = last (js_split CHR ''/'' (slashed trimmed));
               withoutExe = (if suffix ''.exe'' basename then take (length basename - 4) basename else basename);
               strippedWildcards = filter (\<lambda>c. c \<notin> set ''*?[]{}()'') withoutExe
           in strippedWildcards \<in> set INTERPRETER_ALLOWLIST_NAMES)"

subsection \<open>What allow-always persists\<close>

definition addAllowAlwaysPattern :: "string list \<Rightarrow> string \<Rightarrow> string list" where
  "addAllowAlwaysPattern out pattern = (if pattern \<in> set out then out else out @ [pattern])"

definition is_powershell_file :: "string list \<Rightarrow> bool" where
  "is_powershell_file argv =
     (argv \<noteq> [] \<and> normalizeExecutableToken (hd argv) \<in> set POWERSHELL_WRAPPER_NAMES \<and>
      list_ex (\<lambda>t. normalizeLowercaseStringOrEmpty (JStr t) \<in> {''-file'', ''-f''}) argv \<and>
      \<not> list_ex (\<lambda>t. normalizeLowercaseStringOrEmpty (JStr t) \<in> {''-command'', ''-c'', ''--command''}) argv)"

text \<open>The recursion of the source stops at depth three; \<open>levels\<close> is what is left of it.\<close>

fun collectAllowAlwaysPatterns ::
  "nat \<Rightarrow> machine \<Rightarrow> string option \<Rightarrow> bool \<Rightarrow> command_segment \<Rightarrow> string list \<Rightarrow> string list" where
  "collectAllowAlwaysPatterns 0 mc cwd strictInlineEval segment0 out = out"
| "collectAllowAlwaysPatterns (Suc levels) mc cwd strictInlineEval segment0 out =
     (let trustPlan = resolveExecWrapperTrustPlan (mc_platform mc) (sg_argv segment0);
          segment = (if tp_argv trustPlan = sg_argv segment0 then segment0
                     else \<lparr>sg_raw = js_join '' '' (tp_argv trustPlan), sg_argv = tp_argv trustPlan,
                           sg_resolution = resolveCommandResolutionFromArgv mc cwd (tp_argv trustPlan)\<rparr>)
      in if tp_policyBlocked trustPlan then out
         else case resolveExecutionTargetCandidatePath mc cwd (sg_resolution segment) of
           None \<Rightarrow> out
         | Some candidatePath \<Rightarrow>
             if candidatePath = [] then out
             else if isInterpreterLikeAllowlistPattern candidatePath \<and>
                     (\<not> strictInlineEval \<or>
                      detectInterpreterInlineEvalArgv
                        (case sg_resolution segment of None \<Rightarrow> sg_argv segment | Some r \<Rightarrow> cr_effectiveArgv r) \<noteq> None)
             then out
             else if \<not> tp_shellWrapperExecutable trustPlan then addAllowAlwaysPattern out candidatePath
             else case resolveShellWrapperPositionalArgvCandidatePath mc segment cwd of
               Some positionalArgvPath \<Rightarrow> addAllowAlwaysPattern out positionalArgvPath
             | None \<Rightarrow>
                 let inlineCommand =
                       (if is_powershell_file (sg_argv segment) then None
                        else js_alt (tp_shellInlineCommand trustPlan)
                               (extractShellWrapperInlineCommand (mc_platform mc) (sg_argv segment)))
                 in case inlineCommand of
                      None \<Rightarrow>
                        (case resolveShellWrapperScriptCandidatePath mc segment cwd of
                           Some scriptPath \<Rightarrow> addAllowAlwaysPattern out scriptPath | None \<Rightarrow> out)
                    | Some command \<Rightarrow>
                        (case analyzeShellCommand mc cwd command of
                           Inl _ \<Rightarrow> out
                         | Inr nested \<Rightarrow>
                             fold (collectAllowAlwaysPatterns levels mc cwd strictInlineEval) (an_segments nested) out))"

definition resolveAllowAlwaysPatternEntries ::
  "machine \<Rightarrow> string option \<Rightarrow> bool \<Rightarrow> command_segment list \<Rightarrow> string list" where
  "resolveAllowAlwaysPatternEntries mc cwd strictInlineEval segments =
     fold (collectAllowAlwaysPatterns 3 mc cwd strictInlineEval) segments []"

definition persistAllowAlwaysPatterns ::
  "machine \<Rightarrow> ms \<Rightarrow> string \<Rightarrow> approvals_file \<Rightarrow> string option \<Rightarrow> string option \<Rightarrow> bool \<Rightarrow> command_segment list \<Rightarrow>
   string list \<times> approvals_file" where
  "persistAllowAlwaysPatterns mc now uuid approvals agentId cwd strictInlineEval segments =
     (let patterns = resolveAllowAlwaysPatternEntries mc cwd strictInlineEval segments
      in (patterns,
          fold (\<lambda>pattern file. if pattern = [] then file else addAllowlistEntry now uuid file agentId pattern None True)
            patterns approvals))"

end
