(* ===== verification/Exec_Host.thy ===== *)
theory Exec_Host
  imports Exec_Interpreters
begin

text \<open>
  The two hosts that run commands. A node runs \<open>system.run\<close>: \<open>src/node-host/exec-policy.ts\<close>,
  \<open>src/node-host/invoke-system-run-allowlist.ts\<close> and the policy phase of
  \<open>src/node-host/invoke-system-run.ts\<close>. The gateway runs the exec tool itself:
  \<open>processGatewayAllowlist\<close> of \<open>src/agents/bash-tools.exec-host-gateway.ts\<close> with the helpers of
  \<open>bash-tools.exec-host-shared.ts\<close>. Both are modelled on hosts other than Windows up to the command that is
  handed to the process runner; messages, events and the hardening of approved paths are outside the model.
\<close>

subsection \<open>The node\<close>

definition resolveExecApprovalDecision :: "js_value \<Rightarrow> exec_decision option" where
  "resolveExecApprovalDecision value =
     (if value = JStr ''allow-once'' then Some AllowOnce else if value = JStr ''allow-always'' then Some AllowAlways else None)"

datatype denied_reason = SecurityDeny | ApprovalRequired | AllowlistMiss | PlanMiss

record run_policy =
  rp_allowed :: "denied_reason option"
  rp_analysisOk :: bool
  rp_allowlistSatisfied :: bool
  rp_shellWrapperBlocked :: bool
  rp_requiresAsk :: bool
  rp_approvedByAsk :: bool

text \<open>\<open>rp_allowed\<close> is \<open>None\<close> for an allowed run and the reason of a refusal otherwise.\<close>

definition evaluateSystemRunPolicy ::
  "exec_security \<Rightarrow> exec_ask \<Rightarrow> bool \<Rightarrow> bool \<Rightarrow> bool \<Rightarrow> exec_decision option \<Rightarrow> bool \<Rightarrow> bool \<Rightarrow> bool \<Rightarrow> bool \<Rightarrow> run_policy" where
  "evaluateSystemRunPolicy security ask analysisOk0 allowlistSatisfied0 durableApprovalSatisfied approvalDecision approved
     isWindows cmdInvocation shellWrapperInvocation =
     (let shellWrapperBlocked = security = SecAllowlist \<and> shellWrapperInvocation \<and> isWindows \<and> cmdInvocation;
          analysisOk = \<not> shellWrapperBlocked \<and> analysisOk0;
          allowlistSatisfied = \<not> shellWrapperBlocked \<and> allowlistSatisfied0;
          approvedByAsk = approvalDecision \<noteq> None \<or> approved;
          requiresAsk = requiresExecApproval ask security analysisOk allowlistSatisfied durableApprovalSatisfied;
          answer = (\<lambda>refusal asks. \<lparr>rp_allowed = refusal, rp_analysisOk = analysisOk, rp_allowlistSatisfied = allowlistSatisfied,
                      rp_shellWrapperBlocked = shellWrapperBlocked, rp_requiresAsk = asks, rp_approvedByAsk = approvedByAsk\<rparr>)
      in if security = SecDeny then answer (Some SecurityDeny) False
         else if requiresAsk \<and> \<not> approvedByAsk then answer (Some ApprovalRequired) requiresAsk
         else if security = SecAllowlist \<and> (\<not> analysisOk \<or> \<not> allowlistSatisfied) \<and> \<not> approvedByAsk
         then (if durableApprovalSatisfied then answer None requiresAsk else answer (Some AllowlistMiss) requiresAsk)
         else answer None requiresAsk)"

text \<open>A shell payload is analysed as a command line, any other command by its arguments.\<close>

definition evaluateSystemRunAllowlist ::
  "machine \<Rightarrow> allowlist_context \<Rightarrow> exec_security \<Rightarrow> string option \<Rightarrow> string list \<Rightarrow> allowlist_analysis" where
  "evaluateSystemRunAllowlist mc cx security shellCommand argv =
     (if js_truthy_str shellCommand
      then let a = evaluateShellAllowlist mc cx (js_or_else shellCommand []) in
        a\<lparr>aa_evaluation := (aa_evaluation a)
            \<lparr>ev_satisfied := (security = SecAllowlist \<and> aa_analysisOk a \<and> ev_satisfied (aa_evaluation a))\<rparr>\<rparr>
      else let analysis = analyzeArgvCommand mc (cx_cwd cx) argv; evaluation = evaluateExecAllowlist mc cx analysis;
               ok = (case analysis of Inl _ \<Rightarrow> False | Inr _ \<Rightarrow> True)
        in \<lparr>aa_analysisOk = ok, aa_segments = (case analysis of Inl _ \<Rightarrow> [] | Inr a \<Rightarrow> an_segments a),
            aa_evaluation = evaluation\<lparr>ev_satisfied := (security = SecAllowlist \<and> ok \<and> ev_satisfied evaluation)\<rparr>\<rparr>)"

text \<open>\<open>undefined\<close> is \<open>Inr None\<close>, \<open>null\<close> is \<open>Inl PlanMiss\<close>.\<close>

definition resolvePlannedAllowlistArgv ::
  "exec_security \<Rightarrow> string option \<Rightarrow> run_policy \<Rightarrow> command_segment list \<Rightarrow> denied_reason + string list option" where
  "resolvePlannedAllowlistArgv security shellCommand policy segments =
     (if security \<noteq> SecAllowlist \<or> rp_approvedByAsk policy \<or> js_truthy_str shellCommand \<or> \<not> rp_analysisOk policy \<or>
         \<not> rp_allowlistSatisfied policy \<or> length segments \<noteq> 1
      then Inr None
      else case resolvePlannedSegmentArgv (hd segments) of
             None \<Rightarrow> Inl PlanMiss
           | Some argv \<Rightarrow> if argv = [] then Inl PlanMiss else Inr (Some argv))"

definition resolveSystemRunExecArgv :: "string list option \<Rightarrow> string list \<Rightarrow> string list" where
  "resolveSystemRunExecArgv plannedAllowlistArgv argv = js_or_else plannedAllowlistArgv argv"

text \<open>The request of a run after parsing.\<close>

record run_request =
  rr_argv :: "string list"
  rr_shellPayload :: "string option"
  rr_commandText :: string
  rr_approvalDecision :: "exec_decision option"
  rr_approved :: bool

text \<open>The policy phase: the refusal, or the arguments that are run.\<close>

definition evaluateSystemRunPolicyPhase ::
  "(string \<Rightarrow> string) \<Rightarrow> machine \<Rightarrow> allowlist_context \<Rightarrow> exec_security \<Rightarrow> exec_ask \<Rightarrow> bool \<Rightarrow> run_request \<Rightarrow>
   denied_reason + string list" where
  "evaluateSystemRunPolicyPhase sha256Hex mc cx security ask strictInlineEval request =
     (let analysis = evaluateSystemRunAllowlist mc cx security (rr_shellPayload request) (rr_argv request);
          evaluation = aa_evaluation analysis;
          inlineEvalHit = strictInlineEval \<and>
            list_ex (\<lambda>s. detectInterpreterInlineEvalArgv
                           (case sg_resolution s of None \<Rightarrow> sg_argv s | Some r \<Rightarrow> cr_effectiveArgv r) \<noteq> None)
              (aa_segments analysis);
          durableApprovalSatisfied = hasDurableExecApproval sha256Hex (aa_analysisOk analysis) (ev_entries evaluation)
            (cx_allowlist cx) (rr_commandText request);
          inlineEvalExecutableTrusted = inlineEvalHit \<and>
            list_ex (\<lambda>e. case e of None \<Rightarrow> False | Some a \<Rightarrow> al_allowAlways a) (ev_entries evaluation);
          policy = evaluateSystemRunPolicy security ask (aa_analysisOk analysis) (ev_satisfied evaluation)
            (durableApprovalSatisfied \<or> inlineEvalExecutableTrusted) (rr_approvalDecision request) (rr_approved request)
            False False (rr_shellPayload request \<noteq> None)
      in if inlineEvalHit \<and> \<not> rp_approvedByAsk policy \<and> rp_allowed policy \<noteq> Some SecurityDeny then Inl ApprovalRequired
         else case rp_allowed policy of
           Some reason \<Rightarrow> Inl reason
         | None \<Rightarrow>
             map_sum id (\<lambda>planned. resolveSystemRunExecArgv planned (rr_argv request))
               (resolvePlannedAllowlistArgv security (rr_shellPayload request) policy (aa_segments analysis)))"

subsection \<open>The gateway\<close>

text \<open>\<open>resolveExecHostApprovalContext\<close>: the request's contract, tightened by the file; \<open>deny\<close> throws.\<close>

definition resolveExecHostApprovalContext ::
  "exec_security \<Rightarrow> exec_ask \<Rightarrow> resolved_approvals \<Rightarrow> (exec_security \<times> exec_ask \<times> exec_security) option" where
  "resolveExecHostApprovalContext security ask approvals =
     (let hostSecurity = minSecurity security (ra_security approvals);
          hostAsk = maxAsk ask (ra_ask approvals);
          askFallback = minSecurity hostSecurity (ra_askFallback approvals)
      in if hostSecurity = SecDeny then None else Some (hostSecurity, hostAsk, askFallback))"

record gateway_check =
  gc_security :: exec_security
  gc_ask :: exec_ask
  gc_askFallback :: exec_security
  gc_analysisOk :: bool
  gc_allowlistSatisfied :: bool
  gc_durable :: bool
  gc_inlineEval :: bool
  gc_enforced :: "string option"
  gc_requiresAsk :: bool

definition check_gateway ::
  "(string \<Rightarrow> string) \<Rightarrow> machine \<Rightarrow> allowlist_context \<Rightarrow> exec_security \<times> exec_ask \<times> exec_security \<Rightarrow> bool \<Rightarrow> string \<Rightarrow> gateway_check" where
  "check_gateway sha256Hex mc cx host strictInlineEval command =
     (let (hostSecurity, hostAsk, askFallback) = host;
          allowlistEval = evaluateShellAllowlist mc cx command;
          evaluation = aa_evaluation allowlistEval;
          analysisOk = aa_analysisOk allowlistEval;
          allowlistSatisfied = hostSecurity = SecAllowlist \<and> analysisOk \<and> ev_satisfied evaluation;
          durable = hasDurableExecApproval sha256Hex analysisOk (ev_entries evaluation) (cx_allowlist cx) command;
          inlineEval = strictInlineEval \<and>
            list_ex (\<lambda>s. detectInterpreterInlineEvalArgv
                           (case sg_resolution s of None \<Rightarrow> sg_argv s | Some r \<Rightarrow> cr_effectiveArgv r) \<noteq> None)
              (aa_segments allowlistEval);
          enforced = (if allowlistSatisfied
                      then (case buildEnforcedShellCommand command (aa_segments allowlistEval) of
                              Inl _ \<Rightarrow> None | Inr out \<Rightarrow> non_empty out)
                      else None);
          hasHeredocSegment = list_ex (\<lambda>s. list_ex (\<lambda>token. prefix ''<<'' token) (sg_argv s)) (aa_segments allowlistEval);
          requiresAsk =
            requiresExecApproval hostAsk hostSecurity analysisOk allowlistSatisfied durable \<or>
            (allowlistSatisfied \<and> enforced = None) \<or> (allowlistSatisfied \<and> hasHeredocSegment) \<or> inlineEval
      in \<lparr>gc_security = hostSecurity, gc_ask = hostAsk, gc_askFallback = askFallback, gc_analysisOk = analysisOk,
          gc_allowlistSatisfied = allowlistSatisfied, gc_durable = durable, gc_inlineEval = inlineEval,
          gc_enforced = enforced, gc_requiresAsk = requiresAsk\<rparr>)"

definition hasGatewayAllowlistMiss :: "gateway_check \<Rightarrow> bool" where
  "hasGatewayAllowlistMiss c =
     (gc_security c = SecAllowlist \<and> (\<not> gc_analysisOk c \<or> \<not> gc_allowlistSatisfied c) \<and> \<not> gc_durable c)"

text \<open>What is executed: the enforced command when there is one, the command itself otherwise.\<close>

definition gateway_command :: "gateway_check \<Rightarrow> string \<Rightarrow> string" where
  "gateway_command c command = js_or_else (gc_enforced c) command"

text \<open>The answer of an approver: an allowing decision, a denial, or none before the time-out.\<close>

record base_decision =
  bd_approvedByAsk :: bool
  bd_denied :: bool
  bd_timedOut :: bool

definition resolveBaseExecApprovalDecision :: "exec_decision option \<Rightarrow> exec_security \<Rightarrow> base_decision" where
  "resolveBaseExecApprovalDecision decision askFallback =
     (if decision = Some DenyRun then \<lparr>bd_approvedByAsk = False, bd_denied = True, bd_timedOut = False\<rparr>
      else if decision = None
      then (case askFallback of
              SecFull \<Rightarrow> \<lparr>bd_approvedByAsk = True, bd_denied = False, bd_timedOut = True\<rparr>
            | SecDeny \<Rightarrow> \<lparr>bd_approvedByAsk = False, bd_denied = True, bd_timedOut = True\<rparr>
            | SecAllowlist \<Rightarrow> \<lparr>bd_approvedByAsk = False, bd_denied = False, bd_timedOut = True\<rparr>)
      else \<lparr>bd_approvedByAsk = False, bd_denied = False, bd_timedOut = False\<rparr>)"

definition enforceStrictInlineEvalApprovalBoundary :: "base_decision \<Rightarrow> bool \<Rightarrow> bool \<Rightarrow> bool \<Rightarrow> bool \<times> bool" where
  "enforceStrictInlineEvalApprovalBoundary base approvedByAsk denied requiresInlineEvalApproval =
     (if \<not> bd_timedOut base \<or> \<not> requiresInlineEvalApproval \<or> \<not> approvedByAsk then (approvedByAsk, denied) else (False, True))"

text \<open>The run after the answer; \<open>None\<close> is a denial.\<close>

definition gateway_after_decision :: "gateway_check \<Rightarrow> string \<Rightarrow> exec_decision option \<Rightarrow> string option" where
  "gateway_after_decision c command decision =
     (let base = resolveBaseExecApprovalDecision decision (gc_askFallback c);
          (approved1, denied1) =
            (if bd_timedOut base \<and> gc_askFallback c = SecAllowlist
             then (if \<not> gc_analysisOk c \<or> \<not> gc_allowlistSatisfied c then (bd_approvedByAsk base, True) else (True, bd_denied base))
             else if decision = Some AllowOnce \<or> decision = Some AllowAlways then (True, bd_denied base)
             else (bd_approvedByAsk base, bd_denied base));
          (approved2, denied2) = enforceStrictInlineEvalApprovalBoundary base approved1 denied1 (gc_inlineEval c);
          denied = denied2 \<or> (\<not> approved2 \<and> hasGatewayAllowlistMiss c)
      in if denied then None else Some (gateway_command c command))"

text \<open>The run without a question; \<open>None\<close> is the error \<open>allowlist miss\<close>.\<close>

definition gateway_without_asking :: "gateway_check \<Rightarrow> string \<Rightarrow> string option" where
  "gateway_without_asking c command = (if hasGatewayAllowlistMiss c then None else Some (gateway_command c command))"

text \<open>\<open>answer\<close> is what the approver decides if asked.\<close>

definition processGatewayAllowlist ::
  "(string \<Rightarrow> string) \<Rightarrow> machine \<Rightarrow> allowlist_context \<Rightarrow> exec_security \<Rightarrow> exec_ask \<Rightarrow> resolved_approvals \<Rightarrow> bool \<Rightarrow> string \<Rightarrow>
   exec_decision option \<Rightarrow> string option" where
  "processGatewayAllowlist sha256Hex mc cx security ask approvals strictInlineEval command answer =
     (case resolveExecHostApprovalContext security ask approvals of
        None \<Rightarrow> None
      | Some host \<Rightarrow>
          let c = check_gateway sha256Hex mc (cx\<lparr>cx_allowlist := ra_allowlist approvals\<rparr>) host strictInlineEval command in
          if gc_requiresAsk c then gateway_after_decision c command answer else gateway_without_asking c command)"

end
