(* ===== verification/Shell_Facts.thy ===== *)
theory Shell_Facts
  imports Shell_Words
begin

text \<open>
  Facts about the reading of command lines. A command line made of single-quoted words is read back as these
  words, by the word splitter, the pipeline splitter and the chain splitter. A reference automaton of the
  quoting rules of a POSIX shell says which characters of a text are active, and what the pipeline splitter
  accepts has none that could start another command.
\<close>

subsection \<open>One quoted word\<close>

abbreviation (input) quoted_body :: "string \<Rightarrow> string" where
  "quoted_body v \<equiv> concat (map (\<lambda>c. if c = ch_squote
      then [ch_squote, ch_dquote, ch_squote, ch_dquote, ch_squote] else [c]) v)"

lemma split_args_body:
  "split_args_loop InSingle tokens buf (quoted_body v @ ch_squote # rest) = split_args_loop Plain tokens (buf @ v) rest"
  by (induction v arbitrary: buf) auto

lemma split_args_word:
  "split_args_loop Plain tokens buf (shellEscapeSingleArg v @ rest) = split_args_loop Plain tokens (buf @ v) rest"
  by (simp add: shellEscapeSingleArg_def split_args_body)

lemma split_args_words:
  "split_args_loop Plain tokens [] (js_join '' '' (map shellEscapeSingleArg argv)) =
     Some (tokens @ filter (\<lambda>a. a \<noteq> []) argv)"
proof (induction argv arbitrary: tokens)
  case (Cons v argv)
  show ?case
  proof (cases argv)
    case Nil
    then show ?thesis
      using split_args_word [of tokens "[]" v "[]"] by (simp add: push_token_def)
  next
    case (Cons w ws)
    have space: "js_is_space ch_blank" by (simp add: js_is_space_def js_code_def)
    have "split_args_loop Plain tokens [] (js_join '' '' (map shellEscapeSingleArg (v # argv))) =
      split_args_loop Plain tokens v (ch_blank # js_join '' '' (map shellEscapeSingleArg argv))"
      using split_args_word [of tokens "[]" v] Cons by simp
    also have "\<dots> = split_args_loop Plain (push_token tokens v) [] (js_join '' '' (map shellEscapeSingleArg argv))"
      by (simp add: space)
    finally show ?thesis using Cons.IH [of "push_token tokens v"] by (simp add: push_token_def)
  qed
qed (simp add: push_token_def)

lemma split_rendered: "splitShellArgs (renderQuotedArgv argv) = Some (filter (\<lambda>a. a \<noteq> []) argv)"
  by (simp add: splitShellArgs_def renderQuotedArgv_def split_args_words)

subsection \<open>The ends of a quoted text\<close>

lemma escape_ends: "\<exists>m. shellEscapeSingleArg v = ch_squote # m @ [ch_squote]"
  by (simp add: shellEscapeSingleArg_def)

lemma render_ends: "argv \<noteq> [] \<Longrightarrow> \<exists>m. renderQuotedArgv argv = ch_squote # m @ [ch_squote]"
proof (induction argv)
  case (Cons v argv)
  obtain m where m: "shellEscapeSingleArg v = ch_squote # m @ [ch_squote]" using escape_ends by blast
  show ?case
  proof (cases argv)
    case (Cons w ws)
    with Cons.IH obtain m' where "renderQuotedArgv argv = ch_squote # m' @ [ch_squote]" by auto
    then have "renderQuotedArgv (v # argv) = ch_squote # (m @ ch_squote # ch_blank # ch_squote # m') @ [ch_squote]"
      using Cons m by (simp add: renderQuotedArgv_def)
    then show ?thesis by blast
  qed (use m in \<open>simp add: renderQuotedArgv_def\<close>)
qed simp

lemma js_trim_padded: "js_trim (ch_blank # s) = js_trim s" "js_trim (s @ [ch_blank]) = js_trim s"
proof -
  have b: "js_is_space ch_blank" by (simp add: js_is_space_def js_code_def)
  show "js_trim (ch_blank # s) = js_trim s" using b by (simp add: js_trim_def js_trim_start_def)
  show "js_trim (s @ [ch_blank]) = js_trim s"
  proof (cases "\<forall>x \<in> set s. js_is_space x")
    case True
    then have "dropWhile js_is_space s = []" "dropWhile js_is_space (s @ [ch_blank]) = []" using b by simp_all
    then show ?thesis unfolding js_trim_def js_trim_start_def by (simp only:)
  next
    case False
    then have "dropWhile js_is_space (s @ [ch_blank]) = dropWhile js_is_space s @ [ch_blank]" by (simp add: dropWhile_append)
    with b show ?thesis by (simp add: js_trim_def js_trim_start_def js_trim_end_def)
  qed
qed

lemma js_trim_rendered: "argv \<noteq> [] \<Longrightarrow> js_trim (renderQuotedArgv argv) = renderQuotedArgv argv"
proof -
  assume "argv \<noteq> []"
  then obtain m where m: "renderQuotedArgv argv = ch_squote # m @ [ch_squote]" using render_ends by blast
  have "\<not> js_is_space ch_squote" by (simp add: js_is_space_def js_code_def)
  then show ?thesis using m by (intro js_trim_fixed) auto
qed

subsection \<open>Quoted words in a pipeline\<close>

lemma put_put [simp]: "put (put st q a) q' b = put st q' (a @ b)"
  by (simp add: put_def)

lemma put_fields [simp]:
  "pl_quoting (put st q a) = q" "pl_inHeredocBody (put st q a) = pl_inHeredocBody st"
  "pl_buf (put st q a) = pl_buf st @ a" "pl_segments (put st q a) = pl_segments st"
  "pl_pendingHeredocs (put st q a) = pl_pendingHeredocs st" "pl_emptySegment (put st q a) = False"
  by (simp_all add: put_def)

lemma pushPart_fields [simp]:
  "pl_quoting (pushPart st) = pl_quoting st" "pl_inHeredocBody (pushPart st) = pl_inHeredocBody st"
  "pl_pendingHeredocs (pushPart st) = pl_pendingHeredocs st" "pl_buf (pushPart st) = []"
  "pl_emptySegment (pushPart st) = pl_emptySegment st"
  "pl_segments (pushPart st) = (if js_trim (pl_buf st) \<noteq> [] then pl_segments st @ [js_trim (pl_buf st)] else pl_segments st)"
  by (simp_all add: pushPart_def Let_def)

lemmas scan_round = scan.simps(2)

declare scan_round [simp del]

lemma single_body_scan:
  "pl_quoting st = InSingle \<Longrightarrow> \<not> pl_inHeredocBody st \<Longrightarrow>
   scan pipe_step st prev (quoted_body v @ ch_squote # rest) =
     scan pipe_step (put st Plain (quoted_body v @ [ch_squote])) (Some ch_squote) rest"
proof (induction v arbitrary: st prev)
  case Nil
  then show ?case by (simp add: scan_round pipe_step_def)
next
  case (Cons c v)
  show ?case
  proof (cases "c = ch_squote")
    case True
    with Cons.prems show ?thesis
      using Cons.IH [of "put st InSingle [ch_squote, ch_dquote, ch_squote, ch_dquote, ch_squote]"]
      by (simp add: scan_round pipe_step_def plain_step_def double_quoted_step_def isShellCommentStart_def)
  next
    case False
    with Cons.prems show ?thesis using Cons.IH [of "put st InSingle [c]"] by (simp add: scan_round pipe_step_def)
  qed
qed

lemma word_scan:
  "pl_quoting st = Plain \<Longrightarrow> \<not> pl_inHeredocBody st \<Longrightarrow>
   scan pipe_step st prev (shellEscapeSingleArg v @ rest) =
     scan pipe_step (put st Plain (shellEscapeSingleArg v)) (Some ch_squote) rest"
  using single_body_scan [of "put st InSingle [ch_squote]"]
  by (simp add: shellEscapeSingleArg_def scan_round pipe_step_def plain_step_def)

lemma blank_scan:
  "pl_quoting st = Plain \<Longrightarrow> \<not> pl_inHeredocBody st \<Longrightarrow>
   scan pipe_step st prev (ch_blank # rest) = scan pipe_step (put st Plain [ch_blank]) (Some ch_blank) rest"
  by (simp add: scan_round pipe_step_def plain_step_def isShellCommentStart_def DISALLOWED_PIPELINE_TOKENS_def)

lemma words_scan:
  "argv \<noteq> [] \<Longrightarrow> pl_quoting st = Plain \<Longrightarrow> \<not> pl_inHeredocBody st \<Longrightarrow>
   scan pipe_step st prev (renderQuotedArgv argv @ rest) =
     scan pipe_step (put st Plain (renderQuotedArgv argv)) (Some ch_squote) rest"
proof (induction argv arbitrary: st prev)
  case (Cons v argv)
  show ?case
  proof (cases argv)
    case Nil
    then show ?thesis using Cons.prems by (simp add: renderQuotedArgv_def word_scan)
  next
    case (Cons w ws)
    then have r: "renderQuotedArgv (v # argv) = shellEscapeSingleArg v @ ch_blank # renderQuotedArgv argv"
      by (simp add: renderQuotedArgv_def)
    have "argv \<noteq> []" using Cons by simp
    then show ?thesis
      using Cons.prems Cons.IH [of "put st Plain (shellEscapeSingleArg v @ [ch_blank])"]
      by (simp add: r word_scan blank_scan)
  qed
qed simp

text \<open>A bar between two blanks cuts the segment.\<close>

lemma bar_scan:
  "pl_quoting st = Plain \<Longrightarrow> \<not> pl_inHeredocBody st \<Longrightarrow>
   scan pipe_step st prev ('' | '' @ rest) =
     scan pipe_step (put (pushPart (st\<lparr>pl_buf := pl_buf st @ '' '', pl_emptySegment := True\<rparr>)) Plain '' '') (Some ch_blank) rest"
  by (cases st) (simp add: scan_round pipe_step_def plain_step_def isShellCommentStart_def DISALLOWED_PIPELINE_TOKENS_def
      put_def pushPart_def Let_def)

definition rendered_pipeline :: "string list list \<Rightarrow> string" where
  "rendered_pipeline argvs = js_join '' | '' (map renderQuotedArgv argvs)"

lemma rendered_pipeline_single [simp]: "rendered_pipeline [argv] = renderQuotedArgv argv"
  by (simp add: rendered_pipeline_def)

lemma rendered_pipeline_Cons:
  "argvs \<noteq> [] \<Longrightarrow> rendered_pipeline (argv # argvs) = renderQuotedArgv argv @ '' | '' @ rendered_pipeline argvs"
  by (cases argvs) (simp_all add: rendered_pipeline_def)

definition waiting :: "string list \<Rightarrow> string \<Rightarrow> pipe_state" where
  "waiting segments buf = pipe_start\<lparr>pl_segments := segments, pl_buf := buf\<rparr>"

lemma waiting_fields [simp]:
  "pl_quoting (waiting s b) = Plain" "\<not> pl_inHeredocBody (waiting s b)" "pl_pendingHeredocs (waiting s b) = []"
  "pl_buf (waiting s b) = b" "pl_segments (waiting s b) = s" "\<not> pl_emptySegment (waiting s b)"
  by (simp_all add: waiting_def pipe_start_def)

lemma put_waiting [simp]: "put (waiting s b) Plain t = waiting s (b @ t)"
  by (simp add: put_def waiting_def pipe_start_def)

lemma pushPart_waiting:
  "js_trim b \<noteq> [] \<Longrightarrow> put (pushPart ((waiting s b)\<lparr>pl_buf := b', pl_emptySegment := e\<rparr>)) Plain t =
     waiting (if js_trim b' = [] then s else s @ [js_trim b']) t"
  by (simp add: put_def waiting_def pipe_start_def pushPart_def Let_def)

lemma pipeline_scan:
  "argvs \<noteq> [] \<Longrightarrow> [] \<notin> set argvs \<Longrightarrow> b \<in> {[], '' ''} \<Longrightarrow>
   scan pipe_step (waiting s b) prev (rendered_pipeline argvs) =
     Inr (waiting (s @ map renderQuotedArgv (butlast argvs)) ((if length argvs = 1 then b else '' '') @ renderQuotedArgv (last argvs)))"
proof (induction argvs arbitrary: s b prev)
  case (Cons argv argvs)
  have trim: "js_trim (b @ renderQuotedArgv argv) = renderQuotedArgv argv" "js_trim ((b @ renderQuotedArgv argv) @ '' '') = renderQuotedArgv argv"
    using Cons.prems by (auto simp: js_trim_padded js_trim_rendered)
  have argv: "argv \<noteq> []" using Cons.prems by auto
  then have ne: "renderQuotedArgv argv \<noteq> []" using render_ends [of argv] by auto
  show ?case
  proof (cases argvs)
    case Nil
    then show ?thesis using Cons.prems words_scan [of argv "waiting s b" prev "[]"] by simp
  next
    case (Cons w ws)
    then have "rendered_pipeline (argv # argvs) = renderQuotedArgv argv @ '' | '' @ rendered_pipeline argvs"
      by (simp add: rendered_pipeline_Cons)
    then have "scan pipe_step (waiting s b) prev (rendered_pipeline (argv # argvs)) =
        scan pipe_step (waiting s (b @ renderQuotedArgv argv)) (Some ch_squote) ('' | '' @ rendered_pipeline argvs)"
      using argv by (simp add: words_scan)
    also have "\<dots> = scan pipe_step (waiting (s @ [renderQuotedArgv argv]) '' '') (Some ch_blank) (rendered_pipeline argvs)"
      using trim ne by (subst bar_scan) (simp_all add: pushPart_waiting)
    finally show ?thesis using Cons Cons.prems Cons.IH [of "'' ''" "s @ [renderQuotedArgv argv]"] by simp
  qed
qed simp

lemma pipeline_of_rendered:
  assumes "argvs \<noteq> []" "[] \<notin> set argvs"
  shows "splitShellPipeline (rendered_pipeline argvs) = Inr (map renderQuotedArgv argvs)"
proof -
  have last: "last argvs \<noteq> []" using assms last_in_set by metis
  then have trim: "js_trim ((if length argvs = 1 then [] else '' '') @ renderQuotedArgv (last argvs)) = renderQuotedArgv (last argvs)"
    by (simp add: js_trim_padded js_trim_rendered)
  have ne: "renderQuotedArgv (last argvs) \<noteq> []" using render_ends [OF last] by auto
  have start: "pipe_start = waiting [] []" by (simp add: waiting_def pipe_start_def)
  have "map renderQuotedArgv (butlast argvs) @ [renderQuotedArgv (last argvs)] = map renderQuotedArgv argvs"
    using assms(1) by (metis append_butlast_last_id map_append list.simps(8) list.simps(9))
  then show ?thesis
    using assms trim ne
    by (simp add: splitShellPipeline_def start pipeline_scan finish_pipeline_def close_last_heredoc_def Let_def split: if_splits)
qed

subsection \<open>Quoted words in a chain\<close>

lemma chain_put_put [simp]: "chain_put (chain_put st q a) q' b = chain_put st q' (a @ b)"
  by (simp add: chain_put_def)

lemma chain_put_fields [simp]:
  "cs_quoting (chain_put st q a) = q" "cs_buf (chain_put st q a) = cs_buf st @ a" "cs_parts (chain_put st q a) = cs_parts st"
  "cs_foundChain (chain_put st q a) = cs_foundChain st" "cs_invalidChain (chain_put st q a) = cs_invalidChain st"
  by (simp_all add: chain_put_def)

lemma chain_single_body:
  "cs_quoting st = InSingle \<Longrightarrow>
   scan chain_step st prev (quoted_body v @ ch_squote # rest) =
     scan chain_step (chain_put st Plain (quoted_body v @ [ch_squote])) (Some ch_squote) rest"
proof (induction v arbitrary: st prev)
  case Nil
  then show ?case by (simp add: scan_round chain_step_def)
next
  case (Cons c v)
  show ?case
  proof (cases "c = ch_squote")
    case True
    with Cons.prems show ?thesis
      using Cons.IH [of "chain_put st InSingle [ch_squote, ch_dquote, ch_squote, ch_dquote, ch_squote]"]
      by (simp add: scan_round chain_step_def isShellCommentStart_def)
  next
    case False
    with Cons.prems show ?thesis using Cons.IH [of "chain_put st InSingle [c]"] by (simp add: scan_round chain_step_def)
  qed
qed

lemma chain_word:
  "cs_quoting st = Plain \<Longrightarrow>
   scan chain_step st prev (shellEscapeSingleArg v @ rest) =
     scan chain_step (chain_put st Plain (shellEscapeSingleArg v)) (Some ch_squote) rest"
  using chain_single_body [of "chain_put st InSingle [ch_squote]"]
  by (simp add: shellEscapeSingleArg_def scan_round chain_step_def)

lemma chain_blank:
  "cs_quoting st = Plain \<Longrightarrow>
   scan chain_step st prev (ch_blank # rest) = scan chain_step (chain_put st Plain [ch_blank]) (Some ch_blank) rest"
  by (simp add: scan_round chain_step_def isShellCommentStart_def)

lemma chain_words:
  "argv \<noteq> [] \<Longrightarrow> cs_quoting st = Plain \<Longrightarrow>
   scan chain_step st prev (renderQuotedArgv argv @ rest) =
     scan chain_step (chain_put st Plain (renderQuotedArgv argv)) (Some ch_squote) rest"
proof (induction argv arbitrary: st prev)
  case (Cons v argv)
  show ?case
  proof (cases "argv = []")
    case True
    then show ?thesis using Cons.prems by (simp add: renderQuotedArgv_def chain_word)
  next
    case False
    then have "renderQuotedArgv (v # argv) = shellEscapeSingleArg v @ ch_blank # renderQuotedArgv argv"
      by (cases argv) (simp_all add: renderQuotedArgv_def)
    with False show ?thesis
      using Cons.prems Cons.IH [of "chain_put st Plain (shellEscapeSingleArg v @ [ch_blank])"]
      by (simp add: chain_word chain_blank)
  qed
qed simp

lemma chain_pipeline:
  "argvs \<noteq> [] \<Longrightarrow> [] \<notin> set argvs \<Longrightarrow> cs_quoting st = Plain \<Longrightarrow>
   scan chain_step st prev (rendered_pipeline argvs @ rest) =
     scan chain_step (chain_put st Plain (rendered_pipeline argvs)) (Some ch_squote) rest"
proof (induction argvs arbitrary: st prev)
  case (Cons argv argvs)
  have argv: "argv \<noteq> []" using Cons.prems by auto
  show ?case
  proof (cases "argvs = []")
    case True
    then show ?thesis using argv Cons.prems by (simp add: chain_words)
  next
    case False
    have bar: "scan chain_step st' p (CHR ''|'' # ch_blank # r) = scan chain_step (chain_put st' Plain ''| '') (Some ch_blank) r"
      if "cs_quoting st' = Plain" for st' p r
      using that by (simp add: scan_round chain_step_def isShellCommentStart_def)
    show ?thesis
      using False argv Cons.prems Cons.IH [of "chain_put st Plain (renderQuotedArgv argv @ '' | '')"]
      by (simp add: rendered_pipeline_Cons chain_words chain_blank bar)
  qed
qed simp

lemma rendered_pipeline_ends:
  "argvs \<noteq> [] \<Longrightarrow> [] \<notin> set argvs \<Longrightarrow> \<exists>m. rendered_pipeline argvs = ch_squote # m @ [ch_squote]"
proof (induction argvs)
  case (Cons argv argvs)
  then have "argv \<noteq> []" by auto
  then obtain m where m: "renderQuotedArgv argv = ch_squote # m @ [ch_squote]" using render_ends by blast
  show ?case
  proof (cases "argvs = []")
    case False
    then obtain m' where "rendered_pipeline argvs = ch_squote # m' @ [ch_squote]" using Cons by auto
    then have "rendered_pipeline (argv # argvs) = ch_squote # (m @ ch_squote # '' | '' @ ch_squote # m') @ [ch_squote]"
      using False m by (simp add: rendered_pipeline_Cons)
    then show ?thesis by blast
  qed (use m in simp)
qed simp

lemma trim_rendered_pipeline:
  assumes "argvs \<noteq> []" "[] \<notin> set argvs" "b \<in> {[], '' ''}"
  shows "js_trim (b @ rendered_pipeline argvs) = rendered_pipeline argvs"
    "js_trim (b @ rendered_pipeline argvs @ '' '') = rendered_pipeline argvs" "rendered_pipeline argvs \<noteq> []"
proof -
  obtain m where m: "rendered_pipeline argvs = ch_squote # m @ [ch_squote]" using rendered_pipeline_ends assms by blast
  have "\<not> js_is_space ch_squote" by (simp add: js_is_space_def js_code_def)
  with m have t: "js_trim (rendered_pipeline argvs) = rendered_pipeline argvs" by (intro js_trim_fixed) auto
  then show "js_trim (b @ rendered_pipeline argvs) = rendered_pipeline argvs" using assms(3) by (auto simp: js_trim_padded)
  show "js_trim (b @ rendered_pipeline argvs @ '' '') = rendered_pipeline argvs"
    using assms(3) t js_trim_padded(2) [of "b @ rendered_pipeline argvs"] by (auto simp: js_trim_padded)
  show "rendered_pipeline argvs \<noteq> []" using m by simp
qed

text \<open>The text of a chain of pipelines of quoted words; the last part has no operator.\<close>

fun render_chain :: "(string list list \<times> chain_operator option) list \<Rightarrow> string" where
  "render_chain [] = []"
| "render_chain ((argvs, op) # parts) =
     rendered_pipeline argvs @ (case op of None \<Rightarrow> [] | Some op \<Rightarrow> '' '' @ operator_text op @ '' '') @ render_chain parts"

fun chain_shape :: "('a \<times> chain_operator option) list \<Rightarrow> bool" where
  "chain_shape [] = False"
| "chain_shape [(_, op)] = (op = None)"
| "chain_shape ((_, op) # parts) = (op \<noteq> None \<and> chain_shape parts)"

lemma chain_operator_scan:
  assumes "cs_quoting st = Plain"
  shows "scan chain_step st prev ('' '' @ operator_text op @ '' '' @ rest) =
    scan chain_step (chain_put (chain_cut (chain_put st Plain '' '') op) Plain '' '') (Some ch_blank) rest"
proof -
  have q: "cs_quoting (chain_cut s op') = cs_quoting s" for s op' by (simp add: chain_cut_def Let_def)
  have cut: "scan chain_step s p (operator_text op @ r) = scan chain_step (chain_cut s op) (Some (last (operator_text op))) r"
    if "cs_quoting s = Plain" for s p r
    using that by (cases op) (simp_all add: operator_text_def scan_round chain_step_def isShellCommentStart_def)
  show ?thesis using assms by (simp add: chain_blank cut q)
qed

definition chain_waiting :: "(string \<times> chain_operator option) list \<Rightarrow> string \<Rightarrow> bool \<Rightarrow> chain_state" where
  "chain_waiting parts buf found =
     \<lparr>cs_parts = parts, cs_buf = buf, cs_quoting = Plain, cs_foundChain = found, cs_invalidChain = False\<rparr>"

lemma chain_waiting_put [simp]: "chain_put (chain_waiting p b f) Plain t = chain_waiting p (b @ t) f"
  "cs_quoting (chain_waiting p b f) = Plain"
  by (simp_all add: chain_waiting_def chain_put_def)

lemma chain_waiting_cut: "js_trim b \<noteq> [] \<Longrightarrow> chain_cut (chain_waiting p b f) op = chain_waiting (p @ [(js_trim b, Some op)]) [] True"
  by (simp add: chain_waiting_def chain_cut_def Let_def)

lemma chain_scan:
  "chain_shape parts \<Longrightarrow> \<forall>p \<in> set parts. fst p \<noteq> [] \<and> [] \<notin> set (fst p) \<Longrightarrow> b \<in> {[], '' ''} \<Longrightarrow>
   \<exists>b'. b' \<in> {[], '' ''} \<and>
   scan chain_step (chain_waiting done_parts b found) prev (render_chain parts) =
     Inr (chain_waiting (done_parts @ map (map_prod rendered_pipeline id) (butlast parts))
            (b' @ rendered_pipeline (fst (last parts))) (found \<or> length parts > 1))"
proof (induction parts arbitrary: done_parts b found prev rule: chain_shape.induct)
  case (2 argvs op)
  then have "argvs \<noteq> []" "[] \<notin> set argvs" by auto
  then show ?case
    using 2 chain_pipeline [of argvs "chain_waiting done_parts b found" prev "[]"] by (intro exI [of _ b]) auto
next
  case (3 argvs op part parts)
  then obtain o' where o': "op = Some o'" by auto
  have ok: "argvs \<noteq> []" "[] \<notin> set argvs" using "3.prems"(2) by auto
  have trim: "js_trim (b @ rendered_pipeline argvs @ '' '') = rendered_pipeline argvs" "rendered_pipeline argvs \<noteq> []"
    using trim_rendered_pipeline ok "3.prems"(3) by auto
  let ?done = "done_parts @ [(rendered_pipeline argvs, Some o')]"
  have "\<exists>b'. b' \<in> {[], '' ''} \<and> scan chain_step (chain_waiting ?done '' '' True) (Some ch_blank) (render_chain (part # parts)) =
       Inr (chain_waiting (?done @ map (map_prod rendered_pipeline id) (butlast (part # parts)))
            (b' @ rendered_pipeline (fst (last (part # parts)))) (True \<or> length (part # parts) > 1))"
    by (rule "3.IH") (use "3.prems" in auto)
  then obtain b' where b': "b' \<in> {[], '' ''}"
    "scan chain_step (chain_waiting ?done '' '' True) (Some ch_blank) (render_chain (part # parts)) =
       Inr (chain_waiting (?done @ map (map_prod rendered_pipeline id) (butlast (part # parts)))
            (b' @ rendered_pipeline (fst (last (part # parts)))) (True \<or> length (part # parts) > 1))" by blast
  have "scan chain_step (chain_waiting done_parts b found) prev (render_chain ((argvs, op) # part # parts)) =
      scan chain_step (chain_waiting (done_parts @ [(rendered_pipeline argvs, Some o')]) '' '' True) (Some ch_blank) (render_chain (part # parts))"
    using ok trim chain_operator_scan [of "chain_waiting done_parts (b @ rendered_pipeline argvs) found" _ o']
    by (simp add: o' chain_pipeline chain_waiting_cut del: render_chain.simps(2)) (simp add: o' chain_pipeline chain_waiting_cut)
  with b' show ?case by (intro exI [of _ b']) (simp add: o' id_def)
qed simp

lemma chain_of_rendered:
  assumes "chain_shape parts" and "\<forall>p \<in> set parts. fst p \<noteq> [] \<and> [] \<notin> set (fst p)"
  shows "js_or_else (splitCommandChainWithOperators (render_chain parts)) [(render_chain parts, None)] =
    map (map_prod rendered_pipeline id) parts"
proof -
  have ne: "parts \<noteq> []" using assms(1) by (cases parts) auto
  obtain argvs where last: "last parts = (argvs, None)" using assms(1)
    by (induction parts rule: chain_shape.induct) auto
  then have "(argvs, None) \<in> set parts" using ne last_in_set by metis
  then have ok: "argvs \<noteq> []" "[] \<notin> set argvs" using assms(2) by auto
  obtain b' where b': "b' \<in> {[], '' ''}" "scan chain_step (chain_waiting [] [] False) None (render_chain parts) =
     Inr (chain_waiting (map (map_prod rendered_pipeline id) (butlast parts))
            (b' @ rendered_pipeline argvs) (length parts > 1))"
    using chain_scan [OF assms, where done_parts = "[]" and b = "[]" and found = False and prev = None] last by auto
  have split: "parts = butlast parts @ [(argvs, None)]" using ne last by (metis append_butlast_last_id)
  show ?thesis
  proof (cases "length parts > 1")
    case True
    then have "splitCommandChainWithOperators (render_chain parts) =
        Some (map (map_prod rendered_pipeline id) (butlast parts) @ [(rendered_pipeline argvs, None)])"
      using b' trim_rendered_pipeline [OF ok b'(1)]
      by (simp add: splitCommandChainWithOperators_def chain_start_def chain_waiting_def finish_chain_def Let_def)
    then show ?thesis by (subst (3) split) simp
  next
    case False
    then have one: "parts = [(argvs, None)]" using ne last by (cases parts) (auto split: if_splits)
    then have "splitCommandChainWithOperators (render_chain parts) = None"
      using b' by (simp add: splitCommandChainWithOperators_def chain_start_def chain_waiting_def finish_chain_def Let_def)
    then show ?thesis using one by simp
  qed
qed

subsection \<open>Reading a command line\<close>

text \<open>The chain parts of a command line with the segments of their pipelines, and with the words of the segments.\<close>

fun chain_segments :: "(string \<times> chain_operator option) list \<Rightarrow> (string list \<times> chain_operator option) list option" where
  "chain_segments [] = Some []"
| "chain_segments ((part, op) # parts) =
     (case splitShellPipeline part of
        Inl _ \<Rightarrow> None
      | Inr segments \<Rightarrow> map_option (\<lambda>more_parts. (segments, op) # more_parts) (chain_segments parts))"

definition source_segments :: "string \<Rightarrow> (string list \<times> chain_operator option) list option" where
  "source_segments command = chain_segments (js_or_else (splitCommandChainWithOperators command) [(command, None)])"

definition shell_reading :: "string \<Rightarrow> (string list list \<times> chain_operator option) list option" where
  "shell_reading command =
     map_option (map (map_prod (map (\<lambda>raw. js_or_else (splitShellArgs raw) [])) id)) (source_segments command)"

lemma scan_invariant:
  assumes "\<And>st prev ch rest st' n. P st \<Longrightarrow> step st prev ch rest = Go st' n \<Longrightarrow> P st'"
    and "\<And>st prev ch rest st'. P st \<Longrightarrow> step st prev ch rest = Break st' \<Longrightarrow> P st'"
  shows "P st \<Longrightarrow> scan step st prev s = Inr st' \<Longrightarrow> P st'"
proof (induction "length s" arbitrary: st prev s rule: less_induct)
  case less
  show ?case
  proof (cases s)
    case (Cons ch rest)
    show ?thesis
    proof (cases "step st prev ch rest")
      case (Go st1 n)
      then have "scan step st1 (Some (last (ch # take n rest))) (drop n rest) = Inr st'"
        using less.prems(2) by (simp add: Cons scan_round)
      then show ?thesis
        using less.hyps [of "drop n rest" st1] assms(1) [OF less.prems(1) Go] by (simp add: Cons)
    qed (use less.prems assms(2) [of st prev ch rest] in \<open>simp_all add: Cons scan_round\<close>)
  qed (use less.prems in simp)
qed

definition cut_parts_ok :: "chain_state \<Rightarrow> bool" where
  "cut_parts_ok st = (\<forall>p \<in> set (cs_parts st). snd p \<noteq> None)"

lemma chain_step_parts:
  "cut_parts_ok st \<Longrightarrow> chain_step st prev ch rest = Go st' n \<Longrightarrow> cut_parts_ok st'"
  "cut_parts_ok st \<Longrightarrow> chain_step st prev ch rest = Break st' \<Longrightarrow> cut_parts_ok st'"
  by (auto simp: cut_parts_ok_def chain_step_def chain_cut_def Let_def split: shell_quoting.splits if_splits)

lemma chain_shape_snoc: "\<forall>p \<in> set ps. snd p \<noteq> None \<Longrightarrow> chain_shape (ps @ [(t, None)])"
proof (induction ps)
  case (Cons p ps)
  then show ?case by (cases p; cases ps) auto
qed simp

lemma split_chain_shape: "chain_shape (js_or_else (splitCommandChainWithOperators command) [(command, None)])"
proof (cases "scan chain_step chain_start None command")
  case (Inr st)
  have "cut_parts_ok chain_start" by (simp add: cut_parts_ok_def chain_start_def)
  then have "cut_parts_ok st"
    using scan_invariant [where P = cut_parts_ok and step = chain_step] chain_step_parts Inr by blast
  then show ?thesis using Inr
    by (simp add: cut_parts_ok_def splitCommandChainWithOperators_def finish_chain_def Let_def chain_shape_snoc)
qed (simp add: splitCommandChainWithOperators_def)

text \<open>The planned words of every segment, in their order through the whole command line.\<close>

fun plan_parts :: "('s \<Rightarrow> nat \<Rightarrow> 'w) \<Rightarrow> nat \<Rightarrow> ('s list \<times> 'o) list \<Rightarrow> ('w list \<times> 'o) list" where
  "plan_parts plan n [] = []"
| "plan_parts plan n ((segments, op) # parts) =
     (map2 plan segments [n..<n + length segments], op) # plan_parts plan (n + length segments) parts"

lemma plan_parts_concat:
  "concat (map fst (plan_parts plan n parts)) =
     map2 plan (concat (map fst parts)) [n..<n + length (concat (map fst parts))]"
proof (induction plan n parts rule: plan_parts.induct)
  case (2 plan n segments op parts)
  have "[n..<n + (length segments + k)] = [n..<n + length segments] @ [n + length segments..<n + length segments + k]" for k
    by (metis add.assoc le_add1 upt_add_eq_append)
  then show ?case using 2 by simp
qed simp

lemma plan_parts_shape: "chain_shape (plan_parts plan n parts) = chain_shape parts"
proof (induction plan n parts rule: plan_parts.induct)
  case (2 plan n segments op parts)
  then show ?case by (cases parts) auto
qed simp

lemma chain_segments_shape: "chain_segments ps = Some parts \<Longrightarrow> chain_shape parts = chain_shape ps"
proof (induction ps arbitrary: parts rule: chain_segments.induct)
  case (2 part op ps)
  then show ?case by (cases ps) (auto split: sum.splits)
qed auto

lemma splitShellPipeline_ne: "splitShellPipeline s = Inr segments \<Longrightarrow> segments \<noteq> []"
  by (auto simp: splitShellPipeline_def finish_pipeline_def Let_def split: sum.splits if_splits)

lemma chain_segments_ne: "chain_segments ps = Some parts \<Longrightarrow> p \<in> set parts \<Longrightarrow> fst p \<noteq> []"
proof (induction ps arbitrary: parts)
  case (Cons q ps)
  then show ?case using splitShellPipeline_ne by (cases q) (fastforce split: sum.splits)
qed auto

lemma render_segments_plan:
  assumes "\<And>raw n text. render raw n = Inr text \<Longrightarrow> plan raw n \<noteq> [] \<and> text = renderQuotedArgv (plan raw n)"
  shows "render_segments render n raws = Inr texts \<Longrightarrow>
    texts = map renderQuotedArgv (map2 plan raws [n..<n + length raws]) \<and> [] \<notin> set (map2 plan raws [n..<n + length raws])"
proof (induction raws arbitrary: n texts)
  case (Cons raw raws)
  have upt: "[n..<n + length (raw # raws)] = n # [Suc n..<Suc n + length raws]"
    by (simp add: upt_conv_Cons del: upt_Suc)
  show ?case
    unfolding upt using Cons.prems Cons.IH [of "Suc n"] assms [of raw n] by (auto split: sum.splits simp del: upt_Suc)
qed auto

lemma render_parts_plan:
  assumes ok: "\<And>raw n text. render raw n = Inr text \<Longrightarrow> plan raw n \<noteq> [] \<and> text = renderQuotedArgv (plan raw n)"
  shows "render_parts render n ps = Inr (out, count) \<Longrightarrow>
    \<exists>parts. chain_segments ps = Some parts \<and> out = render_chain (plan_parts plan n parts) \<and>
      count = n + length (concat (map fst parts)) \<and> (\<forall>p \<in> set (plan_parts plan n parts). [] \<notin> set (fst p))"
proof (induction ps arbitrary: n out count)
  case (Cons q ps)
  obtain part op where q: "q = (part, op)" by (cases q)
  obtain segments texts others where *: "splitShellPipeline part = Inr segments"
    "render_segments render n segments = Inr texts" "render_parts render (n + length segments) ps = Inr (others, count)"
    and out: "out = js_join '' | '' texts @ (case op of None \<Rightarrow> [] | Some op \<Rightarrow> '' '' @ operator_text op @ '' '') @ others"
    using Cons.prems by (auto simp: q split: sum.splits)
  have texts: "texts = map renderQuotedArgv (map2 plan segments [n..<n + length segments])"
    "[] \<notin> set (map2 plan segments [n..<n + length segments])"
    using render_segments_plan [of render plan, OF _ *(2)] ok by blast+
  show ?case using Cons.IH [OF *(3)] texts by (auto simp: q *(1) out rendered_pipeline_def)
qed auto

lemma chain_segments_rendered:
  "\<forall>p \<in> set parts. fst p \<noteq> [] \<and> [] \<notin> set (fst p) \<Longrightarrow>
   chain_segments (map (map_prod rendered_pipeline id) parts) = Some (map (map_prod (map renderQuotedArgv) id) parts)"
proof (induction parts)
  case (Cons p parts)
  then show ?case by (cases p) (simp add: pipeline_of_rendered [unfolded rendered_pipeline_def [symmetric]])
qed simp

lemma reading_of_rendered:
  assumes "chain_shape parts" and "\<forall>p \<in> set parts. fst p \<noteq> [] \<and> [] \<notin> set (fst p)"
  shows "shell_reading (render_chain parts) = Some (map (map_prod (map (filter (\<lambda>a. a \<noteq> []))) id) parts)"
proof -
  have "source_segments (render_chain parts) = Some (map (map_prod (map renderQuotedArgv) id) parts)"
    unfolding source_segments_def chain_of_rendered [OF assms] by (rule chain_segments_rendered [OF assms(2)])
  then show ?thesis by (auto simp: shell_reading_def split_rendered)
qed

text \<open>A rebuilt command line reads as the planned words of the segments of its source.\<close>

lemma rebuild_reads_back:
  assumes ok: "\<And>raw n text. render raw n = Inr text \<Longrightarrow> plan raw n \<noteq> [] \<and> text = renderQuotedArgv (plan raw n)"
    and built: "rebuildShellCommandFromSource command render = Inr (out, count)"
  obtains parts where "source_segments (js_trim command) = Some parts" "count = length (concat (map fst parts))"
    "shell_reading out = Some (map (map_prod (map (filter (\<lambda>a. a \<noteq> []))) id) (plan_parts plan 0 parts))"
    "\<forall>p \<in> set (plan_parts plan 0 parts). [] \<notin> set (fst p)"
proof -
  let ?ps = "js_or_else (splitCommandChainWithOperators (js_trim command)) [(js_trim command, None)]"
  have "render_parts render 0 ?ps = Inr (out, count)"
    using built by (simp add: rebuildShellCommandFromSource_def Let_def split: if_splits)
  then obtain parts where p: "chain_segments ?ps = Some parts" "out = render_chain (plan_parts plan 0 parts)"
    "count = length (concat (map fst parts))" "\<forall>p \<in> set (plan_parts plan 0 parts). [] \<notin> set (fst p)"
    using render_parts_plan [of render plan, OF _ \<open>render_parts render 0 ?ps = Inr (out, count)\<close>] ok by auto
  have "fst q \<noteq> []" if "q \<in> set (plan_parts plan n ps)" "\<forall>r \<in> set ps. fst r \<noteq> []" for q n ps
    using that by (induction plan n ps rule: plan_parts.induct) auto
  then have ne: "\<forall>q \<in> set (plan_parts plan 0 parts). fst q \<noteq> []" using chain_segments_ne [OF p(1)] by blast
  have shape: "chain_shape (plan_parts plan 0 parts)"
    using split_chain_shape chain_segments_shape [OF p(1)] by (simp add: plan_parts_shape)
  show thesis
    by (rule that [of parts]) (use p ne shape in \<open>auto simp: source_segments_def intro: reading_of_rendered\<close>)
qed

subsection \<open>Active characters\<close>

text \<open>
  A reference automaton for the quoting rules of a POSIX shell: the state in which each character of a text
  is read. It is written from the rules of the shell language, one character at a time.
\<close>

datatype posix_state = SPlain | SEscape | SSingle | SDouble | SDoubleEscape

fun posix_next :: "posix_state \<Rightarrow> char \<Rightarrow> posix_state" where
  "posix_next SPlain c =
     (if c = ch_backslash then SEscape else if c = ch_squote then SSingle else if c = ch_dquote then SDouble else SPlain)"
| "posix_next SEscape c = SPlain"
| "posix_next SSingle c = (if c = ch_squote then SPlain else SSingle)"
| "posix_next SDouble c = (if c = ch_backslash then SDoubleEscape else if c = ch_dquote then SPlain else SDouble)"
| "posix_next SDoubleEscape c = SDouble"

text \<open>No character read in this state starts a command, a substitution, a redirection or a new line.\<close>

fun harmless_char :: "posix_state \<Rightarrow> char \<Rightarrow> char option \<Rightarrow> bool" where
  "harmless_char SPlain c n =
     (c \<notin> {CHR '';'', CHR ''&'', CHR ''<'', CHR ''>'', CHR ''('', CHR '')'', ch_backtick, ch_newline, ch_return} \<and>
      \<not> (c = ch_dollar \<and> n = Some CHR ''(''))"
| "harmless_char SDouble c n =
     (c \<notin> {ch_backtick, ch_newline, ch_return} \<and> \<not> (c = ch_dollar \<and> n = Some CHR ''(''))"
| "harmless_char SDoubleEscape c n = (c \<notin> {ch_newline, ch_return})"
| "harmless_char _ c n = True"

fun harmless_text :: "posix_state \<Rightarrow> string \<Rightarrow> bool" where
  "harmless_text q [] = (q = SPlain)"
| "harmless_text q (c # s) = (harmless_char q c (peek s) \<and> harmless_text (posix_next q c) s)"

text \<open>The pieces of a text between the bars that are not quoted.\<close>

fun bar_pieces :: "posix_state \<Rightarrow> string \<Rightarrow> string \<Rightarrow> string list" where
  "bar_pieces q buf [] = [buf]"
| "bar_pieces q buf (c # s) =
     (if q = SPlain \<and> c = CHR ''|'' then buf # bar_pieces SPlain [] s else bar_pieces (posix_next q c) (buf @ [c]) s)"

fun posix_of :: "shell_quoting \<Rightarrow> posix_state" where
  "posix_of Plain = SPlain" | "posix_of Escaped = SEscape" | "posix_of InSingle = SSingle" | "posix_of InDouble = SDouble"

definition trimmed_pieces :: "string list \<Rightarrow> string list" where
  "trimmed_pieces pieces = filter (\<lambda>t. t \<noteq> []) (map js_trim pieces)"

lemma trimmed_pieces_Cons [simp]:
  "trimmed_pieces (p # ps) = (if js_trim p \<noteq> [] then js_trim p # trimmed_pieces ps else trimmed_pieces ps)"
  "trimmed_pieces [] = []"
  by (simp_all add: trimmed_pieces_def)

definition follows :: "pipe_state \<Rightarrow> string \<Rightarrow> pipe_state \<Rightarrow> string \<Rightarrow> bool" where
  "follows st s st1 s1 \<longleftrightarrow>
     \<not> pl_inHeredocBody st1 \<and> pl_pendingHeredocs st1 = [] \<and>
     (harmless_text (posix_of (pl_quoting st1)) s1 \<longrightarrow> harmless_text (posix_of (pl_quoting st)) s) \<and>
     pl_segments st1 @ trimmed_pieces (bar_pieces (posix_of (pl_quoting st1)) (pl_buf st1) s1) =
       pl_segments st @ trimmed_pieces (bar_pieces (posix_of (pl_quoting st)) (pl_buf st) s)"

lemma plain_step_follows:
  assumes "\<not> pl_inHeredocBody st" "pl_pendingHeredocs st = []" "pl_quoting st = Plain"
    "ch \<noteq> CHR ''<''" "ch \<noteq> ch_hash" "plain_step st prev ch rest = Go st1 n"
  shows "follows st (ch # rest) st1 (drop n rest)"
proof (cases "ch = CHR ''|''")
  case True
  then have "st1 = pushPart (st\<lparr>pl_emptySegment := True\<rparr>)" "n = 0"
    using assms by (auto simp: plain_step_def isShellCommentStart_def split: if_splits)
  then show ?thesis using assms True by (simp add: follows_def)
next
  case False
  have q: "st1 = put st (if ch = ch_backslash then Escaped else if ch = ch_squote then InSingle
      else if ch = ch_dquote then InDouble else Plain) [ch]" "n = 0" and h: "harmless_char SPlain ch (peek rest)"
    using assms False
    by (auto simp: plain_step_def isShellCommentStart_def DISALLOWED_PIPELINE_TOKENS_def split: if_splits)
  have "posix_of (pl_quoting st1) = posix_next SPlain ch" using q by simp
  then show ?thesis using assms False q(2) h by (simp add: follows_def q(1) split: if_splits)
qed

lemma double_step_follows:
  assumes "\<not> pl_inHeredocBody st" "pl_pendingHeredocs st = []" "pl_quoting st = InDouble"
    "double_quoted_step st ch rest = Go st1 n"
  shows "follows st (ch # rest) st1 (drop n rest)"
proof (cases "ch = ch_backslash")
  case True
  show ?thesis
  proof (cases rest)
    case Nil
    then show ?thesis using assms True
      by (auto simp: double_quoted_step_def isDoubleQuoteEscape_def isEscapedLineContinuation_def follows_def)
  next
    case (Cons c r)
    have nl: "c \<notin> {ch_newline, ch_return}"
      using assms True Cons by (auto simp: double_quoted_step_def isEscapedLineContinuation_def)
    show ?thesis
    proof (cases "isDoubleQuoteEscape (Some c)")
      case esc: True
      then have "st1 = put st InDouble [ch, c]" "n = 1"
        using assms(4) nl by (simp_all add: double_quoted_step_def Cons True isEscapedLineContinuation_def)
      then show ?thesis using assms nl True Cons by (simp add: follows_def)
    next
      case False
      then have q: "st1 = put st InDouble [ch]" "n = 0"
        using assms(4) nl by (simp_all add: double_quoted_step_def Cons True isEscapedLineContinuation_def)
      have "c \<noteq> ch_backslash" "c \<noteq> ch_dquote" using False by (simp_all add: isDoubleQuoteEscape_def)
      then show ?thesis using assms nl True Cons q by (simp add: follows_def)
    qed
  qed
next
  case False
  then have q: "st1 = put st (if ch = ch_dquote then Plain else InDouble) [ch]" "n = 0"
    and h: "harmless_char SDouble ch (peek rest)"
    using assms by (auto simp: double_quoted_step_def split: if_splits)
  have "posix_of (pl_quoting st1) = posix_next SDouble ch" using q False by simp
  then show ?thesis using assms q(2) h by (simp add: follows_def q(1) split: if_splits)
qed

lemma pipe_step_follows:
  assumes "\<not> pl_inHeredocBody st" "pl_pendingHeredocs st = []" "ch \<noteq> CHR ''<''" "ch \<noteq> ch_hash"
    "pipe_step st prev ch rest = Go st1 n"
  shows "follows st (ch # rest) st1 (drop n rest)"
proof (cases "pl_quoting st")
  case Plain
  then show ?thesis using assms by (auto simp: pipe_step_def intro: plain_step_follows)
next
  case InDouble
  then show ?thesis using assms by (auto simp: pipe_step_def intro: double_step_follows)
qed (use assms in \<open>auto simp: pipe_step_def follows_def\<close>)

lemma pipe_step_no_break: "ch \<noteq> ch_hash \<Longrightarrow> pipe_step st prev ch rest \<noteq> Break st'"
  by (auto simp: pipe_step_def double_quoted_step_def plain_step_def heredoc_step_def heredoc_open_def isShellCommentStart_def
      Let_def split: shell_quoting.splits if_splits list.splits option.splits)

lemma pipe_scan_harmless:
  "\<not> pl_inHeredocBody st \<Longrightarrow> pl_pendingHeredocs st = [] \<Longrightarrow> CHR ''<'' \<notin> set s \<Longrightarrow> ch_hash \<notin> set s \<Longrightarrow>
   scan pipe_step st prev s = Inr st' \<Longrightarrow> pl_quoting st' = Plain \<Longrightarrow> follows st s st' []"
proof (induction "length s" arbitrary: st prev s rule: less_induct)
  case less
  show ?case
  proof (cases s)
    case (Cons ch rest)
    have ch: "ch \<noteq> CHR ''<''" "ch \<noteq> ch_hash" using less.prems Cons by auto
    obtain st1 n where g: "pipe_step st prev ch rest = Go st1 n"
      using less.prems(5) pipe_step_no_break [OF ch(2), of st prev rest]
      by (auto simp: Cons scan_round split: scan_step.splits)
    have rec: "scan pipe_step st1 (Some (last (ch # take n rest))) (drop n rest) = Inr st'"
      using less.prems(5) g by (simp add: Cons scan_round)
    have step: "follows st s st1 (drop n rest)"
      unfolding Cons by (rule pipe_step_follows [OF less.prems(1,2) ch g])
    have "CHR ''<'' \<notin> set (drop n rest)" "ch_hash \<notin> set (drop n rest)"
      using less.prems Cons by (auto dest: in_set_dropD)
    then have "follows st1 (drop n rest) st' []"
      using less.hyps [OF _ _ _ _ _ rec less.prems(6)] step by (simp add: Cons follows_def)
    then show ?thesis using step unfolding follows_def by simp
  qed (use less.prems in \<open>simp add: follows_def\<close>)
qed

lemma accepted_pipeline:
  assumes "splitShellPipeline s = Inr segments" "CHR ''<'' \<notin> set s" "ch_hash \<notin> set s"
  shows "harmless_text SPlain s" "segments = trimmed_pieces (bar_pieces SPlain [] s)"
proof -
  obtain st' where st': "scan pipe_step pipe_start None s = Inr st'" "finish_pipeline st' = Inr segments"
    using assms(1) by (auto simp: splitShellPipeline_def split: sum.splits)
  have quoting: "pl_quoting (close_last_heredoc st') = pl_quoting st'"
    by (auto simp: close_last_heredoc_def split: list.splits)
  then have plain: "pl_quoting st' = Plain" using st'(2) by (auto simp: finish_pipeline_def Let_def split: if_splits)
  have f: "follows pipe_start s st' []"
    by (rule pipe_scan_harmless [OF _ _ assms(2,3) st'(1) plain]) (simp_all add: pipe_start_def)
  then show "harmless_text SPlain s" using plain by (simp add: follows_def pipe_start_def)
  have "close_last_heredoc st' = st'" using f by (simp add: follows_def close_last_heredoc_def)
  then show "segments = trimmed_pieces (bar_pieces SPlain [] s)"
    using f st'(2) plain by (auto simp: follows_def pipe_start_def finish_pipeline_def Let_def split: if_splits)
qed

end
