(* ===== verification/Exec_Facts.thy ===== *)
theory Exec_Facts
  imports Exec_Host Shell_Facts
begin

text \<open>
  What it means that a command is covered by the allowlist, stated without the code's evaluation: an inductive
  definition over the segments of a command, closed under the inline commands of shells. The lemmas show that
  every evaluation that is satisfied establishes it, and what a rebuilt command line reads as.
\<close>

subsection \<open>Coverage\<close>

text \<open>An entry names a program by the bare wildcard or by a pattern for its resolved path.\<close>

definition names_program :: "machine \<Rightarrow> allowlist_entry \<Rightarrow> string option \<Rightarrow> bool" where
  "names_program mc entry path \<longleftrightarrow>
     (js_trim (al_pattern entry) = ''*'' \<and> \<not> js_truthy_str (al_argPattern entry)) \<or>
     (\<exists>p. path = Some p \<and> (has_separator (js_trim (al_pattern entry)) \<or> CHR ''~'' \<in> set (js_trim (al_pattern entry))) \<and>
          matchesExecAllowlistPattern mc (js_trim (al_pattern entry)) p)"

abbreviation inline_command :: "machine \<Rightarrow> command_segment \<Rightarrow> string option" where
  "inline_command mc segment \<equiv> extractShellWrapperInlineCommand (mc_platform mc) (effective_argv segment)"

text \<open>The programs of a segment that an entry may name: its own, one that its shell carries, the script of its shell.\<close>

inductive program_of :: "machine \<Rightarrow> string option \<Rightarrow> command_segment \<Rightarrow> string option \<Rightarrow> bool"
  for mc :: machine and cwd :: "string option" and segment :: command_segment where
  own_program:
    "candidate_resolution mc cwd segment = Some r \<Longrightarrow>
     (\<And>c. inline_command mc segment = Some c \<Longrightarrow> \<not> isDirectShellPositionalCarrierInvocation c) \<Longrightarrow>
     program_of mc cwd segment (er_resolvedPath r)"
| carried_program:
    "resolveShellWrapperPositionalArgvCandidatePath mc (segment\<lparr>sg_argv := effective_argv segment\<rparr>) cwd = Some p \<Longrightarrow>
     program_of mc cwd segment (Some p)"
| script_program:
    "inline_command mc segment = None \<Longrightarrow>
     resolveShellWrapperScriptCandidatePath mc (segment\<lparr>sg_argv := effective_argv segment\<rparr>) cwd = Some p \<Longrightarrow>
     program_of mc cwd segment (Some p)"

inductive covered :: "machine \<Rightarrow> allowlist_context \<Rightarrow> command_segment \<Rightarrow> bool"
  for mc :: machine and cx :: allowlist_context where
  by_entry:
    "\<not> policy_blocked segment \<Longrightarrow> entry \<in> set (cx_allowlist cx) \<Longrightarrow>
     program_of mc (cx_cwd cx) segment path \<Longrightarrow> names_program mc entry path \<Longrightarrow> covered mc cx segment"
| by_safe_bin:
    "\<not> policy_blocked segment \<Longrightarrow>
     isSafeBinUsage mc (cx_safeBins cx) (cx_safeBinProfiles cx) (cx_trustedSafeBinDirs cx)
       (effective_argv segment) (execution_of segment) \<Longrightarrow> covered mc cx segment"
| by_skill:
    "\<not> policy_blocked segment \<Longrightarrow>
     isSkillAutoAllowedSegment mc segment (allow_skills mc cx) (buildSkillBinTrustIndex mc (cx_skillBins cx)) \<Longrightarrow>
     covered mc cx segment"
| by_inline_chain:
    "\<not> policy_blocked segment \<Longrightarrow> inline_command mc segment = Some command \<Longrightarrow>
     splitCommandChain command = Some parts \<Longrightarrow>
     (\<And>part. part \<in> set parts \<Longrightarrow> \<exists>analysis. analyzeShellCommand mc (cx_cwd cx) part = Inr analysis \<and>
        (\<forall>s \<in> set (an_segments analysis). covered mc cx s)) \<Longrightarrow>
     covered mc cx segment"

definition covered_chain :: "machine \<Rightarrow> allowlist_context \<Rightarrow> string \<Rightarrow> bool" where
  "covered_chain mc cx command \<longleftrightarrow>
     (\<exists>parts. splitCommandChain command = Some parts \<and>
        (\<forall>part \<in> set parts. \<exists>analysis. analyzeShellCommand mc (cx_cwd cx) part = Inr analysis \<and>
           (\<forall>s \<in> set (an_segments analysis). covered mc cx s)))"

lemma covered_by_chain:
  "\<not> policy_blocked segment \<Longrightarrow> inline_command mc segment = Some command \<Longrightarrow> covered_chain mc cx command \<Longrightarrow>
   covered mc cx segment"
  by (auto simp: covered_chain_def intro: by_inline_chain)

lemma find_some: "List.find P xs = Some x \<Longrightarrow> x \<in> set xs \<and> P x"
  by (auto simp: find_Some_iff)

lemma matchAllowlist_names:
  assumes "matchAllowlist mc entries resolution = Some e"
  obtains r where "resolution = Some r" "e \<in> set entries" "names_program mc e (er_resolvedPath r)"
proof -
  obtain r where "resolution = Some r" using assms by (auto simp: matchAllowlist_def split: option.splits)
  moreover from this have "e \<in> set entries \<and> names_program mc e (er_resolvedPath r)"
    using assms by (auto simp: matchAllowlist_def names_program_def Let_def split: option.splits dest!: find_some)
  ultimately show thesis using that by blast
qed

lemma js_alt_some: "js_alt a b = Some x \<Longrightarrow> a = Some x \<or> b = Some x"
  by (auto simp: js_alt_def split: option.splits)

lemma resolved_match_covers:
  assumes "resolveSegmentAllowlistMatch mc cx segment = (inline, Some e)" and "\<not> policy_blocked segment"
  shows "covered mc cx segment"
proof -
  let ?effective = "segment\<lparr>sg_argv := effective_argv segment\<rparr>"
  consider
      (own) "matchAllowlist mc (cx_allowlist cx) (candidate_resolution mc (cx_cwd cx) segment) = Some e"
        "\<And>c. inline_command mc segment = Some c \<Longrightarrow> \<not> isDirectShellPositionalCarrierInvocation c"
    | (carried) p where "resolveShellWrapperPositionalArgvCandidatePath mc ?effective (cx_cwd cx) = Some p"
        "matchAllowlist mc (cx_allowlist cx) (Some (path_resolution p)) = Some e"
    | (script) p where "inline_command mc segment = None"
        "resolveShellWrapperScriptCandidatePath mc ?effective (cx_cwd cx) = Some p"
        "matchAllowlist mc (cx_allowlist cx) (Some (path_resolution p)) = Some e"
    using assms(1) by (auto simp: resolveSegmentAllowlistMatch_def Let_def dest!: js_alt_some split: option.splits if_splits)
  then show ?thesis
  proof cases
    case own
    then show ?thesis using assms(2) by (auto elim!: matchAllowlist_names intro!: by_entry program_of.own_program)
  next
    case carried
    then show ?thesis using assms(2)
      by (auto elim!: matchAllowlist_names simp: path_resolution_def intro!: by_entry program_of.carried_program)
  next
    case script
    then show ?thesis using assms(2)
      by (auto elim!: matchAllowlist_names simp: path_resolution_def intro!: by_entry program_of.script_program)
  qed
qed

lemma resolved_inline: "fst (resolveSegmentAllowlistMatch mc cx segment) = inline_command mc segment"
  by (simp add: resolveSegmentAllowlistMatch_def Let_def)

lemma satisfaction_covers:
  assumes "resolveSegmentSatisfaction mc cx match segment = Some reason" "\<not> policy_blocked segment"
    "resolveSegmentAllowlistMatch mc cx segment = (inline, match)"
  shows "covered mc cx segment"
  using assms by (cases match) (auto simp: resolveSegmentSatisfaction_def intro: resolved_match_covers by_safe_bin by_skill split: if_splits)

lemma evaluate_segments_covered:
  assumes inline: "\<And>c ms. inline c = Some ms \<Longrightarrow> covered_chain mc cx c"
  shows "ev_satisfied (evaluate_segments inline mc cx segments) \<Longrightarrow> \<forall>s \<in> set segments. covered mc cx s"
proof (induction segments)
  case (Cons segment segments)
  obtain ic match where rm: "resolveSegmentAllowlistMatch mc cx segment = (ic, match)" by (cases "resolveSegmentAllowlistMatch mc cx segment")
  have ic: "ic = inline_command mc segment" using resolved_inline [of mc cx segment] rm by simp
  have open_segment: "\<not> policy_blocked segment" using Cons.prems by (auto split: if_splits)
  have "covered mc cx segment"
  proof (cases "resolveSegmentSatisfaction mc cx match segment")
    case (Some reason)
    then show ?thesis using satisfaction_covers rm open_segment by blast
  next
    case None
    then obtain c ms where "ic = Some c" "inline c = Some ms"
      using Cons.prems open_segment rm by (auto simp: Let_def bind_eq_Some_conv split: if_splits option.splits)
    then show ?thesis using inline ic open_segment covered_by_chain by metis
  qed
  moreover have "ev_satisfied (evaluate_segments inline mc cx segments)"
    using Cons.prems open_segment rm by (auto simp: Let_def split: if_splits option.splits)
  ultimately show ?case using Cons.IH by simp
qed simp

lemma inline_chain_covered: "inline_chain levels mc cx c = Some ms \<Longrightarrow> covered_chain mc cx c"
proof (induction levels arbitrary: c ms)
  case (Suc levels)
  obtain parts where parts: "splitCommandChain c = Some parts" "inline_parts (inline_chain levels mc cx) mc cx parts = Some ms"
    using Suc.prems by (auto split: if_splits option.splits)
  have "inline_parts (inline_chain levels mc cx) mc cx ps = Some ms' \<Longrightarrow> part \<in> set ps \<Longrightarrow>
      \<exists>analysis. analyzeShellCommand mc (cx_cwd cx) part = Inr analysis \<and> (\<forall>s \<in> set (an_segments analysis). covered mc cx s)"
    for ps ms' part
  proof (induction ps arbitrary: ms')
    case (Cons p ps)
    then show ?case using evaluate_segments_covered [of "inline_chain levels mc cx" mc cx] Suc.IH
      by (fastforce simp: Let_def split: sum.splits if_splits)
  qed simp
  then show ?case using parts unfolding covered_chain_def by blast
qed simp

lemma evaluateSegments_covered: "ev_satisfied (evaluateSegments mc cx segments) \<Longrightarrow> \<forall>s \<in> set segments. covered mc cx s"
  unfolding evaluateSegments_def by (rule evaluate_segments_covered) (rule inline_chain_covered)

lemma evaluate_groups_covered:
  "ev_satisfied (evaluate_groups mc cx hasChains groups) \<Longrightarrow> \<forall>s \<in> set (concat groups). covered mc cx s"
proof (induction groups)
  case (Cons g groups)
  then show ?case using evaluateSegments_covered [of mc cx g]
    by (auto simp: Let_def nothing_satisfied_def split: if_splits)
qed simp

text \<open>The segments of an analysis are those of its groups.\<close>

definition grouped :: "command_analysis \<Rightarrow> bool" where
  "grouped analysis \<longleftrightarrow> an_segments analysis = concat (js_or_else (an_chains analysis) [an_segments analysis])"

lemma analysis_grouped: "analyzeShellCommand mc cwd command = Inr analysis \<Longrightarrow> grouped analysis"
  "analyzeArgvCommand mc cwd argv = Inr analysis \<Longrightarrow> grouped analysis"
  by (auto simp: grouped_def analyzeShellCommand_def analyzeArgvCommand_def Let_def map_sum_def split: option.splits sum.splits if_splits)

lemma evaluateExecAllowlist_covered:
  assumes "ev_satisfied (evaluateExecAllowlist mc cx (Inr analysis))" "grouped analysis"
  shows "an_segments analysis \<noteq> []" "\<forall>s \<in> set (an_segments analysis). covered mc cx s"
proof -
  show "an_segments analysis \<noteq> []" using assms by (auto simp: evaluateExecAllowlist_def nothing_satisfied_def)
  then have "\<forall>s \<in> set (concat (js_or_else (an_chains analysis) [an_segments analysis])). covered mc cx s"
    using assms(1) by (intro evaluate_groups_covered) (simp add: evaluateExecAllowlist_def)
  then show "\<forall>s \<in> set (an_segments analysis). covered mc cx s" using assms(2) by (metis grouped_def)
qed

subsection \<open>The parts of a chain are not split again\<close>

text \<open>Reading a text from a quoting state meets no operator of a chain.\<close>

fun quiet :: "shell_quoting \<Rightarrow> string \<Rightarrow> bool" where
  "quiet q [] = True"
| "quiet q (c # s) =
     (case q of
        Escaped \<Rightarrow> quiet Plain s
      | InSingle \<Rightarrow> quiet (if c = ch_squote then Plain else InSingle) s
      | InDouble \<Rightarrow>
          if c = ch_backslash \<and> isEscapedLineContinuation (peek s) then True
          else if c = ch_backslash \<and> isDoubleQuoteEscape (peek s) then quiet InDouble (drop 1 s)
          else quiet (if c = ch_dquote then Plain else InDouble) s
      | Plain \<Rightarrow>
          if c = ch_backslash then quiet Escaped s
          else if c = ch_squote then quiet InSingle s
          else if c = ch_dquote then quiet InDouble s
          else \<not> (c = CHR ''&'' \<and> peek s = Some CHR ''&'') \<and> \<not> (c = CHR ''|'' \<and> peek s = Some CHR ''|'') \<and>
               c \<noteq> CHR '';'' \<and> quiet Plain s)"

lemma peek_append: "peek (a @ b) = (if a = [] then peek b else peek a)"
  by (cases a) auto

lemma no_escape_at_end [simp]: "isDoubleQuoteEscape None = False" "isEscapedLineContinuation None = False"
  by (simp_all add: isDoubleQuoteEscape_def isEscapedLineContinuation_def)

lemma quiet_prefix: "quiet q (a @ b) \<Longrightarrow> quiet q a"
proof (induction q a rule: quiet.induct)
  case (2 q c s)
  then show ?case by (cases s) (auto split: shell_quoting.splits if_splits)
qed simp

lemma quiet_drop_spaces: "quiet Plain s \<Longrightarrow> quiet Plain (dropWhile js_is_space s)"
  by (induction s) (auto split: if_splits simp: js_is_space_def js_code_def)

lemma js_trim_prefix: "\<exists>b. dropWhile js_is_space s = js_trim s @ b"
proof -
  let ?t = "dropWhile js_is_space s"
  have "?t = rev (takeWhile js_is_space (rev ?t) @ dropWhile js_is_space (rev ?t))"
    by (simp only: takeWhile_dropWhile_id rev_rev_ident)
  then show ?thesis unfolding js_trim_def js_trim_start_def js_trim_end_def by (metis rev_append)
qed

lemma quiet_trim: "quiet Plain s \<Longrightarrow> quiet Plain (js_trim s)"
  using quiet_drop_spaces [of s] js_trim_prefix [of s] quiet_prefix by metis

lemma quiet_scan_finds_nothing:
  "quiet (cs_quoting st) s \<Longrightarrow> \<not> cs_foundChain st \<Longrightarrow> scan chain_step st prev s = Inr st' \<Longrightarrow> \<not> cs_foundChain st'"
proof (induction "length s" arbitrary: st prev s rule: less_induct)
  case less
  show ?case
  proof (cases s)
    case (Cons ch rest)
    show ?thesis
    proof (cases "chain_step st prev ch rest")
      case (Go st1 n)
      have rec: "scan chain_step st1 (Some (last (ch # take n rest))) (drop n rest) = Inr st'"
        using less.prems Go by (simp add: Cons scan_round)
      have "quiet (cs_quoting st1) (drop n rest) \<and> \<not> cs_foundChain st1"
        using less.prems(1,2) Go unfolding Cons by (auto simp: chain_step_def split: shell_quoting.splits if_splits)
      then show ?thesis using less.hyps [OF _ _ _ rec] Cons by simp
    next
      case (Break st1)
      then show ?thesis using less.prems unfolding Cons
        by (auto simp: scan_round chain_step_def split: shell_quoting.splits if_splits)
    qed (use less.prems in \<open>simp add: Cons scan_round\<close>)
  qed (use less.prems in simp)
qed

lemma quiet_not_split: "quiet Plain s \<Longrightarrow> splitCommandChainWithOperators s = None"
  using quiet_scan_finds_nothing [of chain_start s None]
  by (auto simp: splitCommandChainWithOperators_def finish_chain_def chain_start_def Let_def split: sum.splits)

definition quiet_so_far :: "chain_state \<Rightarrow> string \<Rightarrow> bool" where
  "quiet_so_far st s \<longleftrightarrow>
     (\<forall>p \<in> set (cs_parts st). quiet Plain (fst p)) \<and>
     (\<forall>t. prefix t s \<longrightarrow> quiet (cs_quoting st) t \<longrightarrow> quiet Plain (cs_buf st @ t))"

lemma quiet_so_far_put:
  assumes "quiet_so_far st (u @ s)" and "\<And>t. prefix t s \<Longrightarrow> quiet q t \<Longrightarrow> quiet (cs_quoting st) (u @ t)"
  shows "quiet_so_far (chain_put st q u) s"
  using assms by (auto simp: quiet_so_far_def)

lemma quiet_so_far_cut:
  assumes "quiet_so_far st s0" "cs_quoting st = Plain"
  shows "quiet_so_far (chain_cut st op) s"
proof -
  have "quiet Plain (cs_buf st)" using assms(1) unfolding quiet_so_far_def by (metis Nil_prefix append_Nil2 quiet.simps(1))
  then show ?thesis using assms by (auto simp: quiet_so_far_def chain_cut_def Let_def quiet_trim)
qed

lemma prefix_peek: "prefix t s \<Longrightarrow> peek t = Some c \<Longrightarrow> peek s = Some c"
  by (cases t; cases s) auto

lemma chain_step_quiet:
  assumes "quiet_so_far st (ch # rest)" "chain_step st prev ch rest = Go st1 n"
  shows "quiet_so_far st1 (drop n rest)"
proof (cases "cs_quoting st")
  case Plain
  show ?thesis
  proof (cases "\<exists>op. st1 = chain_cut st op")
    case True
    then show ?thesis using quiet_so_far_cut assms(1) Plain by blast
  next
    case False
    then show ?thesis using assms Plain
      by (auto simp: chain_step_def dest: prefix_peek split: if_splits intro!: quiet_so_far_put)
  qed
next
  case InDouble
  show ?thesis
  proof (cases "ch = ch_backslash \<and> isDoubleQuoteEscape (peek rest)")
    case True
    then obtain d r where "rest = d # r" by (cases rest) auto
    then show ?thesis using assms InDouble True
      by (auto simp: chain_step_def isDoubleQuoteEscape_def isEscapedLineContinuation_def intro!: quiet_so_far_put)
  next
    case False
    then have q: "st1 = chain_put st (if ch = ch_dquote then Plain else InDouble) [ch]" "n = 0"
      using assms InDouble by (auto simp: chain_step_def split: if_splits)
    have "quiet InDouble (ch # t)" if "prefix t rest" "quiet (if ch = ch_dquote then Plain else InDouble) t" for t
      using that False by (cases t; cases rest) (auto split: if_splits)
    then show ?thesis unfolding q
      by (intro quiet_so_far_put) (use assms(1) InDouble in \<open>simp_all only: drop_0 append_Cons append_Nil\<close>)
  qed
qed (use assms in \<open>auto simp: chain_step_def intro!: quiet_so_far_put\<close>)

lemma chain_scan_quiet:
  "quiet_so_far st s \<Longrightarrow> scan chain_step st prev s = Inr st' \<Longrightarrow> quiet_so_far st' []"
proof (induction "length s" arbitrary: st prev s rule: less_induct)
  case less
  have "quiet Plain (cs_buf st)" using less.prems(1) unfolding quiet_so_far_def by (metis Nil_prefix append_Nil2 quiet.simps(1))
  then have stop: "quiet_so_far st []" using less.prems(1) by (simp add: quiet_so_far_def)
  show ?case
  proof (cases s)
    case (Cons ch rest)
    show ?thesis
    proof (cases "chain_step st prev ch rest")
      case (Go st1 n)
      have "scan chain_step st1 (Some (last (ch # take n rest))) (drop n rest) = Inr st'"
        using less.prems Go by (simp add: Cons scan_round)
      then show ?thesis using less.hyps [of "drop n rest"] chain_step_quiet [OF less.prems(1) [unfolded Cons] Go] Cons by simp
    next
      case (Break st1)
      then have "cs_parts st' = cs_parts st" "cs_buf st' = cs_buf st" "cs_quoting st' = cs_quoting st"
        using less.prems(2) unfolding Cons by (auto simp: scan_round chain_step_def split: shell_quoting.splits if_splits)
      then show ?thesis using stop by (simp add: quiet_so_far_def)
    qed (use less.prems in \<open>simp add: Cons scan_round\<close>)
  qed (use less.prems stop in simp)
qed

lemma parts_are_not_split:
  assumes "splitCommandChainWithOperators command = Some parts" "(part, op) \<in> set parts"
  shows "splitCommandChain part = None"
proof -
  obtain st where st: "scan chain_step chain_start None command = Inr st" "finish_chain st = Some parts"
    using assms(1) by (auto simp: splitCommandChainWithOperators_def split: sum.splits)
  have "quiet_so_far chain_start command" by (simp add: quiet_so_far_def chain_start_def)
  then have q: "quiet_so_far st []" using chain_scan_quiet st(1) by blast
  then have "quiet Plain (cs_buf st)" by (metis Nil_prefix append_Nil2 quiet.simps(1) quiet_so_far_def)
  then have "quiet Plain part"
    using q st(2) assms(2) by (fastforce simp: finish_chain_def Let_def quiet_so_far_def quiet_trim split: if_splits)
  then show ?thesis by (simp add: splitCommandChain_def quiet_not_split)
qed

subsection \<open>A whole command line\<close>

text \<open>A segment that runs a program of a skill: automatically trusted, or an allowed wrapper of it.\<close>

definition runs_skill_program :: "machine \<Rightarrow> allowlist_context \<Rightarrow> command_segment \<Rightarrow> bool" where
  "runs_skill_program mc cx segment \<longleftrightarrow>
     isSkillAutoAllowedSegment mc segment (allow_skills mc cx) (buildSkillBinTrustIndex mc (cx_skillBins cx)) \<or>
     resolveAllowlistedSkillWrapperId segment \<noteq> None"

text \<open>After displays of a skill's description, joined by \<open>&&\<close>, a covered part that runs a skill.\<close>

inductive leads_to_skill ::
  "machine \<Rightarrow> allowlist_context \<Rightarrow> (command_segment list \<times> chain_operator option) list \<Rightarrow> bool"
  for mc :: machine and cx :: allowlist_context where
  runs_now:
    "\<forall>s \<in> set segments. covered mc cx s \<Longrightarrow> \<exists>s \<in> set segments. runs_skill_program mc cx s \<Longrightarrow>
     leads_to_skill mc cx ((segments, op) # parts)"
| displays_first:
    "\<forall>s \<in> set segments. isSkillPreludeSegment mc s (cx_cwd cx) \<Longrightarrow> leads_to_skill mc cx parts \<Longrightarrow>
     leads_to_skill mc cx ((segments, Some AndIf) # parts)"

inductive authorised ::
  "machine \<Rightarrow> allowlist_context \<Rightarrow> (command_segment list \<times> chain_operator option) list \<Rightarrow> bool"
  for mc :: machine and cx :: allowlist_context where
  no_parts: "authorised mc cx []"
| covered_part:
    "segments \<noteq> [] \<Longrightarrow> \<forall>s \<in> set segments. covered mc cx s \<Longrightarrow> authorised mc cx parts \<Longrightarrow>
     authorised mc cx ((segments, op) # parts)"
| display_part:
    "segments \<noteq> [] \<Longrightarrow> \<forall>s \<in> set segments. isSkillPreludeSegment mc s (cx_cwd cx) \<Longrightarrow> leads_to_skill mc cx parts \<Longrightarrow>
     authorised mc cx parts \<Longrightarrow> authorised mc cx ((segments, Some AndIf) # parts)"

text \<open>Where the reason of a segment is a skill, the segment is one of a skill.\<close>

abbreviation reason_holds :: "machine \<Rightarrow> allowlist_context \<Rightarrow> command_segment \<Rightarrow> satisfied_by option \<Rightarrow> bool" where
  "reason_holds mc cx segment by \<equiv>
     (by = Some BySkills \<longrightarrow>
      isSkillAutoAllowedSegment mc segment (allow_skills mc cx) (buildSkillBinTrustIndex mc (cx_skillBins cx)))"

lemma satisfaction_reason: "reason_holds mc cx segment (resolveSegmentSatisfaction mc cx match segment)"
  by (simp add: resolveSegmentSatisfaction_def)

lemma evaluate_segments_reasons:
  "ev_satisfied (evaluate_segments inline mc cx segments) \<Longrightarrow>
   list_all2 (reason_holds mc cx) segments (ev_by (evaluate_segments inline mc cx segments))"
proof (induction segments)
  case (Cons segment segments)
  obtain ic match where "resolveSegmentAllowlistMatch mc cx segment = (ic, match)" by (cases "resolveSegmentAllowlistMatch mc cx segment")
  then show ?case using Cons satisfaction_reason [of mc cx match segment]
    by (auto simp: Let_def split: if_splits option.splits)
qed simp

lemma evaluate_groups_reasons:
  "ev_satisfied (evaluate_groups mc cx hasChains groups) \<Longrightarrow>
   list_all2 (reason_holds mc cx) (concat groups) (ev_by (evaluate_groups mc cx hasChains groups))"
proof (induction groups)
  case (Cons g groups)
  then show ?case
    using evaluate_segments_reasons [of "inline_chain (MAX_SHELL_WRAPPER_INLINE_EVAL_DEPTH - 1) mc cx" mc cx g]
    by (auto simp: Let_def nothing_satisfied_def evaluateSegments_def split: if_splits intro: list_all2_appendI)
qed simp

lemma evaluateExecAllowlist_reasons:
  assumes "ev_satisfied (evaluateExecAllowlist mc cx (Inr analysis))" "grouped analysis"
  shows "list_all2 (reason_holds mc cx) (an_segments analysis) (ev_by (evaluateExecAllowlist mc cx (Inr analysis)))"
proof -
  have ev: "evaluateExecAllowlist mc cx (Inr analysis) =
      evaluate_groups mc cx (an_chains analysis \<noteq> None) (js_or_else (an_chains analysis) [an_segments analysis])"
    using evaluateExecAllowlist_covered(1) [OF assms] by (simp add: evaluateExecAllowlist_def)
  show ?thesis unfolding ev using evaluate_groups_reasons assms unfolding ev by (metis grouped_def)
qed

lemma trusted_ids_run_skills:
  "list_all2 (reason_holds mc cx) segments bys \<Longrightarrow> trusted_skill_ids segments bys \<noteq> [] \<Longrightarrow>
   \<exists>s \<in> set segments. runs_skill_program mc cx s"
proof (induction segments bys rule: list_all2_induct)
  case (Cons s segments b bys)
  then show ?case
    by (auto simp: Let_def runs_skill_program_def split: option.splits satisfied_by.splits if_splits)
qed simp

definition evaluated :: "machine \<Rightarrow> allowlist_context \<Rightarrow> part_evaluation \<Rightarrow> bool" where
  "evaluated mc cx part \<longleftrightarrow>
     (\<exists>analysis. grouped analysis \<and> fst part = an_segments analysis \<and>
        fst (snd part) = evaluateExecAllowlist mc cx (Inr analysis))"

definition part_segments :: "part_evaluation list \<Rightarrow> (command_segment list \<times> chain_operator option) list" where
  "part_segments parts = map (map_prod id snd) parts"

lemma part_segments_simps [simp]:
  "part_segments [] = []" "part_segments ((segments, evaluation, op) # parts) = (segments, op) # part_segments parts"
  by (simp_all add: part_segments_def)

lemma satisfied_part:
  assumes "evaluated mc cx (segments, evaluation, op)" "ev_satisfied evaluation"
  shows "segments \<noteq> []" "\<forall>s \<in> set segments. covered mc cx s"
    "resolveTrustedSkillExecutionIds segments evaluation \<noteq> [] \<Longrightarrow> \<exists>s \<in> set segments. runs_skill_program mc cx s"
proof -
  obtain analysis where a: "grouped analysis" "segments = an_segments analysis"
    "evaluation = evaluateExecAllowlist mc cx (Inr analysis)" using assms(1) by (auto simp: evaluated_def)
  note ok = assms(2) [unfolded a(3)] a(1)
  show "segments \<noteq> []" "\<forall>s \<in> set segments. covered mc cx s" using evaluateExecAllowlist_covered [OF ok] a(2) by auto
  assume "resolveTrustedSkillExecutionIds segments evaluation \<noteq> []"
  then show "\<exists>s \<in> set segments. runs_skill_program mc cx s"
    using trusted_ids_run_skills evaluateExecAllowlist_reasons [OF ok] assms(2)
    by (simp add: resolveTrustedSkillExecutionIds_def a(2,3))
qed

lemma reachable_leads_to_skill:
  "list_all (evaluated mc cx) parts \<Longrightarrow> snd (prelude_flags mc (cx_cwd cx) parts) \<noteq> [] \<Longrightarrow>
   leads_to_skill mc cx (part_segments parts)"
proof (induction parts)
  case (Cons part parts)
  obtain segments evaluation op where part: "part = (segments, evaluation, op)" by (cases part)
  obtain flags reachable where rest: "prelude_flags mc (cx_cwd cx) parts = (flags, reachable)"
    by (cases "prelude_flags mc (cx_cwd cx) parts")
  show ?case
  proof (cases "resolveTrustedSkillExecutionIds segments evaluation = []")
    case True
    then have "op = Some AndIf" "isSkillPreludeOnlyEvaluation mc segments (cx_cwd cx)" "reachable \<noteq> []"
      using Cons.prems(2) rest by (auto simp: part Let_def split: if_splits)
    then show ?thesis using Cons.IH Cons.prems(1) rest part
      by (auto simp: isSkillPreludeOnlyEvaluation_def list_all_iff intro: leads_to_skill.displays_first)
  next
    case False
    then have "ev_satisfied evaluation" by (simp add: resolveTrustedSkillExecutionIds_def split: if_splits)
    then show ?thesis using satisfied_part [of mc cx segments evaluation op] False Cons.prems(1) part
      by (auto intro: leads_to_skill.runs_now)
  qed
qed simp

lemma head_flag:
  assumes "prelude_flags mc cwd parts = (flags, reachable)"
  shows "\<exists>f r. prelude_flags mc cwd ((segments, evaluation, op) # parts) = (f # flags, r) \<and>
    (f \<longrightarrow> op = Some AndIf \<and> isSkillPreludeOnlyEvaluation mc segments cwd \<and> reachable \<noteq> [])"
proof (cases "resolveTrustedSkillExecutionIds segments evaluation = []")
  case True
  show ?thesis
  proof (cases "\<not> ev_satisfied evaluation \<and> isSkillPreludeOnlyEvaluation mc segments cwd \<and> op = Some AndIf")
    case only: True
    show ?thesis
    proof (cases "resolveSkillPreludeIds mc segments cwd = []")
      case True
      with only assms \<open>resolveTrustedSkillExecutionIds segments evaluation = []\<close> show ?thesis by (cases reachable) (simp_all add: Let_def, blast+)
    next
      case False
      have "reachable \<noteq> []" if "list_ex (\<lambda>skillId. skillId \<in> set reachable) (resolveSkillPreludeIds mc segments cwd)"
        using that by (auto simp: list_ex_iff)
      with False only assms \<open>resolveTrustedSkillExecutionIds segments evaluation = []\<close> show ?thesis
        by (cases "list_ex (\<lambda>skillId. skillId \<in> set reachable) (resolveSkillPreludeIds mc segments cwd)")
          (simp_all add: Let_def, blast+)
    qed
  next
    case False
    with assms \<open>resolveTrustedSkillExecutionIds segments evaluation = []\<close> show ?thesis
      by (cases "ev_satisfied evaluation"; cases "isSkillPreludeOnlyEvaluation mc segments cwd") (simp_all add: Let_def, blast+)
  qed
qed (use assms in \<open>simp add: Let_def, blast\<close>)

lemma collected_parts_authorised:
  assumes "list_all (evaluated mc cx) parts"
    "ev_satisfied (snd (collect_parts parts (fst (prelude_flags mc (cx_cwd cx) parts))))"
  shows "authorised mc cx (part_segments parts) \<and>
    fst (collect_parts parts (fst (prelude_flags mc (cx_cwd cx) parts))) = concat (map fst parts)"
  using assms
proof (induction parts)
  case (Cons part parts)
  obtain segments evaluation op where part: "part = (segments, evaluation, op)" by (cases part)
  obtain flags reachable where rest: "prelude_flags mc (cx_cwd cx) parts = (flags, reachable)"
    by (cases "prelude_flags mc (cx_cwd cx) parts")
  obtain more_segments ev where cp: "collect_parts parts flags = (more_segments, ev)" by (cases "collect_parts parts flags")
  obtain f r where pf: "prelude_flags mc (cx_cwd cx) (part # parts) = (f # flags, r)"
    "f \<Longrightarrow> op = Some AndIf \<and> isSkillPreludeOnlyEvaluation mc segments (cx_cwd cx) \<and> reachable \<noteq> []"
    using head_flag [OF rest, of segments evaluation op] unfolding part by blast
  have ok: "ev_satisfied evaluation \<or> f" "ev_satisfied ev"
    using Cons.prems(2) pf(1) cp by (auto simp: part Let_def split: if_splits)
  have "list_all (evaluated mc cx) parts" using Cons.prems(1) by simp
  then have IH: "authorised mc cx (part_segments parts)" "more_segments = concat (map fst parts)"
    using Cons.IH rest cp ok(2) by simp_all
  have "authorised mc cx (part_segments (part # parts))"
  proof (cases "ev_satisfied evaluation")
    case True
    then show ?thesis using satisfied_part [of mc cx segments evaluation op] Cons.prems(1) IH(1) part
      by (auto intro: authorised.covered_part)
  next
    case False
    then have f: "op = Some AndIf" "isSkillPreludeOnlyEvaluation mc segments (cx_cwd cx)" "reachable \<noteq> []" using ok(1) pf(2) by auto
    then have "leads_to_skill mc cx (part_segments parts)"
      using reachable_leads_to_skill [of mc cx parts] Cons.prems(1) rest by simp
    then show ?thesis using f IH(1) part
      by (auto simp: isSkillPreludeOnlyEvaluation_def list_all_iff intro: authorised.display_part)
  qed
  moreover have "fst (collect_parts (part # parts) (f # flags)) = concat (map fst (part # parts))"
    using ok cp IH(2) by (auto simp: part Let_def)
  ultimately show ?case using pf(1) by simp
qed (simp add: authorised.no_parts)

text \<open>The parts of an evaluated chain are those of the source, each read as one pipeline.\<close>

lemma parsed_segments:
  "parseSegmentsFromParts mc cwd raws = Some segments \<Longrightarrow>
   map sg_argv segments = map (\<lambda>raw. js_or_else (splitShellArgs raw) []) raws"
proof (induction raws arbitrary: segments)
  case (Cons raw raws)
  then show ?case by (auto split: option.splits if_splits)
qed simp

lemma analysed_part:
  assumes "splitCommandChain part = None" "analyzeShellCommand mc cwd part = Inr analysis"
  obtains raws where "splitShellPipeline part = Inr raws"
    "map sg_argv (an_segments analysis) = map (\<lambda>raw. js_or_else (splitShellArgs raw) []) raws"
proof -
  obtain segments where a: "analyze_pipeline mc cwd part = Inr segments" "analysis = \<lparr>an_segments = segments, an_chains = None\<rparr>"
    using assms by (auto simp: analyzeShellCommand_def map_sum_def split: sum.splits)
  then obtain raws where "splitShellPipeline part = Inr raws" "parseSegmentsFromParts mc cwd raws = Some segments"
    by (auto simp: analyze_pipeline_def split: sum.splits option.splits)
  then show thesis using that parsed_segments a(2) by fastforce
qed

lemma evaluated_chain:
  "\<forall>p \<in> set ps. splitCommandChain (fst p) = None \<Longrightarrow> evaluate_chain mc cx ps = Some parts \<Longrightarrow>
   list_all (evaluated mc cx) parts \<and> fst ` set parts = fst ` set (part_segments parts) \<and>
   map_option (map (map_prod (map (\<lambda>raw. js_or_else (splitShellArgs raw) [])) id)) (chain_segments ps) =
     Some (map (map_prod (map sg_argv) id) (part_segments parts))"
proof (induction ps arbitrary: parts)
  case (Cons p ps)
  obtain part op where p: "p = (part, op)" by (cases p)
  obtain analysis others where a: "analyzeShellCommand mc (cx_cwd cx) part = Inr analysis" "evaluate_chain mc cx ps = Some others"
    "parts = (an_segments analysis, evaluateExecAllowlist mc cx (Inr analysis), op) # others"
    using Cons.prems(2) by (auto simp: p split: sum.splits)
  obtain raws where "splitShellPipeline part = Inr raws"
    "map sg_argv (an_segments analysis) = map (\<lambda>raw. js_or_else (splitShellArgs raw) []) raws"
    using analysed_part Cons.prems(1) a(1) by (metis fst_conv list.set_intros(1) p)
  moreover have "evaluated mc cx (hd parts)" using analysis_grouped(1) [OF a(1)] by (auto simp: a(3) evaluated_def)
  ultimately show ?case using Cons.IH [OF _ a(2)] Cons.prems(1) by (auto simp: p a(3) option.map_comp comp_def)
qed auto

text \<open>A satisfied evaluation authorises what the command line reads as.\<close>

lemma satisfied_command_authorised:
  assumes "ev_satisfied (aa_evaluation (evaluateShellAllowlist mc cx command))"
  obtains parts where "authorised mc cx parts" "parts \<noteq> []"
    "aa_segments (evaluateShellAllowlist mc cx command) = concat (map fst parts)"
    "shell_reading command = Some (map (map_prod (map sg_argv) id) parts)"
proof (cases "splitCommandChainWithOperators command")
  case None
  have ok: "\<not> hasShellLineContinuation command" using assms
    by (auto simp: evaluateShellAllowlist_def analysisFailure_def nothing_satisfied_def)
  then obtain analysis where a: "analyzeShellCommand mc (cx_cwd cx) command = Inr analysis"
    "evaluateShellAllowlist mc cx command =
       \<lparr>aa_analysisOk = True, aa_segments = an_segments analysis, aa_evaluation = evaluateExecAllowlist mc cx (Inr analysis)\<rparr>"
    using assms None
    by (auto simp: evaluateShellAllowlist_def analysisFailure_def nothing_satisfied_def split: sum.splits)
  have single: "splitCommandChain command = None" using None by (simp add: splitCommandChain_def)
  obtain raws where r: "splitShellPipeline command = Inr raws"
    "map sg_argv (an_segments analysis) = map (\<lambda>raw. js_or_else (splitShellArgs raw) []) raws"
    by (rule analysed_part [OF single a(1)])
  have "authorised mc cx [(an_segments analysis, None)]"
    using evaluateExecAllowlist_covered [of mc cx analysis] assms a(2) analysis_grouped(1) [OF a(1)]
    by (auto intro: authorised.intros)
  then show thesis using that [of "[(an_segments analysis, None)]"] a(2) r None
    by (simp add: shell_reading_def source_segments_def)
next
  case (Some chain)
  have ok: "\<not> hasShellLineContinuation command" using assms
    by (auto simp: evaluateShellAllowlist_def analysisFailure_def nothing_satisfied_def)
  then obtain parts where e: "evaluate_chain mc cx chain = Some parts" using assms Some
    by (auto simp: evaluateShellAllowlist_def analysisFailure_def nothing_satisfied_def split: option.splits)
  have "\<forall>p \<in> set chain. splitCommandChain (fst p) = None" using parts_are_not_split [OF Some] by auto
  note ev = evaluated_chain [OF this e]
  let ?collected = "collect_parts parts (fst (prelude_flags mc (cx_cwd cx) parts))"
  have eval: "evaluateShellAllowlist mc cx command =
      \<lparr>aa_analysisOk = True, aa_segments = fst ?collected, aa_evaluation = snd ?collected\<rparr>"
    using ok Some e by (simp add: evaluateShellAllowlist_def case_prod_unfold Let_def)
  have auth: "authorised mc cx (part_segments parts)" "fst ?collected = concat (map fst parts)"
    using collected_parts_authorised [of mc cx parts] ev assms by (simp_all add: eval)
  have "chain \<noteq> []" using Some by (auto simp: splitCommandChainWithOperators_def finish_chain_def Let_def split: sum.splits if_splits)
  then have "parts \<noteq> []" using e by (cases chain) (auto split: sum.splits)
  then show thesis using that [of "part_segments parts"] auth ev Some
    by (simp add: eval shell_reading_def source_segments_def part_segments_def comp_def)
qed

lemma authorised_segments:
  "authorised mc cx parts \<Longrightarrow> s \<in> set (concat (map fst parts)) \<Longrightarrow>
   covered mc cx s \<or> isSkillPreludeSegment mc s (cx_cwd cx)"
  by (induction rule: authorised.induct) auto

subsection \<open>Enforced commands\<close>

definition planned_words :: "command_segment \<Rightarrow> string list" where
  "planned_words segment = js_or_else (resolvePlannedSegmentArgv segment) []"

lemma planned_ne: "resolvePlannedSegmentArgv segment = Some argv \<Longrightarrow> argv \<noteq> []"
  by (auto simp: resolvePlannedSegmentArgv_def Let_def split: if_splits)

text \<open>The enforced command keeps the operators of the source, and its segments read as the planned words.\<close>

lemma enforced_reading:
  assumes "buildEnforcedShellCommand command segments = Inr out"
  obtains parts where "source_segments (js_trim command) = Some parts" "length (concat (map fst parts)) = length segments"
    "shell_reading out =
       Some (map (map_prod (map (filter (\<lambda>a. a \<noteq> []))) id) (plan_parts (\<lambda>_ i. planned_words (segments ! i)) 0 parts))"
    "\<forall>s \<in> set segments. resolvePlannedSegmentArgv s \<noteq> None"
proof -
  let ?render = "\<lambda>_ segmentIndex.
             if segmentIndex \<ge> length segments then Inl ''segment mapping failed''
             else case resolvePlannedSegmentArgv (segments ! segmentIndex) of
                    None \<Rightarrow> Inl ''segment execution plan unavailable''
                  | Some argv \<Rightarrow> Inr (renderQuotedArgv argv)"
  let ?plan = "\<lambda>_ i. planned_words (segments ! i)"
  obtain count where c: "rebuildShellCommandFromSource command ?render = Inr (out, count)" "count = length segments"
    using assms by (auto simp: buildEnforcedShellCommand_def finalizeRebuiltShellCommand_def split: sum.splits if_splits)
  have ok: "?plan raw n \<noteq> [] \<and> t = renderQuotedArgv (?plan raw n)" if "?render raw n = Inr t" for raw n t
    using that planned_ne by (auto simp: planned_words_def split: if_splits option.splits)
  obtain parts where p: "source_segments (js_trim command) = Some parts" "count = length (concat (map fst parts))"
    "shell_reading out = Some (map (map_prod (map (filter (\<lambda>a. a \<noteq> []))) id) (plan_parts ?plan 0 parts))"
    "\<forall>p \<in> set (plan_parts ?plan 0 parts). [] \<notin> set (fst p)"
    by (rule rebuild_reads_back [where plan = ?plan, OF ok c(1)])
  have "concat (map fst (plan_parts ?plan 0 parts)) = map planned_words segments"
    unfolding plan_parts_concat using p(2) c(2) by (intro nth_equalityI) (simp_all del: length_concat)
  moreover have "[] \<notin> set (concat (map fst (plan_parts ?plan 0 parts)))" using p(4) unfolding set_concat by auto
  ultimately have "[] \<notin> set (map planned_words segments)" by (rule subst)
  moreover have "planned_words s = []" if "resolvePlannedSegmentArgv s = None" for s using that by (simp add: planned_words_def)
  ultimately have "\<forall>s \<in> set segments. resolvePlannedSegmentArgv s \<noteq> None" by (metis imageI set_map)
  then show thesis using that p c(2) by simp
qed

text \<open>The words of the segments of a command line, without its operators.\<close>

definition runs_words :: "string \<Rightarrow> string list list \<Rightarrow> bool" where
  "runs_words out words \<longleftrightarrow> (\<exists>reading. shell_reading out = Some reading \<and> concat (map fst reading) = words)"

lemma concat_fst_map: "concat (map fst (map (map_prod (map f) id) ps)) = map f (concat (map fst ps))"
  by (induction ps) auto

lemma enforced_words:
  assumes "buildEnforcedShellCommand command segments = Inr out"
  shows "runs_words out (map (\<lambda>s. filter (\<lambda>a. a \<noteq> []) (planned_words s)) segments)"
proof -
  let ?plan = "\<lambda>_ i. planned_words (segments ! i)"
  obtain parts where p: "source_segments (js_trim command) = Some parts" "length (concat (map fst parts)) = length segments"
    "shell_reading out = Some (map (map_prod (map (filter (\<lambda>a. a \<noteq> []))) id) (plan_parts ?plan 0 parts))"
    "\<forall>s \<in> set segments. resolvePlannedSegmentArgv s \<noteq> None"
    by (rule enforced_reading [OF assms])
  have "concat (map fst (plan_parts (\<lambda>_ i. planned_words (segments ! i)) 0 parts)) = map planned_words segments"
    unfolding plan_parts_concat using p(2) by (intro nth_equalityI) (simp_all del: length_concat)
  then have "concat (map fst (map (map_prod (map (filter (\<lambda>a. a \<noteq> []))) id)
      (plan_parts (\<lambda>_ i. planned_words (segments ! i)) 0 parts))) = map (filter (\<lambda>a. a \<noteq> [])) (map planned_words segments)"
    unfolding concat_fst_map by (rule arg_cong)
  then show ?thesis using p(3) by (auto simp: runs_words_def comp_def)
qed

subsection \<open>Durable approvals\<close>

text \<open>An evaluation that fails has met a segment without an entry.\<close>

lemma unsatisfied_segments:
  "\<not> ev_satisfied (evaluate_segments inline mc cx segments) \<Longrightarrow>
   None \<in> set (ev_entries (evaluate_segments inline mc cx segments))"
proof (induction segments)
  case (Cons segment segments)
  obtain ic match where "resolveSegmentAllowlistMatch mc cx segment = (ic, match)" by (cases "resolveSegmentAllowlistMatch mc cx segment")
  then show ?case using Cons
    by (auto simp: Let_def resolveSegmentSatisfaction_def split: if_splits option.splits)
qed simp

lemma unsatisfied_pipeline:
  assumes "\<not> ev_satisfied (evaluateExecAllowlist mc cx (Inr analysis))" "an_chains analysis = None" "an_segments analysis \<noteq> []"
  shows "None \<in> set (ev_entries (evaluateExecAllowlist mc cx (Inr analysis)))"
  using assms unsatisfied_segments [of "inline_chain (MAX_SHELL_WRAPPER_INLINE_EVAL_DEPTH - 1) mc cx" mc cx "an_segments analysis"]
  by (auto simp: evaluateExecAllowlist_def evaluateSegments_def Let_def split: if_splits)

lemma single_analysis:
  assumes "splitCommandChain part = None" "analyzeShellCommand mc cwd part = Inr analysis"
  shows "an_chains analysis = None" "an_segments analysis \<noteq> []"
proof -
  show "an_chains analysis = None" using assms by (auto simp: analyzeShellCommand_def map_sum_def split: sum.splits)
  show "an_segments analysis \<noteq> []" using analysed_part [OF assms] splitShellPipeline_ne
    by (metis list.map_disc_iff)
qed

lemma unsatisfied_chain:
  "\<forall>p \<in> set ps. splitCommandChain (fst p) = None \<Longrightarrow> evaluate_chain mc cx ps = Some parts \<Longrightarrow> p \<in> set parts \<Longrightarrow>
   \<not> ev_satisfied (fst (snd p)) \<Longrightarrow> None \<in> set (ev_entries (fst (snd p)))"
proof (induction ps arbitrary: parts)
  case (Cons q ps)
  then show ?case using unsatisfied_pipeline single_analysis by (cases q) (fastforce split: sum.splits)
qed simp

lemma unsatisfied_parts:
  "\<forall>p \<in> set parts. \<not> ev_satisfied (fst (snd p)) \<longrightarrow> None \<in> set (ev_entries (fst (snd p))) \<Longrightarrow>
   \<not> ev_satisfied (snd (collect_parts parts flags)) \<Longrightarrow> None \<in> set (ev_entries (snd (collect_parts parts flags)))"
proof (induction parts arbitrary: flags)
  case (Cons p parts)
  obtain segments evaluation op where p: "p = (segments, evaluation, op)" by (cases p)
  obtain more_segments ev where "collect_parts parts (drop 1 flags) = (more_segments, ev)" by (cases "collect_parts parts (drop 1 flags)")
  then show ?case using Cons.IH [of "drop 1 flags"] Cons.prems by (auto simp: p Let_def split: if_splits)
qed simp

lemma matched_command_satisfied:
  assumes "aa_analysisOk (evaluateShellAllowlist mc cx command)"
    "None \<notin> set (ev_entries (aa_evaluation (evaluateShellAllowlist mc cx command)))"
  shows "ev_satisfied (aa_evaluation (evaluateShellAllowlist mc cx command))"
proof (cases "splitCommandChainWithOperators command")
  case None
  have ok: "\<not> hasShellLineContinuation command" using assms(1) by (auto simp: evaluateShellAllowlist_def analysisFailure_def)
  then obtain analysis where a: "analyzeShellCommand mc (cx_cwd cx) command = Inr analysis"
    using assms(1) None by (auto simp: evaluateShellAllowlist_def analysisFailure_def split: sum.splits)
  have "splitCommandChain command = None" using None by (simp add: splitCommandChain_def)
  then show ?thesis using unsatisfied_pipeline single_analysis a assms(2) ok None
    by (fastforce simp: evaluateShellAllowlist_def)
next
  case (Some chain)
  have ok: "\<not> hasShellLineContinuation command" using assms(1) by (auto simp: evaluateShellAllowlist_def analysisFailure_def)
  then obtain parts where e: "evaluate_chain mc cx chain = Some parts" using assms(1) Some
    by (auto simp: evaluateShellAllowlist_def analysisFailure_def split: option.splits)
  let ?collected = "collect_parts parts (fst (prelude_flags mc (cx_cwd cx) parts))"
  have eval: "aa_evaluation (evaluateShellAllowlist mc cx command) = snd ?collected"
    using ok Some e by (simp add: evaluateShellAllowlist_def case_prod_unfold Let_def)
  have "\<forall>p \<in> set chain. splitCommandChain (fst p) = None" using parts_are_not_split [OF Some] by auto
  then have "\<forall>p \<in> set parts. \<not> ev_satisfied (fst (snd p)) \<longrightarrow> None \<in> set (ev_entries (fst (snd p)))"
    using unsatisfied_chain [OF _ e] by blast
  then show ?thesis using unsatisfied_parts assms(2) unfolding eval by blast
qed

lemma matched_argv_satisfied:
  assumes "analyzeArgvCommand mc (cx_cwd cx) argv = Inr analysis"
    "None \<notin> set (ev_entries (evaluateExecAllowlist mc cx (Inr analysis)))"
  shows "ev_satisfied (evaluateExecAllowlist mc cx (Inr analysis))"
proof -
  have "an_chains analysis = None" "an_segments analysis \<noteq> []"
    using assms(1) by (auto simp: analyzeArgvCommand_def Let_def split: if_splits)
  then show ?thesis using unsatisfied_pipeline assms(2) by blast
qed

text \<open>An entry of the allowlist that approves this very command for good.\<close>

definition approved_for_good :: "(string \<Rightarrow> string) \<Rightarrow> allowlist_entry list \<Rightarrow> string \<Rightarrow> bool" where
  "approved_for_good sha256Hex allowlist command \<longleftrightarrow>
     js_trim command \<noteq> [] \<and>
     (\<exists>entry \<in> set allowlist. al_allowAlways entry \<and>
        (al_pattern entry = ''=command:'' @ take 16 (sha256Hex (js_trim command)) \<or>
         map_option js_trim (al_commandText entry) = Some (js_trim command)))"

lemma durable_cases:
  assumes "hasDurableExecApproval sha256Hex ok entries allowlist command"
  shows "approved_for_good sha256Hex allowlist command \<or> (ok \<and> None \<notin> set entries)"
  using assms
  by (auto simp: hasDurableExecApproval_def hasExactCommandDurableExecApproval_def hasSegmentDurableExecApproval_def
      approved_for_good_def buildDurableCommandApprovalPattern_def Let_def list_ex_iff list_all_iff)

end
