(* ===== verification/Exec_Properties.thy ===== *)
theory Exec_Properties
  imports Exec_Facts
begin

text \<open>
  Properties of the approval of commands: what a node or the gateway runs was authorised, an enforced command
  reads as it was planned, an accepted pipeline is harmless to the shell, and where the reading of a command
  line differs from the shell's. The samples at the start are used by the witnesses.
\<close>

definition sample_machine :: machine where
  "sample_machine = \<lparr>mc_platform = ''linux'', mc_cwd = ''/w'', mc_home = None, mc_commandHome = None,
     mc_isExecutableFile = (\<lambda>p. p = ''/b/ls''), mc_realpath = (\<lambda>p. Some p), mc_path = ''/b''\<rparr>"

definition sample_context :: allowlist_context where
  "sample_context = \<lparr>cx_allowlist = [bare_entry ''*''], cx_safeBins = [], cx_safeBinProfiles = [], cx_cwd = None,
     cx_trustedSafeBinDirs = [], cx_skillBins = [], cx_autoAllowSkills = False\<rparr>"

definition sample_segment :: "string \<Rightarrow> command_segment" where
  "sample_segment word = \<lparr>sg_raw = word, sg_argv = [word], sg_resolution = None\<rparr>"

subsection \<open>Reading and writing a command line\<close>

text \<open>C11: The enforced command keeps the operators of its source, and the words that a shell reads in its
  segments are the planned ones, whatever characters they contain.\<close>

theorem enforced_command_reads_as_planned:
  assumes "buildEnforcedShellCommand command segments = Inr out"
  shows "\<exists>parts. source_segments (js_trim command) = Some parts \<and> length (concat (map fst parts)) = length segments \<and>
    shell_reading out =
      Some (map (map_prod (map (filter (\<lambda>a. a \<noteq> []))) id) (plan_parts (\<lambda>_ i. planned_words (segments ! i)) 0 parts)) \<and>
    (\<forall>s \<in> set segments. resolvePlannedSegmentArgv s \<noteq> None)"
  by (rule enforced_reading [OF assms]) blast

theorem enforced_command_reads_as_planned_witness:
  "\<exists>out parts. buildEnforcedShellCommand ''a;b'' [sample_segment ''x'', sample_segment ''y''] = Inr out \<and>
     source_segments (js_trim ''a;b'') = Some parts \<and> shell_reading out =
       Some (map (map_prod (map (filter (\<lambda>a. a \<noteq> []))) id)
         (plan_parts (\<lambda>_ i. planned_words ([sample_segment ''x'', sample_segment ''y''] ! i)) 0 parts))"
proof -
  have "buildEnforcedShellCommand ''a;b'' [sample_segment ''x'', sample_segment ''y''] =
      Inr (renderQuotedArgv [''x''] @ '' ; '' @ renderQuotedArgv [''y''])"
    by code_simp
  from enforced_command_reads_as_planned [OF this] this show ?thesis by (elim exE conjE) (intro exI conjI)
qed



subsection \<open>What the allowlist authorises\<close>

text \<open>C4: A satisfied evaluation of a command line authorises every part of what the command line reads as: its
  segments are covered by entries, safe programs, skills or the inline commands of a shell, or they display the
  description of a skill that a following covered part runs.\<close>

theorem satisfied_command_is_authorised:
  assumes "ev_satisfied (aa_evaluation (evaluateShellAllowlist mc cx command))"
  shows "\<exists>parts. authorised mc cx parts \<and> parts \<noteq> [] \<and>
    aa_segments (evaluateShellAllowlist mc cx command) = concat (map fst parts) \<and>
    shell_reading command = Some (map (map_prod (map sg_argv) id) parts)"
  by (rule satisfied_command_authorised [OF assms]) blast

theorem satisfied_command_is_authorised_witness:
  "\<exists>parts. authorised sample_machine sample_context parts \<and>
     shell_reading ''ls'' = Some (map (map_prod (map sg_argv) id) parts)"
proof -
  have "ev_satisfied (aa_evaluation (evaluateShellAllowlist sample_machine sample_context ''ls''))" by code_simp
  then show ?thesis using satisfied_command_is_authorised by blast
qed

text \<open>The commands of a run that need no approval.\<close>

definition run_covered :: "machine \<Rightarrow> allowlist_context \<Rightarrow> run_request \<Rightarrow> bool" where
  "run_covered mc cx request \<longleftrightarrow>
     (if js_truthy_str (rr_shellPayload request)
      then \<exists>parts. authorised mc cx parts \<and> parts \<noteq> [] \<and>
             shell_reading (js_or_else (rr_shellPayload request) []) = Some (map (map_prod (map sg_argv) id) parts)
      else \<exists>segment. covered mc cx segment \<and> sg_argv segment = filter (\<lambda>a. js_trim a \<noteq> []) (rr_argv request))"

lemma satisfied_run_covered:
  assumes "ev_satisfied (if js_truthy_str (rr_shellPayload request)
      then aa_evaluation (evaluateShellAllowlist mc cx (js_or_else (rr_shellPayload request) []))
      else evaluateExecAllowlist mc cx (analyzeArgvCommand mc (cx_cwd cx) (rr_argv request)))"
  shows "run_covered mc cx request"
proof (cases "js_truthy_str (rr_shellPayload request)")
  case True
  then show ?thesis using satisfied_command_authorised [of mc cx "js_or_else (rr_shellPayload request) []"] assms
    by (auto simp: run_covered_def)
next
  case False
  then obtain analysis where a: "analyzeArgvCommand mc (cx_cwd cx) (rr_argv request) = Inr analysis"
    using assms by (cases "analyzeArgvCommand mc (cx_cwd cx) (rr_argv request)") (auto simp: evaluateExecAllowlist_def nothing_satisfied_def)
  then obtain segment where "an_segments analysis = [segment]" "sg_argv segment = filter (\<lambda>a. js_trim a \<noteq> []) (rr_argv request)"
    by (auto simp: analyzeArgvCommand_def Let_def split: if_splits)
  then show ?thesis using evaluateExecAllowlist_covered(2) [of mc cx analysis] analysis_grouped(2) [OF a] assms a False
    by (auto simp: run_covered_def)
qed

lemma durable_run_covered:
  assumes "hasDurableExecApproval sha256Hex (aa_analysisOk a) (ev_entries (aa_evaluation a)) allowlist command"
    "a = evaluateSystemRunAllowlist mc cx security (rr_shellPayload request) (rr_argv request)"
  shows "approved_for_good sha256Hex allowlist command \<or> run_covered mc cx request"
proof (cases "approved_for_good sha256Hex allowlist command")
  case False
  then have ok: "aa_analysisOk a" "None \<notin> set (ev_entries (aa_evaluation a))" using durable_cases assms(1) by blast+
  show ?thesis
  proof (cases "js_truthy_str (rr_shellPayload request)")
    case True
    then show ?thesis using ok assms(2) matched_command_satisfied [of mc cx "js_or_else (rr_shellPayload request) []"] satisfied_run_covered [of request mc cx]
      by (simp add: evaluateSystemRunAllowlist_def Let_def)
  next
    case no_shell: False
    then obtain analysis where "analyzeArgvCommand mc (cx_cwd cx) (rr_argv request) = Inr analysis"
      using ok(1) assms(2) by (auto simp: evaluateSystemRunAllowlist_def Let_def split: sum.splits)
    then show ?thesis using ok no_shell assms(2) matched_argv_satisfied [of mc cx "rr_argv request" analysis] satisfied_run_covered [of request mc cx]
      by (simp add: evaluateSystemRunAllowlist_def Let_def)
  qed
qed simp

lemma policy_approved [simp]:
  "rp_approvedByAsk (evaluateSystemRunPolicy security ask ok satisfied durable decision approved w c sh) \<longleftrightarrow>
   decision \<noteq> None \<or> approved"
  by (simp add: evaluateSystemRunPolicy_def Let_def)

lemma policy_satisfied [simp]:
  "rp_allowlistSatisfied (evaluateSystemRunPolicy security ask ok satisfied durable decision approved False False sh) \<longleftrightarrow> satisfied"
  by (simp add: evaluateSystemRunPolicy_def Let_def)

lemma phase_result:
  assumes "(if b \<and> c \<and> r \<noteq> Some SecurityDeny then Inl x else case r of Some y \<Rightarrow> Inl y | None \<Rightarrow> map_sum id f q) = Inr v"
  obtains u where "\<not> (b \<and> c)" "r = None" "q = Inr u" "v = f u"
  using assms by (cases q) (auto split: if_splits option.splits)

lemma policy_allows:
  "rp_allowed (evaluateSystemRunPolicy security ask ok satisfied durable decision approved False False sh) = None \<Longrightarrow>
   security \<noteq> SecDeny \<and>
   (decision \<noteq> None \<or> approved \<or> (ask \<noteq> AskAlways \<and> (security = SecFull \<or> durable \<or> (ok \<and> satisfied))))"
  by (cases security; cases ask)
    (auto simp: evaluateSystemRunPolicy_def requiresExecApproval_def Let_def split: if_splits)

lemma node_run_authority:
  assumes "evaluateSystemRunPolicyPhase sha256Hex mc cx security ask strictInlineEval request = Inr argv"
  shows "security \<noteq> SecDeny \<and>
    (rr_approvalDecision request \<noteq> None \<or> rr_approved request \<or>
     (ask \<noteq> AskAlways \<and>
      (security = SecFull \<or> approved_for_good sha256Hex (cx_allowlist cx) (rr_commandText request) \<or>
       run_covered mc cx request))) \<and>
    (argv = rr_argv request \<or>
     (\<not> js_truthy_str (rr_shellPayload request) \<and>
      (\<exists>segment. covered mc cx segment \<and> sg_argv segment = filter (\<lambda>a. js_trim a \<noteq> []) (rr_argv request) \<and>
         resolvePlannedSegmentArgv segment = Some argv)))"
proof -
  let ?a = "evaluateSystemRunAllowlist mc cx security (rr_shellPayload request) (rr_argv request)"
  let ?hit = "strictInlineEval \<and> list_ex (\<lambda>s. detectInterpreterInlineEvalArgv
      (case sg_resolution s of None \<Rightarrow> sg_argv s | Some r \<Rightarrow> cr_effectiveArgv r) \<noteq> None) (aa_segments ?a)"
  let ?durable = "hasDurableExecApproval sha256Hex (aa_analysisOk ?a) (ev_entries (aa_evaluation ?a)) (cx_allowlist cx) (rr_commandText request)"
  let ?trusted = "?hit \<and> list_ex (\<lambda>e. case e of None \<Rightarrow> False | Some a \<Rightarrow> al_allowAlways a) (ev_entries (aa_evaluation ?a))"
  let ?policy = "evaluateSystemRunPolicy security ask (aa_analysisOk ?a) (ev_satisfied (aa_evaluation ?a)) (?durable \<or> ?trusted)
      (rr_approvalDecision request) (rr_approved request) False False (rr_shellPayload request \<noteq> None)"
  obtain planned where run: "\<not> (?hit \<and> \<not> rp_approvedByAsk ?policy)" "rp_allowed ?policy = None"
    "resolvePlannedAllowlistArgv security (rr_shellPayload request) ?policy (aa_segments ?a) = Inr planned"
    "argv = js_or_else planned (rr_argv request)"
    using phase_result [OF assms [unfolded evaluateSystemRunPolicyPhase_def Let_def resolveSystemRunExecArgv_def]] by blast
  have approved: "rp_approvedByAsk ?policy \<longleftrightarrow> rr_approvalDecision request \<noteq> None \<or> rr_approved request"
    by (simp add: policy_approved)
  have satisfied: "run_covered mc cx request" if "ev_satisfied (aa_evaluation ?a)"
    using that by (intro satisfied_run_covered) (auto simp: evaluateSystemRunAllowlist_def Let_def split: if_splits)
  have durable: "approved_for_good sha256Hex (cx_allowlist cx) (rr_commandText request) \<or> run_covered mc cx request" if ?durable
    by (rule durable_run_covered [OF that refl])
  have authority: "rr_approvalDecision request \<noteq> None \<or> rr_approved request \<or> (ask \<noteq> AskAlways \<and>
      (security = SecFull \<or> approved_for_good sha256Hex (cx_allowlist cx) (rr_commandText request) \<or> run_covered mc cx request))"
    using policy_allows [OF run(2)] run(1) approved satisfied durable by blast
  have plan: "\<not> js_truthy_str (rr_shellPayload request) \<and> (\<exists>segment. covered mc cx segment \<and>
      sg_argv segment = filter (\<lambda>a. js_trim a \<noteq> []) (rr_argv request) \<and> resolvePlannedSegmentArgv segment = Some argv)"
    if p: "planned = Some argv" 
  proof -
    have r: "\<not> js_truthy_str (rr_shellPayload request)" "rp_allowlistSatisfied ?policy" "resolvePlannedSegmentArgv (hd (aa_segments ?a)) = Some argv"
      using run(3) p by (auto simp: resolvePlannedAllowlistArgv_def split: if_splits option.splits)
    have sat: "ev_satisfied (aa_evaluation ?a)" using r(2) by (simp add: policy_satisfied)
    then obtain analysis where a: "analyzeArgvCommand mc (cx_cwd cx) (rr_argv request) = Inr analysis"
      "ev_satisfied (evaluateExecAllowlist mc cx (Inr analysis))" "aa_segments ?a = an_segments analysis"
      using r(1) by (auto simp: evaluateSystemRunAllowlist_def Let_def split: sum.splits)
    then obtain segment where "an_segments analysis = [segment]" "sg_argv segment = filter (\<lambda>a. js_trim a \<noteq> []) (rr_argv request)"
      by (auto simp: analyzeArgvCommand_def Let_def split: if_splits)
    then show ?thesis using r evaluateExecAllowlist_covered(2) [OF a(2) analysis_grouped(2) [OF a(1)]] a(3) by auto
  qed
  show ?thesis using policy_allows [OF run(2)] authority plan run(4) by (cases planned) auto
qed

text \<open>An approved run is not replaced by a plan.\<close>

lemma no_plan_when_approved: "rp_approvedByAsk policy \<Longrightarrow> resolvePlannedAllowlistArgv security shellCommand policy segments = Inr None"
  by (simp add: resolvePlannedAllowlistArgv_def)

lemma approved_runs_its_arguments:
  assumes "evaluateSystemRunPolicyPhase sha256Hex mc cx security ask strictInlineEval request = Inr argv"
    "rr_approvalDecision request \<noteq> None \<or> rr_approved request"
  shows "argv = rr_argv request"
proof -
  let ?a = "evaluateSystemRunAllowlist mc cx security (rr_shellPayload request) (rr_argv request)"
  obtain planned where "resolvePlannedAllowlistArgv security (rr_shellPayload request) (evaluateSystemRunPolicy security ask
      (aa_analysisOk ?a) (ev_satisfied (aa_evaluation ?a)) (hasDurableExecApproval sha256Hex (aa_analysisOk ?a)
        (ev_entries (aa_evaluation ?a)) (cx_allowlist cx) (rr_commandText request) \<or> (strictInlineEval \<and> list_ex (\<lambda>s. detectInterpreterInlineEvalArgv
      (case sg_resolution s of None \<Rightarrow> sg_argv s | Some r \<Rightarrow> cr_effectiveArgv r) \<noteq> None) (aa_segments ?a)) \<and>
        list_ex (\<lambda>e. case e of None \<Rightarrow> False | Some a \<Rightarrow> al_allowAlways a) (ev_entries (aa_evaluation ?a)))
      (rr_approvalDecision request) (rr_approved request) False False (rr_shellPayload request \<noteq> None)) (aa_segments ?a) = Inr planned"
    "argv = js_or_else planned (rr_argv request)"
    using phase_result [OF assms(1) [unfolded evaluateSystemRunPolicyPhase_def Let_def resolveSystemRunExecArgv_def]] by blast
  then show ?thesis using no_plan_when_approved [OF iffD2 [OF policy_approved assms(2)]] by (metis Inr_inject js_or_else_simps(1))
qed

text \<open>A node runs a command only with authority: security is not \<open>deny\<close>, and unless the request was
  approved, asking is not required always and the command is covered by the allowlist, approved for good as it is,
  or not restricted at all. What runs is the command of the request or the plan made for it.\<close>

theorem node_runs_only_with_authority:
  assumes "evaluateSystemRunPolicyPhase sha256Hex mc cx security ask strictInlineEval request = Inr argv"
  shows "security \<noteq> SecDeny \<and>
    (rr_approvalDecision request \<noteq> None \<or> rr_approved request \<or>
     (ask \<noteq> AskAlways \<and>
      (security = SecFull \<or> approved_for_good sha256Hex (cx_allowlist cx) (rr_commandText request) \<or>
       run_covered mc cx request))) \<and>
    (argv = rr_argv request \<or>
     (\<not> js_truthy_str (rr_shellPayload request) \<and>
      (\<exists>segment. covered mc cx segment \<and> sg_argv segment = filter (\<lambda>a. js_trim a \<noteq> []) (rr_argv request) \<and>
         resolvePlannedSegmentArgv segment = Some argv)))"
  by (rule node_run_authority [OF assms])






text \<open>The hypotheses of the two properties on authority hold for a command that a bare wildcard covers.\<close>

definition sample_request :: run_request where
  "sample_request = \<lparr>rr_argv = [''ls''], rr_shellPayload = None, rr_commandText = ''ls'', rr_approvalDecision = None, rr_approved = False\<rparr>"


theorem node_runs_only_with_authority_witness:
  "\<exists>argv. evaluateSystemRunPolicyPhase id sample_machine sample_context SecAllowlist AskOnMiss False sample_request = Inr argv \<and>
     (run_covered sample_machine sample_context sample_request \<or>
      approved_for_good id (cx_allowlist sample_context) (rr_commandText sample_request))"
proof -
  have run: "evaluateSystemRunPolicyPhase id sample_machine sample_context SecAllowlist AskOnMiss False sample_request = Inr [''/b/ls'']"
    by code_simp
  show ?thesis using node_runs_only_with_authority [OF run] run by (auto simp: sample_request_def)
qed


subsection \<open>Text after a comment sign\<close>









subsection \<open>Entries of the approvals file\<close>





end
