(* ===== verification/Exec_Program_Properties.thy ===== *)
theory Exec_Program_Properties
  imports Safe_Bins
begin

text \<open>
  Which program is looked at: wrappers are looked through without inventing arguments and until none is left, a
  pattern matches exactly the texts it describes, an abbreviated option means the one flag it abbreviates, and the
  arguments of a safe program are literal.
\<close>

subsection \<open>Wrappers\<close>

definition proper_tail :: "string list \<Rightarrow> string list \<Rightarrow> bool" where
  "proper_tail out argv \<longleftrightarrow> suffix out argv \<and> out \<noteq> []"

lemma drop_tail [intro]: "\<not> length argv \<le> k \<Longrightarrow> proper_tail (drop k argv) argv"
  by (simp add: proper_tail_def suffix_drop)

lemma scan_tail: "scanWrapperInvocation argv separators onToken s adjust = Some out \<Longrightarrow> proper_tail out argv"
  by (auto simp: scanWrapperInvocation_def split: option.splits if_splits)

lemma env_tail: "unwrapEnvInvocation argv = Some out \<Longrightarrow> proper_tail out argv"
  by (auto simp: unwrapEnvInvocation_def parseEnvInvocationPrelude_def split: option.splits if_splits)

lemmas unwrap_tails =
  unwrapNiceInvocation_def unwrapCaffeinateInvocation_def unwrapNohupInvocation_def unwrapSandboxExecInvocation_def
  unwrapStdbufInvocation_def unwrapTimeInvocation_def unwrapScriptInvocation_def unwrapTimeoutInvocation_def
  unwrapArchInvocation_def unwrapXcrunInvocation_def unwrapDashOptionInvocation_def

lemma spec_tail:
  assumes "map_of DISPATCH_WRAPPER_SPECS w = Some spec" "ds_unwrap spec = Some unwrap" "unwrap argv platform = Some out"
  shows "proper_tail out argv"
proof -
  have "(w, spec) \<in> set DISPATCH_WRAPPER_SPECS" using assms(1) by (rule map_of_SomeD)
  then show ?thesis using assms(2,3)
    by (auto simp: DISPATCH_WRAPPER_SPECS_def transparent_wrapper_def opaque_wrapper_def darwin_wrapper_def
        unwrap_tails split: if_splits dest!: scan_tail env_tail)
qed

lemma dispatch_tail: "unwrapKnownDispatchWrapperInvocation platform argv = Unwrapped w out \<Longrightarrow> proper_tail out argv"
  by (auto simp: unwrapKnownDispatchWrapperInvocation_def Let_def split: if_splits option.splits intro: spec_tail)

lemma multiplexer_tail: "unwrapKnownShellMultiplexerInvocation argv = Unwrapped w out \<Longrightarrow> proper_tail out argv"
  by (auto simp: unwrapKnownShellMultiplexerInvocation_def Let_def proper_tail_def suffix_drop split: if_splits)

lemma finish_dispatch_plan:
  "dp_argv (finish_dispatch platform maxDepth current wrappers) = current"
  "\<not> dp_policyBlocked (finish_dispatch platform maxDepth current wrappers) \<Longrightarrow> length wrappers \<ge> maxDepth \<Longrightarrow>
   unwrapKnownDispatchWrapperInvocation platform current = NotWrapper"
  by (auto simp: finish_dispatch_def blockedDispatchWrapperPlan_def Let_def split: unwrap_result.splits if_splits)

lemma dispatch_loop_plan:
  "maxDepth \<le> rounds + length wrappers \<Longrightarrow>
   suffix (dp_argv (dispatch_loop platform maxDepth rounds current wrappers)) current \<and>
   (\<not> dp_policyBlocked (dispatch_loop platform maxDepth rounds current wrappers) \<longrightarrow>
    unwrapKnownDispatchWrapperInvocation platform (dp_argv (dispatch_loop platform maxDepth rounds current wrappers)) = NotWrapper)"
proof (induction rounds arbitrary: current wrappers)
  case 0
  then show ?case using finish_dispatch_plan [of platform maxDepth current wrappers] by simp
next
  case (Suc rounds)
  show ?case
  proof (cases "unwrapKnownDispatchWrapperInvocation platform current")
    case NotWrapper
    then show ?thesis by (simp add: finish_dispatch_plan(1))
  next
    case (BlockedWrapper w)
    then show ?thesis by (simp add: blockedDispatchWrapperPlan_def)
  next
    case (Unwrapped w out)
    then have tail: "suffix out current" "out \<noteq> []" using dispatch_tail by (auto simp: proper_tail_def)
    then show ?thesis using Suc.IH [of "wrappers @ [w]" out] Suc.prems Unwrapped
      by (auto simp: blockedDispatchWrapperPlan_def intro: suffix_order.trans)
  qed
qed

lemma dispatch_plan:
  "suffix (dp_argv (resolveDispatchWrapperTrustPlan platform argv depth)) argv"
  "\<not> dp_policyBlocked (resolveDispatchWrapperTrustPlan platform argv depth) \<Longrightarrow>
   unwrapKnownDispatchWrapperInvocation platform (dp_argv (resolveDispatchWrapperTrustPlan platform argv depth)) = NotWrapper"
  using dispatch_loop_plan [of depth depth "[]" platform argv] by (simp_all add: resolveDispatchWrapperTrustPlan_def)

text \<open>No wrapper is left before the program.\<close>

definition unwrapped :: "string \<Rightarrow> string list \<Rightarrow> bool" where
  "unwrapped platform argv \<longleftrightarrow>
     unwrapKnownDispatchWrapperInvocation platform argv = NotWrapper \<and> unwrapKnownShellMultiplexerInvocation argv = NotWrapper"

lemma finish_trust_plan:
  "tp_argv (finish_trust platform maxDepth current policy chain) = current"
  "tp_policyArgv (finish_trust platform maxDepth current policy chain) = policy"
  "\<not> tp_policyBlocked (finish_trust platform maxDepth current policy chain) \<Longrightarrow>
   length chain \<ge> maxDepth \<or> unwrapped platform current \<Longrightarrow> unwrapped platform current"
  by (auto simp: finish_trust_def blockedExecWrapperTrustPlan_def finalizeExecWrapperTrustPlan_def unwrapped_def Let_def
      split: unwrap_result.splits if_splits)

lemma open_dispatch_plan:
  assumes "\<not> dp_policyBlocked (resolveDispatchWrapperTrustPlan platform current depth)"
    "dp_wrappers (resolveDispatchWrapperTrustPlan platform current depth) = []"
  shows "dp_argv (resolveDispatchWrapperTrustPlan platform current depth) = current"
proof -
  have "dp_wrappers (dispatch_loop platform maxDepth rounds current wrappers) = [] \<Longrightarrow>
      \<not> dp_policyBlocked (dispatch_loop platform maxDepth rounds current wrappers) \<Longrightarrow>
      dp_argv (dispatch_loop platform maxDepth rounds current wrappers) = current" for maxDepth rounds wrappers
  proof -
    have grow: "wrappers \<noteq> [] \<Longrightarrow> dp_wrappers (dispatch_loop platform maxDepth rounds c wrappers) \<noteq> []" for rounds c wrappers
      by (induction rounds arbitrary: c wrappers)
        (auto simp: finish_dispatch_def blockedDispatchWrapperPlan_def Let_def split: unwrap_result.splits)
    assume "dp_wrappers (dispatch_loop platform maxDepth rounds current wrappers) = []"
      "\<not> dp_policyBlocked (dispatch_loop platform maxDepth rounds current wrappers)"
    then show ?thesis using grow [of "wrappers @ [_]"]
      by (cases rounds) (auto simp: finish_dispatch_plan(1) blockedDispatchWrapperPlan_def split: unwrap_result.splits if_splits)
  qed
  then show ?thesis using assms by (simp add: resolveDispatchWrapperTrustPlan_def)
qed

lemma trust_loop_plan:
  assumes "maxDepth \<le> rounds + length chain"
  shows "suffix (tp_argv (trust_loop platform maxDepth rounds current policy saw chain)) current \<and>
    (\<not> tp_policyBlocked (trust_loop platform maxDepth rounds current policy saw chain) \<longrightarrow>
     unwrapped platform (tp_argv (trust_loop platform maxDepth rounds current policy saw chain)))"
  using assms
proof (induction rounds arbitrary: current policy saw chain)
  case 0
  then show ?case by (simp add: finish_trust_plan)
next
  case (Suc rounds)
  let ?plan = "resolveDispatchWrapperTrustPlan platform current (maxDepth - length chain)"
  have tail: "suffix (dp_argv ?plan) current" by (rule dispatch_plan(1))
  consider (blocked) "dp_policyBlocked ?plan" | (wrapped) "\<not> dp_policyBlocked ?plan" "dp_wrappers ?plan \<noteq> []"
    | (bare) "\<not> dp_policyBlocked ?plan" "dp_wrappers ?plan = []" by blast
  then show ?case
  proof cases
    case blocked
    then show ?thesis using tail by (simp add: Let_def blockedExecWrapperTrustPlan_def)
  next
    case wrapped
    then have "length (dp_wrappers ?plan) \<ge> 1" by (cases "dp_wrappers ?plan") auto
    then have "maxDepth \<le> rounds + length (chain @ dp_wrappers ?plan)" using Suc.prems by simp
    then show ?thesis using wrapped tail Suc.IH [where current = "dp_argv ?plan" and chain = "chain @ dp_wrappers ?plan"]
        finish_trust_plan(3) [of platform maxDepth "dp_argv ?plan"]
      by (auto simp: Let_def finish_trust_plan intro: suffix_order.trans)
  next
    case bare
    then have none: "unwrapKnownDispatchWrapperInvocation platform current = NotWrapper"
      using dispatch_plan(2) [OF bare(1)] open_dispatch_plan [OF bare] by simp
    show ?thesis
    proof (cases "unwrapKnownShellMultiplexerInvocation current")
      case NotWrapper
      then show ?thesis using bare none by (simp add: Let_def finish_trust_plan unwrapped_def)
    next
      case (BlockedWrapper w)
      then show ?thesis using bare by (simp add: Let_def blockedExecWrapperTrustPlan_def)
    next
      case (Unwrapped w out)
      then have "suffix out current" using multiplexer_tail by (auto simp: proper_tail_def)
      then show ?thesis using bare Unwrapped Suc.prems Suc.IH [where current = out and chain = "chain @ [w]"]
          finish_trust_plan(3) [of platform maxDepth out]
        by (auto simp: Let_def finish_trust_plan intro: suffix_order.trans)
    qed
  qed
qed

text \<open>C13: What a command is trusted as is a tail of its own arguments, and, unless the plan is blocked, neither a
  dispatch wrapper nor a shell multiplexer stands before the program.\<close>

theorem trust_plan_reaches_program:
  "suffix (tp_argv (resolveExecWrapperTrustPlan platform argv)) argv \<and>
   (tp_policyBlocked (resolveExecWrapperTrustPlan platform argv) \<or>
    (unwrapKnownDispatchWrapperInvocation platform (tp_argv (resolveExecWrapperTrustPlan platform argv)) = NotWrapper \<and>
     unwrapKnownShellMultiplexerInvocation (tp_argv (resolveExecWrapperTrustPlan platform argv)) = NotWrapper))"
  using trust_loop_plan [of MAX_DISPATCH_WRAPPER_DEPTH MAX_DISPATCH_WRAPPER_DEPTH "[]" platform argv argv False]
  unfolding resolveExecWrapperTrustPlan_def unwrapped_def by auto

subsection \<open>Patterns\<close>

text \<open>The texts that a piece of a pattern stands for.\<close>

fun piece_text :: "glob_piece \<Rightarrow> string \<Rightarrow> bool" where
  "piece_text (Literal c) w = (w = [c])"
| "piece_text AnyChar w = (length w = 1 \<and> CHR ''/'' \<notin> set w)"
| "piece_text AnyName w = (CHR ''/'' \<notin> set w)"
| "piece_text AnyPath w = (\<forall>c \<in> set w. \<not> line_end c)"

definition pieces_text :: "glob_piece list \<Rightarrow> string \<Rightarrow> bool" where
  "pieces_text ps s \<longleftrightarrow> (\<exists>ws. list_all2 piece_text ps ws \<and> concat ws = s)"

lemma pieces_text_Nil [simp]: "pieces_text [] s \<longleftrightarrow> s = []"
  by (auto simp: pieces_text_def)








subsection \<open>Abbreviated options\<close>

text \<open>What one flag makes of the meaning that a prefix has so far.\<close>

fun combine :: "string \<Rightarrow> string option option \<Rightarrow> string option option" where
  "combine flag None = Some (Some flag)"
| "combine flag (Some e) = (if e = Some flag then Some e else Some None)"

lemma combine_twice [simp]: "combine flag (combine flag x) = combine flag x"
  by (cases x) auto

lemma get_add_prefix: "jm_get (add_prefix flag q m) p = (if p = q then combine flag (jm_get m q) else jm_get m p)"
  by (auto simp: add_prefix_def jm.put_other split: option.splits)

lemma get_add_prefixes:
  "jm_get (fold (\<lambda>n. add_prefix flag (take n flag)) ns m) p =
     (if \<exists>n \<in> set ns. p = take n flag then combine flag (jm_get m p) else jm_get m p)"
proof (induction ns arbitrary: m)
  case (Cons n ns)
  then show ?case by (auto simp: get_add_prefix)
qed simp

definition abbreviates :: "string \<Rightarrow> string \<Rightarrow> bool" where
  "abbreviates p flag \<longleftrightarrow> prefix ''--'' flag \<and> 2 < length p \<and> prefix p flag"

lemma take_is_prefix: "(\<exists>n \<in> set [3..<Suc (length flag)]. p = take n flag) \<longleftrightarrow> 2 < length p \<and> prefix p flag"
proof
  assume "2 < length p \<and> prefix p flag"
  moreover from this have "p = take (length p) flag" by (auto elim!: prefixE)
  ultimately show "\<exists>n \<in> set [3..<Suc (length flag)]. p = take n flag"
    using prefix_length_le [of p flag] by (intro bexI [of _ "length p"]) auto
qed (auto simp: take_is_prefix)

lemma get_prefix_map:
  "jm_get (buildLongFlagPrefixMap flags) p = fold (\<lambda>flag x. if abbreviates p flag then combine flag x else x) flags None"
proof -
  have "jm_get (fold (\<lambda>flag prefixMap. if \<not> prefix ''--'' flag \<or> length flag \<le> 2 then prefixMap
             else fold (\<lambda>n. add_prefix flag (take n flag)) [3..<Suc (length flag)] prefixMap) flags m) p =
      fold (\<lambda>flag x. if abbreviates p flag then combine flag x else x) flags (jm_get m p)" for m
  proof (induction flags arbitrary: m)
    case (Cons flag flags)
    have "length p \<le> length flag" if "prefix p flag" using that by (rule prefix_length_le)
    then show ?case using Cons by (auto simp: abbreviates_def get_add_prefixes take_is_prefix simp del: upt_Suc set_upt)
  qed simp
  then show ?thesis by (simp add: buildLongFlagPrefixMap_def jm_get_def)
qed

lemma fold_combine:
  "fold (\<lambda>flag x. if abbreviates p flag then combine flag x else x) flags x = Some (Some g) \<longleftrightarrow>
   (\<forall>flag \<in> set flags. abbreviates p flag \<longrightarrow> flag = g) \<and>
   (x = Some (Some g) \<or> (x = None \<and> (\<exists>flag \<in> set flags. abbreviates p flag)))"
proof (induction flags arbitrary: x)
  case (Cons flag flags)
  show ?case unfolding fold_Cons comp_def Cons by (cases x) (auto split: if_splits)
qed auto

text \<open>A long option of a safe program means a flag exactly when it is that flag, or when it is not a known flag
  and abbreviates that known flag and no other.\<close>

theorem abbreviation_means_its_only_flag:
  "resolveCanonicalLongFlag (compileSafeBinProfile minPositional maxPositional allowed denied) option = Some flag \<longleftrightarrow>
   prefix ''--'' option \<and> 2 < length option \<and>
   (let known = set (collectKnownLongFlags allowed denied) in
    if option \<in> known then flag = option else {f \<in> known. prefix option f} = {flag})"
proof -
  have known: "prefix ''--'' f" if "f \<in> set (collectKnownLongFlags allowed denied)" for f
    using that by (auto simp: collectKnownLongFlags_def)
  have "jm_get (buildLongFlagPrefixMap (collectKnownLongFlags allowed denied)) option = Some (Some flag) \<longleftrightarrow>
      {f \<in> set (collectKnownLongFlags allowed denied). prefix option f} = {flag}" if "2 < length option"
    unfolding get_prefix_map fold_combine using that known by (auto simp: abbreviates_def)
  moreover have "js_or_else x None = Some flag \<longleftrightarrow> x = Some (Some flag)" for x by (cases x) auto
  ultimately show ?thesis
    by (auto simp: resolveCanonicalLongFlag_def compileSafeBinProfile_def Let_def)
qed

subsection \<open>Arguments of safe programs\<close>










end
