(* ===== verification/Approval_Manager.thy ===== *)
theory Approval_Manager
  imports Exec_Policy
begin

text \<open>
  \<open>src/gateway/exec-approval-manager.ts\<close>: the questions that wait for an approver. A record is registered under its
  id, settled once by a decision or a time-out, and kept for a grace period after that, in which a run may still
  use the decision. An entry is identified by a serial number, as the code identifies it by its object: the
  promise of an entry is the field \<open>pe_settled\<close>, its time-out is armed while \<open>pe_timer\<close> holds, and
  \<open>am_forget\<close> are the deletions that are scheduled. The decision field of a record is cleared when a decision
  for one run is used.
\<close>

record 'p approval_record =
  ar_id :: string
  ar_request :: 'p
  ar_createdAtMs :: ms
  ar_expiresAtMs :: ms
  ar_requestedByConnId :: "string option"
  ar_requestedByDeviceId :: "string option"
  ar_requestedByClientId :: "string option"
  ar_resolvedAtMs :: "ms option"
  ar_decision :: "exec_decision option"
  ar_resolvedBy :: "string option option"

record 'p pending_entry =
  pe_serial :: nat
  pe_record :: "'p approval_record"
  pe_timer :: bool
  pe_settled :: "exec_decision option option"

record 'p approval_manager =
  am_pending :: "(string, 'p pending_entry) js_map"
  am_next :: nat
  am_forget :: "(string \<times> nat) list"

definition empty_manager :: "'p approval_manager" where
  "empty_manager = \<lparr>am_pending = [], am_next = 0, am_forget = []\<rparr>"

text \<open>A blank id is replaced by a fresh one, \<open>uuid\<close>.\<close>

definition createApproval :: "ms \<Rightarrow> string \<Rightarrow> 'p \<Rightarrow> ms \<Rightarrow> string option \<Rightarrow> 'p approval_record" where
  "createApproval now uuid request timeoutMs explicitId =
     (let resolvedId = (case explicitId of Some i \<Rightarrow> if js_trim i \<noteq> [] then js_trim i else uuid | None \<Rightarrow> uuid)
      in \<lparr>ar_id = resolvedId, ar_request = request, ar_createdAtMs = now, ar_expiresAtMs = now + timeoutMs,
          ar_requestedByConnId = None, ar_requestedByDeviceId = None, ar_requestedByClientId = None,
          ar_resolvedAtMs = None, ar_decision = None, ar_resolvedBy = None\<rparr>)"

text \<open>The result is the entry whose promise is awaited: the one that is registered already, or a new one.\<close>

definition registerApproval :: "'p approval_manager \<Rightarrow> 'p approval_record \<Rightarrow> (nat \<times> 'p approval_manager) fallible" where
  "registerApproval m r =
     (case jm_get (am_pending m) (ar_id r) of
        Some e \<Rightarrow>
          if ar_resolvedAtMs (pe_record e) = None then Inr (pe_serial e, m)
          else Inl (''approval id '' @ [CHR 0x27] @ ar_id r @ [CHR 0x27] @ '' already resolved'')
      | None \<Rightarrow>
          Inr (am_next m,
            m\<lparr>am_pending := jm_set (am_pending m) (ar_id r)
                \<lparr>pe_serial = am_next m, pe_record = r, pe_timer = True, pe_settled = None\<rparr>,
              am_next := Suc (am_next m)\<rparr>))"

text \<open>Settling an entry stops its timer, answers its promise and schedules its deletion.\<close>

definition settle_entry :: "ms \<Rightarrow> exec_decision option \<Rightarrow> string option \<Rightarrow> 'p pending_entry \<Rightarrow> 'p pending_entry" where
  "settle_entry now decision resolvedBy e =
     e\<lparr>pe_record := (pe_record e)\<lparr>ar_resolvedAtMs := Some now, ar_decision := decision, ar_resolvedBy := Some resolvedBy\<rparr>,
       pe_timer := False, pe_settled := Some decision\<rparr>"

definition settleApproval ::
  "ms \<Rightarrow> exec_decision option \<Rightarrow> string option \<Rightarrow> 'p approval_manager \<Rightarrow> string \<Rightarrow> bool \<times> 'p approval_manager" where
  "settleApproval now decision resolvedBy m recordId =
     (case jm_get (am_pending m) recordId of
        None \<Rightarrow> (False, m)
      | Some e \<Rightarrow>
          if ar_resolvedAtMs (pe_record e) \<noteq> None then (False, m)
          else (True, m\<lparr>am_pending := jm_set (am_pending m) recordId (settle_entry now decision resolvedBy e),
                        am_forget := am_forget m @ [(recordId, pe_serial e)]\<rparr>))"

definition resolveApproval ::
  "ms \<Rightarrow> 'p approval_manager \<Rightarrow> string \<Rightarrow> exec_decision \<Rightarrow> string option \<Rightarrow> bool \<times> 'p approval_manager" where
  "resolveApproval now m recordId decision resolvedBy = settleApproval now (Some decision) resolvedBy m recordId"

definition expireApproval :: "ms \<Rightarrow> 'p approval_manager \<Rightarrow> string \<Rightarrow> string option \<Rightarrow> bool \<times> 'p approval_manager" where
  "expireApproval now m recordId resolvedBy = settleApproval now None resolvedBy m recordId"

text \<open>The callbacks of the timers: the time-out of a registration and the deletion after the grace period.\<close>

definition fire_timeout :: "ms \<Rightarrow> 'p approval_manager \<Rightarrow> string \<Rightarrow> 'p approval_manager" where
  "fire_timeout now m recordId =
     (case jm_get (am_pending m) recordId of
        None \<Rightarrow> m
      | Some e \<Rightarrow> if pe_timer e then snd (expireApproval now m recordId None) else m)"

definition fire_forget :: "'p approval_manager \<Rightarrow> string \<Rightarrow> nat \<Rightarrow> 'p approval_manager" where
  "fire_forget m recordId k =
     (if (recordId, k) \<notin> set (am_forget m) then m
      else let m' = m\<lparr>am_forget := remove1 (recordId, k) (am_forget m)\<rparr> in
        case jm_get (am_pending m) recordId of
          None \<Rightarrow> m'
        | Some e \<Rightarrow> if pe_serial e = k then m'\<lparr>am_pending := jm_delete (am_pending m) recordId\<rparr> else m')"

definition getSnapshot :: "'p approval_manager \<Rightarrow> string \<Rightarrow> 'p approval_record option" where
  "getSnapshot m recordId = map_option pe_record (jm_get (am_pending m) recordId)"

definition listPendingRecords :: "'p approval_manager \<Rightarrow> 'p approval_record list" where
  "listPendingRecords m = filter (\<lambda>r. ar_resolvedAtMs r = None) (map (\<lambda>(_, e). pe_record e) (am_pending m))"

definition consumeAllowOnce :: "'p approval_manager \<Rightarrow> string \<Rightarrow> bool \<times> 'p approval_manager" where
  "consumeAllowOnce m recordId =
     (case jm_get (am_pending m) recordId of
        None \<Rightarrow> (False, m)
      | Some e \<Rightarrow>
          if ar_decision (pe_record e) \<noteq> Some AllowOnce then (False, m)
          else (True, m\<lparr>am_pending := jm_set (am_pending m) recordId (e\<lparr>pe_record := (pe_record e)\<lparr>ar_decision := None\<rparr>\<rparr>)\<rparr>))"

text \<open>\<open>None\<close> is \<open>null\<close>; otherwise the state of the promise.\<close>

definition awaitDecision :: "'p approval_manager \<Rightarrow> string \<Rightarrow> exec_decision option option option" where
  "awaitDecision m recordId = map_option pe_settled (jm_get (am_pending m) recordId)"

datatype id_lookup = LookupExact string | LookupPrefix string | LookupAmbiguous "string list" | LookupNone

definition lookupPendingId :: "'p approval_manager \<Rightarrow> string \<Rightarrow> id_lookup" where
  "lookupPendingId m input =
     (let normalized = js_trim input in
      if normalized = [] then LookupNone
      else case jm_get (am_pending m) normalized of
        Some e \<Rightarrow> if ar_resolvedAtMs (pe_record e) = None then LookupExact normalized else LookupNone
      | None \<Rightarrow>
          let lowerPrefix = normalizeLowercaseStringOrEmpty (JStr normalized);
              matches = map fst (filter (\<lambda>(i, e). ar_resolvedAtMs (pe_record e) = None \<and>
                prefix lowerPrefix (normalizeLowercaseStringOrEmpty (JStr i))) (am_pending m))
          in case matches of
               [] \<Rightarrow> LookupNone
             | [i] \<Rightarrow> LookupPrefix i
             | _ \<Rightarrow> LookupAmbiguous matches)"

end
