(* ===== verification/System_Run_Command.thy ===== *)
theory System_Run_Command
  imports Exec_Wrappers
begin

text \<open>
  \<open>src/infra/system-run-command.ts\<close>: the text of a command, by which it is shown to an approver, compared with
  what a client says it is, and remembered. An array of a request stands for the texts of its elements, as
  \<open>String\<close> makes them; anything else than an array is \<open>None\<close>.
\<close>

definition needs_quotes :: "string \<Rightarrow> bool" where
  "needs_quotes arg = list_ex (\<lambda>c. js_is_space c \<or> c = ch_dquote) arg"

definition escape_quotes :: "string \<Rightarrow> string" where
  "escape_quotes arg = concat (map (\<lambda>c. if c = ch_dquote then [ch_backslash, ch_dquote] else [c]) arg)"

definition format_arg :: "string \<Rightarrow> string" where
  "format_arg arg =
     (if arg = [] then [ch_dquote, ch_dquote]
      else if \<not> needs_quotes arg then arg
      else [ch_dquote] @ escape_quotes arg @ [ch_dquote])"

definition formatExecCommand :: "string list \<Rightarrow> string" where
  "formatExecCommand argv = js_join '' '' (map format_arg argv)"

definition extractShellCommandFromArgv :: "string \<Rightarrow> string list \<Rightarrow> string option" where
  "extractShellCommandFromArgv platform argv = extractShellWrapperCommand platform argv"

definition unwrapShellWrapperArgv :: "string \<Rightarrow> string list \<Rightarrow> string list" where
  "unwrapShellWrapperArgv platform argv =
     (let dispatchUnwrapped = unwrapDispatchWrappersForResolution platform argv in
      case unwrapKnownShellMultiplexerInvocation dispatchUnwrapped of
        Unwrapped _ unwrapped \<Rightarrow> unwrapped
      | _ \<Rightarrow> dispatchUnwrapped)"

definition hasTrailingPositionalArgvAfterInlineCommand :: "string \<Rightarrow> string list \<Rightarrow> bool" where
  "hasTrailingPositionalArgvAfterInlineCommand platform argv =
     (let wrapperArgv = unwrapShellWrapperArgv platform argv;
          token0 = trimmed_at wrapperArgv 0;
          wrapper = normalizeExecutableToken token0;
          inlineCommandIndex =
            (if wrapper = ''powershell'' \<or> wrapper = ''pwsh''
             then snd (resolveInlineCommandMatch wrapperArgv POWERSHELL_INLINE_COMMAND_FLAGS False)
             else snd (resolveInlineCommandMatch wrapperArgv POSIX_INLINE_COMMAND_FLAGS True))
      in token0 \<noteq> [] \<and> wrapper \<in> set (POSIX_SHELL_WRAPPER_NAMES @ POWERSHELL_WRAPPER_NAMES) \<and>
         (case inlineCommandIndex of
            None \<Rightarrow> False
          | Some i \<Rightarrow> list_ex (\<lambda>entry. js_trim entry \<noteq> []) (drop (i + 1) wrapperArgv)))"

record command_display =
  sd_shellPayload :: "string option"
  sd_commandText :: string
  sd_previewText :: "string option"

definition buildSystemRunCommandDisplay :: "string \<Rightarrow> string list \<Rightarrow> command_display" where
  "buildSystemRunCommandDisplay platform argv =
     (let shellPayload = extractShellWrapperCommand platform argv;
          envManipulation = shellPayload \<noteq> None \<and> hasEnvManipulationBeforeShellWrapper platform argv
      in \<lparr>sd_shellPayload = shellPayload, sd_commandText = formatExecCommand argv,
          sd_previewText =
            (case shellPayload of
               None \<Rightarrow> None
             | Some payload \<Rightarrow>
                 if \<not> envManipulation \<and> \<not> hasTrailingPositionalArgvAfterInlineCommand platform argv
                 then Some (js_trim payload) else None)\<rparr>)"

definition normalizeRawCommandText :: "js_value \<Rightarrow> string option" where
  "normalizeRawCommandText rawCommand = (case rawCommand of JStr s \<Rightarrow> non_empty (js_trim s) | _ \<Rightarrow> None)"

datatype command_refusal = MissingCommand | RawCommandMismatch string string

definition validateSystemRunCommandConsistency ::
  "string \<Rightarrow> string list \<Rightarrow> js_value \<Rightarrow> bool \<Rightarrow> command_refusal + command_display" where
  "validateSystemRunCommandConsistency platform argv rawCommand allowLegacyShellText =
     (let display = buildSystemRunCommandDisplay platform argv in
      case normalizeRawCommandText rawCommand of
        None \<Rightarrow> Inr display
      | Some raw \<Rightarrow>
          let matchesCanonicalArgv = raw = sd_commandText display;
              matchesLegacyShellText = allowLegacyShellText \<and> sd_previewText display = Some raw
          in if \<not> matchesCanonicalArgv \<and> \<not> matchesLegacyShellText
             then Inl (RawCommandMismatch raw (sd_commandText display)) else Inr display)"

record resolved_command =
  rc_argv :: "string list"
  rc_display :: command_display

definition resolveSystemRunCommandWithMode ::
  "string \<Rightarrow> string list option \<Rightarrow> js_value \<Rightarrow> bool \<Rightarrow> command_refusal + resolved_command" where
  "resolveSystemRunCommandWithMode platform command rawCommand allowLegacyShellText =
     (let raw = normalizeRawCommandText rawCommand; argv = js_or_else command [] in
      if argv = []
      then (if raw \<noteq> None then Inl MissingCommand
            else Inr \<lparr>rc_argv = [], rc_display = \<lparr>sd_shellPayload = None, sd_commandText = [], sd_previewText = None\<rparr>\<rparr>)
      else case validateSystemRunCommandConsistency platform argv (js_opt raw) allowLegacyShellText of
             Inl refusal \<Rightarrow> Inl refusal
           | Inr display \<Rightarrow> Inr \<lparr>rc_argv = argv, rc_display = display\<rparr>)"

definition resolveSystemRunCommand :: "string \<Rightarrow> string list option \<Rightarrow> js_value \<Rightarrow> command_refusal + resolved_command" where
  "resolveSystemRunCommand platform command rawCommand = resolveSystemRunCommandWithMode platform command rawCommand False"

definition resolveSystemRunCommandRequest :: "string \<Rightarrow> string list option \<Rightarrow> js_value \<Rightarrow> command_refusal + resolved_command" where
  "resolveSystemRunCommandRequest platform command rawCommand = resolveSystemRunCommandWithMode platform command rawCommand True"

end
