(* ===== verification/Host_Env.thy ===== *)
theory Host_Env
  imports Exec_Wrappers
begin

text \<open>
  \<open>src/infra/host-env-security.ts\<close>: the environment of a command that runs on the host. Names that make a
  program load code or change what it trusts are not inherited, and a request may not override them. The lists
  of names come from a file of the repository and are the argument \<open>policy\<close>; \<open>rank\<close> stands for
  \<open>localeCompare\<close>, by which the names in a report are sorted.
\<close>

subsection \<open>Names\<close>

text \<open>The capital letters of Latin-1. \<open>y\<close> with a diaeresis and the micro sign have theirs outside of it, and stay.\<close>

definition js_upper_char :: "char \<Rightarrow> string" where
  "js_upper_char c =
     (let n = js_code c in
      if (97 \<le> n \<and> n \<le> 122) \<or> (224 \<le> n \<and> n \<le> 254 \<and> n \<noteq> 247) then [char_of (n - 32)]
      else if n = 223 then ''SS'' else [c])"

definition js_upper :: "string \<Rightarrow> string" where
  "js_upper s = concat (map js_upper_char s)"

record env_policy =
  ep_blockedEverywhereKeys :: "string list"
  ep_blockedOverrideOnlyKeys :: "string list"
  ep_allowedInheritedOverrideOnlyKeys :: "string list"
  ep_blockedPrefixes :: "string list"
  ep_blockedOverridePrefixes :: "string list"
  ep_blockedInheritedPrefixes :: "string list option"

definition blockedKeys :: "env_policy \<Rightarrow> string list" where
  "blockedKeys policy = js_unique (map js_upper (ep_blockedEverywhereKeys policy))"

definition blockedOverrideKeys :: "env_policy \<Rightarrow> string list" where
  "blockedOverrideKeys policy = js_unique (map js_upper (ep_blockedOverrideOnlyKeys policy))"

definition blockedInheritedKeys :: "env_policy \<Rightarrow> string list" where
  "blockedInheritedKeys policy =
     js_unique (map js_upper (ep_blockedEverywhereKeys policy @
       filter (\<lambda>v. js_upper v \<notin> set (map js_upper (ep_allowedInheritedOverrideOnlyKeys policy)))
         (ep_blockedOverrideOnlyKeys policy)))"

definition blockedPrefixes :: "env_policy \<Rightarrow> string list" where
  "blockedPrefixes policy = js_unique (map js_upper (ep_blockedPrefixes policy))"

definition blockedOverridePrefixes :: "env_policy \<Rightarrow> string list" where
  "blockedOverridePrefixes policy = js_unique (map js_upper (ep_blockedOverridePrefixes policy))"

definition blockedInheritedPrefixes :: "env_policy \<Rightarrow> string list" where
  "blockedInheritedPrefixes policy =
     js_unique (map js_upper (js_or_else (ep_blockedInheritedPrefixes policy) (ep_blockedPrefixes policy)))"

text \<open>\<open>/^[A-Za-z_][A-Za-z0-9_]*$/\<close>, and the same with parentheses.\<close>

definition PORTABLE_ENV_VAR_KEY :: "string \<Rightarrow> bool" where
  "PORTABLE_ENV_VAR_KEY key = (case key of [] \<Rightarrow> False | c # r \<Rightarrow> is_name_start c \<and> list_all is_name_char r)"

definition WINDOWS_COMPAT_OVERRIDE_ENV_VAR_KEY :: "string \<Rightarrow> bool" where
  "WINDOWS_COMPAT_OVERRIDE_ENV_VAR_KEY key =
     (case key of [] \<Rightarrow> False
      | c # r \<Rightarrow> is_name_start c \<and> list_all (\<lambda>d. is_name_char d \<or> d = CHR ''('' \<or> d = CHR '')'') r)"

definition normalizeEnvVarKey :: "string \<Rightarrow> bool \<Rightarrow> string option" where
  "normalizeEnvVarKey rawKey portable =
     (let key = js_trim rawKey in
      if key = [] then None
      else if portable \<and> \<not> PORTABLE_ENV_VAR_KEY key then None
      else Some key)"

definition normalizeHostOverrideEnvVarKey :: "string \<Rightarrow> string option" where
  "normalizeHostOverrideEnvVarKey rawKey =
     (case normalizeEnvVarKey rawKey False of
        None \<Rightarrow> None
      | Some key \<Rightarrow>
          if PORTABLE_ENV_VAR_KEY key \<or> WINDOWS_COMPAT_OVERRIDE_ENV_VAR_KEY key then Some key else None)"

text \<open>A name is dangerous by its capital form, in a list or with a prefix of a list.\<close>

definition dangerous_name :: "string list \<Rightarrow> string list \<Rightarrow> string \<Rightarrow> bool" where
  "dangerous_name keys starts rawKey =
     (case normalizeEnvVarKey rawKey False of
        None \<Rightarrow> False
      | Some key \<Rightarrow> js_upper key \<in> set keys \<or> list_ex (\<lambda>p. prefix p (js_upper key)) starts)"

definition isDangerousHostEnvVarName :: "env_policy \<Rightarrow> string \<Rightarrow> bool" where
  "isDangerousHostEnvVarName policy = dangerous_name (blockedKeys policy) (blockedPrefixes policy)"

definition isDangerousHostInheritedEnvVarName :: "env_policy \<Rightarrow> string \<Rightarrow> bool" where
  "isDangerousHostInheritedEnvVarName policy = dangerous_name (blockedInheritedKeys policy) (blockedInheritedPrefixes policy)"

definition isDangerousHostEnvOverrideVarName :: "env_policy \<Rightarrow> string \<Rightarrow> bool" where
  "isDangerousHostEnvOverrideVarName policy = dangerous_name (blockedOverrideKeys policy) (blockedOverridePrefixes policy)"

definition HOST_SHELL_WRAPPER_ALLOWED_OVERRIDE_ENV_KEY_VALUES :: "string list" where
  "HOST_SHELL_WRAPPER_ALLOWED_OVERRIDE_ENV_KEY_VALUES =
     [''TERM'', ''LANG'', ''LC_ALL'', ''LC_CTYPE'', ''LC_MESSAGES'', ''COLORTERM'', ''NO_COLOR'', ''FORCE_COLOR'']"

definition isShellWrapperAllowedOverrideEnvVarName :: "string \<Rightarrow> bool" where
  "isShellWrapperAllowedOverrideEnvVarName rawKey =
     (case normalizeEnvVarKey rawKey True of
        None \<Rightarrow> False
      | Some key \<Rightarrow>
          js_upper key \<in> set HOST_SHELL_WRAPPER_ALLOWED_OVERRIDE_ENV_KEY_VALUES \<or> prefix ''LC_'' (js_upper key))"

subsection \<open>Environments\<close>

text \<open>Assigning a string to \<open>__proto__\<close> of a plain object has no effect.\<close>

type_synonym env_map = "(string, string) js_map"

definition env_set :: "env_map \<Rightarrow> string \<Rightarrow> string \<Rightarrow> env_map" where
  "env_set env key v = (if key = ''__proto__'' then env else jm_set env key v)"

definition assign_entries :: "env_map \<Rightarrow> (string \<times> string) list \<Rightarrow> env_map" where
  "assign_entries = foldl (\<lambda>env (key, v). env_set env key v)"

text \<open>The entries with a string value and a name.\<close>

fun listNormalizedEnvEntries :: "bool \<Rightarrow> (string \<times> js_value) list \<Rightarrow> (string \<times> string) list" where
  "listNormalizedEnvEntries portable [] = []"
| "listNormalizedEnvEntries portable ((rawKey, v) # source) =
     (case (v, normalizeEnvVarKey rawKey portable) of
        (JStr s, Some key) \<Rightarrow> (key, s) # listNormalizedEnvEntries portable source
      | _ \<Rightarrow> listNormalizedEnvEntries portable source)"

record override_result =
  or_accepted :: env_map
  or_blocked :: "string list"
  or_invalid :: "string list"

fun check_overrides :: "env_policy \<Rightarrow> bool \<Rightarrow> (string \<times> js_value) list \<Rightarrow> override_result \<Rightarrow> override_result" where
  "check_overrides policy blockPathOverrides [] r = r"
| "check_overrides policy blockPathOverrides ((rawKey, v) # overrides) r =
     check_overrides policy blockPathOverrides overrides
      (case v of
         JStr s \<Rightarrow>
           (case normalizeHostOverrideEnvVarKey rawKey of
              None \<Rightarrow> r\<lparr>or_invalid := or_invalid r @ [js_or_else (non_empty (js_trim rawKey)) rawKey]\<rparr>
            | Some normalized \<Rightarrow>
                let upper = js_upper normalized in
                if (blockPathOverrides \<and> upper = ''PATH'') \<or> isDangerousHostEnvVarName policy upper \<or>
                   isDangerousHostEnvOverrideVarName policy upper
                then r\<lparr>or_blocked := or_blocked r @ [upper]\<rparr>
                else r\<lparr>or_accepted := env_set (or_accepted r) normalized s\<rparr>)
       | _ \<Rightarrow> r)"

definition sortUnique :: "(string \<Rightarrow> rat) \<Rightarrow> string list \<Rightarrow> string list" where
  "sortUnique rank values = sort_key rank (js_unique values)"

text \<open>\<open>None\<close> stands for no overrides, \<open>null\<close> or \<open>undefined\<close>.\<close>

definition sanitizeHostEnvOverridesWithDiagnostics ::
  "(string \<Rightarrow> rat) \<Rightarrow> env_policy \<Rightarrow> bool \<Rightarrow> (string \<times> js_value) list option \<Rightarrow> override_result" where
  "sanitizeHostEnvOverridesWithDiagnostics rank policy blockPathOverrides overrides =
     (case overrides of
        None \<Rightarrow> \<lparr>or_accepted = [], or_blocked = [], or_invalid = []\<rparr>
      | Some entries \<Rightarrow>
          let r = check_overrides policy blockPathOverrides entries \<lparr>or_accepted = [], or_blocked = [], or_invalid = []\<rparr>
          in r\<lparr>or_blocked := sortUnique rank (or_blocked r), or_invalid := sortUnique rank (or_invalid r)\<rparr>)"

definition inspectHostExecEnvOverrides ::
  "(string \<Rightarrow> rat) \<Rightarrow> env_policy \<Rightarrow> bool \<Rightarrow> (string \<times> js_value) list option \<Rightarrow> string list \<times> string list" where
  "inspectHostExecEnvOverrides rank policy blockPathOverrides overrides =
     (let r = sanitizeHostEnvOverridesWithDiagnostics rank policy blockPathOverrides overrides
      in (or_blocked r, or_invalid r))"

definition markOpenClawExecEnv :: "env_map \<Rightarrow> env_map" where
  "markOpenClawExecEnv env = jm_set env ''OPENCLAW_CLI'' ''1''"

definition sanitizeHostExecEnv ::
  "(string \<Rightarrow> rat) \<Rightarrow> env_policy \<Rightarrow> (string \<times> js_value) list \<Rightarrow> (string \<times> js_value) list option \<Rightarrow> bool \<Rightarrow> env_map" where
  "sanitizeHostExecEnv rank policy baseEnv overrides blockPathOverrides =
     (let merged = assign_entries []
            (filter (\<lambda>(key, _). \<not> isDangerousHostInheritedEnvVarName policy key) (listNormalizedEnvEntries False baseEnv));
          accepted = or_accepted (sanitizeHostEnvOverridesWithDiagnostics rank policy blockPathOverrides overrides)
      in markOpenClawExecEnv (assign_entries merged accepted))"

text \<open>The overrides of a shell are only those that concern the terminal and the language.\<close>

definition sanitizeSystemRunEnvOverrides ::
  "(string \<times> js_value) list option \<Rightarrow> bool \<Rightarrow> (string \<times> js_value) list option" where
  "sanitizeSystemRunEnvOverrides overrides shellWrapper =
     (case overrides of
        None \<Rightarrow> None
      | Some entries \<Rightarrow>
          if \<not> shellWrapper then Some entries
          else let filtered = assign_entries []
                 (filter (\<lambda>(key, _). isShellWrapperAllowedOverrideEnvVarName key) (listNormalizedEnvEntries True entries))
               in if filtered = [] then None else Some (map (map_prod id JStr) filtered))"

subsection \<open>The keys that wrappers assign\<close>

fun assignment_keys :: "string \<Rightarrow> nat \<Rightarrow> string list \<Rightarrow> string list" where
  "assignment_keys platform 0 current = []"
| "assignment_keys platform (Suc rounds) current =
     (case unwrapKnownDispatchWrapperInvocation platform current of
        Unwrapped wrapper argv \<Rightarrow>
          if argv = [] then []
          else (if wrapper = ''env'' then (case parseEnvInvocationPrelude current of None \<Rightarrow> [] | Some (keys, _) \<Rightarrow> keys) else []) @
               assignment_keys platform rounds argv
      | _ \<Rightarrow> [])"

definition extractEnvAssignmentKeysFromDispatchWrappers :: "(string \<Rightarrow> rat) \<Rightarrow> string \<Rightarrow> string list \<Rightarrow> string list" where
  "extractEnvAssignmentKeysFromDispatchWrappers rank platform argv =
     sortUnique rank (assignment_keys platform MAX_DISPATCH_WRAPPER_DEPTH argv)"

end
