(* ===== verification/Approval_Binding.thy ===== *)
theory Approval_Binding
  imports Approval_Manager System_Run_Command Host_Env
begin

text \<open>
  What an approval is bound to: \<open>src/infra/system-run-approval-binding.ts\<close> and
  \<open>src/infra/system-run-approval-context.ts\<close>. A request may carry a plan, an object of unknown content; it is
  normalised to an \<open>approval_plan\<close>. The approval is bound to the arguments, the directory, the agent, the session
  and a digest of the environment. The digest and the order of \<open>localeCompare\<close> are arguments.
\<close>

definition js_null_opt :: "string option \<Rightarrow> js_value" where
  "js_null_opt s = (case s of None \<Rightarrow> JNull | Some t \<Rightarrow> JStr t)"

definition normalizeNonEmptyString :: "js_value \<Rightarrow> string option" where
  "normalizeNonEmptyString v = (case v of JStr s \<Rightarrow> normalizeOptionalString (JStr s) | _ \<Rightarrow> None)"

definition normalizeStringArray :: "string list option \<Rightarrow> string list" where
  "normalizeStringArray v = js_or_else v []"

subsection \<open>Plans\<close>

record raw_operand =
  ro_argvIndex :: js_value
  ro_path :: js_value
  ro_sha256 :: js_value

datatype operand_value = OperandAbsent | OperandOther | OperandObject raw_operand

record file_operand =
  fo_argvIndex :: int
  fo_path :: string
  fo_sha256 :: string

record raw_plan =
  wp_argv :: "string list option"
  wp_cwd :: js_value
  wp_commandText :: js_value
  wp_rawCommand :: js_value
  wp_commandPreview :: js_value
  wp_agentId :: js_value
  wp_sessionKey :: js_value
  wp_mutableFileOperand :: operand_value

datatype plan_value = PlanAbsent | PlanOther | PlanObject raw_plan

record approval_plan =
  ap_argv :: "string list"
  ap_cwd :: "string option"
  ap_commandText :: string
  ap_commandPreview :: "string option"
  ap_agentId :: "string option"
  ap_sessionKey :: "string option"
  ap_mutableFileOperand :: "file_operand option"

definition argv_index :: "js_value \<Rightarrow> int option" where
  "argv_index v = (case v of JNum (Finite r) \<Rightarrow> if r = of_int \<lfloor>r\<rfloor> \<and> 0 \<le> r then Some \<lfloor>r\<rfloor> else None | _ \<Rightarrow> None)"

text \<open>\<open>Some None\<close> is \<open>undefined\<close>, \<open>None\<close> is \<open>null\<close>: an operand that is given but not valid.\<close>

definition normalizeSystemRunApprovalFileOperand :: "operand_value \<Rightarrow> file_operand option option" where
  "normalizeSystemRunApprovalFileOperand v =
     (case v of
        OperandAbsent \<Rightarrow> Some None
      | OperandOther \<Rightarrow> None
      | OperandObject c \<Rightarrow>
          (case (argv_index (ro_argvIndex c), normalizeNonEmptyString (ro_path c), normalizeNonEmptyString (ro_sha256 c)) of
             (Some i, Some p, Some d) \<Rightarrow> Some (Some \<lparr>fo_argvIndex = i, fo_path = p, fo_sha256 = d\<rparr>)
           | _ \<Rightarrow> None))"

definition normalizeSystemRunApprovalPlan :: "plan_value \<Rightarrow> approval_plan option" where
  "normalizeSystemRunApprovalPlan v =
     (case v of
        PlanObject c \<Rightarrow>
          let argv = normalizeStringArray (wp_argv c);
              commandText = js_alt (normalizeNonEmptyString (wp_commandText c)) (normalizeNonEmptyString (wp_rawCommand c))
          in if argv = [] then None
             else (case (normalizeSystemRunApprovalFileOperand (wp_mutableFileOperand c), commandText) of
                (Some operand, Some text_of) \<Rightarrow>
                  Some \<lparr>ap_argv = argv, ap_cwd = normalizeNonEmptyString (wp_cwd c), ap_commandText = text_of,
                        ap_commandPreview = normalizeNonEmptyString (wp_commandPreview c),
                        ap_agentId = normalizeNonEmptyString (wp_agentId c),
                        ap_sessionKey = normalizeNonEmptyString (wp_sessionKey c), ap_mutableFileOperand = operand\<rparr>
              | _ \<Rightarrow> None)
      | _ \<Rightarrow> None)"

text \<open>A plan as a value of a later request.\<close>

definition plan_value :: "approval_plan \<Rightarrow> plan_value" where
  "plan_value p = PlanObject
     \<lparr>wp_argv = Some (ap_argv p), wp_cwd = js_null_opt (ap_cwd p), wp_commandText = JStr (ap_commandText p),
      wp_rawCommand = JUndef, wp_commandPreview = js_null_opt (ap_commandPreview p),
      wp_agentId = js_null_opt (ap_agentId p), wp_sessionKey = js_null_opt (ap_sessionKey p),
      wp_mutableFileOperand = (case ap_mutableFileOperand p of
          None \<Rightarrow> OperandAbsent
        | Some f \<Rightarrow> OperandObject \<lparr>ro_argvIndex = JNum (js_int (fo_argvIndex f)), ro_path = JStr (fo_path f), ro_sha256 = JStr (fo_sha256 f)\<rparr>)\<rparr>"

subsection \<open>The environment\<close>

definition normalizeSystemRunEnvEntries :: "(string \<Rightarrow> rat) \<Rightarrow> (string \<times> js_value) list option \<Rightarrow> (string \<times> string) list" where
  "normalizeSystemRunEnvEntries rank env =
     sort_key (\<lambda>(key, _). rank key)
       (concat (map (\<lambda>(rawKey, v).
          case (v, normalizeHostOverrideEnvVarKey rawKey) of (JStr s, Some key) \<Rightarrow> [(key, s)] | _ \<Rightarrow> [])
        (js_or_else env [])))"

definition hex_digit :: "nat \<Rightarrow> char" where
  "hex_digit n = char_of (if n < 10 then 48 + n else 87 + n)"

text \<open>\<open>JSON.stringify\<close> of a string and of a list of pairs.\<close>

definition json_char :: "char \<Rightarrow> string" where
  "json_char c =
     (let n = js_code c in
      if n = 34 \<or> n = 92 then [CHR 0x5C, c]
      else if n = 8 then [CHR 0x5C, CHR ''b''] else if n = 9 then [CHR 0x5C, CHR ''t'']
      else if n = 10 then [CHR 0x5C, CHR ''n''] else if n = 12 then [CHR 0x5C, CHR ''f'']
      else if n = 13 then [CHR 0x5C, CHR ''r'']
      else if n < 32 then [CHR 0x5C, CHR ''u'', CHR ''0'', CHR ''0'', hex_digit (n div 16), hex_digit (n mod 16)]
      else [c])"

definition json_string :: "string \<Rightarrow> string" where
  "json_string s = [CHR 0x22] @ concat (map json_char s) @ [CHR 0x22]"

definition json_entries :: "(string \<times> string) list \<Rightarrow> string" where
  "json_entries entries =
     ''['' @ js_join '','' (map (\<lambda>(key, v). ''['' @ json_string key @ '','' @ json_string v @ '']'') entries) @ '']''"

definition hashSystemRunEnvEntries :: "(string \<Rightarrow> string) \<Rightarrow> (string \<times> string) list \<Rightarrow> string option" where
  "hashSystemRunEnvEntries sha256Hex entries = (if entries = [] then None else Some (sha256Hex (json_entries entries)))"

definition buildSystemRunApprovalEnvBinding ::
  "(string \<Rightarrow> rat) \<Rightarrow> (string \<Rightarrow> string) \<Rightarrow> (string \<times> js_value) list option \<Rightarrow> string option \<times> string list" where
  "buildSystemRunApprovalEnvBinding rank sha256Hex env =
     (let entries = normalizeSystemRunEnvEntries rank env in (hashSystemRunEnvEntries sha256Hex entries, map fst entries))"

subsection \<open>Bindings\<close>

record approval_binding =
  sb_argv :: "string list"
  sb_cwd :: "string option"
  sb_agentId :: "string option"
  sb_sessionKey :: "string option"
  sb_envHash :: "string option"

definition buildSystemRunApprovalBinding ::
  "(string \<Rightarrow> rat) \<Rightarrow> (string \<Rightarrow> string) \<Rightarrow> string list option \<Rightarrow> js_value \<Rightarrow> js_value \<Rightarrow> js_value \<Rightarrow>
   (string \<times> js_value) list option \<Rightarrow> approval_binding \<times> string list" where
  "buildSystemRunApprovalBinding rank sha256Hex argv cwd agentId sessionKey env =
     (let (envHash, envKeys) = buildSystemRunApprovalEnvBinding rank sha256Hex env in
      (\<lparr>sb_argv = normalizeStringArray argv, sb_cwd = normalizeNonEmptyString cwd, sb_agentId = normalizeNonEmptyString agentId,
        sb_sessionKey = normalizeNonEmptyString sessionKey, sb_envHash = envHash\<rparr>, envKeys))"

definition argvMatches :: "string list \<Rightarrow> string list \<Rightarrow> bool" where
  "argvMatches expectedArgv actualArgv \<longleftrightarrow>
     \<not> (expectedArgv = [] \<or> length expectedArgv \<noteq> length actualArgv) \<and>
     list_all (\<lambda>(a, b). a = b) (zip expectedArgv actualArgv)"

datatype mismatch = RequestMismatch | EnvBindingMissing | EnvMismatch

definition matchSystemRunApprovalEnvHash :: "string option \<Rightarrow> string option \<Rightarrow> string list \<Rightarrow> mismatch option" where
  "matchSystemRunApprovalEnvHash expectedEnvHash actualEnvHash actualEnvKeys =
     (let expected = js_truthy_str expectedEnvHash; actual = js_truthy_str actualEnvHash in
      if \<not> expected \<and> \<not> actual \<and> actualEnvKeys \<noteq> [] then Some EnvBindingMissing
      else if \<not> expected \<and> \<not> actual then None
      else if \<not> expected \<and> actual then Some EnvBindingMissing
      else if expectedEnvHash \<noteq> actualEnvHash then Some EnvMismatch
      else None)"

definition matchSystemRunApprovalBinding :: "approval_binding \<Rightarrow> approval_binding \<Rightarrow> string list \<Rightarrow> mismatch option" where
  "matchSystemRunApprovalBinding expected actual actualEnvKeys =
     (if \<not> argvMatches (sb_argv expected) (sb_argv actual) then Some RequestMismatch
      else if sb_cwd expected \<noteq> sb_cwd actual then Some RequestMismatch
      else if sb_agentId expected \<noteq> sb_agentId actual then Some RequestMismatch
      else if sb_sessionKey expected \<noteq> sb_sessionKey actual then Some RequestMismatch
      else matchSystemRunApprovalEnvHash (sb_envHash expected) (sb_envHash actual) actualEnvKeys)"

subsection \<open>The question of an approver\<close>

record approval_request =
  aq_command :: string
  aq_commandPreview :: "string option"
  aq_commandArgv :: "string list option"
  aq_envKeys :: "string list option"
  aq_systemRunBinding :: "approval_binding option"
  aq_systemRunPlan :: "approval_plan option"
  aq_cwd :: "string option"
  aq_nodeId :: "string option"
  aq_host :: "string option"
  aq_security :: "string option"
  aq_ask :: "string option"
  aq_allowedDecisions :: "exec_decision list"
  aq_agentId :: "string option"
  aq_resolvedPath :: "string option"
  aq_sessionKey :: "string option"
  aq_turnSourceChannel :: "string option"
  aq_turnSourceTo :: "string option"
  aq_turnSourceAccountId :: "string option"
  aq_turnSourceThreadId :: js_value

record request_context =
  rq_plan :: "approval_plan option"
  rq_commandArgv :: "string list option"
  rq_commandText :: string
  rq_commandPreview :: "string option"
  rq_cwd :: "string option"
  rq_agentId :: "string option"
  rq_sessionKey :: "string option"

definition normalizeCommandText :: "js_value \<Rightarrow> string" where
  "normalizeCommandText v = (case v of JStr s \<Rightarrow> s | _ \<Rightarrow> [])"

definition normalizeCommandPreview :: "string \<Rightarrow> string \<Rightarrow> string option" where
  "normalizeCommandPreview v authoritative =
     (case normalizeNonEmptyString (JStr v) of None \<Rightarrow> None | Some p \<Rightarrow> if p = authoritative then None else Some p)"

definition resolveSystemRunApprovalRequestContext ::
  "js_value \<Rightarrow> js_value \<Rightarrow> string list option \<Rightarrow> plan_value \<Rightarrow> js_value \<Rightarrow> js_value \<Rightarrow> js_value \<Rightarrow> request_context" where
  "resolveSystemRunApprovalRequestContext host command commandArgv systemRunPlan cwd agentId sessionKey =
     (let normalizedPlan = (if normalizeNonEmptyString host = Some ''node'' then normalizeSystemRunApprovalPlan systemRunPlan else None);
          fallbackArgv = normalizeStringArray commandArgv;
          fallbackCommand = normalizeCommandText command;
          commandText = (case normalizedPlan of
              Some p \<Rightarrow> if ap_commandText p \<noteq> [] then ap_commandText p else formatExecCommand (ap_argv p)
            | None \<Rightarrow> fallbackCommand);
          commandPreview = (case normalizedPlan of
              Some p \<Rightarrow> normalizeCommandPreview (js_or_else (ap_commandPreview p) fallbackCommand) commandText
            | None \<Rightarrow> None);
          plan = map_option (\<lambda>p. p\<lparr>ap_commandPreview := commandPreview\<rparr>) normalizedPlan
      in \<lparr>rq_plan = plan,
          rq_commandArgv = js_alt (map_option ap_argv plan) (if fallbackArgv \<noteq> [] then Some fallbackArgv else None),
          rq_commandText = commandText, rq_commandPreview = commandPreview,
          rq_cwd = js_alt (Option.bind plan ap_cwd) (normalizeNonEmptyString cwd),
          rq_agentId = js_alt (Option.bind plan ap_agentId) (normalizeNonEmptyString agentId),
          rq_sessionKey = js_alt (Option.bind plan ap_sessionKey) (normalizeNonEmptyString sessionKey)\<rparr>)"

subsection \<open>The run that uses an approval\<close>

record runtime_context =
  rx_plan :: "approval_plan option"
  rx_argv :: "string list"
  rx_cwd :: "string option"
  rx_agentId :: "string option"
  rx_sessionKey :: "string option"
  rx_commandText :: string

definition resolveSystemRunApprovalRuntimeContext ::
  "string \<Rightarrow> plan_value \<Rightarrow> string list option \<Rightarrow> js_value \<Rightarrow> js_value \<Rightarrow> js_value \<Rightarrow> js_value \<Rightarrow> command_refusal + runtime_context" where
  "resolveSystemRunApprovalRuntimeContext platform plan command rawCommand cwd agentId sessionKey =
     (case normalizeSystemRunApprovalPlan plan of
        Some p \<Rightarrow> Inr \<lparr>rx_plan = Some p, rx_argv = ap_argv p, rx_cwd = ap_cwd p, rx_agentId = ap_agentId p,
                       rx_sessionKey = ap_sessionKey p, rx_commandText = ap_commandText p\<rparr>
      | None \<Rightarrow>
          map_sum id (\<lambda>c. \<lparr>rx_plan = None, rx_argv = rc_argv c, rx_cwd = normalizeNonEmptyString cwd,
                          rx_agentId = normalizeNonEmptyString agentId, rx_sessionKey = normalizeNonEmptyString sessionKey,
                          rx_commandText = sd_commandText (rc_display c)\<rparr>)
            (resolveSystemRunCommandRequest platform command rawCommand))"

end
