(* ===== verification/Approval_Handlers.thy ===== *)
theory Approval_Handlers
  imports Approval_Binding Exec_Host
begin

text \<open>
  The requests of the gateway around an approval: \<open>exec.approval.request\<close>, \<open>exec.approval.resolve\<close> and
  \<open>exec.approval.waitDecision\<close> (\<open>src/gateway/server-methods/exec-approval.ts\<close>, \<open>approval-shared.ts\<close>), and the gate
  that every \<open>system.run\<close> for a node passes (\<open>src/gateway/node-invoke-system-run-approval.ts\<close>): the flags that
  declare a run approved are taken from the caller and given back only with a record. On the other side,
  \<open>parseSystemRunPhase\<close> is what the node makes of the request (\<open>src/node-host/invoke-system-run.ts\<close>).
  \<open>display\<close> stands for the redaction of texts that are shown; broadcasts and push messages are left out.
\<close>

subsection \<open>Asking\<close>

record approval_client =
  cl_connId :: "string option"
  cl_deviceId :: "string option"
  cl_clientId :: "string option"
  cl_displayName :: "string option"
  cl_scopes :: "string list"

text \<open>Where services are called without a client, \<open>null\<close>, every field is missing.\<close>

definition no_client :: approval_client where
  "no_client = \<lparr>cl_connId = None, cl_deviceId = None, cl_clientId = None, cl_displayName = None, cl_scopes = []\<rparr>"

record request_params =
  qp_id :: js_value
  qp_command :: js_value
  qp_commandArgv :: "string list option"
  qp_env :: "(string \<times> js_value) list option"
  qp_cwd :: js_value
  qp_systemRunPlan :: plan_value
  qp_nodeId :: js_value
  qp_host :: js_value
  qp_security :: "string option"
  qp_ask :: "string option"
  qp_agentId :: js_value
  qp_resolvedPath :: "string option"
  qp_sessionKey :: js_value
  qp_turnSourceChannel :: js_value
  qp_turnSourceTo :: js_value
  qp_turnSourceAccountId :: js_value
  qp_turnSourceThreadId :: js_value
  qp_timeoutMs :: "ms option"

definition DEFAULT_EXEC_APPROVAL_TIMEOUT_MS :: ms where
  "DEFAULT_EXEC_APPROVAL_TIMEOUT_MS = 1800000"

definition RESERVED_PLUGIN_APPROVAL_ID_PREFIX :: string where
  "RESERVED_PLUGIN_APPROVAL_ID_PREFIX = ''plugin:''"

datatype request_refusal =
    NodeIdRequired | PlanRequired | CommandRequired | ReservedId | ArgvRequired | AlreadyPending | RegistrationFailed string

definition approval_payload ::
  "(string \<Rightarrow> string) \<Rightarrow> request_params \<Rightarrow> string \<Rightarrow> string \<Rightarrow> request_context \<Rightarrow> approval_binding option \<Rightarrow> string list \<Rightarrow> approval_request" where
  "approval_payload display p host nodeId context binding envKeys =
     \<lparr>aq_command = display (rq_commandText context),
      aq_commandPreview = (if host = ''node'' \<or> \<not> js_truthy_str (rq_commandPreview context) then None
        else map_option display (rq_commandPreview context)),
      aq_commandArgv = (if host = ''node'' then None else rq_commandArgv context),
      aq_envKeys = (if envKeys \<noteq> [] then Some envKeys else None), aq_systemRunBinding = binding,
      aq_systemRunPlan = rq_plan context, aq_cwd = rq_cwd context, aq_nodeId = (if host = ''node'' then Some nodeId else None),
      aq_host = non_empty host, aq_security = qp_security p, aq_ask = qp_ask p,
      aq_allowedDecisions = resolveExecApprovalAllowedDecisions (js_opt (qp_ask p)),
      aq_agentId = rq_agentId context, aq_resolvedPath = qp_resolvedPath p, aq_sessionKey = rq_sessionKey context,
      aq_turnSourceChannel = normalizeOptionalString (qp_turnSourceChannel p),
      aq_turnSourceTo = normalizeOptionalString (qp_turnSourceTo p),
      aq_turnSourceAccountId = normalizeOptionalString (qp_turnSourceAccountId p),
      aq_turnSourceThreadId = qp_turnSourceThreadId p\<rparr>"

text \<open>The record that is registered, with the entry whose promise the request awaits.\<close>

definition approval_request_handler ::
  "(string \<Rightarrow> rat) \<Rightarrow> (string \<Rightarrow> string) \<Rightarrow> (string \<Rightarrow> string) \<Rightarrow> ms \<Rightarrow> string \<Rightarrow> request_params \<Rightarrow> approval_client \<Rightarrow>
   approval_request approval_manager \<Rightarrow> request_refusal + approval_request approval_record \<times> nat \<times> approval_request approval_manager" where
  "approval_request_handler rank sha256Hex display now uuid p client m =
     (let timeoutMs = js_or_else (qp_timeoutMs p) DEFAULT_EXEC_APPROVAL_TIMEOUT_MS;
          explicitId = normalizeOptionalString (qp_id p);
          host = js_or_else (normalizeOptionalString (qp_host p)) [];
          nodeId = js_or_else (normalizeOptionalString (qp_nodeId p)) [];
          context = resolveSystemRunApprovalRequestContext (JStr host) (qp_command p) (qp_commandArgv p) (qp_systemRunPlan p)
            (qp_cwd p) (qp_agentId p) (qp_sessionKey p);
          envKeys = snd (buildSystemRunApprovalEnvBinding rank sha256Hex (qp_env p));
          binding = (if host = ''node''
            then Some (fst (buildSystemRunApprovalBinding rank sha256Hex (rq_commandArgv context) (js_null_opt (rq_cwd context))
                   (js_null_opt (rq_agentId context)) (js_null_opt (rq_sessionKey context)) (qp_env p)))
            else None)
      in if host = ''node'' \<and> nodeId = [] then Inl NodeIdRequired
         else if host = ''node'' \<and> rq_plan context = None then Inl PlanRequired
         else if rq_commandText context = [] then Inl CommandRequired
         else if (case explicitId of None \<Rightarrow> False | Some i \<Rightarrow> prefix RESERVED_PLUGIN_APPROVAL_ID_PREFIX i) then Inl ReservedId
         else if host = ''node'' \<and> (rq_commandArgv context = None \<or> rq_commandArgv context = Some []) then Inl ArgvRequired
         else if (case explicitId of None \<Rightarrow> False | Some i \<Rightarrow> getSnapshot m i \<noteq> None) then Inl AlreadyPending
         else let r = (createApproval now uuid (approval_payload display p host nodeId context binding envKeys) timeoutMs explicitId)
                    \<lparr>ar_requestedByConnId := cl_connId client, ar_requestedByDeviceId := cl_deviceId client,
                     ar_requestedByClientId := cl_clientId client\<rparr>
              in case registerApproval m r of
                   Inl err \<Rightarrow> Inl (RegistrationFailed err)
                 | Inr (k, m') \<Rightarrow> Inr (r, k, m'))"

text \<open>\<open>handlePendingApprovalRequest\<close>: nobody can be asked.\<close>

definition without_route :: "ms \<Rightarrow> bool \<Rightarrow> bool \<Rightarrow> bool \<Rightarrow> 'p approval_record \<Rightarrow> 'p approval_manager \<Rightarrow> 'p approval_manager" where
  "without_route now hasApprovalClients hasTurnSourceRoute delivered r m =
     (if \<not> hasApprovalClients \<and> \<not> hasTurnSourceRoute \<and> \<not> delivered
      then snd (expireApproval now m (ar_id r) (Some ''no-approval-route'')) else m)"

subsection \<open>Answering\<close>

definition isApprovalDecision :: "string \<Rightarrow> exec_decision option" where
  "isApprovalDecision v =
     (if v = ''allow-once'' then Some AllowOnce else if v = ''allow-always'' then Some AllowAlways
      else if v = ''deny'' then Some DenyRun else None)"

datatype lookup_refusal = MissingApproval | AmbiguousApproval

definition resolvePendingApprovalLookupError :: "id_lookup \<Rightarrow> bool \<Rightarrow> lookup_refusal" where
  "resolvePendingApprovalLookupError resolvedId exposeAmbiguousPrefixError =
     (case resolvedId of
        LookupNone \<Rightarrow> MissingApproval
      | LookupAmbiguous _ \<Rightarrow> if \<not> exposeAmbiguousPrefixError then MissingApproval else AmbiguousApproval
      | _ \<Rightarrow> AmbiguousApproval)"

definition resolvePendingApprovalRecord ::
  "'p approval_manager \<Rightarrow> string \<Rightarrow> bool \<Rightarrow> lookup_refusal + string \<times> 'p approval_record" where
  "resolvePendingApprovalRecord m inputId exposeAmbiguousPrefixError =
     (let resolvedId = lookupPendingId m inputId;
          pending = (\<lambda>i. case getSnapshot m i of
              None \<Rightarrow> Inl MissingApproval
            | Some r \<Rightarrow> if ar_resolvedAtMs r \<noteq> None then Inl MissingApproval else Inr (i, r))
      in case resolvedId of
           LookupExact i \<Rightarrow> pending i
         | LookupPrefix i \<Rightarrow> pending i
         | _ \<Rightarrow> Inl (resolvePendingApprovalLookupError resolvedId exposeAmbiguousPrefixError))"

datatype resolve_refusal = InvalidDecision | ResolveLookup lookup_refusal | AllowAlwaysUnavailable

definition resolver_name :: "approval_client \<Rightarrow> string option" where
  "resolver_name client = js_alt (cl_displayName client) (cl_clientId client)"

definition approval_resolve_handler ::
  "ms \<Rightarrow> string \<Rightarrow> string \<Rightarrow> approval_client \<Rightarrow> approval_request approval_manager \<Rightarrow>
   resolve_refusal + string \<times> exec_decision \<times> approval_request approval_manager" where
  "approval_resolve_handler now inputId decisionText client m =
     (case isApprovalDecision decisionText of
        None \<Rightarrow> Inl InvalidDecision
      | Some decision \<Rightarrow>
          (case resolvePendingApprovalRecord m inputId True of
             Inl refusal \<Rightarrow> Inl (ResolveLookup refusal)
           | Inr (approvalId, snapshot) \<Rightarrow>
               if decision \<notin> set (resolveExecApprovalRequestAllowedDecisions (js_opt (aq_ask (ar_request snapshot)))
                                   (aq_allowedDecisions (ar_request snapshot)))
               then Inl AllowAlwaysUnavailable
               else let (ok, m') = resolveApproval now m approvalId decision (resolver_name client)
                    in if ok then Inr (approvalId, decision, m') else Inl (ResolveLookup MissingApproval)))"

text \<open>\<open>Inr None\<close> is an answer that is still awaited.\<close>

definition handleApprovalWaitDecision :: "'p approval_manager \<Rightarrow> js_value \<Rightarrow> string + exec_decision option option" where
  "handleApprovalWaitDecision m inputId =
     (let i = js_or_else (normalizeOptionalString inputId) [] in
      if i = [] then Inl ''id is required''
      else case awaitDecision m i of None \<Rightarrow> Inl ''approval expired or not found'' | Some answer \<Rightarrow> Inr answer)"

subsection \<open>The gate in front of a node\<close>

record run_params =
  wr_command :: "string list option"
  wr_rawCommand :: js_value
  wr_systemRunPlan :: plan_value
  wr_cwd :: js_value
  wr_env :: "(string \<times> js_value) list option"
  wr_timeoutMs :: js_value
  wr_needsScreenRecording :: js_value
  wr_agentId :: js_value
  wr_sessionKey :: js_value
  wr_approved :: js_value
  wr_approvalDecision :: js_value
  wr_runId :: js_value
  wr_suppressNotifyOnExit :: js_value

datatype guard_error =
    MissingRunId | ApprovalsUnavailable | UnknownApprovalId | ApprovalExpired | MissingNodeId
  | NodeBindingMissing | NodeMismatch | DeviceMismatch | ClientMismatch
  | CommandRefused command_refusal | BindingMismatch mismatch | RunApprovalRequired

definition normalizeApprovalDecision :: "js_value \<Rightarrow> exec_decision option" where
  "normalizeApprovalDecision v =
     (case normalizeNullableString v of
        None \<Rightarrow> None
      | Some s \<Rightarrow> if s = ''allow-once'' then Some AllowOnce else if s = ''allow-always'' then Some AllowAlways else None)"

definition clientHasApprovals :: "approval_client \<Rightarrow> bool" where
  "clientHasApprovals client \<longleftrightarrow> ''operator.admin'' \<in> set (cl_scopes client) \<or> ''operator.approvals'' \<in> set (cl_scopes client)"

text \<open>The control fields are not among those that are forwarded.\<close>

definition pickSystemRunParams :: "run_params \<Rightarrow> run_params" where
  "pickSystemRunParams raw = raw\<lparr>wr_approved := JUndef, wr_approvalDecision := JUndef\<rparr>"

definition evaluateSystemRunApprovalMatch ::
  "(string \<Rightarrow> rat) \<Rightarrow> (string \<Rightarrow> string) \<Rightarrow> string list \<Rightarrow> approval_request \<Rightarrow> string option \<Rightarrow> string option \<Rightarrow> string option \<Rightarrow>
   (string \<times> js_value) list option \<Rightarrow> mismatch option" where
  "evaluateSystemRunApprovalMatch rank sha256Hex argv request cwd agentId sessionKey env =
     (let (actual, actualEnvKeys) = buildSystemRunApprovalBinding rank sha256Hex (Some argv) (js_null_opt cwd)
            (js_null_opt agentId) (js_null_opt sessionKey) env
      in if aq_host request \<noteq> Some ''node'' then Some RequestMismatch
         else case aq_systemRunBinding request of
                None \<Rightarrow> Some RequestMismatch
              | Some expected \<Rightarrow> matchSystemRunApprovalBinding expected actual actualEnvKeys)"

text \<open>The fields that a recorded plan replaces; what the plan does not name is removed.\<close>

definition non_empty_field :: "string option \<Rightarrow> js_value" where
  "non_empty_field v = (case v of Some s \<Rightarrow> if s \<noteq> [] then JStr s else JUndef | None \<Rightarrow> JUndef)"

definition with_plan :: "runtime_context \<Rightarrow> run_params \<Rightarrow> run_params" where
  "with_plan context nxt =
     (case rx_plan context of
        None \<Rightarrow> nxt
      | Some plan \<Rightarrow> nxt\<lparr>wr_command := Some (ap_argv plan), wr_systemRunPlan := plan_value plan,
          wr_rawCommand := non_empty_field (Some (rx_commandText context)), wr_cwd := non_empty_field (rx_cwd context),
          wr_agentId := non_empty_field (rx_agentId context), wr_sessionKey := non_empty_field (rx_sessionKey context)\<rparr>)"

definition approve_run :: "run_params \<Rightarrow> string \<Rightarrow> run_params" where
  "approve_run nxt decision = nxt\<lparr>wr_approved := JBool True, wr_approvalDecision := JStr decision\<rparr>"

text \<open>The last part: the decision of the record is enforced.\<close>

definition enforce_decision ::
  "approval_client \<Rightarrow> bool \<Rightarrow> exec_decision option \<Rightarrow> string \<Rightarrow> approval_request approval_record \<Rightarrow> run_params \<Rightarrow>
   approval_request approval_manager \<Rightarrow> guard_error + run_params \<times> approval_request approval_manager" where
  "enforce_decision client approved requestedDecision runId snapshot nxt m =
     (if ar_decision snapshot = Some AllowOnce
      then (let (consumed, m') = consumeAllowOnce m runId
            in if consumed then Inr (approve_run nxt ''allow-once'', m') else Inl RunApprovalRequired)
      else if ar_decision snapshot = Some AllowAlways then Inr (approve_run nxt ''allow-always'', m)
      else if ar_resolvedAtMs snapshot \<noteq> None \<and> ar_decision snapshot = None \<and> ar_resolvedBy snapshot = Some None \<and>
              approved \<and> requestedDecision = Some AllowOnce \<and> clientHasApprovals client
      then Inr (approve_run nxt ''allow-once'', m)
      else Inl RunApprovalRequired)"

definition sanitizeSystemRunParamsForForwarding ::
  "(string \<Rightarrow> rat) \<Rightarrow> (string \<Rightarrow> string) \<Rightarrow> string \<Rightarrow> ms \<Rightarrow> js_value \<Rightarrow> run_params \<Rightarrow> approval_client \<Rightarrow>
   approval_request approval_manager option \<Rightarrow> guard_error + run_params \<times> approval_request approval_manager option" where
  "sanitizeSystemRunParamsForForwarding rank sha256Hex platform now nodeId p client manager =
     (let approved = wr_approved p = JBool True;
          requestedDecision = normalizeApprovalDecision (wr_approvalDecision p);
          nxt = pickSystemRunParams p
      in if \<not> approved \<and> requestedDecision = None
         then map_sum CommandRefused (\<lambda>_. (nxt, manager)) (resolveSystemRunCommandRequest platform (wr_command p) (wr_rawCommand p))
         else case normalizeNullableString (wr_runId p) of
           None \<Rightarrow> Inl MissingRunId
         | Some runId \<Rightarrow> case manager of
           None \<Rightarrow> Inl ApprovalsUnavailable
         | Some m \<Rightarrow> case getSnapshot m runId of
           None \<Rightarrow> Inl UnknownApprovalId
         | Some snapshot \<Rightarrow>
             if now > ar_expiresAtMs snapshot then Inl ApprovalExpired
             else case normalizeNullableString nodeId of
               None \<Rightarrow> Inl MissingNodeId
             | Some targetNodeId \<Rightarrow> case normalizeNullableString (js_null_opt (aq_nodeId (ar_request snapshot))) of
               None \<Rightarrow> Inl NodeBindingMissing
             | Some approvalNodeId \<Rightarrow>
                 if approvalNodeId \<noteq> targetNodeId then Inl NodeMismatch
                 else if js_truthy_str (ar_requestedByDeviceId snapshot) \<and> ar_requestedByDeviceId snapshot \<noteq> cl_deviceId client
                 then Inl DeviceMismatch
                 else if \<not> js_truthy_str (ar_requestedByDeviceId snapshot) \<and> js_truthy_str (ar_requestedByConnId snapshot) \<and>
                         ar_requestedByConnId snapshot \<noteq> cl_connId client
                 then Inl ClientMismatch
                 else case resolveSystemRunApprovalRuntimeContext platform
                        (case aq_systemRunPlan (ar_request snapshot) of None \<Rightarrow> PlanOther | Some plan \<Rightarrow> plan_value plan)
                        (wr_command p) (wr_rawCommand p) (wr_cwd p) (wr_agentId p) (wr_sessionKey p) of
                   Inl refusal \<Rightarrow> Inl (CommandRefused refusal)
                 | Inr context \<Rightarrow>
                     (case evaluateSystemRunApprovalMatch rank sha256Hex (rx_argv context) (ar_request snapshot) (rx_cwd context)
                             (rx_agentId context) (rx_sessionKey context) (wr_env p) of
                        Some mm \<Rightarrow> Inl (BindingMismatch mm)
                      | None \<Rightarrow>
                          map_sum id (map_prod id Some)
                            (enforce_decision client approved requestedDecision runId snapshot (with_plan context nxt) m)))"

end
