(* ===== verification/Node_Run.thy ===== *)
theory Node_Run
  imports Approval_Handlers
begin

text \<open>
  A run on the node, from the parameters of the request to the process (\<open>src/node-host/invoke-system-run.ts\<close>):
  parsing, the environment, the policy phase. The configuration, the approvals file and the machine make up
  \<open>node_host\<close>; an override of the home directory is part of it as a function of the environment.
\<close>

record parsed_run = run_request +
  pr_shellWrapperInvocation :: bool
  pr_commandPreview :: "string option"
  pr_approvalPlan :: "approval_plan option"
  pr_agentId :: "string option"
  pr_sessionKey :: string
  pr_runId :: string
  pr_envOverrides :: "(string \<times> js_value) list option"
  pr_env :: env_map
  pr_cwd :: "string option"
  pr_timeoutMs :: js_value
  pr_needsScreenRecording :: bool
  pr_suppressNotifyOnExit :: bool

datatype parse_refusal =
    CommandInvalid command_refusal | CommandEmpty | PlanInvalid
  | EnvAssignmentBlocked "string list" | EnvOverrideRejected "string list" "string list"

record node_host =
  nh_machine :: machine
  nh_policy :: env_policy
  nh_processEnv :: "(string \<times> js_value) list"
  nh_commandHome :: "env_map \<Rightarrow> string option"
  nh_settings :: "string option \<Rightarrow> allowlist_context \<times> exec_security \<times> exec_ask \<times> bool"

definition parseSystemRunPhase ::
  "(string \<Rightarrow> rat) \<Rightarrow> node_host \<Rightarrow> string \<Rightarrow> run_params \<Rightarrow> parse_refusal + parsed_run" where
  "parseSystemRunPhase rank host uuid p =
     (case resolveSystemRunCommandRequest (mc_platform (nh_machine host)) (wr_command p) (wr_rawCommand p) of
        Inl refusal \<Rightarrow> Inl (CommandInvalid refusal)
      | Inr command \<Rightarrow>
          let argv = rc_argv command; display = rc_display command;
              shellWrapperInvocation = isShellWrapperInvocation (mc_platform (nh_machine host)) argv;
              approvalPlan = (if wr_systemRunPlan p = PlanAbsent then None else normalizeSystemRunApprovalPlan (wr_systemRunPlan p));
              assignmentKeys = extractEnvAssignmentKeysFromDispatchWrappers rank (mc_platform (nh_machine host)) argv;
              assigned = inspectHostExecEnvOverrides rank (nh_policy host) True
                (if assignmentKeys \<noteq> [] then Some (map (\<lambda>key. (key, JStr ''1'')) assignmentKeys) else None);
              overridden = inspectHostExecEnvOverrides rank (nh_policy host) True (wr_env p);
              envOverrides = sanitizeSystemRunEnvOverrides (wr_env p) shellWrapperInvocation
          in if argv = [] then Inl CommandEmpty
             else if wr_systemRunPlan p \<noteq> PlanAbsent \<and> approvalPlan = None then Inl PlanInvalid
             else if fst assigned \<noteq> [] then Inl (EnvAssignmentBlocked (fst assigned))
             else if fst overridden \<noteq> [] \<or> snd overridden \<noteq> [] then Inl (EnvOverrideRejected (fst overridden) (snd overridden))
             else Inr \<lparr>rr_argv = argv, rr_shellPayload = sd_shellPayload display, rr_commandText = sd_commandText display,
                       rr_approvalDecision = resolveExecApprovalDecision (wr_approvalDecision p),
                       rr_approved = (wr_approved p = JBool True),
                       pr_shellWrapperInvocation = shellWrapperInvocation, pr_commandPreview = sd_previewText display,
                       pr_approvalPlan = approvalPlan, pr_agentId = normalizeOptionalString (wr_agentId p),
                       pr_sessionKey = js_or_else (normalizeOptionalString (wr_sessionKey p)) ''node'',
                       pr_runId = js_or_else (normalizeOptionalString (wr_runId p)) uuid,
                       pr_envOverrides = envOverrides,
                       pr_env = sanitizeHostExecEnv rank (nh_policy host) (nh_processEnv host) envOverrides True,
                       pr_cwd = normalizeOptionalString (wr_cwd p), pr_timeoutMs = wr_timeoutMs p,
                       pr_needsScreenRecording = (wr_needsScreenRecording p = JBool True),
                       pr_suppressNotifyOnExit = (wr_suppressNotifyOnExit p = JBool True)\<rparr>)"

text \<open>Programs are looked up in the environment of the run.\<close>

definition process_value :: "node_host \<Rightarrow> string \<Rightarrow> string option" where
  "process_value host key = (case map_of (nh_processEnv host) key of Some (JStr s) \<Rightarrow> Some s | _ \<Rightarrow> None)"

definition run_path :: "node_host \<Rightarrow> env_map \<Rightarrow> string" where
  "run_path host env =
     js_or_else (js_alt (jm_get env ''PATH'') (js_alt (jm_get env ''Path'')
       (js_alt (process_value host ''PATH'') (process_value host ''Path'')))) []"

definition run_machine :: "node_host \<Rightarrow> env_map \<Rightarrow> machine" where
  "run_machine host env = (nh_machine host)\<lparr>mc_path := run_path host env, mc_commandHome := nh_commandHome host env\<rparr>"

datatype run_refusal = ParseRefused parse_refusal | RunDenied denied_reason | ScreenRecordingMissing

record started_run =
  st_argv :: "string list"
  st_cwd :: "string option"
  st_env :: env_map

text \<open>The process that is started, on a node without a companion application.\<close>

definition handleSystemRunInvoke ::
  "(string \<Rightarrow> rat) \<Rightarrow> (string \<Rightarrow> string) \<Rightarrow> node_host \<Rightarrow> string \<Rightarrow> run_params \<Rightarrow> run_refusal + started_run" where
  "handleSystemRunInvoke rank sha256Hex host uuid p =
     (case parseSystemRunPhase rank host uuid p of
        Inl refusal \<Rightarrow> Inl (ParseRefused refusal)
      | Inr parsed \<Rightarrow>
          let (cx, security, ask, strictInlineEval) = nh_settings host (pr_agentId parsed) in
          case evaluateSystemRunPolicyPhase sha256Hex (run_machine host (pr_env parsed)) (cx\<lparr>cx_cwd := pr_cwd parsed\<rparr>)
                 security ask strictInlineEval (run_request.truncate parsed) of
            Inl reason \<Rightarrow> Inl (RunDenied reason)
          | Inr argv \<Rightarrow>
              if pr_needsScreenRecording parsed then Inl ScreenRecordingMissing
              else Inr \<lparr>st_argv = argv, st_cwd = pr_cwd parsed, st_env = pr_env parsed\<rparr>)"

end
