(* ===== verification/Approval_Facts.thy ===== *)
theory Approval_Facts
  imports Node_Run
begin

text \<open>
  The history of the approvals of a gateway as a machine: requests, answers, time-outs, deletions and the runs
  that are forwarded to nodes, in any order. The machine keeps a log of the answers and of the approved runs,
  each with the serial number of its entry; its invariant relates the log to the entries that are kept.
\<close>

subsection \<open>The gate\<close>

text \<open>What an approved run has passed.\<close>

definition gate_passed ::
  "(string \<Rightarrow> rat) \<Rightarrow> (string \<Rightarrow> string) \<Rightarrow> ms \<Rightarrow> js_value \<Rightarrow> run_params \<Rightarrow> approval_client \<Rightarrow> approval_request approval_record \<Rightarrow>
   runtime_context \<Rightarrow> bool" where
  "gate_passed rank sha256Hex now nodeId p client snapshot ctx \<longleftrightarrow>
     now \<le> ar_expiresAtMs snapshot \<and>
     (\<exists>node. normalizeNullableString nodeId = Some node \<and>
        normalizeNullableString (js_null_opt (aq_nodeId (ar_request snapshot))) = Some node) \<and>
     (if js_truthy_str (ar_requestedByDeviceId snapshot) then ar_requestedByDeviceId snapshot = cl_deviceId client
      else js_truthy_str (ar_requestedByConnId snapshot) \<longrightarrow> ar_requestedByConnId snapshot = cl_connId client) \<and>
     evaluateSystemRunApprovalMatch rank sha256Hex (rx_argv ctx) (ar_request snapshot) (rx_cwd ctx)
       (rx_agentId ctx) (rx_sessionKey ctx) (wr_env p) = None"

lemma sanitize_result:
  assumes "sanitizeSystemRunParamsForForwarding rank sha256Hex platform now nodeId p client manager = Inr (p', manager')"
  obtains (plain) "p' = pickSystemRunParams p" "manager' = manager"
      "\<exists>c. resolveSystemRunCommandRequest platform (wr_command p) (wr_rawCommand p) = Inr c"
  | (checked) runId m e ctx m' where
      "normalizeNullableString (wr_runId p) = Some runId" "manager = Some m" "jm_get (am_pending m) runId = Some e"
      "resolveSystemRunApprovalRuntimeContext platform
         (case aq_systemRunPlan (ar_request (pe_record e)) of None \<Rightarrow> PlanOther | Some plan \<Rightarrow> plan_value plan)
         (wr_command p) (wr_rawCommand p) (wr_cwd p) (wr_agentId p) (wr_sessionKey p) = Inr ctx"
      "gate_passed rank sha256Hex now nodeId p client (pe_record e) ctx"
      "enforce_decision client (wr_approved p = JBool True) (normalizeApprovalDecision (wr_approvalDecision p)) runId
         (pe_record e) (with_plan ctx (pickSystemRunParams p)) m = Inr (p', m')" "manager' = Some m'"
proof (cases "wr_approved p \<noteq> JBool True \<and> normalizeApprovalDecision (wr_approvalDecision p) = None")
  case True
  then show thesis using assms plain
    by (auto simp: sanitizeSystemRunParamsForForwarding_def Let_def map_sum_def split: sum.splits)
next
  case False
  then obtain runId m where m: "normalizeNullableString (wr_runId p) = Some runId" "manager = Some m"
    using assms by (auto simp: sanitizeSystemRunParamsForForwarding_def Let_def split: option.splits)
  moreover from this obtain e where e: "jm_get (am_pending m) runId = Some e"
    using assms False by (auto simp: sanitizeSystemRunParamsForForwarding_def Let_def getSnapshot_def split: option.splits)
  moreover obtain node where node: "normalizeNullableString nodeId = Some node"
    "normalizeNullableString (js_null_opt (aq_nodeId (ar_request (pe_record e)))) = Some node"
    using assms False m e
    by (auto simp: sanitizeSystemRunParamsForForwarding_def Let_def getSnapshot_def split: option.splits if_splits)
  moreover obtain ctx where ctx: "resolveSystemRunApprovalRuntimeContext platform
         (case aq_systemRunPlan (ar_request (pe_record e)) of None \<Rightarrow> PlanOther | Some plan \<Rightarrow> plan_value plan)
         (wr_command p) (wr_rawCommand p) (wr_cwd p) (wr_agentId p) (wr_sessionKey p) = Inr ctx"
    using assms False m e node
    by (simp add: sanitizeSystemRunParamsForForwarding_def Let_def getSnapshot_def split: if_splits sum.splits)
  ultimately show thesis using assms False checked [OF m e ctx] node
    by (simp add: sanitizeSystemRunParamsForForwarding_def Let_def getSnapshot_def gate_passed_def split: if_splits option.splits sum.splits)
      (auto simp: map_sum_def split: sum.splits)
qed

lemma enforced_cases:
  assumes "enforce_decision client approved requestedDecision runId snapshot nxt m = Inr (p', m')"
    "jm_get (am_pending m) runId = Some e" "snapshot = pe_record e"
  obtains (once) "ar_decision snapshot = Some AllowOnce" "p' = approve_run nxt ''allow-once''"
      "m' = m\<lparr>am_pending := jm_set (am_pending m) runId (e\<lparr>pe_record := (pe_record e)\<lparr>ar_decision := None\<rparr>\<rparr>)\<rparr>"
  | (always) "ar_decision snapshot = Some AllowAlways" "p' = approve_run nxt ''allow-always''" "m' = m"
  | (timed_out) "ar_decision snapshot = None" "ar_resolvedAtMs snapshot \<noteq> None" "ar_resolvedBy snapshot = Some None"
      "clientHasApprovals client" "p' = approve_run nxt ''allow-once''" "m' = m"
  using assms by (auto simp: enforce_decision_def consumeAllowOnce_def split: if_splits)

subsection \<open>The machine\<close>

record gateway_env =
  ge_rank :: "string \<Rightarrow> rat"
  ge_sha256Hex :: "string \<Rightarrow> string"
  ge_display :: "string \<Rightarrow> string"
  ge_platform :: string

datatype gateway_event =
    Ask ms string request_params approval_client
  | NoRoute ms string
  | Answer ms string string approval_client
  | TimeOut ms string
  | Forget string nat
  | Run ms js_value run_params approval_client

record approved_run =
  ru_entry :: nat
  ru_at :: ms
  ru_snapshot :: "approval_request approval_record"
  ru_client :: approval_client
  ru_params :: run_params

record gateway_state =
  gw_clock :: ms
  gw_manager :: "approval_request approval_manager"
  gw_answers :: "(nat \<times> exec_decision) list"
  gw_runs :: "approved_run list"

definition entry_serial :: "'p approval_manager \<Rightarrow> string \<Rightarrow> nat" where
  "entry_serial m i = (case jm_get (am_pending m) i of None \<Rightarrow> 0 | Some e \<Rightarrow> pe_serial e)"

fun gateway_step :: "gateway_env \<Rightarrow> gateway_state \<Rightarrow> gateway_event \<Rightarrow> gateway_state" where
  "gateway_step env s (Ask now uuid p client) =
     (case approval_request_handler (ge_rank env) (ge_sha256Hex env) (ge_display env) now uuid p client (gw_manager s) of
        Inl _ \<Rightarrow> s\<lparr>gw_clock := now\<rparr>
      | Inr (_, _, m) \<Rightarrow> s\<lparr>gw_clock := now, gw_manager := m\<rparr>)"
| "gateway_step env s (NoRoute now i) =
     s\<lparr>gw_clock := now, gw_manager := snd (expireApproval now (gw_manager s) i (Some ''no-approval-route''))\<rparr>"
| "gateway_step env s (Answer now i d client) =
     (case approval_resolve_handler now i d client (gw_manager s) of
        Inl _ \<Rightarrow> s\<lparr>gw_clock := now\<rparr>
      | Inr (approvalId, decision, m) \<Rightarrow>
          s\<lparr>gw_clock := now, gw_manager := m, gw_answers := gw_answers s @ [(entry_serial m approvalId, decision)]\<rparr>)"
| "gateway_step env s (TimeOut now i) = s\<lparr>gw_clock := now, gw_manager := fire_timeout now (gw_manager s) i\<rparr>"
| "gateway_step env s (Forget i k) = s\<lparr>gw_manager := fire_forget (gw_manager s) i k\<rparr>"
| "gateway_step env s (Run now nodeId p client) =
     (case sanitizeSystemRunParamsForForwarding (ge_rank env) (ge_sha256Hex env) (ge_platform env) now nodeId p client
             (Some (gw_manager s)) of
        Inl _ \<Rightarrow> s\<lparr>gw_clock := now\<rparr>
      | Inr (p', m) \<Rightarrow>
          let s' = s\<lparr>gw_clock := now, gw_manager := js_or_else m (gw_manager s)\<rparr> in
          case jm_get (am_pending (gw_manager s)) (js_or_else (normalizeNullableString (wr_runId p)) []) of
            Some e \<Rightarrow>
              if wr_approved p' = JBool True
              then s'\<lparr>gw_runs := gw_runs s @ [\<lparr>ru_entry = pe_serial e, ru_at = now, ru_snapshot = pe_record e, ru_client = client, ru_params = p'\<rparr>]\<rparr>
              else s'
          | None \<Rightarrow> s')"

definition event_time :: "gateway_state \<Rightarrow> gateway_event \<Rightarrow> ms" where
  "event_time s ev = (case ev of Ask now _ _ _ \<Rightarrow> now | NoRoute now _ \<Rightarrow> now | Answer now _ _ _ \<Rightarrow> now
     | TimeOut now _ \<Rightarrow> now | Forget _ _ \<Rightarrow> gw_clock s | Run now _ _ _ \<Rightarrow> now)"

text \<open>The clock does not go back, a client that answers has a name, and the timer of a record does not fire before
  its deadline. (A timer of more than \<open>2 ^ 31 - 1\<close> milliseconds fires at once.)\<close>

definition event_allowed :: "gateway_state \<Rightarrow> gateway_event \<Rightarrow> bool" where
  "event_allowed s ev \<longleftrightarrow> gw_clock s \<le> event_time s ev \<and>
     (case ev of
        Answer _ _ _ client \<Rightarrow> resolver_name client \<noteq> None
      | TimeOut now i \<Rightarrow>
          (case jm_get (am_pending (gw_manager s)) i of
             Some e \<Rightarrow> pe_timer e \<longrightarrow> ar_expiresAtMs (pe_record e) \<le> now | None \<Rightarrow> True)
      | _ \<Rightarrow> True)"

definition runs_of :: "gateway_state \<Rightarrow> nat \<Rightarrow> approved_run list" where
  "runs_of s k = filter (\<lambda>r. ru_entry r = k) (gw_runs s)"

definition answered :: "gateway_state \<Rightarrow> nat \<Rightarrow> bool" where
  "answered s k \<longleftrightarrow> k \<in> fst ` set (gw_answers s)"

definition entry_ok :: "gateway_state \<Rightarrow> approval_request pending_entry \<Rightarrow> bool" where
  "entry_ok s e \<longleftrightarrow>
     (let r = pe_record e; k = pe_serial e in
      k < am_next (gw_manager s) \<and>
      (ar_resolvedAtMs r = None \<longrightarrow> ar_decision r = None \<and> ar_resolvedBy r = None \<and> \<not> answered s k \<and> runs_of s k = []) \<and>
      (\<forall>d. ar_decision r = Some d \<longrightarrow> (k, d) \<in> set (gw_answers s) \<and>
         d \<in> set (resolveExecApprovalRequestAllowedDecisions (js_opt (aq_ask (ar_request r))) (aq_allowedDecisions (ar_request r)))) \<and>
      (ar_decision r = Some AllowOnce \<longrightarrow> runs_of s k = []) \<and>
      (ar_resolvedBy r = Some None \<longrightarrow> \<not> answered s k \<and> ar_expiresAtMs r \<le> gw_clock s))"

definition run_ok :: "gateway_state \<Rightarrow> approved_run \<Rightarrow> bool" where
  "run_ok s u \<longleftrightarrow>
     ru_entry u < am_next (gw_manager s) \<and>
     (case ar_decision (ru_snapshot u) of
        Some d \<Rightarrow> (ru_entry u, d) \<in> set (gw_answers s) \<and> d \<noteq> DenyRun \<and>
          d \<in> set (resolveExecApprovalRequestAllowedDecisions (js_opt (aq_ask (ar_request (ru_snapshot u))))
                     (aq_allowedDecisions (ar_request (ru_snapshot u))))
      | None \<Rightarrow> \<not> answered s (ru_entry u) \<and> clientHasApprovals (ru_client u) \<and> ru_at u = ar_expiresAtMs (ru_snapshot u))"

definition gateway_ok :: "gateway_state \<Rightarrow> bool" where
  "gateway_ok s \<longleftrightarrow>
     jm_wf (am_pending (gw_manager s)) \<and>
     (\<forall>i e. jm_get (am_pending (gw_manager s)) i = Some e \<longrightarrow> entry_ok s e) \<and>
     (\<forall>i j e f. jm_get (am_pending (gw_manager s)) i = Some e \<longrightarrow> jm_get (am_pending (gw_manager s)) j = Some f \<longrightarrow>
        pe_serial e = pe_serial f \<longrightarrow> i = j) \<and>
     distinct (map fst (gw_answers s)) \<and> (\<forall>k. answered s k \<longrightarrow> k < am_next (gw_manager s)) \<and>
     (\<forall>u \<in> set (gw_runs s). run_ok s u) \<and>
     (\<forall>k. (k, AllowOnce) \<in> set (gw_answers s) \<longrightarrow> length (runs_of s k) \<le> 1)"

definition gateway_start :: "ms \<Rightarrow> gateway_state" where
  "gateway_start now = \<lparr>gw_clock = now, gw_manager = empty_manager, gw_answers = [], gw_runs = []\<rparr>"

lemma gateway_start_ok: "gateway_ok (gateway_start now)"
  by (simp add: gateway_ok_def gateway_start_def empty_manager_def jm_wf_def jm_get_def answered_def)

subsection \<open>Steps keep the invariant\<close>

lemma answered_append [simp]: "answered (s\<lparr>gw_answers := gw_answers s @ as\<rparr>) k \<longleftrightarrow> answered s k \<or> k \<in> fst ` set as"
  by (auto simp: answered_def)

lemma entry_ok_frame:
  assumes "entry_ok s f" "gw_clock s \<le> gw_clock s'" "am_next (gw_manager s) \<le> am_next (gw_manager s')"
    "runs_of s' (pe_serial f) = runs_of s (pe_serial f)" "set (gw_answers s) \<subseteq> set (gw_answers s')"
    "answered s' (pe_serial f) = answered s (pe_serial f)"
  shows "entry_ok s' f"
  using assms by (auto simp: entry_ok_def Let_def)

lemma run_ok_frame:
  assumes "run_ok s u" "am_next (gw_manager s) \<le> am_next (gw_manager s')" "set (gw_answers s) \<subseteq> set (gw_answers s')"
    "answered s' (ru_entry u) = answered s (ru_entry u)"
  shows "run_ok s' u"
  using assms by (auto simp: run_ok_def split: option.splits)

declare jm_get_set [simp] jm_get_delete [simp]

lemma jm_wf_set_delete [simp]: "jm_wf m \<Longrightarrow> jm_wf (jm_set m k v)" "jm_wf m \<Longrightarrow> jm_wf (jm_delete m k)"
  by (simp_all add: jm_wf_def jm_set_def jm_delete_def distinct_update filter_fst_map)

text \<open>A change of one entry, with the answer or the run that belongs to it.\<close>

lemma update_ok:
  assumes ok: "gateway_ok s" and e: "jm_get (am_pending (gw_manager s)) i = Some e" and serial: "pe_serial e' = pe_serial e"
    and s': "s' = s\<lparr>gw_clock := now, gw_manager := (gw_manager s)\<lparr>am_pending := jm_set (am_pending (gw_manager s)) i e', am_forget := fg\<rparr>,
        gw_answers := gw_answers s @ as, gw_runs := gw_runs s @ us\<rparr>" and clock: "gw_clock s \<le> now"
    and as: "as = [] \<or> (\<exists>d. as = [(pe_serial e, d)] \<and> \<not> answered s (pe_serial e) \<and> runs_of s (pe_serial e) = [])"
    and us: "\<And>u. u \<in> set us \<Longrightarrow> ru_entry u = pe_serial e \<and> run_ok s' u"
    and once: "(pe_serial e, AllowOnce) \<in> set (gw_answers s') \<Longrightarrow> length (runs_of s' (pe_serial e)) \<le> 1"
    and e': "entry_ok s' e'"
  shows "gateway_ok s'"
proof -
  have fields: "gw_clock s' = now" "am_next (gw_manager s') = am_next (gw_manager s)"
    "am_pending (gw_manager s') = jm_set (am_pending (gw_manager s)) i e'"
    "gw_answers s' = gw_answers s @ as" "gw_runs s' = gw_runs s @ us"
    by (simp_all add: s')
  have other_runs: "runs_of s' k = runs_of s k" if "k \<noteq> pe_serial e" for k
    using us that by (auto simp: runs_of_def fields filter_empty_conv)
  have other_answers: "answered s' k = answered s k" if "k \<noteq> pe_serial e" for k
    using as that by (auto simp: answered_def fields)
  have entries: "entry_ok s f" "pe_serial f = pe_serial e \<Longrightarrow> j = i" if "jm_get (am_pending (gw_manager s)) j = Some f" for j f
    using ok e that unfolding gateway_ok_def by blast+
  have "entry_ok s' f" if "jm_get (am_pending (gw_manager s')) j = Some f" for j f
  proof (cases "j = i")
    case True
    then show ?thesis using that e' by (simp add: fields)
  next
    case False
    then have f: "jm_get (am_pending (gw_manager s)) j = Some f" "pe_serial f \<noteq> pe_serial e" using that entries(2) by (auto simp: fields)
    then show ?thesis
      using entry_ok_frame [OF entries(1) [OF f(1)]] other_runs other_answers clock by (simp add: fields)
  qed
  moreover have "j = k" if "jm_get (am_pending (gw_manager s')) j = Some f" "jm_get (am_pending (gw_manager s')) k = Some g" "pe_serial f = pe_serial g" for j k f g
    using that ok e serial unfolding fields gateway_ok_def by (auto split: if_splits)
  moreover have "distinct (map fst (gw_answers s'))" using ok as unfolding gateway_ok_def fields answered_def by (auto simp: image_iff Bex_def)
  moreover have "answered s' k \<Longrightarrow> k < am_next (gw_manager s')" for k
    using ok as e unfolding gateway_ok_def by (auto simp: fields answered_def entry_ok_def Let_def)
  moreover have "run_ok s' u" if "u \<in> set (gw_runs s')" for u
  proof (cases "u \<in> set us")
    case False
    then have u: "u \<in> set (gw_runs s)" using that by (simp add: fields)
    then have "answered s' (ru_entry u) = answered s (ru_entry u)"
      using as by (auto simp: answered_def fields runs_of_def filter_empty_conv)
    then show ?thesis using run_ok_frame [of s u s'] ok u unfolding gateway_ok_def by (simp add: fields)
  qed (use us in blast)
  moreover have "length (runs_of s' k) \<le> 1" if "(k, AllowOnce) \<in> set (gw_answers s')" for k
  proof (cases "k = pe_serial e")
    case False
    then have "(k, AllowOnce) \<in> set (gw_answers s)" using that as by (auto simp: fields)
    then show ?thesis using ok other_runs [OF False] unfolding gateway_ok_def by simp
  qed (use once that in simp)
  moreover have "jm_wf (am_pending (gw_manager s'))" using ok unfolding gateway_ok_def by (simp add: fields)
  ultimately show ?thesis unfolding gateway_ok_def by blast
qed

lemma entryD:
  assumes "gateway_ok s" "jm_get (am_pending (gw_manager s)) i = Some e"
  shows "entry_ok s e"
  using assms unfolding gateway_ok_def by blast

lemma gateway_clock_ok: "gateway_ok s \<Longrightarrow> gw_clock s \<le> now \<Longrightarrow> gateway_ok (s\<lparr>gw_clock := now\<rparr>)"
  unfolding gateway_ok_def
  by (auto simp: answered_def runs_of_def intro: entry_ok_frame [of s] run_ok_frame [of s])

text \<open>Settling an entry, by an answer or without one.\<close>

lemma settle_ok:
  assumes ok: "gateway_ok s" and settle: "settleApproval now decision resolvedBy (gw_manager s) i = (True, m)" and clock: "gw_clock s \<le> now"
    and answer: "\<And>d e. decision = Some d \<Longrightarrow> jm_get (am_pending (gw_manager s)) i = Some e \<Longrightarrow> resolvedBy \<noteq> None \<and>
        d \<in> set (resolveExecApprovalRequestAllowedDecisions (js_opt (aq_ask (ar_request (pe_record e)))) (aq_allowedDecisions (ar_request (pe_record e))))"
    and deadline: "\<And>e. decision = None \<Longrightarrow> resolvedBy = None \<Longrightarrow> jm_get (am_pending (gw_manager s)) i = Some e \<Longrightarrow> ar_expiresAtMs (pe_record e) \<le> now"
    and as: "as = (case decision of None \<Rightarrow> [] | Some d \<Rightarrow> [(entry_serial m i, d)])"
  shows "gateway_ok (s\<lparr>gw_clock := now, gw_manager := m, gw_answers := gw_answers s @ as\<rparr>)"
proof -
  obtain e where e: "jm_get (am_pending (gw_manager s)) i = Some e" "ar_resolvedAtMs (pe_record e) = None"
    and m: "m = (gw_manager s)\<lparr>am_pending := jm_set (am_pending (gw_manager s)) i (settle_entry now decision resolvedBy e),
             am_forget := am_forget (gw_manager s) @ [(i, pe_serial e)]\<rparr>"
    using settle by (auto simp: settleApproval_def split: option.splits if_splits)
  have fresh: "\<not> answered s (pe_serial e)" "runs_of s (pe_serial e) = []" "pe_serial e < am_next (gw_manager s)"
    using entryD [OF ok e(1)] e(2) by (auto simp: entry_ok_def Let_def)
  have as': "as = (case decision of None \<Rightarrow> [] | Some d \<Rightarrow> [(pe_serial e, d)])"
    using as by (simp add: entry_serial_def m settle_entry_def split: option.splits)
  show ?thesis
    by (rule update_ok [OF ok e(1), where e' = "settle_entry now decision resolvedBy e" and us = "[]"])
      (use fresh as' answer deadline e clock in
        \<open>auto simp: m settle_entry_def runs_of_def answered_def entry_ok_def Let_def split: option.splits\<close>)
qed

lemma no_answer [simp]: "gw_answers s @ [] = gw_answers s" "s\<lparr>gw_clock := now, gw_manager := m, gw_answers := gw_answers s\<rparr> = s\<lparr>gw_clock := now, gw_manager := m\<rparr>"
  by simp_all

lemma unsettled: "settleApproval now decision resolvedBy m i = (False, m') \<Longrightarrow> m' = m"
  by (auto simp: settleApproval_def split: option.splits if_splits)

lemma expire_ok:
  assumes "gateway_ok s" "gw_clock s \<le> now"
    and "\<And>e. resolvedBy = None \<Longrightarrow> jm_get (am_pending (gw_manager s)) i = Some e \<Longrightarrow> ar_expiresAtMs (pe_record e) \<le> now"
  shows "gateway_ok (s\<lparr>gw_clock := now, gw_manager := snd (expireApproval now (gw_manager s) i resolvedBy)\<rparr>)"
proof (cases "expireApproval now (gw_manager s) i resolvedBy")
  case (Pair ok m)
  show ?thesis
  proof (cases ok)
    case True
    then show ?thesis using settle_ok [OF assms(1), of now None resolvedBy i m "[]"] assms Pair by (simp add: expireApproval_def)
  next
    case False
    then have "m = gw_manager s" using Pair unsettled by (simp add: expireApproval_def)
    then show ?thesis using gateway_clock_ok [OF assms(1,2)] Pair by simp
  qed
qed

text \<open>A new entry has a new serial number.\<close>

lemma register_ok:
  assumes ok: "gateway_ok s" and clock: "gw_clock s \<le> now" and register: "registerApproval (gw_manager s) r = Inr (k, m)"
    and r: "ar_resolvedAtMs r = None" "ar_decision r = None" "ar_resolvedBy r = None"
  shows "gateway_ok (s\<lparr>gw_clock := now, gw_manager := m\<rparr>)"
proof (cases "jm_get (am_pending (gw_manager s)) (ar_id r)")
  case (Some e)
  then have "m = gw_manager s" using register by (simp add: registerApproval_def split: if_splits)
  then show ?thesis using gateway_clock_ok [OF ok clock] by simp
next
  case None
  let ?e = "\<lparr>pe_serial = am_next (gw_manager s), pe_record = r, pe_timer = True, pe_settled = None\<rparr>"
  let ?s = "s\<lparr>gw_clock := now, gw_manager := m\<rparr>"
  have m: "am_pending m = jm_set (am_pending (gw_manager s)) (ar_id r) ?e" "am_next m = Suc (am_next (gw_manager s))"
    using register None by (auto simp: registerApproval_def)
  have fresh: "\<not> answered s (am_next (gw_manager s))" "runs_of s (am_next (gw_manager s)) = []"
    "\<And>f j. jm_get (am_pending (gw_manager s)) j = Some f \<Longrightarrow> pe_serial f < am_next (gw_manager s)"
  proof -
    show "\<not> answered s (am_next (gw_manager s))" using ok unfolding gateway_ok_def by blast
    show "runs_of s (am_next (gw_manager s)) = []"
      using ok unfolding gateway_ok_def by (force simp: runs_of_def run_ok_def filter_empty_conv)
    show "pe_serial f < am_next (gw_manager s)" if "jm_get (am_pending (gw_manager s)) j = Some f" for f j
      using entryD [OF ok that] by (simp add: entry_ok_def Let_def)
  qed
  have same: "answered ?s k = answered s k" "runs_of ?s k = runs_of s k" for k by (simp_all add: answered_def runs_of_def)
  have "entry_ok ?s f" if "jm_get (am_pending m) j = Some f" for j f
  proof (cases "j = ar_id r")
    case True
    then have f: "f = ?e" using that m by simp
    show ?thesis unfolding f entry_ok_def Let_def using fresh m r by (simp add: same)
  next
    case False
    then have "entry_ok s f" using that m entryD [OF ok] by auto
    then show ?thesis by (rule entry_ok_frame) (use clock m same in simp_all)
  qed
  moreover have "i = j" if "jm_get (am_pending m) i = Some e" "jm_get (am_pending m) j = Some f" "pe_serial e = pe_serial f" for i j e f
  proof -
    have "pe_serial g < am_next (gw_manager s) \<and> jm_get (am_pending (gw_manager s)) l = Some g \<or> l = ar_id r \<and> pe_serial g = am_next (gw_manager s)"
      if "jm_get (am_pending m) l = Some g" for l g
      using that fresh(3) m by (auto split: if_splits)
    from this [OF that(1)] this [OF that(2)] that(3) show ?thesis using ok unfolding gateway_ok_def by auto
  qed
  moreover have "run_ok ?s u" if "u \<in> set (gw_runs s)" for u
    using ok that run_ok_frame [of s u ?s] m same unfolding gateway_ok_def by simp
  moreover have "jm_wf (am_pending m)" "distinct (map fst (gw_answers s))" "\<And>k. answered s k \<Longrightarrow> k < am_next m"
    "\<And>k. (k, AllowOnce) \<in> set (gw_answers s) \<Longrightarrow> length (runs_of s k) \<le> 1"
    using ok m unfolding gateway_ok_def by (auto intro: less_SucI)
  ultimately show ?thesis unfolding gateway_ok_def by (simp add: same)
qed

lemma forget_ok:
  assumes ok: "gateway_ok s"
  shows "gateway_ok (s\<lparr>gw_manager := fire_forget (gw_manager s) i k\<rparr>)"
proof -
  let ?m = "fire_forget (gw_manager s) i k"
  have m: "am_next ?m = am_next (gw_manager s)" "jm_wf (am_pending ?m)"
    "jm_get (am_pending ?m) j = Some e \<Longrightarrow> jm_get (am_pending (gw_manager s)) j = Some e" for j e
    using ok unfolding gateway_ok_def by (auto simp: fire_forget_def Let_def split: option.splits if_splits)
  have same: "answered (s\<lparr>gw_manager := ?m\<rparr>) k = answered s k" "runs_of (s\<lparr>gw_manager := ?m\<rparr>) k = runs_of s k" for k
    by (simp_all add: answered_def runs_of_def)
  have "entry_ok (s\<lparr>gw_manager := ?m\<rparr>) f" if "jm_get (am_pending ?m) j = Some f" for j f
    using entry_ok_frame [of s f "s\<lparr>gw_manager := ?m\<rparr>"] entryD [OF ok m(3) [OF that]] m(1) same by simp
  moreover have "run_ok (s\<lparr>gw_manager := ?m\<rparr>) u" if "u \<in> set (gw_runs s)" for u
    using ok that run_ok_frame [of s u "s\<lparr>gw_manager := ?m\<rparr>"] m(1) same unfolding gateway_ok_def by simp
  ultimately show ?thesis using ok m unfolding gateway_ok_def by (simp add: same)
qed

text \<open>An approved run uses the decision of its entry.\<close>

lemma approved_run_ok:
  assumes ok: "gateway_ok s" and clock: "gw_clock s \<le> now" and e: "jm_get (am_pending (gw_manager s)) i = Some e"
    and deadline: "now \<le> ar_expiresAtMs (pe_record e)"
    and enforce: "enforce_decision client approved requestedDecision i (pe_record e) nxt (gw_manager s) = Inr (p', m)"
  shows "gateway_ok (s\<lparr>gw_clock := now, gw_manager := m, gw_runs := gw_runs s @
      [\<lparr>ru_entry = pe_serial e, ru_at = now, ru_snapshot = pe_record e, ru_client = client, ru_params = p'\<rparr>]\<rparr>)"
proof -
  let ?u = "\<lparr>ru_entry = pe_serial e, ru_at = now, ru_snapshot = pe_record e, ru_client = client, ru_params = p'\<rparr>"
  let ?s = "s\<lparr>gw_clock := now, gw_manager := m, gw_runs := gw_runs s @ [?u]\<rparr>"
  have entry: "entry_ok s e" by (rule entryD [OF ok e])
  have unique: "(k, d) \<in> set (gw_answers s) \<Longrightarrow> (k, d') \<in> set (gw_answers s) \<Longrightarrow> d = d'" for k d d'
    using ok unfolding gateway_ok_def by (metis eq_key_imp_eq_value)
  have same: "answered ?s k = answered s k" for k by (simp add: answered_def)
  have runs: "runs_of ?s (pe_serial e) = runs_of s (pe_serial e) @ [?u]" by (simp add: runs_of_def)
  have keep: "(gw_manager s)\<lparr>am_pending := jm_set (am_pending (gw_manager s)) i e, am_forget := am_forget (gw_manager s)\<rparr> = gw_manager s"
    using e by (simp add: jm_set_def jm_get_def update_triv)
  from enforce e refl show ?thesis
  proof (cases rule: enforced_cases)
    case once
    show ?thesis
      by (rule update_ok [OF ok e, where e' = "e\<lparr>pe_record := (pe_record e)\<lparr>ar_decision := None\<rparr>\<rparr>" and us = "[?u]" and as = "[]" and fg = "am_forget (gw_manager s)"])
        (use entry once clock runs in \<open>auto simp: entry_ok_def run_ok_def Let_def same answered_def\<close>)
  next
    case always
    then have "(pe_serial e, AllowOnce) \<notin> set (gw_answers s)" using entry unique by (auto simp: entry_ok_def Let_def)
    then show ?thesis
      by (intro update_ok [OF ok e, where e' = e and us = "[?u]" and as = "[]" and fg = "am_forget (gw_manager s)"])
        (use entry always clock runs keep in \<open>auto simp: entry_ok_def run_ok_def Let_def same answered_def\<close>)
  next
    case timed_out
    then have "\<not> answered s (pe_serial e)" "ar_expiresAtMs (pe_record e) \<le> gw_clock s" using entry by (auto simp: entry_ok_def Let_def)
    then show ?thesis
      by (intro update_ok [OF ok e, where e' = e and us = "[?u]" and as = "[]" and fg = "am_forget (gw_manager s)"])
        (use entry timed_out clock runs keep deadline in \<open>auto simp: entry_ok_def run_ok_def Let_def same answered_def rev_image_eqI\<close>)
  qed
qed

lemma answer_ok:
  assumes ok: "gateway_ok s" and clock: "gw_clock s \<le> now" and named: "resolver_name client \<noteq> None"
    and answer: "approval_resolve_handler now i d client (gw_manager s) = Inr (approvalId, decision, m)"
  shows "gateway_ok (s\<lparr>gw_clock := now, gw_manager := m, gw_answers := gw_answers s @ [(entry_serial m approvalId, decision)]\<rparr>)"
proof -
  obtain r where r: "getSnapshot (gw_manager s) approvalId = Some r"
    "decision \<in> set (resolveExecApprovalRequestAllowedDecisions (js_opt (aq_ask (ar_request r))) (aq_allowedDecisions (ar_request r)))"
    "resolveApproval now (gw_manager s) approvalId decision (resolver_name client) = (True, m)"
    using answer
    by (auto simp: approval_resolve_handler_def resolvePendingApprovalRecord_def Let_def split: option.splits if_splits prod.splits sum.splits id_lookup.splits)
  then show ?thesis
    by (intro settle_ok [OF ok, where decision = "Some decision"]) (use clock named in \<open>auto simp: resolveApproval_def getSnapshot_def\<close>)
qed

lemma request_registers:
  assumes "approval_request_handler rank sha256Hex display now uuid p client m = Inr (r, k, m')"
  shows "registerApproval m r = Inr (k, m') \<and> ar_resolvedAtMs r = None \<and> ar_decision r = None \<and> ar_resolvedBy r = None"
  using assms by (auto simp: approval_request_handler_def createApproval_def Let_def split: if_splits sum.splits)

lemma pick_not_approved [simp]: "wr_approved (pickSystemRunParams p) = JUndef"
  by (simp add: pickSystemRunParams_def)

lemma approve_run_simps [simp]: "wr_approved (approve_run p d) = JBool True" "wr_approvalDecision (approve_run p d) = JStr d"
  by (simp_all add: approve_run_def)

lemma gateway_run_ok:
  assumes ok: "gateway_ok s" and clock: "gw_clock s \<le> now"
  shows "gateway_ok (gateway_step env s (Run now nodeId p client))"
proof (cases "sanitizeSystemRunParamsForForwarding (ge_rank env) (ge_sha256Hex env) (ge_platform env) now nodeId p client (Some (gw_manager s))")
  case (Inl err)
  then show ?thesis using gateway_clock_ok [OF ok clock] by simp
next
  case (Inr result)
  obtain p' manager' where result: "result = (p', manager')" by (cases result)
  from Inr [unfolded result] show ?thesis
  proof (cases rule: sanitize_result)
    case plain
    then show ?thesis using Inr result gateway_clock_ok [OF ok clock] by (simp add: Let_def split: option.splits)
  next
    case (checked runId m e ctx m')
    have approved: "wr_approved p' = JBool True"
      by (rule enforced_cases [OF checked(6) checked(3) refl]) simp_all
    have "gateway_step env s (Run now nodeId p client) = s\<lparr>gw_clock := now, gw_manager := m', gw_runs := gw_runs s @
        [\<lparr>ru_entry = pe_serial e, ru_at = now, ru_snapshot = pe_record e, ru_client = client, ru_params = p'\<rparr>]\<rparr>"
      using Inr result checked approved by (simp add: Let_def)
    then show ?thesis using approved_run_ok [OF ok clock, of runId e] checked by (simp add: gate_passed_def)
  qed
qed

lemma gateway_step_ok: "gateway_ok s \<Longrightarrow> event_allowed s ev \<Longrightarrow> gateway_ok (gateway_step env s ev)"
proof (cases ev)
  case (Ask now uuid p client)
  moreover assume "gateway_ok s" "event_allowed s ev"
  ultimately show ?thesis
    by (auto simp: event_allowed_def event_time_def intro: gateway_clock_ok register_ok dest: request_registers split: sum.splits)
next
  case (Answer now i d client)
  moreover assume "gateway_ok s" "event_allowed s ev"
  ultimately show ?thesis
    by (auto simp: event_allowed_def event_time_def intro: gateway_clock_ok answer_ok split: sum.splits)
next
  case (TimeOut now i)
  moreover assume "gateway_ok s" "event_allowed s ev"
  ultimately show ?thesis
    by (auto simp: event_allowed_def event_time_def fire_timeout_def intro!: gateway_clock_ok expire_ok split: option.splits)
qed (auto simp: event_allowed_def event_time_def intro: expire_ok forget_ok gateway_run_ok simp del: gateway_step.simps(6))

interpretation gateway: step_machine "gateway_step env" event_allowed gateway_ok
  by unfold_locales (rule gateway_step_ok)

text \<open>What has happened on a gateway up to now.\<close>

definition gateway_history :: "gateway_env \<Rightarrow> ms \<Rightarrow> gateway_event list \<Rightarrow> gateway_state" where
  "gateway_history env now events = foldl (gateway_step env) (gateway_start now) events"

lemma gateway_history_ok:
  "allowed_run (gateway_step env) event_allowed (gateway_start now) events \<Longrightarrow> gateway_ok (gateway_history env now events)"
  unfolding gateway_history_def by (rule gateway.inv_run [OF gateway_start_ok])

end
