(* ===== verification/Command_Text.thy ===== *)
theory Command_Text
  imports System_Run_Command
begin

text \<open>
  The text of a command determines its arguments: although a backslash is not escaped, so that the end of one
  argument may look like an escaped quote, no two commands have the same text. Two readings of a text that
  disagree once are out of step from there on, one inside an argument where the other is between two.
\<close>

text \<open>The text after the first argument.\<close>

definition more_args :: "string list \<Rightarrow> string" where
  "more_args argv = concat (map (\<lambda>a. CHR '' '' # format_arg a) argv)"

lemma more_args_simps [simp]:
  "more_args [] = []" "more_args (a # argv) = CHR '' '' # format_arg a @ more_args argv"
  by (simp_all add: more_args_def)

lemma formatExecCommand_Cons: "formatExecCommand (a # argv) = format_arg a @ more_args argv"
  by (induction argv arbitrary: a) (simp_all add: formatExecCommand_def)

lemma escape_quotes_simps [simp]:
  "escape_quotes [] = []"
  "escape_quotes (c # s) = (if c = ch_dquote then [ch_backslash, ch_dquote] else [c]) @ escape_quotes s"
  by (simp_all add: escape_quotes_def)

lemma quote_chars: "ch_backslash \<noteq> ch_dquote" "CHR '' '' \<noteq> ch_dquote" "CHR '' '' \<noteq> ch_backslash"
  by simp_all

text \<open>An argument is written as it is, or between quotes.\<close>

lemma format_arg_cases:
  obtains (bare) "format_arg a = a" "a \<noteq> []" "ch_dquote \<notin> set a" "CHR '' '' \<notin> set a"
  | (quoted) "format_arg a = ch_dquote # escape_quotes a @ [ch_dquote]"
proof (cases "a \<noteq> [] \<and> \<not> needs_quotes a")
  case True
  moreover have "js_is_space CHR '' ''" by (simp add: string_eval)
  ultimately have "format_arg a = a" "ch_dquote \<notin> set a" "CHR '' '' \<notin> set a"
    by (auto simp: format_arg_def needs_quotes_def list_ex_iff)
  then show thesis using True bare by blast
next
  case False
  then show thesis using quoted by (auto simp: format_arg_def)
qed

lemma escaped_never_starts_with_quote: "ch_dquote # t = escape_quotes s @ ch_dquote # u \<Longrightarrow> s = [] \<and> t = u"
  by (cases s) (auto simp: quote_chars split: if_splits)

text \<open>A bare argument lies within a quoted one as it is.\<close>

lemma bare_within_quoted:
  "r @ t = escape_quotes s @ ch_dquote # u \<Longrightarrow> ch_dquote \<notin> set r \<Longrightarrow> t = [] \<or> hd t \<noteq> ch_dquote \<Longrightarrow>
   \<exists>s'. t = escape_quotes s' @ ch_dquote # u"
proof (induction r arbitrary: s)
  case (Cons c r)
  show ?case
  proof (cases s)
    case (Cons d s')
    show ?thesis
    proof (cases "d = ch_dquote")
      case True
      then have "r @ t = ch_dquote # escape_quotes s' @ ch_dquote # u" using Cons.prems(1) Cons by simp
      then show ?thesis using Cons.prems(2,3) by (cases r) auto
    next
      case False
      then show ?thesis using Cons.IH [of s'] Cons.prems Cons by simp
    qed
  qed (use Cons.prems in auto)
qed auto

lemma more_args_hd: "more_args argv = [] \<or> hd (more_args argv) \<noteq> ch_dquote"
  by (cases argv) (simp_all add: quote_chars)

text \<open>Between two arguments and inside an argument is not the same place.\<close>

lemma out_of_step: "more_args xs \<noteq> escape_quotes s @ ch_dquote # more_args ys"
proof (induction "length (more_args xs)" arbitrary: xs ys s rule: less_induct)
  case less
  show ?case
  proof
    assume same: "more_args xs = escape_quotes s @ ch_dquote # more_args ys"
    then obtain a as where xs: "xs = a # as" by (cases xs) auto
    with same obtain s' where s: "s = CHR '' '' # s'"
      by (cases s) (auto simp: quote_chars split: if_splits)
    have rest: "format_arg a @ more_args as = escape_quotes s' @ ch_dquote # more_args ys"
      using same unfolding xs s by (simp add: quote_chars)
    show False
    proof (cases rule: format_arg_cases [of a])
      case bare
      then obtain s2 where "more_args as = escape_quotes s2 @ ch_dquote # more_args ys"
        using bare_within_quoted [of a "more_args as" s' "more_args ys"] rest more_args_hd [of as] by auto
      then show False using less.hyps [of as] xs by simp
    next
      case quoted
      then have "s' = [] \<and> escape_quotes a @ ch_dquote # more_args as = more_args ys"
        using rest escaped_never_starts_with_quote [of "escape_quotes a @ ch_dquote # more_args as" s' "more_args ys"] by simp
      moreover from this have "length (more_args ys) < length (more_args xs)" using arg_cong [OF same, of length] by (simp add: s)
      ultimately show False using less.hyps [of ys a as] by metis
    qed
  qed
qed

text \<open>Two quoted arguments are the same, or one ends where the other goes on.\<close>

lemma quoted_alike:
  "escape_quotes a @ ch_dquote # u = escape_quotes b @ ch_dquote # v \<Longrightarrow>
   a = b \<and> u = v \<or> (\<exists>s. u = escape_quotes s @ ch_dquote # v) \<or> (\<exists>s. v = escape_quotes s @ ch_dquote # u)"
proof (induction a arbitrary: b)
  case Nil
  then show ?case using escaped_never_starts_with_quote [of u b v] by simp
next
  case (Cons c a)
  show ?case
  proof (cases b)
    case Nil
    then show ?thesis using escaped_never_starts_with_quote [of v "c # a" u] Cons.prems by simp
  next
    case b: (Cons d b')
    consider (both) "c = d" | (left) "c = ch_dquote" "d \<noteq> ch_dquote" | (right) "c \<noteq> ch_dquote" "d = ch_dquote"
      using Cons.prems b by (auto split: if_splits)
    then show ?thesis
    proof cases
      case both
      then have "escape_quotes a @ ch_dquote # u = escape_quotes b' @ ch_dquote # v" using Cons.prems b by (auto split: if_splits)
      then show ?thesis using Cons.IH [of b'] b both by auto
    next
      case left
      then have "ch_dquote # escape_quotes a @ ch_dquote # u = escape_quotes b' @ ch_dquote # v" using Cons.prems b by simp
      from escaped_never_starts_with_quote [OF this] show ?thesis by auto
    next
      case right
      then have "ch_dquote # escape_quotes b' @ ch_dquote # v = escape_quotes a @ ch_dquote # u" using Cons.prems b by simp
      from escaped_never_starts_with_quote [OF this] show ?thesis by auto
    qed
  qed
qed

lemma bare_alike:
  "a @ more_args as = b @ more_args bs \<Longrightarrow> CHR '' '' \<notin> set a \<Longrightarrow> CHR '' '' \<notin> set b \<Longrightarrow> a = b \<and> more_args as = more_args bs"
proof (induction a arbitrary: b)
  case Nil
  then show ?case by (cases as; cases b) auto
next
  case (Cons c a)
  then show ?case by (cases b; cases bs) auto
qed

lemma first_arg_alike:
  assumes "format_arg a @ more_args as = format_arg b @ more_args bs"
  shows "a = b \<and> more_args as = more_args bs"
proof (cases rule: format_arg_cases [of a])
  case bare
  note a = this
  show ?thesis
  proof (cases rule: format_arg_cases [of b])
    case bare
    then show ?thesis using assms a bare_alike by simp
  next
    case quoted
    then show ?thesis using assms a by (cases a) auto
  qed
next
  case a: quoted
  show ?thesis
  proof (cases rule: format_arg_cases [of b])
    case bare
    then show ?thesis using assms a by (cases b) auto
  next
    case quoted
    then have "escape_quotes a @ ch_dquote # more_args as = escape_quotes b @ ch_dquote # more_args bs" using assms a by simp
    then show ?thesis using quoted_alike out_of_step by blast
  qed
qed

lemma more_args_inject: "more_args xs = more_args ys \<Longrightarrow> xs = ys"
proof (induction xs arbitrary: ys)
  case Nil
  then show ?case by (cases ys) auto
next
  case (Cons a as)
  then obtain b bs where "ys = b # bs" by (cases ys) auto
  then show ?case using Cons first_arg_alike [of a as b bs] by simp
qed

lemma formatExecCommand_Nil: "formatExecCommand xs = [] \<longleftrightarrow> xs = []"
proof (cases xs)
  case (Cons a as)
  then show ?thesis by (cases rule: format_arg_cases [of a]) (auto simp: formatExecCommand_Cons)
qed (simp add: formatExecCommand_def)

lemma formatExecCommand_inject: "formatExecCommand xs = formatExecCommand ys \<longleftrightarrow> xs = ys"
proof (cases "xs = [] \<or> ys = []")
  case True
  then show ?thesis using formatExecCommand_Nil [of xs] formatExecCommand_Nil [of ys] formatExecCommand_Nil [of "[]"] by auto
next
  case False
  then obtain a as b bs where "xs = a # as" "ys = b # bs" by (auto simp: neq_Nil_conv)
  then show ?thesis using first_arg_alike [of a as b bs] more_args_inject [of as bs] by (auto simp: formatExecCommand_Cons)
qed

end
