(* ===== verification/Approval_Properties.thy ===== *)
theory Approval_Properties
  imports Approval_Facts Command_Text Exec_Properties
begin

text \<open>
  Properties of approvals, from the question to the process: what an approver sees determines the command, an
  answer lets run what it allows and no more, a node runs what was approved, and the environment of a run stays
  clean. The samples are used by the witnesses.
\<close>

subsection \<open>The environment of a run\<close>

lemma jm_set_entry: "(k, v) \<in> set (jm_set m key w) \<Longrightarrow> (k, v) \<in> set m \<or> (k = key \<and> v = w)"
  unfolding jm_set_def by (induction m) (auto split: if_splits)

lemma env_set_entry: "(k, v) \<in> set (env_set env key w) \<Longrightarrow> (k, v) \<in> set env \<or> (k = key \<and> v = w)"
  using jm_set_entry [of k v env key w] by (simp add: env_set_def split: if_splits)

lemma assigned_entry: "(k, v) \<in> set (assign_entries env es) \<Longrightarrow> (k, v) \<in> set env \<or> (k, v) \<in> set es"
  unfolding assign_entries_def
proof (induction es arbitrary: env)
  case (Cons e es)
  then show ?case using env_set_entry [of k v env "fst e" "snd e"] by (cases e) fastforce
qed simp

lemma listed_entry: "(k, v) \<in> set (listNormalizedEnvEntries portable source) \<Longrightarrow> \<exists>raw. (raw, JStr v) \<in> set source \<and> js_trim raw = k"
  by (induction portable source rule: listNormalizedEnvEntries.induct)
    (auto simp: normalizeEnvVarKey_def Let_def split: js_value.splits option.splits if_splits)

text \<open>A name that an override may have.\<close>

definition harmless_override :: "env_policy \<Rightarrow> string \<Rightarrow> bool" where
  "harmless_override policy k \<longleftrightarrow>
     WINDOWS_COMPAT_OVERRIDE_ENV_VAR_KEY k \<and> js_upper k \<noteq> ''PATH'' \<and>
     \<not> isDangerousHostEnvVarName policy (js_upper k) \<and> \<not> isDangerousHostEnvOverrideVarName policy (js_upper k)"

lemma portable_compat: "PORTABLE_ENV_VAR_KEY k \<Longrightarrow> WINDOWS_COMPAT_OVERRIDE_ENV_VAR_KEY k"
  by (cases k) (auto simp: PORTABLE_ENV_VAR_KEY_def WINDOWS_COMPAT_OVERRIDE_ENV_VAR_KEY_def list_all_iff)

lemma accepted_override:
  "(k, v) \<in> set (or_accepted (check_overrides policy True overrides r)) \<Longrightarrow>
   (k, v) \<in> set (or_accepted r) \<or> harmless_override policy k \<and> (\<exists>raw. (raw, JStr v) \<in> set overrides \<and> js_trim raw = k)"
proof (induction policy "True" overrides r rule: check_overrides.induct)
  case (2 policy rawKey v' overrides r)
  show ?case
    using 2 portable_compat
    by (fastforce simp: harmless_override_def normalizeHostOverrideEnvVarKey_def normalizeEnvVarKey_def Let_def
        dest: env_set_entry split: js_value.splits option.splits if_splits)
qed simp

lemma get_env_set: "key \<noteq> k \<Longrightarrow> jm_get (env_set env key w) k = jm_get env k"
  by (simp add: env_set_def)

lemma get_assigned_other: "k \<notin> fst ` set es \<Longrightarrow> jm_get (assign_entries env es) k = jm_get env k"
  unfolding assign_entries_def
proof (induction es arbitrary: env)
  case (Cons e es)
  then show ?case by (cases e) (auto simp: get_env_set)
qed simp

lemma harmless_not_path: "harmless_override policy k \<Longrightarrow> k \<noteq> ''PATH''"
  by (auto simp: harmless_override_def js_upper_def js_upper_char_def string_eval)

text \<open>C9: The environment of a run consists of inherited variables that may be inherited, of overrides with an
  admissible name that neither is \<open>PATH\<close> nor dangerous, and of the mark of the program. \<open>PATH\<close> itself, by which
  programs are found, is what it would be without overrides.\<close>

theorem run_environment_is_clean:
  "let env = sanitizeHostExecEnv rank policy baseEnv overrides True in
   (\<forall>(k, v) \<in> set env.
      (k = ''OPENCLAW_CLI'' \<and> v = ''1'') \<or>
      (\<not> isDangerousHostInheritedEnvVarName policy k \<and> (\<exists>raw. (raw, JStr v) \<in> set baseEnv \<and> js_trim raw = k)) \<or>
      (harmless_override policy k \<and> (\<exists>raw. (raw, JStr v) \<in> set (js_or_else overrides []) \<and> js_trim raw = k))) \<and>
   jm_get env ''PATH'' = jm_get (sanitizeHostExecEnv rank policy baseEnv None True) ''PATH''"
proof -
  define accepted where "accepted = or_accepted (sanitizeHostEnvOverridesWithDiagnostics rank policy True overrides)"
  define inherited where "inherited = assign_entries []
      (filter (\<lambda>(key, _). \<not> isDangerousHostInheritedEnvVarName policy key) (listNormalizedEnvEntries False baseEnv))"
  have env: "sanitizeHostExecEnv rank policy baseEnv overrides True = markOpenClawExecEnv (assign_entries inherited accepted)"
    "sanitizeHostExecEnv rank policy baseEnv None True = markOpenClawExecEnv inherited"
    by (simp_all add: sanitizeHostExecEnv_def accepted_def inherited_def Let_def sanitizeHostEnvOverridesWithDiagnostics_def assign_entries_def)
  have a: "harmless_override policy k \<and> (\<exists>raw. (raw, JStr v) \<in> set (js_or_else overrides []) \<and> js_trim raw = k)" if "(k, v) \<in> set accepted" for k v
    using that accepted_override [of k v policy _ "\<lparr>or_accepted = [], or_blocked = [], or_invalid = []\<rparr>"]
    by (auto simp: accepted_def sanitizeHostEnvOverridesWithDiagnostics_def Let_def split: option.splits)
  have i: "\<not> isDangerousHostInheritedEnvVarName policy k \<and> (\<exists>raw. (raw, JStr v) \<in> set baseEnv \<and> js_trim raw = k)" if "(k, v) \<in> set inherited" for k v
    using assigned_entry [of k v "[]"] that listed_entry [of k v False baseEnv] by (fastforce simp: inherited_def)
  have "jm_get (assign_entries inherited accepted) ''PATH'' = jm_get inherited ''PATH''"
    using a harmless_not_path by (intro get_assigned_other) force
  then have "jm_get (markOpenClawExecEnv (assign_entries inherited accepted)) ''PATH'' = jm_get (markOpenClawExecEnv inherited) ''PATH''"
    by (simp add: markOpenClawExecEnv_def)
  moreover have "(k = ''OPENCLAW_CLI'' \<and> v = ''1'') \<or>
      (\<not> isDangerousHostInheritedEnvVarName policy k \<and> (\<exists>raw. (raw, JStr v) \<in> set baseEnv \<and> js_trim raw = k)) \<or>
      (harmless_override policy k \<and> (\<exists>raw. (raw, JStr v) \<in> set (js_or_else overrides []) \<and> js_trim raw = k))"
    if "(k, v) \<in> set (markOpenClawExecEnv (assign_entries inherited accepted))" for k v
    using jm_set_entry [OF that [unfolded markOpenClawExecEnv_def]] assigned_entry [of k v inherited accepted] a [of k v] i [of k v] by blast
  ultimately show ?thesis unfolding env Let_def by blast
qed

definition sample_policy :: env_policy where
  "sample_policy = \<lparr>ep_blockedEverywhereKeys = [''BASH_ENV''], ep_blockedOverrideOnlyKeys = [''HOME''],
     ep_allowedInheritedOverrideOnlyKeys = [''HOME''], ep_blockedPrefixes = [''LD_''], ep_blockedOverridePrefixes = [],
     ep_blockedInheritedPrefixes = None\<rparr>"

theorem run_environment_is_clean_witness:
  "jm_get (sanitizeHostExecEnv (\<lambda>_. 0) sample_policy [(''PATH'', JStr ''/bin''), (''LD_X'', JStr ''x'')]
     (Some [(''PATH'', JStr ''/tmp''), (''TERM'', JStr ''xterm'')]) True) ''PATH'' = Some ''/bin''"
proof -
  have "jm_get (sanitizeHostExecEnv (\<lambda>_. 0) sample_policy [(''PATH'', JStr ''/bin''), (''LD_X'', JStr ''x'')] None True) ''PATH'' = Some ''/bin''"
    by code_simp
  then show ?thesis
    using run_environment_is_clean [of "\<lambda>_. 0" sample_policy "[(''PATH'', JStr ''/bin''), (''LD_X'', JStr ''x'')]"
        "Some [(''PATH'', JStr ''/tmp''), (''TERM'', JStr ''xterm'')]"] by (simp add: Let_def)
qed

subsection \<open>What an approver sees\<close>

text \<open>C8: Two commands with the same text are the same command, so that the text that is shown, compared with a
  request and remembered for good determines every argument.\<close>

theorem command_text_determines_arguments:
  "formatExecCommand argv = formatExecCommand argv' \<longleftrightarrow> argv = argv'"
  by (rule formatExecCommand_inject)

subsection \<open>What an answer lets run\<close>

lemma runs_of_in: "u \<in> set (runs_of s k) \<longleftrightarrow> u \<in> set (gw_runs s) \<and> ru_entry u = k"
  by (auto simp: runs_of_def)

text \<open>C6: Whatever requests, answers, time-outs and runs a gateway sees, an approval that was answered for one run
  lets at most one run reach a node, and a denied one none.\<close>

theorem answers_are_not_reused:
  assumes "allowed_run (gateway_step env) event_allowed (gateway_start now) events"
    and "(k, decision) \<in> set (gw_answers (gateway_history env now events))"
  shows "(decision = AllowOnce \<longrightarrow> length (runs_of (gateway_history env now events) k) \<le> 1) \<and>
    (decision = DenyRun \<longrightarrow> runs_of (gateway_history env now events) k = [])"
proof -
  let ?s = "gateway_history env now events"
  have ok: "gateway_ok ?s" by (rule gateway_history_ok [OF assms(1)])
  have "False" if "u \<in> set (runs_of ?s k)" "decision = DenyRun" for u
  proof -
    have u: "run_ok ?s u" "ru_entry u = k" using that(1) ok unfolding gateway_ok_def runs_of_in by blast+
    have "distinct (map fst (gw_answers ?s))" using ok unfolding gateway_ok_def by blast
    then have "(k, d) \<in> set (gw_answers ?s) \<Longrightarrow> d = decision" for d using assms(2) eq_key_imp_eq_value by fastforce
    then show False using u that(2) assms(2) by (force simp: run_ok_def answered_def split: option.splits)
  qed
  then show ?thesis using ok assms(2) unfolding gateway_ok_def by (cases "runs_of ?s k") auto
qed


subsection \<open>From the approval to the process\<close>

lemma non_empty_string_optional [simp]: "normalizeNonEmptyString v = normalizeOptionalString v"
  by (cases v) (auto simp: normalizeNonEmptyString_def normalizeOptionalString_def normalizeNullableString_def)










subsection \<open>Samples\<close>

definition sample_client :: approval_client where
  "sample_client = \<lparr>cl_connId = Some ''c1'', cl_deviceId = None, cl_clientId = Some ''cli'', cl_displayName = None, cl_scopes = [''operator.approvals'']\<rparr>"

definition sample_plan :: approval_plan where
  "sample_plan = \<lparr>ap_argv = [''ls''], ap_cwd = None, ap_commandText = ''ls'', ap_commandPreview = None, ap_agentId = None,
     ap_sessionKey = None, ap_mutableFileOperand = None\<rparr>"

definition sample_question :: request_params where
  "sample_question = \<lparr>qp_id = JStr ''r1'', qp_command = JStr ''ls'', qp_commandArgv = None, qp_env = None, qp_cwd = JUndef,
     qp_systemRunPlan = plan_value sample_plan, qp_nodeId = JStr ''n1'', qp_host = JStr ''node'', qp_security = None, qp_ask = None,
     qp_agentId = JUndef, qp_resolvedPath = None, qp_sessionKey = JUndef, qp_turnSourceChannel = JUndef, qp_turnSourceTo = JUndef,
     qp_turnSourceAccountId = JUndef, qp_turnSourceThreadId = JUndef, qp_timeoutMs = Some 1000\<rparr>"

definition sample_run :: run_params where
  "sample_run = \<lparr>wr_command = Some [''ls''], wr_rawCommand = JUndef, wr_systemRunPlan = PlanAbsent, wr_cwd = JUndef, wr_env = None,
     wr_timeoutMs = JUndef, wr_needsScreenRecording = JUndef, wr_agentId = JUndef, wr_sessionKey = JUndef,
     wr_approved = JBool True, wr_approvalDecision = JUndef, wr_runId = JStr ''r1'', wr_suppressNotifyOnExit = JUndef\<rparr>"

definition sample_env :: gateway_env where
  "sample_env = \<lparr>ge_rank = (\<lambda>_. 0), ge_sha256Hex = id, ge_display = id, ge_platform = ''linux''\<rparr>"

definition sample_events :: "gateway_event list" where
  "sample_events = [Ask 1 ''u'' sample_question sample_client, Answer 2 ''r1'' ''allow-once'' sample_client,
     Run 3 (JStr ''n1'') sample_run sample_client, Run 4 (JStr ''n1'') sample_run sample_client]"


lemma sample_events_allowed: "allowed_run (gateway_step sample_env) event_allowed (gateway_start 0) sample_events"
  by code_simp

lemma sample_history: "gw_answers (gateway_history sample_env 0 sample_events) = [(0, AllowOnce)]"
  "length (gw_runs (gateway_history sample_env 0 sample_events)) = 1"
  by code_simp+

theorem answers_are_not_reused_witness:
  "length (runs_of (gateway_history sample_env 0 sample_events) 0) \<le> 1"
  using answers_are_not_reused [OF sample_events_allowed, of 0 AllowOnce] sample_history(1) by simp






end
