(* ===== verification/Spec2Isabelle.thy ===== *)
theory Spec2Isabelle
  imports Routing_Properties Cron_Schedule_Properties Cron_Service_Properties Cron_Data_Properties
    Command_Queue_Properties Net_Properties Limits_Properties Gateway_Access_Properties
    Device_Bootstrap_Properties Exec_Properties Exec_Program_Properties
    Approval_Properties
begin

text \<open>
  Verification of the decision logic of the OpenClaw gateway, a personal-assistant gateway
  written in TypeScript.

  \<^bold>\<open>Library.\<close> \<open>Prelude\<close> holds the JavaScript primitives the models share (strings, trimming,
  numbers, optional values) and their lemmas. \<open>Ordered_Store\<close> models the insertion-ordered
  \<open>Map\<close> and states the interfaces of the development as locales: \<open>keyed_store\<close> and
  \<open>ordered_store\<close> (maps), \<open>memo_cache\<close> (a cache in front of a function), \<open>step_machine\<close> (an
  invariant of a machine). \<open>String_Coerce\<close> is \<open>src/shared/string-coerce.ts\<close>.

  \<^bold>\<open>Routing.\<close> A message names a channel, an account, a peer and groups; the bindings of the
  configuration choose the agent that answers and the key of its session. \<open>Session_Keys\<close>
  models the identifiers, keys and account caches (\<open>src/routing/session-key.ts\<close>,
  \<open>src/sessions/session-key-utils.ts\<close>, \<open>src/routing/account-id.ts\<close>), \<open>Resolve_Route\<close> the
  indexed search of \<open>src/routing/resolve-route.ts\<close>. \<open>Resolve_Route_Spec\<close> specifies it as a scan
  of the bindings tier by tier and shows that the index refines it. \<open>Routing_Properties\<close> joins
  routes, keys and caches.

  \<^bold>\<open>Cron.\<close> The scheduler of \<open>src/cron\<close>. \<open>Cron_Schedule\<close> and \<open>Cron_Stagger\<close> say when a schedule
  fires; the cron-expression library, \<open>Date.parse\<close>, the time zone, SHA-256 and the URL parser
  are fields of the environment \<open>cron_env\<close>. \<open>Cron_Types\<close> has the jobs and the service: the jobs
  in memory, the file, the timer, and the calls made to the outside as a trace. \<open>Cron_Jobs\<close> has
  the maintenance of the store, \<open>Cron_Maintenance\<close> what it keeps (locale \<open>maintenance_pass\<close>),
  \<open>Cron_Edit\<close> creation and patches, \<open>Cron_Delivery\<close> the delivery and failure plans,
  \<open>Cron_Result\<close> what a finished run does to its job, \<open>Cron_Timer\<close> ticks and execution,
  \<open>Cron_Startup\<close> the catch-up after a restart, \<open>Cron_Ops\<close> and \<open>Cron_Manual\<close> the operations of
  the gateway. \<open>Cron_Machine\<close> makes the sections that run under the lock the transitions of one
  machine; \<open>Cron_Store\<close> shows what they keep of the stored jobs (locale \<open>store_property\<close>, a
  \<open>step_machine\<close>), \<open>Cron_Invariants\<close> instantiates it for distinct ids and for a running job,
  \<open>Cron_Durability\<close> treats saving. The properties are in \<open>Cron_Schedule_Properties\<close>,
  \<open>Cron_Service_Properties\<close> and \<open>Cron_Data_Properties\<close>; \<open>Cron_Samples\<close> has the values of their
  witnesses.

  \<^bold>\<open>Commands.\<close> \<open>Command_Queue\<close> is the queue of \<open>src/process/command-queue.ts\<close>: lanes with a limit and
  a generation, tasks in flight as suspended calls, restarts that forget them. \<open>Command_Queue_Facts\<close>
  has its invariant, a \<open>step_machine\<close>, and the abstract queue each lane refines;
  \<open>Command_Queue_Properties\<close> the properties.

  \<^bold>\<open>Network.\<close> \<open>Ip_Address\<close> (\<open>src/shared/net\<close>) parses and classifies addresses on top of the
  library \<open>ip_lib\<close>, a parameter; \<open>Client_Ip\<close> (\<open>src/gateway/net.ts\<close>) resolves who calls the
  gateway; \<open>Ssrf\<close> (\<open>src/infra/net/ssrf.ts\<close>) guards outgoing requests and pins them to checked
  addresses. \<open>Net_Properties\<close> shows that a caller cannot choose its address, that hidden IPv4
  addresses are found and that pinned connections stay where they were checked.

  \<^bold>\<open>Limits.\<close> \<open>Rate_Limits\<close> has the login limiter (which uses the client address), the fixed
  window, the control-plane buckets and the connection budget, \<open>Dedupe_Cache\<close> the cache of seen keys
  (\<open>src/infra/dedupe.ts\<close>). \<open>Limits_Properties\<close> relates each to what it counts.

  \<^bold>\<open>Access.\<close> Who may do what on the gateway. \<open>Operator_Scopes\<close> has the scope of each method and when granted
  scopes cover a requested one (\<open>src/gateway/method-scopes.ts\<close>, \<open>src/shared/operator-scope-compat.ts\<close>);
  \<open>Device_Pairing\<close> (\<open>src/infra/device-pairing.ts\<close>) the requests, approvals and tokens of devices,
  \<open>Device_Bootstrap\<close> (\<open>src/infra/device-bootstrap.ts\<close>) the tokens a new device starts with. \<open>Gateway_Auth\<close>
  (\<open>src/gateway/auth.ts\<close>, \<open>src/gateway/server/ws-connection/auth-context.ts\<close>) decides a login on top of them,
  the client address and the login limiter, \<open>Attempt_Serializer\<close> keeps the attempts of one client apart, and
  \<open>Gateway_Request\<close> (\<open>src/gateway/server-methods.ts\<close>) takes a request to its handler. \<open>Device_Pairing_Facts\<close> collects
  the operations of pairing into a \<open>step_machine\<close>; \<open>Device_Pairing_Properties\<close>, \<open>Device_Bootstrap_Properties\<close> and
  \<open>Gateway_Access_Properties\<close> show that logins need proofs, guesses are bounded, and what a device may call was granted by
  somebody who held it.

  \<^bold>\<open>Command approval.\<close> Before the node host or the gateway host runs a command for an agent, the command line is read,
  matched against the allowlist and, where the policy demands it, shown to an approver. \<open>Shell_Words\<close>
  (\<open>src/infra/exec-approvals-analysis.ts\<close>, \<open>src/utils/shell-argv.ts\<close>) splits a line into chains, pipelines and words
  and rebuilds it quoted; \<open>Exec_Wrappers\<close> (\<open>src/infra/dispatch-wrapper-resolution.ts\<close> and its neighbours) finds the
  program behind \<open>env\<close>, \<open>nice\<close> or a shell; \<open>Exec_Resolution\<close> resolves it on a machine, \<open>Safe_Bins\<close> judges the
  arguments of stream tools, \<open>Exec_Allowlist\<close> (\<open>src/infra/exec-approvals-allowlist.ts\<close>) evaluates the line,
  \<open>Exec_Interpreters\<close> detects code in arguments and collects the patterns to allow for good, \<open>Exec_Policy\<close>
  (\<open>src/infra/exec-approvals.ts\<close>) holds the approvals file, and \<open>Exec_Host\<close> (\<open>src/node-host\<close>,
  \<open>src/agents/bash-tools.exec-host-gateway.ts\<close>) has the decisions. \<open>Shell_Facts\<close> gives the quoting rules of a shell
  and what a rebuilt line reads as, \<open>Exec_Facts\<close> what it is for a command to be covered by the allowlist, without
  the evaluation; \<open>Exec_Properties\<close> and \<open>Exec_Program_Properties\<close> join them. The arguments behind wrappers are
  followed for four wrappers, inline commands for three levels, as in the code.

  \<^bold>\<open>Approvals.\<close> Where an approver is asked, the gateway keeps the question, takes the answer and lets the run pass to a
  node once it matches. \<open>Approval_Manager\<close> (\<open>src/gateway/exec-approval-manager.ts\<close>) has the records with their timers,
  \<open>Approval_Binding\<close> (\<open>src/infra/system-run-approval-binding.ts\<close>) what an approval is bound to, \<open>Approval_Handlers\<close>
  (\<open>src/gateway/server-methods\<close>, \<open>src/gateway/node-invoke-system-run-approval.ts\<close>) asking, answering and the gate.
  \<open>System_Run_Command\<close> makes the text of a command, \<open>Host_Env\<close> the environment of a run, and \<open>Node_Run\<close> takes a request
  on the node to its process. \<open>Command_Text\<close> shows that the text determines the command, \<open>Approval_Facts\<close> makes the
  history of a gateway a \<open>step_machine\<close> with a log of answers and runs, and \<open>Approval_Properties\<close> follows a run from the
  question to the process.

  \<^bold>\<open>Conventions.\<close> A clock reading is an argument of the section that reads it. A thrown error is
  the left of a sum, as \<open>String(err)\<close>; where an operation changes objects before it throws, the
  result carries the changed state too. Times are unbounded integers of milliseconds; numbers
  of the configuration keep \<open>NaN\<close> and the infinities, finite ones are exact rationals.

  \<^bold>\<open>Bounds.\<close> \<open>heartbeat_loop\<close> consumes a list of rounds and is undefined when they run out; the
  property on waiting gives the number of rounds that suffices. \<open>all_pages\<close> takes one page more
  than there are jobs. The staggered searches have the four attempts of the code.

  \<^bold>\<open>Not modelled.\<close> Model providers, channel plug-ins, configuration schemas, the plug-in loader,
  user interfaces and build scripts: they are input and output, generated code, or adapters of
  third-party services. Also sockets, network interfaces, the detection of containers, and the
  dispatchers built from pinned lookups; the handlers of gateway requests, the URL parser, digests and
  public-key formats, which are arguments. Of command approval: the Windows branches, the files and
  sockets, argument patterns, and the hardening of approved paths. Of the cron service: the migration of old store files, logging, and the
  worker pool, whose schedule is an argument.
\<close>

end
